(* ===== verification/Wmp_Prelude.thy ===== *)
theory Wmp_Prelude
  imports Main "HOL-Library.AList"
begin

text \<open>
  Shared vocabulary of the development: byte strings, Go maps that the program iterates
  over, and the collections of rewrite rules the component theories extend.

  A Go map that is only read and written by key is a HOL map. A Go map that the program
  also ranges over (session store, invitation nonces, relay queues, groups) is an association
  list whose keys are distinct (\<open>gm_ok\<close>): that keeps iteration, deletion during
  iteration and counting executable. Go leaves the iteration order open, so the properties
  of such a range are stated for the map, the set or the number of its entries, never for
  the order of the list.
\<close>

section \<open>Bytes, errors and results\<close>

type_synonym bytes = string
  \<comment> \<open>Go \<open>[]byte\<close> and \<open>string\<close>: a list of 8-bit characters\<close>

type_synonym raw = "bytes option"
  \<comment> \<open>Go \<open>json.RawMessage\<close>: \<open>None\<close> is the nil slice\<close>

named_theorems go_map_simps \<open>lookup after an operation on a Go map\<close>
named_theorems codec \<open>definitions of decoders and encoders\<close>
named_theorems wmp_error \<open>constructors of WMP errors\<close>

section \<open>Go maps with iteration\<close>

type_synonym ('k, 'v) gomap = "('k \<times> 'v) list"

definition gm_ok :: "('k, 'v) gomap \<Rightarrow> bool" where
  "gm_ok m \<longleftrightarrow> distinct (map fst m)"

definition gm_get :: "('k, 'v) gomap \<Rightarrow> 'k \<Rightarrow> 'v option" where
  "gm_get m k = map_of m k"

definition gm_set :: "'k \<Rightarrow> 'v \<Rightarrow> ('k, 'v) gomap \<Rightarrow> ('k, 'v) gomap" where
  "gm_set k v m = AList.update k v m"

definition gm_del :: "'k \<Rightarrow> ('k, 'v) gomap \<Rightarrow> ('k, 'v) gomap" where
  "gm_del k m = AList.delete k m"

text \<open>
  \<open>for k, v := range m { if p(v) { delete(m, k) } }\<close>: Go allows deleting the entry the
  iteration stands at, and every remaining entry is still visited once.
\<close>

definition gm_delete_if :: "('v \<Rightarrow> bool) \<Rightarrow> ('k, 'v) gomap \<Rightarrow> ('k, 'v) gomap" where
  "gm_delete_if p m = filter (\<lambda>(k, v). \<not> p v) m"

definition gm_count_if :: "('v \<Rightarrow> bool) \<Rightarrow> ('k, 'v) gomap \<Rightarrow> nat" where
  "gm_count_if p m = length (filter (\<lambda>(k, v). p v) m)"

definition gm_values_if :: "('v \<Rightarrow> bool) \<Rightarrow> ('k, 'v) gomap \<Rightarrow> 'v list" where
  "gm_values_if p m = map snd (filter (\<lambda>(k, v). p v) m)"

text \<open>\<open>for k, v := range m { v' = f(v); if v' gone { delete } else { m[k] = v' } }\<close>\<close>

definition gm_rewrite :: "('v \<Rightarrow> 'v option) \<Rightarrow> ('k, 'v) gomap \<Rightarrow> ('k, 'v) gomap" where
  "gm_rewrite f m = List.map_filter (\<lambda>(k, v). map_option (Pair k) (f v)) m"

section \<open>Rules for Go maps\<close>

lemma gm_ok_empty [simp]: "gm_ok []"
  by (simp add: gm_ok_def)

lemma gm_ok_set [simp, intro]: "gm_ok m \<Longrightarrow> gm_ok (gm_set k v m)"
  by (simp add: gm_ok_def gm_set_def distinct_update)

lemma gm_ok_del [simp, intro]: "gm_ok m \<Longrightarrow> gm_ok (gm_del k m)"
  by (simp add: gm_ok_def gm_del_def distinct_delete)

lemma distinct_fst_filter: "distinct (map fst m) \<Longrightarrow> distinct (map fst (filter p m))"
  by (induction m) auto

lemma gm_ok_delete_if [simp, intro]: "gm_ok m \<Longrightarrow> gm_ok (gm_delete_if p m)"
  by (simp add: gm_ok_def gm_delete_if_def distinct_fst_filter)

lemma set_fst_gm_rewrite: "fst ` set (gm_rewrite f m) \<subseteq> fst ` set m"
  by (force simp: gm_rewrite_def List.map_filter_def split: prod.splits)

lemma gm_rewrite_Nil [simp]: "gm_rewrite f [] = []"
  by (simp add: gm_rewrite_def List.map_filter_def)

lemma gm_rewrite_Cons [simp]:
  "gm_rewrite f ((k, v) # m) =
     (case f v of None \<Rightarrow> gm_rewrite f m | Some v' \<Rightarrow> (k, v') # gm_rewrite f m)"
  by (simp add: gm_rewrite_def List.map_filter_def split: option.splits)

lemma gm_ok_rewrite [simp, intro]: "gm_ok m \<Longrightarrow> gm_ok (gm_rewrite f m)"
  unfolding gm_ok_def
proof (induction m)
  case Nil
  then show ?case by simp
next
  case (Cons kv m)
  obtain k v where kv: "kv = (k, v)" by fastforce
  with Cons show ?case
    using set_fst_gm_rewrite [of f m] by (auto split: option.splits)
qed

lemma gm_get_empty [simp, go_map_simps]: "gm_get [] k = None"
  by (simp add: gm_get_def)

lemma gm_get_set [simp, go_map_simps]:
  "gm_get (gm_set k v m) k' = (if k' = k then Some v else gm_get m k')"
  by (simp add: gm_get_def gm_set_def update_conv')

lemma gm_get_del [simp, go_map_simps]:
  "gm_get (gm_del k m) k' = (if k' = k then None else gm_get m k')"
  by (simp add: gm_get_def gm_del_def delete_conv')

lemma gm_get_in_set: "gm_ok m \<Longrightarrow> gm_get m k = Some v \<longleftrightarrow> (k, v) \<in> set m"
  by (simp add: gm_get_def gm_ok_def)

lemma gm_get_delete_if [go_map_simps]:
  "gm_ok m \<Longrightarrow> gm_get (gm_delete_if p m) k =
     (case gm_get m k of None \<Rightarrow> None | Some v \<Rightarrow> if p v then None else Some v)"
proof (induction m)
  case Nil
  then show ?case by (simp add: gm_delete_if_def)
next
  case (Cons kv m)
  obtain k' v where kv: "kv = (k', v)" by fastforce
  have "gm_ok m" and fresh: "gm_get m k' = None"
    using Cons.prems kv by (auto simp: gm_ok_def gm_get_def map_of_eq_None_iff)
  with Cons.IH have IH: "gm_get (gm_delete_if p m) k =
     (case gm_get m k of None \<Rightarrow> None | Some v \<Rightarrow> if p v then None else Some v)" by simp
  show ?case
    using IH fresh by (auto simp: kv gm_get_def gm_delete_if_def split: option.splits)
qed

lemma gm_get_rewrite [go_map_simps]:
  "gm_ok m \<Longrightarrow> gm_get (gm_rewrite f m) k = Option.bind (gm_get m k) f"
proof (induction m)
  case Nil
  then show ?case by simp
next
  case (Cons kv m)
  obtain k' v where kv: "kv = (k', v)" by fastforce
  have "gm_ok m" and fresh: "k' \<notin> fst ` set m"
    using Cons.prems kv by (auto simp: gm_ok_def)
  with Cons.IH have IH: "gm_get (gm_rewrite f m) k = Option.bind (gm_get m k) f" by simp
  have gone: "gm_get (gm_rewrite f m) k' = None"
    using fresh set_fst_gm_rewrite [of f m] by (auto simp: gm_get_def map_of_eq_None_iff)
  show ?case
    using IH gone by (auto simp: kv gm_get_def split: option.splits)
qed

lemma gm_values_if_iff:
  "gm_ok m \<Longrightarrow> v \<in> set (gm_values_if p m) \<longleftrightarrow> (\<exists>k. gm_get m k = Some v \<and> p v)"
  by (auto simp: gm_values_if_def gm_get_in_set image_iff)

lemma gm_count_plus_rest: "gm_count_if p m + length (gm_delete_if p m) = length m"
  using sum_length_filter_compl [of "\<lambda>(k, v). p v" m]
  by (simp add: gm_count_if_def gm_delete_if_def case_prod_beta' o_def)

end
