(* ===== verification/Go_Json.thy ===== *)
theory Go_Json
  imports Wmp_Prelude
begin

text \<open>
  The part of Go's \<open>encoding/json\<close> the program relies on, on bytes: the grammar of the
  scanner, unquoting of strings, \<open>Decoder.Decode\<close> / \<open>Unmarshal\<close> into structs with the
  matching of member names to field tags, and \<open>Marshal\<close> with its compaction of
  \<open>json.RawMessage\<close>. A parsed value keeps the bytes of every element and member, because
  the program stores them unparsed as \<open>json.RawMessage\<close>.
\<close>

section \<open>Character classes\<close>

abbreviation byte :: "char \<Rightarrow> nat" where
  "byte c \<equiv> of_char c"

definition is_ws :: "char \<Rightarrow> bool" where
  "is_ws c \<longleftrightarrow> c = CHR '' '' \<or> c = CHR 0x09 \<or> c = CHR 0x0A \<or> c = CHR 0x0D"

definition skip_ws :: "bytes \<Rightarrow> bytes" where
  "skip_ws s = dropWhile is_ws s"

definition is_digit :: "char \<Rightarrow> bool" where
  "is_digit c \<longleftrightarrow> 48 \<le> byte c \<and> byte c \<le> 57"

definition hex_digit :: "char \<Rightarrow> nat option" where
  "hex_digit c =
     (let n = byte c in
      if 48 \<le> n \<and> n \<le> 57 then Some (n - 48)
      else if 97 \<le> n \<and> n \<le> 102 then Some (n - 87)
      else if 65 \<le> n \<and> n \<le> 70 then Some (n - 55)
      else None)"

section \<open>UTF-8\<close>

text \<open>
  \<open>utf8.DecodeRune\<close>: the width of the well-formed sequence at the head of the input, or
  0 where the first byte does not start one (the code then continues after that byte).
\<close>

definition is_cont :: "nat \<Rightarrow> bool" where
  "is_cont n \<longleftrightarrow> 128 \<le> n \<and> n \<le> 191"

definition second_of3 :: "nat \<Rightarrow> nat \<Rightarrow> bool" where
  "second_of3 a b \<longleftrightarrow>
     (if a = 224 then 160 \<le> b \<and> b \<le> 191 else if a = 237 then 128 \<le> b \<and> b \<le> 159 else is_cont b)"

definition second_of4 :: "nat \<Rightarrow> nat \<Rightarrow> bool" where
  "second_of4 a b \<longleftrightarrow>
     (if a = 240 then 144 \<le> b \<and> b \<le> 191 else if a = 244 then 128 \<le> b \<and> b \<le> 143 else is_cont b)"

definition utf8_width :: "bytes \<Rightarrow> nat" where
  "utf8_width s =
     (case map byte (take 4 s) of
        [] \<Rightarrow> 0
      | a # t \<Rightarrow>
          if a < 128 then 1
          else if 194 \<le> a \<and> a \<le> 223 then
            (case t of b # _ \<Rightarrow> if is_cont b then 2 else 0 | _ \<Rightarrow> 0)
          else if 224 \<le> a \<and> a \<le> 239 then
            (case t of b # c # _ \<Rightarrow> if second_of3 a b \<and> is_cont c then 3 else 0 | _ \<Rightarrow> 0)
          else if 240 \<le> a \<and> a \<le> 244 then
            (case t of
               b # c # d # _ \<Rightarrow> if second_of4 a b \<and> is_cont c \<and> is_cont d then 4 else 0
             | _ \<Rightarrow> 0)
          else 0)"

definition utf8_encode :: "nat \<Rightarrow> bytes" where
  "utf8_encode r =
     map char_of
       (if r < 128 then [r]
        else if r < 2048 then [192 + r div 64, 128 + r mod 64]
        else if r < 65536 then [224 + r div 4096, 128 + r div 64 mod 64, 128 + r mod 64]
        else [240 + r div 262144, 128 + r div 4096 mod 64, 128 + r div 64 mod 64, 128 + r mod 64])"

definition rune_error :: nat where
  "rune_error = 65533"

section \<open>Strings\<close>

text \<open>
  The scanner's string state: the bytes up to the closing quote, with every escape checked
  and control characters refused; the result is the text between the quotes and the rest.
\<close>

definition simple_escape :: "char \<Rightarrow> bool" where
  "simple_escape e \<longleftrightarrow>
     e \<in> set [CHR 0x22, CHR 0x5C, CHR ''/'', CHR ''b'', CHR ''f'', CHR ''n'', CHR ''r'', CHR ''t'']"

definition unicode_escape :: "char \<Rightarrow> bytes \<Rightarrow> bool" where
  "unicode_escape e t \<longleftrightarrow>
     e = CHR ''u'' \<and> 4 \<le> length t \<and> list_all (\<lambda>h. hex_digit h \<noteq> None) (take 4 t)"

fun scan_string :: "bytes \<Rightarrow> (bytes \<times> bytes) option" where
  "scan_string [] = None"
| "scan_string (c # s) =
     (if c = CHR 0x22 then Some ([], s)
      else if byte c < 32 then None
      else if c = CHR 0x5C then
        (case s of
           [] \<Rightarrow> None
         | e # t \<Rightarrow>
             if simple_escape e \<or> unicode_escape e t
             then map_option (\<lambda>(u, r). (c # e # u, r)) (scan_string t)
             else None)
      else map_option (\<lambda>(u, r). (c # u, r)) (scan_string s))"

definition hex4 :: "bytes \<Rightarrow> nat option" where
  "hex4 s =
     (case map hex_digit (take 4 s) of
        [Some a, Some b, Some c, Some d] \<Rightarrow> Some (((a * 16 + b) * 16 + c) * 16 + d)
      | _ \<Rightarrow> None)"

definition unescape :: "char \<Rightarrow> char" where
  "unescape e =
     (if e = CHR ''b'' then CHR 0x08 else if e = CHR ''f'' then CHR 0x0C
      else if e = CHR ''n'' then CHR 0x0A else if e = CHR ''r'' then CHR 0x0D
      else if e = CHR ''t'' then CHR 0x09 else e)"

text \<open>
  \<open>unquote\<close> on the text between the quotes: escapes are replaced, a surrogate pair
  becomes one rune, a lone surrogate and a malformed UTF-8 byte become U+FFFD.
\<close>

fun unquote :: "bytes \<Rightarrow> bytes" where
  "unquote [] = []"
| "unquote (c # s) =
     (if c = CHR 0x5C then
        (case s of
           [] \<Rightarrow> []
         | e # t \<Rightarrow>
             if e = CHR ''u'' then
               (case hex4 t of
                  None \<Rightarrow> []
                | Some r \<Rightarrow>
                    if 0xD800 \<le> r \<and> r < 0xE000 then
                      (case (take 2 (drop 4 t), hex4 (drop 6 t)) of
                         ([b, u], Some r2) \<Rightarrow>
                           if b = CHR 0x5C \<and> u = CHR ''u'' \<and> r < 0xDC00 \<and> 0xDC00 \<le> r2 \<and> r2 < 0xE000
                           then utf8_encode ((r - 0xD800) * 1024 + (r2 - 0xDC00) + 0x10000)
                                @ unquote (drop 10 t)
                           else utf8_encode rune_error @ unquote (drop 4 t)
                       | _ \<Rightarrow> utf8_encode rune_error @ unquote (drop 4 t))
                    else utf8_encode r @ unquote (drop 4 t))
             else unescape e # unquote t)
      else if byte c < 128 then c # unquote s
      else (let w = utf8_width (c # s) in
            if w \<le> 1 then utf8_encode rune_error @ unquote s
            else c # take (w - 1) s @ unquote (drop (w - 1) s)))"

section \<open>Numbers\<close>

definition scan_int :: "bytes \<Rightarrow> (bytes \<times> bytes) option" where
  "scan_int s =
     (case s of
        [] \<Rightarrow> None
      | c # r \<Rightarrow> if c = CHR ''0'' then Some ([c], r)
                 else if is_digit c then Some (c # takeWhile is_digit r, dropWhile is_digit r)
                 else None)"

definition scan_digits :: "bytes \<Rightarrow> (bytes \<times> bytes) option" where
  "scan_digits s =
     (case s of
        [] \<Rightarrow> None
      | c # r \<Rightarrow> if is_digit c then Some (takeWhile is_digit s, dropWhile is_digit s) else None)"

definition scan_frac :: "bytes \<Rightarrow> (bytes \<times> bytes) option" where
  "scan_frac s =
     (case s of
        [] \<Rightarrow> Some ([], s)
      | c # r \<Rightarrow> if c = CHR ''.'' then map_option (\<lambda>(d, t). (c # d, t)) (scan_digits r)
                 else Some ([], s))"

definition scan_exp :: "bytes \<Rightarrow> (bytes \<times> bytes) option" where
  "scan_exp s =
     (case s of
        [] \<Rightarrow> Some ([], s)
      | c # r \<Rightarrow>
          if c = CHR ''e'' \<or> c = CHR ''E'' then
            (case r of
               [] \<Rightarrow> None
             | g # t \<Rightarrow> if g = CHR ''+'' \<or> g = CHR ''-''
                        then map_option (\<lambda>(d, u). (c # g # d, u)) (scan_digits t)
                        else map_option (\<lambda>(d, u). (c # d, u)) (scan_digits r))
          else Some ([], s))"

definition scan_sign :: "bytes \<Rightarrow> bytes \<times> bytes" where
  "scan_sign s =
     (case s of [] \<Rightarrow> ([], []) | c # r \<Rightarrow> if c = CHR ''-'' then ([c], r) else ([], s))"

definition scan_number :: "bytes \<Rightarrow> (bytes \<times> bytes) option" where
  "scan_number s =
     (let (g, s0) = scan_sign s in
      Option.bind (scan_int s0) (\<lambda>(i, s1).
      Option.bind (scan_frac s1) (\<lambda>(f, s2).
      Option.bind (scan_exp s2) (\<lambda>(e, s3). Some (g @ i @ f @ e, s3)))))"

section \<open>Values\<close>

datatype jv =
    JNull
  | JBool bool
  | JNum bytes                              \<comment> \<open>the literal\<close>
  | JStr bytes                              \<comment> \<open>unquoted\<close>
  | JArr "(bytes \<times> jv) list"           \<comment> \<open>elements with their bytes\<close>
  | JObj "(bytes \<times> bytes \<times> jv) list"  \<comment> \<open>unquoted member name, bytes and value\<close>

definition scan_lit :: "bytes \<Rightarrow> jv \<Rightarrow> bytes \<Rightarrow> (jv \<times> bytes) option" where
  "scan_lit w v s = (if take (length w) s = w then Some (v, drop (length w) s) else None)"

definition consumed :: "bytes \<Rightarrow> bytes \<Rightarrow> bytes" where
  "consumed s rest = take (length s - length rest) s"

text \<open>
  The recursive descent. The first argument is fuel, the second the nesting the scanner
  still allows (\<open>maxNestingDepth\<close> of Go is 10000). The input of \<open>pval\<close>, \<open>pelems\<close> and
  \<open>pmembs\<close> starts at a value, an element and a member name.
\<close>

fun pval :: "nat \<Rightarrow> nat \<Rightarrow> bytes \<Rightarrow> (jv \<times> bytes) option"
  and pelems :: "nat \<Rightarrow> nat \<Rightarrow> bytes \<Rightarrow> ((bytes \<times> jv) list \<times> bytes) option"
  and pmembs :: "nat \<Rightarrow> nat \<Rightarrow> bytes \<Rightarrow> ((bytes \<times> bytes \<times> jv) list \<times> bytes) option"
where
  "pval 0 d s = None"
| "pval (Suc n) d s =
     (case s of
        [] \<Rightarrow> None
      | c # r \<Rightarrow>
          if c = CHR ''{'' then
            (if d = 0 then None
             else (case skip_ws r of
                     [] \<Rightarrow> None
                   | x # t \<Rightarrow> if x = CHR ''}'' then Some (JObj [], t)
                              else map_option (\<lambda>(ms, u). (JObj ms, u)) (pmembs n (d - 1) (x # t))))
          else if c = CHR ''['' then
            (if d = 0 then None
             else (case skip_ws r of
                     [] \<Rightarrow> None
                   | x # t \<Rightarrow> if x = CHR '']'' then Some (JArr [], t)
                              else map_option (\<lambda>(es, u). (JArr es, u)) (pelems n (d - 1) (x # t))))
          else if c = CHR 0x22 then map_option (\<lambda>(u, t). (JStr (unquote u), t)) (scan_string r)
          else if c = CHR ''t'' then scan_lit ''true'' (JBool True) s
          else if c = CHR ''f'' then scan_lit ''false'' (JBool False) s
          else if c = CHR ''n'' then scan_lit ''null'' JNull s
          else map_option (\<lambda>(l, t). (JNum l, t)) (scan_number s))"
| "pelems 0 d s = None"
| "pelems (Suc n) d s =
     (case pval n d s of
        None \<Rightarrow> None
      | Some (v, r) \<Rightarrow>
          (case skip_ws r of
             [] \<Rightarrow> None
           | c # t \<Rightarrow>
               if c = CHR '','' then
                 map_option (\<lambda>(es, u). ((consumed s r, v) # es, u)) (pelems n d (skip_ws t))
               else if c = CHR '']'' then Some ([(consumed s r, v)], t)
               else None))"
| "pmembs 0 d s = None"
| "pmembs (Suc n) d s =
     (case s of
        [] \<Rightarrow> None
      | q # s1 \<Rightarrow>
          if q \<noteq> CHR 0x22 then None
          else (case scan_string s1 of
             None \<Rightarrow> None
           | Some (k, s2) \<Rightarrow>
               (case skip_ws s2 of
                  [] \<Rightarrow> None
                | c # s3 \<Rightarrow>
                    if c \<noteq> CHR '':'' then None
                    else (case pval n d (skip_ws s3) of
                       None \<Rightarrow> None
                     | Some (v, r) \<Rightarrow>
                         (case skip_ws r of
                            [] \<Rightarrow> None
                          | e # t \<Rightarrow>
                              if e = CHR '','' then
                                map_option (\<lambda>(ms, u). ((unquote k, consumed (skip_ws s3) r, v) # ms, u))
                                  (pmembs n d (skip_ws t))
                              else if e = CHR ''}'' then
                                Some ([(unquote k, consumed (skip_ws s3) r, v)], t)
                              else None)))))"

definition max_nesting :: nat where
  "max_nesting = 10000"

definition fuel_for :: "bytes \<Rightarrow> nat" where
  "fuel_for s = 2 * length s + 2"

text \<open>\<open>Decoder.Decode\<close>: the next value of the stream, its bytes, and what follows.\<close>

definition json_next :: "bytes \<Rightarrow> (bytes \<times> jv \<times> bytes) option" where
  "json_next s =
     (let s1 = skip_ws s in
      map_option (\<lambda>(v, r). (consumed s1 r, v, r)) (pval (fuel_for s1) max_nesting s1))"

text \<open>\<open>json.Unmarshal\<close> and \<open>json.Valid\<close>: one value and nothing but white space after it.\<close>

definition json_parse :: "bytes \<Rightarrow> (bytes \<times> jv) option" where
  "json_parse s =
     (case json_next s of
        None \<Rightarrow> None
      | Some (b, v, r) \<Rightarrow> if skip_ws r = [] then Some (b, v) else None)"

definition json_valid :: "bytes \<Rightarrow> bool" where
  "json_valid s \<longleftrightarrow> json_parse s \<noteq> None"

end
