(* ===== verification/Go_Time.thy ===== *)
theory Go_Time
  imports Go_Json
begin

text \<open>
  The part of Go's \<open>time\<close> package the program uses: instants with the zero time, the
  comparisons \<open>Before\<close> and \<open>After\<close>, \<open>Add\<close>, and the RFC 3339 text form that
  \<open>time.Time\<close> takes in JSON. An instant counts nanoseconds from the zero time
  (1 January of year 1, UTC); a \<open>gotime\<close> also has the zone offset in seconds its text
  carries. \<open>time.Now()\<close> is always an argument of the operation that reads it.
\<close>

section \<open>Instants\<close>

type_synonym instant = int  \<comment> \<open>nanoseconds since the zero time\<close>
type_synonym duration = int \<comment> \<open>nanoseconds\<close>

record gotime =
  t_ns :: instant
  t_off :: int

definition zero_time :: gotime where
  "zero_time = \<lparr>t_ns = 0, t_off = 0\<rparr>"

definition IsZero :: "gotime \<Rightarrow> bool" where
  "IsZero t \<longleftrightarrow> t_ns t = 0"

definition time_after :: "instant \<Rightarrow> gotime \<Rightarrow> bool" where
  "time_after now t \<longleftrightarrow> t_ns t < now"

definition time_before :: "instant \<Rightarrow> gotime \<Rightarrow> bool" where
  "time_before now t \<longleftrightarrow> now < t_ns t"

definition time_add :: "instant \<Rightarrow> duration \<Rightarrow> gotime" where
  "time_add now d = \<lparr>t_ns = now + d, t_off = 0\<rparr>"

definition second :: duration where
  "second = 1000000000"

definition hour :: duration where
  "hour = 3600 * second"

section \<open>Calendar\<close>

definition is_leap :: "int \<Rightarrow> bool" where
  "is_leap y \<longleftrightarrow> 4 dvd y \<and> (\<not> 100 dvd y \<or> 400 dvd y)"

definition days_in_month :: "int \<Rightarrow> int \<Rightarrow> int" where
  "days_in_month y m =
     (if m = 2 then (if is_leap y then 29 else 28)
      else if m = 4 \<or> m = 6 \<or> m = 9 \<or> m = 11 then 30 else 31)"

text \<open>Days from 1 January of year 1; years are counted from March so that the leap day is last.\<close>

definition days_of_civil :: "int \<Rightarrow> int \<Rightarrow> int \<Rightarrow> int" where
  "days_of_civil y m d =
     (let y' = (if m \<le> 2 then y - 1 else y);
          m' = (m + 9) mod 12
      in 365 * y' + y' div 4 - y' div 100 + y' div 400 + (153 * m' + 2) div 5 + d - 1 - 306)"

definition civil_of_days :: "int \<Rightarrow> int \<times> int \<times> int" where
  "civil_of_days n =
     (let z = n + 306;
          era = z div 146097;
          doe = z mod 146097;
          yoe = (doe - doe div 1460 + doe div 36524 - doe div 146096) div 365;
          doy = doe - (365 * yoe + yoe div 4 - yoe div 100);
          mp = (5 * doy + 2) div 153;
          d = doy - (153 * mp + 2) div 5 + 1;
          m = (if mp < 10 then mp + 3 else mp - 9);
          y = yoe + era * 400
      in (if m \<le> 2 then y + 1 else y, m, d))"

section \<open>RFC 3339\<close>

definition digit_val :: "char \<Rightarrow> int" where
  "digit_val c = int (byte c) - 48"

fun digits_val :: "bytes \<Rightarrow> int \<Rightarrow> int" where
  "digits_val [] acc = acc"
| "digits_val (c # s) acc = digits_val s (acc * 10 + digit_val c)"

text \<open>A fixed number of digits within bounds, as \<open>parseRFC3339\<close> reads each component.\<close>

definition take_num :: "nat \<Rightarrow> int \<Rightarrow> int \<Rightarrow> bytes \<Rightarrow> (int \<times> bytes) option" where
  "take_num k lo hi s =
     (let w = take k s; v = digits_val w 0 in
      if length w = k \<and> list_all is_digit w \<and> lo \<le> v \<and> v \<le> hi then Some (v, drop k s) else None)"

definition take_char :: "char \<Rightarrow> bytes \<Rightarrow> bytes option" where
  "take_char c s = (case s of [] \<Rightarrow> None | x # r \<Rightarrow> if x = c then Some r else None)"

text \<open>The fraction: nanoseconds from the first nine digits, further digits are dropped.\<close>

definition take_frac :: "bytes \<Rightarrow> (int \<times> bytes) option" where
  "take_frac s =
     (case s of
        [] \<Rightarrow> Some (0, s)
      | c # r \<Rightarrow>
          if c = CHR ''.'' then
            (case scan_digits r of
               None \<Rightarrow> None
             | Some (ds, t) \<Rightarrow>
                 Some (digits_val (take 9 (ds @ replicate 9 (CHR ''0''))) 0, t))
          else Some (0, s))"

definition take_zone :: "bytes \<Rightarrow> int option" where
  "take_zone s =
     (case s of
        [] \<Rightarrow> None
      | c # r \<Rightarrow>
          if c = CHR ''Z'' \<and> r = [] then Some 0
          else if c = CHR ''+'' \<or> c = CHR ''-'' then
            Option.bind (take_num 2 0 23 r) (\<lambda>(h, r1).
            Option.bind (take_char CHR '':'' r1) (\<lambda>r2.
            Option.bind (take_num 2 0 59 r2) (\<lambda>(m, r3).
              if r3 = [] then Some ((h * 3600 + m * 60) * (if c = CHR ''-'' then -1 else 1)) else None)))
          else None)"

definition parse_time :: "bytes \<Rightarrow> gotime option" where
  "parse_time s =
     Option.bind (take_num 4 0 9999 s) (\<lambda>(y, s).
     Option.bind (take_char CHR ''-'' s) (\<lambda>s.
     Option.bind (take_num 2 1 12 s) (\<lambda>(mo, s).
     Option.bind (take_char CHR ''-'' s) (\<lambda>s.
     Option.bind (take_num 2 1 (days_in_month y mo) s) (\<lambda>(d, s).
     Option.bind (take_char CHR ''T'' s) (\<lambda>s.
     Option.bind (take_num 2 0 23 s) (\<lambda>(h, s).
     Option.bind (take_char CHR '':'' s) (\<lambda>s.
     Option.bind (take_num 2 0 59 s) (\<lambda>(mi, s).
     Option.bind (take_char CHR '':'' s) (\<lambda>s.
     Option.bind (take_num 2 0 59 s) (\<lambda>(sec, s).
     Option.bind (take_frac s) (\<lambda>(ns, s).
     Option.bind (take_zone s) (\<lambda>off.
       Some \<lparr>t_ns = (days_of_civil y mo d * 86400 + h * 3600 + mi * 60 + sec - off) * second + ns,
             t_off = off\<rparr>)))))))))))))"

fun show_nat :: "nat \<Rightarrow> bytes" where
  "show_nat n = (if n < 10 then [char_of (48 + n)] else show_nat (n div 10) @ [char_of (48 + n mod 10)])"

declare show_nat.simps [simp del]

definition show_int :: "int \<Rightarrow> bytes" where
  "show_int i = (if i < 0 then CHR ''-'' # show_nat (nat (- i)) else show_nat (nat i))"

definition pad :: "nat \<Rightarrow> int \<Rightarrow> bytes" where
  "pad k i = (let s = show_int i in replicate (k - length s) (CHR ''0'') @ s)"

definition format_frac :: "int \<Rightarrow> bytes" where
  "format_frac ns =
     (if ns = 0 then [] else CHR ''.'' # rev (dropWhile (\<lambda>c. c = CHR ''0'') (rev (pad 9 ns))))"

definition format_zone :: "int \<Rightarrow> bytes" where
  "format_zone off =
     (if off = 0 then ''Z''
      else (if off < 0 then ''-'' else ''+'')
           @ pad 2 (\<bar>off\<bar> div 60 div 60) @ '':'' @ pad 2 (\<bar>off\<bar> div 60 mod 60))"

text \<open>\<open>Time.MarshalJSON\<close> without the quotes: an error outside the years 0 to 9999.\<close>

definition format_time :: "gotime \<Rightarrow> bytes option" where
  "format_time t =
     (let loc = t_ns t + t_off t * second;
          secs = loc div second;
          (y, mo, d) = civil_of_days (secs div 86400);
          sod = secs mod 86400
      in if y < 0 \<or> 9999 < y \<or> 24 * 3600 \<le> \<bar>t_off t\<bar> then None
         else Some (pad 4 y @ ''-'' @ pad 2 mo @ ''-'' @ pad 2 d @ ''T''
                    @ pad 2 (sod div 3600) @ '':'' @ pad 2 (sod div 60 mod 60) @ '':''
                    @ pad 2 (sod mod 60) @ format_frac (loc mod second) @ format_zone (t_off t)))"

end
