(* ===== verification/Go_Codec.thy ===== *)
theory Go_Codec
  imports Go_Time "HOL-Library.Char_ord" "HOL-Library.List_Lexorder"
begin

text \<open>
  Decoding parsed JSON into Go values and encoding Go values, as \<open>encoding/json\<close> does it
  by reflection. A decoder takes the bytes of the value, the parsed value and the value the
  destination holds (\<open>null\<close> leaves it unchanged) and fails on a type mismatch. A struct is
  decoded member by member in the order of the text; a name that matches no tag is ignored,
  and an exact match of the tag is preferred to one up to case folding.
\<close>

section \<open>Destinations\<close>

type_synonym 'a decoder = "bytes \<Rightarrow> jv \<Rightarrow> 'a \<Rightarrow> 'a option"

definition un_string :: "bytes decoder" where
  "un_string b v old = (case v of JStr s \<Rightarrow> Some s | JNull \<Rightarrow> Some old | _ \<Rightarrow> None)"

definition un_bool :: "bool decoder" where
  "un_bool b v old = (case v of JBool x \<Rightarrow> Some x | JNull \<Rightarrow> Some old | _ \<Rightarrow> None)"

text \<open>A JSON number fits a Go \<open>int\<close> when its literal is an integer of 64 bits.\<close>

definition lit_int :: "bytes \<Rightarrow> int option" where
  "lit_int l =
     (let (g, ds) = scan_sign l;
          v = (if g = [] then digits_val ds 0 else - digits_val ds 0)
      in if ds \<noteq> [] \<and> list_all is_digit ds \<and> - (2 ^ 63) \<le> v \<and> v < 2 ^ 63 then Some v else None)"

definition un_int :: "int decoder" where
  "un_int b v old = (case v of JNum l \<Rightarrow> lit_int l | JNull \<Rightarrow> Some old | _ \<Rightarrow> None)"

text \<open>\<open>json.RawMessage\<close> takes the bytes of any value, \<open>null\<close> included.\<close>

definition un_raw :: "raw decoder" where
  "un_raw b v old = Some (Some b)"

definition un_time :: "gotime decoder" where
  "un_time b v old =
     (case v of JStr _ \<Rightarrow> parse_time (butlast (tl b)) | JNull \<Rightarrow> Some old | _ \<Rightarrow> None)"

definition un_ptr :: "'a \<Rightarrow> 'a decoder \<Rightarrow> 'a option decoder" where
  "un_ptr zero un b v old =
     (if v = JNull then Some None
      else map_option Some (un b v (case old of None \<Rightarrow> zero | Some x \<Rightarrow> x)))"

fun un_elems :: "'a \<Rightarrow> 'a decoder \<Rightarrow> (bytes \<times> jv) list \<Rightarrow> 'a list option" where
  "un_elems zero un [] = Some []"
| "un_elems zero un ((b, v) # es) =
     Option.bind (un b v zero) (\<lambda>x. map_option (Cons x) (un_elems zero un es))"

definition un_slice :: "'a \<Rightarrow> 'a decoder \<Rightarrow> 'a list option decoder" where
  "un_slice zero un b v old =
     (case v of JArr es \<Rightarrow> map_option Some (un_elems zero un es) | JNull \<Rightarrow> Some None | _ \<Rightarrow> None)"

text \<open>A slice tagged \<open>omitempty\<close>: nil and empty are the same to the program.\<close>

definition un_list :: "'a \<Rightarrow> 'a decoder \<Rightarrow> 'a list decoder" where
  "un_list zero un b v old =
     (case v of JArr es \<Rightarrow> un_elems zero un es | JNull \<Rightarrow> Some [] | _ \<Rightarrow> None)"

fun un_entries :: "'a \<Rightarrow> 'a decoder \<Rightarrow> (bytes \<times> bytes \<times> jv) list \<Rightarrow> (bytes, 'a) gomap
    \<Rightarrow> (bytes, 'a) gomap option" where
  "un_entries zero un [] m = Some m"
| "un_entries zero un ((k, b, v) # es) m =
     Option.bind (un b v zero) (\<lambda>x. un_entries zero un es (gm_set k x m))"

definition un_map :: "'a \<Rightarrow> 'a decoder \<Rightarrow> (bytes, 'a) gomap decoder" where
  "un_map zero un b v old =
     (case v of JObj es \<Rightarrow> un_entries zero un es old | JNull \<Rightarrow> Some [] | _ \<Rightarrow> None)"

section \<open>Structs\<close>

text \<open>
  \<open>foldName\<close>: ASCII letters in upper case; the two other runes whose simple case folding
  is an ASCII letter are the Kelvin sign and the long s. No tag of the program has other
  non-ASCII characters, so every other sequence is left as it is.
\<close>

definition upcase :: "char \<Rightarrow> char" where
  "upcase c = (if 97 \<le> byte c \<and> byte c \<le> 122 then char_of (byte c - 32) else c)"

fun fold_name :: "bytes \<Rightarrow> bytes" where
  "fold_name [] = []"
| "fold_name (c # s) =
     (if byte c = 0xE2 \<and> map byte (take 2 s) = [0x84, 0xAA] then CHR ''K'' # fold_name (drop 2 s)
      else if byte c = 0xC5 \<and> map byte (take 1 s) = [0xBF] then CHR ''S'' # fold_name (drop 1 s)
      else upcase c # fold_name s)"

type_synonym 's fields = "(bytes \<times> 's decoder) list"

definition field :: "('s \<Rightarrow> 'a) \<Rightarrow> (('a \<Rightarrow> 'a) \<Rightarrow> 's \<Rightarrow> 's) \<Rightarrow> 'a decoder \<Rightarrow> 's decoder" where
  "field get upd un b v s = map_option (\<lambda>x. upd (\<lambda>_. x) s) (un b v (get s))"

definition find_field :: "'s fields \<Rightarrow> bytes \<Rightarrow> 's decoder option" where
  "find_field fs k =
     (case map_of fs k of
        Some d \<Rightarrow> Some d
      | None \<Rightarrow> map_of (map (\<lambda>(n, d). (fold_name n, d)) fs) (fold_name k))"

fun un_members :: "'s fields \<Rightarrow> (bytes \<times> bytes \<times> jv) list \<Rightarrow> 's \<Rightarrow> 's option" where
  "un_members fs [] s = Some s"
| "un_members fs ((k, b, v) # ms) s =
     (case find_field fs k of
        None \<Rightarrow> un_members fs ms s
      | Some d \<Rightarrow> Option.bind (d b v s) (un_members fs ms))"

definition un_struct :: "'s fields \<Rightarrow> 's decoder" where
  "un_struct fs b v s =
     (case v of JObj ms \<Rightarrow> un_members fs ms s | JNull \<Rightarrow> Some s | _ \<Rightarrow> None)"

text \<open>\<open>json.Unmarshal(data, &x)\<close> with \<open>x\<close> holding \<open>zero\<close>; a nil slice is no JSON.\<close>

definition unmarshal :: "'a decoder \<Rightarrow> 'a \<Rightarrow> raw \<Rightarrow> 'a option" where
  "unmarshal un zero data =
     Option.bind (json_parse (case data of None \<Rightarrow> [] | Some d \<Rightarrow> d)) (\<lambda>(b, v). un b v zero)"

section \<open>Decoding into an interface\<close>

text \<open>
  \<open>interface{}\<close> holds a tree in which a repeated member name keeps its last value. A number
  becomes a \<open>float64\<close>; a literal beyond its range is an error of the whole call.
\<close>

datatype any =
    ANull
  | ABool bool
  | ANum bytes
  | AStr bytes
  | AArr "any list"
  | AMap "(bytes \<times> any) list"

text \<open>Rounding to nearest overflows from the midpoint above the largest finite value on.\<close>

definition float_limit :: int where
  "float_limit = 2 ^ 1024 - 2 ^ 970"

definition lit_overflows :: "bytes \<Rightarrow> bool" where
  "lit_overflows l =
     (let (g, s0) = scan_sign l;
          ip = takeWhile is_digit s0;
          s1 = dropWhile is_digit s0;
          fp = (case s1 of c # r \<Rightarrow> if c = CHR ''.'' then takeWhile is_digit r else [] | [] \<Rightarrow> []);
          s2 = (case s1 of c # r \<Rightarrow> if c = CHR ''.'' then dropWhile is_digit r else s1 | [] \<Rightarrow> []);
          es = (case s2 of [] \<Rightarrow> [] | c # r \<Rightarrow> r);
          eneg = (es \<noteq> [] \<and> hd es = CHR ''-'');
          ed = digits_val (dropWhile (\<lambda>c. c = CHR ''-'' \<or> c = CHR ''+'') es) 0;
          m = digits_val (ip @ fp) 0;
          e = (if eneg then - ed else ed) - int (length fp)
      in if 0 \<le> e then float_limit \<le> m * 10 ^ nat e
         else float_limit * 10 ^ nat (- e) \<le> m)"

fun to_any :: "jv \<Rightarrow> any option"
  and to_anys :: "(bytes \<times> jv) list \<Rightarrow> any list option"
  and to_amap :: "(bytes \<times> bytes \<times> jv) list \<Rightarrow> (bytes \<times> any) list option"
where
  "to_any JNull = Some ANull"
| "to_any (JBool x) = Some (ABool x)"
| "to_any (JNum l) = (if lit_overflows l then None else Some (ANum l))"
| "to_any (JStr s) = Some (AStr s)"
| "to_any (JArr es) = map_option AArr (to_anys es)"
| "to_any (JObj ms) = map_option AMap (to_amap ms)"
| "to_anys [] = Some []"
| "to_anys ((b, v) # es) =
     (case to_any v of
        None \<Rightarrow> None
      | Some x \<Rightarrow> map_option (Cons x) (to_anys es))"
| "to_amap [] = Some []"
| "to_amap ((k, b, v) # ms) =
     (case to_any v of
        None \<Rightarrow> None
      | Some x \<Rightarrow> map_option (\<lambda>m. if map_of m k = None then (k, x) # m else m) (to_amap ms))"

definition un_any :: "any decoder" where
  "un_any b v old = to_any v"

section \<open>Encoding\<close>

definition hex_char :: "nat \<Rightarrow> char" where
  "hex_char n = char_of (if n < 10 then 48 + n else 87 + n)"

text \<open>\<open>appendString\<close> with HTML escaping, the default of \<open>json.Marshal\<close>.\<close>

definition esc_char :: "char \<Rightarrow> bytes" where
  "esc_char c =
     (if c = CHR 0x22 \<or> c = CHR 0x5C then [CHR 0x5C, c]
      else if c = CHR 0x08 then [CHR 0x5C, CHR ''b''] else if c = CHR 0x0C then [CHR 0x5C, CHR ''f'']
      else if c = CHR 0x0A then [CHR 0x5C, CHR ''n''] else if c = CHR 0x0D then [CHR 0x5C, CHR ''r'']
      else if c = CHR 0x09 then [CHR 0x5C, CHR ''t'']
      else if byte c < 32 \<or> c = CHR ''<'' \<or> c = CHR ''>'' \<or> c = CHR ''&''
        then [CHR 0x5C, CHR ''u'', CHR ''0'', CHR ''0'', hex_char (byte c div 16), hex_char (byte c mod 16)]
      else [c])"

definition line_sep :: "bytes \<Rightarrow> bool" where
  "line_sep s \<longleftrightarrow> map byte (take 2 s) = [0x80, 0xA8] \<or> map byte (take 2 s) = [0x80, 0xA9]"

definition esc_line_sep :: "bytes \<Rightarrow> bytes" where
  "esc_line_sep s = CHR 0x5C # ''u202'' @ [hex_char (byte (s ! 1) mod 16)]"

fun esc_string :: "bytes \<Rightarrow> bytes" where
  "esc_string [] = []"
| "esc_string (c # s) =
     (if byte c < 128 then esc_char c @ esc_string s
      else let w = utf8_width (c # s) in
        if w \<le> 1 then CHR 0x5C # ''ufffd'' @ esc_string s
        else if byte c = 0xE2 \<and> line_sep s then esc_line_sep s @ esc_string (drop 2 s)
        else c # take (w - 1) s @ esc_string (drop (w - 1) s))"

definition quote_string :: "bytes \<Rightarrow> bytes" where
  "quote_string s = CHR 0x22 # esc_string s @ [CHR 0x22]"

text \<open>
  \<open>compact\<close> with HTML escaping, applied to every \<open>json.RawMessage\<close> that is encoded:
  white space between tokens goes, the text of strings stays.
\<close>

definition html_unsafe :: "char \<Rightarrow> bool" where
  "html_unsafe c \<longleftrightarrow> c = CHR ''<'' \<or> c = CHR ''>'' \<or> c = CHR ''&''"

fun compact_str :: "bytes \<Rightarrow> bytes"
  and compact_val :: "bytes \<Rightarrow> bytes"
where
  "compact_str [] = []"
| "compact_str (c # s) =
     (if c = CHR 0x22 then c # compact_val s
      else if c = CHR 0x5C then (case s of [] \<Rightarrow> [c] | e # t \<Rightarrow> c # e # compact_str t)
      else if html_unsafe c then esc_char c @ compact_str s
      else if byte c = 0xE2 \<and> line_sep s then esc_line_sep s @ compact_str (drop 2 s)
      else c # compact_str s)"
| "compact_val [] = []"
| "compact_val (c # s) =
     (if is_ws c then compact_val s
      else if c = CHR 0x22 then c # compact_str s
      else c # compact_val s)"

definition ms_raw :: "raw \<Rightarrow> bytes option" where
  "ms_raw r =
     (case r of
        None \<Rightarrow> Some ''null''
      | Some b \<Rightarrow> if json_valid b then Some (compact_val b) else None)"

definition ms_string :: "bytes \<Rightarrow> bytes option" where
  "ms_string s = Some (quote_string s)"

definition ms_int :: "int \<Rightarrow> bytes option" where
  "ms_int i = Some (show_int i)"

definition ms_bool :: "bool \<Rightarrow> bytes option" where
  "ms_bool b = Some (if b then ''true'' else ''false'')"

definition ms_time :: "gotime \<Rightarrow> bytes option" where
  "ms_time t = map_option (\<lambda>s. CHR 0x22 # s @ [CHR 0x22]) (format_time t)"

definition ms_ptr :: "('a \<Rightarrow> bytes option) \<Rightarrow> 'a option \<Rightarrow> bytes option" where
  "ms_ptr ms x = (case x of None \<Rightarrow> Some ''null'' | Some y \<Rightarrow> ms y)"

fun commas :: "bytes list \<Rightarrow> bytes" where
  "commas [] = []"
| "commas [x] = x"
| "commas (x # xs) = x @ CHR '','' # commas xs"

fun all_some :: "'a option list \<Rightarrow> 'a list option" where
  "all_some [] = Some []"
| "all_some (None # xs) = None"
| "all_some (Some x # xs) = map_option (Cons x) (all_some xs)"

definition ms_list :: "('a \<Rightarrow> bytes option) \<Rightarrow> 'a list \<Rightarrow> bytes option" where
  "ms_list ms xs = map_option (\<lambda>bs. ''['' @ commas bs @ '']'') (all_some (map ms xs))"

definition ms_slice :: "('a \<Rightarrow> bytes option) \<Rightarrow> 'a list option \<Rightarrow> bytes option" where
  "ms_slice ms x = (case x of None \<Rightarrow> Some ''null'' | Some xs \<Rightarrow> ms_list ms xs)"

definition ms_member :: "bytes \<times> bytes option \<Rightarrow> bytes option" where
  "ms_member = (\<lambda>(k, b). map_option (\<lambda>v. quote_string k @ CHR '':'' # v) b)"

definition ms_obj :: "(bytes \<times> bytes option) list \<Rightarrow> bytes option" where
  "ms_obj ms = map_option (\<lambda>bs. ''{'' @ commas bs @ ''}'') (all_some (map ms_member ms))"

text \<open>A Go map is encoded in the order of its keys.\<close>

definition ms_map :: "('a \<Rightarrow> bytes option) \<Rightarrow> (bytes, 'a) gomap \<Rightarrow> bytes option" where
  "ms_map ms m = ms_obj (map (\<lambda>(k, v). (k, ms v)) (sort_key fst m))"

text \<open>The fields of a struct: those tagged \<open>omitempty\<close> are left out when they are empty.\<close>

definition always :: "bytes \<Rightarrow> bytes option \<Rightarrow> (bytes \<times> bytes option) list" where
  "always k b = [(k, b)]"

definition unless :: "bool \<Rightarrow> bytes \<Rightarrow> bytes option \<Rightarrow> (bytes \<times> bytes option) list" where
  "unless omit k b = (if omit then [] else [(k, b)])"

definition raw_empty :: "raw \<Rightarrow> bool" where
  "raw_empty r \<longleftrightarrow> r = None \<or> r = Some []"

lemmas decoder_defs [codec] =
  un_string_def un_bool_def un_int_def un_raw_def un_time_def un_ptr_def un_slice_def un_list_def
  un_map_def un_struct_def un_any_def field_def find_field_def

lemmas encoder_defs [codec] =
  ms_raw_def ms_string_def ms_int_def ms_bool_def ms_time_def ms_ptr_def ms_list_def ms_slice_def
  ms_member_def ms_obj_def ms_map_def always_def unless_def raw_empty_def

end
