(* ===== verification/Wmp_Types.thy ===== *)
theory Wmp_Types
  imports Go_Codec
begin

text \<open>
  The wire types of package \<open>wmp\<close>: error codes (errors.go), the metadata envelope and its
  parts (types.go), and the params and results of every method (methods.go). Each struct is
  a record; \<open>zero_T\<close> is its zero value, \<open>fields_T\<close> its json tags with the decoder of each
  field, \<open>un_T\<close> what \<open>json.Unmarshal\<close> does with it and \<open>ms_T\<close> what \<open>json.Marshal\<close> does.
\<close>

section \<open>Error codes\<close>

definition ErrSessionNotFound :: int where
  [simp]: "ErrSessionNotFound = - 31000"

definition ErrSessionExpired :: int where
  [simp]: "ErrSessionExpired = - 31001"

definition ErrNotAuthorized :: int where
  [simp]: "ErrNotAuthorized = - 31002"

definition ErrEncryptionRequired :: int where
  [simp]: "ErrEncryptionRequired = - 31003"

definition ErrMLSError :: int where
  [simp]: "ErrMLSError = - 31004"

definition ErrCapabilityNotSupported :: int where
  [simp]: "ErrCapabilityNotSupported = - 31005"

definition ErrFlowError :: int where
  [simp]: "ErrFlowError = - 31006"

definition ErrRateLimited :: int where
  [simp]: "ErrRateLimited = - 31007"

definition ErrParticipantNotFound :: int where
  [simp]: "ErrParticipantNotFound = - 31008"

definition ErrEvidenceRequired :: int where
  [simp]: "ErrEvidenceRequired = - 31009"

definition ErrSignatureInvalid :: int where
  [simp]: "ErrSignatureInvalid = - 31010"

definition ErrTimestampInvalid :: int where
  [simp]: "ErrTimestampInvalid = - 31011"

definition ErrIdentityAssertionInvalid :: int where
  [simp]: "ErrIdentityAssertionInvalid = - 31012"

definition ErrVersionNotSupported :: int where
  [simp]: "ErrVersionNotSupported = - 31013"

definition ErrQueueFull :: int where
  [simp]: "ErrQueueFull = - 31014"

definition ErrDelegationInvalid :: int where
  [simp]: "ErrDelegationInvalid = - 31015"

definition ErrConsignmentModeUnsupported :: int where
  [simp]: "ErrConsignmentModeUnsupported = - 31016"

definition ErrAssuranceLevelUnsupported :: int where
  [simp]: "ErrAssuranceLevelUnsupported = - 31017"

definition ErrPolicyUnsupported :: int where
  [simp]: "ErrPolicyUnsupported = - 31018"

definition ErrParseError :: int where
  [simp]: "ErrParseError = - 32700"

definition ErrInvalidRequest :: int where
  [simp]: "ErrInvalidRequest = - 32600"

definition ErrMethodNotFound :: int where
  [simp]: "ErrMethodNotFound = - 32601"

definition ErrInvalidParams :: int where
  [simp]: "ErrInvalidParams = - 32602"

definition ErrInternalError :: int where
  [simp]: "ErrInternalError = - 32603"

definition ErrorMessage :: "int \<Rightarrow> bytes" where
  "ErrorMessage c =
    (if c = ErrSessionNotFound then ''Session not found''
     else if c = ErrSessionExpired then ''Session expired''
     else if c = ErrNotAuthorized then ''Not authorized''
     else if c = ErrEncryptionRequired then ''Encryption required''
     else if c = ErrMLSError then ''MLS error''
     else if c = ErrCapabilityNotSupported then ''Capability not supported''
     else if c = ErrFlowError then ''Flow error''
     else if c = ErrRateLimited then ''Rate limited''
     else if c = ErrParticipantNotFound then ''Participant not found''
     else if c = ErrEvidenceRequired then ''Evidence required''
     else if c = ErrSignatureInvalid then ''Signature invalid''
     else if c = ErrTimestampInvalid then ''Timestamp invalid''
     else if c = ErrIdentityAssertionInvalid then ''Identity assertion invalid''
     else if c = ErrVersionNotSupported then ''Version not supported''
     else if c = ErrQueueFull then ''Queue full''
     else if c = ErrDelegationInvalid then ''Delegation invalid''
     else if c = ErrConsignmentModeUnsupported then ''Consignment mode unsupported''
     else if c = ErrAssuranceLevelUnsupported then ''Assurance level unsupported''
     else if c = ErrPolicyUnsupported then ''Policy unsupported''
     else if c = ErrParseError then ''Parse error''
     else if c = ErrInvalidRequest then ''Invalid Request''
     else if c = ErrMethodNotFound then ''Method not found''
     else if c = ErrInvalidParams then ''Invalid params''
     else if c = ErrInternalError then ''Internal error''
     else ''Unknown error'')"

section \<open>Metadata and capabilities\<close>

definition Version :: bytes where
  [simp]: "Version = ''0.1''"

type_synonym Capabilities = "(bytes, raw) gomap"

record TrustHint =
  th_Framework :: "bytes"
  th_LoteURL :: "bytes"
  th_IssuerServiceID :: "bytes"
  th_TrustAnchor :: "bytes"
  th_EntityStatement :: "bytes"
  th_RootCA :: "bytes"
  th_URI :: "bytes"
  th_ValidationEndpoint :: "bytes"

definition zero_TrustHint :: TrustHint where
  "zero_TrustHint = \<lparr>th_Framework = [], th_LoteURL = [], th_IssuerServiceID = [], th_TrustAnchor = [], th_EntityStatement = [], th_RootCA = [], th_URI = [], th_ValidationEndpoint = []\<rparr>"

definition fields_TrustHint :: "TrustHint fields" where
  "fields_TrustHint =
    [(''framework'', field th_Framework th_Framework_update un_string),
     (''lote_url'', field th_LoteURL th_LoteURL_update un_string),
     (''issuer_service_id'', field th_IssuerServiceID th_IssuerServiceID_update un_string),
     (''trust_anchor'', field th_TrustAnchor th_TrustAnchor_update un_string),
     (''entity_statement'', field th_EntityStatement th_EntityStatement_update un_string),
     (''root_ca'', field th_RootCA th_RootCA_update un_string),
     (''uri'', field th_URI th_URI_update un_string),
     (''validation_endpoint'', field th_ValidationEndpoint th_ValidationEndpoint_update un_string)]"

definition un_TrustHint :: "TrustHint decoder" where
  "un_TrustHint = un_struct fields_TrustHint"

definition ms_TrustHint :: "TrustHint \<Rightarrow> bytes option" where
  "ms_TrustHint x = ms_obj (
     always ''framework'' (ms_string (th_Framework x))
     @ unless (th_LoteURL x = []) ''lote_url'' (ms_string (th_LoteURL x))
     @ unless (th_IssuerServiceID x = []) ''issuer_service_id'' (ms_string (th_IssuerServiceID x))
     @ unless (th_TrustAnchor x = []) ''trust_anchor'' (ms_string (th_TrustAnchor x))
     @ unless (th_EntityStatement x = []) ''entity_statement'' (ms_string (th_EntityStatement x))
     @ unless (th_RootCA x = []) ''root_ca'' (ms_string (th_RootCA x))
     @ unless (th_URI x = []) ''uri'' (ms_string (th_URI x))
     @ unless (th_ValidationEndpoint x = []) ''validation_endpoint'' (ms_string (th_ValidationEndpoint x)))"

record IdentityAssertion =
  ia_Type :: "bytes"
  ia_Format :: "bytes"
  ia_VPToken :: "bytes"
  ia_Audience :: "bytes"
  ia_Nonce :: "bytes"
  ia_DisclosedClaims :: "bytes list"
  ia_X5C :: "bytes list"
  ia_TrustHints :: "TrustHint list"

definition zero_IdentityAssertion :: IdentityAssertion where
  "zero_IdentityAssertion = \<lparr>ia_Type = [], ia_Format = [], ia_VPToken = [], ia_Audience = [], ia_Nonce = [], ia_DisclosedClaims = [], ia_X5C = [], ia_TrustHints = []\<rparr>"

definition fields_IdentityAssertion :: "IdentityAssertion fields" where
  "fields_IdentityAssertion =
    [(''type'', field ia_Type ia_Type_update un_string),
     (''format'', field ia_Format ia_Format_update un_string),
     (''vp_token'', field ia_VPToken ia_VPToken_update un_string),
     (''audience'', field ia_Audience ia_Audience_update un_string),
     (''nonce'', field ia_Nonce ia_Nonce_update un_string),
     (''disclosed_claims'', field ia_DisclosedClaims ia_DisclosedClaims_update (un_list [] un_string)),
     (''x5c'', field ia_X5C ia_X5C_update (un_list [] un_string)),
     (''trust_hints'', field ia_TrustHints ia_TrustHints_update (un_list zero_TrustHint un_TrustHint))]"

definition un_IdentityAssertion :: "IdentityAssertion decoder" where
  "un_IdentityAssertion = un_struct fields_IdentityAssertion"

definition ms_IdentityAssertion :: "IdentityAssertion \<Rightarrow> bytes option" where
  "ms_IdentityAssertion x = ms_obj (
     always ''type'' (ms_string (ia_Type x))
     @ unless (ia_Format x = []) ''format'' (ms_string (ia_Format x))
     @ unless (ia_VPToken x = []) ''vp_token'' (ms_string (ia_VPToken x))
     @ unless (ia_Audience x = []) ''audience'' (ms_string (ia_Audience x))
     @ unless (ia_Nonce x = []) ''nonce'' (ms_string (ia_Nonce x))
     @ unless (ia_DisclosedClaims x = []) ''disclosed_claims'' ((ms_list ms_string) (ia_DisclosedClaims x))
     @ unless (ia_X5C x = []) ''x5c'' ((ms_list ms_string) (ia_X5C x))
     @ unless (ia_TrustHints x = []) ''trust_hints'' ((ms_list ms_TrustHint) (ia_TrustHints x)))"

record RelayEntry =
  re_Relay :: "bytes"
  re_RelayID :: "bytes"
  re_Timestamp :: "gotime"
  re_TimestampToken :: "bytes"
  re_Signature :: "bytes"
  re_ServiceClass :: "bytes"

definition zero_RelayEntry :: RelayEntry where
  "zero_RelayEntry = \<lparr>re_Relay = [], re_RelayID = [], re_Timestamp = zero_time, re_TimestampToken = [], re_Signature = [], re_ServiceClass = []\<rparr>"

definition fields_RelayEntry :: "RelayEntry fields" where
  "fields_RelayEntry =
    [(''relay'', field re_Relay re_Relay_update un_string),
     (''relay_id'', field re_RelayID re_RelayID_update un_string),
     (''timestamp'', field re_Timestamp re_Timestamp_update un_time),
     (''timestamp_token'', field re_TimestampToken re_TimestampToken_update un_string),
     (''signature'', field re_Signature re_Signature_update un_string),
     (''service_class'', field re_ServiceClass re_ServiceClass_update un_string)]"

definition un_RelayEntry :: "RelayEntry decoder" where
  "un_RelayEntry = un_struct fields_RelayEntry"

definition ms_RelayEntry :: "RelayEntry \<Rightarrow> bytes option" where
  "ms_RelayEntry x = ms_obj (
     always ''relay'' (ms_string (re_Relay x))
     @ always ''relay_id'' (ms_string (re_RelayID x))
     @ always ''timestamp'' (ms_time (re_Timestamp x))
     @ unless (re_TimestampToken x = []) ''timestamp_token'' (ms_string (re_TimestampToken x))
     @ unless (re_Signature x = []) ''signature'' (ms_string (re_Signature x))
     @ unless (re_ServiceClass x = []) ''service_class'' (ms_string (re_ServiceClass x)))"

record DelegateAuthorization =
  da_Type :: "bytes"
  da_Credential :: "bytes"
  da_Scope :: "bytes list"
  da_ValidUntil :: "bytes"

definition zero_DelegateAuthorization :: DelegateAuthorization where
  "zero_DelegateAuthorization = \<lparr>da_Type = [], da_Credential = [], da_Scope = [], da_ValidUntil = []\<rparr>"

definition fields_DelegateAuthorization :: "DelegateAuthorization fields" where
  "fields_DelegateAuthorization =
    [(''type'', field da_Type da_Type_update un_string),
     (''credential'', field da_Credential da_Credential_update un_string),
     (''scope'', field da_Scope da_Scope_update (un_list [] un_string)),
     (''valid_until'', field da_ValidUntil da_ValidUntil_update un_string)]"

definition un_DelegateAuthorization :: "DelegateAuthorization decoder" where
  "un_DelegateAuthorization = un_struct fields_DelegateAuthorization"

definition ms_DelegateAuthorization :: "DelegateAuthorization \<Rightarrow> bytes option" where
  "ms_DelegateAuthorization x = ms_obj (
     always ''type'' (ms_string (da_Type x))
     @ unless (da_Credential x = []) ''credential'' (ms_string (da_Credential x))
     @ unless (da_Scope x = []) ''scope'' ((ms_list ms_string) (da_Scope x))
     @ unless (da_ValidUntil x = []) ''valid_until'' (ms_string (da_ValidUntil x)))"

record SenderDelegate =
  sd_ID :: "bytes"
  sd_IdentityAssertions :: "IdentityAssertion list"
  sd_Authorization :: "DelegateAuthorization option"

definition zero_SenderDelegate :: SenderDelegate where
  "zero_SenderDelegate = \<lparr>sd_ID = [], sd_IdentityAssertions = [], sd_Authorization = None\<rparr>"

definition fields_SenderDelegate :: "SenderDelegate fields" where
  "fields_SenderDelegate =
    [(''id'', field sd_ID sd_ID_update un_string),
     (''identity_assertions'', field sd_IdentityAssertions sd_IdentityAssertions_update (un_list zero_IdentityAssertion un_IdentityAssertion)),
     (''authorization'', field sd_Authorization sd_Authorization_update (un_ptr zero_DelegateAuthorization un_DelegateAuthorization))]"

definition un_SenderDelegate :: "SenderDelegate decoder" where
  "un_SenderDelegate = un_struct fields_SenderDelegate"

definition ms_SenderDelegate :: "SenderDelegate \<Rightarrow> bytes option" where
  "ms_SenderDelegate x = ms_obj (
     always ''id'' (ms_string (sd_ID x))
     @ unless (sd_IdentityAssertions x = []) ''identity_assertions'' ((ms_list ms_IdentityAssertion) (sd_IdentityAssertions x))
     @ unless (sd_Authorization x = None) ''authorization'' ((ms_ptr ms_DelegateAuthorization) (sd_Authorization x)))"

record Metadata =
  md_Version :: "bytes"
  md_SessionID :: "bytes"
  md_Sender :: "bytes"
  md_Timestamp :: "gotime option"
  md_TimestampToken :: "bytes"
  md_ExpiresAt :: "gotime option"
  md_Encrypted :: "bool"
  md_Epoch :: "int option"
  md_Signature :: "bytes"
  md_IdentityAssertions :: "IdentityAssertion list"
  md_RelayChain :: "RelayEntry list"
  md_TraceID :: "bytes"
  md_SenderDelegate :: "SenderDelegate option"
  md_DeliverAfter :: "gotime option"

definition zero_Metadata :: Metadata where
  "zero_Metadata = \<lparr>md_Version = [], md_SessionID = [], md_Sender = [], md_Timestamp = None, md_TimestampToken = [], md_ExpiresAt = None, md_Encrypted = False, md_Epoch = None, md_Signature = [], md_IdentityAssertions = [], md_RelayChain = [], md_TraceID = [], md_SenderDelegate = None, md_DeliverAfter = None\<rparr>"

definition fields_Metadata :: "Metadata fields" where
  "fields_Metadata =
    [(''version'', field md_Version md_Version_update un_string),
     (''session_id'', field md_SessionID md_SessionID_update un_string),
     (''sender'', field md_Sender md_Sender_update un_string),
     (''timestamp'', field md_Timestamp md_Timestamp_update (un_ptr zero_time un_time)),
     (''timestamp_token'', field md_TimestampToken md_TimestampToken_update un_string),
     (''expires_at'', field md_ExpiresAt md_ExpiresAt_update (un_ptr zero_time un_time)),
     (''encrypted'', field md_Encrypted md_Encrypted_update un_bool),
     (''epoch'', field md_Epoch md_Epoch_update (un_ptr 0 un_int)),
     (''signature'', field md_Signature md_Signature_update un_string),
     (''identity_assertions'', field md_IdentityAssertions md_IdentityAssertions_update (un_list zero_IdentityAssertion un_IdentityAssertion)),
     (''relay_chain'', field md_RelayChain md_RelayChain_update (un_list zero_RelayEntry un_RelayEntry)),
     (''trace_id'', field md_TraceID md_TraceID_update un_string),
     (''sender_delegate'', field md_SenderDelegate md_SenderDelegate_update (un_ptr zero_SenderDelegate un_SenderDelegate)),
     (''deliver_after'', field md_DeliverAfter md_DeliverAfter_update (un_ptr zero_time un_time))]"

definition un_Metadata :: "Metadata decoder" where
  "un_Metadata = un_struct fields_Metadata"

definition ms_Metadata :: "Metadata \<Rightarrow> bytes option" where
  "ms_Metadata x = ms_obj (
     always ''version'' (ms_string (md_Version x))
     @ unless (md_SessionID x = []) ''session_id'' (ms_string (md_SessionID x))
     @ unless (md_Sender x = []) ''sender'' (ms_string (md_Sender x))
     @ unless (md_Timestamp x = None) ''timestamp'' ((ms_ptr ms_time) (md_Timestamp x))
     @ unless (md_TimestampToken x = []) ''timestamp_token'' (ms_string (md_TimestampToken x))
     @ unless (md_ExpiresAt x = None) ''expires_at'' ((ms_ptr ms_time) (md_ExpiresAt x))
     @ unless (\<not> md_Encrypted x) ''encrypted'' (ms_bool (md_Encrypted x))
     @ unless (md_Epoch x = None) ''epoch'' ((ms_ptr ms_int) (md_Epoch x))
     @ unless (md_Signature x = []) ''signature'' (ms_string (md_Signature x))
     @ unless (md_IdentityAssertions x = []) ''identity_assertions'' ((ms_list ms_IdentityAssertion) (md_IdentityAssertions x))
     @ unless (md_RelayChain x = []) ''relay_chain'' ((ms_list ms_RelayEntry) (md_RelayChain x))
     @ unless (md_TraceID x = []) ''trace_id'' (ms_string (md_TraceID x))
     @ unless (md_SenderDelegate x = None) ''sender_delegate'' ((ms_ptr ms_SenderDelegate) (md_SenderDelegate x))
     @ unless (md_DeliverAfter x = None) ''deliver_after'' ((ms_ptr ms_time) (md_DeliverAfter x)))"

record SecurityMode =
  sm_Mode :: "bytes"
  sm_MinTLSVersion :: "bytes"
  sm_CipherSuites :: "int list"
  sm_CipherSuite :: "int option"
  sm_MLSGroupInfo :: "bytes"
  sm_EncryptedCapabilities :: "bytes list"

definition zero_SecurityMode :: SecurityMode where
  "zero_SecurityMode = \<lparr>sm_Mode = [], sm_MinTLSVersion = [], sm_CipherSuites = [], sm_CipherSuite = None, sm_MLSGroupInfo = [], sm_EncryptedCapabilities = []\<rparr>"

definition fields_SecurityMode :: "SecurityMode fields" where
  "fields_SecurityMode =
    [(''mode'', field sm_Mode sm_Mode_update un_string),
     (''min_tls_version'', field sm_MinTLSVersion sm_MinTLSVersion_update un_string),
     (''cipher_suites'', field sm_CipherSuites sm_CipherSuites_update (un_list 0 un_int)),
     (''cipher_suite'', field sm_CipherSuite sm_CipherSuite_update (un_ptr 0 un_int)),
     (''mls_group_info'', field sm_MLSGroupInfo sm_MLSGroupInfo_update un_string),
     (''encrypted_capabilities'', field sm_EncryptedCapabilities sm_EncryptedCapabilities_update (un_list [] un_string))]"

definition un_SecurityMode :: "SecurityMode decoder" where
  "un_SecurityMode = un_struct fields_SecurityMode"

definition ms_SecurityMode :: "SecurityMode \<Rightarrow> bytes option" where
  "ms_SecurityMode x = ms_obj (
     always ''mode'' (ms_string (sm_Mode x))
     @ unless (sm_MinTLSVersion x = []) ''min_tls_version'' (ms_string (sm_MinTLSVersion x))
     @ unless (sm_CipherSuites x = []) ''cipher_suites'' ((ms_list ms_int) (sm_CipherSuites x))
     @ unless (sm_CipherSuite x = None) ''cipher_suite'' ((ms_ptr ms_int) (sm_CipherSuite x))
     @ unless (sm_MLSGroupInfo x = []) ''mls_group_info'' (ms_string (sm_MLSGroupInfo x))
     @ unless (sm_EncryptedCapabilities x = []) ''encrypted_capabilities'' ((ms_list ms_string) (sm_EncryptedCapabilities x)))"

record MessagingCap =
  mc_MaxSize :: "int"

definition zero_MessagingCap :: MessagingCap where
  "zero_MessagingCap = \<lparr>mc_MaxSize = 0\<rparr>"

definition fields_MessagingCap :: "MessagingCap fields" where
  "fields_MessagingCap =
    [(''max_size'', field mc_MaxSize mc_MaxSize_update un_int)]"

definition un_MessagingCap :: "MessagingCap decoder" where
  "un_MessagingCap = un_struct fields_MessagingCap"

definition ms_MessagingCap :: "MessagingCap \<Rightarrow> bytes option" where
  "ms_MessagingCap x = ms_obj (
     always ''max_size'' (ms_int (mc_MaxSize x)))"

record FlowsCap =
  flc_MaxConcurrent :: "int"

definition zero_FlowsCap :: FlowsCap where
  "zero_FlowsCap = \<lparr>flc_MaxConcurrent = 0\<rparr>"

definition fields_FlowsCap :: "FlowsCap fields" where
  "fields_FlowsCap =
    [(''max_concurrent'', field flc_MaxConcurrent flc_MaxConcurrent_update un_int)]"

definition un_FlowsCap :: "FlowsCap decoder" where
  "un_FlowsCap = un_struct fields_FlowsCap"

definition ms_FlowsCap :: "FlowsCap \<Rightarrow> bytes option" where
  "ms_FlowsCap x = ms_obj (
     always ''max_concurrent'' (ms_int (flc_MaxConcurrent x)))"

record SignCap =
  sgc_ProofTypes :: "bytes list"

definition zero_SignCap :: SignCap where
  "zero_SignCap = \<lparr>sgc_ProofTypes = []\<rparr>"

definition fields_SignCap :: "SignCap fields" where
  "fields_SignCap =
    [(''proof_types'', field sgc_ProofTypes sgc_ProofTypes_update (un_list [] un_string))]"

definition un_SignCap :: "SignCap decoder" where
  "un_SignCap = un_struct fields_SignCap"

definition ms_SignCap :: "SignCap \<Rightarrow> bytes option" where
  "ms_SignCap x = ms_obj (
     unless (sgc_ProofTypes x = []) ''proof_types'' ((ms_list ms_string) (sgc_ProofTypes x)))"

record MCPCap =
  mcp_Tools :: "bool"
  mcp_Resources :: "bool"
  mcp_Prompts :: "bool"

definition zero_MCPCap :: MCPCap where
  "zero_MCPCap = \<lparr>mcp_Tools = False, mcp_Resources = False, mcp_Prompts = False\<rparr>"

definition fields_MCPCap :: "MCPCap fields" where
  "fields_MCPCap =
    [(''tools'', field mcp_Tools mcp_Tools_update un_bool),
     (''resources'', field mcp_Resources mcp_Resources_update un_bool),
     (''prompts'', field mcp_Prompts mcp_Prompts_update un_bool)]"

definition un_MCPCap :: "MCPCap decoder" where
  "un_MCPCap = un_struct fields_MCPCap"

definition ms_MCPCap :: "MCPCap \<Rightarrow> bytes option" where
  "ms_MCPCap x = ms_obj (
     unless (\<not> mcp_Tools x) ''tools'' (ms_bool (mcp_Tools x))
     @ unless (\<not> mcp_Resources x) ''resources'' (ms_bool (mcp_Resources x))
     @ unless (\<not> mcp_Prompts x) ''prompts'' (ms_bool (mcp_Prompts x)))"

record RelayCap =
  rlc_Destinations :: "bytes list"

definition zero_RelayCap :: RelayCap where
  "zero_RelayCap = \<lparr>rlc_Destinations = []\<rparr>"

definition fields_RelayCap :: "RelayCap fields" where
  "fields_RelayCap =
    [(''destinations'', field rlc_Destinations rlc_Destinations_update (un_list [] un_string))]"

definition un_RelayCap :: "RelayCap decoder" where
  "un_RelayCap = un_struct fields_RelayCap"

definition ms_RelayCap :: "RelayCap \<Rightarrow> bytes option" where
  "ms_RelayCap x = ms_obj (
     unless (rlc_Destinations x = []) ''destinations'' ((ms_list ms_string) (rlc_Destinations x)))"

record OfflineCap =
  ofc_MaxQueued :: "int"
  ofc_TTL :: "int"

definition zero_OfflineCap :: OfflineCap where
  "zero_OfflineCap = \<lparr>ofc_MaxQueued = 0, ofc_TTL = 0\<rparr>"

definition fields_OfflineCap :: "OfflineCap fields" where
  "fields_OfflineCap =
    [(''max_queued'', field ofc_MaxQueued ofc_MaxQueued_update un_int),
     (''ttl'', field ofc_TTL ofc_TTL_update un_int)]"

definition un_OfflineCap :: "OfflineCap decoder" where
  "un_OfflineCap = un_struct fields_OfflineCap"

definition ms_OfflineCap :: "OfflineCap \<Rightarrow> bytes option" where
  "ms_OfflineCap x = ms_obj (
     unless (ofc_MaxQueued x = 0) ''max_queued'' (ms_int (ofc_MaxQueued x))
     @ unless (ofc_TTL x = 0) ''ttl'' (ms_int (ofc_TTL x)))"

record ResolveCap =
  rsc_SupportedTypes :: "bytes list"

definition zero_ResolveCap :: ResolveCap where
  "zero_ResolveCap = \<lparr>rsc_SupportedTypes = []\<rparr>"

definition fields_ResolveCap :: "ResolveCap fields" where
  "fields_ResolveCap =
    [(''supported_types'', field rsc_SupportedTypes rsc_SupportedTypes_update (un_list [] un_string))]"

definition un_ResolveCap :: "ResolveCap decoder" where
  "un_ResolveCap = un_struct fields_ResolveCap"

definition ms_ResolveCap :: "ResolveCap \<Rightarrow> bytes option" where
  "ms_ResolveCap x = ms_obj (
     unless (rsc_SupportedTypes x = []) ''supported_types'' ((ms_list ms_string) (rsc_SupportedTypes x)))"

lemmas types_codec [codec] =
  fields_TrustHint_def un_TrustHint_def ms_TrustHint_def zero_TrustHint_def fields_IdentityAssertion_def un_IdentityAssertion_def ms_IdentityAssertion_def zero_IdentityAssertion_def fields_RelayEntry_def un_RelayEntry_def ms_RelayEntry_def zero_RelayEntry_def fields_DelegateAuthorization_def un_DelegateAuthorization_def ms_DelegateAuthorization_def zero_DelegateAuthorization_def fields_SenderDelegate_def un_SenderDelegate_def ms_SenderDelegate_def zero_SenderDelegate_def fields_Metadata_def un_Metadata_def ms_Metadata_def zero_Metadata_def fields_SecurityMode_def un_SecurityMode_def ms_SecurityMode_def zero_SecurityMode_def

end
