(* ===== verification/Wmp_Methods.thy ===== *)
theory Wmp_Methods
  imports Wmp_Types
begin

text \<open>
  Method names, params and results of the WMP methods (methods.go), in the form described
  in \<open>Wmp_Types\<close>, and the validation of credential notifications.
\<close>

section \<open>Method names\<close>

definition MethodSessionCreate :: bytes where
  [simp]: "MethodSessionCreate = ''wmp.session.create''"

definition MethodSessionResume :: bytes where
  [simp]: "MethodSessionResume = ''wmp.session.resume''"

definition MethodSessionClose :: bytes where
  [simp]: "MethodSessionClose = ''wmp.session.close''"

definition MethodSessionAuthenticate :: bytes where
  [simp]: "MethodSessionAuthenticate = ''wmp.session.authenticate''"

definition MethodMessageDeliver :: bytes where
  [simp]: "MethodMessageDeliver = ''wmp.message.deliver''"

definition MethodMessageAck :: bytes where
  [simp]: "MethodMessageAck = ''wmp.message.ack''"

definition MethodMessagePoll :: bytes where
  [simp]: "MethodMessagePoll = ''wmp.message.poll''"

definition MethodMessageStatus :: bytes where
  [simp]: "MethodMessageStatus = ''wmp.message.status''"

definition MethodCapabilityUpdate :: bytes where
  [simp]: "MethodCapabilityUpdate = ''wmp.capability.update''"

definition MethodCapabilityList :: bytes where
  [simp]: "MethodCapabilityList = ''wmp.capability.list''"

definition MethodFlowStart :: bytes where
  [simp]: "MethodFlowStart = ''wmp.flow.start''"

definition MethodFlowProgress :: bytes where
  [simp]: "MethodFlowProgress = ''wmp.flow.progress''"

definition MethodFlowAction :: bytes where
  [simp]: "MethodFlowAction = ''wmp.flow.action''"

definition MethodFlowComplete :: bytes where
  [simp]: "MethodFlowComplete = ''wmp.flow.complete''"

definition MethodFlowError :: bytes where
  [simp]: "MethodFlowError = ''wmp.flow.error''"

definition MethodFlowCancel :: bytes where
  [simp]: "MethodFlowCancel = ''wmp.flow.cancel''"

definition MethodCredentialNotification :: bytes where
  [simp]: "MethodCredentialNotification = ''wmp.credential.notification''"

definition MethodResolve :: bytes where
  [simp]: "MethodResolve = ''wmp.resolve''"

definition MethodRelayRegister :: bytes where
  [simp]: "MethodRelayRegister = ''wmp.relay.register''"

section \<open>Reasons, states and types\<close>

definition ReasonComplete :: bytes where
  "ReasonComplete = ''complete''"

definition ReasonTimeout :: bytes where
  "ReasonTimeout = ''timeout''"

definition ReasonError :: bytes where
  "ReasonError = ''error''"

definition ReasonUserCancelled :: bytes where
  "ReasonUserCancelled = ''user_cancelled''"

definition AckReceived :: bytes where
  "AckReceived = ''received''"

definition AckRead :: bytes where
  "AckRead = ''read''"

definition AckProcessed :: bytes where
  "AckProcessed = ''processed''"

definition AckFailed :: bytes where
  "AckFailed = ''failed''"

definition FlowTypeApproval :: bytes where
  "FlowTypeApproval = ''approval''"

definition FlowTypeSign :: bytes where
  "FlowTypeSign = ''sign''"

definition FlowTypeMessage :: bytes where
  "FlowTypeMessage = ''message''"

definition ResolveTypeVCTM :: bytes where
  "ResolveTypeVCTM = ''vctm''"

definition ResolveTypeIssuerMetadata :: bytes where
  "ResolveTypeIssuerMetadata = ''issuer_metadata''"

definition ResolveTypeTrust :: bytes where
  "ResolveTypeTrust = ''trust''"

definition ResolveTypeEndpoint :: bytes where
  "ResolveTypeEndpoint = ''endpoint''"

definition ResolveTypeOpenIDFederation :: bytes where
  "ResolveTypeOpenIDFederation = ''openid_federation''"

definition CancelReasonUserCancelled :: bytes where
  "CancelReasonUserCancelled = ''user_cancelled''"

definition CancelReasonSuperseded :: bytes where
  "CancelReasonSuperseded = ''superseded''"

definition CancelReasonNoLongerNeeded :: bytes where
  "CancelReasonNoLongerNeeded = ''no_longer_needed''"

definition MessageStatusQueued :: bytes where
  "MessageStatusQueued = ''queued''"

definition MessageStatusDelivered :: bytes where
  "MessageStatusDelivered = ''delivered''"

definition MessageStatusExpired :: bytes where
  "MessageStatusExpired = ''expired''"

definition MessageStatusDropped :: bytes where
  "MessageStatusDropped = ''dropped''"

definition AuthTypeBearer :: bytes where
  "AuthTypeBearer = ''bearer''"

definition AuthTypeDPoP :: bytes where
  "AuthTypeDPoP = ''dpop''"

definition AuthTypeMTLS :: bytes where
  "AuthTypeMTLS = ''mtls''"

definition AuthTypeSignedChallenge :: bytes where
  "AuthTypeSignedChallenge = ''signed_challenge''"

definition AuthTypeX5C :: bytes where
  "AuthTypeX5C = ''x5c''"

definition AuthTypeDIDAuth :: bytes where
  "AuthTypeDIDAuth = ''did_auth''"

definition ServiceClassBestEffort :: bytes where
  "ServiceClassBestEffort = ''best_effort''"

definition ServiceClassStandard :: bytes where
  "ServiceClassStandard = ''standard''"

definition ServiceClassRegistered :: bytes where
  "ServiceClassRegistered = ''registered''"

definition ServiceClassCertified :: bytes where
  "ServiceClassCertified = ''certified''"

section \<open>Params and results\<close>

record AuthObject =
  ao_Type :: "bytes"
  ao_Token :: "bytes"
  ao_Proof :: "bytes"
  ao_Challenge :: "bytes"
  ao_Signature :: "bytes"
  ao_X5C :: "bytes list"
  ao_DIDAuth :: "raw"

definition zero_AuthObject :: AuthObject where
  "zero_AuthObject = \<lparr>ao_Type = [], ao_Token = [], ao_Proof = [], ao_Challenge = [], ao_Signature = [], ao_X5C = [], ao_DIDAuth = None\<rparr>"

definition fields_AuthObject :: "AuthObject fields" where
  "fields_AuthObject =
    [(''type'', field ao_Type ao_Type_update un_string),
     (''token'', field ao_Token ao_Token_update un_string),
     (''proof'', field ao_Proof ao_Proof_update un_string),
     (''challenge'', field ao_Challenge ao_Challenge_update un_string),
     (''signature'', field ao_Signature ao_Signature_update un_string),
     (''x5c'', field ao_X5C ao_X5C_update (un_list [] un_string)),
     (''did_auth'', field ao_DIDAuth ao_DIDAuth_update un_raw)]"

definition un_AuthObject :: "AuthObject decoder" where
  "un_AuthObject = un_struct fields_AuthObject"

definition ms_AuthObject :: "AuthObject \<Rightarrow> bytes option" where
  "ms_AuthObject x = ms_obj (
     always ''type'' (ms_string (ao_Type x))
     @ unless (ao_Token x = []) ''token'' (ms_string (ao_Token x))
     @ unless (ao_Proof x = []) ''proof'' (ms_string (ao_Proof x))
     @ unless (ao_Challenge x = []) ''challenge'' (ms_string (ao_Challenge x))
     @ unless (ao_Signature x = []) ''signature'' (ms_string (ao_Signature x))
     @ unless (ao_X5C x = []) ''x5c'' ((ms_list ms_string) (ao_X5C x))
     @ unless (raw_empty (ao_DIDAuth x)) ''did_auth'' (ms_raw (ao_DIDAuth x)))"

record SessionCreateParams =
  scp_WMP :: "Metadata"
  scp_Participants :: "bytes list"
  scp_CapabilitiesOffered :: "Capabilities"
  scp_Security :: "SecurityMode"
  scp_TTL :: "int"
  scp_Auth :: "AuthObject option"
  scp_InvitationNonce :: "bytes"

definition zero_SessionCreateParams :: SessionCreateParams where
  "zero_SessionCreateParams = \<lparr>scp_WMP = zero_Metadata, scp_Participants = [], scp_CapabilitiesOffered = [], scp_Security = zero_SecurityMode, scp_TTL = 0, scp_Auth = None, scp_InvitationNonce = []\<rparr>"

definition fields_SessionCreateParams :: "SessionCreateParams fields" where
  "fields_SessionCreateParams =
    [(''wmp'', field scp_WMP scp_WMP_update un_Metadata),
     (''participants'', field scp_Participants scp_Participants_update (un_list [] un_string)),
     (''capabilities_offered'', field scp_CapabilitiesOffered scp_CapabilitiesOffered_update (un_map None un_raw)),
     (''security'', field scp_Security scp_Security_update un_SecurityMode),
     (''ttl'', field scp_TTL scp_TTL_update un_int),
     (''auth'', field scp_Auth scp_Auth_update (un_ptr zero_AuthObject un_AuthObject)),
     (''invitation_nonce'', field scp_InvitationNonce scp_InvitationNonce_update un_string)]"

definition un_SessionCreateParams :: "SessionCreateParams decoder" where
  "un_SessionCreateParams = un_struct fields_SessionCreateParams"

definition ms_SessionCreateParams :: "SessionCreateParams \<Rightarrow> bytes option" where
  "ms_SessionCreateParams x = ms_obj (
     always ''wmp'' (ms_Metadata (scp_WMP x))
     @ unless (scp_Participants x = []) ''participants'' ((ms_list ms_string) (scp_Participants x))
     @ unless (scp_CapabilitiesOffered x = []) ''capabilities_offered'' ((ms_map ms_raw) (scp_CapabilitiesOffered x))
     @ always ''security'' (ms_SecurityMode (scp_Security x))
     @ unless (scp_TTL x = 0) ''ttl'' (ms_int (scp_TTL x))
     @ unless (scp_Auth x = None) ''auth'' ((ms_ptr ms_AuthObject) (scp_Auth x))
     @ unless (scp_InvitationNonce x = []) ''invitation_nonce'' (ms_string (scp_InvitationNonce x)))"

record SessionCreateResult =
  scr_WMP :: "Metadata"
  scr_Capabilities :: "Capabilities"
  scr_Security :: "SecurityMode"
  scr_Challenge :: "bytes"
  scr_ResumptionToken :: "bytes"

definition zero_SessionCreateResult :: SessionCreateResult where
  "zero_SessionCreateResult = \<lparr>scr_WMP = zero_Metadata, scr_Capabilities = [], scr_Security = zero_SecurityMode, scr_Challenge = [], scr_ResumptionToken = []\<rparr>"

definition fields_SessionCreateResult :: "SessionCreateResult fields" where
  "fields_SessionCreateResult =
    [(''wmp'', field scr_WMP scr_WMP_update un_Metadata),
     (''capabilities'', field scr_Capabilities scr_Capabilities_update (un_map None un_raw)),
     (''security'', field scr_Security scr_Security_update un_SecurityMode),
     (''challenge'', field scr_Challenge scr_Challenge_update un_string),
     (''resumption_token'', field scr_ResumptionToken scr_ResumptionToken_update un_string)]"

definition un_SessionCreateResult :: "SessionCreateResult decoder" where
  "un_SessionCreateResult = un_struct fields_SessionCreateResult"

definition ms_SessionCreateResult :: "SessionCreateResult \<Rightarrow> bytes option" where
  "ms_SessionCreateResult x = ms_obj (
     always ''wmp'' (ms_Metadata (scr_WMP x))
     @ unless (scr_Capabilities x = []) ''capabilities'' ((ms_map ms_raw) (scr_Capabilities x))
     @ always ''security'' (ms_SecurityMode (scr_Security x))
     @ unless (scr_Challenge x = []) ''challenge'' (ms_string (scr_Challenge x))
     @ unless (scr_ResumptionToken x = []) ''resumption_token'' (ms_string (scr_ResumptionToken x)))"

record SessionResumeParams =
  srp_WMP :: "Metadata"
  srp_SessionID :: "bytes"
  srp_ResumptionToken :: "bytes"
  srp_LastReceivedID :: "bytes"

definition zero_SessionResumeParams :: SessionResumeParams where
  "zero_SessionResumeParams = \<lparr>srp_WMP = zero_Metadata, srp_SessionID = [], srp_ResumptionToken = [], srp_LastReceivedID = []\<rparr>"

definition fields_SessionResumeParams :: "SessionResumeParams fields" where
  "fields_SessionResumeParams =
    [(''wmp'', field srp_WMP srp_WMP_update un_Metadata),
     (''session_id'', field srp_SessionID srp_SessionID_update un_string),
     (''resumption_token'', field srp_ResumptionToken srp_ResumptionToken_update un_string),
     (''last_received_id'', field srp_LastReceivedID srp_LastReceivedID_update un_string)]"

definition un_SessionResumeParams :: "SessionResumeParams decoder" where
  "un_SessionResumeParams = un_struct fields_SessionResumeParams"

definition ms_SessionResumeParams :: "SessionResumeParams \<Rightarrow> bytes option" where
  "ms_SessionResumeParams x = ms_obj (
     always ''wmp'' (ms_Metadata (srp_WMP x))
     @ always ''session_id'' (ms_string (srp_SessionID x))
     @ always ''resumption_token'' (ms_string (srp_ResumptionToken x))
     @ unless (srp_LastReceivedID x = []) ''last_received_id'' (ms_string (srp_LastReceivedID x)))"

record SessionResumeResult =
  srr_WMP :: "Metadata"
  srr_Resumed :: "bool"
  srr_ResumptionToken :: "bytes"
  srr_MissedMessages :: "int"
  srr_Capabilities :: "Capabilities"
  srr_Security :: "SecurityMode"

definition zero_SessionResumeResult :: SessionResumeResult where
  "zero_SessionResumeResult = \<lparr>srr_WMP = zero_Metadata, srr_Resumed = False, srr_ResumptionToken = [], srr_MissedMessages = 0, srr_Capabilities = [], srr_Security = zero_SecurityMode\<rparr>"

definition fields_SessionResumeResult :: "SessionResumeResult fields" where
  "fields_SessionResumeResult =
    [(''wmp'', field srr_WMP srr_WMP_update un_Metadata),
     (''resumed'', field srr_Resumed srr_Resumed_update un_bool),
     (''resumption_token'', field srr_ResumptionToken srr_ResumptionToken_update un_string),
     (''missed_messages'', field srr_MissedMessages srr_MissedMessages_update un_int),
     (''capabilities'', field srr_Capabilities srr_Capabilities_update (un_map None un_raw)),
     (''security'', field srr_Security srr_Security_update un_SecurityMode)]"

definition un_SessionResumeResult :: "SessionResumeResult decoder" where
  "un_SessionResumeResult = un_struct fields_SessionResumeResult"

definition ms_SessionResumeResult :: "SessionResumeResult \<Rightarrow> bytes option" where
  "ms_SessionResumeResult x = ms_obj (
     always ''wmp'' (ms_Metadata (srr_WMP x))
     @ always ''resumed'' (ms_bool (srr_Resumed x))
     @ unless (srr_ResumptionToken x = []) ''resumption_token'' (ms_string (srr_ResumptionToken x))
     @ always ''missed_messages'' (ms_int (srr_MissedMessages x))
     @ unless (srr_Capabilities x = []) ''capabilities'' ((ms_map ms_raw) (srr_Capabilities x))
     @ always ''security'' (ms_SecurityMode (srr_Security x)))"

record SessionCloseParams =
  sclp_WMP :: "Metadata"
  sclp_Reason :: "bytes"

definition zero_SessionCloseParams :: SessionCloseParams where
  "zero_SessionCloseParams = \<lparr>sclp_WMP = zero_Metadata, sclp_Reason = []\<rparr>"

definition fields_SessionCloseParams :: "SessionCloseParams fields" where
  "fields_SessionCloseParams =
    [(''wmp'', field sclp_WMP sclp_WMP_update un_Metadata),
     (''reason'', field sclp_Reason sclp_Reason_update un_string)]"

definition un_SessionCloseParams :: "SessionCloseParams decoder" where
  "un_SessionCloseParams = un_struct fields_SessionCloseParams"

definition ms_SessionCloseParams :: "SessionCloseParams \<Rightarrow> bytes option" where
  "ms_SessionCloseParams x = ms_obj (
     always ''wmp'' (ms_Metadata (sclp_WMP x))
     @ always ''reason'' (ms_string (sclp_Reason x)))"

record MessageDeliverParams =
  mdp_WMP :: "Metadata"
  mdp_To :: "bytes list"
  mdp_ContentType :: "bytes"
  mdp_Body :: "raw"
  mdp_Ciphertext :: "bytes"
  mdp_ReplyTo :: "bytes"
  mdp_InReplyTo :: "bytes"
  mdp_MessageType :: "bytes"
  mdp_ConsignmentMode :: "bytes"
  mdp_RecipientAssuranceLevel :: "bytes"
  mdp_ApplicablePolicies :: "bytes list"

definition zero_MessageDeliverParams :: MessageDeliverParams where
  "zero_MessageDeliverParams = \<lparr>mdp_WMP = zero_Metadata, mdp_To = [], mdp_ContentType = [], mdp_Body = None, mdp_Ciphertext = [], mdp_ReplyTo = [], mdp_InReplyTo = [], mdp_MessageType = [], mdp_ConsignmentMode = [], mdp_RecipientAssuranceLevel = [], mdp_ApplicablePolicies = []\<rparr>"

definition fields_MessageDeliverParams :: "MessageDeliverParams fields" where
  "fields_MessageDeliverParams =
    [(''wmp'', field mdp_WMP mdp_WMP_update un_Metadata),
     (''to'', field mdp_To mdp_To_update (un_list [] un_string)),
     (''content_type'', field mdp_ContentType mdp_ContentType_update un_string),
     (''body'', field mdp_Body mdp_Body_update un_raw),
     (''ciphertext'', field mdp_Ciphertext mdp_Ciphertext_update un_string),
     (''reply_to'', field mdp_ReplyTo mdp_ReplyTo_update un_string),
     (''in_reply_to'', field mdp_InReplyTo mdp_InReplyTo_update un_string),
     (''message_type'', field mdp_MessageType mdp_MessageType_update un_string),
     (''consignment_mode'', field mdp_ConsignmentMode mdp_ConsignmentMode_update un_string),
     (''recipient_assurance_level'', field mdp_RecipientAssuranceLevel mdp_RecipientAssuranceLevel_update un_string),
     (''applicable_policies'', field mdp_ApplicablePolicies mdp_ApplicablePolicies_update (un_list [] un_string))]"

definition un_MessageDeliverParams :: "MessageDeliverParams decoder" where
  "un_MessageDeliverParams = un_struct fields_MessageDeliverParams"

definition ms_MessageDeliverParams :: "MessageDeliverParams \<Rightarrow> bytes option" where
  "ms_MessageDeliverParams x = ms_obj (
     always ''wmp'' (ms_Metadata (mdp_WMP x))
     @ unless (mdp_To x = []) ''to'' ((ms_list ms_string) (mdp_To x))
     @ unless (mdp_ContentType x = []) ''content_type'' (ms_string (mdp_ContentType x))
     @ unless (raw_empty (mdp_Body x)) ''body'' (ms_raw (mdp_Body x))
     @ unless (mdp_Ciphertext x = []) ''ciphertext'' (ms_string (mdp_Ciphertext x))
     @ unless (mdp_ReplyTo x = []) ''reply_to'' (ms_string (mdp_ReplyTo x))
     @ unless (mdp_InReplyTo x = []) ''in_reply_to'' (ms_string (mdp_InReplyTo x))
     @ unless (mdp_MessageType x = []) ''message_type'' (ms_string (mdp_MessageType x))
     @ unless (mdp_ConsignmentMode x = []) ''consignment_mode'' (ms_string (mdp_ConsignmentMode x))
     @ unless (mdp_RecipientAssuranceLevel x = []) ''recipient_assurance_level'' (ms_string (mdp_RecipientAssuranceLevel x))
     @ unless (mdp_ApplicablePolicies x = []) ''applicable_policies'' ((ms_list ms_string) (mdp_ApplicablePolicies x)))"

record MessageAckParams =
  map_WMP :: "Metadata"
  map_MessageIDs :: "bytes list option"
  map_Status :: "bytes"

definition zero_MessageAckParams :: MessageAckParams where
  "zero_MessageAckParams = \<lparr>map_WMP = zero_Metadata, map_MessageIDs = None, map_Status = []\<rparr>"

definition fields_MessageAckParams :: "MessageAckParams fields" where
  "fields_MessageAckParams =
    [(''wmp'', field map_WMP map_WMP_update un_Metadata),
     (''message_ids'', field map_MessageIDs map_MessageIDs_update (un_slice [] un_string)),
     (''status'', field map_Status map_Status_update un_string)]"

definition un_MessageAckParams :: "MessageAckParams decoder" where
  "un_MessageAckParams = un_struct fields_MessageAckParams"

definition ms_MessageAckParams :: "MessageAckParams \<Rightarrow> bytes option" where
  "ms_MessageAckParams x = ms_obj (
     always ''wmp'' (ms_Metadata (map_WMP x))
     @ always ''message_ids'' ((ms_slice ms_string) (map_MessageIDs x))
     @ always ''status'' (ms_string (map_Status x)))"

record MessagePollParams =
  mpp_WMP :: "Metadata"
  mpp_Since :: "bytes"
  mpp_Limit :: "int"

definition zero_MessagePollParams :: MessagePollParams where
  "zero_MessagePollParams = \<lparr>mpp_WMP = zero_Metadata, mpp_Since = [], mpp_Limit = 0\<rparr>"

definition fields_MessagePollParams :: "MessagePollParams fields" where
  "fields_MessagePollParams =
    [(''wmp'', field mpp_WMP mpp_WMP_update un_Metadata),
     (''since'', field mpp_Since mpp_Since_update un_string),
     (''limit'', field mpp_Limit mpp_Limit_update un_int)]"

definition un_MessagePollParams :: "MessagePollParams decoder" where
  "un_MessagePollParams = un_struct fields_MessagePollParams"

definition ms_MessagePollParams :: "MessagePollParams \<Rightarrow> bytes option" where
  "ms_MessagePollParams x = ms_obj (
     always ''wmp'' (ms_Metadata (mpp_WMP x))
     @ unless (mpp_Since x = []) ''since'' (ms_string (mpp_Since x))
     @ unless (mpp_Limit x = 0) ''limit'' (ms_int (mpp_Limit x)))"

record MessagePollResult =
  mpr_WMP :: "Metadata"
  mpr_Messages :: "raw list option"

definition zero_MessagePollResult :: MessagePollResult where
  "zero_MessagePollResult = \<lparr>mpr_WMP = zero_Metadata, mpr_Messages = None\<rparr>"

definition fields_MessagePollResult :: "MessagePollResult fields" where
  "fields_MessagePollResult =
    [(''wmp'', field mpr_WMP mpr_WMP_update un_Metadata),
     (''messages'', field mpr_Messages mpr_Messages_update (un_slice None un_raw))]"

definition un_MessagePollResult :: "MessagePollResult decoder" where
  "un_MessagePollResult = un_struct fields_MessagePollResult"

definition ms_MessagePollResult :: "MessagePollResult \<Rightarrow> bytes option" where
  "ms_MessagePollResult x = ms_obj (
     always ''wmp'' (ms_Metadata (mpr_WMP x))
     @ always ''messages'' ((ms_slice ms_raw) (mpr_Messages x)))"

record CapabilityUpdateParams =
  cup_WMP :: "Metadata"
  cup_Add :: "Capabilities"
  cup_Remove :: "bytes list"
  cup_Security :: "SecurityMode option"

definition zero_CapabilityUpdateParams :: CapabilityUpdateParams where
  "zero_CapabilityUpdateParams = \<lparr>cup_WMP = zero_Metadata, cup_Add = [], cup_Remove = [], cup_Security = None\<rparr>"

definition fields_CapabilityUpdateParams :: "CapabilityUpdateParams fields" where
  "fields_CapabilityUpdateParams =
    [(''wmp'', field cup_WMP cup_WMP_update un_Metadata),
     (''add'', field cup_Add cup_Add_update (un_map None un_raw)),
     (''remove'', field cup_Remove cup_Remove_update (un_list [] un_string)),
     (''security'', field cup_Security cup_Security_update (un_ptr zero_SecurityMode un_SecurityMode))]"

definition un_CapabilityUpdateParams :: "CapabilityUpdateParams decoder" where
  "un_CapabilityUpdateParams = un_struct fields_CapabilityUpdateParams"

definition ms_CapabilityUpdateParams :: "CapabilityUpdateParams \<Rightarrow> bytes option" where
  "ms_CapabilityUpdateParams x = ms_obj (
     always ''wmp'' (ms_Metadata (cup_WMP x))
     @ unless (cup_Add x = []) ''add'' ((ms_map ms_raw) (cup_Add x))
     @ unless (cup_Remove x = []) ''remove'' ((ms_list ms_string) (cup_Remove x))
     @ unless (cup_Security x = None) ''security'' ((ms_ptr ms_SecurityMode) (cup_Security x)))"

record CapabilityUpdateResult =
  cur_WMP :: "Metadata"
  cur_Capabilities :: "Capabilities option"
  cur_Security :: "SecurityMode"

definition zero_CapabilityUpdateResult :: CapabilityUpdateResult where
  "zero_CapabilityUpdateResult = \<lparr>cur_WMP = zero_Metadata, cur_Capabilities = None, cur_Security = zero_SecurityMode\<rparr>"

definition fields_CapabilityUpdateResult :: "CapabilityUpdateResult fields" where
  "fields_CapabilityUpdateResult =
    [(''wmp'', field cur_WMP cur_WMP_update un_Metadata),
     (''capabilities'', field cur_Capabilities cur_Capabilities_update (un_ptr [] (un_map None un_raw))),
     (''security'', field cur_Security cur_Security_update un_SecurityMode)]"

definition un_CapabilityUpdateResult :: "CapabilityUpdateResult decoder" where
  "un_CapabilityUpdateResult = un_struct fields_CapabilityUpdateResult"

definition ms_CapabilityUpdateResult :: "CapabilityUpdateResult \<Rightarrow> bytes option" where
  "ms_CapabilityUpdateResult x = ms_obj (
     always ''wmp'' (ms_Metadata (cur_WMP x))
     @ always ''capabilities'' ((ms_ptr (ms_map ms_raw)) (cur_Capabilities x))
     @ always ''security'' (ms_SecurityMode (cur_Security x)))"

record CapabilityListParams =
  clp_WMP :: "Metadata"

definition zero_CapabilityListParams :: CapabilityListParams where
  "zero_CapabilityListParams = \<lparr>clp_WMP = zero_Metadata\<rparr>"

definition fields_CapabilityListParams :: "CapabilityListParams fields" where
  "fields_CapabilityListParams =
    [(''wmp'', field clp_WMP clp_WMP_update un_Metadata)]"

definition un_CapabilityListParams :: "CapabilityListParams decoder" where
  "un_CapabilityListParams = un_struct fields_CapabilityListParams"

definition ms_CapabilityListParams :: "CapabilityListParams \<Rightarrow> bytes option" where
  "ms_CapabilityListParams x = ms_obj (
     always ''wmp'' (ms_Metadata (clp_WMP x)))"

record CapabilityListResult =
  clr_WMP :: "Metadata"
  clr_Capabilities :: "Capabilities option"
  clr_Security :: "SecurityMode"

definition zero_CapabilityListResult :: CapabilityListResult where
  "zero_CapabilityListResult = \<lparr>clr_WMP = zero_Metadata, clr_Capabilities = None, clr_Security = zero_SecurityMode\<rparr>"

definition fields_CapabilityListResult :: "CapabilityListResult fields" where
  "fields_CapabilityListResult =
    [(''wmp'', field clr_WMP clr_WMP_update un_Metadata),
     (''capabilities'', field clr_Capabilities clr_Capabilities_update (un_ptr [] (un_map None un_raw))),
     (''security'', field clr_Security clr_Security_update un_SecurityMode)]"

definition un_CapabilityListResult :: "CapabilityListResult decoder" where
  "un_CapabilityListResult = un_struct fields_CapabilityListResult"

definition ms_CapabilityListResult :: "CapabilityListResult \<Rightarrow> bytes option" where
  "ms_CapabilityListResult x = ms_obj (
     always ''wmp'' (ms_Metadata (clr_WMP x))
     @ always ''capabilities'' ((ms_ptr (ms_map ms_raw)) (clr_Capabilities x))
     @ always ''security'' (ms_SecurityMode (clr_Security x)))"

record FlowStartParams =
  fsp_WMP :: "Metadata"
  fsp_FlowType :: "bytes"
  fsp_FlowID :: "bytes"
  fsp_Params :: "raw"
  fsp_Timeout :: "int"

definition zero_FlowStartParams :: FlowStartParams where
  "zero_FlowStartParams = \<lparr>fsp_WMP = zero_Metadata, fsp_FlowType = [], fsp_FlowID = [], fsp_Params = None, fsp_Timeout = 0\<rparr>"

definition fields_FlowStartParams :: "FlowStartParams fields" where
  "fields_FlowStartParams =
    [(''wmp'', field fsp_WMP fsp_WMP_update un_Metadata),
     (''flow_type'', field fsp_FlowType fsp_FlowType_update un_string),
     (''flow_id'', field fsp_FlowID fsp_FlowID_update un_string),
     (''params'', field fsp_Params fsp_Params_update un_raw),
     (''timeout'', field fsp_Timeout fsp_Timeout_update un_int)]"

definition un_FlowStartParams :: "FlowStartParams decoder" where
  "un_FlowStartParams = un_struct fields_FlowStartParams"

definition ms_FlowStartParams :: "FlowStartParams \<Rightarrow> bytes option" where
  "ms_FlowStartParams x = ms_obj (
     always ''wmp'' (ms_Metadata (fsp_WMP x))
     @ always ''flow_type'' (ms_string (fsp_FlowType x))
     @ always ''flow_id'' (ms_string (fsp_FlowID x))
     @ unless (raw_empty (fsp_Params x)) ''params'' (ms_raw (fsp_Params x))
     @ unless (fsp_Timeout x = 0) ''timeout'' (ms_int (fsp_Timeout x)))"

record FlowStartResult =
  fsr_WMP :: "Metadata"
  fsr_FlowID :: "bytes"
  fsr_FlowType :: "bytes"

definition zero_FlowStartResult :: FlowStartResult where
  "zero_FlowStartResult = \<lparr>fsr_WMP = zero_Metadata, fsr_FlowID = [], fsr_FlowType = []\<rparr>"

definition fields_FlowStartResult :: "FlowStartResult fields" where
  "fields_FlowStartResult =
    [(''wmp'', field fsr_WMP fsr_WMP_update un_Metadata),
     (''flow_id'', field fsr_FlowID fsr_FlowID_update un_string),
     (''flow_type'', field fsr_FlowType fsr_FlowType_update un_string)]"

definition un_FlowStartResult :: "FlowStartResult decoder" where
  "un_FlowStartResult = un_struct fields_FlowStartResult"

definition ms_FlowStartResult :: "FlowStartResult \<Rightarrow> bytes option" where
  "ms_FlowStartResult x = ms_obj (
     always ''wmp'' (ms_Metadata (fsr_WMP x))
     @ always ''flow_id'' (ms_string (fsr_FlowID x))
     @ always ''flow_type'' (ms_string (fsr_FlowType x)))"

record FlowProgressParams =
  fpp_WMP :: "Metadata"
  fpp_FlowID :: "bytes"
  fpp_Step :: "bytes"
  fpp_Payload :: "raw"

definition zero_FlowProgressParams :: FlowProgressParams where
  "zero_FlowProgressParams = \<lparr>fpp_WMP = zero_Metadata, fpp_FlowID = [], fpp_Step = [], fpp_Payload = None\<rparr>"

definition fields_FlowProgressParams :: "FlowProgressParams fields" where
  "fields_FlowProgressParams =
    [(''wmp'', field fpp_WMP fpp_WMP_update un_Metadata),
     (''flow_id'', field fpp_FlowID fpp_FlowID_update un_string),
     (''step'', field fpp_Step fpp_Step_update un_string),
     (''payload'', field fpp_Payload fpp_Payload_update un_raw)]"

definition un_FlowProgressParams :: "FlowProgressParams decoder" where
  "un_FlowProgressParams = un_struct fields_FlowProgressParams"

definition ms_FlowProgressParams :: "FlowProgressParams \<Rightarrow> bytes option" where
  "ms_FlowProgressParams x = ms_obj (
     always ''wmp'' (ms_Metadata (fpp_WMP x))
     @ always ''flow_id'' (ms_string (fpp_FlowID x))
     @ always ''step'' (ms_string (fpp_Step x))
     @ unless (raw_empty (fpp_Payload x)) ''payload'' (ms_raw (fpp_Payload x)))"

record FlowActionParams =
  fap_WMP :: "Metadata"
  fap_FlowID :: "bytes"
  fap_Action :: "bytes"
  fap_Params :: "raw"

definition zero_FlowActionParams :: FlowActionParams where
  "zero_FlowActionParams = \<lparr>fap_WMP = zero_Metadata, fap_FlowID = [], fap_Action = [], fap_Params = None\<rparr>"

definition fields_FlowActionParams :: "FlowActionParams fields" where
  "fields_FlowActionParams =
    [(''wmp'', field fap_WMP fap_WMP_update un_Metadata),
     (''flow_id'', field fap_FlowID fap_FlowID_update un_string),
     (''action'', field fap_Action fap_Action_update un_string),
     (''params'', field fap_Params fap_Params_update un_raw)]"

definition un_FlowActionParams :: "FlowActionParams decoder" where
  "un_FlowActionParams = un_struct fields_FlowActionParams"

definition ms_FlowActionParams :: "FlowActionParams \<Rightarrow> bytes option" where
  "ms_FlowActionParams x = ms_obj (
     always ''wmp'' (ms_Metadata (fap_WMP x))
     @ always ''flow_id'' (ms_string (fap_FlowID x))
     @ always ''action'' (ms_string (fap_Action x))
     @ unless (raw_empty (fap_Params x)) ''params'' (ms_raw (fap_Params x)))"

record FlowActionResult =
  far_WMP :: "Metadata"
  far_FlowID :: "bytes"
  far_Action :: "bytes"
  far_Status :: "bytes"

definition zero_FlowActionResult :: FlowActionResult where
  "zero_FlowActionResult = \<lparr>far_WMP = zero_Metadata, far_FlowID = [], far_Action = [], far_Status = []\<rparr>"

definition fields_FlowActionResult :: "FlowActionResult fields" where
  "fields_FlowActionResult =
    [(''wmp'', field far_WMP far_WMP_update un_Metadata),
     (''flow_id'', field far_FlowID far_FlowID_update un_string),
     (''action'', field far_Action far_Action_update un_string),
     (''status'', field far_Status far_Status_update un_string)]"

definition un_FlowActionResult :: "FlowActionResult decoder" where
  "un_FlowActionResult = un_struct fields_FlowActionResult"

definition ms_FlowActionResult :: "FlowActionResult \<Rightarrow> bytes option" where
  "ms_FlowActionResult x = ms_obj (
     always ''wmp'' (ms_Metadata (far_WMP x))
     @ always ''flow_id'' (ms_string (far_FlowID x))
     @ always ''action'' (ms_string (far_Action x))
     @ always ''status'' (ms_string (far_Status x)))"

record FlowCompleteParams =
  fcp_WMP :: "Metadata"
  fcp_FlowID :: "bytes"
  fcp_Result :: "raw"

definition zero_FlowCompleteParams :: FlowCompleteParams where
  "zero_FlowCompleteParams = \<lparr>fcp_WMP = zero_Metadata, fcp_FlowID = [], fcp_Result = None\<rparr>"

definition fields_FlowCompleteParams :: "FlowCompleteParams fields" where
  "fields_FlowCompleteParams =
    [(''wmp'', field fcp_WMP fcp_WMP_update un_Metadata),
     (''flow_id'', field fcp_FlowID fcp_FlowID_update un_string),
     (''result'', field fcp_Result fcp_Result_update un_raw)]"

definition un_FlowCompleteParams :: "FlowCompleteParams decoder" where
  "un_FlowCompleteParams = un_struct fields_FlowCompleteParams"

definition ms_FlowCompleteParams :: "FlowCompleteParams \<Rightarrow> bytes option" where
  "ms_FlowCompleteParams x = ms_obj (
     always ''wmp'' (ms_Metadata (fcp_WMP x))
     @ always ''flow_id'' (ms_string (fcp_FlowID x))
     @ unless (raw_empty (fcp_Result x)) ''result'' (ms_raw (fcp_Result x)))"

record FlowErrorParams =
  fep_WMP :: "Metadata"
  fep_FlowID :: "bytes"
  fep_Code :: "int"
  fep_Message :: "bytes"
  fep_Data :: "raw"

definition zero_FlowErrorParams :: FlowErrorParams where
  "zero_FlowErrorParams = \<lparr>fep_WMP = zero_Metadata, fep_FlowID = [], fep_Code = 0, fep_Message = [], fep_Data = None\<rparr>"

definition fields_FlowErrorParams :: "FlowErrorParams fields" where
  "fields_FlowErrorParams =
    [(''wmp'', field fep_WMP fep_WMP_update un_Metadata),
     (''flow_id'', field fep_FlowID fep_FlowID_update un_string),
     (''code'', field fep_Code fep_Code_update un_int),
     (''message'', field fep_Message fep_Message_update un_string),
     (''data'', field fep_Data fep_Data_update un_raw)]"

definition un_FlowErrorParams :: "FlowErrorParams decoder" where
  "un_FlowErrorParams = un_struct fields_FlowErrorParams"

definition ms_FlowErrorParams :: "FlowErrorParams \<Rightarrow> bytes option" where
  "ms_FlowErrorParams x = ms_obj (
     always ''wmp'' (ms_Metadata (fep_WMP x))
     @ always ''flow_id'' (ms_string (fep_FlowID x))
     @ always ''code'' (ms_int (fep_Code x))
     @ always ''message'' (ms_string (fep_Message x))
     @ unless (raw_empty (fep_Data x)) ''data'' (ms_raw (fep_Data x)))"

record CredentialNotificationParams =
  cnp_WMP :: "Metadata"
  cnp_FlowID :: "bytes"
  cnp_NotificationID :: "bytes"
  cnp_Event :: "bytes"
  cnp_EventDescription :: "bytes"

definition zero_CredentialNotificationParams :: CredentialNotificationParams where
  "zero_CredentialNotificationParams = \<lparr>cnp_WMP = zero_Metadata, cnp_FlowID = [], cnp_NotificationID = [], cnp_Event = [], cnp_EventDescription = []\<rparr>"

definition fields_CredentialNotificationParams :: "CredentialNotificationParams fields" where
  "fields_CredentialNotificationParams =
    [(''wmp'', field cnp_WMP cnp_WMP_update un_Metadata),
     (''flow_id'', field cnp_FlowID cnp_FlowID_update un_string),
     (''notification_id'', field cnp_NotificationID cnp_NotificationID_update un_string),
     (''event'', field cnp_Event cnp_Event_update un_string),
     (''event_description'', field cnp_EventDescription cnp_EventDescription_update un_string)]"

definition un_CredentialNotificationParams :: "CredentialNotificationParams decoder" where
  "un_CredentialNotificationParams = un_struct fields_CredentialNotificationParams"

definition ms_CredentialNotificationParams :: "CredentialNotificationParams \<Rightarrow> bytes option" where
  "ms_CredentialNotificationParams x = ms_obj (
     always ''wmp'' (ms_Metadata (cnp_WMP x))
     @ always ''flow_id'' (ms_string (cnp_FlowID x))
     @ always ''notification_id'' (ms_string (cnp_NotificationID x))
     @ always ''event'' (ms_string (cnp_Event x))
     @ unless (cnp_EventDescription x = []) ''event_description'' (ms_string (cnp_EventDescription x)))"

record ResolveParams =
  rp_WMP :: "Metadata"
  rp_Type :: "bytes"
  rp_URI :: "bytes"
  rp_Options :: "raw"

definition zero_ResolveParams :: ResolveParams where
  "zero_ResolveParams = \<lparr>rp_WMP = zero_Metadata, rp_Type = [], rp_URI = [], rp_Options = None\<rparr>"

definition fields_ResolveParams :: "ResolveParams fields" where
  "fields_ResolveParams =
    [(''wmp'', field rp_WMP rp_WMP_update un_Metadata),
     (''type'', field rp_Type rp_Type_update un_string),
     (''uri'', field rp_URI rp_URI_update un_string),
     (''options'', field rp_Options rp_Options_update un_raw)]"

definition un_ResolveParams :: "ResolveParams decoder" where
  "un_ResolveParams = un_struct fields_ResolveParams"

definition ms_ResolveParams :: "ResolveParams \<Rightarrow> bytes option" where
  "ms_ResolveParams x = ms_obj (
     always ''wmp'' (ms_Metadata (rp_WMP x))
     @ always ''type'' (ms_string (rp_Type x))
     @ always ''uri'' (ms_string (rp_URI x))
     @ unless (raw_empty (rp_Options x)) ''options'' (ms_raw (rp_Options x)))"

record ResolveResult =
  rr_WMP :: "Metadata"
  rr_Type :: "bytes"
  rr_URI :: "bytes"
  rr_Metadata :: "raw"
  rr_TrustInfo :: "raw"

definition zero_ResolveResult :: ResolveResult where
  "zero_ResolveResult = \<lparr>rr_WMP = zero_Metadata, rr_Type = [], rr_URI = [], rr_Metadata = None, rr_TrustInfo = None\<rparr>"

definition fields_ResolveResult :: "ResolveResult fields" where
  "fields_ResolveResult =
    [(''wmp'', field rr_WMP rr_WMP_update un_Metadata),
     (''type'', field rr_Type rr_Type_update un_string),
     (''uri'', field rr_URI rr_URI_update un_string),
     (''metadata'', field rr_Metadata rr_Metadata_update un_raw),
     (''trust_info'', field rr_TrustInfo rr_TrustInfo_update un_raw)]"

definition un_ResolveResult :: "ResolveResult decoder" where
  "un_ResolveResult = un_struct fields_ResolveResult"

definition ms_ResolveResult :: "ResolveResult \<Rightarrow> bytes option" where
  "ms_ResolveResult x = ms_obj (
     always ''wmp'' (ms_Metadata (rr_WMP x))
     @ always ''type'' (ms_string (rr_Type x))
     @ always ''uri'' (ms_string (rr_URI x))
     @ always ''metadata'' (ms_raw (rr_Metadata x))
     @ unless (raw_empty (rr_TrustInfo x)) ''trust_info'' (ms_raw (rr_TrustInfo x)))"

record FlowCancelParams =
  fxp_WMP :: "Metadata"
  fxp_FlowID :: "bytes"
  fxp_Reason :: "bytes"

definition zero_FlowCancelParams :: FlowCancelParams where
  "zero_FlowCancelParams = \<lparr>fxp_WMP = zero_Metadata, fxp_FlowID = [], fxp_Reason = []\<rparr>"

definition fields_FlowCancelParams :: "FlowCancelParams fields" where
  "fields_FlowCancelParams =
    [(''wmp'', field fxp_WMP fxp_WMP_update un_Metadata),
     (''flow_id'', field fxp_FlowID fxp_FlowID_update un_string),
     (''reason'', field fxp_Reason fxp_Reason_update un_string)]"

definition un_FlowCancelParams :: "FlowCancelParams decoder" where
  "un_FlowCancelParams = un_struct fields_FlowCancelParams"

definition ms_FlowCancelParams :: "FlowCancelParams \<Rightarrow> bytes option" where
  "ms_FlowCancelParams x = ms_obj (
     always ''wmp'' (ms_Metadata (fxp_WMP x))
     @ always ''flow_id'' (ms_string (fxp_FlowID x))
     @ unless (fxp_Reason x = []) ''reason'' (ms_string (fxp_Reason x)))"

record FlowCancelResult =
  fxr_WMP :: "Metadata"
  fxr_FlowID :: "bytes"
  fxr_Status :: "bytes"

definition zero_FlowCancelResult :: FlowCancelResult where
  "zero_FlowCancelResult = \<lparr>fxr_WMP = zero_Metadata, fxr_FlowID = [], fxr_Status = []\<rparr>"

definition fields_FlowCancelResult :: "FlowCancelResult fields" where
  "fields_FlowCancelResult =
    [(''wmp'', field fxr_WMP fxr_WMP_update un_Metadata),
     (''flow_id'', field fxr_FlowID fxr_FlowID_update un_string),
     (''status'', field fxr_Status fxr_Status_update un_string)]"

definition un_FlowCancelResult :: "FlowCancelResult decoder" where
  "un_FlowCancelResult = un_struct fields_FlowCancelResult"

definition ms_FlowCancelResult :: "FlowCancelResult \<Rightarrow> bytes option" where
  "ms_FlowCancelResult x = ms_obj (
     always ''wmp'' (ms_Metadata (fxr_WMP x))
     @ always ''flow_id'' (ms_string (fxr_FlowID x))
     @ always ''status'' (ms_string (fxr_Status x)))"

record MessageStatusParams =
  msp_WMP :: "Metadata"
  msp_MessageID :: "bytes"
  msp_Status :: "bytes"
  msp_Reason :: "bytes"

definition zero_MessageStatusParams :: MessageStatusParams where
  "zero_MessageStatusParams = \<lparr>msp_WMP = zero_Metadata, msp_MessageID = [], msp_Status = [], msp_Reason = []\<rparr>"

definition fields_MessageStatusParams :: "MessageStatusParams fields" where
  "fields_MessageStatusParams =
    [(''wmp'', field msp_WMP msp_WMP_update un_Metadata),
     (''message_id'', field msp_MessageID msp_MessageID_update un_string),
     (''status'', field msp_Status msp_Status_update un_string),
     (''reason'', field msp_Reason msp_Reason_update un_string)]"

definition un_MessageStatusParams :: "MessageStatusParams decoder" where
  "un_MessageStatusParams = un_struct fields_MessageStatusParams"

definition ms_MessageStatusParams :: "MessageStatusParams \<Rightarrow> bytes option" where
  "ms_MessageStatusParams x = ms_obj (
     always ''wmp'' (ms_Metadata (msp_WMP x))
     @ always ''message_id'' (ms_string (msp_MessageID x))
     @ always ''status'' (ms_string (msp_Status x))
     @ unless (msp_Reason x = []) ''reason'' (ms_string (msp_Reason x)))"

record SessionAuthenticateParams =
  sap_WMP :: "Metadata"
  sap_Auth :: "AuthObject"

definition zero_SessionAuthenticateParams :: SessionAuthenticateParams where
  "zero_SessionAuthenticateParams = \<lparr>sap_WMP = zero_Metadata, sap_Auth = zero_AuthObject\<rparr>"

definition fields_SessionAuthenticateParams :: "SessionAuthenticateParams fields" where
  "fields_SessionAuthenticateParams =
    [(''wmp'', field sap_WMP sap_WMP_update un_Metadata),
     (''auth'', field sap_Auth sap_Auth_update un_AuthObject)]"

definition un_SessionAuthenticateParams :: "SessionAuthenticateParams decoder" where
  "un_SessionAuthenticateParams = un_struct fields_SessionAuthenticateParams"

definition ms_SessionAuthenticateParams :: "SessionAuthenticateParams \<Rightarrow> bytes option" where
  "ms_SessionAuthenticateParams x = ms_obj (
     always ''wmp'' (ms_Metadata (sap_WMP x))
     @ always ''auth'' (ms_AuthObject (sap_Auth x)))"

record SessionAuthenticateResult =
  sar_WMP :: "Metadata"
  sar_Authenticated :: "bool"
  sar_Identity :: "bytes"

definition zero_SessionAuthenticateResult :: SessionAuthenticateResult where
  "zero_SessionAuthenticateResult = \<lparr>sar_WMP = zero_Metadata, sar_Authenticated = False, sar_Identity = []\<rparr>"

definition fields_SessionAuthenticateResult :: "SessionAuthenticateResult fields" where
  "fields_SessionAuthenticateResult =
    [(''wmp'', field sar_WMP sar_WMP_update un_Metadata),
     (''authenticated'', field sar_Authenticated sar_Authenticated_update un_bool),
     (''identity'', field sar_Identity sar_Identity_update un_string)]"

definition un_SessionAuthenticateResult :: "SessionAuthenticateResult decoder" where
  "un_SessionAuthenticateResult = un_struct fields_SessionAuthenticateResult"

definition ms_SessionAuthenticateResult :: "SessionAuthenticateResult \<Rightarrow> bytes option" where
  "ms_SessionAuthenticateResult x = ms_obj (
     always ''wmp'' (ms_Metadata (sar_WMP x))
     @ always ''authenticated'' (ms_bool (sar_Authenticated x))
     @ unless (sar_Identity x = []) ''identity'' (ms_string (sar_Identity x)))"

record RelayRegisterParams =
  rrp_WMP :: "Metadata"
  rrp_Auth :: "AuthObject option"

definition zero_RelayRegisterParams :: RelayRegisterParams where
  "zero_RelayRegisterParams = \<lparr>rrp_WMP = zero_Metadata, rrp_Auth = None\<rparr>"

definition fields_RelayRegisterParams :: "RelayRegisterParams fields" where
  "fields_RelayRegisterParams =
    [(''wmp'', field rrp_WMP rrp_WMP_update un_Metadata),
     (''auth'', field rrp_Auth rrp_Auth_update (un_ptr zero_AuthObject un_AuthObject))]"

definition un_RelayRegisterParams :: "RelayRegisterParams decoder" where
  "un_RelayRegisterParams = un_struct fields_RelayRegisterParams"

definition ms_RelayRegisterParams :: "RelayRegisterParams \<Rightarrow> bytes option" where
  "ms_RelayRegisterParams x = ms_obj (
     always ''wmp'' (ms_Metadata (rrp_WMP x))
     @ unless (rrp_Auth x = None) ''auth'' ((ms_ptr ms_AuthObject) (rrp_Auth x)))"

record RelayRegisterResult =
  rrr_WMP :: "Metadata"
  rrr_Registered :: "bool"
  rrr_TTL :: "int"

definition zero_RelayRegisterResult :: RelayRegisterResult where
  "zero_RelayRegisterResult = \<lparr>rrr_WMP = zero_Metadata, rrr_Registered = False, rrr_TTL = 0\<rparr>"

definition fields_RelayRegisterResult :: "RelayRegisterResult fields" where
  "fields_RelayRegisterResult =
    [(''wmp'', field rrr_WMP rrr_WMP_update un_Metadata),
     (''registered'', field rrr_Registered rrr_Registered_update un_bool),
     (''ttl'', field rrr_TTL rrr_TTL_update un_int)]"

definition un_RelayRegisterResult :: "RelayRegisterResult decoder" where
  "un_RelayRegisterResult = un_struct fields_RelayRegisterResult"

definition ms_RelayRegisterResult :: "RelayRegisterResult \<Rightarrow> bytes option" where
  "ms_RelayRegisterResult x = ms_obj (
     always ''wmp'' (ms_Metadata (rrr_WMP x))
     @ always ''registered'' (ms_bool (rrr_Registered x))
     @ unless (rrr_TTL x = 0) ''ttl'' (ms_int (rrr_TTL x)))"

lemmas methods_codec [codec] =
  fields_AuthObject_def un_AuthObject_def ms_AuthObject_def zero_AuthObject_def
  fields_SessionCreateParams_def un_SessionCreateParams_def ms_SessionCreateParams_def zero_SessionCreateParams_def
  fields_SessionCreateResult_def un_SessionCreateResult_def ms_SessionCreateResult_def zero_SessionCreateResult_def
  fields_SessionResumeParams_def un_SessionResumeParams_def ms_SessionResumeParams_def zero_SessionResumeParams_def
  fields_SessionResumeResult_def un_SessionResumeResult_def ms_SessionResumeResult_def zero_SessionResumeResult_def
  fields_SessionCloseParams_def un_SessionCloseParams_def ms_SessionCloseParams_def zero_SessionCloseParams_def
  fields_MessageDeliverParams_def un_MessageDeliverParams_def ms_MessageDeliverParams_def zero_MessageDeliverParams_def
  fields_MessageAckParams_def un_MessageAckParams_def ms_MessageAckParams_def zero_MessageAckParams_def
  fields_MessagePollParams_def un_MessagePollParams_def ms_MessagePollParams_def zero_MessagePollParams_def
  fields_MessagePollResult_def un_MessagePollResult_def ms_MessagePollResult_def zero_MessagePollResult_def
  fields_CapabilityUpdateParams_def un_CapabilityUpdateParams_def ms_CapabilityUpdateParams_def zero_CapabilityUpdateParams_def
  fields_CapabilityUpdateResult_def un_CapabilityUpdateResult_def ms_CapabilityUpdateResult_def zero_CapabilityUpdateResult_def
  fields_CapabilityListParams_def un_CapabilityListParams_def ms_CapabilityListParams_def zero_CapabilityListParams_def
  fields_CapabilityListResult_def un_CapabilityListResult_def ms_CapabilityListResult_def zero_CapabilityListResult_def
  fields_FlowStartParams_def un_FlowStartParams_def ms_FlowStartParams_def zero_FlowStartParams_def
  fields_FlowStartResult_def un_FlowStartResult_def ms_FlowStartResult_def zero_FlowStartResult_def
  fields_FlowProgressParams_def un_FlowProgressParams_def ms_FlowProgressParams_def zero_FlowProgressParams_def
  fields_FlowActionParams_def un_FlowActionParams_def ms_FlowActionParams_def zero_FlowActionParams_def
  fields_FlowActionResult_def un_FlowActionResult_def ms_FlowActionResult_def zero_FlowActionResult_def
  fields_FlowCompleteParams_def un_FlowCompleteParams_def ms_FlowCompleteParams_def zero_FlowCompleteParams_def
  fields_FlowErrorParams_def un_FlowErrorParams_def ms_FlowErrorParams_def zero_FlowErrorParams_def
  fields_CredentialNotificationParams_def un_CredentialNotificationParams_def ms_CredentialNotificationParams_def zero_CredentialNotificationParams_def
  fields_ResolveParams_def un_ResolveParams_def ms_ResolveParams_def zero_ResolveParams_def
  fields_ResolveResult_def un_ResolveResult_def ms_ResolveResult_def zero_ResolveResult_def
  fields_FlowCancelParams_def un_FlowCancelParams_def ms_FlowCancelParams_def zero_FlowCancelParams_def
  fields_FlowCancelResult_def un_FlowCancelResult_def ms_FlowCancelResult_def zero_FlowCancelResult_def
  fields_MessageStatusParams_def un_MessageStatusParams_def ms_MessageStatusParams_def zero_MessageStatusParams_def
  fields_SessionAuthenticateParams_def un_SessionAuthenticateParams_def ms_SessionAuthenticateParams_def zero_SessionAuthenticateParams_def
  fields_SessionAuthenticateResult_def un_SessionAuthenticateResult_def ms_SessionAuthenticateResult_def zero_SessionAuthenticateResult_def
  fields_RelayRegisterParams_def un_RelayRegisterParams_def ms_RelayRegisterParams_def zero_RelayRegisterParams_def
  fields_RelayRegisterResult_def un_RelayRegisterResult_def ms_RelayRegisterResult_def zero_RelayRegisterResult_def

end
