(* ===== verification/Jsonrpc.thy ===== *)
theory Jsonrpc
  imports Wmp_Methods
begin

text \<open>
  The JSON-RPC 2.0 codec (jsonrpc.go): requests, responses and errors, the union type read
  from a transport, and \<open>DecodeMessage\<close> / \<open>DecodeBatch\<close> with their limits on size and
  nesting. An argument of type \<open>interface{}\<close> that is only encoded is represented by what
  \<open>json.Marshal\<close> makes of it: \<open>Some bytes\<close>, or \<open>None\<close> for a marshalling error.
\<close>

section \<open>Options\<close>

record DecodeOptions =
  MaxSize :: int
  MaxDepth :: int

definition defaultMaxMessageSize :: int where
  [simp]: "defaultMaxMessageSize = 1048576"

definition defaultMaxDepth :: int where
  [simp]: "defaultMaxDepth = 32"

definition maxSize :: "DecodeOptions option \<Rightarrow> int" where
  "maxSize opt =
     (case opt of
        None \<Rightarrow> defaultMaxMessageSize
      | Some o' \<Rightarrow> if MaxSize o' \<le> 0 then defaultMaxMessageSize else MaxSize o')"

definition maxDepth :: "DecodeOptions option \<Rightarrow> int" where
  "maxDepth opt =
     (case opt of
        None \<Rightarrow> defaultMaxDepth
      | Some o' \<Rightarrow> if MaxDepth o' \<le> 0 then defaultMaxDepth else MaxDepth o')"

section \<open>Errors, requests, responses\<close>

record RPCError =
  err_Code :: "int"
  err_Message :: "bytes"
  err_Data :: "raw"

definition zero_RPCError :: RPCError where
  "zero_RPCError = \<lparr>err_Code = 0, err_Message = [], err_Data = None\<rparr>"

definition fields_RPCError :: "RPCError fields" where
  "fields_RPCError =
    [(''code'', field err_Code err_Code_update un_int),
     (''message'', field err_Message err_Message_update un_string),
     (''data'', field err_Data err_Data_update un_raw)]"

definition un_RPCError :: "RPCError decoder" where
  "un_RPCError = un_struct fields_RPCError"

definition ms_RPCError :: "RPCError \<Rightarrow> bytes option" where
  "ms_RPCError x = ms_obj (
     always ''code'' (ms_int (err_Code x))
     @ always ''message'' (ms_string (err_Message x))
     @ unless (raw_empty (err_Data x)) ''data'' (ms_raw (err_Data x)))"

text \<open>Go's \<open>error\<close>: an \<open>*RPCError\<close>, or any other error with its text.\<close>

datatype go_error =
    RPCErr RPCError
  | GoErr bytes

text \<open>A call that returns a value, returns an error or panics.\<close>

datatype ('e, 'a) go_result =
    Ok 'a
  | Err 'e
  | Panic

definition RPCError_Error :: "RPCError \<Rightarrow> bytes" where
  "RPCError_Error e = ''wmp: rpc error '' @ show_int (err_Code e) @ '': '' @ err_Message e"

definition error_text :: "go_error \<Rightarrow> bytes" where
  "error_text e = (case e of RPCErr r \<Rightarrow> RPCError_Error r | GoErr t \<Rightarrow> t)"

text \<open>\<open>data\<close> is \<open>None\<close> for the nil interface, otherwise what \<open>json.Marshal\<close> makes of it.\<close>

definition NewRPCError :: "int \<Rightarrow> bytes option option \<Rightarrow> RPCError" where
  "NewRPCError code data =
     \<lparr>err_Code = code, err_Message = ErrorMessage code,
      err_Data = (case data of None \<Rightarrow> None | Some m \<Rightarrow> m)\<rparr>"

definition reason_data :: "bytes \<Rightarrow> bytes option option" where
  "reason_data r = Some (ms_map ms_string [(''reason'', r)])"

record Request =
  req_JSONRPC :: "bytes"
  req_ID :: "raw"
  req_Method :: "bytes"
  req_Params :: "raw"

definition zero_Request :: Request where
  "zero_Request = \<lparr>req_JSONRPC = [], req_ID = None, req_Method = [], req_Params = None\<rparr>"

definition fields_Request :: "Request fields" where
  "fields_Request =
    [(''jsonrpc'', field req_JSONRPC req_JSONRPC_update un_string),
     (''id'', field req_ID req_ID_update un_raw),
     (''method'', field req_Method req_Method_update un_string),
     (''params'', field req_Params req_Params_update un_raw)]"

definition un_Request :: "Request decoder" where
  "un_Request = un_struct fields_Request"

definition ms_Request :: "Request \<Rightarrow> bytes option" where
  "ms_Request x = ms_obj (
     always ''jsonrpc'' (ms_string (req_JSONRPC x))
     @ unless (raw_empty (req_ID x)) ''id'' (ms_raw (req_ID x))
     @ always ''method'' (ms_string (req_Method x))
     @ always ''params'' (ms_raw (req_Params x)))"

definition IsNotification :: "Request \<Rightarrow> bool" where
  "IsNotification r \<longleftrightarrow> raw_empty (req_ID r) \<or> req_ID r = Some ''null''"

record Response =
  resp_JSONRPC :: "bytes"
  resp_ID :: "raw"
  resp_Result :: "raw"
  resp_Error :: "RPCError option"

definition zero_Response :: Response where
  "zero_Response = \<lparr>resp_JSONRPC = [], resp_ID = None, resp_Result = None, resp_Error = None\<rparr>"

definition fields_Response :: "Response fields" where
  "fields_Response =
    [(''jsonrpc'', field resp_JSONRPC resp_JSONRPC_update un_string),
     (''id'', field resp_ID resp_ID_update un_raw),
     (''result'', field resp_Result resp_Result_update un_raw),
     (''error'', field resp_Error resp_Error_update (un_ptr zero_RPCError un_RPCError))]"

definition un_Response :: "Response decoder" where
  "un_Response = un_struct fields_Response"

definition ms_Response :: "Response \<Rightarrow> bytes option" where
  "ms_Response x = ms_obj (
     always ''jsonrpc'' (ms_string (resp_JSONRPC x))
     @ always ''id'' (ms_raw (resp_ID x))
     @ unless (raw_empty (resp_Result x)) ''result'' (ms_raw (resp_Result x))
     @ unless (resp_Error x = None) ''error'' ((ms_ptr ms_RPCError) (resp_Error x)))"

definition NewRequest :: "bytes \<Rightarrow> bytes \<Rightarrow> bytes option \<Rightarrow> go_error + Request" where
  "NewRequest rid method params =
     (case params of
        None \<Rightarrow> Inl (GoErr ''marshal params'')
      | Some p \<Rightarrow>
          Inr \<lparr>req_JSONRPC = ''2.0'',
               req_ID = (if rid \<noteq> [] then ms_string rid else None),
               req_Method = method, req_Params = Some p\<rparr>)"

definition NewNotification :: "bytes \<Rightarrow> bytes option \<Rightarrow> go_error + Request" where
  "NewNotification method params = NewRequest [] method params"

definition NewResponse :: "raw \<Rightarrow> bytes option \<Rightarrow> go_error + Response" where
  "NewResponse rid result =
     (case result of
        None \<Rightarrow> Inl (GoErr ''marshal result'')
      | Some r \<Rightarrow> Inr \<lparr>resp_JSONRPC = ''2.0'', resp_ID = rid, resp_Result = Some r, resp_Error = None\<rparr>)"

definition NewErrorResponse :: "raw \<Rightarrow> RPCError option \<Rightarrow> Response" where
  "NewErrorResponse rid rpcErr =
     \<lparr>resp_JSONRPC = ''2.0'', resp_ID = rid, resp_Result = None, resp_Error = rpcErr\<rparr>"

section \<open>Messages\<close>

record Message =
  msg_JSONRPC :: "bytes"
  msg_ID :: "raw"
  msg_Method :: "bytes"
  msg_Params :: "raw"
  msg_Result :: "raw"
  msg_Error :: "RPCError option"

definition zero_Message :: Message where
  "zero_Message = \<lparr>msg_JSONRPC = [], msg_ID = None, msg_Method = [], msg_Params = None, msg_Result = None, msg_Error = None\<rparr>"

definition fields_Message :: "Message fields" where
  "fields_Message =
    [(''jsonrpc'', field msg_JSONRPC msg_JSONRPC_update un_string),
     (''id'', field msg_ID msg_ID_update un_raw),
     (''method'', field msg_Method msg_Method_update un_string),
     (''params'', field msg_Params msg_Params_update un_raw),
     (''result'', field msg_Result msg_Result_update un_raw),
     (''error'', field msg_Error msg_Error_update (un_ptr zero_RPCError un_RPCError))]"

definition un_Message :: "Message decoder" where
  "un_Message = un_struct fields_Message"

definition ms_Message :: "Message \<Rightarrow> bytes option" where
  "ms_Message x = ms_obj (
     always ''jsonrpc'' (ms_string (msg_JSONRPC x))
     @ unless (raw_empty (msg_ID x)) ''id'' (ms_raw (msg_ID x))
     @ unless (msg_Method x = []) ''method'' (ms_string (msg_Method x))
     @ unless (raw_empty (msg_Params x)) ''params'' (ms_raw (msg_Params x))
     @ unless (raw_empty (msg_Result x)) ''result'' (ms_raw (msg_Result x))
     @ unless (msg_Error x = None) ''error'' ((ms_ptr ms_RPCError) (msg_Error x)))"

definition IsRequest :: "Message \<Rightarrow> bool" where
  "IsRequest m \<longleftrightarrow> msg_Method m \<noteq> []"

definition IsResponse :: "Message \<Rightarrow> bool" where
  "IsResponse m \<longleftrightarrow> msg_Result m \<noteq> None \<or> msg_Error m \<noteq> None"

definition AsRequest :: "Message \<Rightarrow> Request" where
  "AsRequest m =
     \<lparr>req_JSONRPC = msg_JSONRPC m, req_ID = msg_ID m, req_Method = msg_Method m, req_Params = msg_Params m\<rparr>"

definition AsResponse :: "Message \<Rightarrow> Response" where
  "AsResponse m =
     \<lparr>resp_JSONRPC = msg_JSONRPC m, resp_ID = msg_ID m, resp_Result = msg_Result m, resp_Error = msg_Error m\<rparr>"

section \<open>Decoding with limits\<close>

datatype decode_error =
    ETooLarge int
  | EDecode
  | EVersion bytes
  | EDepth int
  | ETrailing

text \<open>\<open>depth\<close> with the running maximum of its loops; every scalar has depth 1.\<close>

fun depth :: "any \<Rightarrow> int"
  and depth_arr :: "any list \<Rightarrow> int \<Rightarrow> int"
  and depth_map :: "(bytes \<times> any) list \<Rightarrow> int \<Rightarrow> int"
where
  "depth (AMap m) = depth_map m 1"
| "depth (AArr xs) = depth_arr xs 1"
| "depth (ANum l) = 1"
| "depth (AStr s) = 1"
| "depth (ABool b) = 1"
| "depth ANull = 1"
| "depth_arr [] mx = mx"
| "depth_arr (x # xs) mx = depth_arr xs (if depth x + 1 > mx then depth x + 1 else mx)"
| "depth_map [] mx = mx"
| "depth_map ((k, x) # m) mx = depth_map m (if depth x + 1 > mx then depth x + 1 else mx)"

text \<open>The closure \<open>check\<close>: bytes that do not decode into an interface pass.\<close>

definition check_raw :: "int \<Rightarrow> raw \<Rightarrow> decode_error option" where
  "check_raw mx r =
     (if raw_empty r then None
      else (case unmarshal un_any ANull r of
              None \<Rightarrow> None
            | Some v \<Rightarrow> if depth v > mx then Some (EDepth mx) else None))"

definition checkMessageDepth :: "Message \<Rightarrow> int \<Rightarrow> decode_error option" where
  "checkMessageDepth m mx =
     (case check_raw mx (msg_Params m) of
        Some e \<Rightarrow> Some e
      | None \<Rightarrow>
          (case check_raw mx (msg_Result m) of
             Some e \<Rightarrow> Some e
           | None \<Rightarrow>
               (case msg_Error m of
                  None \<Rightarrow> None
                | Some e \<Rightarrow> if err_Data e \<noteq> None then check_raw mx (err_Data e) else None)))"

text \<open>What the decoder has not consumed must be white space.\<close>

definition requireEOF :: "bytes \<Rightarrow> decode_error option" where
  "requireEOF rest = (if skip_ws rest = [] then None else Some ETrailing)"

definition trimSpace :: "bytes \<Rightarrow> bytes" where
  "trimSpace data = dropWhile (\<lambda>c. c = CHR '' '' \<or> c = CHR 0x09 \<or> c = CHR 0x0A \<or> c = CHR 0x0D) data"

definition first_opt :: "DecodeOptions option list \<Rightarrow> DecodeOptions option" where
  "first_opt opts = (case opts of [] \<Rightarrow> None | o' # _ \<Rightarrow> o')"

definition DecodeMessage :: "bytes \<Rightarrow> DecodeOptions option list \<Rightarrow> decode_error + Message" where
  "DecodeMessage data opts =
     (let opt = first_opt opts in
      if int (length data) > maxSize opt then Inl (ETooLarge (maxSize opt))
      else (case json_next data of
         None \<Rightarrow> Inl EDecode
       | Some (b, v, rest) \<Rightarrow>
           (case un_Message b v zero_Message of
              None \<Rightarrow> Inl EDecode
            | Some msg \<Rightarrow>
                if msg_JSONRPC msg \<noteq> ''2.0'' then Inl (EVersion (msg_JSONRPC msg))
                else (case checkMessageDepth msg (maxDepth opt) of
                   Some e \<Rightarrow> Inl e
                 | None \<Rightarrow> (case requireEOF rest of Some e \<Rightarrow> Inl e | None \<Rightarrow> Inr msg)))))"

text \<open>
  The loop of \<open>DecodeBatch\<close> over \<open>[]*Message\<close>: an element \<open>null\<close> is a nil pointer, and
  reading its \<open>JSONRPC\<close> field panics.
\<close>

fun check_batch :: "int \<Rightarrow> Message option list \<Rightarrow> (decode_error, unit) go_result" where
  "check_batch mx [] = Ok ()"
| "check_batch mx (None # ms) = Panic"
| "check_batch mx (Some msg # ms) =
     (if msg_JSONRPC msg \<noteq> ''2.0'' then Err (EVersion (msg_JSONRPC msg))
      else (case checkMessageDepth msg mx of
              Some e \<Rightarrow> Err e
            | None \<Rightarrow> check_batch mx ms))"

text \<open>\<open>Ok None\<close> is the nil slice: the data is not a JSON array.\<close>

definition DecodeBatch :: "bytes \<Rightarrow> DecodeOptions option list
    \<Rightarrow> (decode_error, Message option list option) go_result" where
  "DecodeBatch data0 opts =
     (let opt = first_opt opts in
      if int (length data0) > maxSize opt then Err (ETooLarge (maxSize opt))
      else (let data = trimSpace data0 in
        if data = [] \<or> hd data \<noteq> CHR ''['' then Ok None
        else (case json_next data of
           None \<Rightarrow> Err EDecode
         | Some (b, v, rest) \<Rightarrow>
             (case un_slice None (un_ptr zero_Message un_Message) b v None of
                None \<Rightarrow> Err EDecode
              | Some msgs \<Rightarrow>
                  (case check_batch (maxDepth opt) (case msgs of None \<Rightarrow> [] | Some ms \<Rightarrow> ms) of
                     Panic \<Rightarrow> Panic
                   | Err e \<Rightarrow> Err e
                   | Ok _ \<Rightarrow> (case requireEOF rest of Some e \<Rightarrow> Err e | None \<Rightarrow> Ok msgs))))))"

section \<open>Credential notifications\<close>

definition CredentialEventAccepted :: bytes where
  [simp]: "CredentialEventAccepted = ''credential_accepted''"

definition CredentialEventFailure :: bytes where
  [simp]: "CredentialEventFailure = ''credential_failure''"

definition IsValidCredentialEvent :: "bytes \<Rightarrow> bool" where
  "IsValidCredentialEvent event \<longleftrightarrow> event = CredentialEventAccepted \<or> event = CredentialEventFailure"

definition ValidateCredentialNotification :: "CredentialNotificationParams \<Rightarrow> go_error option" where
  "ValidateCredentialNotification ps =
     (if cnp_FlowID ps = [] then
        Some (RPCErr (NewRPCError ErrInvalidParams (reason_data ''flow_id is required'')))
      else if cnp_NotificationID ps = [] then
        Some (RPCErr (NewRPCError ErrInvalidParams (reason_data ''notification_id is required'')))
      else if \<not> IsValidCredentialEvent (cnp_Event ps) then
        Some (RPCErr (NewRPCError ErrInvalidParams
          (reason_data (''unsupported credential event: '' @ cnp_Event ps))))
      else None)"

lemmas jsonrpc_codec [codec] =
  fields_RPCError_def un_RPCError_def ms_RPCError_def zero_RPCError_def
  fields_Message_def un_Message_def ms_Message_def zero_Message_def

end
