(* ===== verification/Session_Store.thy ===== *)
theory Session_Store
  imports Jsonrpc
begin

text \<open>
  Sessions and the in-memory session store (session.go), and the values a request context
  carries (context.go). \<open>time.Now()\<close> is the argument \<open>now\<close>; one reading serves a whole
  operation. The locale \<open>session_store\<close> is the contract of the Go interface
  \<open>SessionStore\<close>; \<open>MemorySessionStore\<close> is shown to satisfy it.
\<close>

section \<open>Sessions\<close>

record Session =
  ses_ID :: bytes
  ses_Participants :: "bytes list"
  ses_Capabilities :: Capabilities
  ses_Security :: SecurityMode
  ses_Metadata :: "(bytes, bytes) gomap option"
  ses_ResumptionToken :: bytes
  ses_CreatedAt :: gotime
  ses_ExpiresAt :: gotime

definition IsExpired :: "instant \<Rightarrow> Session \<Rightarrow> bool" where
  "IsExpired now s \<longleftrightarrow> \<not> IsZero (ses_ExpiresAt s) \<and> time_after now (ses_ExpiresAt s)"

definition HasCapability :: "Session \<Rightarrow> bytes \<Rightarrow> bool" where
  "HasCapability s name \<longleftrightarrow> gm_get (ses_Capabilities s) name \<noteq> None"

fun encrypted_loop :: "bytes list \<Rightarrow> bytes \<Rightarrow> bool" where
  "encrypted_loop [] cap = False"
| "encrypted_loop (c # cs) cap = (if c = cap then True else encrypted_loop cs cap)"

definition RequiresEncryption :: "Session \<Rightarrow> bytes \<Rightarrow> bool" where
  "RequiresEncryption s cap = encrypted_loop (sm_EncryptedCapabilities (ses_Security s)) cap"

section \<open>The in-memory store\<close>

record MemorySessionStore =
  sessions :: "(bytes, Session) gomap"

definition NewMemorySessionStore :: MemorySessionStore where
  "NewMemorySessionStore = \<lparr>sessions = []\<rparr>"

definition Create :: "Session \<Rightarrow> MemorySessionStore \<Rightarrow> go_error option \<times> MemorySessionStore" where
  "Create session s = (None, s\<lparr>sessions := gm_set (ses_ID session) session (sessions s)\<rparr>)"

definition Get :: "bytes \<Rightarrow> MemorySessionStore \<Rightarrow> Session option" where
  "Get sid s = gm_get (sessions s) sid"

definition Update :: "Session \<Rightarrow> MemorySessionStore \<Rightarrow> go_error option \<times> MemorySessionStore" where
  "Update session s = (None, s\<lparr>sessions := gm_set (ses_ID session) session (sessions s)\<rparr>)"

definition Delete :: "bytes \<Rightarrow> MemorySessionStore \<Rightarrow> go_error option \<times> MemorySessionStore" where
  "Delete sid s = (None, s\<lparr>sessions := gm_del sid (sessions s)\<rparr>)"

text \<open>\<open>sess.Metadata[key]\<close> is the empty string where the key is missing.\<close>

definition metadata_matches :: "bytes \<Rightarrow> bytes \<Rightarrow> Session \<Rightarrow> bool" where
  "metadata_matches key val s \<longleftrightarrow>
     (case ses_Metadata s of
        None \<Rightarrow> False
      | Some m \<Rightarrow> (case gm_get m key of None \<Rightarrow> [] | Some v \<Rightarrow> v) = val)"

definition GetByMetadata :: "instant \<Rightarrow> bytes \<Rightarrow> bytes \<Rightarrow> MemorySessionStore \<Rightarrow> Session list" where
  "GetByMetadata now key val s =
     gm_values_if (\<lambda>x. metadata_matches key val x \<and> \<not> IsExpired now x) (sessions s)"

definition List_sessions :: "instant \<Rightarrow> MemorySessionStore \<Rightarrow> Session list" where
  "List_sessions now s = gm_values_if (\<lambda>x. \<not> IsExpired now x) (sessions s)"

definition Cleanup :: "instant \<Rightarrow> MemorySessionStore \<Rightarrow> nat \<times> MemorySessionStore" where
  "Cleanup now s =
     (gm_count_if (IsExpired now) (sessions s),
      s\<lparr>sessions := gm_delete_if (IsExpired now) (sessions s)\<rparr>)"

text \<open>Every store keeps one entry per key, filed under the identifier of its session.\<close>

definition store_ok :: "MemorySessionStore \<Rightarrow> bool" where
  "store_ok s \<longleftrightarrow> gm_ok (sessions s) \<and> (\<forall>(k, x) \<in> set (sessions s). ses_ID x = k)"

section \<open>Request context\<close>

record Context =
  ctx_Session :: "Session option"
  ctx_Sender :: "bytes option"
  ctx_RequestID :: "bytes option"

definition background :: Context where
  "background = \<lparr>ctx_Session = None, ctx_Sender = None, ctx_RequestID = None\<rparr>"

definition ContextWithSession :: "Context \<Rightarrow> Session \<Rightarrow> Context" where
  "ContextWithSession c s = c\<lparr>ctx_Session := Some s\<rparr>"

definition SessionFromContext :: "Context \<Rightarrow> Session option" where
  "SessionFromContext c = ctx_Session c"

definition ContextWithSender :: "Context \<Rightarrow> bytes \<Rightarrow> Context" where
  "ContextWithSender c s = c\<lparr>ctx_Sender := Some s\<rparr>"

definition SenderFromContext :: "Context \<Rightarrow> bytes" where
  "SenderFromContext c = (case ctx_Sender c of None \<Rightarrow> [] | Some s \<Rightarrow> s)"

definition ContextWithRequestID :: "Context \<Rightarrow> bytes \<Rightarrow> Context" where
  "ContextWithRequestID c i = c\<lparr>ctx_RequestID := Some i\<rparr>"

definition RequestIDFromContext :: "Context \<Rightarrow> bytes" where
  "RequestIDFromContext c = (case ctx_RequestID c of None \<Rightarrow> [] | Some i \<Rightarrow> i)"

lemmas context_defs =
  ContextWithSession_def SessionFromContext_def ContextWithSender_def SenderFromContext_def
  ContextWithRequestID_def RequestIDFromContext_def background_def

lemmas store_defs =
  NewMemorySessionStore_def Create_def Get_def Update_def Delete_def Cleanup_def

section \<open>The contract of a session store\<close>

text \<open>
  What package \<open>wmp\<close> expects of any \<open>SessionStore\<close>: reads see the last write, a clean-up
  at time \<open>now\<close> removes exactly the sessions expired at \<open>now\<close> and reports how many.
\<close>

locale session_store =
  fixes new :: 's
    and create :: "Session \<Rightarrow> 's \<Rightarrow> go_error option \<times> 's"
    and get :: "bytes \<Rightarrow> 's \<Rightarrow> Session option"
    and update :: "Session \<Rightarrow> 's \<Rightarrow> go_error option \<times> 's"
    and delete :: "bytes \<Rightarrow> 's \<Rightarrow> go_error option \<times> 's"
    and listing :: "instant \<Rightarrow> 's \<Rightarrow> Session list"
    and cleanup :: "instant \<Rightarrow> 's \<Rightarrow> nat \<times> 's"
    and invar :: "'s \<Rightarrow> bool"
  assumes invar_new: "invar new"
    and invar_create: "invar s \<Longrightarrow> invar (snd (create x s))"
    and invar_update: "invar s \<Longrightarrow> invar (snd (update x s))"
    and invar_delete: "invar s \<Longrightarrow> invar (snd (delete k s))"
    and invar_cleanup: "invar s \<Longrightarrow> invar (snd (cleanup now s))"
    and get_new: "get k new = None"
    and get_create: "invar s \<Longrightarrow> get k (snd (create x s)) = (if k = ses_ID x then Some x else get k s)"
    and get_update: "invar s \<Longrightarrow> get k (snd (update x s)) = (if k = ses_ID x then Some x else get k s)"
    and get_delete: "invar s \<Longrightarrow> get k (snd (delete k' s)) = (if k = k' then None else get k s)"
    and get_cleanup: "invar s \<Longrightarrow> get k (snd (cleanup now s)) =
          (case get k s of None \<Rightarrow> None | Some x \<Rightarrow> if IsExpired now x then None else Some x)"
    and listing_iff: "invar s \<Longrightarrow> x \<in> set (listing now s) \<longleftrightarrow> (\<exists>k. get k s = Some x \<and> \<not> IsExpired now x)"
begin

text \<open>A session is found until it is deleted or cleaned up after its expiry.\<close>

lemma live_session_survives_cleanup:
  "invar s \<Longrightarrow> get k s = Some x \<Longrightarrow> \<not> IsExpired now x \<Longrightarrow> get k (snd (cleanup now s)) = Some x"
  by (simp add: get_cleanup)

lemma cleanup_idempotent:
  "invar s \<Longrightarrow> get k (snd (cleanup now (snd (cleanup now s)))) = get k (snd (cleanup now s))"
  by (simp add: get_cleanup invar_cleanup split: option.splits)

lemma get_cleanup_Some:
  "invar s \<Longrightarrow> get k (snd (cleanup now s)) = Some x \<longleftrightarrow> get k s = Some x \<and> \<not> IsExpired now x"
  by (auto simp: get_cleanup split: option.splits)

lemma listing_cleanup:
  "invar s \<Longrightarrow> set (listing now (snd (cleanup now s))) = set (listing now s)"
  by (auto simp: listing_iff get_cleanup_Some invar_cleanup)

lemma no_expired_after_cleanup:
  "invar s \<Longrightarrow> get k (snd (cleanup now s)) = Some x \<Longrightarrow> \<not> IsExpired now x"
  by (simp add: get_cleanup split: option.splits if_splits)

lemma created_is_listed:
  "invar s \<Longrightarrow> \<not> IsExpired now x \<Longrightarrow> x \<in> set (listing now (snd (create x s)))"
  by (auto simp: listing_iff get_create invar_create)

lemma deleted_is_gone: "invar s \<Longrightarrow> get k (snd (delete k (snd (create x s)))) = None"
  by (simp add: get_delete invar_create)

end

section \<open>The in-memory store meets the contract\<close>

lemma IsExpired_mono: "now \<le> later \<Longrightarrow> IsExpired now x \<Longrightarrow> IsExpired later x"
  by (auto simp: IsExpired_def time_after_def)

lemma set_gm_set: "set (gm_set k v m) \<subseteq> insert (k, v) (set m)"
  by (induction m) (auto simp: gm_set_def)

lemma set_gm_del: "set (gm_del k m) \<subseteq> set m"
  by (auto simp: gm_del_def AList.delete_eq)

lemma store_ok_new: "store_ok NewMemorySessionStore"
  by (simp add: store_ok_def NewMemorySessionStore_def)

lemma store_ok_put:
  "store_ok s \<Longrightarrow> store_ok (s\<lparr>sessions := gm_set (ses_ID x) x (sessions s)\<rparr>)"
  using set_gm_set [of "ses_ID x" x "sessions s"] by (auto simp: store_ok_def)

lemma store_ok_delete: "store_ok s \<Longrightarrow> store_ok (s\<lparr>sessions := gm_del k (sessions s)\<rparr>)"
  using set_gm_del [of k "sessions s"] by (auto simp: store_ok_def)

lemma store_ok_cleanup: "store_ok s \<Longrightarrow> store_ok (s\<lparr>sessions := gm_delete_if p (sessions s)\<rparr>)"
  by (auto simp: store_ok_def) (auto simp: gm_delete_if_def)

lemma store_ok_gm [simp]: "store_ok s \<Longrightarrow> gm_ok (sessions s)"
  by (simp add: store_ok_def)

interpretation mem: session_store NewMemorySessionStore Create Get Update Delete List_sessions Cleanup store_ok
  by unfold_locales
     (auto simp: store_defs store_ok_new [unfolded NewMemorySessionStore_def] store_ok_put store_ok_delete store_ok_cleanup
        gm_get_delete_if List_sessions_def gm_values_if_iff)

lemma Get_ID:
  assumes "store_ok s" and "Get k s = Some x" shows "ses_ID x = k"
proof -
  have "(k, x) \<in> set (sessions s)"
    using assms by (simp add: Get_def gm_get_in_set)
  with assms(1) show ?thesis by (auto simp: store_ok_def)
qed

lemma encrypted_loop_iff: "encrypted_loop cs c \<longleftrightarrow> c \<in> set cs"
  by (induction cs) auto

lemma metadata_lookup_iff:
  "store_ok s \<Longrightarrow> x \<in> set (GetByMetadata now key val s) \<longleftrightarrow>
     (\<exists>k. Get k s = Some x \<and> metadata_matches key val x \<and> \<not> IsExpired now x)"
  by (simp add: GetByMetadata_def gm_values_if_iff Get_def)

end
