(* ===== verification/Registry.thy ===== *)
theory Registry
  imports Session_Store
begin

text \<open>
  The profile interfaces (profile.go) and the registry of a peer (registry.go).

  A Go interface value is a record of its methods. Application and profile code is not part
  of the repository: its methods are functions on a state \<open>'w\<close> (everything outside the
  peer: handler and profile state, the transport, the session store) that the peer calls.
  A type assertion such as \<open>p.(FlowHandler)\<close> is an optional field of the profile.
  A pair \<open>(*T, error)\<close> is \<open>T option \<times> go_error option\<close>.

  Dispatching a request changes one field of the registry, \<open>flowOwners\<close>; it is kept with
  the state of the world in \<open>dstate\<close>, which is what middleware passes along.
\<close>

section \<open>Values returned by handlers\<close>

type_synonym 'r goret = "'r option \<times> go_error option"

text \<open>
  \<open>interface{}\<close> as the dispatcher returns it: the nil interface, a typed (possibly nil)
  pointer to a result, or the value of a profile's own method, known by what
  \<open>json.Marshal\<close> makes of it.
\<close>

datatype rpc_result =
    RNil
  | RSessionCreate "SessionCreateResult option"
  | RSessionResume "SessionResumeResult option"
  | RSessionAuthenticate "SessionAuthenticateResult option"
  | RMessagePoll "MessagePollResult option"
  | RCapabilityUpdate "CapabilityUpdateResult option"
  | RCapabilityList "CapabilityListResult option"
  | RFlowStart "FlowStartResult option"
  | RFlowAction "FlowActionResult option"
  | RFlowCancel "FlowCancelResult option"
  | RResolve "ResolveResult option"
  | RAny "bytes option"

definition marshal_result :: "rpc_result \<Rightarrow> bytes option" where
  "marshal_result r =
     (case r of
        RNil \<Rightarrow> Some ''null''
      | RSessionCreate x \<Rightarrow> ms_ptr ms_SessionCreateResult x
      | RSessionResume x \<Rightarrow> ms_ptr ms_SessionResumeResult x
      | RSessionAuthenticate x \<Rightarrow> ms_ptr ms_SessionAuthenticateResult x
      | RMessagePoll x \<Rightarrow> ms_ptr ms_MessagePollResult x
      | RCapabilityUpdate x \<Rightarrow> ms_ptr ms_CapabilityUpdateResult x
      | RCapabilityList x \<Rightarrow> ms_ptr ms_CapabilityListResult x
      | RFlowStart x \<Rightarrow> ms_ptr ms_FlowStartResult x
      | RFlowAction x \<Rightarrow> ms_ptr ms_FlowActionResult x
      | RFlowCancel x \<Rightarrow> ms_ptr ms_FlowCancelResult x
      | RResolve x \<Rightarrow> ms_ptr ms_ResolveResult x
      | RAny m \<Rightarrow> m)"

section \<open>Profiles\<close>

record 'w FlowHandler =
  fh_FlowTypes :: "'w \<Rightarrow> bytes list"
  fh_StartFlow :: "Context \<Rightarrow> FlowStartParams \<Rightarrow> 'w \<Rightarrow> FlowStartResult goret \<times> 'w"
  fh_HandleAction :: "Context \<Rightarrow> FlowActionParams \<Rightarrow> 'w \<Rightarrow> FlowActionResult goret \<times> 'w"
  fh_HandleProgress :: "Context \<Rightarrow> FlowProgressParams \<Rightarrow> 'w \<Rightarrow> 'w"
  fh_HandleComplete :: "Context \<Rightarrow> FlowCompleteParams \<Rightarrow> 'w \<Rightarrow> 'w"
  fh_HandleError :: "Context \<Rightarrow> FlowErrorParams \<Rightarrow> 'w \<Rightarrow> 'w"

record 'w MethodHandler =
  mh_Methods :: "'w \<Rightarrow> bytes list"
  mh_HandleMethod :: "Context \<Rightarrow> bytes \<Rightarrow> raw \<Rightarrow> 'w \<Rightarrow> (rpc_result \<times> go_error option) \<times> 'w"

record 'w ResolveHandler =
  rh_ResolveTypes :: "'w \<Rightarrow> bytes list"
  rh_HandleResolve :: "Context \<Rightarrow> ResolveParams \<Rightarrow> 'w \<Rightarrow> ResolveResult goret \<times> 'w"

record DiscoveredEndpoint =
  de_Endpoint :: bytes
  de_Capabilities :: "(bytes, any) gomap"
  de_Relay :: bytes
  de_MLSKeyPackages :: bytes

record 'w IdentifierResolver =
  ir_Schemes :: "'w \<Rightarrow> bytes list"
  ir_Resolve :: "Context \<Rightarrow> bytes \<Rightarrow> 'w \<Rightarrow> DiscoveredEndpoint goret \<times> 'w"

text \<open>A hook may modify the session it is given a pointer to.\<close>

record 'w SessionHook =
  sh_OnSessionCreate :: "Context \<Rightarrow> Session \<Rightarrow> SessionCreateParams \<Rightarrow> 'w \<Rightarrow> go_error option \<times> Session \<times> 'w"
  sh_OnSessionClose :: "Context \<Rightarrow> Session \<Rightarrow> SessionCloseParams \<Rightarrow> 'w \<Rightarrow> Session \<times> 'w"

record 'w Profile =
  pf_Name :: bytes
  pf_Capabilities :: "bytes list"
  pf_Init :: "'w \<Rightarrow> go_error option \<times> 'w"
  pf_FlowHandler :: "'w FlowHandler option"
  pf_MethodHandler :: "'w MethodHandler option"
  pf_ResolveHandler :: "'w ResolveHandler option"
  pf_SessionHook :: "'w SessionHook option"
  pf_IdentifierResolver :: "'w IdentifierResolver option"

record 'w dstate =
  flowOwners :: "bytes \<rightharpoonup> 'w FlowHandler"
  world :: 'w

type_synonym 'w MiddlewareFunc =
  "Context \<Rightarrow> bytes \<Rightarrow> raw \<Rightarrow> 'w dstate \<Rightarrow> (rpc_result \<times> go_error option) \<times> 'w dstate"

type_synonym 'w Middleware =
  "Context \<Rightarrow> bytes \<Rightarrow> raw \<Rightarrow> 'w MiddlewareFunc \<Rightarrow> 'w dstate
     \<Rightarrow> (rpc_result \<times> go_error option) \<times> 'w dstate"

section \<open>The registry\<close>

record 'w registry =
  profiles :: "'w Profile list"
  flowHandlers :: "bytes \<rightharpoonup> 'w FlowHandler"
  methods :: "bytes \<rightharpoonup> 'w MethodHandler"
  resolvers :: "bytes \<rightharpoonup> 'w ResolveHandler"
  idResolvers :: "'w IdentifierResolver list"
  middleware :: "'w Middleware list"
  sessionHooks :: "'w SessionHook list"

definition newRegistry :: "'w registry" where
  "newRegistry = \<lparr>profiles = [], flowHandlers = Map.empty, methods = Map.empty, resolvers = Map.empty,
     idResolvers = [], middleware = [], sessionHooks = []\<rparr>"

text \<open>\<open>%q\<close> of a name without characters that need escaping.\<close>

definition go_quote :: "bytes \<Rightarrow> bytes" where
  "go_quote s = CHR 0x22 # s @ [CHR 0x22]"

text \<open>The loop of \<open>register\<close> over the names of one kind: it stops at the first that is taken.\<close>

fun register_names :: "bytes \<Rightarrow> 'h \<Rightarrow> bytes list \<Rightarrow> (bytes \<rightharpoonup> 'h) \<Rightarrow> go_error option \<times> (bytes \<rightharpoonup> 'h)" where
  "register_names kind h [] m = (None, m)"
| "register_names kind h (n # ns) m =
     (if m n \<noteq> None then (Some (GoErr (kind @ '' '' @ go_quote n @ '' already registered'')), m)
      else register_names kind h ns (m(n \<mapsto> h)))"

definition register_flow :: "'w Profile \<Rightarrow> 'w \<Rightarrow> 'w registry \<Rightarrow> go_error option \<times> 'w registry" where
  "register_flow p w r =
     (case pf_FlowHandler p of
        None \<Rightarrow> (None, r)
      | Some fh \<Rightarrow>
          (let (e, m) = register_names ''flow type'' fh (fh_FlowTypes fh w) (flowHandlers r)
           in (e, r\<lparr>flowHandlers := m\<rparr>)))"

definition register_methods :: "'w Profile \<Rightarrow> 'w \<Rightarrow> 'w registry \<Rightarrow> go_error option \<times> 'w registry" where
  "register_methods p w r =
     (case pf_MethodHandler p of
        None \<Rightarrow> (None, r)
      | Some mh \<Rightarrow>
          (let (e, m) = register_names ''method'' mh (mh_Methods mh w) (methods r)
           in (e, r\<lparr>methods := m\<rparr>)))"

definition register_resolvers :: "'w Profile \<Rightarrow> 'w \<Rightarrow> 'w registry \<Rightarrow> go_error option \<times> 'w registry" where
  "register_resolvers p w r =
     (case pf_ResolveHandler p of
        None \<Rightarrow> (None, r)
      | Some rh \<Rightarrow>
          (let (e, m) = register_names ''resolve type'' rh (rh_ResolveTypes rh w) (resolvers r)
           in (e, r\<lparr>resolvers := m\<rparr>)))"

definition register_hooks :: "'w Profile \<Rightarrow> 'w registry \<Rightarrow> 'w registry" where
  "register_hooks p r0 =
     (let r1 = (case pf_SessionHook p of
                  None \<Rightarrow> r0 | Some sh \<Rightarrow> r0\<lparr>sessionHooks := sessionHooks r0 @ [sh]\<rparr>)
      in (case pf_IdentifierResolver p of
            None \<Rightarrow> r1 | Some ir \<Rightarrow> r1\<lparr>idResolvers := idResolvers r1 @ [ir]\<rparr>))"

text \<open>The whole of \<open>register\<close>: an early return keeps what was registered before it.\<close>

definition register :: "'w Profile \<Rightarrow> 'w \<Rightarrow> 'w registry \<Rightarrow> go_error option \<times> 'w registry" where
  "register p w r =
     (case register_flow p w (r\<lparr>profiles := profiles r @ [p]\<rparr>) of
        (Some e, r1) \<Rightarrow> (Some e, r1)
      | (None, r1) \<Rightarrow>
          (case register_methods p w r1 of
             (Some e, r2) \<Rightarrow> (Some e, r2)
           | (None, r2) \<Rightarrow>
               (case register_resolvers p w r2 of
                  (Some e, r3) \<Rightarrow> (Some e, r3)
                | (None, r3) \<Rightarrow> (None, register_hooks p r3))))"

definition addMiddleware :: "'w Middleware \<Rightarrow> 'w registry \<Rightarrow> 'w registry" where
  "addMiddleware mw r = r\<lparr>middleware := middleware r @ [mw]\<rparr>"

definition lookupFlowHandler :: "'w registry \<Rightarrow> bytes \<Rightarrow> 'w FlowHandler option" where
  "lookupFlowHandler r t = flowHandlers r t"

definition lookupFlowOwner :: "'w dstate \<Rightarrow> bytes \<Rightarrow> 'w FlowHandler option" where
  "lookupFlowOwner st fid = flowOwners st fid"

definition trackFlow :: "bytes \<Rightarrow> 'w FlowHandler \<Rightarrow> 'w dstate \<Rightarrow> 'w dstate" where
  "trackFlow fid h st = st\<lparr>flowOwners := (flowOwners st)(fid \<mapsto> h)\<rparr>"

definition untrackFlow :: "bytes \<Rightarrow> 'w dstate \<Rightarrow> 'w dstate" where
  "untrackFlow fid st = st\<lparr>flowOwners := (flowOwners st)(fid := None)\<rparr>"

definition lookupMethod :: "'w registry \<Rightarrow> bytes \<Rightarrow> 'w MethodHandler option" where
  "lookupMethod r m = methods r m"

definition lookupResolver :: "'w registry \<Rightarrow> bytes \<Rightarrow> 'w ResolveHandler option" where
  "lookupResolver r t = resolvers r t"

text \<open>The loop of \<open>runMiddleware\<close> builds the chain from the last middleware to the first.\<close>

fun build_chain :: "'w Middleware list \<Rightarrow> 'w MiddlewareFunc \<Rightarrow> 'w MiddlewareFunc" where
  "build_chain [] chain = chain"
| "build_chain (mw # mws) chain =
     build_chain mws (\<lambda>ctx method params. mw ctx method params chain)"

definition runMiddleware :: "'w registry \<Rightarrow> Context \<Rightarrow> bytes \<Rightarrow> raw \<Rightarrow> 'w MiddlewareFunc \<Rightarrow> 'w dstate
    \<Rightarrow> (rpc_result \<times> go_error option) \<times> 'w dstate" where
  "runMiddleware r ctx method params final =
     (if middleware r = [] then final ctx method params
      else build_chain (rev (middleware r)) final ctx method params)"

fun create_hooks_loop :: "'w SessionHook list \<Rightarrow> Context \<Rightarrow> SessionCreateParams \<Rightarrow> Session \<Rightarrow> 'w
    \<Rightarrow> go_error option \<times> Session \<times> 'w" where
  "create_hooks_loop [] ctx ps s w = (None, s, w)"
| "create_hooks_loop (h # hs) ctx ps s w =
     (case sh_OnSessionCreate h ctx s ps w of
        (Some e, s', w') \<Rightarrow> (Some e, s', w')
      | (None, s', w') \<Rightarrow> create_hooks_loop hs ctx ps s' w')"

definition runSessionCreateHooks :: "'w registry \<Rightarrow> Context \<Rightarrow> Session \<Rightarrow> SessionCreateParams \<Rightarrow> 'w
    \<Rightarrow> go_error option \<times> Session \<times> 'w" where
  "runSessionCreateHooks r ctx s ps w = create_hooks_loop (sessionHooks r) ctx ps s w"

fun close_hooks_loop :: "'w SessionHook list \<Rightarrow> Context \<Rightarrow> SessionCloseParams \<Rightarrow> Session \<Rightarrow> 'w \<Rightarrow> Session \<times> 'w" where
  "close_hooks_loop [] ctx ps s w = (s, w)"
| "close_hooks_loop (h # hs) ctx ps s w =
     (let (s', w') = sh_OnSessionClose h ctx s ps w in close_hooks_loop hs ctx ps s' w')"

definition runSessionCloseHooks :: "'w registry \<Rightarrow> Context \<Rightarrow> Session \<Rightarrow> SessionCloseParams \<Rightarrow> 'w
    \<Rightarrow> Session \<times> 'w" where
  "runSessionCloseHooks r ctx s ps w = close_hooks_loop (sessionHooks r) ctx ps s w"

text \<open>The inner loop of \<open>resolveIdentifier\<close>: does the resolver list a prefix of the identifier?\<close>

fun scheme_matches :: "bytes list \<Rightarrow> bytes \<Rightarrow> bool" where
  "scheme_matches [] i = False"
| "scheme_matches (s # ss) i =
     (if length s \<le> length i \<and> take (length s) i = s then True else scheme_matches ss i)"

fun resolve_loop :: "'w IdentifierResolver list \<Rightarrow> Context \<Rightarrow> bytes \<Rightarrow> 'w \<Rightarrow> DiscoveredEndpoint goret \<times> 'w" where
  "resolve_loop [] ctx i w = ((None, None), w)"
| "resolve_loop (ir # irs) ctx i w =
     (if scheme_matches (ir_Schemes ir w) i then
        (case ir_Resolve ir ctx i w of
           ((res, Some e), w') \<Rightarrow> ((None, Some e), w')
         | ((Some d, None), w') \<Rightarrow> ((Some d, None), w')
         | ((None, None), w') \<Rightarrow> resolve_loop irs ctx i w')
      else resolve_loop irs ctx i w)"

definition resolveIdentifier :: "'w registry \<Rightarrow> Context \<Rightarrow> bytes \<Rightarrow> 'w \<Rightarrow> DiscoveredEndpoint goret \<times> 'w" where
  "resolveIdentifier r ctx i w = resolve_loop (idResolvers r) ctx i w"

lemmas register_defs =
  register_def register_flow_def register_methods_def register_resolvers_def register_hooks_def

lemmas flow_owner_defs = lookupFlowOwner_def trackFlow_def untrackFlow_def

end
