(* ===== verification/Peer.thy ===== *)
theory Peer
  imports Registry
begin

text \<open>
  The peer (peer.go, handler.go): configuration, dispatch of requests to the application
  handler and to profiles, the asynchronous path (\<open>Serve\<close>, \<open>handleRequest\<close>) and the
  synchronous one (\<open>HandleRequestSync\<close>), and outgoing messages.

  The transport, the session store, the validator, the authorizer and the handler are
  interfaces: records of functions on the state \<open>'w\<close> of the world. A handler call is one
  step; calls a handler makes to the transport are part of its effect on the world.
\<close>

section \<open>Interfaces\<close>

record 'w Transport =
  t_WriteMessage :: "Context \<Rightarrow> bytes \<Rightarrow> 'w \<Rightarrow> go_error option \<times> 'w"
  t_Close :: "'w \<Rightarrow> go_error option \<times> 'w"

record 'w SessionStoreI =
  ss_Get :: "bytes \<Rightarrow> 'w \<Rightarrow> Session option"
  ss_Create :: "Session \<Rightarrow> 'w \<Rightarrow> go_error option \<times> 'w"

type_synonym 'w Validator = "bytes \<Rightarrow> raw \<Rightarrow> 'w \<Rightarrow> go_error option \<times> 'w"
type_synonym 'w Authorizer = "Context \<Rightarrow> bytes \<Rightarrow> raw \<Rightarrow> 'w \<Rightarrow> bool \<times> 'w"

record 'w Handler =
  h_SessionCreate :: "Context \<Rightarrow> SessionCreateParams \<Rightarrow> 'w \<Rightarrow> SessionCreateResult goret \<times> 'w"
  h_SessionResume :: "Context \<Rightarrow> SessionResumeParams \<Rightarrow> 'w \<Rightarrow> SessionResumeResult goret \<times> 'w"
  h_SessionClose :: "Context \<Rightarrow> SessionCloseParams \<Rightarrow> 'w \<Rightarrow> 'w"
  h_SessionAuthenticate :: "Context \<Rightarrow> SessionAuthenticateParams \<Rightarrow> 'w \<Rightarrow> SessionAuthenticateResult goret \<times> 'w"
  h_MessageDeliver :: "Context \<Rightarrow> MessageDeliverParams \<Rightarrow> 'w \<Rightarrow> 'w"
  h_MessageAck :: "Context \<Rightarrow> MessageAckParams \<Rightarrow> 'w \<Rightarrow> 'w"
  h_MessagePoll :: "Context \<Rightarrow> MessagePollParams \<Rightarrow> 'w \<Rightarrow> MessagePollResult goret \<times> 'w"
  h_MessageStatus :: "Context \<Rightarrow> MessageStatusParams \<Rightarrow> 'w \<Rightarrow> 'w"
  h_CapabilityUpdate :: "Context \<Rightarrow> CapabilityUpdateParams \<Rightarrow> 'w \<Rightarrow> CapabilityUpdateResult goret \<times> 'w"
  h_CapabilityList :: "Context \<Rightarrow> CapabilityListParams \<Rightarrow> 'w \<Rightarrow> CapabilityListResult goret \<times> 'w"
  h_FlowStart :: "Context \<Rightarrow> FlowStartParams \<Rightarrow> 'w \<Rightarrow> FlowStartResult goret \<times> 'w"
  h_FlowProgress :: "Context \<Rightarrow> FlowProgressParams \<Rightarrow> 'w \<Rightarrow> 'w"
  h_FlowAction :: "Context \<Rightarrow> FlowActionParams \<Rightarrow> 'w \<Rightarrow> FlowActionResult goret \<times> 'w"
  h_FlowComplete :: "Context \<Rightarrow> FlowCompleteParams \<Rightarrow> 'w \<Rightarrow> 'w"
  h_FlowError :: "Context \<Rightarrow> FlowErrorParams \<Rightarrow> 'w \<Rightarrow> 'w"
  h_FlowCancel :: "Context \<Rightarrow> FlowCancelParams \<Rightarrow> 'w \<Rightarrow> FlowCancelResult goret \<times> 'w"
  h_Resolve :: "Context \<Rightarrow> ResolveParams \<Rightarrow> 'w \<Rightarrow> ResolveResult goret \<times> 'w"
  h_CredentialNotification :: "(Context \<Rightarrow> CredentialNotificationParams \<Rightarrow> 'w \<Rightarrow> 'w) option"
    \<comment> \<open>the optional interface \<open>CredentialNotificationHandler\<close>\<close>

text \<open>\<open>BaseHandler\<close>: requests are refused, notifications are dropped.\<close>

definition not_found :: "'w \<Rightarrow> 'r goret \<times> 'w" where
  "not_found w = ((None, Some (RPCErr (NewRPCError ErrMethodNotFound None))), w)"

definition BaseHandler :: "'w Handler" where
  "BaseHandler = \<lparr>
     h_SessionCreate = (\<lambda>_ _. not_found),
     h_SessionResume = (\<lambda>_ _. not_found),
     h_SessionClose = (\<lambda>_ _ w. w),
     h_SessionAuthenticate = (\<lambda>_ _. not_found),
     h_MessageDeliver = (\<lambda>_ _ w. w),
     h_MessageAck = (\<lambda>_ _ w. w),
     h_MessagePoll = (\<lambda>_ _. not_found),
     h_MessageStatus = (\<lambda>_ _ w. w),
     h_CapabilityUpdate = (\<lambda>_ _. not_found),
     h_CapabilityList = (\<lambda>_ _. not_found),
     h_FlowStart = (\<lambda>_ _. not_found),
     h_FlowProgress = (\<lambda>_ _ w. w),
     h_FlowAction = (\<lambda>_ _. not_found),
     h_FlowComplete = (\<lambda>_ _ w. w),
     h_FlowError = (\<lambda>_ _ w. w),
     h_FlowCancel = (\<lambda>_ _. not_found),
     h_Resolve = (\<lambda>_ _. not_found),
     h_CredentialNotification = Some (\<lambda>_ _ w. w)\<rparr>"

section \<open>The peer\<close>

record 'w Peer =
  transport :: "'w Transport"
  handler :: "'w Handler"
  registry :: "'w registry"
  sessionStore :: "'w SessionStoreI option"
  maxMessageSize :: int
  validator :: "'w Validator option"
  authorizer :: "'w Authorizer option"

definition SupportedVersions :: "bytes list" where
  "SupportedVersions = [Version]"

fun version_loop :: "bytes list \<Rightarrow> bytes \<Rightarrow> bool" where
  "version_loop [] v = False"
| "version_loop (x # xs) v = (if x = v then True else version_loop xs v)"

definition IsSupportedVersion :: "bytes \<Rightarrow> bool" where
  "IsSupportedVersion v = version_loop SupportedVersions v"

text \<open>An option may register a profile, so it acts on the peer and on the world.\<close>

type_synonym 'w PeerOption = "'w Peer \<Rightarrow> 'w \<Rightarrow> 'w Peer \<times> 'w"

definition WithMaxMessageSize :: "int \<Rightarrow> 'w PeerOption" where
  "WithMaxMessageSize n p w = (p\<lparr>maxMessageSize := n\<rparr>, w)"

definition WithValidator :: "'w Validator \<Rightarrow> 'w PeerOption" where
  "WithValidator v p w = (p\<lparr>validator := Some v\<rparr>, w)"

definition WithAuthorizer :: "'w Authorizer \<Rightarrow> 'w PeerOption" where
  "WithAuthorizer a p w = (p\<lparr>authorizer := Some a\<rparr>, w)"

definition WithSessionStore :: "'w SessionStoreI \<Rightarrow> 'w PeerOption" where
  "WithSessionStore st p w = (p\<lparr>sessionStore := Some st\<rparr>, w)"

definition Use :: "'w Profile \<Rightarrow> 'w Peer \<Rightarrow> 'w \<Rightarrow> go_error option \<times> 'w Peer \<times> 'w" where
  "Use profile p w =
     (case register profile w (registry p) of
        (Some e, r) \<Rightarrow> (Some e, p\<lparr>registry := r\<rparr>, w)
      | (None, r) \<Rightarrow> (let (e, w') = pf_Init profile w in (e, p\<lparr>registry := r\<rparr>, w')))"

text \<open>The error is only logged.\<close>

definition WithProfile :: "'w Profile \<Rightarrow> 'w PeerOption" where
  "WithProfile profile p w = (let (e, p', w') = Use profile p w in (p', w'))"

fun apply_options :: "'w PeerOption list \<Rightarrow> 'w Peer \<Rightarrow> 'w \<Rightarrow> 'w Peer \<times> 'w" where
  "apply_options [] p w = (p, w)"
| "apply_options (opt # opts) p w = (let (p', w') = opt p w in apply_options opts p' w')"

definition NewPeer :: "'w Transport \<Rightarrow> 'w Handler \<Rightarrow> 'w PeerOption list \<Rightarrow> 'w \<Rightarrow> 'w Peer \<times> 'w" where
  "NewPeer t h opts w =
     apply_options opts
       \<lparr>transport = t, handler = h, registry = newRegistry, sessionStore = None,
        maxMessageSize = 1048576, validator = None, authorizer = None\<rparr> w"

definition UseMiddleware :: "'w Middleware \<Rightarrow> 'w Peer \<Rightarrow> 'w Peer" where
  "UseMiddleware mw p = p\<lparr>registry := addMiddleware mw (registry p)\<rparr>"

definition SetSessionStore :: "'w SessionStoreI \<Rightarrow> 'w Peer \<Rightarrow> 'w Peer" where
  "SetSessionStore st p = p\<lparr>sessionStore := Some st\<rparr>"

definition Peer_Session :: "'w Peer \<Rightarrow> bytes \<Rightarrow> 'w \<Rightarrow> Session option" where
  "Peer_Session p sid w = (case sessionStore p of None \<Rightarrow> None | Some st \<Rightarrow> ss_Get st sid w)"

definition ResolveIdentifier :: "'w Peer \<Rightarrow> Context \<Rightarrow> bytes \<Rightarrow> 'w \<Rightarrow> DiscoveredEndpoint goret \<times> 'w" where
  "ResolveIdentifier p ctx i w = resolveIdentifier (registry p) ctx i w"

section \<open>Identifiers and errors\<close>

definition rawIDToString :: "raw \<Rightarrow> bytes" where
  "rawIDToString r =
     (case unmarshal un_string [] r of
        Some i \<Rightarrow> i
      | None \<Rightarrow> (case r of None \<Rightarrow> [] | Some b \<Rightarrow> b))"

definition toRPCError :: "go_error option \<Rightarrow> RPCError option" where
  "toRPCError e =
     (case e of
        None \<Rightarrow> None
      | Some (RPCErr r) \<Rightarrow> Some r
      | Some (GoErr _) \<Rightarrow> Some (NewRPCError ErrInternalError None))"

section \<open>Dispatch of one method\<close>

type_synonym 'w outcome = "(rpc_result \<times> go_error option) \<times> 'w dstate"

definition fail :: "int \<Rightarrow> bytes option option \<Rightarrow> 'w dstate \<Rightarrow> 'w outcome" where
  "fail c data st = ((RNil, Some (RPCErr (NewRPCError c data))), st)"

text \<open>\<open>json.Unmarshal(params, &ps)\<close> with the error every method answers alike.\<close>

definition with_params :: "'a decoder \<Rightarrow> 'a \<Rightarrow> raw \<Rightarrow> ('a \<Rightarrow> 'w dstate \<Rightarrow> 'w outcome) \<Rightarrow> 'w dstate \<Rightarrow> 'w outcome" where
  "with_params un zero params k st =
     (case unmarshal un zero params of
        None \<Rightarrow> fail ErrInvalidParams None st
      | Some ps \<Rightarrow> k ps st)"

text \<open>\<open>return h(ctx, &ps)\<close> for a call that answers, and for one that only notifies.\<close>

definition ret_call :: "('r option \<Rightarrow> rpc_result) \<Rightarrow> ('w \<Rightarrow> 'r goret \<times> 'w) \<Rightarrow> 'w dstate \<Rightarrow> 'w outcome" where
  "ret_call wrap f st = (let ((r, e), w) = f (world st) in ((wrap r, e), st\<lparr>world := w\<rparr>))"

definition notify_call :: "('w \<Rightarrow> 'w) \<Rightarrow> 'w dstate \<Rightarrow> 'w outcome" where
  "notify_call f st = ((RNil, None), st\<lparr>world := f (world st)\<rparr>)"

definition supported_data :: "bytes option option" where
  "supported_data = Some (ms_map (ms_list ms_string) [(''supported_versions'', SupportedVersions)])"

text \<open>The session the peer records after the handler has accepted a session.\<close>

definition new_session :: "SessionCreateParams \<Rightarrow> SessionCreateResult \<Rightarrow> Session" where
  "new_session ps r =
     \<lparr>ses_ID = md_SessionID (scr_WMP r), ses_Participants = scp_Participants ps,
      ses_Capabilities = scr_Capabilities r, ses_Security = scr_Security r, ses_Metadata = None,
      ses_ResumptionToken = scr_ResumptionToken r, ses_CreatedAt = zero_time, ses_ExpiresAt = zero_time\<rparr>"

definition session_create :: "'w Peer \<Rightarrow> Context \<Rightarrow> SessionCreateParams \<Rightarrow> 'w dstate \<Rightarrow> 'w outcome" where
  "session_create p ctx ps st =
     (if \<not> IsSupportedVersion (md_Version (scp_WMP ps)) then fail ErrVersionNotSupported supported_data st
      else (case h_SessionCreate (handler p) ctx ps (world st) of
         ((res, Some e), w) \<Rightarrow> ((RNil, Some e), st\<lparr>world := w\<rparr>)
       | ((res, None), w) \<Rightarrow>
           (case (res, sessionStore p) of
              (Some r, Some store) \<Rightarrow>
                if md_SessionID (scr_WMP r) \<noteq> [] then
                  (case runSessionCreateHooks (registry p) ctx (new_session ps r) ps w of
                     (Some he, s, w') \<Rightarrow>
                       ((RNil, map_option RPCErr (toRPCError (Some he))), st\<lparr>world := w'\<rparr>)
                   | (None, s, w') \<Rightarrow>
                       ((RSessionCreate (Some r), None), st\<lparr>world := snd (ss_Create store s w')\<rparr>))
                else ((RSessionCreate res, None), st\<lparr>world := w\<rparr>)
            | _ \<Rightarrow> ((RSessionCreate res, None), st\<lparr>world := w\<rparr>))))"

definition session_resume :: "'w Peer \<Rightarrow> Context \<Rightarrow> SessionResumeParams \<Rightarrow> 'w dstate \<Rightarrow> 'w outcome" where
  "session_resume p ctx ps st =
     (if \<not> IsSupportedVersion (md_Version (srp_WMP ps)) then fail ErrVersionNotSupported supported_data st
      else ret_call RSessionResume (h_SessionResume (handler p) ctx ps) st)"

definition flow_start :: "'w Peer \<Rightarrow> Context \<Rightarrow> FlowStartParams \<Rightarrow> 'w dstate \<Rightarrow> 'w outcome" where
  "flow_start p ctx ps st =
     (case lookupFlowHandler (registry p) (fsp_FlowType ps) of
        Some fh \<Rightarrow>
          (let ((res, e), w) = fh_StartFlow fh ctx ps (world st);
               st1 = st\<lparr>world := w\<rparr>;
               st2 = (if e = None \<and> res \<noteq> None then trackFlow (fsp_FlowID ps) fh st1 else st1)
           in ((RFlowStart res, e), st2))
      | None \<Rightarrow> ret_call RFlowStart (h_FlowStart (handler p) ctx ps) st)"

definition flow_progress :: "'w Peer \<Rightarrow> Context \<Rightarrow> FlowProgressParams \<Rightarrow> 'w dstate \<Rightarrow> 'w outcome" where
  "flow_progress p ctx ps st =
     (case lookupFlowOwner st (fpp_FlowID ps) of
        Some fh \<Rightarrow> notify_call (fh_HandleProgress fh ctx ps) st
      | None \<Rightarrow> notify_call (h_FlowProgress (handler p) ctx ps) st)"

definition flow_action :: "'w Peer \<Rightarrow> Context \<Rightarrow> FlowActionParams \<Rightarrow> 'w dstate \<Rightarrow> 'w outcome" where
  "flow_action p ctx ps st =
     (case lookupFlowOwner st (fap_FlowID ps) of
        Some fh \<Rightarrow> ret_call RFlowAction (fh_HandleAction fh ctx ps) st
      | None \<Rightarrow> ret_call RFlowAction (h_FlowAction (handler p) ctx ps) st)"

definition flow_complete :: "'w Peer \<Rightarrow> Context \<Rightarrow> FlowCompleteParams \<Rightarrow> 'w dstate \<Rightarrow> 'w outcome" where
  "flow_complete p ctx ps st =
     (case lookupFlowOwner st (fcp_FlowID ps) of
        Some fh \<Rightarrow>
          ((RNil, None), untrackFlow (fcp_FlowID ps) (st\<lparr>world := fh_HandleComplete fh ctx ps (world st)\<rparr>))
      | None \<Rightarrow> notify_call (h_FlowComplete (handler p) ctx ps) st)"

definition flow_error :: "'w Peer \<Rightarrow> Context \<Rightarrow> FlowErrorParams \<Rightarrow> 'w dstate \<Rightarrow> 'w outcome" where
  "flow_error p ctx ps st =
     (case lookupFlowOwner st (fep_FlowID ps) of
        Some fh \<Rightarrow>
          ((RNil, None), untrackFlow (fep_FlowID ps) (st\<lparr>world := fh_HandleError fh ctx ps (world st)\<rparr>))
      | None \<Rightarrow> notify_call (h_FlowError (handler p) ctx ps) st)"

definition flow_cancel :: "'w Peer \<Rightarrow> Context \<Rightarrow> FlowCancelParams \<Rightarrow> 'w dstate \<Rightarrow> 'w outcome" where
  "flow_cancel p ctx ps st =
     (let st1 = (case lookupFlowOwner st (fxp_FlowID ps) of
                   Some fh \<Rightarrow> untrackFlow (fxp_FlowID ps) st
                 | None \<Rightarrow> st)
      in ret_call RFlowCancel (h_FlowCancel (handler p) ctx ps) st1)"

definition resolve :: "'w Peer \<Rightarrow> Context \<Rightarrow> ResolveParams \<Rightarrow> 'w dstate \<Rightarrow> 'w outcome" where
  "resolve p ctx ps st =
     (case lookupResolver (registry p) (rp_Type ps) of
        Some rh \<Rightarrow> ret_call RResolve (rh_HandleResolve rh ctx ps) st
      | None \<Rightarrow> ret_call RResolve (h_Resolve (handler p) ctx ps) st)"

definition credential_notification :: "(Context \<Rightarrow> CredentialNotificationParams \<Rightarrow> 'w \<Rightarrow> 'w) \<Rightarrow> Context
    \<Rightarrow> CredentialNotificationParams \<Rightarrow> 'w dstate \<Rightarrow> 'w outcome" where
  "credential_notification cnh ctx ps st =
     (case ValidateCredentialNotification ps of
        Some e \<Rightarrow> ((RNil, Some e), st)
      | None \<Rightarrow> notify_call (cnh ctx ps) st)"

definition custom_method :: "'w Peer \<Rightarrow> Context \<Rightarrow> bytes \<Rightarrow> raw \<Rightarrow> 'w dstate \<Rightarrow> 'w outcome" where
  "custom_method p ctx method params st =
     (case lookupMethod (registry p) method of
        Some mh \<Rightarrow>
          (let ((r, e), w) = mh_HandleMethod mh ctx method params (world st) in ((r, e), st\<lparr>world := w\<rparr>))
      | None \<Rightarrow> fail ErrMethodNotFound None st)"

definition dispatchMethodInternal :: "'w Peer \<Rightarrow> 'w MiddlewareFunc" where
  "dispatchMethodInternal p ctx method params st =
     (if method = MethodSessionCreate then
        with_params un_SessionCreateParams zero_SessionCreateParams params (session_create p ctx) st
      else if method = MethodSessionResume then
        with_params un_SessionResumeParams zero_SessionResumeParams params (session_resume p ctx) st
      else if method = MethodSessionClose then
        with_params un_SessionCloseParams zero_SessionCloseParams params (\<lambda>ps. notify_call (h_SessionClose (handler p) ctx ps)) st
      else if method = MethodSessionAuthenticate then
        with_params un_SessionAuthenticateParams zero_SessionAuthenticateParams params (\<lambda>ps. ret_call RSessionAuthenticate (h_SessionAuthenticate (handler p) ctx ps)) st
      else if method = MethodMessageDeliver then
        with_params un_MessageDeliverParams zero_MessageDeliverParams params (\<lambda>ps. notify_call (h_MessageDeliver (handler p) ctx ps)) st
      else if method = MethodMessageAck then
        with_params un_MessageAckParams zero_MessageAckParams params (\<lambda>ps. notify_call (h_MessageAck (handler p) ctx ps)) st
      else if method = MethodMessageStatus then
        with_params un_MessageStatusParams zero_MessageStatusParams params (\<lambda>ps. notify_call (h_MessageStatus (handler p) ctx ps)) st
      else if method = MethodMessagePoll then
        with_params un_MessagePollParams zero_MessagePollParams params (\<lambda>ps. ret_call RMessagePoll (h_MessagePoll (handler p) ctx ps)) st
      else if method = MethodCapabilityUpdate then
        with_params un_CapabilityUpdateParams zero_CapabilityUpdateParams params (\<lambda>ps. ret_call RCapabilityUpdate (h_CapabilityUpdate (handler p) ctx ps)) st
      else if method = MethodCapabilityList then
        with_params un_CapabilityListParams zero_CapabilityListParams params (\<lambda>ps. ret_call RCapabilityList (h_CapabilityList (handler p) ctx ps)) st
      else if method = MethodFlowStart then
        with_params un_FlowStartParams zero_FlowStartParams params (flow_start p ctx) st
      else if method = MethodFlowProgress then
        with_params un_FlowProgressParams zero_FlowProgressParams params (flow_progress p ctx) st
      else if method = MethodFlowAction then
        with_params un_FlowActionParams zero_FlowActionParams params (flow_action p ctx) st
      else if method = MethodFlowComplete then
        with_params un_FlowCompleteParams zero_FlowCompleteParams params (flow_complete p ctx) st
      else if method = MethodFlowError then
        with_params un_FlowErrorParams zero_FlowErrorParams params (flow_error p ctx) st
      else if method = MethodFlowCancel then
        with_params un_FlowCancelParams zero_FlowCancelParams params (flow_cancel p ctx) st
      else if method = MethodResolve then
        with_params un_ResolveParams zero_ResolveParams params (resolve p ctx) st
      else if method = MethodCredentialNotification then
        (case h_CredentialNotification (handler p) of
           Some cnh \<Rightarrow>
             with_params un_CredentialNotificationParams zero_CredentialNotificationParams params
               (credential_notification cnh ctx) st
         | None \<Rightarrow> fail ErrMethodNotFound None st)
      else custom_method p ctx method params st)"

section \<open>One request\<close>

definition sendJSON :: "'w Peer \<Rightarrow> Context \<Rightarrow> bytes option \<Rightarrow> 'w \<Rightarrow> go_error option \<times> 'w" where
  "sendJSON p ctx v w =
     (case v of
        None \<Rightarrow> (Some (GoErr ''marshal''), w)
      | Some data \<Rightarrow> t_WriteMessage (transport p) ctx data w)"

definition send :: "'w Peer \<Rightarrow> Context \<Rightarrow> Response \<Rightarrow> 'w dstate \<Rightarrow> 'w dstate" where
  "send p ctx r st = st\<lparr>world := snd (sendJSON p ctx (ms_Response r) (world st))\<rparr>"

text \<open>The envelope \<open>struct { WMP Metadata }\<close> both paths read the metadata with.\<close>

record Envelope =
  env_WMP :: Metadata

definition un_Envelope :: "Envelope decoder" where
  "un_Envelope = un_struct [(''wmp'', field env_WMP env_WMP_update un_Metadata)]"

definition enrich :: "'w Peer \<Rightarrow> Request \<Rightarrow> Context \<Rightarrow> 'w \<Rightarrow> Context" where
  "enrich p req ctx0 w =
     (let ctx1 = (if \<not> IsNotification req then ContextWithRequestID ctx0 (rawIDToString (req_ID req)) else ctx0)
      in (case unmarshal un_Envelope \<lparr>env_WMP = zero_Metadata\<rparr> (req_Params req) of
            None \<Rightarrow> ctx1
          | Some env \<Rightarrow>
              (let m = env_WMP env;
                   ctx2 = (if md_Sender m \<noteq> [] then ContextWithSender ctx1 (md_Sender m) else ctx1)
               in (case sessionStore p of
                     None \<Rightarrow> ctx2
                   | Some store \<Rightarrow>
                       if md_SessionID m = [] then ctx2
                       else (case ss_Get store (md_SessionID m) w of
                               None \<Rightarrow> ctx2
                             | Some s \<Rightarrow> ContextWithSession ctx2 s)))))"

definition authorize :: "'w Peer \<Rightarrow> Context \<Rightarrow> Request \<Rightarrow> 'w dstate \<Rightarrow> bool \<times> 'w dstate" where
  "authorize p ctx req st =
     (case authorizer p of
        None \<Rightarrow> (True, st)
      | Some a \<Rightarrow> (let (ok, w) = a ctx (req_Method req) (req_Params req) (world st) in (ok, st\<lparr>world := w\<rparr>)))"

definition validate :: "'w Peer \<Rightarrow> Request \<Rightarrow> 'w dstate \<Rightarrow> go_error option \<times> 'w dstate" where
  "validate p req st =
     (case validator p of
        None \<Rightarrow> (None, st)
      | Some v \<Rightarrow> (let (e, w) = v (req_Method req) (req_Params req) (world st) in (e, st\<lparr>world := w\<rparr>)))"

text \<open>The answer to a request whose dispatch returned \<open>(result, err)\<close>.\<close>

definition answer :: "Request \<Rightarrow> rpc_result \<times> go_error option \<Rightarrow> Response" where
  "answer req = (\<lambda>(result, e).
     (case e of
        Some _ \<Rightarrow> NewErrorResponse (req_ID req) (toRPCError e)
      | None \<Rightarrow>
          (case NewResponse (req_ID req) (if result = RNil then Some ''{}'' else marshal_result result) of
             Inr r \<Rightarrow> r
           | Inl _ \<Rightarrow> NewErrorResponse (req_ID req) (Some (NewRPCError ErrInternalError None)))))"

definition run_request :: "'w Peer \<Rightarrow> Context \<Rightarrow> Request \<Rightarrow> 'w dstate \<Rightarrow> 'w outcome" where
  "run_request p ctx req st =
     runMiddleware (registry p) (enrich p req ctx (world st)) (req_Method req) (req_Params req)
       (dispatchMethodInternal p) st"

definition unauthorized :: "Request \<Rightarrow> Response" where
  "unauthorized req = NewErrorResponse (req_ID req) (Some (NewRPCError ErrNotAuthorized None))"

definition invalid_params :: "Request \<Rightarrow> go_error \<Rightarrow> Response" where
  "invalid_params req e =
     NewErrorResponse (req_ID req) (Some (NewRPCError ErrInvalidParams (reason_data (error_text e))))"

definition too_large :: Response where
  "too_large = NewErrorResponse None (Some (NewRPCError ErrInvalidRequest (reason_data ''message too large'')))"

definition parse_error :: Response where
  "parse_error = NewErrorResponse None (Some (NewRPCError ErrParseError None))"

definition handleRequest :: "'w Peer \<Rightarrow> Context \<Rightarrow> Request \<Rightarrow> 'w dstate \<Rightarrow> 'w dstate" where
  "handleRequest p ctx req st =
     (case authorize p ctx req st of
        (False, st1) \<Rightarrow> if IsNotification req then st1 else send p ctx (unauthorized req) st1
      | (True, st1) \<Rightarrow>
          (case validate p req st1 of
             (Some e, st2) \<Rightarrow> if IsNotification req then st2 else send p ctx (invalid_params req e) st2
           | (None, st2) \<Rightarrow>
               (let (res, st3) = run_request p ctx req st2;
                    ctx' = enrich p req ctx (world st2)
                in if IsNotification req then st3 else send p ctx' (answer req res) st3)))"

section \<open>The synchronous path\<close>

text \<open>\<open>HandleRequestSync\<close> after decoding: the request part.\<close>

definition sync_request :: "'w Peer \<Rightarrow> Context \<Rightarrow> Request \<Rightarrow> 'w dstate \<Rightarrow> Response option \<times> 'w dstate" where
  "sync_request p ctx req st =
     (case authorize p ctx req st of
        (False, st1) \<Rightarrow> (Some (unauthorized req), st1)
      | (True, st1) \<Rightarrow>
          (case validate p req st1 of
             (Some e, st2) \<Rightarrow> (Some (invalid_params req e), st2)
           | (None, st2) \<Rightarrow>
               (let (res, st3) = run_request p ctx req st2
                in if IsNotification req then (None, st3) else (Some (answer req res), st3))))"

section \<open>Pending calls\<close>

text \<open>
  A pending call waits on a channel of capacity one; channels are numbered. \<open>chans\<close> is
  the content of each channel, \<open>spawned\<close> the requests whose goroutine has not run yet,
  \<open>crashed\<close> that a goroutine of the peer has panicked.
\<close>

record 'w pstate =
  disp :: "'w dstate"
  pending :: "bytes \<rightharpoonup> nat"
  chans :: "nat \<Rightarrow> Response list"
  spawned :: "Request list"
  crashed :: bool

definition handleResponse :: "Response \<Rightarrow> 'w pstate \<Rightarrow> 'w pstate" where
  "handleResponse resp ps =
     (let rid = rawIDToString (resp_ID resp) in
      case pending ps rid of
        None \<Rightarrow> ps
      | Some ch \<Rightarrow> ps\<lparr>pending := (pending ps)(rid := None), chans := (chans ps)(ch := chans ps ch @ [resp])\<rparr>)"

definition dispatch :: "Message \<Rightarrow> 'w pstate \<Rightarrow> 'w pstate" where
  "dispatch msg ps =
     (if IsResponse msg then handleResponse (AsResponse msg) ps
      else if IsRequest msg then ps\<lparr>spawned := spawned ps @ [AsRequest msg]\<rparr>
      else ps)"

definition send_ps :: "'w Peer \<Rightarrow> Context \<Rightarrow> Response \<Rightarrow> 'w pstate \<Rightarrow> 'w pstate" where
  "send_ps p ctx r ps = ps\<lparr>disp := send p ctx r (disp ps)\<rparr>"

definition decOpts :: "'w Peer \<Rightarrow> DecodeOptions" where
  "decOpts p = \<lparr>MaxSize = maxMessageSize p, MaxDepth = defaultMaxDepth\<rparr>"

text \<open>A nil element of a batch would be dereferenced by \<open>dispatch\<close>.\<close>

fun dispatch_batch :: "Message option list \<Rightarrow> 'w pstate \<Rightarrow> 'w pstate" where
  "dispatch_batch [] ps = ps"
| "dispatch_batch (None # ms) ps = ps\<lparr>crashed := True\<rparr>"
| "dispatch_batch (Some m # ms) ps = dispatch_batch ms (dispatch m ps)"

text \<open>One iteration of the loop of \<open>Serve\<close> on the bytes read from the transport.\<close>

definition serve_single :: "'w Peer \<Rightarrow> Context \<Rightarrow> bytes \<Rightarrow> 'w pstate \<Rightarrow> 'w pstate" where
  "serve_single p ctx data ps =
     (case DecodeMessage data [Some (decOpts p)] of
        Inl _ \<Rightarrow> send_ps p ctx parse_error ps
      | Inr msg \<Rightarrow> dispatch msg ps)"

definition serve_message :: "'w Peer \<Rightarrow> Context \<Rightarrow> bytes \<Rightarrow> 'w pstate \<Rightarrow> 'w pstate" where
  "serve_message p ctx data ps =
     (if int (length data) > maxMessageSize p then send_ps p ctx too_large ps
      else (case DecodeBatch data [Some (decOpts p)] of
              Panic \<Rightarrow> ps\<lparr>crashed := True\<rparr>
            | Ok (Some msgs) \<Rightarrow> dispatch_batch msgs ps
            | _ \<Rightarrow> serve_single p ctx data ps))"

text \<open>\<open>Serve\<close> on the messages the transport delivers until it fails or the process dies.\<close>

fun Serve :: "'w Peer \<Rightarrow> Context \<Rightarrow> bytes list \<Rightarrow> 'w pstate \<Rightarrow> 'w pstate" where
  "Serve p ctx [] ps = ps"
| "Serve p ctx (d # ds) ps =
     (let ps' = serve_message p ctx d ps in if crashed ps' then ps' else Serve p ctx ds ps')"

text \<open>\<open>HandleRequestSync\<close>: the bytes of the response, or no bytes.\<close>

definition HandleRequestSync :: "'w Peer \<Rightarrow> Context \<Rightarrow> bytes \<Rightarrow> 'w pstate \<Rightarrow> (raw \<times> go_error option) \<times> 'w pstate" where
  "HandleRequestSync p ctx data ps =
     (let marshalled = (\<lambda>r. case ms_Response r of
                              Some b \<Rightarrow> (Some b, None)
                            | None \<Rightarrow> (None, Some (GoErr ''marshal'')))
      in if int (length data) > maxMessageSize p then (marshalled too_large, ps)
         else (case DecodeMessage data [Some (decOpts p)] of
            Inl _ \<Rightarrow> (marshalled parse_error, ps)
          | Inr msg \<Rightarrow>
              if IsResponse msg then ((None, None), handleResponse (AsResponse msg) ps)
              else (case sync_request p ctx (AsRequest msg) (disp ps) of
                      (None, st) \<Rightarrow> ((None, None), ps\<lparr>disp := st\<rparr>)
                    | (Some r, st) \<Rightarrow> (marshalled r, ps\<lparr>disp := st\<rparr>))))"

section \<open>Outgoing messages\<close>

definition Notify :: "'w Peer \<Rightarrow> Context \<Rightarrow> bytes \<Rightarrow> bytes option \<Rightarrow> 'w \<Rightarrow> go_error option \<times> 'w" where
  "Notify p ctx method params w =
     (case NewNotification method params of
        Inl e \<Rightarrow> (Some e, w)
      | Inr req \<Rightarrow> sendJSON p ctx (ms_Request req) w)"

definition SendRaw :: "'w Peer \<Rightarrow> Context \<Rightarrow> bytes \<Rightarrow> 'w \<Rightarrow> go_error option \<times> 'w" where
  "SendRaw p ctx data w = t_WriteMessage (transport p) ctx data w"

text \<open>The flag \<open>closed\<close> makes the second and later calls return without an error.\<close>

definition Close :: "'w Peer \<Rightarrow> bool \<times> 'w \<Rightarrow> go_error option \<times> bool \<times> 'w" where
  "Close p = (\<lambda>(closed, w).
     if closed then (None, closed, w)
     else (let (e, w') = t_Close (transport p) w in (e, True, w')))"

end
