(* ===== verification/Go_Json_Facts.thy ===== *)
theory Go_Json_Facts
  imports Go_Json
begin

text \<open>
  Facts about the JSON scanner: what it consumes, that its result depends on nothing else,
  that the fuel given to it is enough and that the bytes kept for members and elements
  parse to the values kept beside them.
\<close>

section \<open>What the scanner consumes\<close>

text \<open>
  Every scanner splits its input at a position, and what it returns depends only on the
  part before it, as long as the rest cannot continue a number (\<open>num_stop\<close>). Two uses:
  the bytes of a member parse again to the same value, and printed text parses in any context.
\<close>

definition num_stop :: "bytes \<Rightarrow> bool" where
  "num_stop r \<longleftrightarrow>
     (case r of [] \<Rightarrow> True
      | c # _ \<Rightarrow> \<not> is_digit c \<and> c \<noteq> CHR ''.'' \<and> c \<noteq> CHR ''e'' \<and> c \<noteq> CHR ''E'')"

lemma num_stop_simps [simp]:
  "num_stop []" "num_stop (CHR '','' # s)" "num_stop (CHR '']'' # s)" "num_stop (CHR ''}'' # s)"
  by (simp_all add: num_stop_def is_digit_def)

lemma num_stop_ws: "is_ws c \<Longrightarrow> num_stop (c # s)"
  by (auto simp: num_stop_def is_ws_def is_digit_def)

lemma num_stop_append:
  assumes "\<forall>x \<in> set w. is_ws x" and "num_stop r" shows "num_stop (w @ r)"
  using assms by (cases w) (auto simp: num_stop_ws)

lemma skip_ws_length [simp]: "length (skip_ws s) \<le> length s"
  by (simp add: skip_ws_def length_dropWhile_le)

lemma skip_ws_shorter:
  assumes "skip_ws r = c # t" shows "length (skip_ws t) < length r"
proof -
  have "length (skip_ws t) \<le> length t" by simp
  also have "\<dots> < length (skip_ws r)" by (simp add: assms)
  also have "\<dots> \<le> length r" by simp
  finally show ?thesis .
qed

lemma skip_ws_idem [simp]: "skip_ws (skip_ws s) = skip_ws s"
  by (simp add: skip_ws_def)

lemma skip_ws_ConsE:
  assumes "skip_ws s = c # t"
  obtains w where "s = w @ c # t" "\<forall>x \<in> set w. is_ws x" "\<not> is_ws c"
proof
  show "s = takeWhile is_ws s @ c # t"
    using assms by (metis skip_ws_def takeWhile_dropWhile_id)
  show "\<forall>x \<in> set (takeWhile is_ws s). is_ws x"
    by (auto dest: set_takeWhileD)
  show "\<not> is_ws c"
    using assms by (auto simp: skip_ws_def dropWhile_eq_Cons_conv)
qed

lemma skip_ws_append: "\<forall>x \<in> set w. is_ws x \<Longrightarrow> skip_ws (w @ s) = skip_ws s"
  by (simp add: skip_ws_def)

lemma skip_ws_Cons [simp]: "\<not> is_ws c \<Longrightarrow> skip_ws (c # s) = c # s"
  by (simp add: skip_ws_def)

lemma skip_ws_head:
  assumes "skip_ws s = p @ r" and "p \<noteq> []"
  obtains w where "s = w @ p @ r" "\<And>r'. skip_ws (w @ p @ r') = p @ r'"
proof -
  obtain c q where p: "p = c # q" using assms(2) by (cases p) auto
  with assms(1) have "skip_ws s = c # q @ r" by simp
  then obtain w where w: "s = w @ c # q @ r" "\<forall>x \<in> set w. is_ws x" "\<not> is_ws c"
    by (rule skip_ws_ConsE)
  show ?thesis
    by (rule that [of w]) (use w p in \<open>auto simp: skip_ws_append\<close>)
qed

lemma consumed_append [simp]: "consumed (p @ r) r = p"
  by (simp add: consumed_def)

subsection \<open>Strings\<close>

lemma scan_string_split: "scan_string s = Some (u, r) \<Longrightarrow> s = u @ CHR 0x22 # r"
  by (induction s arbitrary: u r rule: scan_string.induct) (auto split: if_splits list.splits)

lemma unicode_escape_local:
  assumes "unicode_escape e (u @ CHR 0x22 # r)"
  shows "unicode_escape e (u @ CHR 0x22 # r')"
proof -
  have "4 \<le> length u"
  proof (rule ccontr)
    assume "\<not> 4 \<le> length u"
    then obtain k where "4 - length u = Suc k" by (cases "4 - length u") auto
    then have "CHR 0x22 \<in> set (take 4 (u @ CHR 0x22 # r))" by simp
    with assms have "hex_digit (CHR 0x22) \<noteq> None"
      by (auto simp: unicode_escape_def list_all_iff simp del: take_append)
    then show False by (simp add: hex_digit_def)
  qed
  with assms show ?thesis by (simp add: unicode_escape_def)
qed

lemma scan_string_local:
  "scan_string s = Some (u, r) \<Longrightarrow> scan_string (u @ CHR 0x22 # r') = Some (u, r')"
proof (induction s arbitrary: u r rule: scan_string.induct)
  case 1
  then show ?case by simp
next
  case (2 c s)
  show ?case
  proof (cases "c = CHR 0x5C")
    case True
    with "2.prems" obtain e t u' where s: "s = e # t" and u: "u = c # e # u'"
      and t: "scan_string t = Some (u', r)" and esc: "simple_escape e \<or> unicode_escape e t"
      by (cases s) (auto split: if_splits)
    from "2.IH"(1) [OF _ _ True s esc t] True have IH: "scan_string (u' @ CHR 0x22 # r') = Some (u', r')"
      by simp
    have "simple_escape e \<or> unicode_escape e (u' @ CHR 0x22 # r')"
      using esc scan_string_split [OF t] unicode_escape_local by blast
    with True u IH show ?thesis by simp
  next
    case False
    with 2 show ?thesis by (auto split: if_splits)
  qed
qed

subsection \<open>Numbers\<close>

definition no_digit :: "bytes \<Rightarrow> bool" where
  "no_digit r \<longleftrightarrow> (case r of [] \<Rightarrow> True | c # _ \<Rightarrow> \<not> is_digit c)"

lemma no_digit_simps [simp]:
  "no_digit []" "no_digit (c # s) \<longleftrightarrow> \<not> is_digit c" "num_stop s \<Longrightarrow> no_digit s"
  by (auto simp: no_digit_def num_stop_def split: list.splits)

lemma not_digit_simps [simp]:
  "\<not> is_digit (CHR ''.'')" "\<not> is_digit (CHR ''e'')" "\<not> is_digit (CHR ''E'')"
  "\<not> is_digit (CHR ''-'')" "\<not> is_digit (CHR ''+'')"
  by (simp_all add: is_digit_def)

lemma takeWhile_local: "no_digit r \<Longrightarrow> list_all is_digit u \<Longrightarrow> takeWhile is_digit (u @ r) = u"
  by (induction u) (auto simp: no_digit_def split: list.splits)

lemma dropWhile_local: "no_digit r \<Longrightarrow> list_all is_digit u \<Longrightarrow> dropWhile is_digit (u @ r) = r"
  by (induction u) (auto simp: no_digit_def split: list.splits)

lemma list_all_takeWhile [simp]: "list_all P (takeWhile P s)"
  by (induction s) auto

lemma scan_digits_local:
  assumes "scan_digits s = Some (u, r)"
  shows "s = u @ r \<and> u \<noteq> [] \<and> is_digit (hd u) \<and> (\<forall>r'. no_digit r' \<longrightarrow> scan_digits (u @ r') = Some (u, r'))"
proof -
  from assms obtain c t where s: "s = c # t" "is_digit c"
    and u: "u = c # takeWhile is_digit t" "r = dropWhile is_digit t"
    by (auto simp: scan_digits_def split: list.splits if_splits)
  have "scan_digits (u @ r') = Some (u, r')" if "no_digit r'" for r'
    using that s(2) by (simp add: scan_digits_def u takeWhile_local dropWhile_local)
  with s u show ?thesis by simp
qed

lemma scan_int_local:
  assumes "scan_int s = Some (u, r)"
  shows "s = u @ r \<and> u \<noteq> [] \<and> is_digit (hd u) \<and> (\<forall>r'. no_digit r' \<longrightarrow> scan_int (u @ r') = Some (u, r'))"
proof (cases s)
  case Nil
  with assms show ?thesis by (simp add: scan_int_def)
next
  case (Cons c t)
  show ?thesis
  proof (cases "c = CHR ''0''")
    case True
    with Cons assms show ?thesis by (auto simp: scan_int_def is_digit_def)
  next
    case False
    with Cons assms have u: "is_digit c" "u = c # takeWhile is_digit t" "r = dropWhile is_digit t"
      by (auto simp: scan_int_def split: if_splits)
    have "scan_int (u @ r') = Some (u, r')" if "no_digit r'" for r'
      using that False u(1) by (simp add: scan_int_def u takeWhile_local dropWhile_local)
    with Cons u show ?thesis by simp
  qed
qed

definition no_frac :: "bytes \<Rightarrow> bool" where
  "no_frac r \<longleftrightarrow> no_digit r \<and> (case r of [] \<Rightarrow> True | c # _ \<Rightarrow> c \<noteq> CHR ''.'')"

lemma scan_frac_local:
  assumes "scan_frac s = Some (u, r)"
  shows "s = u @ r \<and> (\<forall>r'. no_frac r' \<longrightarrow> scan_frac (u @ r') = Some (u, r') \<and> no_digit (u @ r'))"
proof (cases "u = []")
  case True
  with assms show ?thesis
    by (auto simp: scan_frac_def no_frac_def split: list.splits if_splits)
next
  case False
  with assms obtain t d where s: "s = CHR ''.'' # t" "u = CHR ''.'' # d" "scan_digits t = Some (d, r)"
    by (auto simp: scan_frac_def split: list.splits if_splits)
  with scan_digits_local [OF s(3)] show ?thesis
    by (auto simp: scan_frac_def no_frac_def)
qed

lemma scan_exp_local:
  assumes "scan_exp s = Some (u, r)"
  shows "s = u @ r \<and> (\<forall>r'. num_stop r' \<longrightarrow> scan_exp (u @ r') = Some (u, r') \<and> no_frac (u @ r'))"
proof (cases s)
  case Nil
  with assms show ?thesis
    by (auto simp: scan_exp_def num_stop_def no_frac_def no_digit_def split: list.splits)
next
  case (Cons c t)
  show ?thesis
  proof (cases "c = CHR ''e'' \<or> c = CHR ''E''")
    case False
    with Cons assms show ?thesis
      by (auto simp: scan_exp_def num_stop_def no_frac_def no_digit_def split: list.splits)
  next
    case True
    with Cons assms obtain g t' where t: "t = g # t'" by (cases t) (auto simp: scan_exp_def)
    have nf: "no_frac (c # x)" for x using True by (auto simp: no_frac_def)
    show ?thesis
    proof (cases "g = CHR ''+'' \<or> g = CHR ''-''")
      case sign: True
      with True Cons assms t obtain d where d: "u = c # g # d" "scan_digits t' = Some (d, r)"
        by (auto simp: scan_exp_def)
      from scan_digits_local [OF d(2)] True sign Cons t d(1) nf show ?thesis
        by (auto simp: scan_exp_def)
    next
      case False
      with True Cons assms t obtain d where d: "u = c # d" "scan_digits t = Some (d, r)"
        by (auto simp: scan_exp_def)
      from scan_digits_local [OF d(2)]
      obtain h d' where h: "t = d @ r" "d = h # d'" "is_digit h"
        "\<And>r'. no_digit r' \<Longrightarrow> scan_digits (d @ r') = Some (d, r')"
        by (cases d) auto
      then have "h \<noteq> CHR ''+''" "h \<noteq> CHR ''-''" by auto
      with h True Cons d(1) nf show ?thesis by (auto simp: scan_exp_def)
    qed
  qed
qed

lemma scan_number_local:
  assumes "scan_number s = Some (u, r)"
  shows "s = u @ r \<and> u \<noteq> [] \<and> (hd u = CHR ''-'' \<or> is_digit (hd u))
    \<and> (\<forall>r'. num_stop r' \<longrightarrow> scan_number (u @ r') = Some (u, r'))"
proof -
  obtain g s0 where g: "scan_sign s = (g, s0)" by fastforce
  from assms g obtain i s1 f s2 e where
    i: "scan_int s0 = Some (i, s1)" and f: "scan_frac s1 = Some (f, s2)" and
    e: "scan_exp s2 = Some (e, r)" and u: "u = g @ i @ f @ e"
    by (auto simp: scan_number_def Option.bind_eq_Some_conv)
  note I = scan_int_local [OF i] and F = scan_frac_local [OF f] and E = scan_exp_local [OF e]
  have s: "s = g @ s0" using g by (auto simp: scan_sign_def split: list.splits if_splits)
  have sign: "scan_sign (g @ i @ x) = (g, i @ x)" for x
    using g I by (cases i) (auto simp: scan_sign_def split: list.splits if_splits)
  have "hd u = CHR ''-'' \<or> is_digit (hd u)"
    using g I u by (auto simp: scan_sign_def split: list.splits if_splits)
  moreover have "scan_number (u @ r') = Some (u, r')" if "num_stop r'" for r'
    using that I F E by (simp add: scan_number_def u sign)
  ultimately show ?thesis using s u I F E by auto
qed


subsection \<open>Values\<close>

definition splits_at :: "(bytes \<Rightarrow> ('a \<times> bytes) option) \<Rightarrow> (bytes \<Rightarrow> bool) \<Rightarrow> bytes \<Rightarrow> 'a \<Rightarrow> bytes \<Rightarrow> bool" where
  "splits_at f stop s x r \<longleftrightarrow>
     (\<exists>p. s = p @ r \<and> p \<noteq> [] \<and> (\<forall>r'. stop r' \<longrightarrow> f (p @ r') = Some (x, r')))"

lemma splits_atI:
  "s = p @ r \<Longrightarrow> p \<noteq> [] \<Longrightarrow> (\<And>r'. stop r' \<Longrightarrow> f (p @ r') = Some (x, r')) \<Longrightarrow> splits_at f stop s x r"
  by (auto simp: splits_at_def)

lemma splits_atE:
  assumes "splits_at f stop s x r"
  obtains p where "s = p @ r" "p \<noteq> []" "\<And>r'. stop r' \<Longrightarrow> f (p @ r') = Some (x, r')"
  using assms by (auto simp: splits_at_def)

lemma pelems_step:
  assumes v: "splits_at (pval n d) num_stop s v r"
    and c: "skip_ws r = c # t"
    and tail: "c = CHR '','' \<Longrightarrow> splits_at (pelems n d) (\<lambda>_. True) (skip_ws t) es' u"
    and res: "(if c = CHR '','' then Some ((consumed s r, v) # es', u)
               else if c = CHR '']'' then Some ([(consumed s r, v)], t) else None) = Some (es, q)"
  shows "splits_at (pelems (Suc n) d) (\<lambda>_. True) s es q"
proof -
  from v obtain p where p: "s = p @ r" "p \<noteq> []"
    "\<And>r'. num_stop r' \<Longrightarrow> pval n d (p @ r') = Some (v, r')" by (rule splits_atE) blast
  from c obtain w where w: "r = w @ c # t" "\<forall>x \<in> set w. is_ws x" "\<not> is_ws c"
    by (rule skip_ws_ConsE)
  have stop: "num_stop (w @ c # x)" if "c = CHR '','' \<or> c = CHR '']''" for x
    using that w(2) by (auto intro!: num_stop_append)
  have skip: "skip_ws (w @ c # x) = c # x" for x using w by (simp add: skip_ws_append)
  show ?thesis
  proof (cases "c = CHR '',''")
    case True
    with tail obtain p2 where p2: "skip_ws t = p2 @ u" "p2 \<noteq> []" "\<And>r'. pelems n d (p2 @ r') = Some (es', r')"
      by (metis splits_atE)
    from p2(1,2) obtain w2 where w2: "t = w2 @ p2 @ u" "\<And>r'. skip_ws (w2 @ p2 @ r') = p2 @ r'"
      by (rule skip_ws_head) blast
    have q: "es = (p, v) # es'" "q = u" using res True p(1) by auto
    show ?thesis
    proof (rule splits_atI [where p = "p @ w @ c # w2 @ p2"])
      show "s = (p @ w @ c # w2 @ p2) @ q" by (simp add: p(1) w(1) w2(1) q)
      fix r' show "pelems (Suc n) d ((p @ w @ c # w2 @ p2) @ r') = Some (es, r')"
        using p(3) [OF stop, of "w2 @ p2 @ r'"] True by (simp add: skip [unfolded True] w2(2) p2(3) q)
    qed simp
  next
    case False
    with res p(1) have q: "c = CHR '']''" "es = [(p, v)]" "q = t" by (auto split: if_splits)
    show ?thesis
    proof (rule splits_atI [where p = "p @ w @ [c]"])
      show "s = (p @ w @ [c]) @ q" by (simp add: p(1) w(1) q)
      fix r' show "pelems (Suc n) d ((p @ w @ [c]) @ r') = Some (es, r')"
        using p(3) [OF stop, of r'] q(1) by (simp add: skip [unfolded q(1)] q)
    qed simp
  qed
qed

lemma pmembs_step:
  assumes k: "scan_string s1 = Some (k, s2)"
    and colon: "skip_ws s2 = CHR '':'' # s3"
    and v: "splits_at (pval n d) num_stop (skip_ws s3) v r"
    and c: "skip_ws r = c # t"
    and tail: "c = CHR '','' \<Longrightarrow> splits_at (pmembs n d) (\<lambda>_. True) (skip_ws t) ms' u"
    and res: "(if c = CHR '','' then Some ((unquote k, consumed (skip_ws s3) r, v) # ms', u)
               else if c = CHR ''}'' then Some ([(unquote k, consumed (skip_ws s3) r, v)], t)
               else None) = Some (ms, q)"
  shows "splits_at (pmembs (Suc n) d) (\<lambda>_. True) (CHR 0x22 # s1) ms q"
proof -
  have s1: "s1 = k @ CHR 0x22 # s2" using k by (rule scan_string_split)
  have key: "scan_string (k @ CHR 0x22 # x) = Some (k, x)" for x using k by (rule scan_string_local)
  from colon obtain w0 where w0: "s2 = w0 @ CHR '':'' # s3" "\<forall>x \<in> set w0. is_ws x" "\<not> is_ws (CHR '':'')"
    by (rule skip_ws_ConsE)
  have skip0: "skip_ws (w0 @ CHR '':'' # x) = CHR '':'' # x" for x using w0 by (simp add: skip_ws_append)
  from v obtain p where p: "skip_ws s3 = p @ r" "p \<noteq> []"
    "\<And>r'. num_stop r' \<Longrightarrow> pval n d (p @ r') = Some (v, r')" by (rule splits_atE) blast
  from p(1,2) obtain w1 where w1: "s3 = w1 @ p @ r" "\<And>r'. skip_ws (w1 @ p @ r') = p @ r'"
    by (rule skip_ws_head) blast
  from c obtain w where w: "r = w @ c # t" "\<forall>x \<in> set w. is_ws x" "\<not> is_ws c"
    by (rule skip_ws_ConsE)
  have stop: "num_stop (w @ c # x)" if "c = CHR '','' \<or> c = CHR ''}''" for x
    using that w(2) by (auto intro!: num_stop_append)
  have skip: "skip_ws (w @ c # x) = c # x" for x using w by (simp add: skip_ws_append)
  let ?pre = "CHR 0x22 # k @ CHR 0x22 # w0 @ CHR '':'' # w1 @ p @ w @ [c]"
  show ?thesis
  proof (cases "c = CHR '',''")
    case True
    with tail obtain p2 where p2: "skip_ws t = p2 @ u" "p2 \<noteq> []" "\<And>r'. pmembs n d (p2 @ r') = Some (ms', r')"
      by (metis splits_atE)
    from p2(1,2) obtain w2 where w2: "t = w2 @ p2 @ u" "\<And>r'. skip_ws (w2 @ p2 @ r') = p2 @ r'"
      by (rule skip_ws_head) blast
    have q: "ms = (unquote k, p, v) # ms'" "q = u" using res True p(1) by auto
    show ?thesis
    proof (rule splits_atI [where p = "?pre @ w2 @ p2"])
      show "CHR 0x22 # s1 = (?pre @ w2 @ p2) @ q" by (simp add: s1 w0(1) w1(1) w(1) w2(1) q)
      fix r' show "pmembs (Suc n) d ((?pre @ w2 @ p2) @ r') = Some (ms, r')"
        using p(3) [OF stop, of "w2 @ p2 @ r'"] True
        by (simp add: key skip0 w1(2) skip [unfolded True] w2(2) p2(3) q)
    qed simp
  next
    case False
    with res p(1) have q: "c = CHR ''}''" "ms = [(unquote k, p, v)]" "q = t" by (auto split: if_splits)
    show ?thesis
    proof (rule splits_atI [where p = ?pre])
      show "CHR 0x22 # s1 = ?pre @ q" by (simp add: s1 w0(1) w1(1) w(1) q)
      fix r' show "pmembs (Suc n) d (?pre @ r') = Some (ms, r')"
        using p(3) [OF stop, of r'] q(1) by (simp add: key skip0 w1(2) skip [unfolded q(1)] q)
    qed simp
  qed
qed

lemma scan_lit_local:
  "scan_lit l v s = Some (x, r) \<Longrightarrow> s = l @ r \<and> x = v \<and> (\<forall>r'. scan_lit l v (l @ r') = Some (x, r'))"
  by (auto simp: scan_lit_def split: if_splits) (metis append_take_drop_id)

text \<open>An opening bracket, then either the closing one or the elements.\<close>

lemma bracket_step:
  assumes c: "skip_ws r = x # t"
    and res: "(if x = close then Some (J [], t) else map_option (\<lambda>(es, u). (J es, u)) (g (x # t))) = Some (v, q)"
    and tail: "\<And>es. x \<noteq> close \<Longrightarrow> g (x # t) = Some (es, q) \<Longrightarrow> splits_at g (\<lambda>_. True) (x # t) es q"
    and f: "\<And>y. f (open # y) = (case skip_ws y of [] \<Rightarrow> None | x # t \<Rightarrow>
        if x = close then Some (J [], t) else map_option (\<lambda>(es, u). (J es, u)) (g (x # t)))"
  shows "splits_at f num_stop (open # r) v q"
proof -
  from c obtain w where w: "r = w @ x # t" "\<forall>y \<in> set w. is_ws y" "\<not> is_ws x" by (rule skip_ws_ConsE)
  have skip: "skip_ws (w @ x # y) = x # y" for y using w by (simp add: skip_ws_append)
  show ?thesis
  proof (cases "x = close")
    case True
    with res have q: "v = J []" "q = t" by auto
    show ?thesis
      by (rule splits_atI [where p = "open # w @ [x]"]) (use True skip in \<open>auto simp: q w(1) f\<close>)
  next
    case False
    with res obtain es where es: "g (x # t) = Some (es, q)" "v = J es" by auto
    from tail [OF False es(1)] obtain p where p: "x # t = p @ q" "p \<noteq> []" "\<And>r'. g (p @ r') = Some (es, r')"
      by (metis splits_atE)
    then obtain p' where p': "p = x # p'" "t = p' @ q" by (cases p) auto
    show ?thesis
    proof (rule splits_atI [where p = "open # w @ p"])
      show "open # r = (open # w @ p) @ q" by (simp add: w(1) p')
      fix r' show "f ((open # w @ p) @ r') = Some (v, r')"
        using p(3) [of r'] False skip [of "p' @ r'"] by (simp add: f p' es(2))
    qed simp
  qed
qed

text \<open>What a successful parse of a value, of elements or of members started with.\<close>

lemma pval_cases:
  assumes "pval (Suc n) d s = Some (v, q)"
  obtains (object) r x t where "s = CHR ''{'' # r" "d \<noteq> 0" "skip_ws r = x # t"
      "(if x = CHR ''}'' then Some (JObj [], t) else map_option (\<lambda>(ms, u). (JObj ms, u)) (pmembs n (d - 1) (x # t))) = Some (v, q)"
  | (array) r x t where "s = CHR ''['' # r" "d \<noteq> 0" "skip_ws r = x # t"
      "(if x = CHR '']'' then Some (JArr [], t) else map_option (\<lambda>(es, u). (JArr es, u)) (pelems n (d - 1) (x # t))) = Some (v, q)"
  | (str) r u where "s = CHR 0x22 # r" "scan_string r = Some (u, q)" "v = JStr (unquote u)"
  | (lit) l w where "(l, w) \<in> {(''true'', JBool True), (''false'', JBool False), (''null'', JNull)}" "scan_lit l w s = Some (v, q)"
      "\<And>y. pval (Suc n) d (l @ y) = scan_lit l w (l @ y)"
  | (num) c r u where "s = c # r" "scan_number s = Some (u, q)" "v = JNum u" "\<And>y. pval (Suc n) d (c # y) = map_option (\<lambda>(l, t). (JNum l, t)) (scan_number (c # y))"
proof -
  from assms obtain c r where s: "s = c # r" by (cases s) auto
  consider "c = CHR ''{''" | "c = CHR ''[''" | "c = CHR 0x22" | "c = CHR ''t''" | "c = CHR ''f''" | "c = CHR ''n''"
    | "c \<notin> {CHR ''{'', CHR ''['', CHR 0x22, CHR ''t'', CHR ''f'', CHR ''n''}" by blast
  then show ?thesis
  proof cases
    case 1
    with assms s obtain x t where "skip_ws r = x # t" "d \<noteq> 0" by (auto split: if_splits list.splits)
    with assms s 1 show ?thesis by (intro object [of r x t]) simp_all
  next
    case 2
    with assms s obtain x t where "skip_ws r = x # t" "d \<noteq> 0" by (auto split: if_splits list.splits)
    with assms s 2 show ?thesis by (intro array [of r x t]) simp_all
  next
    case 3
    with assms s str show ?thesis by auto
  next
    case 4
    with assms s show ?thesis by (intro lit [of "''true''" "JBool True"]) simp_all
  next
    case 5
    with assms s show ?thesis by (intro lit [of "''false''" "JBool False"]) simp_all
  next
    case 6
    with assms s show ?thesis by (intro lit [of "''null''" JNull]) simp_all
  next
    case 7
    with assms s num [of c r] show ?thesis by auto
  qed
qed

lemma pelems_cases:
  assumes "pelems (Suc n) d s = Some (es, q)"
  obtains v r c t where "pval n d s = Some (v, r)" "skip_ws r = c # t"
    "(if c = CHR '','' then map_option (\<lambda>(es, u). ((consumed s r, v) # es, u)) (pelems n d (skip_ws t))
      else if c = CHR '']'' then Some ([(consumed s r, v)], t) else None) = Some (es, q)"
  using assms by (auto split: option.splits list.splits)

lemma pmembs_cases:
  assumes "pmembs (Suc n) d s = Some (ms, q)"
  obtains s1 k s2 s3 v r c t where "s = CHR 0x22 # s1" "scan_string s1 = Some (k, s2)" "skip_ws s2 = CHR '':'' # s3"
    "pval n d (skip_ws s3) = Some (v, r)" "skip_ws r = c # t"
    "(if c = CHR '','' then map_option (\<lambda>(ms, u). ((unquote k, consumed (skip_ws s3) r, v) # ms, u)) (pmembs n d (skip_ws t))
      else if c = CHR ''}'' then Some ([(unquote k, consumed (skip_ws s3) r, v)], t) else None) = Some (ms, q)"
  using assms by (auto split: option.splits list.splits if_splits)

lemma pval_step:
  assumes e: "\<And>d s es r. pelems n d s = Some (es, r) \<Longrightarrow> splits_at (pelems n d) (\<lambda>_. True) s es r"
    and m: "\<And>d s ms r. pmembs n d s = Some (ms, r) \<Longrightarrow> splits_at (pmembs n d) (\<lambda>_. True) s ms r"
    and v: "pval (Suc n) d s = Some (v, q)"
  shows "splits_at (pval (Suc n) d) num_stop s v q"
  using v
proof (cases rule: pval_cases)
  case (object r x t)
  show ?thesis unfolding object(1)
    by (rule bracket_step [where g = "pmembs n (d - 1)" and J = JObj, OF object(3)]) (use object m in auto)
next
  case (array r x t)
  show ?thesis unfolding array(1)
    by (rule bracket_step [where g = "pelems n (d - 1)" and J = JArr, OF array(3)]) (use array e in auto)
next
  case (str r u)
  show ?thesis
    by (rule splits_atI [where p = "CHR 0x22 # u @ [CHR 0x22]"])
       (use str scan_string_split [OF str(2)] scan_string_local [OF str(2)] in auto)
next
  case (lit l w)
  from scan_lit_local [OF lit(2)] lit(1,3) show ?thesis by (intro splits_atI [where p = l]) auto
next
  case (num c r l)
  from scan_number_local [OF num(2)] num(1) obtain l' where l': "l = c # l'" by (cases l) auto
  show ?thesis
    by (rule splits_atI [where p = l]) (use scan_number_local [OF num(2)] num(3,4) l' in \<open>auto simp del: pval.simps\<close>)
qed

lemma parser_local:
  "pval n d s = Some (v, r) \<Longrightarrow> splits_at (pval n d) num_stop s v r"
  "pelems n d s = Some (es, r) \<Longrightarrow> splits_at (pelems n d) (\<lambda>_. True) s es r"
  "pmembs n d s = Some (ms, r) \<Longrightarrow> splits_at (pmembs n d) (\<lambda>_. True) s ms r"
proof (induction n arbitrary: d s v es ms r)
  case (Suc n)
  { case 1
    from Suc.IH(2,3) 1 show ?case by (rule pval_step)
  next
    case 2
    then obtain v r1 c t where v: "pval n d s = Some (v, r1)" and c: "skip_ws r1 = c # t" by (rule pelems_cases)
    show ?case
    proof (cases "c = CHR '',''")
      case True
      with 2 v c obtain es' where t: "pelems n d (skip_ws t) = Some (es', r)" "es = (consumed s r1, v) # es'"
        by auto
      show ?thesis
        by (rule pelems_step [OF Suc.IH(1) [OF v] c Suc.IH(2) [OF t(1)]]) (use True t(2) in simp)
    next
      case False
      then show ?thesis
        by (intro pelems_step [OF Suc.IH(1) [OF v] c]) (use 2 v c in \<open>auto split: if_splits\<close>)
    qed
  next
    case 3
    then obtain s1 k s2 s3 v r1 c t where s: "s = CHR 0x22 # s1" and k: "scan_string s1 = Some (k, s2)"
      and s3: "skip_ws s2 = CHR '':'' # s3" and v: "pval n d (skip_ws s3) = Some (v, r1)" and c: "skip_ws r1 = c # t"
      by (rule pmembs_cases)
    show ?case
    proof (cases "c = CHR '',''")
      case True
      with 3 s k s3 v c obtain ms' where t: "pmembs n d (skip_ws t) = Some (ms', r)"
        "ms = (unquote k, consumed (skip_ws s3) r1, v) # ms'" by auto
      show ?thesis unfolding s
        by (rule pmembs_step [OF k s3 Suc.IH(1) [OF v] c Suc.IH(3) [OF t(1)]]) (use True t(2) in simp)
    next
      case False
      then show ?thesis unfolding s
        by (intro pmembs_step [OF k s3 Suc.IH(1) [OF v] c]) (use 3 s k s3 v c in \<open>auto split: if_splits\<close>)
    qed }
qed simp_all

lemma parser_shorter:
  "pval n d s = Some (v, r) \<Longrightarrow> length r < length s"
  "pelems n d s = Some (es, r) \<Longrightarrow> length r < length s"
  "pmembs n d s = Some (ms, r) \<Longrightarrow> length r < length s"
  by (auto dest!: parser_local elim!: splits_atE)

lemma pval_consumed: "pval n d s = Some (v, r) \<Longrightarrow> s = consumed s r @ r"
  by (auto dest!: parser_local(1) elim!: splits_atE)

subsection \<open>Enough fuel, more nesting\<close>

lemma parser_fuel:
  "2 * length s + 1 \<le> n \<Longrightarrow> 2 * length s + 1 \<le> m \<Longrightarrow> pval n d s = pval m d s"
  "2 * length s + 2 \<le> n \<Longrightarrow> 2 * length s + 2 \<le> m \<Longrightarrow> pelems n d s = pelems m d s"
  "2 * length s + 2 \<le> n \<Longrightarrow> 2 * length s + 2 \<le> m \<Longrightarrow> pmembs n d s = pmembs m d s"
proof (induction n arbitrary: m d s)
  case (Suc n)
  { case 1
    then obtain m' where m: "m = Suc m'" by (cases m) auto
    have e: "pelems n d' t = pelems m' d' t" "pmembs n d' t = pmembs m' d' t"
      if "length t < length s" for d' t
      using 1 that Suc.IH(2,3) [of t m' d'] by (auto simp: m)
    have sh: "length (x # t) < length s" if "s = c # r" "skip_ws r = x # t" for c r x t
      using that skip_ws_length [of r] by simp
    show ?case
      by (auto simp: m e [OF sh] split: list.splits)
  next
    case 2
    then obtain m' where m: "m = Suc m'" by (cases m) auto
    have v: "pval n d s = pval m' d s" using 2 by (intro Suc.IH(1)) (auto simp: m)
    have e: "pelems n d (skip_ws t) = pelems m' d (skip_ws t)"
      if "pval m' d s = Some (x, r)" "skip_ws r = c # t" for x r c t
    proof -
      have "length (skip_ws t) < length s"
        using parser_shorter(1) [OF that(1)] skip_ws_shorter [OF that(2)] by simp
      then show ?thesis using 2 by (intro Suc.IH(2)) (auto simp: m)
    qed
    show ?case by (auto simp: m v e split: option.splits list.splits)
  next
    case 3
    then obtain m' where m: "m = Suc m'" by (cases m) auto
    have sh: "length (skip_ws s3) < length s"
      if "s = q # s1" "scan_string s1 = Some (k, s2)" "skip_ws s2 = c # s3" for q s1 k s2 c s3
      using that(1) skip_ws_shorter [OF that(3)] scan_string_split [OF that(2)] by simp
    have v: "pval n d t = pval m' d t" if "length t < length s" for t
      using 3 that by (intro Suc.IH(1)) (auto simp: m)
    have e: "pmembs n d (skip_ws t) = pmembs m' d (skip_ws t)"
      if "pval m' d u = Some (x, r)" "skip_ws r = c # t" "length u < length s" for x r c t u
    proof -
      have "length (skip_ws t) < length s"
        using parser_shorter(1) [OF that(1)] skip_ws_shorter [OF that(2)] that(3) by simp
      then show ?thesis using 3 by (intro Suc.IH(3)) (auto simp: m)
    qed
    show ?case by (auto simp: m v [OF sh] e [OF _ _ sh] split: option.splits list.splits) }
qed simp_all

lemma parser_mono:
  "pval n d s = Some (v, r) \<Longrightarrow> d \<le> d' \<Longrightarrow> n \<le> n' \<Longrightarrow> pval n' d' s = Some (v, r)"
  "pelems n d s = Some (es, r) \<Longrightarrow> d \<le> d' \<Longrightarrow> n \<le> n' \<Longrightarrow> pelems n' d' s = Some (es, r)"
  "pmembs n d s = Some (ms, r) \<Longrightarrow> d \<le> d' \<Longrightarrow> n \<le> n' \<Longrightarrow> pmembs n' d' s = Some (ms, r)"
proof (induction n arbitrary: n' d d' s v es ms r)
  case 0
  { case 1 then show ?case by simp next
    case 2 then show ?case by simp next
    case 3 then show ?case by simp }
next
  case (Suc n)
  { case 1
    then obtain m where m: "n' = Suc m" "n \<le> m" by (cases n') auto
    have "d - 1 \<le> d' - 1" using 1 by simp
    then have e: "pelems n (d - 1) t = Some x \<Longrightarrow> pelems m (d' - 1) t = Some x"
      and f: "pmembs n (d - 1) t = Some y \<Longrightarrow> pmembs m (d' - 1) t = Some y" for t x y
      using Suc.IH(2,3) m(2) by (cases x; cases y; blast)+
    from 1 show ?case
      by (auto simp: m(1) split: list.split_asm if_split_asm dest!: e [simplified] f [simplified])
  next
    case 2
    then obtain m where m: "n' = Suc m" "n \<le> m" by (cases n') auto
    from 2 obtain v r1 where v: "pval n d s = Some (v, r1)" by (auto split: option.splits)
    with Suc.IH(1) 2 m have v': "pval m d' s = Some (v, r1)" by blast
    have e: "pelems n d t = Some x \<Longrightarrow> pelems m d' t = Some x" for t x
      using Suc.IH(2) 2 m(2) by (cases x) blast
    from 2 v v' show ?case by (auto simp: m(1) split: list.split_asm if_split_asm dest!: e)
  next
    case 3
    then obtain m where m: "n' = Suc m" "n \<le> m" by (cases n') auto
    from 3 obtain s1 k s2 s3 v r1 where s: "s = CHR 0x22 # s1" "scan_string s1 = Some (k, s2)"
      "skip_ws s2 = CHR '':'' # s3" and v: "pval n d (skip_ws s3) = Some (v, r1)"
      by (auto split: list.splits if_splits option.splits)
    with Suc.IH(1) 3 m have v': "pval m d' (skip_ws s3) = Some (v, r1)" by blast
    have e: "pmembs n d t = Some x \<Longrightarrow> pmembs m d' t = Some x" for t x
      using Suc.IH(3) 3 m(2) by (cases x) blast
    from 3 s v v' show ?case by (auto simp: m(1) split: list.split_asm if_split_asm dest!: e) }
qed


text \<open>
  The bytes kept for an element or a member are a value of their own: parsing them again
  gives the value the parser saw.
\<close>

lemma json_parse_pval: "pval n d s = Some (v, []) \<Longrightarrow> d \<le> max_nesting \<Longrightarrow> \<not> is_ws (hd s) \<Longrightarrow> json_parse s = Some (s, v)"
proof -
  assume v: "pval n d s = Some (v, [])" and d: "d \<le> max_nesting" and ws: "\<not> is_ws (hd s)"
  from v have "s \<noteq> []" by (cases n) auto
  with ws have skip: "skip_ws s = s" by (cases s) auto
  have "pval (max n (fuel_for s)) max_nesting s = Some (v, [])"
    using parser_mono(1) [OF v d] by simp
  moreover have "pval (fuel_for s) max_nesting s = pval (max n (fuel_for s)) max_nesting s"
    by (rule parser_fuel(1)) (auto simp: fuel_for_def)
  ultimately show ?thesis
    by (simp add: json_parse_def json_next_def skip consumed_def) (simp add: skip_ws_def)
qed


lemma pval_not_ws: "pval n d s = Some (v, r) \<Longrightarrow> \<not> is_ws (hd s)"
proof
  assume v: "pval n d s = Some (v, r)" and ws: "is_ws (hd s)"
  from v obtain m where n: "n = Suc m" by (cases n) auto
  with v obtain c t where s: "s = c # t" by (cases s) auto
  with ws have "scan_number s = None"
    by (auto simp: is_ws_def scan_number_def scan_sign_def scan_int_def is_digit_def)
  with v n s ws show False by (auto simp: is_ws_def)
qed

lemma pval_reparse:
  assumes v: "pval n d s = Some (v, r)" and d: "d \<le> max_nesting"
  shows "json_parse (consumed s r) = Some (consumed s r, v)"
proof -
  from parser_local(1) [OF v] obtain p where p: "s = p @ r" "p \<noteq> []" "pval n d (p @ []) = Some (v, [])"
    by (metis num_stop_simps(1) splits_atE)
  with pval_not_ws [OF v] have "\<not> is_ws (hd p)" by simp
  with json_parse_pval [of n d p v] p d show ?thesis by simp
qed

definition faithful_raws :: "jv \<Rightarrow> bool" where
  "faithful_raws v \<longleftrightarrow>
     (case v of
        JArr es \<Rightarrow> list_all (\<lambda>(b, x). json_parse b = Some (b, x)) es
      | JObj ms \<Rightarrow> list_all (\<lambda>(k, b, x). json_parse b = Some (b, x)) ms
      | _ \<Rightarrow> True)"

lemma pelems_reparse:
  "pelems n d s = Some (es, r) \<Longrightarrow> d \<le> max_nesting \<Longrightarrow> list_all (\<lambda>(b, x). json_parse b = Some (b, x)) es"
proof (induction n arbitrary: s es)
  case 0
  then show ?case by simp
next
  case (Suc n)
  then show ?case
    by (auto split: option.splits list.splits if_splits) (rule pval_reparse; assumption)+
qed

lemma pmembs_reparse:
  "pmembs n d s = Some (ms, r) \<Longrightarrow> d \<le> max_nesting \<Longrightarrow> list_all (\<lambda>(k, b, x). json_parse b = Some (b, x)) ms"
proof (induction n arbitrary: s ms)
  case 0
  then show ?case by simp
next
  case (Suc n)
  then show ?case
    by (auto split: option.splits list.splits if_splits) (rule pval_reparse; assumption)+
qed

lemma pval_faithful:
  assumes "pval n d s = Some (v, r)" and "d \<le> max_nesting"
  shows "faithful_raws v"
proof -
  from assms(1) obtain m where "n = Suc m" by (cases n) auto
  with assms show ?thesis
    by (auto simp: faithful_raws_def scan_lit_def split: list.split_asm if_split_asm
        dest: pmembs_reparse pelems_reparse)
qed

lemma json_next_faithful: "json_next s = Some (b, v, r) \<Longrightarrow> faithful_raws v \<and> json_parse b = Some (b, v)"
  by (auto simp: json_next_def Let_def dest: pval_faithful pval_reparse)

lemma json_next_split:
  assumes "json_next s = Some (b, v, r)"
  shows "\<exists>w. s = w @ b @ r \<and> (\<forall>x \<in> set w. is_ws x)"
proof -
  from assms have "skip_ws s = b @ r"
    by (auto simp: json_next_def Let_def dest: pval_consumed)
  moreover have "s = takeWhile is_ws s @ skip_ws s" by (simp add: skip_ws_def)
  ultimately show ?thesis by (metis set_takeWhileD)
qed

lemma json_parse_raw: "json_parse s = Some (b, v) \<Longrightarrow> json_parse b = Some (b, v) \<and> faithful_raws v"
proof -
  assume "json_parse s = Some (b, v)"
  then obtain r where "json_next s = Some (b, v, r)"
    by (auto simp: json_parse_def split: option.splits if_splits)
  then show ?thesis by (auto dest: json_next_faithful)
qed

end
