(* ===== verification/Go_Codec_Facts.thy ===== *)
theory Go_Codec_Facts
  imports Go_Codec Go_Json_Facts
begin

text \<open>
  Facts about decoders and encoders: what \<open>json.Marshal\<close> prints is read back by the
  scanner (\<open>prints\<close>), ASCII strings and integers survive the round trip, and decoding a
  struct keeps every property its field decoders keep.
\<close>

section \<open>Decoding structs\<close>

lemma find_field_mem: "find_field fs k = Some d \<Longrightarrow> \<exists>n. (n, d) \<in> set fs"
  by (auto simp: find_field_def split: option.splits dest!: map_of_SomeD)

lemma un_members_inv:
  assumes step: "\<And>n d b v s s'. (n, d) \<in> set fs \<Longrightarrow> json_parse b = Some (b, v) \<Longrightarrow> P s \<Longrightarrow> d b v s = Some s' \<Longrightarrow> P s'"
    and ms: "list_all (\<lambda>(k, b, v). json_parse b = Some (b, v)) ms"
    and s: "P s" "un_members fs ms s = Some s'"
  shows "P s'"
  using ms s
proof (induction ms arbitrary: s)
  case Nil
  then show ?case by simp
next
  case (Cons m ms)
  obtain k b v where m: "m = (k, b, v)" by (metis prod_cases3)
  show ?case
  proof (cases "find_field fs k")
    case None
    with Cons m show ?thesis by simp
  next
    case (Some d)
    with Cons.prems m obtain s1 where s1: "d b v s = Some s1" "un_members fs ms s1 = Some s'"
      by (auto simp: bind_eq_Some_conv)
    moreover have "P s1"
      using step find_field_mem [OF Some] Cons.prems m s1(1) by fastforce
    ultimately show ?thesis using Cons m by simp
  qed
qed

lemma un_struct_inv:
  assumes "\<And>n d b v s s'. (n, d) \<in> set fs \<Longrightarrow> json_parse b = Some (b, v) \<Longrightarrow> P s \<Longrightarrow> d b v s = Some s' \<Longrightarrow> P s'"
    and "faithful_raws v" "P s" "un_struct fs b v s = Some s'"
  shows "P s'"
  using assms(2-4) un_members_inv [OF assms(1)]
  by (auto simp: un_struct_def faithful_raws_def split: jv.splits)

lemma unmarshal_empty [simp]: "unmarshal un z None = None" "unmarshal un z (Some []) = None"
  by (simp_all add: unmarshal_def json_parse_def json_next_def skip_ws_def fuel_for_def numeral_2_eq_2)

section \<open>Printed text is scanned back\<close>

definition ascii :: "bytes \<Rightarrow> bool" where
  "ascii s \<longleftrightarrow> list_all (\<lambda>c. byte c < 128) s"

text \<open>\<open>b\<close> is the whole text of a value \<open>v\<close> nested at most \<open>d\<close> deep.\<close>

definition prints :: "nat \<Rightarrow> bytes \<Rightarrow> jv \<Rightarrow> bool" where
  "prints d b v \<longleftrightarrow> (\<exists>n. pval n d b = Some (v, []))"

lemma prints_append:
  assumes "prints d b v"
  shows "\<exists>n. \<forall>m \<ge> n. \<forall>r. num_stop r \<longrightarrow> pval m d (b @ r) = Some (v, r)"
proof -
  from assms obtain n where n: "pval n d b = Some (v, [])" by (auto simp: prints_def)
  have "pval m d (b @ r) = Some (v, r)" if "n \<le> m" "num_stop r" for m r
    using parser_local(1) [OF parser_mono(1) [OF n le_refl that(1)]] that(2)
    by (auto elim!: splits_atE)
  then show ?thesis by blast
qed

lemma prints_mono: "prints d b v \<Longrightarrow> d \<le> d' \<Longrightarrow> prints d' b v"
  by (auto simp: prints_def dest: parser_mono(1))

lemma prints_not_ws: "prints d b v \<Longrightarrow> b \<noteq> [] \<and> \<not> is_ws (hd b)"
  by (auto simp: prints_def dest: pval_not_ws parser_shorter(1))

lemma prints_parse: "prints d b v \<Longrightarrow> d \<le> max_nesting \<Longrightarrow> json_parse b = Some (b, v)"
  by (metis prints_def prints_not_ws json_parse_pval)

lemma parse_prints: "json_parse s = Some (b, v) \<Longrightarrow> prints max_nesting b v"
proof -
  assume "json_parse s = Some (b, v)"
  then have b: "json_parse b = Some (b, v)" by (auto dest: json_parse_raw)
  then obtain r where r: "pval (fuel_for (skip_ws b)) max_nesting (skip_ws b) = Some (v, r)"
      "b = consumed (skip_ws b) r" "skip_ws r = []"
    by (auto simp: json_parse_def json_next_def Let_def split: if_splits option.splits)
  from pval_consumed [OF r(1)] r(2) have "skip_ws b = b @ r" by simp
  moreover have "length (skip_ws b) \<le> length b" by simp
  ultimately have "r = []" "skip_ws b = b" by auto
  with r(1) show ?thesis by (auto simp: prints_def)
qed

lemma json_next_prints:
  assumes "prints d b v" "d \<le> max_nesting" "num_stop r"
  shows "json_next (b @ r) = Some (b, v, r)"
proof -
  from prints_append [OF prints_mono [OF assms(1,2)]] assms(3)
  obtain n where n: "\<And>m. n \<le> m \<Longrightarrow> pval m max_nesting (b @ r) = Some (v, r)" by blast
  have "pval (fuel_for (b @ r)) max_nesting (b @ r) = pval (max n (fuel_for (b @ r))) max_nesting (b @ r)"
    by (rule parser_fuel(1)) (auto simp: fuel_for_def)
  moreover have "skip_ws (b @ r) = b @ r"
    using prints_not_ws [OF assms(1)] by (cases b) auto
  ultimately show ?thesis by (simp add: json_next_def n)
qed

subsection \<open>Objects\<close>

definition member_text :: "bytes \<times> bytes \<times> jv \<Rightarrow> bytes" where
  "member_text = (\<lambda>(k, b, v). quote_string k @ CHR '':'' # b)"

lemma hex_digit_hex_char: "n < 16 \<Longrightarrow> hex_digit (hex_char n) = Some n"
  by (auto simp: hex_digit_def hex_char_def)

lemma hex_digit_plain: "hex_digit z \<noteq> None \<Longrightarrow> z \<noteq> CHR 0x22 \<and> z \<noteq> CHR 0x5C \<and> \<not> byte z < 32"
  by (auto simp: hex_digit_def Let_def split: if_splits)

lemma esc_char_shape:
  assumes "byte c < 128"
  shows "(esc_char c = [c] \<and> 32 \<le> byte c \<and> c \<noteq> CHR 0x22 \<and> c \<noteq> CHR 0x5C \<and> \<not> html_unsafe c)
    \<or> (\<exists>e. esc_char c = [CHR 0x5C, e] \<and> simple_escape e \<and> e \<noteq> CHR ''u'' \<and> unescape e = c)
    \<or> (\<exists>x y. esc_char c = [CHR 0x5C, CHR ''u'', CHR ''0'', CHR ''0'', x, y]
         \<and> hex4 [CHR ''0'', CHR ''0'', x, y] = Some (byte c))"
proof -
  note hex = hex_digit_hex_char
  have "hex4 [CHR ''0'', CHR ''0'', hex_char (byte c div 16), hex_char (byte c mod 16)] = Some (byte c)"
    using assms hex [of "byte c div 16"] hex [of "byte c mod 16"]
    by (simp add: hex4_def hex_digit_def [of "CHR ''0''"])
  then show ?thesis
    by (auto simp: esc_char_def simple_escape_def unescape_def html_unsafe_def)
qed

lemma scan_esc_char:
  assumes "byte c < 128"
  shows "scan_string (esc_char c @ t) = map_option (\<lambda>(u, r). (esc_char c @ u, r)) (scan_string t)"
  using esc_char_shape [OF assms]
proof (elim disjE exE conjE)
  fix x y
  assume *: "esc_char c = [CHR 0x5C, CHR ''u'', CHR ''0'', CHR ''0'', x, y]"
    "hex4 [CHR ''0'', CHR ''0'', x, y] = Some (byte c)"
  then have h: "hex_digit x \<noteq> None" "hex_digit y \<noteq> None"
    by (auto simp: hex4_def split: option.splits)
  show ?thesis
    unfolding * using h hex_digit_plain [OF h(1)] hex_digit_plain [OF h(2)]
    by (cases "scan_string t") (auto simp: unicode_escape_def hex_digit_def [of "CHR ''0''"])
qed (auto simp: simple_escape_def option.map_comp o_def case_prod_beta)

lemma second_high: "second_of3 a b \<Longrightarrow> 128 \<le> b" "second_of4 a b \<Longrightarrow> 128 \<le> b" "is_cont b \<Longrightarrow> 128 \<le> b"
  by (auto simp: second_of3_def second_of4_def is_cont_def split: if_splits)

lemma utf8_width_cont:
  assumes "1 < utf8_width (c # s)"
  shows "utf8_width (c # s) - 1 \<le> length s \<and> list_all (\<lambda>x. 128 \<le> byte x) (take (utf8_width (c # s) - 1) s)"
proof -
  consider "s = []" | x where "s = [x]" | x y where "s = [x, y]" | x y z t where "s = x # y # z # t"
    by (metis list.exhaust)
  then show ?thesis
    using assms by cases (auto simp: utf8_width_def second_high split: if_splits)
qed

lemma scan_high:
  "list_all (\<lambda>x. 128 \<le> byte x) u \<Longrightarrow>
     scan_string (u @ t) = map_option (\<lambda>(v, r). (u @ v, r)) (scan_string t)"
  by (induction u; cases "scan_string t") auto

lemma scan_esc_string: "scan_string (esc_string s @ CHR 0x22 # r) = Some (esc_string s, r)"
proof (induction s rule: esc_string.induct)
  case 1
  then show ?case by simp
next
  case (2 c s)
  show ?case
  proof (cases "byte c < 128")
    case True
    with 2 show ?thesis by (simp add: scan_esc_char)
  next
    case high: False
    let ?w = "utf8_width (c # s)"
    show ?thesis
    proof (cases "?w \<le> 1")
      case True
      have "unicode_escape (CHR ''u'') (CHR ''f'' # CHR ''f'' # CHR ''f'' # CHR ''d'' # t)" for t
        by (simp add: unicode_escape_def hex_digit_def)
      with True high 2 show ?thesis by simp
    next
      case wide: False
      note cont = utf8_width_cont [of c s]
      show ?thesis
      proof (cases "byte c = 0xE2 \<and> line_sep s")
        case True
        have hex: "hex_digit (hex_char (byte (s ! 1) mod 16)) = Some (byte (s ! 1) mod 16)"
          by (rule hex_digit_hex_char) simp
        then show ?thesis
          using True high wide 2 hex_digit_plain [of "hex_char (byte (s ! 1) mod 16)"]
          by (simp add: esc_line_sep_def unicode_escape_def hex_digit_def)
      next
        case False
        let ?u = "c # take (?w - 1) s" and ?t = "esc_string (drop (?w - 1) s)"
        have u: "list_all (\<lambda>x. 128 \<le> byte x) ?u" using high wide cont by simp
        have eq: "esc_string (c # s) = ?u @ ?t" using False high wide by (auto simp: Let_def)
        have IH: "scan_string (?t @ CHR 0x22 # r) = Some (?t, r)" using 2 False high wide by simp
        show ?thesis unfolding eq append_assoc scan_high [OF u] IH by simp
      qed
    qed
  qed
qed

lemma unquote_esc_string: "ascii s \<Longrightarrow> unquote (esc_string s) = s"
proof (induction s)
  case Nil
  then show ?case by simp
next
  case (Cons c s)
  then have c: "byte c < 128" and IH: "unquote (esc_string s) = s" by (auto simp: ascii_def)
  have "unquote (esc_char c @ t) = c # unquote t" for t
    using esc_char_shape [OF c]
  proof (elim disjE exE conjE)
    fix x y
    assume *: "esc_char c = [CHR 0x5C, CHR ''u'', CHR ''0'', CHR ''0'', x, y]"
      "hex4 [CHR ''0'', CHR ''0'', x, y] = Some (byte c)"
    then have "hex4 (CHR ''0'' # CHR ''0'' # x # y # t) = Some (byte c)" by (simp add: hex4_def)
    with * c show ?thesis by (simp add: utf8_encode_def)
  qed (use c in auto)
  with c IH show ?case by simp
qed

lemma prints_string: "prints d (quote_string s) (JStr (unquote (esc_string s)))"
  by (auto simp: prints_def quote_string_def scan_esc_string intro!: exI [of _ "Suc 0"])

lemma prints_ascii: "ascii s \<Longrightarrow> prints d (quote_string s) (JStr s)"
  using prints_string [of d s] by (simp add: unquote_esc_string)

text \<open>An object is printed member by member; its text reads back as the list of its members.\<close>

lemma enough_fuelI:
  assumes "\<And>m r. n \<le> m \<Longrightarrow> P (Suc m) r" shows "\<exists>n. \<forall>m \<ge> n. \<forall>r. P m r"
proof (intro exI [of _ "Suc n"] allI impI)
  fix m r assume "Suc n \<le> m"
  then obtain k where "m = Suc k" "n \<le> k" by (cases m) auto
  with assms show "P m r" by simp
qed

lemma pmembs_prints:
  assumes "ms \<noteq> []" and "\<forall>(k, b, v) \<in> set ms. ascii k \<and> prints d b v"
  shows "\<exists>n. \<forall>m \<ge> n. \<forall>r. pmembs m d (commas (map member_text ms) @ CHR ''}'' # r) = Some (ms, r)"
  using assms
proof (induction ms rule: list_nonempty_induct)
  case (single x)
  obtain k b v where x: "x = (k, b, v)" by (metis prod_cases3)
  with single have k: "ascii k" and b: "prints d b v" by auto
  from prints_append [OF b] obtain n where n: "\<And>m r. n \<le> m \<Longrightarrow> num_stop r \<Longrightarrow> pval m d (b @ r) = Some (v, r)"
    by blast
  have skip: "skip_ws (b @ r) = b @ r" for r using prints_not_ws [OF b] by (cases b) auto
  have "pmembs (Suc m) d (commas (map member_text [x]) @ CHR ''}'' # r) = Some ([x], r)" if "n \<le> m" for m r
    using n [OF that, of "CHR ''}'' # r"]
    by (simp add: x member_text_def quote_string_def scan_esc_string unquote_esc_string k skip skip_ws_Cons is_ws_def)
  then show ?case by (rule enough_fuelI)
next
  case (cons x xs)
  obtain k b v where x: "x = (k, b, v)" by (metis prod_cases3)
  with cons have k: "ascii k" and b: "prints d b v" and rest: "\<forall>(k, b, v) \<in> set xs. ascii k \<and> prints d b v" by auto
  from prints_append [OF b] obtain n where n: "\<And>m r. n \<le> m \<Longrightarrow> num_stop r \<Longrightarrow> pval m d (b @ r) = Some (v, r)"
    by blast
  from cons.IH [OF rest] obtain n' where
    n': "\<And>m r. n' \<le> m \<Longrightarrow> pmembs m d (commas (map member_text xs) @ CHR ''}'' # r) = Some (xs, r)" by blast
  have skip: "skip_ws (b @ r) = b @ r" for r using prints_not_ws [OF b] by (cases b) auto
  obtain y ys where xs: "xs = y # ys" using cons.hyps by (cases xs) auto
  have head: "\<exists>t. commas (map member_text xs) = CHR 0x22 # t"
    by (cases y; cases ys) (auto simp: xs member_text_def quote_string_def)
  then have skip': "skip_ws (commas (map member_text xs) @ r) = commas (map member_text xs) @ r" for r
    by (auto simp: is_ws_def)
  have mt: "member_text x = CHR 0x22 # esc_string k @ CHR 0x22 # CHR '':'' # b"
    by (simp add: x member_text_def quote_string_def)
  have split: "commas (map member_text (x # xs)) = member_text x @ CHR '','' # commas (map member_text xs)"
    by (simp add: xs)
  have "pmembs (Suc m) d (commas (map member_text (x # xs)) @ CHR ''}'' # r) = Some (x # xs, r)"
    if "max n n' \<le> m" for m r
    unfolding split mt using n [of m "CHR '','' # commas (map member_text xs) @ CHR ''}'' # r"] n' [of m r] that
    by (simp add: x scan_esc_string unquote_esc_string k skip skip' is_ws_def)
  then show ?case by (rule enough_fuelI)
qed

lemma prints_object:
  assumes "\<forall>(k, b, v) \<in> set ms. ascii k \<and> prints d b v"
  shows "prints (Suc d) (''{'' @ commas (map member_text ms) @ ''}'') (JObj ms)"
proof (cases "ms = []")
  case True
  then show ?thesis by (auto simp: prints_def is_ws_def intro!: exI [of _ "Suc 0"])
next
  case False
  from pmembs_prints [OF False assms] obtain n where
    n: "pmembs n d (commas (map member_text ms) @ CHR ''}'' # []) = Some (ms, [])" by blast
  obtain y ys where ms: "ms = y # ys" using False by (cases ms) auto
  obtain t where t: "commas (map member_text ms) = CHR 0x22 # t"
    by (cases y; cases ys) (auto simp: ms member_text_def quote_string_def)
  have "pval (Suc n) (Suc d) (''{'' @ commas (map member_text ms) @ ''}'') = Some (JObj ms, [])"
    using n by (simp add: t is_ws_def)
  then show ?thesis unfolding prints_def by (rule exI)
qed

subsection \<open>Integers and constants\<close>

lemma prints_null: "prints d ''null'' JNull"
  by (auto simp: prints_def scan_lit_def intro!: exI [of _ "Suc 0"])

lemma prints_empty_object: "prints (Suc d) ''{}'' (JObj [])"
  using prints_object [of "[]" d] by simp

lemma digit_char: "n < 10 \<Longrightarrow> is_digit (char_of (48 + n)) \<and> byte (char_of (48 + n)) = 48 + n"
  by (simp add: is_digit_def)

lemma digits_val_append: "digits_val (s @ t) a = digits_val t (digits_val s a)"
  by (induction s arbitrary: a) auto

lemma show_nat_digits:
  "show_nat n \<noteq> [] \<and> list_all is_digit (show_nat n) \<and> digits_val (show_nat n) 0 = int n
   \<and> (hd (show_nat n) = CHR ''0'' \<longrightarrow> n = 0)"
proof (induction n rule: show_nat.induct)
  case (1 n)
  show ?case
  proof (cases "n < 10")
    case True
    have "char_of (48 + n) = CHR ''0'' \<Longrightarrow> n = 0"
    proof -
      assume "char_of (48 + n) = CHR ''0''"
      then have "byte (char_of (48 + n)) = byte (CHR ''0'')" by simp
      with digit_char [OF True] show ?thesis by simp
    qed
    with True show ?thesis
      using digit_char [OF True] by (subst (1 2 3 4) show_nat.simps) (auto simp: digit_val_def)
  next
    case False
    with 1 have IH: "show_nat (n div 10) \<noteq> [] \<and> list_all is_digit (show_nat (n div 10))
        \<and> digits_val (show_nat (n div 10)) 0 = int (n div 10) \<and> (hd (show_nat (n div 10)) = CHR ''0'' \<longrightarrow> n div 10 = 0)"
      by simp
    have eq: "show_nat n = show_nat (n div 10) @ [char_of (48 + n mod 10)]"
      using False by (subst show_nat.simps) simp
    have "n mod 10 < 10" by simp
    moreover have "int (n div 10) * 10 + int (n mod 10) = int n" by presburger
    ultimately show ?thesis
      using digit_char [of "n mod 10"] IH False unfolding eq by (auto simp: digits_val_append digit_val_def)
  qed
qed

lemma scan_show_nat: "num_stop r \<Longrightarrow> scan_int (show_nat n @ r) = Some (show_nat n, r)"
proof -
  assume r: "num_stop r"
  show ?thesis
  proof (cases "n = 0")
    case True
    moreover have "char_of (48 :: nat) = CHR ''0''" by code_simp
    ultimately show ?thesis by (simp add: show_nat.simps scan_int_def)
  next
    case False
    with show_nat_digits [of n] obtain c s where s: "show_nat n = c # s" "c \<noteq> CHR ''0''" "is_digit c" "list_all is_digit s"
      by (cases "show_nat n") auto
    with r show ?thesis by (simp add: scan_int_def takeWhile_local dropWhile_local)
  qed
qed

lemma scan_no_tail: "num_stop r \<Longrightarrow> scan_frac r = Some ([], r) \<and> scan_exp r = Some ([], r)"
  by (auto simp: scan_frac_def scan_exp_def num_stop_def split: list.splits)

lemma scan_show_int: "num_stop r \<Longrightarrow> scan_number (show_int i @ r) = Some (show_int i, r)"
proof -
  assume r: "num_stop r"
  have sign: "scan_sign (show_nat n @ r) = ([], show_nat n @ r)" for n
    using show_nat_digits [of n] by (cases "show_nat n") (auto simp: scan_sign_def)
  show ?thesis
    by (simp add: scan_number_def show_int_def scan_sign_def [of "CHR ''-'' # _"] sign scan_show_nat [OF r] scan_no_tail [OF r])
qed

lemma prints_int: "prints d (show_int i) (JNum (show_int i))"
proof -
  have c: "is_digit (hd (show_nat n))" "show_nat n \<noteq> []" for n
    using show_nat_digits [of n] by (cases "show_nat n"; auto)+
  obtain h t where h: "show_int i = h # t" "h = CHR ''-'' \<or> is_digit h"
    using c [of "nat i"] by (cases "show_int i") (auto simp: show_int_def split: if_splits)
  from h(2) have "h \<noteq> CHR ''{'' \<and> h \<noteq> CHR ''['' \<and> h \<noteq> CHR 0x22 \<and> h \<noteq> CHR ''t'' \<and> h \<noteq> CHR ''f'' \<and> h \<noteq> CHR ''n''"
    by (auto simp: is_digit_def)
  then have "pval (Suc 0) d (show_int i) = Some (JNum (show_int i), [])"
    using scan_show_int [of "[]" i] h(1) by simp
  then show ?thesis unfolding prints_def by (rule exI)
qed

lemma lit_int_show: "- (2 ^ 63) \<le> i \<Longrightarrow> i < 2 ^ 63 \<Longrightarrow> lit_int (show_int i) = Some i"
proof -
  assume i: "- (2 ^ 63) \<le> i" "i < 2 ^ 63"
  have sign: "scan_sign (show_nat n) = ([], show_nat n)" for n
    using show_nat_digits [of n] by (cases "show_nat n") (auto simp: scan_sign_def)
  show ?thesis
    using i show_nat_digits [of "nat i"] show_nat_digits [of "nat (- i)"]
    by (auto simp: lit_int_def show_int_def scan_sign_def [of "CHR ''-'' # _"] sign)
qed

subsection \<open>Compaction\<close>

text \<open>Text that \<open>json.Marshal\<close> produced is not changed when it is embedded as a raw message.\<close>

lemma compact_plain:
  "list_all (\<lambda>x. byte x < 128) u \<Longrightarrow> list_all (\<lambda>x. x \<noteq> CHR 0x22 \<and> x \<noteq> CHR 0x5C \<and> \<not> html_unsafe x) u
   \<Longrightarrow> compact_str (u @ t) = u @ compact_str t"
  by (induction u) auto

lemma compact_esc_string: "ascii s \<Longrightarrow> compact_str (esc_string s @ t) = esc_string s @ compact_str t"
proof (induction s)
  case Nil
  then show ?case by simp
next
  case (Cons c s)
  then have c: "byte c < 128" and IH: "compact_str (esc_string s @ t) = esc_string s @ compact_str t"
    by (auto simp: ascii_def)
  have "compact_str (esc_char c @ x) = esc_char c @ compact_str x" for x
    using esc_char_shape [OF c]
  proof (elim disjE exE conjE)
    fix x' y
    assume *: "esc_char c = [CHR 0x5C, CHR ''u'', CHR ''0'', CHR ''0'', x', y]"
      "hex4 [CHR ''0'', CHR ''0'', x', y] = Some (byte c)"
    then have h: "hex_digit x' \<noteq> None" "hex_digit y \<noteq> None" by (auto simp: hex4_def split: option.splits)
    have low: "byte z < 128 \<and> \<not> html_unsafe z" if "hex_digit z \<noteq> None" for z
      using that by (auto simp: hex_digit_def html_unsafe_def Let_def split: if_splits)
    from compact_plain [of "[CHR ''0'', CHR ''0'', x', y]" x] h low [OF h(1)] low [OF h(2)]
      hex_digit_plain [OF h(1)] hex_digit_plain [OF h(2)]
    show ?thesis unfolding * by (simp add: html_unsafe_def)
  qed (use c in \<open>auto simp: line_sep_def\<close>)
  with c IH show ?case by simp
qed

lemma compact_quote: "ascii s \<Longrightarrow> compact_val (quote_string s @ t) = quote_string s @ compact_val t"
  by (simp add: quote_string_def compact_esc_string is_ws_def)

section \<open>Objects as lists of members\<close>

lemma skip_ws_Nil [simp]: "skip_ws [] = []"
  by (simp add: skip_ws_def)

lemma quote_string_nonempty [simp]: "quote_string s \<noteq> []"
  by (simp add: quote_string_def)

lemma ms_obj_members:
  "ms_obj (map (\<lambda>(k, b, v). (k, Some b)) ms) = Some (''{'' @ commas (map member_text ms) @ ''}'')"
proof -
  have "all_some (map (ms_member \<circ> (\<lambda>(k, b, v). (k, Some b))) ms) = Some (map member_text ms)"
    by (induction ms) (auto simp: ms_member_def member_text_def)
  then show ?thesis by (simp add: ms_obj_def)
qed

lemma prints_valid: "prints d p v \<Longrightarrow> d \<le> max_nesting \<Longrightarrow> json_valid p"
  by (simp add: prints_parse json_valid_def)

end
