(* ===== verification/Jsonrpc_Facts.thy ===== *)
theory Jsonrpc_Facts
  imports Jsonrpc Go_Codec_Facts
begin

text \<open>
  Properties of the JSON-RPC codec: the limits \<open>DecodeMessage\<close> and \<open>DecodeBatch\<close> enforce,
  what a decoded message keeps of its text, and the round trips of requests and responses.
\<close>

section \<open>Levels of a value\<close>

text \<open>The number literals of a value.\<close>

fun numbers_of :: "jv \<Rightarrow> bytes list" where
  "numbers_of (JNum l) = [l]"
| "numbers_of (JArr es) = concat (map (\<lambda>(b, v). numbers_of v) es)"
| "numbers_of (JObj ms) = concat (map (\<lambda>(k, b, v). numbers_of v) ms)"
| "numbers_of _ = []"

text \<open>
  The levels of a JSON value: the value itself has level 1, and the elements of an array and the members of
  an object have one level more than it. Of members with the same name only the last counts.
\<close>

inductive at_level :: "nat \<Rightarrow> jv \<Rightarrow> jv \<Rightarrow> bool" where
  level_top: "at_level 1 v v"
| level_element: "(b, v) \<in> set es \<Longrightarrow> at_level n v x \<Longrightarrow> at_level (Suc n) (JArr es) x"
| level_member: "map_of (rev ms) k = Some (b, v) \<Longrightarrow> at_level n v x \<Longrightarrow> at_level (Suc n) (JObj ms) x"

inductive_simps at_level_simps [simp]:
  "at_level n JNull x" "at_level n (JBool a) x" "at_level n (JNum l) x" "at_level n (JStr s) x"

definition deep_at_most :: "int \<Rightarrow> jv \<Rightarrow> bool" where
  "deep_at_most mx v \<longleftrightarrow> (\<forall>n x. at_level n v x \<longrightarrow> int n \<le> mx)"

lemma deep_scalar [simp]:
  "deep_at_most mx JNull \<longleftrightarrow> 1 \<le> mx" "deep_at_most mx (JBool a) \<longleftrightarrow> 1 \<le> mx"
  "deep_at_most mx (JNum l) \<longleftrightarrow> 1 \<le> mx" "deep_at_most mx (JStr s) \<longleftrightarrow> 1 \<le> mx"
  by (auto simp: deep_at_most_def)

lemma deep_below:
  assumes "\<And>n x. at_level n c x \<longleftrightarrow> n = 1 \<and> x = c \<or> (\<exists>m. n = Suc m \<and> (\<exists>v \<in> V. at_level m v x))"
  shows "deep_at_most mx c \<longleftrightarrow> 1 \<le> mx \<and> (\<forall>v \<in> V. deep_at_most (mx - 1) v)"
proof
  assume deep: "deep_at_most mx c"
  have "at_level 1 c c" by (rule level_top)
  with deep have "int 1 \<le> mx" unfolding deep_at_most_def by blast
  moreover have "deep_at_most (mx - 1) v" if "v \<in> V" for v
    unfolding deep_at_most_def
  proof (intro allI impI)
    fix n x assume "at_level n v x"
    with that have "at_level (Suc n) c x" unfolding assms by blast
    with deep have "int (Suc n) \<le> mx" unfolding deep_at_most_def by blast
    then show "int n \<le> mx - 1" by simp
  qed
  ultimately show "1 \<le> mx \<and> (\<forall>v \<in> V. deep_at_most (mx - 1) v)" by simp
next
  assume r: "1 \<le> mx \<and> (\<forall>v \<in> V. deep_at_most (mx - 1) v)"
  show "deep_at_most mx c" unfolding deep_at_most_def assms
  proof (intro allI impI, elim disjE exE conjE bexE)
    fix n x m v assume "n = Suc m" "v \<in> V" "at_level m v x"
    with r have "int m \<le> mx - 1" unfolding deep_at_most_def by blast
    with \<open>n = Suc m\<close> show "int n \<le> mx" by simp
  qed (use r in simp)
qed

lemma deep_array: "deep_at_most mx (JArr es) \<longleftrightarrow> 1 \<le> mx \<and> (\<forall>v \<in> snd ` set es. deep_at_most (mx - 1) v)"
  by (rule deep_below) (subst at_level.simps, force)

lemma deep_object: "deep_at_most mx (JObj ms) \<longleftrightarrow> 1 \<le> mx \<and> (\<forall>v \<in> snd ` ran (map_of (rev ms)). deep_at_most (mx - 1) v)"
  by (rule deep_below) (subst at_level.simps, force simp: ran_def)

section \<open>Depth\<close>

text \<open>
  A raw part is within the limit when no value of its text lies deeper. A part with a number literal
  that \<open>float64\<close> cannot hold is not measured.
\<close>

definition measured :: "jv \<Rightarrow> bool" where
  "measured v \<longleftrightarrow> list_all (\<lambda>l. \<not> lit_overflows l) (numbers_of v)"

definition within_depth :: "int \<Rightarrow> raw \<Rightarrow> bool" where
  "within_depth mx r \<longleftrightarrow> (\<forall>t b v. r = Some t \<longrightarrow> json_parse t = Some (b, v) \<longrightarrow> measured v \<longrightarrow> deep_at_most mx v)"

definition message_within_depth :: "int \<Rightarrow> Message \<Rightarrow> bool" where
  "message_within_depth mx m \<longleftrightarrow>
     within_depth mx (msg_Params m) \<and> within_depth mx (msg_Result m)
     \<and> (case msg_Error m of None \<Rightarrow> True | Some e \<Rightarrow> within_depth mx (err_Data e))"

text \<open>The nesting of a tree, stated without loops.\<close>

fun nesting :: "any \<Rightarrow> int" where
  "nesting (AMap m) = 1 + Max (insert 0 (set (map (\<lambda>kv. nesting (snd kv)) m)))"
| "nesting (AArr xs) = 1 + Max (insert 0 (set (map nesting xs)))"
| "nesting _ = 1"

lemma nesting_pos: "1 \<le> nesting v"
  by (cases v) auto

lemma depth_nesting:
  "depth v = nesting v"
  "1 \<le> mx \<Longrightarrow> depth_arr xs mx = max mx (1 + Max (insert 0 (set (map nesting xs))))"
  "1 \<le> mx \<Longrightarrow> depth_map m mx = max mx (1 + Max (insert 0 (set (map (\<lambda>kv. nesting (snd kv)) m))))"
proof (induction v and xs mx and m mx rule: depth_depth_arr_depth_map.induct)
  case (8 x xs mx)
  then have "depth_arr (x # xs) mx = max (max (nesting x + 1) mx) (1 + Max (insert 0 (set (map nesting xs))))"
    by (simp add: max_def)
  also have "\<dots> = max mx (1 + Max (insert (nesting x) (insert 0 (set (map nesting xs)))))"
    by (subst Max_insert) (auto simp: max_def)
  finally show ?case by (simp add: insert_commute)
next
  case (10 k x m mx)
  then have "depth_map ((k, x) # m) mx
      = max (max (nesting x + 1) mx) (1 + Max (insert 0 (set (map (\<lambda>kv. nesting (snd kv)) m))))"
    by (simp add: max_def)
  also have "\<dots> = max mx (1 + Max (insert (nesting x) (insert 0 (set (map (\<lambda>kv. nesting (snd kv)) m)))))"
    by (subst Max_insert) (auto simp: max_def)
  finally show ?case by (simp add: insert_commute)
qed (auto simp: max_def)

lemma to_any_None:
  "to_any v = None \<longleftrightarrow> (\<exists>l \<in> set (numbers_of v). lit_overflows l)"
  "to_anys es = None \<longleftrightarrow> (\<exists>e \<in> set es. \<exists>l \<in> set (numbers_of (snd e)). lit_overflows l)"
  "to_amap ms = None \<longleftrightarrow> (\<exists>e \<in> set ms. \<exists>l \<in> set (numbers_of (snd (snd e))). lit_overflows l)"
proof (induction v and es and ms rule: to_any_to_anys_to_amap.induct)
  case (8 b v es)
  then show ?case by (cases "to_any v") auto
next
  case (10 k b v ms)
  then show ?case by (cases "to_any v") auto
qed (auto simp: split_beta)

lemma to_amap_lookup:
  "to_amap ms = Some m \<Longrightarrow> distinct (map fst m) \<and> (\<forall>k. map_of m k = Option.bind (map_of (rev ms) k) (\<lambda>(b, v). to_any v))"
proof (induction ms arbitrary: m)
  case (Cons e ms)
  obtain k b v where e: "e = (k, b, v)" by (cases e)
  from Cons.prems obtain x m' where x: "to_any v = Some x" "to_amap ms = Some m'"
    and m: "m = (if map_of m' k = None then (k, x) # m' else m')" by (auto simp: e split: option.splits)
  from Cons.IH [OF x(2)] have IH: "distinct (map fst m')" "\<And>k. map_of m' k = Option.bind (map_of (rev ms) k) (\<lambda>(b, v). to_any v)" by auto
  have none: "map_of m' k = None \<longleftrightarrow> map_of (rev ms) k = None"
  proof -
    have "\<exists>y. to_any v' = Some y" if "map_of (rev ms) k = Some (b', v')" for b' v'
    proof -
      from that have "(k, b', v') \<in> set ms" by (auto dest: map_of_SomeD)
      with x(2) to_any_None(1) [of v'] to_any_None(3) [of ms] show ?thesis by force
    qed
    then show ?thesis by (cases "map_of (rev ms) k") (auto simp: IH(2))
  qed
  have "map_of m k' = Option.bind (map_of (rev (e # ms)) k') (\<lambda>(b, v). to_any v)" for k'
    using none x(1) IH(2) [of k'] IH(2) [of k] by (auto simp: m e map_add_def split: option.splits)
  moreover have "distinct (map fst m)" using IH(1) by (auto simp: m map_of_eq_None_iff)
  ultimately show ?case by blast
qed simp

lemma nesting_le:
  "nesting (AArr xs) \<le> mx \<longleftrightarrow> 1 \<le> mx \<and> (\<forall>x \<in> set xs. nesting x \<le> mx - 1)"
  "nesting (AMap m) \<le> mx \<longleftrightarrow> 1 \<le> mx \<and> (\<forall>x \<in> snd ` set m. nesting x \<le> mx - 1)"
proof -
  have le: "1 + Max (insert 0 S) \<le> mx \<longleftrightarrow> 1 \<le> mx \<and> (\<forall>y \<in> S. y \<le> mx - 1)" if "finite S" for S
  proof -
    have "Max (insert 0 S) \<le> mx - 1 \<longleftrightarrow> 0 \<le> mx - 1 \<and> (\<forall>y \<in> S. y \<le> mx - 1)" using that by simp
    then show ?thesis by linarith
  qed
  show "nesting (AArr xs) \<le> mx \<longleftrightarrow> 1 \<le> mx \<and> (\<forall>x \<in> set xs. nesting x \<le> mx - 1)"
    "nesting (AMap m) \<le> mx \<longleftrightarrow> 1 \<le> mx \<and> (\<forall>x \<in> snd ` set m. nesting x \<le> mx - 1)"
    using le [of "set (map nesting xs)"] le [of "set (map (\<lambda>kv. nesting (snd kv)) m)"] by simp_all
qed

lemma to_anys_nth: "to_anys es = Some xs \<Longrightarrow> list_all2 (\<lambda>(b, v) x. to_any v = Some x) es xs"
  by (induction es arbitrary: xs) (auto split: option.splits)

lemma nesting_levels: "to_any v = Some x \<Longrightarrow> nesting x \<le> mx \<longleftrightarrow> deep_at_most mx v"
proof (induction v arbitrary: x mx)
  case (JArr es)
  then obtain xs where xs: "x = AArr xs" "list_all2 (\<lambda>(b, v) x. to_any v = Some x) es xs" by (auto dest: to_anys_nth)
  have "list_all (\<lambda>x. nesting x \<le> mx - 1) xs \<longleftrightarrow> list_all (\<lambda>v. deep_at_most (mx - 1) v) (map snd es)"
    using xs(2) JArr.IH
  proof (induction rule: list_all2_induct)
    case (Cons e es y ys)
    have "nesting y \<le> mx - 1 \<longleftrightarrow> deep_at_most (mx - 1) (snd e)"
      using Cons.hyps(1) by (intro Cons.prems [of e]) (auto simp: snds.simps)
    moreover have "list_all (\<lambda>x. nesting x \<le> mx - 1) ys \<longleftrightarrow> list_all (\<lambda>v. deep_at_most (mx - 1) v) (map snd es)"
      by (intro Cons.IH Cons.prems) auto
    ultimately show ?case by simp
  qed simp
  then show ?case unfolding xs(1) nesting_le deep_array by (simp add: list_all_iff)
next
  case (JObj ms)
  then obtain m where m: "x = AMap m" "to_amap ms = Some m" by auto
  note look = to_amap_lookup [OF m(2)]
  have vals: "snd ` set m = {y. \<exists>k b v. map_of (rev ms) k = Some (b, v) \<and> to_any v = Some y}"
  proof -
    have "snd ` set m = ran (map_of m)" using look by (simp add: ran_distinct)
    then show ?thesis using look by (auto simp: ran_def bind_eq_Some_conv split: prod.splits)
  qed
  have val: "\<exists>y. to_any v = Some y \<and> (nesting y \<le> mx - 1 \<longleftrightarrow> deep_at_most (mx - 1) v)" if "map_of (rev ms) k = Some (b, v)" for k b v
  proof -
    from that have "(k, b, v) \<in> set ms" by (auto dest: map_of_SomeD)
    moreover from this m(2) to_any_None(1) [of v] to_any_None(3) [of ms] obtain y where "to_any v = Some y" by force
    ultimately show ?thesis using JObj.IH [of "(k, b, v)" "(b, v)" v y "mx - 1"] by (auto simp: snds.simps)
  qed
  have "(\<forall>y \<in> snd ` set m. nesting y \<le> mx - 1) \<longleftrightarrow> (\<forall>v \<in> snd ` ran (map_of (rev ms)). deep_at_most (mx - 1) v)"
  proof (intro iffI ballI)
    fix v assume "\<forall>y \<in> snd ` set m. nesting y \<le> mx - 1" "v \<in> snd ` ran (map_of (rev ms))"
    moreover from this(2) obtain k b where "map_of (rev ms) k = Some (b, v)" by (auto simp: ran_def)
    ultimately show "deep_at_most (mx - 1) v" using val unfolding vals by blast
  next
    fix y assume all: "\<forall>v \<in> snd ` ran (map_of (rev ms)). deep_at_most (mx - 1) v" and "y \<in> snd ` set m"
    then obtain k b v where v: "map_of (rev ms) k = Some (b, v)" "to_any v = Some y" unfolding vals by blast
    then have "v \<in> snd ` ran (map_of (rev ms))" by (force simp: ran_def)
    with all val [OF v(1)] v(2) show "nesting y \<le> mx - 1" by auto
  qed
  then show ?case unfolding m(1) nesting_le deep_object by simp
qed (auto split: if_splits)

text \<open>The code's check, by way of the value it decodes.\<close>

lemma json_parse_Nil: "json_parse [] = None"
  by code_simp

lemma within_depth_code [code]:
  "within_depth mx r \<longleftrightarrow> (case unmarshal un_any ANull r of None \<Rightarrow> True | Some v \<Rightarrow> depth v \<le> mx)"
proof (cases r)
  case None
  then show ?thesis by (simp add: within_depth_def unmarshal_def json_parse_Nil)
next
  case (Some t)
  have measured: "measured v \<longleftrightarrow> to_any v \<noteq> None" for v
    using to_any_None(1) [of v] by (auto simp: measured_def list_all_iff)
  show ?thesis
  proof (cases "json_parse t")
    case None
    with Some show ?thesis by (simp add: within_depth_def unmarshal_def)
  next
    case (Some bv)
    then obtain b v where bv: "json_parse t = Some (b, v)" by (cases bv) simp
    show ?thesis
      using nesting_levels [of v _ mx] measured [of v]
      by (cases "to_any v") (auto simp: \<open>r = Some t\<close> bv within_depth_def unmarshal_def un_any_def depth_nesting(1))
  qed
qed

lemma check_raw_iff: "check_raw mx r = None \<longleftrightarrow> within_depth mx r"
  by (auto simp: check_raw_def within_depth_code raw_empty_def unmarshal_def json_parse_Nil split: option.splits)

lemma checkMessageDepth_iff: "checkMessageDepth m mx = None \<longleftrightarrow> message_within_depth mx m"
proof -
  have none: "within_depth mx None" by (simp add: within_depth_def)
  show ?thesis
    using none by (auto simp: checkMessageDepth_def message_within_depth_def simp flip: check_raw_iff split: option.splits)
qed

section \<open>What a decoded message keeps\<close>

definition raw_ok :: "raw \<Rightarrow> bool" where
  "raw_ok r \<longleftrightarrow> (case r of None \<Rightarrow> True | Some b \<Rightarrow> json_valid b)"

definition message_raws_ok :: "Message \<Rightarrow> bool" where
  "message_raws_ok m \<longleftrightarrow> raw_ok (msg_ID m) \<and> raw_ok (msg_Params m) \<and> raw_ok (msg_Result m)
     \<and> (case msg_Error m of None \<Rightarrow> True | Some e \<Rightarrow> raw_ok (err_Data e))"

lemma un_RPCError_raw_ok:
  assumes "json_parse b = Some (b, v)" "raw_ok (err_Data e)" "un_RPCError b v e = Some e'"
  shows "raw_ok (err_Data e')"
proof -
  from assms(1) have "faithful_raws v" by (auto dest: json_parse_raw)
  then show ?thesis
    using assms(2,3) unfolding un_RPCError_def
    by (rule un_struct_inv [where P = "\<lambda>e. raw_ok (err_Data e)", rotated 1])
       (auto simp: fields_RPCError_def field_def un_raw_def raw_ok_def json_valid_def)
qed

lemma un_Message_raws_ok:
  assumes "faithful_raws v" "message_raws_ok m" "un_Message b v m = Some m'"
  shows "message_raws_ok m'"
  using assms unfolding un_Message_def
proof (rule un_struct_inv [where P = message_raws_ok, rotated 1])
  fix n d b v s s'
  assume *: "(n, d) \<in> set fields_Message" "json_parse b = Some (b, v)" "message_raws_ok s" "d b v s = Some s'"
  have valid: "json_valid b" using *(2) by (simp add: json_valid_def)
  have zero: "raw_ok (err_Data zero_RPCError)" by (simp add: zero_RPCError_def raw_ok_def)
  note err = un_RPCError_raw_ok [OF *(2)]
  have err0: "raw_ok (err_Data e)" if "un_RPCError b v zero_RPCError = Some e" for e
    using err zero that by blast
  have ptr: "case y of None \<Rightarrow> True | Some e \<Rightarrow> raw_ok (err_Data e)"
    if "un_ptr zero_RPCError un_RPCError b v x = Some y" "case x of None \<Rightarrow> True | Some e \<Rightarrow> raw_ok (err_Data e)" for x y
    using that err0 err by (auto simp: un_ptr_def split: option.splits if_splits)
  from *(1,3,4) valid show "message_raws_ok s'"
    by (auto simp: fields_Message_def field_def un_raw_def message_raws_ok_def raw_ok_def [of "Some b"]
        split: if_splits dest!: ptr)
qed

lemma zero_Message_ok: "message_raws_ok zero_Message"
  by (simp add: zero_Message_def message_raws_ok_def raw_ok_def)

lemma DecodeMessage_cases:
  assumes "DecodeMessage data opts = Inr msg"
  obtains b v rest where "int (length data) \<le> maxSize (first_opt opts)" "json_next data = Some (b, v, rest)"
    "un_Message b v zero_Message = Some msg" "msg_JSONRPC msg = ''2.0''"
    "message_within_depth (maxDepth (first_opt opts)) msg" "skip_ws rest = []"
  using assms
  by (auto simp: DecodeMessage_def Let_def requireEOF_def simp flip: checkMessageDepth_iff
      split: if_splits option.splits)

end
