(* ===== verification/Go_Compact.thy ===== *)
theory Go_Compact
  imports Go_Codec_Facts
begin

text \<open>
  Embedding a raw message: \<open>compact\<close> drops the white space between tokens and escapes the
  characters that are unsafe in HTML, and what it produces is again the text of one value.
\<close>

section \<open>Tokens\<close>

lemma compact_skip_ws [simp]: "compact_val (skip_ws s) = compact_val s"
  by (induction s) (auto simp: skip_ws_def)

lemma compact_skip: "skip_ws s = c # t \<Longrightarrow> c \<noteq> CHR 0x22 \<Longrightarrow> compact_val s = c # compact_val t"
proof -
  assume c: "skip_ws s = c # t" "c \<noteq> CHR 0x22"
  from c(1) have "\<not> is_ws c" by (auto elim: skip_ws_ConsE)
  moreover have "compact_val s = compact_val (c # t)" by (metis c(1) compact_skip_ws)
  ultimately show ?thesis using c(2) by simp
qed

lemma compact_bare:
  "list_all (\<lambda>x. \<not> is_ws x \<and> x \<noteq> CHR 0x22) u \<Longrightarrow> compact_val (u @ r) = u @ compact_val r"
  by (induction u) auto

lemma digit_bare: "is_digit c \<Longrightarrow> \<not> is_ws c \<and> c \<noteq> CHR 0x22"
  by (auto simp: is_digit_def is_ws_def)

lemma digits_bare: "list_all is_digit u \<Longrightarrow> list_all (\<lambda>x. \<not> is_ws x \<and> x \<noteq> CHR 0x22) u"
  by (auto simp: list_all_iff digit_bare)

lemma scan_digits_bare: "scan_digits s = Some (u, r) \<Longrightarrow> list_all (\<lambda>x. \<not> is_ws x \<and> x \<noteq> CHR 0x22) u"
  by (auto simp: scan_digits_def digits_bare digit_bare split: list.splits if_splits)

lemma scan_number_bare:
  assumes "scan_number s = Some (u, r)"
  shows "list_all (\<lambda>x. \<not> is_ws x \<and> x \<noteq> CHR 0x22) u"
proof -
  let ?ok = "list_all (\<lambda>x. \<not> is_ws x \<and> x \<noteq> CHR 0x22)"
  obtain g s0 where g: "scan_sign s = (g, s0)" by fastforce
  from assms g obtain i s1 f s2 e where
    i: "scan_int s0 = Some (i, s1)" and f: "scan_frac s1 = Some (f, s2)" and
    e: "scan_exp s2 = Some (e, r)" and u: "u = g @ i @ f @ e"
    by (auto simp: scan_number_def Option.bind_eq_Some_conv)
  have ws: "\<not> is_ws (CHR ''.'')" "\<not> is_ws (CHR ''e'')" "\<not> is_ws (CHR ''E'')" "\<not> is_ws (CHR ''+'')" "\<not> is_ws (CHR ''-'')"
    by (simp_all add: is_ws_def)
  have "?ok g" using g by (auto simp: scan_sign_def is_ws_def split: list.splits if_splits)
  moreover have "?ok i" using i by (auto simp: scan_int_def is_ws_def is_digit_def list_all_iff dest!: set_takeWhileD split: list.splits if_splits)
  moreover have "?ok f" using f by (auto simp: scan_frac_def scan_digits_bare ws split: list.splits if_splits)
  moreover have "?ok e" using e by (auto simp: scan_exp_def scan_digits_bare ws split: list.splits if_splits)
  ultimately show ?thesis by (simp add: u)
qed

lemma scan_esc_html: "html_unsafe c \<or> byte c < 128 \<Longrightarrow>
    scan_string (esc_char c @ t) = map_option (\<lambda>(u, r). (esc_char c @ u, r)) (scan_string t)"
  by (rule scan_esc_char) (auto simp: html_unsafe_def)

lemma scan_line_sep: "scan_string (esc_line_sep s @ t) = map_option (\<lambda>(u, r). (esc_line_sep s @ u, r)) (scan_string t)"
proof -
  have hex: "hex_digit (hex_char (byte (s ! 1) mod 16)) = Some (byte (s ! 1) mod 16)"
    by (rule hex_digit_hex_char) simp
  then show ?thesis
    using hex_digit_plain [of "hex_char (byte (s ! 1) mod 16)"]
    by (cases "scan_string t") (auto simp: esc_line_sep_def unicode_escape_def hex_digit_def)
qed

lemma hex4_compact:
  assumes "unicode_escape e t" shows "\<exists>a b c d. t = a # b # c # d # drop 4 t
    \<and> (\<forall>x \<in> {a, b, c, d}. hex_digit x \<noteq> None)"
proof -
  from assms have "4 \<le> length t" and h: "list_all (\<lambda>h. hex_digit h \<noteq> None) (take 4 t)"
    by (auto simp: unicode_escape_def)
  then obtain a b c d t' where "t = a # b # c # d # t'"
    by (auto simp: numeral_eq_Suc Suc_le_length_iff)
  with h show ?thesis by auto
qed

lemma hex_compact: "hex_digit z \<noteq> None \<Longrightarrow> compact_str (z # t) = z # compact_str t"
  using hex_digit_plain [of z] by (auto simp: hex_digit_def html_unsafe_def Let_def split: if_splits)

lemma line_sep_shape: "line_sep s \<Longrightarrow> \<exists>x y t. s = x # y # t \<and> 128 \<le> byte x \<and> 128 \<le> byte y"
  by (cases s; cases "tl s") (auto simp: line_sep_def)

lemma compact_unicode_escape:
  assumes ue: "unicode_escape e t" and cu: "compact_str t = cu @ CHR 0x22 # r"
  shows "unicode_escape e (cu @ CHR 0x22 # r')"
proof -
  from hex4_compact [OF ue] obtain w x y z t' where h: "t = w # x # y # z # t'"
    "\<forall>q \<in> {w, x, y, z}. hex_digit q \<noteq> None" by metis
  then have hx: "hex_digit w \<noteq> None" "hex_digit x \<noteq> None" "hex_digit y \<noteq> None" "hex_digit z \<noteq> None" by auto
  have ne: "w \<noteq> CHR 0x22" "x \<noteq> CHR 0x22" "y \<noteq> CHR 0x22" "z \<noteq> CHR 0x22"
    using hx [THEN hex_digit_plain] by auto
  have "cu @ CHR 0x22 # r = w # x # y # z # compact_str t'"
    using cu hx unfolding h(1) hex_compact [OF hx(1)] hex_compact [OF hx(2)] hex_compact [OF hx(3)] hex_compact [OF hx(4)] by simp
  then obtain cu' where "cu = w # x # y # z # cu'" using ne by (auto simp: append_eq_Cons_conv)
  with ue hx show ?thesis by (auto simp: unicode_escape_def)
qed

text \<open>The text of a string literal stays a string literal.\<close>

lemma compact_scan_string:
  "scan_string s = Some (u, r) \<Longrightarrow>
     \<exists>cu. compact_str s = cu @ CHR 0x22 # compact_val r \<and> (\<forall>r'. scan_string (cu @ CHR 0x22 # r') = Some (cu, r'))"
proof (induction s arbitrary: u rule: length_induct)
  case (1 s)
  then obtain c s0 where s: "s = c # s0" by (cases s) auto
  have IH: "\<exists>cu. compact_str t = cu @ CHR 0x22 # compact_val r \<and> (\<forall>r'. scan_string (cu @ CHR 0x22 # r') = Some (cu, r'))"
    if "scan_string t = Some (u', r)" "length t < length s" for t u'
    using "1.IH" that by blast
  consider "c = CHR 0x22" | "c = CHR 0x5C" | "html_unsafe c"
    | "byte c = 0xE2" "line_sep s0" | "c \<noteq> CHR 0x22" "c \<noteq> CHR 0x5C" "\<not> html_unsafe c" "\<not> (byte c = 0xE2 \<and> line_sep s0)"
    by blast
  then show ?case
  proof cases
    case 1
    with "1.prems" s show ?thesis by (auto intro!: exI [of _ "[]"])
  next
    case 2
    with "1.prems" s obtain e t u' where t: "s0 = e # t" "scan_string t = Some (u', r)" "simple_escape e \<or> unicode_escape e t"
      by (cases s0) (auto split: if_splits)
    from IH [OF t(2)] s t(1) obtain cu where cu: "compact_str t = cu @ CHR 0x22 # compact_val r"
      "\<And>r'. scan_string (cu @ CHR 0x22 # r') = Some (cu, r')" by auto
    have "simple_escape e \<or> unicode_escape e (cu @ CHR 0x22 # r')" for r'
      using t(3) compact_unicode_escape [OF _ cu(1)] by blast
    with cu 2 s t(1) show ?thesis by (intro exI [of _ "c # e # cu"]) simp
  next
    case 3
    then have "c \<noteq> CHR 0x22" "c \<noteq> CHR 0x5C" "\<not> byte c < 32" by (auto simp: html_unsafe_def)
    with "1.prems" s obtain u' where u': "scan_string s0 = Some (u', r)" by auto
    from IH [OF u'] s obtain cu where "compact_str s0 = cu @ CHR 0x22 # compact_val r"
      "\<And>r'. scan_string (cu @ CHR 0x22 # r') = Some (cu, r')" by auto
    with 3 s show ?thesis
      by (intro exI [of _ "esc_char c @ cu"]) (auto simp: html_unsafe_def scan_esc_html)
  next
    case 4
    from line_sep_shape [OF 4(2)] obtain x y t where s0: "s0 = x # y # t" "128 \<le> byte x" "128 \<le> byte y" by blast
    with 4 "1.prems" s obtain u' where u': "scan_string t = Some (u', r)" by (auto split: if_splits)
    from IH [OF u'] s s0 obtain cu where cu: "compact_str t = cu @ CHR 0x22 # compact_val r"
      "\<And>r'. scan_string (cu @ CHR 0x22 # r') = Some (cu, r')" by auto
    have "c \<noteq> CHR 0x22" "c \<noteq> CHR 0x5C" "\<not> html_unsafe c" using 4(1) by (auto simp: html_unsafe_def)
    with 4 s s0 have "compact_str s = esc_line_sep s0 @ compact_str t" by simp
    with cu show ?thesis
      by (intro exI [of _ "esc_line_sep s0 @ cu"]) (simp add: scan_line_sep)
  next
    case 5
    with "1.prems" s obtain u' where u': "scan_string s0 = Some (u', r)" "\<not> byte c < 32" by (auto split: if_splits)
    from IH [OF u'(1)] s obtain cu where "compact_str s0 = cu @ CHR 0x22 # compact_val r"
      "\<And>r'. scan_string (cu @ CHR 0x22 # r') = Some (cu, r')" by auto
    with 5 s u'(2) show ?thesis by (intro exI [of _ "c # cu"]) auto
  qed
qed

section \<open>Values\<close>

definition compacts :: "(bytes \<Rightarrow> ('a \<times> bytes) option) \<Rightarrow> (bytes \<Rightarrow> bool) \<Rightarrow> bytes \<Rightarrow> bytes \<Rightarrow> bool" where
  "compacts f stop s r \<longleftrightarrow>
     (\<exists>c x. compact_val s = c @ compact_val r \<and> c \<noteq> [] \<and> \<not> is_ws (hd c)
        \<and> (\<forall>r'. stop r' \<longrightarrow> f (c @ r') = Some (x, r')))"

lemma compactsE:
  assumes "compacts f stop s r"
  obtains c x where "compact_val s = c @ compact_val r" "\<And>r'. skip_ws (c @ r') = c @ r'" "c \<noteq> []"
    "\<And>r'. stop r' \<Longrightarrow> f (c @ r') = Some (x, r')"
proof -
  from assms obtain c x where c: "compact_val s = c @ compact_val r" "c \<noteq> []" "\<not> is_ws (hd c)"
    "\<And>r'. stop r' \<Longrightarrow> f (c @ r') = Some (x, r')" by (auto simp: compacts_def)
  moreover have "skip_ws (c @ r') = c @ r'" for r' using c(2,3) by (cases c) auto
  ultimately show ?thesis using that by blast
qed

lemma compactsI:
  "compact_val s = c @ compact_val r \<Longrightarrow> c \<noteq> [] \<Longrightarrow> \<not> is_ws (hd c) \<Longrightarrow>
   (\<And>r'. stop r' \<Longrightarrow> f (c @ r') = Some (x, r')) \<Longrightarrow> compacts f stop s r"
  by (auto simp: compacts_def)

lemma compact_pelems:
  assumes IH: "\<And>s v r. pval n d s = Some (v, r) \<Longrightarrow> compacts (pval n d) num_stop s r"
    "\<And>s es r. pelems n d s = Some (es, r) \<Longrightarrow> compacts (pelems n d) (\<lambda>_. True) s r"
    and s: "pelems (Suc n) d s = Some (es, q)"
  shows "compacts (pelems (Suc n) d) (\<lambda>_. True) s q"
proof -
  from s obtain v r where v: "pval n d s = Some (v, r)" by (auto split: option.splits)
  with s obtain c t where c: "skip_ws r = c # t" by (cases "skip_ws r") auto
  from IH(1) [OF v] obtain cv x where cv: "compact_val s = cv @ compact_val r" "\<And>r'. skip_ws (cv @ r') = cv @ r'"
    "cv \<noteq> []" "\<And>r'. num_stop r' \<Longrightarrow> pval n d (cv @ r') = Some (x, r')" by (rule compactsE) blast
  have hd: "\<not> is_ws (hd cv)" using cv(2) [of "[]"] cv(3) by (cases cv) (auto simp: skip_ws_def dropWhile_eq_Cons_conv)
  show ?thesis
  proof (cases "c = CHR '',''")
    case True
    with s v c obtain es' where es: "pelems n d (skip_ws t) = Some (es', q)" by auto
    from IH(2) [OF es] obtain ce y where ce: "compact_val t = ce @ compact_val q" "\<And>r'. skip_ws (ce @ r') = ce @ r'"
      "\<And>r'. pelems n d (ce @ r') = Some (y, r')" by (rule compactsE) auto
    show ?thesis
    proof (rule compactsI [where c = "cv @ CHR '','' # ce"])
      show "compact_val s = (cv @ CHR '','' # ce) @ compact_val q"
        using True c ce(1) by (simp add: cv(1) compact_skip)
      fix r' show "pelems (Suc n) d ((cv @ CHR '','' # ce) @ r') = Some ((cv, x) # y, r')"
        using cv(4) [of "CHR '','' # ce @ r'"] by (simp add: is_ws_def ce)
    qed (use cv hd in auto)
  next
    case False
    with s v c have cl: "c = CHR '']''" "q = t" by (auto split: if_splits)
    show ?thesis
    proof (rule compactsI [where c = "cv @ CHR '']'' # []"])
      show "compact_val s = (cv @ CHR '']'' # []) @ compact_val q"
        using cl c by (simp add: cv(1) compact_skip)
      fix r' show "pelems (Suc n) d ((cv @ CHR '']'' # []) @ r') = Some ([(cv, x)], r')"
        using cv(4) [of "CHR '']'' # r'"] by (simp add: is_ws_def)
    qed (use cv hd in auto)
  qed
qed

lemma compact_pmembs:
  assumes IH: "\<And>s v r. pval n d s = Some (v, r) \<Longrightarrow> compacts (pval n d) num_stop s r"
    "\<And>s es r. pmembs n d s = Some (es, r) \<Longrightarrow> compacts (pmembs n d) (\<lambda>_. True) s r"
    and s: "pmembs (Suc n) d s = Some (ms, q)"
  shows "compacts (pmembs (Suc n) d) (\<lambda>_. True) s q"
proof -
  from s obtain s1 k s2 s3 v r where s1: "s = CHR 0x22 # s1" "scan_string s1 = Some (k, s2)"
    and s3: "skip_ws s2 = CHR '':'' # s3" and v: "pval n d (skip_ws s3) = Some (v, r)"
    by (auto split: list.splits option.splits if_splits)
  with s obtain c t where c: "skip_ws r = c # t" by (cases "skip_ws r") auto
  from IH(1) [OF v] obtain cv x where cv: "compact_val s3 = cv @ compact_val r" "\<And>r'. skip_ws (cv @ r') = cv @ r'"
    "\<And>r'. num_stop r' \<Longrightarrow> pval n d (cv @ r') = Some (x, r')" by (rule compactsE) auto
  from compact_scan_string [OF s1(2)] obtain ck where ck: "compact_str s1 = ck @ CHR 0x22 # compact_val s2"
    "\<And>r'. scan_string (ck @ CHR 0x22 # r') = Some (ck, r')" by blast
  let ?p = "CHR 0x22 # ck @ CHR 0x22 # CHR '':'' # cv"
  have p: "compact_val s = ?p @ compact_val r"
    using s1(1) ck(1) s3 by (simp add: is_ws_def compact_skip cv(1))
  show ?thesis
  proof (cases "c = CHR '',''")
    case True
    with s s1 s3 v c obtain es' where es: "pmembs n d (skip_ws t) = Some (es', q)" by auto
    from IH(2) [OF es] obtain ce y where ce: "compact_val t = ce @ compact_val q" "\<And>r'. skip_ws (ce @ r') = ce @ r'"
      "\<And>r'. pmembs n d (ce @ r') = Some (y, r')" by (rule compactsE) auto
    show ?thesis
    proof (rule compactsI [where c = "?p @ CHR '','' # ce"])
      show "compact_val s = (?p @ CHR '','' # ce) @ compact_val q"
        using True c ce(1) by (simp add: p compact_skip)
      fix r' show "pmembs (Suc n) d ((?p @ CHR '','' # ce) @ r') = Some ((unquote ck, cv, x) # y, r')"
        using cv(3) [of "CHR '','' # ce @ r'"] ck(2) by (simp add: is_ws_def ce cv)
    qed (auto simp: is_ws_def)
  next
    case False
    with s s1 s3 v c have cl: "c = CHR ''}''" "q = t" by (auto split: if_splits)
    show ?thesis
    proof (rule compactsI [where c = "?p @ CHR ''}'' # []"])
      show "compact_val s = (?p @ CHR ''}'' # []) @ compact_val q"
        using cl c by (simp add: p compact_skip)
      fix r' show "pmembs (Suc n) d ((?p @ CHR ''}'' # []) @ r') = Some ([(unquote ck, cv, x)], r')"
        using cv(3) [of "CHR ''}'' # r'"] ck(2) by (simp add: is_ws_def cv)
    qed (auto simp: is_ws_def)
  qed
qed

lemma compact_bracket:
  assumes c: "skip_ws r = x # t" and op: "\<not> is_ws open" "open \<noteq> CHR 0x22" and cl: "\<not> is_ws close" "close \<noteq> CHR 0x22"
    and res: "(if x = close then Some (J [], t) else map_option (\<lambda>(es, u). (J es, u)) (g (x # t))) = Some (v, q)"
    and tail: "\<And>es. x \<noteq> close \<Longrightarrow> g (x # t) = Some (es, q) \<Longrightarrow> compacts g (\<lambda>_. True) (x # t) q"
    and not_close: "\<And>y u. g (close # y) = Some u \<Longrightarrow> False"
    and f: "\<And>y. f (open # y) = (case skip_ws y of [] \<Rightarrow> None | x # t \<Rightarrow>
        if x = close then Some (J [], t) else map_option (\<lambda>(es, u). (J es, u)) (g (x # t)))"
  shows "compacts f num_stop (open # r) q"
proof (cases "x = close")
  case True
  show ?thesis
  proof (rule compactsI [where c = "[open, close]"])
    show "compact_val (open # r) = [open, close] @ compact_val q"
      using True c op cl res by (simp add: compact_skip)
    fix r' show "f ([open, close] @ r') = Some (J [], r')" using cl by (simp add: f)
  qed (use op in auto)
next
  case False
  with res obtain es where es: "g (x # t) = Some (es, q)" by auto
  from tail [OF False es] obtain ce y where ce: "compact_val (x # t) = ce @ compact_val q"
    "\<And>r'. skip_ws (ce @ r') = ce @ r'" "ce \<noteq> []" "\<And>r'. g (ce @ r') = Some (y, r')" by (rule compactsE) blast
  obtain h u where h: "ce = h # u" using ce(3) by (cases ce) auto
  have "h \<noteq> close" using ce(4) [of "[]"] not_close [of u] by (auto simp: h)
  show ?thesis
  proof (rule compactsI [where c = "open # ce"])
    show "compact_val (open # r) = (open # ce) @ compact_val q"
      using op ce(1) compact_skip_ws [of r] by (simp add: c del: compact_skip_ws)
    fix r' show "f ((open # ce) @ r') = Some (J y, r')"
      using \<open>h \<noteq> close\<close> ce(2) [of r'] ce(4) [of r'] by (simp add: f h)
  qed (use op in auto)
qed

lemma pelems_not_close: "pelems n d (CHR '']'' # y) = Some u \<Longrightarrow> False"
  by (cases n; cases "n - 1") (auto simp: scan_number_def scan_sign_def scan_int_def is_digit_def split: option.splits)

lemma pmembs_not_close: "pmembs n d (CHR ''}'' # y) = Some u \<Longrightarrow> False"
  by (cases n) auto

lemma compact_lit:
  assumes "scan_lit l v s = Some (x, r)" "list_all (\<lambda>x. \<not> is_ws x \<and> x \<noteq> CHR 0x22) l" "l \<noteq> []"
    and "\<And>r'. f (l @ r') = scan_lit l v (l @ r')"
  shows "compacts f num_stop s r"
proof (rule compactsI [where c = l])
  note l = scan_lit_local [OF assms(1)]
  show "compact_val s = l @ compact_val r" using l assms(2) by (simp add: compact_bare)
  show "\<not> is_ws (hd l)" using assms(2,3) by (cases l) auto
  show "f (l @ r') = Some (x, r')" for r' using l assms(4) by simp
qed (rule assms)

lemma compact_pval:
  assumes e: "\<And>d s es r. pelems n d s = Some (es, r) \<Longrightarrow> compacts (pelems n d) (\<lambda>_. True) s r"
    and m: "\<And>d s ms r. pmembs n d s = Some (ms, r) \<Longrightarrow> compacts (pmembs n d) (\<lambda>_. True) s r"
    and v: "pval (Suc n) d s = Some (v, q)"
  shows "compacts (pval (Suc n) d) num_stop s q"
  using v
proof (cases rule: pval_cases)
  case (object r x t)
  from object(3) show ?thesis unfolding object(1)
    by (rule compact_bracket [where close = "CHR ''}''" and J = JObj and g = "pmembs n (d - 1)" and v = v])
       (use object m in \<open>auto simp: is_ws_def dest: pmembs_not_close split: if_splits\<close>)
next
  case (array r x t)
  from array(3) show ?thesis unfolding array(1)
    by (rule compact_bracket [where close = "CHR '']''" and J = JArr and g = "pelems n (d - 1)" and v = v])
       (use array e in \<open>auto simp: is_ws_def dest: pelems_not_close split: if_splits\<close>)
next
  case (str r u)
  from compact_scan_string [OF str(2)] obtain cu where cu: "compact_str r = cu @ CHR 0x22 # compact_val q"
    "\<And>r'. scan_string (cu @ CHR 0x22 # r') = Some (cu, r')" by blast
  show ?thesis
    by (rule compactsI [where c = "CHR 0x22 # cu @ [CHR 0x22]" and x = "JStr (unquote cu)"]) (auto simp: str(1) cu is_ws_def)
next
  case (lit l w)
  show ?thesis
    by (rule compact_lit [where l = l and v = w and x = v]) (use lit in \<open>auto simp: is_ws_def simp del: pval.simps\<close>)
next
  case (num c r u)
  note l = scan_number_local [OF num(2)] and bare = scan_number_bare [OF num(2)]
  obtain u' where u': "u = c # u'" using l num(1) by (cases u) auto
  show ?thesis
  proof (rule compactsI [where c = u])
    show "compact_val s = u @ compact_val q" using l bare by (simp add: compact_bare)
    show "u \<noteq> []" "\<not> is_ws (hd u)" using bare u' by auto
    show "pval (Suc n) d (u @ r') = Some (JNum u, r')" if "num_stop r'" for r'
      using l that num(4) by (auto simp: u' simp del: pval.simps)
  qed
qed

lemma parser_compacts:
  "pval n d s = Some (v, r) \<Longrightarrow> compacts (pval n d) num_stop s r"
  "pelems n d s = Some (es, r) \<Longrightarrow> compacts (pelems n d) (\<lambda>_. True) s r"
  "pmembs n d s = Some (ms, r) \<Longrightarrow> compacts (pmembs n d) (\<lambda>_. True) s r"
proof (induction n arbitrary: d s v es ms r)
  case (Suc n)
  {
    case 1
    from Suc(2,3) 1 show ?case by (rule compact_pval)
  next
    case 2
    from Suc(1,2) 2 show ?case by (rule compact_pelems)
  next
    case 3
    from Suc(1,3) 3 show ?case by (rule compact_pmembs)
  }
qed simp_all

lemma prints_compact: "prints d b v \<Longrightarrow> \<exists>v'. prints d (compact_val b) v'"
proof -
  assume "prints d b v"
  then obtain n where "pval n d b = Some (v, [])" by (auto simp: prints_def)
  from parser_compacts(1) [OF this] show ?thesis
    by (rule compactsE) (metis append_Nil2 compact_val.simps(1) num_stop_simps(1) prints_def)
qed

text \<open>A valid raw message is marshalled to valid JSON.\<close>

lemma ms_raw_valid:
  assumes "ms_raw r = Some b" shows "\<exists>v. prints max_nesting b v"
proof (cases r)
  case None
  with assms show ?thesis by (auto simp: ms_raw_def intro: prints_null)
next
  case (Some x)
  with assms obtain v q where v: "pval (fuel_for (skip_ws x)) max_nesting (skip_ws x) = Some (v, q)" "skip_ws q = []"
    and b: "b = compact_val x"
    by (auto simp: ms_raw_def json_valid_def json_parse_def json_next_def Let_def split: if_splits option.splits)
  have "compact_val q = []" using compact_skip_ws [of q] v(2) by simp
  with parser_compacts(1) [OF v(1)] b obtain y where "pval (fuel_for (skip_ws x)) max_nesting (b @ []) = Some (y, [])"
    by (metis append_Nil2 compact_skip_ws compactsE num_stop_simps(1))
  then show ?thesis unfolding prints_def by auto
qed

end
