(* ===== verification/Jsonrpc_Props.thy ===== *)
theory Jsonrpc_Props
  imports Jsonrpc_Facts Go_Compact
begin

text \<open>
  Correctness of the JSON-RPC codec: round trips of requests, responses and errors through
  \<open>json.Marshal\<close> and \<open>DecodeMessage\<close>, the limits enforced on every decoded message,
  single or in a batch, and the two gaps of those limits.
\<close>

section \<open>Decoding printed objects\<close>

lemma DecodeMessage_members:
  assumes ms: "\<forall>(k, b, v) \<in> set ms. ascii k \<and> prints 9999 b v"
    and un: "un_members fields_Message ms zero_Message = Some m"
    and ok: "msg_JSONRPC m = ''2.0''" "message_within_depth (maxDepth (first_opt opts)) m"
    and size: "int (length (''{'' @ commas (map member_text ms) @ ''}'')) \<le> maxSize (first_opt opts)"
  shows "DecodeMessage (''{'' @ commas (map member_text ms) @ ''}'') opts = Inr m"
proof -
  let ?t = "''{'' @ commas (map member_text ms) @ ''}''"
  have "prints 10000 ?t (JObj ms)" using prints_object [OF ms] by simp
  from json_next_prints [OF this, of "[]"] have "json_next ?t = Some (?t, JObj ms, [])"
    by (simp add: max_nesting_def)
  with un ok size show ?thesis
    by (simp add: DecodeMessage_def Let_def un_Message_def un_struct_def checkMessageDepth_iff [THEN iffD2] requireEOF_def)
qed

lemma compact_quote_only: "ascii s \<Longrightarrow> compact_val (quote_string s) = quote_string s"
  using compact_quote [of s "[]"] by simp

lemma json_valid_quote: "json_valid (quote_string s)"
  using prints_string [of 0 s] by (simp add: prints_valid)

lemma ascii_tags [simp]:
  "ascii ''jsonrpc''" "ascii ''id''" "ascii ''method''" "ascii ''params''" "ascii ''result''" "ascii ''error''"
  "ascii ''code''" "ascii ''message''" "ascii ''data''" "ascii ''2.0''"
  by (simp_all add: ascii_def)

lemma within_depth_None [simp]: "within_depth mx None"
  by (simp add: within_depth_def)

section \<open>Round trips\<close>

definition sent_request :: "bytes \<Rightarrow> bytes \<Rightarrow> bytes \<Rightarrow> Message" where
  "sent_request rid method p =
     \<lparr>msg_JSONRPC = ''2.0'', msg_ID = (if rid = [] then None else Some (quote_string rid)),
      msg_Method = method, msg_Params = Some (compact_val p), msg_Result = None, msg_Error = None\<rparr>"

lemma request_read_back:
  assumes "ascii rid" "ascii method" "prints 9999 p v"
    and "within_depth (maxDepth (first_opt opts)) (Some (compact_val p))"
    and "NewRequest rid method (Some p) = Inr r"
  shows "\<exists>t. ms_Request r = Some t
    \<and> (int (length t) \<le> maxSize (first_opt opts) \<longrightarrow> DecodeMessage t opts = Inr (sent_request rid method p))"
proof -
  from prints_compact [OF assms(3)] obtain v' where v': "prints 9999 (compact_val p) v'" by blast
  have valid: "json_valid p" using prints_valid [OF assms(3)] by (simp add: max_nesting_def)
  let ?ms = "(''jsonrpc'', quote_string ''2.0'', JStr ''2.0'')
    # (if rid = [] then [] else [(''id'', quote_string rid, JStr rid)])
    @ [(''method'', quote_string method, JStr method), (''params'', compact_val p, v')]"
  let ?t = "''{'' @ commas (map member_text ?ms) @ ''}''"
  have "ms_Request r = ms_obj (map (\<lambda>(k, b, v). (k, Some b)) ?ms)"
    using assms(1,5) valid
    by (auto simp: NewRequest_def ms_Request_def always_def unless_def raw_empty_def ms_string_def ms_raw_def
        json_valid_quote compact_quote_only)
  then have t: "ms_Request r = Some ?t" by (simp only: ms_obj_members)
  have "DecodeMessage ?t opts = Inr (sent_request rid method p)" if "int (length ?t) \<le> maxSize (first_opt opts)"
    using _ _ _ _ that
  proof (rule DecodeMessage_members)
    show "\<forall>(k, b, v) \<in> set ?ms. ascii k \<and> prints 9999 b v"
      using assms(1,2) v' by (auto intro: prints_ascii)
    show "un_members fields_Message ?ms zero_Message = Some (sent_request rid method p)"
      by (auto simp: fields_Message_def field_def find_field_def un_string_def un_raw_def zero_Message_def sent_request_def)
  qed (use assms(4) in \<open>simp_all add: sent_request_def message_within_depth_def\<close>)
  with t show ?thesis by blast
qed

text \<open>The answer to a request whose ID is \<open>rid\<close>; a nil ID is written as \<open>null\<close>.\<close>

definition embed :: "raw \<Rightarrow> bytes" where
  "embed r = (case r of None \<Rightarrow> ''null'' | Some b \<Rightarrow> compact_val b)"

definition raw_prints :: "nat \<Rightarrow> raw \<Rightarrow> bool" where
  "raw_prints d r \<longleftrightarrow> (case r of None \<Rightarrow> True | Some b \<Rightarrow> \<exists>v. prints d b v)"

lemma raw_prints_embed: "raw_prints d r \<Longrightarrow> \<exists>v. prints d (embed r) v"
  by (auto simp: raw_prints_def embed_def split: option.splits intro: prints_null dest: prints_compact)

lemma raw_prints_ms: "raw_prints d r \<Longrightarrow> d \<le> max_nesting \<Longrightarrow> ms_raw r = Some (embed r)"
  by (auto simp: raw_prints_def embed_def ms_raw_def split: option.splits dest: prints_valid)

definition sent_response :: "raw \<Rightarrow> bytes \<Rightarrow> Message" where
  "sent_response rid p =
     \<lparr>msg_JSONRPC = ''2.0'', msg_ID = Some (embed rid), msg_Method = [], msg_Params = None,
      msg_Result = Some (compact_val p), msg_Error = None\<rparr>"

lemma response_read_back:
  assumes "raw_prints 9999 rid" "prints 9999 p v"
    and "within_depth (maxDepth (first_opt opts)) (Some (compact_val p))"
    and "NewResponse rid (Some p) = Inr r"
  shows "\<exists>t. ms_Response r = Some t
    \<and> (int (length t) \<le> maxSize (first_opt opts) \<longrightarrow> DecodeMessage t opts = Inr (sent_response rid p))"
proof -
  from prints_compact [OF assms(2)] obtain v' where v': "prints 9999 (compact_val p) v'" by blast
  from raw_prints_embed [OF assms(1)] obtain w where w: "prints 9999 (embed rid) w" by blast
  have valid: "json_valid p" "p \<noteq> []" using prints_valid [OF assms(2)] prints_not_ws [OF assms(2)] by (auto simp: max_nesting_def)
  have rid: "ms_raw rid = Some (embed rid)" using raw_prints_ms [OF assms(1)] by (simp add: max_nesting_def)
  let ?ms = "[(''jsonrpc'', quote_string ''2.0'', JStr ''2.0''), (''id'', embed rid, w), (''result'', compact_val p, v')]"
  let ?t = "''{'' @ commas (map member_text ?ms) @ ''}''"
  have "ms_Response r = ms_obj (map (\<lambda>(k, b, v). (k, Some b)) ?ms)"
    using assms(4) valid rid
    by (auto simp: NewResponse_def ms_Response_def always_def unless_def raw_empty_def ms_string_def ms_raw_def [of "Some p"])
  then have t: "ms_Response r = Some ?t" by (simp only: ms_obj_members)
  have "DecodeMessage ?t opts = Inr (sent_response rid p)" if "int (length ?t) \<le> maxSize (first_opt opts)"
    using _ _ _ _ that
  proof (rule DecodeMessage_members)
    show "\<forall>(k, b, v) \<in> set ?ms. ascii k \<and> prints 9999 b v" using v' w by (auto intro: prints_ascii)
    show "un_members fields_Message ?ms zero_Message = Some (sent_response rid p)"
      by (auto simp: fields_Message_def field_def find_field_def un_string_def un_raw_def zero_Message_def sent_response_def)
  qed (use assms(3) in \<open>simp_all add: sent_response_def message_within_depth_def\<close>)
  with t show ?thesis by blast
qed

subsection \<open>Errors\<close>

definition sendable_error :: "RPCError \<Rightarrow> bool" where
  "sendable_error e \<longleftrightarrow> - (2 ^ 63) \<le> err_Code e \<and> err_Code e < 2 ^ 63 \<and> ascii (err_Message e)
     \<and> raw_prints 9998 (err_Data e)"

definition embed_error :: "RPCError \<Rightarrow> RPCError" where
  "embed_error e = e\<lparr>err_Data := map_option compact_val (err_Data e)\<rparr>"

lemma error_printed:
  assumes "sendable_error e"
  shows "\<exists>b v. ms_RPCError e = Some b \<and> prints 9999 b v \<and> v \<noteq> JNull \<and> un_RPCError b v zero_RPCError = Some (embed_error e)"
proof -
  obtain c m d where e: "e = \<lparr>err_Code = c, err_Message = m, err_Data = d\<rparr>" by (cases e) auto
  from assms have c: "lit_int (show_int c) = Some c" and m: "ascii m" and d: "raw_prints 9998 d"
    by (auto simp: sendable_error_def e intro!: lit_int_show)
  from raw_prints_embed [OF d] obtain w where w: "prints 9998 (embed d) w" by blast
  have dm: "ms_raw d = Some (embed d)" using raw_prints_ms [OF d] by (simp add: max_nesting_def)
  have ne: "d \<noteq> Some []" using d by (auto simp: raw_prints_def dest!: prints_not_ws)
  let ?ms = "[(''code'', show_int c, JNum (show_int c)), (''message'', quote_string m, JStr m)]
    @ (if d = None then [] else [(''data'', embed d, w)])"
  let ?t = "''{'' @ commas (map member_text ?ms) @ ''}''"
  have "ms_RPCError e = ms_obj (map (\<lambda>(k, b, v). (k, Some b)) ?ms)"
    using dm ne by (auto simp: e ms_RPCError_def always_def unless_def raw_empty_def ms_string_def ms_int_def)
  then have "ms_RPCError e = Some ?t" by (simp only: ms_obj_members)
  moreover have "\<forall>(k, b, v) \<in> set ?ms. ascii k \<and> prints 9998 b v"
    using m w by (auto intro: prints_ascii prints_int)
  from prints_object [OF this] have "prints 9999 ?t (JObj ?ms)" by simp
  moreover have "un_RPCError ?t (JObj ?ms) zero_RPCError = Some (embed_error e)"
    by (auto simp: un_RPCError_def un_struct_def fields_RPCError_def field_def find_field_def un_string_def
        un_int_def un_raw_def zero_RPCError_def embed_error_def embed_def e c)
  ultimately show ?thesis by blast
qed

definition sent_error :: "raw \<Rightarrow> RPCError \<Rightarrow> Message" where
  "sent_error rid e =
     \<lparr>msg_JSONRPC = ''2.0'', msg_ID = Some (embed rid), msg_Method = [], msg_Params = None,
      msg_Result = None, msg_Error = Some (embed_error e)\<rparr>"

lemma error_read_back:
  assumes "raw_prints 9999 rid" "sendable_error e"
    and "within_depth (maxDepth (first_opt opts)) (map_option compact_val (err_Data e))"
  shows "\<exists>t. ms_Response (NewErrorResponse rid (Some e)) = Some t
    \<and> (int (length t) \<le> maxSize (first_opt opts) \<longrightarrow> DecodeMessage t opts = Inr (sent_error rid e))"
proof -
  from error_printed [OF assms(2)] obtain b v where b: "ms_RPCError e = Some b" "prints 9999 b v" "v \<noteq> JNull"
    "un_RPCError b v zero_RPCError = Some (embed_error e)" by blast
  from raw_prints_embed [OF assms(1)] obtain w where w: "prints 9999 (embed rid) w" by blast
  have rid: "ms_raw rid = Some (embed rid)" using raw_prints_ms [OF assms(1)] by (simp add: max_nesting_def)
  let ?ms = "[(''jsonrpc'', quote_string ''2.0'', JStr ''2.0''), (''id'', embed rid, w), (''error'', b, v)]"
  let ?t = "''{'' @ commas (map member_text ?ms) @ ''}''"
  have "ms_Response (NewErrorResponse rid (Some e)) = ms_obj (map (\<lambda>(k, b, v). (k, Some b)) ?ms)"
    using b rid
    by (auto simp: NewErrorResponse_def ms_Response_def always_def unless_def raw_empty_def ms_string_def ms_ptr_def)
  then have t: "ms_Response (NewErrorResponse rid (Some e)) = Some ?t" by (simp only: ms_obj_members)
  have "DecodeMessage ?t opts = Inr (sent_error rid e)" if "int (length ?t) \<le> maxSize (first_opt opts)"
    using _ _ _ _ that
  proof (rule DecodeMessage_members)
    show "\<forall>(k, b, v) \<in> set ?ms. ascii k \<and> prints 9999 b v" using b w by (auto intro: prints_ascii)
    show "un_members fields_Message ?ms zero_Message = Some (sent_error rid e)"
      using b by (auto simp: fields_Message_def field_def find_field_def un_string_def un_raw_def un_ptr_def
          zero_Message_def sent_error_def)
  qed (use assms(3) in \<open>simp_all add: sent_error_def message_within_depth_def embed_error_def\<close>)
  with t show ?thesis by blast
qed

section \<open>Limits\<close>

lemma DecodeMessage_exact:
  "DecodeMessage data opts = Inr m \<longleftrightarrow>
     int (length data) \<le> maxSize (first_opt opts)
     \<and> (\<exists>b v. json_parse data = Some (b, v) \<and> un_Message b v zero_Message = Some m)
     \<and> msg_JSONRPC m = ''2.0'' \<and> message_within_depth (maxDepth (first_opt opts)) m"
  by (auto simp: DecodeMessage_def Let_def json_parse_def requireEOF_def
      simp flip: checkMessageDepth_iff split: if_splits option.splits)

lemma DecodeMessage_raws:
  assumes "DecodeMessage data opts = Inr m" shows "message_raws_ok m"
  using assms zero_Message_ok unfolding DecodeMessage_exact
  by (auto dest: json_parse_raw intro: un_Message_raws_ok)

lemma answer_marshals:
  assumes "DecodeMessage data opts = Inr m"
  shows "json_valid p \<Longrightarrow> \<exists>r t. NewResponse (msg_ID m) (Some p) = Inr r \<and> ms_Response r = Some t"
    and "raw_ok (err_Data e) \<Longrightarrow> \<exists>t. ms_Response (NewErrorResponse (msg_ID m) (Some e)) = Some t"
proof -
  have raw: "\<exists>b. ms_raw r = Some b" if "raw_ok r" for r
    using that by (auto simp: ms_raw_def raw_ok_def split: option.splits)
  have rid: "raw_ok (msg_ID m)" using DecodeMessage_raws [OF assms] by (simp add: message_raws_ok_def)
  obtain i where i: "ms_raw (msg_ID m) = Some i" using raw [OF rid] by blast
  { assume "json_valid p"
    then have "raw_ok (Some p)" by (simp add: raw_ok_def)
    from raw [OF this] i show "\<exists>r t. NewResponse (msg_ID m) (Some p) = Inr r \<and> ms_Response r = Some t"
      by (auto simp: NewResponse_def ms_Response_def ms_obj_def ms_member_def always_def unless_def ms_string_def) }
  assume "raw_ok (err_Data e)"
  from raw [OF this] i show "\<exists>t. ms_Response (NewErrorResponse (msg_ID m) (Some e)) = Some t"
    by (auto simp: NewErrorResponse_def ms_Response_def ms_RPCError_def ms_obj_def ms_member_def always_def unless_def
        ms_string_def ms_int_def ms_ptr_def raw_empty_def [of None])
qed

subsection \<open>Batches\<close>

definition message_ok :: "int \<Rightarrow> Message \<Rightarrow> bool" where
  "message_ok mx m \<longleftrightarrow> msg_JSONRPC m = ''2.0'' \<and> message_within_depth mx m"

lemma message_ok_iff: "message_ok mx m \<longleftrightarrow> msg_JSONRPC m = ''2.0'' \<and> checkMessageDepth m mx = None"
  by (simp add: message_ok_def checkMessageDepth_iff)

lemma check_batch_Cons:
  "check_batch mx (Some m # ms) = Ok () \<longleftrightarrow> message_ok mx m \<and> check_batch mx ms = Ok ()"
  "check_batch mx (Some m # ms) = Panic \<longleftrightarrow> message_ok mx m \<and> check_batch mx ms = Panic"
  by (auto simp: message_ok_iff split: option.splits)

lemma check_batch_Ok: "check_batch mx ms = Ok () \<longleftrightarrow> (\<exists>xs. ms = map Some xs \<and> list_all (message_ok mx) xs)"
proof (induction mx ms rule: check_batch.induct)
  case (3 mx msg ms)
  have "(\<exists>xs. Some msg # ms = map Some xs \<and> list_all (message_ok mx) xs)
    \<longleftrightarrow> message_ok mx msg \<and> (\<exists>xs. ms = map Some xs \<and> list_all (message_ok mx) xs)"
    by (auto simp: Cons_eq_map_conv)
  with 3 message_ok_iff [of mx msg] show ?case unfolding check_batch_Cons(1)
    by (cases "message_ok mx msg") (simp_all only: simp_thms)
qed auto

lemma check_batch_Panic:
  "check_batch mx ms = Panic \<longleftrightarrow> (\<exists>pre post. ms = map Some pre @ None # post \<and> list_all (message_ok mx) pre)"
proof (induction mx ms rule: check_batch.induct)
  case (2 mx ms)
  then show ?case by (auto intro: exI [of _ "[]"])
next
  case (3 mx msg ms)
  have "(\<exists>pre post. Some msg # ms = map Some pre @ None # post \<and> list_all (message_ok mx) pre)
    \<longleftrightarrow> message_ok mx msg \<and> (\<exists>pre post. ms = map Some pre @ None # post \<and> list_all (message_ok mx) pre)"
    by (auto simp: Cons_eq_append_conv Cons_eq_map_conv) (metis list.simps(9) append_Cons list.pred_inject(2))+
  with 3 message_ok_iff [of mx msg] show ?case unfolding check_batch_Cons(2)
    by (cases "message_ok mx msg") (simp_all only: simp_thms)
qed auto

lemma DecodeBatch_exact:
  "DecodeBatch data opts = Ok (Some out) \<longleftrightarrow>
     int (length data) \<le> maxSize (first_opt opts) \<and> (\<exists>t. trimSpace data = CHR ''['' # t)
     \<and> (\<exists>b v. json_parse (trimSpace data) = Some (b, v)
          \<and> un_slice None (un_ptr zero_Message un_Message) b v None = Some (Some out))
     \<and> (\<exists>ms. out = map Some ms \<and> list_all (message_ok (maxDepth (first_opt opts))) ms)"
proof -
  have hd: "(\<exists>t. trimSpace data = CHR ''['' # t) \<longleftrightarrow> trimSpace data \<noteq> [] \<and> hd (trimSpace data) = CHR ''[''"
    by (cases "trimSpace data") auto
  show ?thesis
    unfolding hd check_batch_Ok [symmetric]
    by (auto simp: DecodeBatch_def Let_def json_parse_def requireEOF_def
        split: if_splits option.splits go_result.splits)
qed

lemma DecodeBatch_panics:
  "DecodeBatch data opts = Panic \<longleftrightarrow>
     int (length data) \<le> maxSize (first_opt opts) \<and> (\<exists>t. trimSpace data = CHR ''['' # t)
     \<and> (\<exists>b v rest out. json_next (trimSpace data) = Some (b, v, rest)
          \<and> un_slice None (un_ptr zero_Message un_Message) b v None = Some (Some out)
          \<and> (\<exists>pre post. out = map Some pre @ None # post \<and> list_all (message_ok (maxDepth (first_opt opts))) pre))"
proof -
  have hd: "(\<exists>t. trimSpace data = CHR ''['' # t) \<longleftrightarrow> trimSpace data \<noteq> [] \<and> hd (trimSpace data) = CHR ''[''"
    by (cases "trimSpace data") auto
  show ?thesis
    unfolding hd check_batch_Panic [symmetric]
    by (auto simp: DecodeBatch_def Let_def requireEOF_def
        split: if_splits option.splits go_result.splits)
qed

lemma batch_null_example: "DecodeBatch ''[null]'' [] = Panic"
  by code_simp

subsection \<open>A gap of the depth limit\<close>

text \<open>
  A number beyond the range of \<open>float64\<close> makes the decoding into an interface fail, and bytes
  that do not decode are not measured.
\<close>

lemma within_depth_overflow:
  assumes "json_parse p = Some (b, v)" "to_any v = None" shows "within_depth mx (Some p)"
  using assms by (simp add: within_depth_code unmarshal_def un_any_def)

definition deep_message :: "bytes \<Rightarrow> bytes" where
  "deep_message p =
     ''{'' @ quote_string ''jsonrpc'' @ '':'' @ quote_string ''2.0'' @ '','' @ quote_string ''params'' @ '':'' @ p @ ''}''"

lemma overflow_literal: "lit_overflows ''1e309''"
  by (simp add: lit_overflows_def float_limit_def scan_sign_def is_digit_def digit_val_def)

lemma deep_params_parse:
  "json_parse ''[[[[]]],1e309]'' = Some (''[[[[]]],1e309]'',
     JArr [(''[[[]]]'', JArr [(''[[]]'', JArr [(''[]'', JArr [])])]), (''1e309'', JNum ''1e309'')])"
  by code_simp

lemma deep_message_parse:
  "json_parse (deep_message ''[[[[]]],1e309]'') = Some (deep_message ''[[[[]]],1e309]'',
     JObj [(''jsonrpc'', quote_string ''2.0'', JStr ''2.0''), (''params'', ''[[[[]]],1e309]'',
       JArr [(''[[[]]]'', JArr [(''[[]]'', JArr [(''[]'', JArr [])])]), (''1e309'', JNum ''1e309'')])])"
  by code_simp

lemma depth_gap_parts:
  "DecodeMessage (deep_message ''[[[[]]]]'') [Some \<lparr>MaxSize = 0, MaxDepth = 2\<rparr>] = Inl (EDepth 2)"
  "DecodeMessage (deep_message ''[[[[]]],1e309]'') [Some \<lparr>MaxSize = 0, MaxDepth = 2\<rparr>]
     = Inr (zero_Message\<lparr>msg_JSONRPC := ''2.0'', msg_Params := Some ''[[[[]]],1e309]''\<rparr>)"
proof -
  show "DecodeMessage (deep_message ''[[[[]]]]'') [Some \<lparr>MaxSize = 0, MaxDepth = 2\<rparr>] = Inl (EDepth 2)"
    by code_simp
  have "within_depth 2 (Some ''[[[[]]],1e309]'')"
    using deep_params_parse by (rule within_depth_overflow) (simp add: overflow_literal)
  moreover have "length (deep_message ''[[[[]]],1e309]'') = 41" by code_simp
  ultimately show "DecodeMessage (deep_message ''[[[[]]],1e309]'') [Some \<lparr>MaxSize = 0, MaxDepth = 2\<rparr>]
     = Inr (zero_Message\<lparr>msg_JSONRPC := ''2.0'', msg_Params := Some ''[[[[]]],1e309]''\<rparr>)"
    unfolding DecodeMessage_exact
    by (simp add: deep_message_parse un_Message_def un_struct_def fields_Message_def field_def find_field_def
        un_string_def un_raw_def zero_Message_def message_within_depth_def first_opt_def maxSize_def maxDepth_def)
qed

section \<open>Properties\<close>

text \<open>
  C9: what \<open>NewRequest\<close> builds and \<open>json.Marshal\<close> encodes is decoded to the same request:
  same version, ID, method and parameters (up to white space and HTML escapes), no result and
  no error, for every ASCII ID and method and every JSON value as parameters within the limits.
\<close>

theorem request_roundtrip:
  assumes "ascii rid" "ascii method" "prints 9999 p v"
    and "within_depth (maxDepth (first_opt opts)) (Some (compact_val p))"
    and "NewRequest rid method (Some p) = Inr r"
    and "\<And>t. ms_Request r = Some t \<Longrightarrow> int (length t) \<le> maxSize (first_opt opts)"
  shows "\<exists>t. ms_Request r = Some t \<and> DecodeMessage t opts = Inr
    \<lparr>msg_JSONRPC = ''2.0'', msg_ID = (if rid = [] then None else Some (quote_string rid)),
     msg_Method = method, msg_Params = Some (compact_val p), msg_Result = None, msg_Error = None\<rparr>"
  using request_read_back [OF assms(1-5)] assms(6) by (auto simp: sent_request_def)

lemma empty_object_depth: "within_depth 32 (Some (compact_val ''{}''))"
  by code_simp

theorem request_roundtrip_witness:
  "\<exists>t. ms_Request \<lparr>req_JSONRPC = ''2.0'', req_ID = Some (quote_string ''1''), req_Method = ''m'', req_Params = Some ''{}''\<rparr> = Some t
    \<and> DecodeMessage t [] = Inr \<lparr>msg_JSONRPC = ''2.0'', msg_ID = Some (quote_string ''1''), msg_Method = ''m'',
        msg_Params = Some (compact_val ''{}''), msg_Result = None, msg_Error = None\<rparr>"
proof -
  let ?r = "\<lparr>req_JSONRPC = ''2.0'', req_ID = Some (quote_string ''1''), req_Method = ''m'', req_Params = Some ''{}''\<rparr>"
  have "map_option (\<lambda>t. int (length t)) (ms_Request ?r) = Some 51" by code_simp
  then have size: "int (length t) \<le> maxSize (first_opt [])" if "ms_Request ?r = Some t" for t
    using that by (simp add: maxSize_def first_opt_def)
  have d: "prints 9999 ''{}'' (JObj [])" using prints_empty_object [of 9998] by simp
  show ?thesis
    using request_roundtrip [OF _ _ d, of "''1''" "''m''" "[]" ?r] size empty_object_depth
    by (simp add: ascii_def NewRequest_def ms_string_def maxDepth_def first_opt_def)
qed

text \<open>
  What \<open>NewResponse\<close> builds and \<open>json.Marshal\<close> encodes is decoded to a response with the
  same ID (\<open>null\<close> for a missing one) and the same result, and nothing else.
\<close>

theorem response_roundtrip:
  assumes "raw_prints 9999 rid" "prints 9999 p v"
    and "within_depth (maxDepth (first_opt opts)) (Some (compact_val p))"
    and "NewResponse rid (Some p) = Inr r"
    and "\<And>t. ms_Response r = Some t \<Longrightarrow> int (length t) \<le> maxSize (first_opt opts)"
  shows "\<exists>t. ms_Response r = Some t \<and> DecodeMessage t opts = Inr
    \<lparr>msg_JSONRPC = ''2.0'', msg_ID = Some (embed rid), msg_Method = [], msg_Params = None,
     msg_Result = Some (compact_val p), msg_Error = None\<rparr>"
  using response_read_back [OF assms(1-4)] assms(5) by (auto simp: sent_response_def)

theorem response_roundtrip_witness:
  "\<exists>t. ms_Response \<lparr>resp_JSONRPC = ''2.0'', resp_ID = None, resp_Result = Some ''{}'', resp_Error = None\<rparr> = Some t
    \<and> DecodeMessage t [] = Inr \<lparr>msg_JSONRPC = ''2.0'', msg_ID = Some ''null'', msg_Method = [], msg_Params = None,
        msg_Result = Some (compact_val ''{}''), msg_Error = None\<rparr>"
proof -
  let ?r = "\<lparr>resp_JSONRPC = ''2.0'', resp_ID = None, resp_Result = Some ''{}'', resp_Error = None\<rparr>"
  have "map_option (\<lambda>t. int (length t)) (ms_Response ?r) = Some 39" by code_simp
  then have size: "int (length t) \<le> maxSize (first_opt [])" if "ms_Response ?r = Some t" for t
    using that by (simp add: maxSize_def first_opt_def)
  have d: "prints 9999 ''{}'' (JObj [])" using prints_empty_object [of 9998] by simp
  show ?thesis
    using response_roundtrip [OF _ d, of None "[]" ?r] size empty_object_depth
    by (simp add: raw_prints_def NewResponse_def embed_def maxDepth_def first_opt_def)
qed

text \<open>
  An error response is decoded to the same error: code, message and data survive for
  every 64-bit code, ASCII message and JSON data within the limits.
\<close>

theorem error_roundtrip:
  assumes "raw_prints 9999 rid" "- (2 ^ 63) \<le> err_Code e" "err_Code e < 2 ^ 63" "ascii (err_Message e)"
    and "raw_prints 9998 (err_Data e)"
    and "within_depth (maxDepth (first_opt opts)) (map_option compact_val (err_Data e))"
    and "\<And>t. ms_Response (NewErrorResponse rid (Some e)) = Some t \<Longrightarrow> int (length t) \<le> maxSize (first_opt opts)"
  shows "\<exists>t. ms_Response (NewErrorResponse rid (Some e)) = Some t \<and> DecodeMessage t opts = Inr
    \<lparr>msg_JSONRPC = ''2.0'', msg_ID = Some (embed rid), msg_Method = [], msg_Params = None, msg_Result = None,
     msg_Error = Some (e\<lparr>err_Data := map_option compact_val (err_Data e)\<rparr>)\<rparr>"
proof -
  have "sendable_error e" using assms(2-5) by (simp add: sendable_error_def)
  from error_read_back [OF assms(1) this assms(6)] assms(7) show ?thesis
    by (auto simp: sent_error_def embed_error_def)
qed

theorem error_roundtrip_witness:
  "\<exists>t. ms_Response (NewErrorResponse None (Some \<lparr>err_Code = 5, err_Message = ''no'', err_Data = None\<rparr>)) = Some t
    \<and> DecodeMessage t [] = Inr \<lparr>msg_JSONRPC = ''2.0'', msg_ID = Some ''null'', msg_Method = [], msg_Params = None,
        msg_Result = None, msg_Error = Some \<lparr>err_Code = 5, err_Message = ''no'', err_Data = None\<rparr>\<rparr>"
proof -
  let ?e = "\<lparr>err_Code = 5, err_Message = ''no'', err_Data = None\<rparr>"
  have "map_option (\<lambda>t. int (length t)) (ms_Response (NewErrorResponse None (Some ?e))) = Some 61" by code_simp
  then have size: "int (length t) \<le> maxSize (first_opt [])" if "ms_Response (NewErrorResponse None (Some ?e)) = Some t" for t
    using that by (simp add: maxSize_def first_opt_def)
  show ?thesis
    using error_roundtrip [of None ?e "[]"] size
    by (simp add: raw_prints_def embed_def ascii_def)
qed

text \<open>
  C19: \<open>DecodeMessage\<close> accepts exactly the texts within the size limit that are one JSON value,
  with nothing but white space around it, that decodes to a message of version 2.0 in whose
  parameters, result and error data no value lies deeper than the depth limit. The levels are counted on
  the JSON text: a part itself has level 1 and what it holds one level more, scalars included. Two things are not
  counted: members that a later member of the same name replaces, and parts in which some number is
  beyond \<open>float64\<close>. The raw parts of an accepted message are valid JSON.
\<close>

theorem decode_exact:
  "DecodeMessage data opts = Inr m \<longleftrightarrow>
     int (length data) \<le> maxSize (first_opt opts)
     \<and> (\<exists>b v. json_parse data = Some (b, v) \<and> un_Message b v zero_Message = Some m)
     \<and> msg_JSONRPC m = ''2.0'' \<and> message_within_depth (maxDepth (first_opt opts)) m \<and> message_raws_ok m"
  using DecodeMessage_exact DecodeMessage_raws by blast

text \<open>
  \<open>DecodeBatch\<close> returns messages exactly for arrays within the size limit, and every
  element then is a message that passes the same checks of version and depth as a single one.
\<close>

theorem decode_batch_exact:
  "DecodeBatch data opts = Ok (Some out) \<longleftrightarrow>
     int (length data) \<le> maxSize (first_opt opts) \<and> (\<exists>t. trimSpace data = CHR ''['' # t)
     \<and> (\<exists>b v. json_parse (trimSpace data) = Some (b, v)
          \<and> un_slice None (un_ptr zero_Message un_Message) b v None = Some (Some out))
     \<and> (\<exists>ms. out = map Some ms \<and> list_all (\<lambda>m. msg_JSONRPC m = ''2.0'' \<and> message_within_depth (maxDepth (first_opt opts)) m) ms)"
  unfolding DecodeBatch_exact by (simp add: message_ok_def [abs_def])

text \<open>
  The loops of \<open>depth\<close> compute the nesting of a value: one more than the deepest child,
  and one for a scalar or an empty container.
\<close>

theorem depth_is_nesting: "depth v = nesting v"
  by (rule depth_nesting)

text \<open>
  The depth limit has a gap: a message refused for its depth is accepted once a number
  beyond the range of \<open>float64\<close> is added to its parameters, which are then not measured.
\<close>

theorem depth_gap:
  "DecodeMessage (deep_message ''[[[[]]]]'') [Some \<lparr>MaxSize = 0, MaxDepth = 2\<rparr>] = Inl (EDepth 2)
   \<and> DecodeMessage (deep_message ''[[[[]]],1e309]'') [Some \<lparr>MaxSize = 0, MaxDepth = 2\<rparr>]
     = Inr (zero_Message\<lparr>msg_JSONRPC := ''2.0'', msg_Params := Some ''[[[[]]],1e309]''\<rparr>)"
  using depth_gap_parts by blast

text \<open>
  What the count of levels means: a member that another one of its name replaces hides its depth, and a
  scalar is a level of its own, so that an array of numbers is deeper than an empty one.
\<close>

definition shadowed_params :: bytes where
  "shadowed_params = ''{'' @ quote_string ''a'' @ '':[[[]]],'' @ quote_string ''a'' @ '':1}''"

theorem depth_counting:
  "DecodeMessage (deep_message shadowed_params) [Some \<lparr>MaxSize = 0, MaxDepth = 2\<rparr>]
     = Inr (zero_Message\<lparr>msg_JSONRPC := ''2.0'', msg_Params := Some shadowed_params\<rparr>)
   \<and> DecodeMessage (deep_message ''[1]'') [Some \<lparr>MaxSize = 0, MaxDepth = 1\<rparr>] = Inl (EDepth 1)
   \<and> DecodeMessage (deep_message ''[]'') [Some \<lparr>MaxSize = 0, MaxDepth = 1\<rparr>]
     = Inr (zero_Message\<lparr>msg_JSONRPC := ''2.0'', msg_Params := Some ''[]''\<rparr>)"
proof (intro conjI)
  show "DecodeMessage (deep_message shadowed_params) [Some \<lparr>MaxSize = 0, MaxDepth = 2\<rparr>]
     = Inr (zero_Message\<lparr>msg_JSONRPC := ''2.0'', msg_Params := Some shadowed_params\<rparr>)" by code_simp
  show "DecodeMessage (deep_message ''[1]'') [Some \<lparr>MaxSize = 0, MaxDepth = 1\<rparr>] = Inl (EDepth 1)"
    by code_simp
  show "DecodeMessage (deep_message ''[]'') [Some \<lparr>MaxSize = 0, MaxDepth = 1\<rparr>]
     = Inr (zero_Message\<lparr>msg_JSONRPC := ''2.0'', msg_Params := Some ''[]''\<rparr>)" by code_simp
qed

text \<open>
  C32: A decoded message is well formed: its version is 2.0, its ID, parameters, result and error
  data are each absent or a JSON value, and the request or response it stands for can be encoded
  again.
\<close>

theorem decoded_message_typed:
  assumes "DecodeMessage data opts = Inr m"
  shows "msg_JSONRPC m = ''2.0'' \<and> message_raws_ok m \<and> (\<exists>t. ms_Request (AsRequest m) = Some t) \<and> (\<exists>t. ms_Response (AsResponse m) = Some t)"
proof -
  have raw: "\<exists>b. ms_raw r = Some b" if "raw_ok r" for r
    using that by (auto simp: ms_raw_def raw_ok_def split: option.splits)
  have ok: "message_raws_ok m" using DecodeMessage_raws [OF assms] .
  then obtain i p where i: "ms_raw (msg_ID m) = Some i" "ms_raw (msg_Params m) = Some p"
    using raw [of "msg_ID m"] raw [of "msg_Params m"] by (auto simp: message_raws_ok_def)
  obtain r where r: "ms_raw (msg_Result m) = Some r" using ok raw [of "msg_Result m"] by (auto simp: message_raws_ok_def)
  have e: "\<exists>t. ms_RPCError e = Some t" if "msg_Error m = Some e" for e
    using ok that raw [of "err_Data e"]
    by (auto simp: message_raws_ok_def ms_RPCError_def ms_obj_def ms_member_def always_def unless_def ms_string_def ms_int_def)
  have "\<exists>t. ms_Request (AsRequest m) = Some t"
    using i by (auto simp: ms_Request_def AsRequest_def ms_obj_def ms_member_def always_def unless_def ms_string_def)
  moreover have "\<exists>t. ms_Response (AsResponse m) = Some t"
    using i r e
    by (cases "msg_Error m")
       (auto simp: ms_Response_def AsResponse_def ms_obj_def ms_member_def always_def unless_def ms_string_def ms_ptr_def)
  ultimately show ?thesis using assms ok unfolding DecodeMessage_exact by blast
qed

theorem decoded_message_typed_witness:
  "message_raws_ok (zero_Message\<lparr>msg_JSONRPC := ''2.0'', msg_ID := Some ''1'', msg_Method := ''x''\<rparr>)
   \<and> (\<exists>t. ms_Request (AsRequest (zero_Message\<lparr>msg_JSONRPC := ''2.0'', msg_ID := Some ''1'', msg_Method := ''x''\<rparr>)) = Some t)"
proof -
  have "DecodeMessage (''{'' @ quote_string ''jsonrpc'' @ '':'' @ quote_string ''2.0'' @ '','' @ quote_string ''id'' @ '':1,''
      @ quote_string ''method'' @ '':'' @ quote_string ''x'' @ ''}'') []
    = Inr (zero_Message\<lparr>msg_JSONRPC := ''2.0'', msg_ID := Some ''1'', msg_Method := ''x''\<rparr>)" by code_simp
  from decoded_message_typed [OF this] show ?thesis by simp
qed

end
