(* ===== verification/Registry_Props.thy ===== *)
theory Registry_Props
  imports Registry
begin

text \<open>
  Correctness of the registry: registration never replaces a handler, a successful one makes
  every name of the profile known, a refused one names a conflict; middleware runs in the
  order of registration; identifier resolution asks the matching resolvers in order; session
  hooks stop at the first error.
\<close>

section \<open>Registration\<close>

lemma register_names_grows: "register_names kind h ns m = (e, m') \<Longrightarrow> m \<subseteq>\<^sub>m m'"
proof (induction ns arbitrary: m)
  case (Cons n ns)
  show ?case
  proof (cases "m n = None")
    case True
    with Cons.prems have "register_names kind h ns (m(n \<mapsto> h)) = (e, m')" by simp
    from Cons.IH [OF this] have "m(n \<mapsto> h) \<subseteq>\<^sub>m m'" .
    moreover have "m \<subseteq>\<^sub>m m(n \<mapsto> h)" using True by (auto simp: map_le_def)
    ultimately show ?thesis by (rule map_le_trans [rotated])
  next
    case False
    with Cons.prems show ?thesis by auto
  qed
qed auto

lemma register_names_ok:
  "fst (register_names kind h ns m) = None \<longleftrightarrow> distinct ns \<and> (\<forall>n \<in> set ns. m n = None)"
  by (induction ns arbitrary: m) auto

lemma register_names_result:
  "fst (register_names kind h ns m) = None \<Longrightarrow>
     snd (register_names kind h ns m) = (\<lambda>n. if n \<in> set ns then Some h else m n)"
  by (induction ns arbitrary: m) (auto simp: fun_eq_iff)

lemma register_names_conflict:
  "register_names kind h ns m = (Some e, m') \<Longrightarrow>
     \<exists>n \<in> set ns. e = GoErr (kind @ '' '' @ go_quote n @ '' already registered'') \<and> m' n \<noteq> None"
proof (induction ns arbitrary: m)
  case (Cons n ns)
  then show ?case by (cases "m n = None") auto
qed simp

text \<open>The names a profile claims, per kind.\<close>

definition flow_names :: "'w Profile \<Rightarrow> 'w \<Rightarrow> bytes list" where
  "flow_names p w = (case pf_FlowHandler p of None \<Rightarrow> [] | Some h \<Rightarrow> fh_FlowTypes h w)"

definition method_names :: "'w Profile \<Rightarrow> 'w \<Rightarrow> bytes list" where
  "method_names p w = (case pf_MethodHandler p of None \<Rightarrow> [] | Some h \<Rightarrow> mh_Methods h w)"

definition resolve_names :: "'w Profile \<Rightarrow> 'w \<Rightarrow> bytes list" where
  "resolve_names p w = (case pf_ResolveHandler p of None \<Rightarrow> [] | Some h \<Rightarrow> rh_ResolveTypes h w)"

definition registry_grows :: "'w registry \<Rightarrow> 'w registry \<Rightarrow> bool" where
  "registry_grows r r' \<longleftrightarrow> flowHandlers r \<subseteq>\<^sub>m flowHandlers r' \<and> methods r \<subseteq>\<^sub>m methods r' \<and> resolvers r \<subseteq>\<^sub>m resolvers r'"

lemma registry_grows_refl [simp]: "registry_grows r r"
  by (simp add: registry_grows_def)

lemma registry_grows_trans: "registry_grows r r' \<Longrightarrow> registry_grows r' r'' \<Longrightarrow> registry_grows r r''"
  by (auto simp: registry_grows_def intro: map_le_trans)

lemma register_part_grows:
  "registry_grows r (snd (register_flow p w r))"
  "registry_grows r (snd (register_methods p w r))"
  "registry_grows r (snd (register_resolvers p w r))"
  "registry_grows r (register_hooks p r)"
proof -
  have g: "m \<subseteq>\<^sub>m snd (register_names kind h ns m)" for kind h ns and m :: "bytes \<rightharpoonup> 'x"
    using register_names_grows [of kind h ns m] by (metis prod.collapse)
  show "registry_grows r (snd (register_flow p w r))"
    by (auto simp: register_flow_def registry_grows_def case_prod_beta g split: option.splits)
  show "registry_grows r (snd (register_methods p w r))"
    by (auto simp: register_methods_def registry_grows_def case_prod_beta g split: option.splits)
  show "registry_grows r (snd (register_resolvers p w r))"
    by (auto simp: register_resolvers_def registry_grows_def case_prod_beta g split: option.splits)
  show "registry_grows r (register_hooks p r)"
    by (auto simp: register_hooks_def registry_grows_def Let_def split: option.splits)
qed

lemma register_grows: "register p w r = (e, r') \<Longrightarrow> registry_grows r r'"
proof -
  assume *: "register p w r = (e, r')"
  let ?r = "r\<lparr>profiles := profiles r @ [p]\<rparr>"
  have 0: "registry_grows r ?r" by (simp add: registry_grows_def)
  obtain e1 r1 where 1: "register_flow p w ?r = (e1, r1)" by fastforce
  obtain e2 r2 where 2: "register_methods p w r1 = (e2, r2)" by fastforce
  obtain e3 r3 where 3: "register_resolvers p w r2 = (e3, r3)" by fastforce
  have g1: "registry_grows r r1" using 0 1 register_part_grows(1) [of ?r p w] by (auto intro: registry_grows_trans)
  have g2: "registry_grows r r2" using g1 2 register_part_grows(2) [of r1 p w] by (auto intro: registry_grows_trans)
  have g3: "registry_grows r r3" using g2 3 register_part_grows(3) [of r2 p w] by (auto intro: registry_grows_trans)
  have g4: "registry_grows r (register_hooks p r3)" using g3 register_part_grows(4) by (rule registry_grows_trans)
  from * 1 2 3 g1 g2 g3 g4 show ?thesis
    by (auto simp: register_def split: option.splits)
qed

text \<open>When registration succeeds, and what the registry is then.\<close>

definition claim :: "bytes list \<Rightarrow> 'h option \<Rightarrow> (bytes \<rightharpoonup> 'h) \<Rightarrow> (bytes \<rightharpoonup> 'h)" where
  "claim ns h m = (\<lambda>n. if n \<in> set ns then h else m n)"

definition free_names :: "bytes list \<Rightarrow> (bytes \<rightharpoonup> 'h) \<Rightarrow> bool" where
  "free_names ns m \<longleftrightarrow> distinct ns \<and> (\<forall>n \<in> set ns. m n = None)"

definition opt_list :: "'a option \<Rightarrow> 'a list" where
  "opt_list x = (case x of None \<Rightarrow> [] | Some y \<Rightarrow> [y])"

lemma register_names_pair:
  "free_names ns m \<Longrightarrow> register_names kind h ns m = (None, claim ns (Some h) m)"
  "\<not> free_names ns m \<Longrightarrow> \<exists>e m'. register_names kind h ns m = (Some e, m')"
  using register_names_ok [of kind h ns m] register_names_result [of kind h ns m]
  by (auto simp: free_names_def claim_def prod_eq_iff)

definition registered :: "'w Profile \<Rightarrow> 'w \<Rightarrow> 'w registry \<Rightarrow> 'w registry" where
  "registered p w r =
     r\<lparr>profiles := profiles r @ [p],
       flowHandlers := claim (flow_names p w) (pf_FlowHandler p) (flowHandlers r),
       methods := claim (method_names p w) (pf_MethodHandler p) (methods r),
       resolvers := claim (resolve_names p w) (pf_ResolveHandler p) (resolvers r),
       sessionHooks := sessionHooks r @ opt_list (pf_SessionHook p),
       idResolvers := idResolvers r @ opt_list (pf_IdentifierResolver p)\<rparr>"

lemma claim_Nil [simp]: "claim [] h m = m"
  by (simp add: claim_def)

lemma free_names_Nil [simp]: "free_names [] m"
  by (simp add: free_names_def)

lemma register_parts:
  "free_names (flow_names p w) (flowHandlers r) \<Longrightarrow> register_flow p w r =
     (None, r\<lparr>flowHandlers := claim (flow_names p w) (pf_FlowHandler p) (flowHandlers r)\<rparr>)"
  "free_names (method_names p w) (methods r) \<Longrightarrow> register_methods p w r =
     (None, r\<lparr>methods := claim (method_names p w) (pf_MethodHandler p) (methods r)\<rparr>)"
  "free_names (resolve_names p w) (resolvers r) \<Longrightarrow> register_resolvers p w r =
     (None, r\<lparr>resolvers := claim (resolve_names p w) (pf_ResolveHandler p) (resolvers r)\<rparr>)"
  by (auto simp: register_flow_def register_methods_def register_resolvers_def flow_names_def method_names_def
      resolve_names_def register_names_pair(1) split: option.splits)

lemma register_parts_err:
  "\<not> free_names (flow_names p w) (flowHandlers r) \<Longrightarrow> fst (register_flow p w r) \<noteq> None"
  "\<not> free_names (method_names p w) (methods r) \<Longrightarrow> fst (register_methods p w r) \<noteq> None"
  "\<not> free_names (resolve_names p w) (resolvers r) \<Longrightarrow> fst (register_resolvers p w r) \<noteq> None"
  by (auto simp: register_flow_def register_methods_def register_resolvers_def flow_names_def method_names_def
      resolve_names_def free_names_def case_prod_beta register_names_ok simp flip: not_None_eq split: option.splits)

definition no_conflict :: "'w Profile \<Rightarrow> 'w \<Rightarrow> 'w registry \<Rightarrow> bool" where
  "no_conflict p w r \<longleftrightarrow> free_names (flow_names p w) (flowHandlers r) \<and> free_names (method_names p w) (methods r)
     \<and> free_names (resolve_names p w) (resolvers r)"

lemma register_success: "no_conflict p w r \<Longrightarrow> register p w r = (None, registered p w r)"
  unfolding no_conflict_def register_def
  by (auto simp: register_parts register_hooks_def registered_def opt_list_def Let_def split: option.splits)

lemma register_refused: "\<not> no_conflict p w r \<Longrightarrow> \<exists>e. fst (register p w r) = Some e"
proof -
  assume n: "\<not> no_conflict p w r"
  let ?r = "r\<lparr>profiles := profiles r @ [p]\<rparr>"
  show ?thesis
  proof (cases "free_names (flow_names p w) (flowHandlers r)")
    case False
    then have "fst (register_flow p w ?r) \<noteq> None" by (intro register_parts_err) simp
    then show ?thesis by (auto simp: register_def split: prod.splits option.splits)
  next
    case flow: True
    let ?r1 = "?r\<lparr>flowHandlers := claim (flow_names p w) (pf_FlowHandler p) (flowHandlers r)\<rparr>"
    have 1: "register_flow p w ?r = (None, ?r1)" using flow by (simp add: register_parts)
    show ?thesis
    proof (cases "free_names (method_names p w) (methods r)")
      case False
      then have "fst (register_methods p w ?r1) \<noteq> None" by (intro register_parts_err) simp
      with 1 show ?thesis by (auto simp: register_def split: prod.splits option.splits)
    next
      case meth: True
      let ?r2 = "?r1\<lparr>methods := claim (method_names p w) (pf_MethodHandler p) (methods r)\<rparr>"
      have 2: "register_methods p w ?r1 = (None, ?r2)" using meth by (simp add: register_parts)
      have "\<not> free_names (resolve_names p w) (resolvers r)" using n flow meth by (simp add: no_conflict_def)
      then have "fst (register_resolvers p w ?r2) \<noteq> None" by (intro register_parts_err) simp
      with 1 2 show ?thesis by (auto simp: register_def split: prod.splits option.splits)
    qed
  qed
qed

section \<open>Middleware\<close>

text \<open>The chain, outermost first: the first middleware registered is entered first.\<close>

fun nest :: "'w Middleware list \<Rightarrow> 'w MiddlewareFunc \<Rightarrow> 'w MiddlewareFunc" where
  "nest [] final = final"
| "nest (mw # mws) final = (\<lambda>ctx method params. mw ctx method params (nest mws final))"

lemma build_chain_append: "build_chain (xs @ [mw]) final = (\<lambda>ctx method params. mw ctx method params (build_chain xs final))"
  by (induction xs arbitrary: final) auto

lemma build_chain_nest: "build_chain (rev mws) final = nest mws final"
  by (induction mws) (auto simp: build_chain_append)

lemma runMiddleware_nest: "runMiddleware r ctx method params final = nest (middleware r) final ctx method params"
  by (simp add: runMiddleware_def build_chain_nest)

section \<open>Identifiers\<close>

lemma scheme_matches_iff: "scheme_matches ss i \<longleftrightarrow> (\<exists>s \<in> set ss. \<exists>t. i = s @ t)"
proof (induction ss)
  case (Cons s ss)
  have "length s \<le> length i \<and> take (length s) i = s \<longleftrightarrow> (\<exists>t. i = s @ t)"
    by (auto) (metis append_take_drop_id)
  with Cons show ?case by auto
qed simp

text \<open>A resolver that lists no prefix of the identifier is not consulted.\<close>

lemma resolve_loop_skip:
  "\<forall>ir \<in> set irs. \<not> scheme_matches (ir_Schemes ir w) i \<Longrightarrow> resolve_loop (irs @ irs') ctx i w = resolve_loop irs' ctx i w"
  by (induction irs) auto

section \<open>Hooks\<close>

lemma create_hooks_append:
  "create_hooks_loop (hs @ hs') ctx ps s w =
     (case create_hooks_loop hs ctx ps s w of
        (Some e, s', w') \<Rightarrow> (Some e, s', w')
      | (None, s', w') \<Rightarrow> create_hooks_loop hs' ctx ps s' w')"
  by (induction hs arbitrary: s w) (auto split: prod.splits option.splits)

section \<open>Properties\<close>

text \<open>
  C23: a profile is registered exactly when none of the flow types, methods and resolve types
  it claims is taken (by another profile or twice by itself), and then every name leads to
  its handler, the other names keep theirs and its hooks and resolvers come last.
\<close>

theorem register_exact:
  "register p w r = (None, r') \<longleftrightarrow> no_conflict p w r \<and> r' = registered p w r"
proof (cases "no_conflict p w r")
  case True
  then show ?thesis by (auto simp: register_success)
next
  case False
  with register_refused [OF this] show ?thesis by auto
qed

text \<open>
  Registering a profile, successfully or not, never takes a flow type, a method or a
  resolve type away from the handler it was registered with.
\<close>

theorem register_keeps_handlers:
  "flowHandlers r \<subseteq>\<^sub>m flowHandlers (snd (register p w r)) \<and> methods r \<subseteq>\<^sub>m methods (snd (register p w r))
   \<and> resolvers r \<subseteq>\<^sub>m resolvers (snd (register p w r))"
  using register_grows [of p w r "fst (register p w r)" "snd (register p w r)"] by (simp add: registry_grows_def)

text \<open>
  Middleware wraps the dispatcher in the order of registration: the first one added is
  entered first and the dispatcher is called innermost.
\<close>

theorem middleware_order:
  "runMiddleware r ctx method params final = nest (middleware r) final ctx method params
   \<and> nest (middleware (addMiddleware mw r)) final
       = nest (middleware r) (\<lambda>ctx method params. mw ctx method params final)"
proof -
  have "nest (mws @ [mw]) final = nest mws (\<lambda>ctx method params. mw ctx method params final)" for mws
    by (induction mws) auto
  then show ?thesis by (simp add: runMiddleware_nest addMiddleware_def)
qed

text \<open>
  An identifier is resolved by the first resolver that lists a prefix of it and returns
  an endpoint; resolvers without a matching scheme are not consulted.
\<close>

theorem resolve_first_match:
  assumes "idResolvers r = irs @ ir # irs'"
    and "\<forall>x \<in> set irs. \<forall>s \<in> set (ir_Schemes x w). \<not> (\<exists>t. i = s @ t)"
    and "s \<in> set (ir_Schemes ir w)" "i = s @ t"
    and "ir_Resolve ir ctx i w = ((Some d, None), w')"
  shows "resolveIdentifier r ctx i w = ((Some d, None), w')"
proof -
  have "resolveIdentifier r ctx i w = resolve_loop (ir # irs') ctx i w"
    unfolding resolveIdentifier_def assms(1)
    by (rule resolve_loop_skip) (use assms(2) in \<open>auto simp: scheme_matches_iff\<close>)
  moreover have "scheme_matches (ir_Schemes ir w) i" using assms(3,4) by (auto simp: scheme_matches_iff)
  ultimately show ?thesis using assms(5) by simp
qed

definition example_endpoint :: DiscoveredEndpoint where
  "example_endpoint = \<lparr>de_Endpoint = ''wss://a'', de_Capabilities = [], de_Relay = [], de_MLSKeyPackages = []\<rparr>"

definition example_resolver :: "bytes \<Rightarrow> nat IdentifierResolver" where
  "example_resolver scheme = \<lparr>ir_Schemes = (\<lambda>_. [scheme]), ir_Resolve = (\<lambda>_ _ n. ((Some example_endpoint, None), Suc n))\<rparr>"

theorem resolve_first_match_witness:
  "resolveIdentifier (newRegistry\<lparr>idResolvers := [example_resolver ''did:key:'', example_resolver ''did:web:'']\<rparr>)
     background ''did:web:x'' 0 = ((Some example_endpoint, None), 1)"
  by (rule resolve_first_match [where irs = "[example_resolver ''did:key:'']" and ir = "example_resolver ''did:web:''"
        and s = "''did:web:''" and t = "''x''" and irs' = "[]"])
     (auto simp: example_resolver_def)

end
