(* ===== verification/Session_Props.thy ===== *)
theory Session_Props
  imports Session_Store
begin

text \<open>
  The session store as an abstract map: any sequence of operations on the in-memory store
  does to its map what the specification does to a partial function.
\<close>

section \<open>Specification\<close>

datatype store_op =
    OpCreate Session
  | OpUpdate Session
  | OpDelete bytes
  | OpCleanup instant

definition apply_op :: "store_op \<Rightarrow> MemorySessionStore \<Rightarrow> MemorySessionStore" where
  "apply_op op s =
     (case op of
        OpCreate x \<Rightarrow> snd (Create x s)
      | OpUpdate x \<Rightarrow> snd (Update x s)
      | OpDelete k \<Rightarrow> snd (Delete k s)
      | OpCleanup now \<Rightarrow> snd (Cleanup now s))"

definition spec_op :: "store_op \<Rightarrow> (bytes \<rightharpoonup> Session) \<Rightarrow> (bytes \<rightharpoonup> Session)" where
  "spec_op op m =
     (case op of
        OpCreate x \<Rightarrow> m(ses_ID x \<mapsto> x)
      | OpUpdate x \<Rightarrow> m(ses_ID x \<mapsto> x)
      | OpDelete k \<Rightarrow> m(k := None)
      | OpCleanup now \<Rightarrow> (\<lambda>k. case m k of None \<Rightarrow> None | Some x \<Rightarrow> if IsExpired now x then None else Some x))"

definition abs_store :: "MemorySessionStore \<Rightarrow> (bytes \<rightharpoonup> Session)" where
  "abs_store s = (\<lambda>k. Get k s)"

lemma store_ok_apply: "store_ok s \<Longrightarrow> store_ok (apply_op op s)"
  by (cases op)
     (auto simp: apply_op_def intro: mem.invar_create mem.invar_update mem.invar_delete mem.invar_cleanup)

lemma abs_apply: "store_ok s \<Longrightarrow> abs_store (apply_op op s) = spec_op op (abs_store s)"
  by (cases op)
     (auto simp: apply_op_def spec_op_def abs_store_def fun_eq_iff
        mem.get_create mem.get_update mem.get_delete mem.get_cleanup)

lemma run_ops:
  "store_ok s \<Longrightarrow> store_ok (fold apply_op ops s) \<and> abs_store (fold apply_op ops s) = fold spec_op ops (abs_store s)"
  by (induction ops arbitrary: s) (auto simp: store_ok_apply abs_apply)

lemma ran_Get: "store_ok s \<Longrightarrow> x \<in> ran (abs_store s) \<Longrightarrow> Get (ses_ID x) s = Some x"
  using Get_ID by (fastforce simp: ran_def abs_store_def)

lemma count_card:
  assumes "store_ok s"
  shows "gm_count_if q (sessions s) = card {x. (\<exists>k. Get k s = Some x) \<and> q x}"
proof -
  let ?m = "filter (\<lambda>(k, x). q x) (sessions s)"
  have ok: "gm_ok (sessions s)" and ids: "\<forall>(k, x) \<in> set (sessions s). ses_ID x = k"
    using assms by (auto simp: store_ok_def)
  have "distinct (map fst ?m)" using ok by (simp add: gm_ok_def distinct_map_filter)
  then have "distinct ?m" by (simp add: distinct_map)
  then have "length ?m = card (set ?m)" by (rule distinct_card [symmetric])
  also have "\<dots> = card (snd ` set ?m)"
    by (rule card_image [symmetric], rule inj_on_inverseI [where g = "\<lambda>x. (ses_ID x, x)"]) (use ids in auto)
  also have "snd ` set ?m = {x. (\<exists>k. Get k s = Some x) \<and> q x}"
    using ok by (auto simp: Get_def gm_get_in_set image_iff)
  finally show ?thesis by (simp add: gm_count_if_def)
qed

section \<open>Properties\<close>

text \<open>
  C15: after any sequence of creates, updates, deletes and clean-ups, the store holds exactly
  the sessions of the specification, each under its own identifier.
\<close>

theorem store_refines_map:
  "(\<lambda>k. Get k (fold apply_op ops NewMemorySessionStore)) = fold spec_op ops Map.empty
   \<and> store_ok (fold apply_op ops NewMemorySessionStore)"
proof -
  have "abs_store NewMemorySessionStore = Map.empty" by (simp add: abs_store_def mem.get_new)
  with run_ops [OF mem.invar_new, of ops] show ?thesis by (simp add: abs_store_def)
qed

text \<open>
  In every state the store can reach, a clean-up removes exactly the sessions that are
  expired, reports how many those were, and does not change what a listing at that time shows.
\<close>

theorem cleanup_exact:
  "let s = fold apply_op ops NewMemorySessionStore; (n, s') = Cleanup now s in
     n = card {x. (\<exists>k. Get k s = Some x) \<and> IsExpired now x}
     \<and> {x. \<exists>k. Get k s' = Some x} = {x. (\<exists>k. Get k s = Some x) \<and> \<not> IsExpired now x}
     \<and> set (List_sessions now s') = set (List_sessions now s)"
proof -
  let ?s = "fold apply_op ops NewMemorySessionStore"
  have ok: "store_ok ?s" using run_ops [OF mem.invar_new] by blast
  obtain n s' where c: "Cleanup now ?s = (n, s')" by fastforce
  have s': "s' = snd (Cleanup now ?s)" and n: "n = gm_count_if (IsExpired now) (sessions ?s)"
    using c by (auto simp: Cleanup_def)
  have "n = card {x. (\<exists>k. Get k ?s = Some x) \<and> IsExpired now x}"
    unfolding n using ok by (rule count_card)
  moreover have "{x. \<exists>k. Get k s' = Some x} = {x. (\<exists>k. Get k ?s = Some x) \<and> \<not> IsExpired now x}"
    unfolding s' using ok by (auto simp: mem.get_cleanup_Some)
  moreover have "set (List_sessions now s') = set (List_sessions now ?s)"
    unfolding s' using ok by (rule mem.listing_cleanup)
  ultimately show ?thesis by (simp add: c)
qed

end
