(* ===== verification/Peer_Props.thy ===== *)
theory Peer_Props
  imports Peer Jsonrpc_Props Registry_Props Session_Props
begin

text \<open>
  Correctness of the peer: the synchronous and the asynchronous path give the same answer,
  every request gets one answer with its own ID and no notification gets any, refused
  requests reach neither handler nor profile, flows are routed to the profile that started
  them, and what a serving peer does with each message it reads.
\<close>

section \<open>Answers\<close>

lemma answer_shape:
  "resp_ID (answer req res) = req_ID req \<and> resp_JSONRPC (answer req res) = ''2.0''
   \<and> (resp_Result (answer req res) = None \<longleftrightarrow> resp_Error (answer req res) \<noteq> None)"
proof -
  obtain r e where res: "res = (r, e)" by fastforce
  show ?thesis
  proof (cases e)
    case None
    then show ?thesis
      by (auto simp: answer_def res NewResponse_def NewErrorResponse_def split: option.splits sum.splits)
  next
    case (Some x)
    then show ?thesis by (cases x) (auto simp: answer_def res NewErrorResponse_def toRPCError_def)
  qed
qed

lemma handleRequest_sync:
  "\<exists>c. handleRequest p ctx req st =
     (case sync_request p ctx req st of
        (None, st') \<Rightarrow> st'
      | (Some r, st') \<Rightarrow> if IsNotification req then st' else send p c r st')"
  by (auto simp: handleRequest_def sync_request_def case_prod_beta split: bool.splits option.splits prod.splits)

lemma reason_data_valid: "\<exists>b. reason_data t = Some (Some b) \<and> json_valid b"
proof -
  let ?ms = "[(''reason'', quote_string t, JStr (unquote (esc_string t)))]"
  have "prints (Suc 0) (''{'' @ commas (map member_text ?ms) @ ''}'') (JObj ?ms)"
    using prints_string by (intro prints_object) (auto simp: ascii_def)
  then have "json_valid (''{'' @ commas (map member_text ?ms) @ ''}'')" by (rule prints_valid) (simp add: max_nesting_def)
  moreover have "ms_map ms_string [(''reason'', t)] = Some (''{'' @ commas (map member_text ?ms) @ ''}'')"
    using ms_obj_members [of ?ms] by (simp add: ms_map_def ms_string_def)
  ultimately show ?thesis by (simp add: reason_data_def)
qed

text \<open>What the outcome of a dispatch needs so that its answer can be encoded.\<close>

definition outcome_ok :: "rpc_result \<times> go_error option \<Rightarrow> bool" where
  "outcome_ok = (\<lambda>(r, e).
     (case e of
        None \<Rightarrow> (case marshal_result r of None \<Rightarrow> True | Some b \<Rightarrow> json_valid b)
      | Some (RPCErr x) \<Rightarrow> raw_ok (err_Data x)
      | Some (GoErr t) \<Rightarrow> True))"

lemma response_marshals:
  assumes "raw_ok (resp_ID r)" "raw_ok (resp_Result r)"
    and "\<And>e. resp_Error r = Some e \<Longrightarrow> raw_ok (err_Data e)"
  shows "\<exists>b. ms_Response r = Some b"
proof -
  have raw: "\<exists>b. ms_raw x = Some b" if "raw_ok x" for x
    using that by (auto simp: ms_raw_def raw_ok_def split: option.splits)
  have e: "\<exists>b. ms_ptr ms_RPCError (resp_Error r) = Some b"
    using assms(3) raw
    by (cases "resp_Error r")
       (fastforce simp: ms_ptr_def ms_RPCError_def ms_obj_def ms_member_def always_def unless_def ms_string_def ms_int_def)+
  from raw [OF assms(1)] raw [OF assms(2)] e show ?thesis
    by (auto simp: ms_Response_def ms_obj_def ms_member_def always_def unless_def ms_string_def)
qed

lemma NewRPCError_raw_ok: "raw_ok (err_Data (NewRPCError c None))" "raw_ok (err_Data (NewRPCError c (reason_data t)))"
  using reason_data_valid [of t] by (auto simp: NewRPCError_def raw_ok_def)

lemma empty_object_valid: "json_valid ''{}''"
  using prints_empty_object [of 0] by (rule prints_valid) (simp add: max_nesting_def)

lemma answer_marshals_back:
  assumes "raw_ok (req_ID req)" "outcome_ok res"
  shows "\<exists>b. ms_Response (answer req res) = Some b"
proof (rule response_marshals)
  obtain r e where res: "res = (r, e)" by fastforce
  show "raw_ok (resp_ID (answer req res))" using answer_shape [of req res] assms(1) by simp
  show "raw_ok (resp_Result (answer req res))"
    using assms(2) empty_object_valid
    by (auto simp: res outcome_ok_def answer_def NewResponse_def NewErrorResponse_def raw_ok_def split: option.splits)
  show "raw_ok (err_Data x)" if "resp_Error (answer req res) = Some x" for x
    using that assms(2) NewRPCError_raw_ok
    by (auto simp: res outcome_ok_def answer_def NewResponse_def NewErrorResponse_def toRPCError_def
        split: option.splits go_error.splits if_splits)
qed

lemma one_answer_shape:
  assumes "\<not> IsNotification req"
  shows "\<exists>r st'. sync_request p ctx req st = (Some r, st') \<and> resp_ID r = req_ID req \<and> resp_JSONRPC r = ''2.0''
    \<and> (resp_Result r = None \<longleftrightarrow> resp_Error r \<noteq> None)"
  using assms answer_shape
  by (auto simp: sync_request_def unauthorized_def invalid_params_def NewErrorResponse_def case_prod_beta
      split: bool.splits option.splits prod.splits)

lemma sync_response_marshals:
  assumes "sync_request p ctx req st = (Some r, st')" "raw_ok (req_ID req)"
    and "\<And>st. outcome_ok (fst (run_request p ctx req st))"
  shows "\<exists>b. ms_Response r = Some b"
proof -
  have refuse: "\<exists>b. ms_Response (NewErrorResponse (req_ID req) (Some e)) = Some b" if "raw_ok (err_Data e)" for e
    using that assms(2) by (intro response_marshals) (auto simp: NewErrorResponse_def raw_ok_def)
  have "r = unauthorized req \<or> (\<exists>e. r = invalid_params req e) \<or> (\<exists>st. r = answer req (fst (run_request p ctx req st)))"
    using assms(1) by (force simp: sync_request_def case_prod_beta split: bool.splits option.splits prod.splits if_splits)
  then show ?thesis
    using refuse NewRPCError_raw_ok answer_marshals_back [OF assms(2,3)]
    by (auto simp: unauthorized_def invalid_params_def)
qed

section \<open>Dispatch of one method\<close>

definition builtin_methods :: "bytes list" where
  "builtin_methods =
     [MethodSessionCreate, MethodSessionResume, MethodSessionClose, MethodSessionAuthenticate, MethodMessageDeliver,
      MethodMessageAck, MethodMessageStatus, MethodMessagePoll, MethodCapabilityUpdate, MethodCapabilityList,
      MethodFlowStart, MethodFlowProgress, MethodFlowAction, MethodFlowComplete, MethodFlowError, MethodFlowCancel,
      MethodResolve, MethodCredentialNotification]"

definition answers_to :: "'w Peer \<Rightarrow> bytes \<Rightarrow> bool" where
  "answers_to p method \<longleftrightarrow> method \<in> set builtin_methods
     \<and> (method = MethodCredentialNotification \<longrightarrow> h_CredentialNotification (handler p) \<noteq> None)"

lemma with_params_None: "json_parse (case params of None \<Rightarrow> [] | Some d \<Rightarrow> d) = None \<Longrightarrow>
    with_params un zero params k st = fail ErrInvalidParams None st"
  by (simp add: with_params_def unmarshal_def)

lemma with_params_frame:
  assumes "\<And>ps st. flowOwners (snd (k ps st)) fid = flowOwners st fid"
  shows "flowOwners (snd (with_params un zero params k st)) fid = flowOwners st fid"
  using assms by (auto simp: with_params_def fail_def split: option.splits)

text \<open>Only four methods change who owns a flow, and only the flow their parameters name.\<close>

definition flow_touched :: "bytes \<Rightarrow> raw \<Rightarrow> bytes option" where
  "flow_touched method params =
     (if method = MethodFlowStart then map_option fsp_FlowID (unmarshal un_FlowStartParams zero_FlowStartParams params)
      else if method = MethodFlowComplete then map_option fcp_FlowID (unmarshal un_FlowCompleteParams zero_FlowCompleteParams params)
      else if method = MethodFlowError then map_option fep_FlowID (unmarshal un_FlowErrorParams zero_FlowErrorParams params)
      else if method = MethodFlowCancel then map_option fxp_FlowID (unmarshal un_FlowCancelParams zero_FlowCancelParams params)
      else None)"

lemma outcome_frames [simp]:
  "flowOwners (snd (ret_call wrap f st)) = flowOwners st"
  "flowOwners (snd (notify_call g st)) = flowOwners st"
  "flowOwners (snd (fail c d st)) = flowOwners st"
  by (simp_all add: ret_call_def notify_call_def fail_def case_prod_beta)

lemma call_frames:
  "flowOwners (snd (session_create p ctx a st)) = flowOwners st"
  "flowOwners (snd (session_resume p ctx b st)) = flowOwners st"
  "flowOwners (snd (flow_progress p ctx c st)) = flowOwners st"
  "flowOwners (snd (flow_action p ctx d st)) = flowOwners st"
  "flowOwners (snd (resolve p ctx e st)) = flowOwners st"
  "flowOwners (snd (credential_notification h ctx f st)) = flowOwners st"
  "flowOwners (snd (custom_method p ctx method params st)) = flowOwners st"
  by (auto simp: session_create_def session_resume_def flow_progress_def flow_action_def resolve_def
      credential_notification_def custom_method_def Let_def case_prod_beta split: option.splits prod.splits)

lemma flow_frames:
  "fid \<noteq> fsp_FlowID a \<Longrightarrow> flowOwners (snd (flow_start p ctx a st)) fid = flowOwners st fid"
  "fid \<noteq> fcp_FlowID b \<Longrightarrow> flowOwners (snd (flow_complete p ctx b st)) fid = flowOwners st fid"
  "fid \<noteq> fep_FlowID c \<Longrightarrow> flowOwners (snd (flow_error p ctx c st)) fid = flowOwners st fid"
  "fid \<noteq> fxp_FlowID d \<Longrightarrow> flowOwners (snd (flow_cancel p ctx d st)) fid = flowOwners st fid"
  by (auto simp: flow_start_def flow_complete_def flow_error_def flow_cancel_def flow_owner_defs Let_def case_prod_beta
      split: option.splits)

text \<open>What each of the four methods does to the owner of its own flow.\<close>

lemma flow_ends:
  "flowOwners (snd (flow_complete p ctx b st)) (fcp_FlowID b) = None"
  "flowOwners (snd (flow_error p ctx c st)) (fep_FlowID c) = None"
  "flowOwners (snd (flow_cancel p ctx d st)) (fxp_FlowID d) = None"
  by (auto simp: flow_complete_def flow_error_def flow_cancel_def flow_owner_defs Let_def split: option.splits)

lemma flow_start_owner:
  assumes "flowHandlers (registry p) (fsp_FlowType a) = Some fh"
    and "fh_StartFlow fh ctx a (world st) = ((Some r, None), w)"
  shows "flow_start p ctx a st = ((RFlowStart (Some r), None),
     \<lparr>flowOwners = (flowOwners st)(fsp_FlowID a \<mapsto> fh), world = w\<rparr>)"
  using assms by (simp add: flow_start_def lookupFlowHandler_def trackFlow_def)

text \<open>Every owner is a handler some profile registered.\<close>

definition owners_registered :: "'w Peer \<Rightarrow> 'w dstate \<Rightarrow> bool" where
  "owners_registered p st \<longleftrightarrow> ran (flowOwners st) \<subseteq> ran (flowHandlers (registry p))"

lemma owners_registered_cong: "flowOwners st' = flowOwners st \<Longrightarrow> owners_registered p st \<Longrightarrow> owners_registered p st'"
  by (simp add: owners_registered_def)

lemma ran_del: "ran (m(k := None)) \<subseteq> ran m"
  by (auto simp: ran_def)

lemma flow_owners_registered:
  "owners_registered p st \<Longrightarrow> owners_registered p (snd (flow_start p ctx a st))"
  "owners_registered p st \<Longrightarrow> owners_registered p (snd (flow_complete p ctx b st))"
  "owners_registered p st \<Longrightarrow> owners_registered p (snd (flow_error p ctx c st))"
  "owners_registered p st \<Longrightarrow> owners_registered p (snd (flow_cancel p ctx d st))"
  using ran_del [of "flowOwners st"]
  by (auto simp: owners_registered_def flow_start_def flow_complete_def flow_error_def flow_cancel_def flow_owner_defs
      lookupFlowHandler_def Let_def case_prod_beta ran_def split: option.splits if_splits)

lemma with_params_inv:
  assumes "\<And>ps st. P st \<Longrightarrow> P (snd (k ps st))" "P st"
  shows "P (snd (with_params un zero params k st))"
  using assms by (auto simp: with_params_def fail_def split: option.splits)

lemma dispatch_inv:
  assumes call: "\<And>st st' :: 'w dstate. flowOwners st' = flowOwners st \<Longrightarrow> P st \<Longrightarrow> P st'"
    and start: "\<And>st a. P st \<Longrightarrow> P (snd (flow_start p ctx a st))"
    and complete: "\<And>st b. P st \<Longrightarrow> P (snd (flow_complete p ctx b st))"
    and err: "\<And>st c. P st \<Longrightarrow> P (snd (flow_error p ctx c st))"
    and cancel: "\<And>st d. P st \<Longrightarrow> P (snd (flow_cancel p ctx d st))"
    and st: "P st"
  shows "P (snd (dispatchMethodInternal p ctx method params st))"
proof -
  note frames = call_frames [THEN call] outcome_frames [THEN call]
  have step: "P (snd (with_params un zero params k st))" if "\<And>ps st. P st \<Longrightarrow> P (snd (k ps st))" for un zero k
    using that st by (rule with_params_inv)
  have pif: "P (snd (if c then x else y))" if "P (snd x)" "P (snd y)" for c and x y :: "'w outcome" using that by simp
  have popt: "P (snd (case h of Some g \<Rightarrow> f g | None \<Rightarrow> x))" if "\<And>g. P (snd (f g))" "P (snd x)"
    for h :: "'h option" and f and x :: "'w outcome" using that by (cases h) auto
  show ?thesis
    unfolding dispatchMethodInternal_def
    by (intro pif popt step; (rule start complete err cancel frames)?; (assumption | rule st)?)
qed

lemma dispatch_flow_methods:
  "dispatchMethodInternal p ctx MethodFlowStart params =
     with_params un_FlowStartParams zero_FlowStartParams params (flow_start p ctx)"
  "dispatchMethodInternal p ctx MethodFlowProgress params =
     with_params un_FlowProgressParams zero_FlowProgressParams params (flow_progress p ctx)"
  "dispatchMethodInternal p ctx MethodFlowAction params =
     with_params un_FlowActionParams zero_FlowActionParams params (flow_action p ctx)"
  "dispatchMethodInternal p ctx MethodFlowComplete params =
     with_params un_FlowCompleteParams zero_FlowCompleteParams params (flow_complete p ctx)"
  "dispatchMethodInternal p ctx MethodFlowError params =
     with_params un_FlowErrorParams zero_FlowErrorParams params (flow_error p ctx)"
  "dispatchMethodInternal p ctx MethodFlowCancel params =
     with_params un_FlowCancelParams zero_FlowCancelParams params (flow_cancel p ctx)"
  by (simp_all add: dispatchMethodInternal_def fun_eq_iff)

lemma dispatch_other_frame:
  assumes "method \<notin> {MethodFlowStart, MethodFlowComplete, MethodFlowError, MethodFlowCancel}"
  shows "flowOwners (snd (dispatchMethodInternal p ctx method params (st :: 'w dstate))) fid = flowOwners st fid"
proof -
  let ?Q = "\<lambda>x :: 'w outcome. flowOwners (snd x) fid = flowOwners st fid"
  have pif: "?Q (if c then x else y)" if "?Q x" "?Q y" for c and x y :: "'w outcome" using that by simp
  have popt: "?Q (case h of Some g \<Rightarrow> f g | None \<Rightarrow> x)" if "\<And>g. ?Q (f g)" "?Q x"
    for h :: "'h option" and f and x :: "'w outcome" using that by (cases h) auto
  have no: "(if method = m then x else y) = y" if "m \<in> {MethodFlowStart, MethodFlowComplete, MethodFlowError, MethodFlowCancel}"
    for m and x y :: "'w outcome" using assms that by auto
  show ?thesis
    unfolding dispatchMethodInternal_def
    by (simp only: no [of MethodFlowStart] no [of MethodFlowComplete] no [of MethodFlowError] no [of MethodFlowCancel] insert_iff simp_thms)
       (intro pif popt with_params_frame; simp add: call_frames)
qed

lemma dispatch_flow_frame:
  assumes "flow_touched method params \<noteq> Some fid"
  shows "flowOwners (snd (dispatchMethodInternal p ctx method params st)) fid = flowOwners st fid"
proof (cases "method \<in> {MethodFlowStart, MethodFlowComplete, MethodFlowError, MethodFlowCancel}")
  case True
  then consider "method = MethodFlowStart" | "method = MethodFlowComplete" | "method = MethodFlowError" | "method = MethodFlowCancel"
    by blast
  then show ?thesis
    using assms
    by cases (auto simp only: dispatch_flow_methods with_params_def flow_touched_def split: option.splits,
        auto intro!: flow_frames)
qed (rule dispatch_other_frame)

lemma transport_only:
  "handler (p\<lparr>transport := t\<rparr>) = handler p" "registry (p\<lparr>transport := t\<rparr>) = registry p"
  "sessionStore (p\<lparr>transport := t\<rparr>) = sessionStore p" "validator (p\<lparr>transport := t\<rparr>) = validator p"
  "authorizer (p\<lparr>transport := t\<rparr>) = authorizer p"
  by simp_all

lemma calls_ignore_transport:
  "session_create (p\<lparr>transport := t\<rparr>) = session_create p" "session_resume (p\<lparr>transport := t\<rparr>) = session_resume p"
  "flow_start (p\<lparr>transport := t\<rparr>) = flow_start p" "flow_progress (p\<lparr>transport := t\<rparr>) = flow_progress p"
  "flow_action (p\<lparr>transport := t\<rparr>) = flow_action p" "flow_complete (p\<lparr>transport := t\<rparr>) = flow_complete p"
  "flow_error (p\<lparr>transport := t\<rparr>) = flow_error p" "flow_cancel (p\<lparr>transport := t\<rparr>) = flow_cancel p"
  "resolve (p\<lparr>transport := t\<rparr>) = resolve p" "custom_method (p\<lparr>transport := t\<rparr>) = custom_method p"
  by (intro ext; unfold session_create_def session_resume_def flow_start_def flow_progress_def flow_action_def
      flow_complete_def flow_error_def flow_cancel_def resolve_def custom_method_def transport_only; rule refl)+

lemma calls_ignore_methods:
  fixes p :: "'w Peer" and ms :: "bytes \<rightharpoonup> 'w MethodHandler"
  defines "q \<equiv> p\<lparr>registry := (registry p)\<lparr>methods := ms\<rparr>\<rparr>"
  shows "session_create q = session_create p" "session_resume q = session_resume p" "flow_start q = flow_start p"
    "flow_progress q = flow_progress p" "flow_action q = flow_action p" "flow_complete q = flow_complete p"
    "flow_error q = flow_error p" "flow_cancel q = flow_cancel p" "resolve q = resolve p"
proof -
  have "handler q = handler p" "sessionStore q = sessionStore p"
    "runSessionCreateHooks (registry q) = runSessionCreateHooks (registry p)"
    "lookupFlowHandler (registry q) = lookupFlowHandler (registry p)" "lookupResolver (registry q) = lookupResolver (registry p)"
    by (simp_all add: q_def fun_eq_iff runSessionCreateHooks_def lookupFlowHandler_def lookupResolver_def)
  note same = this
  show "session_create q = session_create p" "session_resume q = session_resume p" "flow_start q = flow_start p"
    "flow_progress q = flow_progress p" "flow_action q = flow_action p" "flow_complete q = flow_complete p"
    "flow_error q = flow_error p" "flow_cancel q = flow_cancel p" "resolve q = resolve p"
    by (intro ext; unfold session_create_def session_resume_def flow_start_def flow_progress_def flow_action_def
        flow_complete_def flow_error_def flow_cancel_def resolve_def same; rule refl)+
qed

section \<open>Serving\<close>

lemma dispatch_crashed [simp]: "crashed (dispatch m ps) = crashed ps"
  by (simp add: dispatch_def handleResponse_def Let_def split: option.splits)

lemma dispatch_batch_crashed: "crashed (dispatch_batch (map Some ms) ps) = crashed ps"
  by (induction ms arbitrary: ps) auto

lemma serve_message_crashed:
  "crashed (serve_message p ctx data ps) \<longleftrightarrow>
     crashed ps \<or> (int (length data) \<le> maxMessageSize p \<and> DecodeBatch data [Some (decOpts p)] = Panic)"
proof -
  have ok: "crashed (dispatch_batch out ps) = crashed ps" if "DecodeBatch data [Some (decOpts p)] = Ok (Some out)" for out
    using that unfolding DecodeBatch_exact by (auto simp: dispatch_batch_crashed)
  show ?thesis
    by (auto simp: serve_message_def serve_single_def send_ps_def ok split: go_result.splits option.splits sum.splits)
qed

text \<open>Text that is read as one message is not read as a batch.\<close>

lemma trimSpace_skip_ws: "trimSpace s = skip_ws s"
  by (simp add: trimSpace_def skip_ws_def is_ws_def [abs_def])

lemma json_next_array: "json_next s = Some (b, v, r) \<Longrightarrow> skip_ws s = CHR ''['' # t \<Longrightarrow> \<exists>es. v = JArr es"
  by (auto simp: json_next_def fuel_for_def Let_def split: if_splits list.splits)

lemma message_not_batch:
  assumes "DecodeMessage data opts = Inr m" shows "DecodeBatch data opts = Ok None"
proof -
  from assms have size: "int (length data) \<le> maxSize (first_opt opts)" unfolding DecodeMessage_exact by blast
  from assms obtain b v rest where v: "json_next data = Some (b, v, rest)" "un_Message b v zero_Message = Some m"
    by (auto elim!: DecodeMessage_cases)
  have "trimSpace data = [] \<or> hd (trimSpace data) \<noteq> CHR ''[''"
  proof (cases "skip_ws data")
    case (Cons c t)
    with v json_next_array [OF v(1), of t] show ?thesis
      by (auto simp: trimSpace_skip_ws un_Message_def un_struct_def)
  qed (simp add: trimSpace_skip_ws)
  with size show ?thesis by (auto simp: DecodeBatch_def Let_def)
qed

lemma serve_decoded:
  assumes "DecodeMessage data [Some (decOpts p)] = Inr m" "int (length data) \<le> maxMessageSize p"
  shows "serve_message p ctx data ps = dispatch m ps"
  using assms by (simp add: serve_message_def message_not_batch serve_single_def)

section \<open>Examples\<close>

text \<open>
  A peer over a transport that keeps what is written, with the in-memory session store, the
  default handler and a profile that runs flows of type \<open>demo\<close>; used to instantiate properties.
\<close>

type_synonym example_world = "MemorySessionStore \<times> bytes list"

definition example_transport :: "example_world Transport" where
  "example_transport = \<lparr>t_WriteMessage = (\<lambda>_ b (s, out). (None, s, out @ [b])), t_Close = (\<lambda>w. (None, w))\<rparr>"

definition memory_backend :: "example_world SessionStoreI" where
  "memory_backend = \<lparr>ss_Get = (\<lambda>k (s, out). Get k s),
     ss_Create = (\<lambda>x (s, out). (fst (Create x s), snd (Create x s), out))\<rparr>"

definition example_handler :: "example_world Handler" where
  "example_handler = BaseHandler\<lparr>h_SessionCreate := (\<lambda>_ _ w.
     ((Some (zero_SessionCreateResult\<lparr>scr_WMP := zero_Metadata\<lparr>md_Version := Version, md_SessionID := ''s1''\<rparr>\<rparr>), None), w))\<rparr>"

definition example_flows :: "example_world FlowHandler" where
  "example_flows = \<lparr>fh_FlowTypes = (\<lambda>_. [''demo'']), fh_StartFlow = (\<lambda>_ _ w. ((Some zero_FlowStartResult, None), w)),
     fh_HandleAction = (\<lambda>_ _ w. ((Some zero_FlowActionResult, None), w)), fh_HandleProgress = (\<lambda>_ _ w. w),
     fh_HandleComplete = (\<lambda>_ _ w. w), fh_HandleError = (\<lambda>_ _ w. w)\<rparr>"

definition example_profile :: "example_world Profile" where
  "example_profile = \<lparr>pf_Name = ''demo'', pf_Capabilities = [], pf_Init = (\<lambda>w. (None, w)), pf_FlowHandler = Some example_flows,
     pf_MethodHandler = None, pf_ResolveHandler = None, pf_SessionHook = None, pf_IdentifierResolver = None\<rparr>"

definition empty_world :: example_world where
  "empty_world = (NewMemorySessionStore, [])"

definition example_peer :: "example_world Peer" where
  "example_peer = fst (NewPeer example_transport example_handler
     [WithSessionStore memory_backend, WithProfile example_profile] empty_world)"

definition example_state :: "example_world dstate" where
  "example_state = \<lparr>flowOwners = Map.empty, world = empty_world\<rparr>"

lemma example_peer_eq:
  "example_peer = \<lparr>transport = example_transport, handler = example_handler, registry = registered example_profile empty_world newRegistry,
     sessionStore = Some memory_backend, maxMessageSize = 1048576, validator = None, authorizer = None\<rparr>"
proof -
  have "no_conflict example_profile empty_world newRegistry"
    by (simp add: no_conflict_def free_names_def flow_names_def method_names_def resolve_names_def
        newRegistry_def example_profile_def example_flows_def)
  then show ?thesis
    by (simp add: example_peer_def NewPeer_def WithSessionStore_def WithProfile_def Use_def register_success)
       (simp add: example_profile_def)
qed

lemma example_flow_handler: "flowHandlers (registry example_peer) ''demo'' = Some example_flows"
  by (simp add: example_peer_eq registered_def claim_def flow_names_def example_profile_def example_flows_def)

definition example_request :: Request where
  "example_request = \<lparr>req_JSONRPC = ''2.0'', req_ID = Some ''7'', req_Method = ''none'', req_Params = None\<rparr>"

definition text_member :: "bytes \<Rightarrow> bytes \<Rightarrow> bytes" where
  "text_member k v = quote_string k @ '':'' @ v"

definition start_text :: bytes where
  "start_text = ''{'' @ text_member ''flow_id'' (quote_string ''f'') @ '','' @ text_member ''flow_type'' (quote_string ''demo'') @ ''}''"

definition action_text :: bytes where
  "action_text = ''{'' @ text_member ''flow_id'' (quote_string ''f'') @ ''}''"

definition create_text :: "bytes \<Rightarrow> bytes" where
  "create_text v = ''{'' @ text_member ''wmp'' (''{'' @ text_member ''version'' (quote_string v) @ ''}'') @ ''}''"

definition session_text :: bytes where
  "session_text = ''{'' @ text_member ''wmp'' (''{'' @ text_member ''session_id'' (quote_string ''s1'') @ ''}'') @ ''}''"

lemma start_text_decoded:
  "unmarshal un_FlowStartParams zero_FlowStartParams (Some start_text)
     = Some (zero_FlowStartParams\<lparr>fsp_FlowID := ''f'', fsp_FlowType := ''demo''\<rparr>)"
  by code_simp

lemma action_text_decoded:
  "unmarshal un_FlowActionParams zero_FlowActionParams (Some action_text) = Some (zero_FlowActionParams\<lparr>fap_FlowID := ''f''\<rparr>)"
  "unmarshal un_FlowCompleteParams zero_FlowCompleteParams (Some action_text) = Some (zero_FlowCompleteParams\<lparr>fcp_FlowID := ''f''\<rparr>)"
  by code_simp+

lemma create_text_decoded:
  "unmarshal un_SessionCreateParams zero_SessionCreateParams (Some (create_text ''0.1''))
     = Some (zero_SessionCreateParams\<lparr>scp_WMP := zero_Metadata\<lparr>md_Version := ''0.1''\<rparr>\<rparr>)"
  "unmarshal un_SessionCreateParams zero_SessionCreateParams (Some (create_text ''9''))
     = Some (zero_SessionCreateParams\<lparr>scp_WMP := zero_Metadata\<lparr>md_Version := ''9''\<rparr>\<rparr>)"
  by code_simp+

lemma session_text_decoded:
  "unmarshal un_Envelope \<lparr>env_WMP = zero_Metadata\<rparr> (Some session_text) = Some \<lparr>env_WMP = zero_Metadata\<lparr>md_SessionID := ''s1''\<rparr>\<rparr>"
  by code_simp

section \<open>Properties\<close>

text \<open>
  C18: \<open>HandleRequestSync\<close> and the goroutine of \<open>Serve\<close> treat a request alike: the
  asynchronous path ends in the same state and writes, once, the response the synchronous
  path returns, except that it writes nothing for a notification.
\<close>

theorem sync_async_agree:
  "\<exists>c. handleRequest p ctx req st =
     (case sync_request p ctx req st of
        (None, st') \<Rightarrow> st'
      | (Some r, st') \<Rightarrow> if IsNotification req then st'
                        else st'\<lparr>world := snd (sendJSON p c (ms_Response r) (world st'))\<rparr>)"
  using handleRequest_sync [of p ctx req st] unfolding send_def .

text \<open>
  Every request with an ID gets exactly one response, which carries that ID, the
  version 2.0 and either a result or an error but not both.
\<close>

theorem one_answer:
  assumes "\<not> IsNotification req"
  shows "\<exists>r st'. sync_request p ctx req st = (Some r, st') \<and> resp_ID r = req_ID req \<and> resp_JSONRPC r = ''2.0''
    \<and> (resp_Result r = None \<longleftrightarrow> resp_Error r \<noteq> None)"
  using assms by (rule one_answer_shape)

theorem one_answer_witness:
  "\<exists>r st'. sync_request example_peer background example_request example_state = (Some r, st')
    \<and> resp_ID r = req_ID example_request \<and> resp_JSONRPC r = ''2.0'' \<and> (resp_Result r = None \<longleftrightarrow> resp_Error r \<noteq> None)"
  by (rule one_answer) (simp add: IsNotification_def example_request_def raw_empty_def)

text \<open>
  Serving a notification writes nothing: its effect is the same whatever the transport
  does, on every path, refusals included.
\<close>

theorem notification_silent:
  assumes "IsNotification req"
  shows "handleRequest (p\<lparr>transport := t\<rparr>) ctx req st = handleRequest p ctx req st"
proof -
  have d: "dispatchMethodInternal (p\<lparr>transport := t\<rparr>) = dispatchMethodInternal p"
    by (intro ext; unfold dispatchMethodInternal_def calls_ignore_transport transport_only; rule refl)
  have e: "enrich (p\<lparr>transport := t\<rparr>) = enrich p"
    by (intro ext; unfold enrich_def transport_only; rule refl)
  show ?thesis
    unfolding handleRequest_def authorize_def validate_def run_request_def d e transport_only
      eqTrueI [OF assms] if_True ..
qed

theorem notification_silent_witness:
  "handleRequest (example_peer\<lparr>transport := example_transport\<lparr>t_WriteMessage := \<lambda>_ _ w. (Some (GoErr ''closed''), w)\<rparr>\<rparr>)
     background (example_request\<lparr>req_ID := None\<rparr>) example_state
   = handleRequest example_peer background (example_request\<lparr>req_ID := None\<rparr>) example_state"
  by (rule notification_silent) (simp add: IsNotification_def raw_empty_def)

text \<open>
  A request the authorizer refuses reaches neither validator, session store, handler nor
  profile: the answer is \<open>not authorized\<close> and the only effect is the authorizer's own,
  whatever those components are.
\<close>

theorem refused_not_dispatched:
  assumes "authorizer p = Some a" "a ctx (req_Method req) (req_Params req) (world st) = (False, w)"
  shows "sync_request (p\<lparr>handler := h, registry := r, validator := v, sessionStore := ss\<rparr>) ctx req st
    = (Some (unauthorized req), st\<lparr>world := w\<rparr>)"
  using assms by (simp add: sync_request_def authorize_def)

theorem refused_not_dispatched_witness:
  "sync_request (example_peer\<lparr>authorizer := Some (\<lambda>_ _ _ w. (False, w)), handler := BaseHandler, registry := newRegistry,
     validator := None, sessionStore := None\<rparr>) background example_request example_state
   = (Some (unauthorized example_request), example_state\<lparr>world := empty_world\<rparr>)"
  using refused_not_dispatched [where p = "example_peer\<lparr>authorizer := Some (\<lambda>_ _ _ w. (False, w))\<rparr>"
      and a = "\<lambda>_ _ _ w. (False, w)" and st = example_state and w = empty_world]
  by (simp add: example_state_def)

text \<open>
  Parameters that are missing or are not JSON are refused with \<open>invalid params\<close> by
  every built-in method, before handler or profile is called.
\<close>

theorem malformed_params_refused:
  assumes "answers_to p method" "\<not> json_valid (case params of None \<Rightarrow> [] | Some d \<Rightarrow> d)"
  shows "dispatchMethodInternal p ctx method params st = ((RNil, Some (RPCErr (NewRPCError ErrInvalidParams None))), st)"
proof -
  have n: "json_parse (case params of None \<Rightarrow> [] | Some d \<Rightarrow> d) = None"
    using assms(2) by (cases "json_parse (case params of None \<Rightarrow> [] | Some d \<Rightarrow> d)") (auto simp: json_valid_def)
  have "method \<in> set builtin_methods" and
    cn: "method = MethodCredentialNotification \<Longrightarrow> \<exists>h. h_CredentialNotification (handler p) = Some h"
    using assms(1) by (auto simp: answers_to_def)
  then show ?thesis
    unfolding builtin_methods_def list.set insert_iff empty_iff
    by (elim disjE) (auto simp: dispatchMethodInternal_def with_params_None [OF n] fail_def)
qed

theorem malformed_params_refused_witness:
  "dispatchMethodInternal example_peer background ''wmp.flow.start'' None example_state
   = ((RNil, Some (RPCErr (NewRPCError ErrInvalidParams None))), example_state)"
  by (rule malformed_params_refused) (simp add: answers_to_def builtin_methods_def, code_simp)

text \<open>
  Profiles extend the protocol but cannot replace it: what a built-in method does is
  independent of the methods profiles have registered, and a method nobody handles is
  answered with \<open>method not found\<close> without any effect.
\<close>

theorem custom_methods_extend:
  "(method \<in> set builtin_methods \<longrightarrow>
      dispatchMethodInternal (p\<lparr>registry := (registry p)\<lparr>methods := ms\<rparr>\<rparr>) ctx method params st
        = dispatchMethodInternal p ctx method params st)
   \<and> (method \<notin> set builtin_methods \<and> methods (registry p) method = None \<longrightarrow>
      dispatchMethodInternal p ctx method params st = ((RNil, Some (RPCErr (NewRPCError ErrMethodNotFound None))), st))"
proof (intro conjI impI)
  assume m: "method \<in> set builtin_methods"
  let ?q = "p\<lparr>registry := (registry p)\<lparr>methods := ms\<rparr>\<rparr>"
  show "dispatchMethodInternal ?q ctx method params st = dispatchMethodInternal p ctx method params st"
    using m unfolding builtin_methods_def list.set insert_iff empty_iff
    by (elim disjE) (simp_all add: dispatchMethodInternal_def calls_ignore_methods)
next
  assume "method \<notin> set builtin_methods \<and> methods (registry p) method = None"
  then show "dispatchMethodInternal p ctx method params st = ((RNil, Some (RPCErr (NewRPCError ErrMethodNotFound None))), st)"
    unfolding builtin_methods_def list.set insert_iff empty_iff
    by (simp add: dispatchMethodInternal_def custom_method_def lookupMethod_def fail_def)
qed

theorem custom_methods_extend_witness:
  "dispatchMethodInternal example_peer background ''x.y'' None example_state
     = ((RNil, Some (RPCErr (NewRPCError ErrMethodNotFound None))), example_state)"
  using custom_methods_extend [of "''x.y''" Map.empty example_peer background None example_state]
  by (simp add: builtin_methods_def example_peer_eq registered_def claim_def method_names_def example_profile_def newRegistry_def)

text \<open>
  An error that is not an \<open>*RPCError\<close> reaches the peer as an internal error without its
  text, and the standard errors without data carry only their code and its message.
\<close>

theorem internal_errors_hidden:
  "answer req (r, Some (GoErr t)) = NewErrorResponse (req_ID req)
     (Some \<lparr>err_Code = -32603, err_Message = ''Internal error'', err_Data = None\<rparr>)"
  by (simp add: answer_def toRPCError_def NewRPCError_def ErrorMessage_def)

subsection \<open>Flows\<close>

text \<open>A sequence of requests dispatched one after the other.\<close>

definition dispatch_one :: "'w Peer \<Rightarrow> Context \<times> bytes \<times> raw \<Rightarrow> 'w dstate \<Rightarrow> 'w dstate" where
  "dispatch_one p = (\<lambda>(ctx, method, params) st. snd (dispatchMethodInternal p ctx method params st))"

lemma dispatch_all_frame:
  "\<forall>(ctx, method, params) \<in> set reqs. flow_touched method params \<noteq> Some fid \<Longrightarrow>
     flowOwners (fold (dispatch_one p) reqs st) fid = flowOwners st fid"
  by (induction reqs arbitrary: st) (auto simp: dispatch_one_def dispatch_flow_frame)

lemma dispatch_all_registered:
  "owners_registered p st \<Longrightarrow> owners_registered p (fold (dispatch_one p) reqs st)"
proof (induction reqs arbitrary: st)
  case (Cons req reqs)
  obtain ctx m params where req: "req = (ctx, m, params)" by (metis prod_cases3)
  have "owners_registered p (snd (dispatchMethodInternal p ctx m params st))"
    by (rule dispatch_inv [where P = "owners_registered p", OF _ _ _ _ _ Cons.prems])
       (auto intro: owners_registered_cong flow_owners_registered)
  with Cons req show ?case by (simp add: dispatch_one_def)
qed simp

text \<open>
  C10: a flow belongs to the profile that started it: after a profile has accepted a flow,
  and as long as no request starts, completes, fails or cancels that flow, every action on
  it is handled by that profile, whatever other requests are dispatched in between.
\<close>

theorem flow_routed_to_starter:
  assumes "unmarshal un_FlowStartParams zero_FlowStartParams params = Some a"
    and "flowHandlers (registry p) (fsp_FlowType a) = Some fh"
    and "fh_StartFlow fh ctx a (world st) = ((Some r, None), w)"
    and "\<forall>(ctx, method, params) \<in> set reqs. flow_touched method params \<noteq> Some (fsp_FlowID a)"
    and "unmarshal un_FlowActionParams zero_FlowActionParams params' = Some d" "fap_FlowID d = fsp_FlowID a"
    and "st' = fold (dispatch_one p) reqs (dispatch_one p (ctx, MethodFlowStart, params) st)"
  shows "dispatchMethodInternal p ctx' MethodFlowAction params' st'
    = (let ((res, e), w') = fh_HandleAction fh ctx' d (world st') in ((RFlowAction res, e), st'\<lparr>world := w'\<rparr>))"
proof -
  have "dispatch_one p (ctx, MethodFlowStart, params) st = \<lparr>flowOwners = (flowOwners st)(fsp_FlowID a \<mapsto> fh), world = w\<rparr>"
    unfolding dispatch_one_def prod.case dispatch_flow_methods
    using assms(1) flow_start_owner [OF assms(2,3)] by (simp add: with_params_def)
  then have "flowOwners st' (fsp_FlowID a) = Some fh"
    using dispatch_all_frame [OF assms(4), of p "dispatch_one p (ctx, MethodFlowStart, params) st"] by (simp add: assms(7))
  then show ?thesis
    unfolding dispatch_flow_methods using assms(5,6)
    by (simp add: with_params_def flow_action_def lookupFlowOwner_def ret_call_def)
qed

theorem flow_routed_to_starter_witness:
  "let st' = fold (dispatch_one example_peer) [(background, ''none'', None)]
       (dispatch_one example_peer (background, MethodFlowStart, Some start_text) example_state)
   in dispatchMethodInternal example_peer background MethodFlowAction (Some action_text) st'
      = (let ((res, e), w') = fh_HandleAction example_flows background (zero_FlowActionParams\<lparr>fap_FlowID := ''f''\<rparr>) (world st')
         in ((RFlowAction res, e), st'\<lparr>world := w'\<rparr>))"
  unfolding Let_def [of "fold _ _ _"]
  by (rule flow_routed_to_starter [OF start_text_decoded _ _ _ action_text_decoded(1) _ refl])
     (auto simp: example_flow_handler example_flows_def flow_touched_def)

text \<open>
  C39: a flow ends with its completion, its error or its cancellation: from then on, until it
  is started again, its actions go to the application handler.
\<close>

theorem flow_released:
  assumes "method \<in> {MethodFlowComplete, MethodFlowError, MethodFlowCancel}" "flow_touched method params = Some fid"
    and "\<forall>(ctx, method, params) \<in> set reqs. flow_touched method params \<noteq> Some fid"
    and "unmarshal un_FlowActionParams zero_FlowActionParams params' = Some d" "fap_FlowID d = fid"
    and "st' = fold (dispatch_one p) reqs (dispatch_one p (ctx, method, params) st)"
  shows "dispatchMethodInternal p ctx' MethodFlowAction params' st'
    = (let ((res, e), w') = h_FlowAction (handler p) ctx' d (world st') in ((RFlowAction res, e), st'\<lparr>world := w'\<rparr>))"
proof -
  have "flowOwners (dispatch_one p (ctx, method, params) st) fid = None"
    using assms(1,2) flow_ends
    by (elim insertE) (auto simp: dispatch_one_def dispatchMethodInternal_def with_params_def flow_touched_def split: option.splits)
  then have "flowOwners st' fid = None"
    using dispatch_all_frame [OF assms(3), of p "dispatch_one p (ctx, method, params) st"] by (simp add: assms(6))
  then show ?thesis
    unfolding dispatch_flow_methods using assms(4,5)
    by (simp add: with_params_def flow_action_def lookupFlowOwner_def ret_call_def)
qed

theorem flow_released_witness:
  "let st' = fold (dispatch_one example_peer) [(background, ''none'', None)]
       (dispatch_one example_peer (background, MethodFlowComplete, Some action_text) example_state)
   in dispatchMethodInternal example_peer background MethodFlowAction (Some action_text) st'
      = (let ((res, e), w') = h_FlowAction example_handler background (zero_FlowActionParams\<lparr>fap_FlowID := ''f''\<rparr>) (world st')
         in ((RFlowAction res, e), st'\<lparr>world := w'\<rparr>))"
proof -
  have h: "example_handler = handler example_peer" by (simp add: example_peer_eq)
  show ?thesis
    unfolding Let_def [of "fold _ _ _"] h
    by (rule flow_released [OF _ _ _ action_text_decoded(1) _ refl, where fid = "''f''"])
       (auto simp: flow_touched_def action_text_decoded(2))
qed

text \<open>
  Whatever requests are dispatched, only handlers that a profile registered for some flow
  type ever own a flow.
\<close>

theorem owners_are_registered:
  "ran (flowOwners (fold (dispatch_one p) reqs \<lparr>flowOwners = Map.empty, world = w\<rparr>)) \<subseteq> ran (flowHandlers (registry p))"
  using dispatch_all_registered [of p "\<lparr>flowOwners = Map.empty, world = w\<rparr>" reqs] by (simp add: owners_registered_def)

subsection \<open>Sessions\<close>

text \<open>
  A session or a resumption asked for with a protocol version the peer does not support
  is refused with the list of supported versions, and the handler is not called.
\<close>

theorem version_gate:
  assumes "method = MethodSessionCreate \<and> map_option (md_Version \<circ> scp_WMP) (unmarshal un_SessionCreateParams zero_SessionCreateParams params) = Some v
     \<or> method = MethodSessionResume \<and> map_option (md_Version \<circ> srp_WMP) (unmarshal un_SessionResumeParams zero_SessionResumeParams params) = Some v"
    and "v \<noteq> Version"
  shows "dispatchMethodInternal p ctx method params st
    = ((RNil, Some (RPCErr \<lparr>err_Code = ErrVersionNotSupported, err_Message = ErrorMessage ErrVersionNotSupported,
         err_Data = ms_map (ms_list ms_string) [(''supported_versions'', [Version])]\<rparr>)), st)"
  using assms
  by (elim disjE conjE)
     (auto simp: dispatchMethodInternal_def with_params_def session_create_def session_resume_def IsSupportedVersion_def
      SupportedVersions_def fail_def NewRPCError_def supported_data_def)

theorem version_gate_witness:
  "dispatchMethodInternal example_peer background MethodSessionCreate (Some (create_text ''9'')) example_state
    = ((RNil, Some (RPCErr \<lparr>err_Code = ErrVersionNotSupported, err_Message = ErrorMessage ErrVersionNotSupported,
         err_Data = ms_map (ms_list ms_string) [(''supported_versions'', [Version])]\<rparr>)), example_state)"
  by (rule version_gate [where v = "''9''"]) (simp_all add: create_text_decoded)

text \<open>
  A session the handler has accepted is stored, and the context of every later request
  that names it carries it: the participants asked for, with what the handler negotiated.
\<close>

theorem created_session_found:
  assumes store: "sessionStore p = Some store" "\<And>s w. ss_Get store (ses_ID s) (snd (ss_Create store s w)) = Some s"
    and ps: "unmarshal un_SessionCreateParams zero_SessionCreateParams params = Some ps" "md_Version (scp_WMP ps) = Version"
    and h: "h_SessionCreate (handler p) ctx ps (world st) = ((Some r, None), w)" "md_SessionID (scr_WMP r) \<noteq> []"
    and hooks: "sessionHooks (registry p) = []"
    and d: "dispatchMethodInternal p ctx MethodSessionCreate params st = (out, st')"
    and req: "unmarshal un_Envelope \<lparr>env_WMP = zero_Metadata\<rparr> (req_Params req) = Some env"
      "md_SessionID (env_WMP env) = md_SessionID (scr_WMP r)"
  shows "out = (RSessionCreate (Some r), None) \<and>
    SessionFromContext (enrich p req ctx' (world st')) = Some (new_session ps r)"
proof -
  have "dispatchMethodInternal p ctx MethodSessionCreate params st = session_create p ctx ps st"
    using ps by (simp add: dispatchMethodInternal_def with_params_def)
  also have "\<dots> = ((RSessionCreate (Some r), None), st\<lparr>world := snd (ss_Create store (new_session ps r) w)\<rparr>)"
    using store(1) ps(2) h hooks
    by (simp add: session_create_def IsSupportedVersion_def SupportedVersions_def runSessionCreateHooks_def)
  finally have st': "out = (RSessionCreate (Some r), None)" "st' = st\<lparr>world := snd (ss_Create store (new_session ps r) w)\<rparr>"
    using d by auto
  have "ss_Get store (md_SessionID (scr_WMP r)) (world st') = Some (new_session ps r)"
    using store(2) [of "new_session ps r" w] by (simp add: st' new_session_def)
  with st' store(1) req h(2) show ?thesis
    by (simp add: enrich_def context_defs Let_def)
qed

theorem created_session_found_witness:
  "\<exists>s. ses_ID s = ''s1'' \<and> SessionFromContext (enrich example_peer (example_request\<lparr>req_Params := Some session_text\<rparr>) background
     (world (snd (dispatchMethodInternal example_peer background MethodSessionCreate (Some (create_text ''0.1'')) example_state)))) = Some s"
proof -
  let ?r = "zero_SessionCreateResult\<lparr>scr_WMP := zero_Metadata\<lparr>md_Version := Version, md_SessionID := ''s1''\<rparr>\<rparr>"
  let ?ps = "zero_SessionCreateParams\<lparr>scp_WMP := zero_Metadata\<lparr>md_Version := ''0.1''\<rparr>\<rparr>"
  have "fst (dispatchMethodInternal example_peer background MethodSessionCreate (Some (create_text ''0.1'')) example_state)
      = (RSessionCreate (Some ?r), None) \<and>
    SessionFromContext (enrich example_peer (example_request\<lparr>req_Params := Some session_text\<rparr>) background
     (world (snd (dispatchMethodInternal example_peer background MethodSessionCreate (Some (create_text ''0.1'')) example_state))))
      = Some (new_session ?ps ?r)"
    by (rule created_session_found [where p = example_peer and store = memory_backend and w = empty_world and ps = ?ps and r = ?r
          and env = "\<lparr>env_WMP = zero_Metadata\<lparr>md_SessionID := ''s1''\<rparr>\<rparr>"
          and params = "Some (create_text ''0.1'')" and ctx = background and st = example_state])
       (auto simp: example_peer_eq memory_backend_def Create_def Get_def create_text_decoded session_text_decoded
         example_handler_def example_state_def registered_def opt_list_def example_profile_def newRegistry_def split: prod.splits)
  then show ?thesis by (intro exI [of _ "new_session ?ps ?r"]) (simp add: new_session_def)
qed

text \<open>
  When a session hook refuses a session, the caller gets the hook's error (an internal
  error if it is not an RPC error), later hooks are not run and nothing is stored.
\<close>

theorem hook_veto:
  assumes "unmarshal un_SessionCreateParams zero_SessionCreateParams params = Some ps" "md_Version (scp_WMP ps) = Version"
    and "h_SessionCreate (handler p) ctx ps (world st) = ((Some r, None), w)" "md_SessionID (scr_WMP r) \<noteq> []"
    and "sessionStore p = Some store"
    and "sessionHooks (registry p) = hs @ h # hs'" "create_hooks_loop hs ctx ps (new_session ps r) w = (None, s, w1)"
    and "sh_OnSessionCreate h ctx s ps w1 = (Some e, s', w2)"
  shows "dispatchMethodInternal p ctx MethodSessionCreate params st
    = ((RNil, Some (RPCErr (case e of RPCErr x \<Rightarrow> x | GoErr _ \<Rightarrow> NewRPCError ErrInternalError None))), st\<lparr>world := w2\<rparr>)"
  using assms
  by (auto simp: dispatchMethodInternal_def with_params_def session_create_def IsSupportedVersion_def SupportedVersions_def
      runSessionCreateHooks_def create_hooks_append toRPCError_def split: go_error.splits)

definition veto_hook :: "example_world SessionHook" where
  "veto_hook = \<lparr>sh_OnSessionCreate = (\<lambda>_ s _ w. (Some (GoErr ''no''), s, w)), sh_OnSessionClose = (\<lambda>_ s _ w. (s, w))\<rparr>"

theorem hook_veto_witness:
  "dispatchMethodInternal (example_peer\<lparr>registry := newRegistry\<lparr>sessionHooks := [veto_hook]\<rparr>\<rparr>) background MethodSessionCreate
      (Some (create_text ''0.1'')) example_state
    = ((RNil, Some (RPCErr (NewRPCError ErrInternalError None))), example_state\<lparr>world := empty_world\<rparr>)"
  using hook_veto [OF create_text_decoded(1), where p = "example_peer\<lparr>registry := newRegistry\<lparr>sessionHooks := [veto_hook]\<rparr>\<rparr>"
      and ctx = background and st = example_state and hs = "[]" and h = veto_hook and hs' = "[]" and e = "GoErr ''no''"
      and w = empty_world and ?w1.0 = empty_world and ?w2.0 = empty_world and store = memory_backend
      and r = "zero_SessionCreateResult\<lparr>scr_WMP := zero_Metadata\<lparr>md_Version := Version, md_SessionID := ''s1''\<rparr>\<rparr>"]
  by (simp add: example_peer_eq example_handler_def example_state_def veto_hook_def)

text \<open>
  The session the peer records carries no expiry: it is never expired, so no clean-up of
  the store removes it, whatever lifetime was asked for or granted.
\<close>

theorem recorded_session_never_expires:
  "\<not> IsExpired now (new_session ps r) \<and>
   Get (md_SessionID (scr_WMP r)) (snd (Cleanup now (snd (Create (new_session ps r) (fold apply_op ops NewMemorySessionStore)))))
     = Some (new_session ps r)"
proof -
  have live: "\<not> IsExpired now (new_session ps r)" by (simp add: new_session_def IsExpired_def IsZero_def zero_time_def)
  have ok: "store_ok (fold apply_op ops NewMemorySessionStore)" using run_ops [OF mem.invar_new] by blast
  have "Get (md_SessionID (scr_WMP r)) (snd (Create (new_session ps r) (fold apply_op ops NewMemorySessionStore))) = Some (new_session ps r)"
    using ok by (simp add: mem.get_create new_session_def)
  with live ok show ?thesis by (simp add: mem.live_session_survives_cleanup mem.invar_create)
qed

subsection \<open>Messages read from the transport\<close>

text \<open>
  C27: the only message that makes a serving peer panic is a batch within the size limit in
  which a \<open>null\<close> follows messages that are all acceptable.
\<close>

theorem serve_panics_only_on_null:
  "crashed (serve_message p ctx data ps) \<longleftrightarrow>
     crashed ps \<or>
     (int (length data) \<le> maxMessageSize p \<and> int (length data) \<le> maxSize (Some (decOpts p))
      \<and> (\<exists>t. trimSpace data = CHR ''['' # t)
      \<and> (\<exists>b v rest out. json_next (trimSpace data) = Some (b, v, rest)
           \<and> un_slice None (un_ptr zero_Message un_Message) b v None = Some (Some out)
           \<and> (\<exists>pre post. out = map Some pre @ None # post \<and> list_all (message_ok (maxDepth (Some (decOpts p)))) pre)))"
  unfolding serve_message_crashed DecodeBatch_panics by (simp add: first_opt_def)

lemma null_batch_next: "json_next ''[null]'' = Some (''[null]'', JArr [(''null'', JNull)], [])"
  by code_simp

text \<open>
  Six bytes stop any peer that accepts messages of that size: the batch \<open>[null]\<close> makes
  \<open>Serve\<close> dereference a nil message, and no later message is read.
\<close>

theorem null_batch_crashes:
  assumes "6 \<le> maxMessageSize p"
  shows "crashed (Serve p ctx (''[null]'' # rest) ps) \<and> Serve p ctx (''[null]'' # rest) ps = serve_message p ctx ''[null]'' ps"
proof -
  have "crashed (serve_message p ctx ''[null]'' ps)"
    unfolding serve_message_crashed DecodeBatch_panics using assms null_batch_next
    by (auto simp: first_opt_def maxSize_def decOpts_def trimSpace_def un_slice_def un_ptr_def intro!: exI [of _ "[]"])
  then show ?thesis by simp
qed

theorem null_batch_crashes_witness:
  "crashed (Serve example_peer background [''[null]'', ''{}'']
     \<lparr>disp = example_state, pending = Map.empty, chans = (\<lambda>_. []), spawned = [], crashed = False\<rparr>)"
  by (rule null_batch_crashes [THEN conjunct1]) (simp add: example_peer_eq)

text \<open>
  C26: \<open>HandleRequestSync\<close> always answers a request: with results and error data that are
  valid JSON, it returns the bytes of one response to that request and no error.
\<close>

theorem sync_answers_requests:
  assumes m: "DecodeMessage data [Some (decOpts p)] = Inr m" "int (length data) \<le> maxMessageSize p"
    and req: "\<not> IsResponse m" "\<not> IsNotification (AsRequest m)"
    and ok: "\<And>st. outcome_ok (fst (run_request p ctx (AsRequest m) st))"
  shows "\<exists>r b ps'. HandleRequestSync p ctx data ps = ((Some b, None), ps') \<and> ms_Response r = Some b \<and> resp_ID r = msg_ID m"
proof -
  have rid: "raw_ok (req_ID (AsRequest m))" using DecodeMessage_raws [OF m(1)] by (simp add: AsRequest_def message_raws_ok_def)
  from one_answer_shape [OF req(2)] obtain r st' where
    r: "sync_request p ctx (AsRequest m) (disp ps) = (Some r, st')" "resp_ID r = msg_ID m"
    by (metis AsRequest_def Request.select_convs(2))
  have "\<exists>b. ms_Response r = Some b"
    using r(1) rid ok by (rule sync_response_marshals)
  with m req r show ?thesis by (auto simp: HandleRequestSync_def Let_def)
qed

definition call_text :: bytes where
  "call_text = ''{'' @ text_member ''jsonrpc'' (quote_string ''2.0'') @ '','' @ text_member ''id'' ''1'' @ '',''
     @ text_member ''method'' (quote_string ''x'') @ ''}''"

lemma call_text_decoded:
  "DecodeMessage call_text [Some \<lparr>MaxSize = 1048576, MaxDepth = 32\<rparr>]
     = Inr (zero_Message\<lparr>msg_JSONRPC := ''2.0'', msg_ID := Some ''1'', msg_Method := ''x''\<rparr>)"
  by code_simp

lemma call_text_length: "length call_text = 37"
  by code_simp

theorem sync_answers_requests_witness:
  "\<exists>r b ps'. HandleRequestSync example_peer background call_text
      \<lparr>disp = example_state, pending = Map.empty, chans = (\<lambda>_. []), spawned = [], crashed = False\<rparr> = ((Some b, None), ps')
    \<and> ms_Response r = Some b \<and> resp_ID r = Some ''1''"
proof -
  let ?m = "zero_Message\<lparr>msg_JSONRPC := ''2.0'', msg_ID := Some ''1'', msg_Method := ''x''\<rparr>"
  have "DecodeMessage call_text [Some (decOpts example_peer)] = Inr ?m"
    using call_text_decoded by (simp add: decOpts_def example_peer_eq)
  moreover have "int (length call_text) \<le> maxMessageSize example_peer" by (simp add: call_text_length example_peer_eq)
  moreover have "outcome_ok (fst (run_request example_peer background (AsRequest ?m) st))" for st
    by (simp add: run_request_def example_peer_eq registered_def newRegistry_def runMiddleware_def AsRequest_def
        dispatchMethodInternal_def custom_method_def lookupMethod_def claim_def method_names_def example_profile_def fail_def
        outcome_ok_def NewRPCError_def raw_ok_def)
  ultimately show ?thesis
    using sync_answers_requests [of call_text example_peer ?m background]
    by (simp add: IsResponse_def IsNotification_def AsRequest_def raw_empty_def zero_Message_def)
qed

end
