(* ===== verification/Go_Base64.thy ===== *)
theory Go_Base64
  imports Go_Codec_Facts
begin

text \<open>
  \<open>base64.RawURLEncoding\<close> of the standard library: the URL-safe alphabet without padding.
  Decoding is strict in the way the program relies on: an unknown character or a dangling
  single character is an error; the unused bits of the last character are ignored.
\<close>

text \<open>\<open>base64.RawURLEncoding.EncodeToString\<close>.\<close>

definition b64_alphabet :: bytes where
  "b64_alphabet = ''ABCDEFGHIJKLMNOPQRSTUVWXYZabcdefghijklmnopqrstuvwxyz0123456789-_''"

definition b64_char :: "nat \<Rightarrow> char" where
  "b64_char n = b64_alphabet ! n"

fun b64_raw_url :: "bytes \<Rightarrow> bytes" where
  "b64_raw_url [] = []"
| "b64_raw_url [a] = [b64_char (byte a div 4), b64_char (byte a mod 4 * 16)]"
| "b64_raw_url [a, b] =
     [b64_char (byte a div 4), b64_char (byte a mod 4 * 16 + byte b div 16), b64_char (byte b mod 16 * 4)]"
| "b64_raw_url (a # b # c # s) =
     b64_char (byte a div 4) # b64_char (byte a mod 4 * 16 + byte b div 16)
     # b64_char (byte b mod 16 * 4 + byte c div 64) # b64_char (byte c mod 64) # b64_raw_url s"

text \<open>
  \<open>DecodeString\<close>: line breaks in the input are skipped, every other character must belong
  to the alphabet.
\<close>

definition b64_value :: "char \<Rightarrow> nat option" where
  "b64_value c =
     (let n = byte c in
      if 65 \<le> n \<and> n \<le> 90 then Some (n - 65)
      else if 97 \<le> n \<and> n \<le> 122 then Some (n - 71)
      else if 48 \<le> n \<and> n \<le> 57 then Some (n + 4)
      else if n = 45 then Some 62 else if n = 95 then Some 63 else None)"

fun b64_groups :: "nat list \<Rightarrow> bytes option" where
  "b64_groups [] = Some []"
| "b64_groups [a] = None"
| "b64_groups [a, b] = Some [char_of (a * 4 + b div 16)]"
| "b64_groups [a, b, c] = Some [char_of (a * 4 + b div 16), char_of (b mod 16 * 16 + c div 4)]"
| "b64_groups (a # b # c # d # s) =
     map_option (\<lambda>t. char_of (a * 4 + b div 16) # char_of (b mod 16 * 16 + c div 4) # char_of (c mod 4 * 64 + d) # t)
       (b64_groups s)"

fun b64_values :: "bytes \<Rightarrow> nat list option" where
  "b64_values [] = Some []"
| "b64_values (c # s) =
     (if c = CHR 0x0A \<or> c = CHR 0x0D then b64_values s
      else (case b64_value c of None \<Rightarrow> None | Some v \<Rightarrow> map_option (Cons v) (b64_values s)))"

definition b64_decode :: "bytes \<Rightarrow> bytes option" where
  "b64_decode s = Option.bind (b64_values s) b64_groups"

section \<open>Round trip\<close>

lemma b64_char_code: "n < 64 \<Longrightarrow> b64_char n = char_of (if n < 26 then n + 65 else if n < 52 then n + 71
    else if n < 62 then n - 4 else if n = 62 then 45 else 95)"
proof -
  have "list_all (\<lambda>n. b64_char n = char_of (if n < 26 then n + 65 else if n < 52 then n + 71
      else if n < 62 then n - 4 else if n = 62 then 45 else (95 :: nat))) [0..<64]"
    by code_simp
  moreover assume "n < 64"
  ultimately show ?thesis by (auto simp: list_all_iff)
qed

lemma b64_value_char: "n < 64 \<Longrightarrow> b64_value (b64_char n) = Some n"
  by (auto simp: b64_char_code b64_value_def Let_def)

lemma b64_values_char: "n < 64 \<Longrightarrow> b64_values (b64_char n # s) = map_option (Cons n) (b64_values s)"
proof -
  assume n: "n < 64"
  then have "b64_char n \<noteq> CHR 0x0A \<and> b64_char n \<noteq> CHR 0x0D"
    using b64_value_char [OF n] by (auto simp: b64_value_def)
  with b64_value_char [OF n] show ?thesis by simp
qed

text \<open>Packing two fields into one number and taking them apart again.\<close>

lemma pack: "y < k \<Longrightarrow> (x * k + y) div k = (x :: nat)" "y < k \<Longrightarrow> (x * k + y) mod k = (y :: nat)"
  by (simp_all add: div_add1_eq)

lemma b64_bounds [simp]:
  "byte a div 4 < 64" "byte a mod 4 * 16 < 64" "byte a mod 4 * 16 + byte b div 16 < 64"
  "byte b mod 16 * 4 < 64" "byte b mod 16 * 4 + byte c div 64 < 64"
proof -
  have a: "byte a < 256" and b: "byte b < 256" and c: "byte c < 256" by simp_all
  have m: "byte a mod 4 \<le> 3" "byte b mod 16 \<le> 15" by simp_all
  have d: "byte a div 4 < 64" "byte b div 16 < 16" "byte c div 64 < 4" using a b c by linarith+
  show "byte a div 4 < 64" by (rule d)
  show "byte a mod 4 * 16 < 64" "byte a mod 4 * 16 + byte b div 16 < 64" using m d by linarith+
  show "byte b mod 16 * 4 < 64" "byte b mod 16 * 4 + byte c div 64 < 64" using m d by linarith+
qed

lemma b64_unpack:
  "byte a div 4 * 4 + (byte a mod 4 * 16 + byte b div 16) div 16 = byte a"
  "(byte a mod 4 * 16 + byte b div 16) mod 16 * 16 + (byte b mod 16 * 4 + byte c div 64) div 4 = byte b"
  "(byte b mod 16 * 4 + byte c div 64) mod 4 * 64 + byte c mod 64 = byte c"
  "byte a div 4 * 4 + (byte a mod 4 * 16) div 16 = byte a"
  "(byte a mod 4 * 16 + byte b div 16) mod 16 * 16 + (byte b mod 16 * 4) div 4 = byte b"
proof -
  have "byte b < 256" "byte c < 256" by simp_all
  then have d: "byte b div 16 < 16" "byte c div 64 < 4" by linarith+
  show "byte a div 4 * 4 + (byte a mod 4 * 16 + byte b div 16) div 16 = byte a"
    "(byte a mod 4 * 16 + byte b div 16) mod 16 * 16 + (byte b mod 16 * 4 + byte c div 64) div 4 = byte b"
    "(byte b mod 16 * 4 + byte c div 64) mod 4 * 64 + byte c mod 64 = byte c"
    "byte a div 4 * 4 + (byte a mod 4 * 16) div 16 = byte a"
    "(byte a mod 4 * 16 + byte b div 16) mod 16 * 16 + (byte b mod 16 * 4) div 4 = byte b"
    using pack [OF d(1)] pack [OF d(2)] by simp_all
qed

lemma b64_small [simp]:
  "byte b div 16 div 16 = 0" "byte b div 16 mod 16 = byte b div 16" "byte c div 64 div 4 = 0" "byte c div 64 mod 4 = byte c div 64"
proof -
  have "byte b < 256" "byte c < 256" by simp_all
  then have "byte b div 16 < 16" "byte c div 64 < 4" by linarith+
  then show "byte b div 16 div 16 = 0" "byte b div 16 mod 16 = byte b div 16" "byte c div 64 div 4 = 0"
    "byte c div 64 mod 4 = byte c div 64" by simp_all
qed

lemma b64_values_encoded: "\<exists>ns. b64_values (b64_raw_url s) = Some ns \<and> b64_groups ns = Some s"
proof (induction s rule: b64_raw_url.induct)
  case (4 a b c s)
  then show ?case by (auto simp: b64_values_char b64_unpack simp del: b64_values.simps(2))
qed (auto simp: b64_values_char b64_unpack simp del: b64_values.simps(2))

lemma b64_roundtrip: "b64_decode (b64_raw_url s) = Some s"
  using b64_values_encoded [of s] by (auto simp: b64_decode_def)

lemma b64_inj: "b64_raw_url s = b64_raw_url t \<Longrightarrow> s = t"
  by (metis b64_roundtrip option.inject)

text \<open>The encoded text only has characters of the alphabet.\<close>

definition b64_text :: "char \<Rightarrow> bool" where
  "b64_text c \<longleftrightarrow> b64_value c \<noteq> None"

lemma b64_text_char: "n < 64 \<Longrightarrow> b64_text (b64_char n)"
  by (simp add: b64_text_def b64_value_char)

lemma b64_encoded_text: "list_all b64_text (b64_raw_url s)"
  by (induction s rule: b64_raw_url.induct) (auto simp: b64_text_char)

lemma b64_text_ascii: "list_all b64_text s \<Longrightarrow> ascii s"
  by (auto simp: ascii_def list_all_iff b64_text_def b64_value_def Let_def split: if_splits)

lemma b64_length: "length (b64_raw_url s) = (4 * length s + 2) div 3"
  by (induction s rule: b64_raw_url.induct) auto

lemma b64_nonempty: "b64_raw_url s = [] \<longleftrightarrow> s = []"
  by (cases s rule: b64_raw_url.cases) auto

end
