(* ===== verification/Peer_Calls.thy ===== *)
theory Peer_Calls
  imports Peer_Props Go_Base64
begin

text \<open>
  Outgoing calls (\<open>Call\<close>, \<open>CallWithID\<close> and \<open>generateRequestID\<close> of peer.go) and how they
  interleave with serving. A goroutine in \<open>CallWithID\<close> is identified by the channel it
  waits on; its steps are the critical sections and the channel operations of the code, so
  every interleaving of calls, cancellations, incoming messages and request goroutines is a
  sequence of steps of the relation \<open>cstep\<close>.
\<close>

section \<open>Request identifiers\<close>

text \<open>The argument is what \<open>rand.Read\<close> fills the buffer with, \<open>None\<close> when it fails.\<close>

definition generateRequestID :: "bytes option \<Rightarrow> go_error + bytes" where
  "generateRequestID rand =
     (case rand of
        None \<Rightarrow> Inl (GoErr ''generate request id'')
      | Some b \<Rightarrow> Inr (''req-'' @ b64_raw_url b))"

section \<open>Calls\<close>

datatype call_phase =
    Sending
  | Waiting
  | Returned "go_error + Response"

record call =
  call_id :: bytes
  call_req :: Request
  call_phase :: call_phase

record 'w cstate =
  peer_state :: "'w pstate"
  calls :: "nat \<rightharpoonup> call"
  next_ch :: nat

text \<open>What \<open>CallWithID\<close> returns for a response: the last \<open>json.Unmarshal\<close> is into the caller's type.\<close>

definition call_result :: "'r decoder \<Rightarrow> 'r \<Rightarrow> bool \<Rightarrow> Response \<Rightarrow> go_error + 'r" where
  "call_result un zero wanted resp =
     (case resp_Error resp of
        Some e \<Rightarrow> Inl (RPCErr e)
      | None \<Rightarrow>
          if wanted \<and> resp_Result resp \<noteq> None then
            (case unmarshal un zero (resp_Result resp) of
               None \<Rightarrow> Inl (GoErr ''unmarshal'')
             | Some v \<Rightarrow> Inr v)
          else Inr zero)"

definition set_pending :: "(bytes \<rightharpoonup> nat) \<Rightarrow> 'w cstate \<Rightarrow> 'w cstate" where
  "set_pending m s = s\<lparr>peer_state := (peer_state s)\<lparr>pending := m\<rparr>\<rparr>"

definition set_phase :: "nat \<Rightarrow> call \<Rightarrow> call_phase \<Rightarrow> 'w cstate \<Rightarrow> 'w cstate" where
  "set_phase ch c ph s = s\<lparr>calls := (calls s)(ch \<mapsto> c\<lparr>call_phase := ph\<rparr>)\<rparr>"

text \<open>Build the request, make the channel and register it; a request that cannot be built has no effect.\<close>

definition call_start :: "bytes \<Rightarrow> bytes \<Rightarrow> bytes option \<Rightarrow> 'w cstate \<Rightarrow> 'w cstate" where
  "call_start rid method params s =
     (case NewRequest rid method params of
        Inl e \<Rightarrow> s
      | Inr req \<Rightarrow>
          (let ch = next_ch s;
               s1 = set_pending ((pending (peer_state s))(rid \<mapsto> ch)) s
           in s1\<lparr>calls := (calls s1)(ch \<mapsto> \<lparr>call_id = rid, call_req = req, call_phase = Sending\<rparr>), next_ch := Suc ch\<rparr>))"

text \<open>\<open>Call\<close> makes up the identifier.\<close>

definition Call :: "bytes option \<Rightarrow> bytes \<Rightarrow> bytes option \<Rightarrow> 'w cstate \<Rightarrow> go_error option \<times> 'w cstate" where
  "Call rand method params s =
     (case generateRequestID rand of
        Inl e \<Rightarrow> (Some e, s)
      | Inr rid \<Rightarrow> (None, call_start rid method params s))"

definition forget :: "bytes \<Rightarrow> 'w cstate \<Rightarrow> 'w cstate" where
  "forget rid s = set_pending ((pending (peer_state s))(rid := None)) s"

definition set_world :: "'w \<Rightarrow> 'w cstate \<Rightarrow> 'w cstate" where
  "set_world w s = s\<lparr>peer_state := (peer_state s)\<lparr>disp := (disp (peer_state s))\<lparr>world := w\<rparr>\<rparr>\<rparr>"

definition call_send :: "'w Peer \<Rightarrow> Context \<Rightarrow> nat \<Rightarrow> call \<Rightarrow> 'w cstate \<Rightarrow> 'w cstate" where
  "call_send p ctx ch c s =
     (case sendJSON p ctx (ms_Request (call_req c)) (world (disp (peer_state s))) of
        (Some e, w) \<Rightarrow> set_phase ch c (Returned (Inl e)) (forget (call_id c) (set_world w s))
      | (None, w) \<Rightarrow> set_phase ch c Waiting (set_world w s))"

definition call_receive :: "nat \<Rightarrow> call \<Rightarrow> Response \<Rightarrow> Response list \<Rightarrow> 'w cstate \<Rightarrow> 'w cstate" where
  "call_receive ch c r rs s =
     set_phase ch c (Returned (Inr r)) (s\<lparr>peer_state := (peer_state s)\<lparr>chans := (chans (peer_state s))(ch := rs)\<rparr>\<rparr>)"

definition call_cancel :: "nat \<Rightarrow> call \<Rightarrow> go_error \<Rightarrow> 'w cstate \<Rightarrow> 'w cstate" where
  "call_cancel ch c e s = set_phase ch c (Returned (Inl e)) (forget (call_id c) s)"

inductive cstep :: "'w Peer \<Rightarrow> 'w cstate \<Rightarrow> 'w cstate \<Rightarrow> bool" for p where
  start: "cstep p s (call_start rid method params s)"
| send: "calls s ch = Some c \<Longrightarrow> call_phase c = Sending \<Longrightarrow> cstep p s (call_send p ctx ch c s)"
| receive: "calls s ch = Some c \<Longrightarrow> call_phase c = Waiting \<Longrightarrow> chans (peer_state s) ch = r # rs \<Longrightarrow>
    cstep p s (call_receive ch c r rs s)"
| cancel: "calls s ch = Some c \<Longrightarrow> call_phase c = Waiting \<Longrightarrow> cstep p s (call_cancel ch c e s)"
| serve: "cstep p s (s\<lparr>peer_state := serve_message p ctx data (peer_state s)\<rparr>)"
| run: "spawned (peer_state s) = rs @ req # rs' \<Longrightarrow>
    cstep p s (s\<lparr>peer_state := (peer_state s)\<lparr>spawned := rs @ rs', disp := handleRequest p ctx req (disp (peer_state s))\<rparr>\<rparr>)"
| sync: "cstep p s (s\<lparr>peer_state := snd (HandleRequestSync p ctx data (peer_state s))\<rparr>)"

inductive_cases cstepE: "cstep p s s'"

definition new_cstate :: "'w dstate \<Rightarrow> 'w cstate" where
  "new_cstate st =
     \<lparr>peer_state = \<lparr>disp = st, pending = Map.empty, chans = (\<lambda>_. []), spawned = [], crashed = False\<rparr>,
      calls = Map.empty, next_ch = 0\<rparr>"

definition reachable :: "'w Peer \<Rightarrow> 'w cstate \<Rightarrow> bool" where
  "reachable p s \<longleftrightarrow> (\<exists>st. (cstep p)\<^sup>*\<^sup>* (new_cstate st) s)"

section \<open>The invariant of calls\<close>

definition pending_ok :: "'w cstate \<Rightarrow> bool" where
  "pending_ok s \<longleftrightarrow> (\<forall>rid ch. pending (peer_state s) rid = Some ch \<longrightarrow>
     chans (peer_state s) ch = [] \<and> (\<exists>c. calls s ch = Some c \<and> call_id c = rid \<and> (call_phase c = Sending \<or> call_phase c = Waiting)))"

definition chans_ok :: "'w cstate \<Rightarrow> bool" where
  "chans_ok s \<longleftrightarrow> (\<forall>ch. chans (peer_state s) ch = [] \<or>
     (\<exists>r c. chans (peer_state s) ch = [r] \<and> calls s ch = Some c \<and> rawIDToString (resp_ID r) = call_id c))"

definition calls_ok :: "'w cstate \<Rightarrow> bool" where
  "calls_ok s \<longleftrightarrow> (\<forall>ch c r. calls s ch = Some c \<longrightarrow> ch < next_ch s \<and>
     (call_phase c = Returned (Inr r) \<longrightarrow> rawIDToString (resp_ID r) = call_id c))"

definition call_inv :: "'w cstate \<Rightarrow> bool" where
  "call_inv s \<longleftrightarrow> pending_ok s \<and> chans_ok s \<and> calls_ok s"

lemmas call_inv_defs = call_inv_def pending_ok_def chans_ok_def calls_ok_def

lemma call_inv_new: "call_inv (new_cstate st)"
  by (simp add: call_inv_defs new_cstate_def)

text \<open>Everything a served message does to pending calls is what \<open>handleResponse\<close> does.\<close>

definition same_calls :: "'w pstate \<Rightarrow> 'w pstate \<Rightarrow> bool" where
  "same_calls a b \<longleftrightarrow> pending a = pending b \<and> chans a = chans b"

lemma call_inv_cong: "same_calls (peer_state s) ps \<Longrightarrow> call_inv s \<Longrightarrow> call_inv (s\<lparr>peer_state := ps\<rparr>)"
  by (simp add: call_inv_defs same_calls_def)

lemma call_inv_response:
  assumes "call_inv s" shows "call_inv (s\<lparr>peer_state := handleResponse r (peer_state s)\<rparr>)"
proof (cases "pending (peer_state s) (rawIDToString (resp_ID r))")
  case None
  with assms show ?thesis by (simp add: handleResponse_def Let_def)
next
  case (Some ch)
  with assms show ?thesis
    by (auto simp: handleResponse_def Let_def call_inv_defs) (metis option.inject)+
qed

lemma call_inv_dispatch: "call_inv s \<Longrightarrow> call_inv (s\<lparr>peer_state := dispatch m (peer_state s)\<rparr>)"
  by (auto simp: dispatch_def same_calls_def intro: call_inv_response call_inv_cong)

lemma call_inv_batch: "call_inv s \<Longrightarrow> call_inv (s\<lparr>peer_state := dispatch_batch ms (peer_state s)\<rparr>)"
proof (induction ms "peer_state s" arbitrary: s rule: dispatch_batch.induct)
  case (3 m ms)
  have "call_inv (s\<lparr>peer_state := dispatch m (peer_state s)\<rparr>)" using 3 by (intro call_inv_dispatch)
  from "3.hyps" [OF _ this] show ?case by simp
qed (auto intro: call_inv_cong simp: same_calls_def)

lemma call_inv_serve: "call_inv s \<Longrightarrow> call_inv (s\<lparr>peer_state := serve_message p ctx data (peer_state s)\<rparr>)"
  by (auto simp: serve_message_def serve_single_def send_ps_def same_calls_def
      intro: call_inv_batch call_inv_dispatch call_inv_cong split: go_result.splits option.splits sum.splits)

lemma call_inv_sync: "call_inv s \<Longrightarrow> call_inv (s\<lparr>peer_state := snd (HandleRequestSync p ctx data (peer_state s))\<rparr>)"
  by (auto simp: HandleRequestSync_def Let_def same_calls_def
      intro: call_inv_response call_inv_cong split: option.splits sum.splits prod.splits)

lemma call_inv_start: "call_inv s \<Longrightarrow> call_inv (call_start rid method params s)"
proof (cases "NewRequest rid method params")
  case (Inr req)
  assume inv: "call_inv s"
  then have fresh: "calls s (next_ch s) = None" by (cases "calls s (next_ch s)") (auto simp: call_inv_defs)
  then have "chans (peer_state s) (next_ch s) = []" using inv by (auto simp: call_inv_defs)
  with inv fresh Inr show ?thesis
    by (auto simp: call_start_def set_pending_def Let_def call_inv_defs) (fastforce dest: less_SucI)+
qed (simp add: call_start_def)

lemma call_inv_step: "cstep p s s' \<Longrightarrow> call_inv s \<Longrightarrow> call_inv s'"
proof (induction rule: cstep.induct)
  case (start s rid m params)
  then show ?case by (rule call_inv_start)
next
  case (send s ch c ctx)
  then show ?case
    by (auto simp: call_send_def set_phase_def forget_def set_pending_def set_world_def call_inv_defs split: option.splits prod.splits)
       (metis option.inject)+
next
  case (receive s ch c r rs)
  then have "rs = []" "rawIDToString (resp_ID r) = call_id c"
    by (auto simp: call_inv_defs) (metis list.inject list.distinct(1) option.inject)+
  moreover have "pending (peer_state s) rid \<noteq> Some ch" for rid using receive by (auto simp: call_inv_defs)
  ultimately show ?case
    using receive by (auto simp: call_receive_def set_phase_def call_inv_defs)
next
  case (cancel s ch c e)
  then show ?case
    by (auto simp: call_cancel_def set_phase_def forget_def set_pending_def call_inv_defs) (metis option.inject)
next
  case (serve s ctx data)
  then show ?case by (rule call_inv_serve)
next
  case (run s rs req rs' ctx)
  then show ?case by (intro call_inv_cong) (simp_all add: same_calls_def)
next
  case (sync s ctx data)
  then show ?case by (rule call_inv_sync)
qed

lemma call_inv_reachable: "reachable p s \<Longrightarrow> call_inv s"
proof -
  assume "reachable p s"
  then obtain st where "(cstep p)\<^sup>*\<^sup>* (new_cstate st) s" by (auto simp: reachable_def)
  then show ?thesis by induction (auto intro: call_inv_new call_inv_step)
qed

section \<open>Progress\<close>

lemma rawIDToString_quoted: "ascii rid \<Longrightarrow> rawIDToString (Some (quote_string rid)) = rid"
  using prints_parse [OF prints_ascii, of rid 0]
  by (simp add: rawIDToString_def unmarshal_def un_string_def max_nesting_def)

lemma pending_call:
  assumes "call_inv s" "pending (peer_state s) rid = Some ch"
  obtains c where "calls s ch = Some c" "call_id c = rid" "chans (peer_state s) ch = []"
    "call_phase c = Sending \<or> call_phase c = Waiting"
  using assms by (auto simp: call_inv_defs)

lemma served_response:
  assumes "pending (peer_state s) rid = Some ch" "chans (peer_state s) ch = []" "rawIDToString (msg_ID m) = rid"
    and "DecodeMessage data [Some (decOpts p)] = Inr m" "IsResponse m" "int (length data) \<le> maxMessageSize p"
  shows "serve_message p ctx data (peer_state s) = (peer_state s)\<lparr>pending := (pending (peer_state s))(rid := None),
     chans := (chans (peer_state s))(ch := [AsResponse m])\<rparr>"
  using assms serve_decoded [OF assms(4,6)] by (simp add: dispatch_def handleResponse_def AsResponse_def)

section \<open>An example run\<close>

definition example_req :: Request where
  "example_req = \<lparr>req_JSONRPC = ''2.0'', req_ID = Some (quote_string ''1''), req_Method = ''m'', req_Params = Some ''{}''\<rparr>"

definition example_call :: "call_phase \<Rightarrow> call" where
  "example_call ph = \<lparr>call_id = ''1'', call_req = example_req, call_phase = ph\<rparr>"

definition run1 :: "example_world cstate" where
  "run1 = call_start ''1'' ''m'' (Some ''{}'') (new_cstate example_state)"

definition run2 :: "example_world cstate" where
  "run2 = call_send example_peer background 0 (example_call Sending) run1"

definition reply_text :: bytes where
  "reply_text = ''{'' @ text_member ''jsonrpc'' (quote_string ''2.0'') @ '','' @ text_member ''id'' (quote_string ''1'') @ '',''
     @ text_member ''result'' ''7'' @ ''}''"

definition reply_message :: Message where
  "reply_message = zero_Message\<lparr>msg_JSONRPC := ''2.0'', msg_ID := Some (quote_string ''1''), msg_Result := Some ''7''\<rparr>"

lemma reply_text_decoded:
  "DecodeMessage reply_text [Some \<lparr>MaxSize = 1048576, MaxDepth = 32\<rparr>] = Inr reply_message" "length reply_text = 37"
  by code_simp+

lemma run1_calls: "calls run1 0 = Some (example_call Sending)" "pending (peer_state run1) = [''1'' \<mapsto> 0]"
  by (simp_all add: run1_def call_start_def new_cstate_def NewRequest_def set_pending_def example_call_def example_req_def ms_string_def)

lemma example_req_sent: "\<exists>w. sendJSON example_peer background (ms_Request example_req) v = (None, w)"
proof -
  have "\<exists>t. ms_Request example_req = Some t"
    by (simp add: ms_Request_def example_req_def ms_obj_def ms_member_def always_def unless_def ms_string_def ms_raw_def
        json_valid_quote empty_object_valid raw_empty_def)
  then show ?thesis by (cases v) (auto simp: sendJSON_def example_peer_eq example_transport_def)
qed

lemma run2_calls: "calls run2 0 = Some (example_call Waiting)" "pending (peer_state run2) = [''1'' \<mapsto> 0]"
proof -
  have req: "call_req (example_call Sending) = example_req" by (simp add: example_call_def)
  obtain w where "sendJSON example_peer background (ms_Request example_req) (world (disp (peer_state run1))) = (None, w)"
    using example_req_sent by blast
  then show "calls run2 0 = Some (example_call Waiting)" "pending (peer_state run2) = [''1'' \<mapsto> 0]"
    by (simp_all add: run2_def call_send_def req set_phase_def set_world_def run1_calls) (simp add: example_call_def)
qed

lemma run2_reachable: "reachable example_peer run2"
proof -
  have "cstep example_peer (new_cstate example_state) run1" unfolding run1_def by (rule cstep.start)
  moreover have "cstep example_peer run1 run2"
    unfolding run2_def by (rule cstep.send) (simp_all add: run1_calls, simp add: example_call_def)
  ultimately show ?thesis unfolding reachable_def by (meson converse_rtranclp_into_rtranclp rtranclp.rtrancl_refl)
qed

lemma reply_accepted:
  "DecodeMessage reply_text [Some (decOpts example_peer)] = Inr reply_message"
  "int (length reply_text) \<le> maxMessageSize example_peer"
  using reply_text_decoded by (simp_all add: decOpts_def example_peer_eq)

lemma reply_id: "rawIDToString (msg_ID reply_message) = ''1''" "IsResponse reply_message"
  by (simp_all add: reply_message_def rawIDToString_quoted ascii_def IsResponse_def)

definition run3 :: "example_world cstate" where
  "run3 = run2\<lparr>peer_state := serve_message example_peer background reply_text (peer_state run2)\<rparr>"

definition run4 :: "example_world cstate" where
  "run4 = call_receive 0 (example_call Waiting) (AsResponse reply_message) [] run3"

lemma run4_reachable: "reachable example_peer run4"
proof -
  have empty: "chans (peer_state run2) 0 = []"
    using call_inv_reachable [OF run2_reachable] run2_calls(2) by (auto simp: call_inv_defs)
  have "chans (peer_state run3) 0 = [AsResponse reply_message]"
    using served_response [OF _ empty reply_id(1) reply_accepted(1) reply_id(2) reply_accepted(2)] run2_calls(2)
    by (simp add: run3_def)
  then have "cstep example_peer run3 run4"
    unfolding run4_def using run2_calls(1) by (intro cstep.receive) (simp_all add: run3_def, simp add: example_call_def)
  moreover have "cstep example_peer run2 run3" unfolding run3_def by (rule cstep.serve)
  ultimately show ?thesis
    using run2_reachable unfolding reachable_def by (meson rtranclp.rtrancl_into_rtrancl)
qed

section \<open>Properties\<close>

text \<open>
  C11: calls are never mixed up: in every interleaving of calls, cancellations, served
  messages and request goroutines, a call that has returned a response has returned one
  whose ID is the ID the call was made with.
\<close>

theorem calls_not_mixed_up:
  assumes "reachable p s" "calls s ch = Some c" "call_phase c = Returned (Inr r)"
  shows "rawIDToString (resp_ID r) = call_id c"
  using call_inv_reachable [OF assms(1)] assms(2,3) by (auto simp: call_inv_defs)

theorem calls_not_mixed_up_witness:
  "reachable example_peer run4 \<and> calls run4 0 = Some (example_call (Returned (Inr (AsResponse reply_message))))
   \<and> rawIDToString (resp_ID (AsResponse reply_message)) = call_id (example_call (Returned (Inr (AsResponse reply_message))))"
proof -
  let ?c = "example_call (Returned (Inr (AsResponse reply_message)))"
  have c: "calls run4 0 = Some ?c"
    by (simp add: run4_def call_receive_def set_phase_def example_call_def)
  have "call_phase ?c = Returned (Inr (AsResponse reply_message))" by (simp add: example_call_def)
  with calls_not_mixed_up [OF run4_reachable c] c run4_reachable show ?thesis by blast
qed

text \<open>
  C28: delivering a response never blocks the reader: whenever a call is registered, its
  channel of capacity one is empty and the call has not returned, and no channel ever holds
  more than one response.
\<close>

theorem delivery_never_blocks:
  assumes "reachable p s"
  shows "length (chans (peer_state s) ch) \<le> 1
    \<and> (pending (peer_state s) rid = Some ch \<longrightarrow> chans (peer_state s) ch = []
         \<and> (\<exists>c. calls s ch = Some c \<and> call_id c = rid \<and> (call_phase c = Sending \<or> call_phase c = Waiting)))"
proof -
  have inv: "call_inv s" using assms by (rule call_inv_reachable)
  then have "chans (peer_state s) ch = [] \<or> (\<exists>r. chans (peer_state s) ch = [r])" by (auto simp: call_inv_defs)
  then have "length (chans (peer_state s) ch) \<le> 1" by auto
  with inv show ?thesis by (auto simp: call_inv_defs)
qed

theorem delivery_never_blocks_witness:
  "pending (peer_state run2) ''1'' = Some 0 \<and> chans (peer_state run2) 0 = []"
  using delivery_never_blocks [OF run2_reachable, of 0 "''1''"] by (simp add: run2_calls)

text \<open>
  An answered call returns: when a waiting call is registered and the peer serves a
  message that is a response with the ID of the call, the call can receive that response
  in the next step, and the ID is free again.
\<close>

theorem answered_call_returns:
  assumes "reachable p s" "pending (peer_state s) rid = Some ch" "calls s ch = Some c" "call_phase c = Waiting"
    and "DecodeMessage data [Some (decOpts p)] = Inr m" "IsResponse m" "rawIDToString (msg_ID m) = rid"
    and "int (length data) \<le> maxMessageSize p"
  shows "\<exists>s'. (cstep p)\<^sup>*\<^sup>* s s' \<and> pending (peer_state s') rid = None
    \<and> calls s' ch = Some (c\<lparr>call_phase := Returned (Inr (AsResponse m))\<rparr>)"
proof -
  from call_inv_reachable [OF assms(1)] assms(2) have empty: "chans (peer_state s) ch = []" by (auto simp: call_inv_defs)
  let ?s1 = "s\<lparr>peer_state := serve_message p background data (peer_state s)\<rparr>"
  have ps: "peer_state ?s1 = (peer_state s)\<lparr>pending := (pending (peer_state s))(rid := None),
     chans := (chans (peer_state s))(ch := [AsResponse m])\<rparr>"
    using served_response [OF assms(2) empty assms(7,5,6,8)] by simp
  have "cstep p s ?s1" by (rule cstep.serve)
  moreover have "cstep p ?s1 (call_receive ch c (AsResponse m) [] ?s1)"
    by (rule cstep.receive) (use assms(3,4) ps in simp_all)
  moreover have "pending (peer_state (call_receive ch c (AsResponse m) [] ?s1)) rid = None"
    using ps by (simp add: call_receive_def set_phase_def)
  moreover have "calls (call_receive ch c (AsResponse m) [] ?s1) ch = Some (c\<lparr>call_phase := Returned (Inr (AsResponse m))\<rparr>)"
    by (simp add: call_receive_def set_phase_def)
  ultimately show ?thesis by (meson converse_rtranclp_into_rtranclp rtranclp.rtrancl_refl)
qed

theorem answered_call_returns_witness:
  "\<exists>s'. (cstep example_peer)\<^sup>*\<^sup>* run2 s' \<and> pending (peer_state s') ''1'' = None
    \<and> calls s' 0 = Some ((example_call Waiting)\<lparr>call_phase := Returned (Inr (AsResponse reply_message))\<rparr>)"
  by (rule answered_call_returns [OF run2_reachable _ run2_calls(1) _ reply_accepted(1) reply_id(2,1) reply_accepted(2)])
     (simp_all add: run2_calls, simp add: example_call_def)

text \<open>
  A second response with the same ID is ignored, as is a response nobody waits for.
\<close>

theorem duplicate_response_ignored:
  assumes "rawIDToString (resp_ID r) = rawIDToString (resp_ID r')"
  shows "handleResponse r' (handleResponse r ps) = handleResponse r ps"
  using assms by (simp add: handleResponse_def Let_def split: option.splits)

theorem duplicate_response_ignored_witness:
  "let r = \<lparr>resp_JSONRPC = ''2.0'', resp_ID = Some ''1'', resp_Result = None, resp_Error = None\<rparr>;
       ps = \<lparr>disp = example_state, pending = [rawIDToString (Some ''1'') \<mapsto> 0], chans = (\<lambda>_. []), spawned = [], crashed = False\<rparr>
   in handleResponse r (handleResponse r ps) = handleResponse r ps"
  unfolding Let_def by (rule duplicate_response_ignored) simp

text \<open>
  Request IDs are text of 26 ASCII characters that survive JSON and identify the 128
  random bits they were made from, so calls with different bits never share an ID.
\<close>

theorem request_ids:
  "generateRequestID (Some b) = Inr rid \<Longrightarrow> length b = 16 \<Longrightarrow>
     length rid = 26 \<and> rawIDToString (ms_string rid) = rid
     \<and> (\<forall>b'. generateRequestID (Some b') = Inr rid \<longrightarrow> b' = b)"
proof -
  assume g: "generateRequestID (Some b) = Inr rid" and b: "length b = 16"
  then have rid: "rid = ''req-'' @ b64_raw_url b" by (simp add: generateRequestID_def)
  have "ascii rid" using b64_text_ascii [OF b64_encoded_text] by (simp add: rid ascii_def)
  then have "rawIDToString (ms_string rid) = rid" by (simp add: ms_string_def rawIDToString_quoted)
  moreover have "\<forall>b'. generateRequestID (Some b') = Inr rid \<longrightarrow> b' = b"
    using b64_inj by (auto simp: generateRequestID_def rid)
  ultimately show ?thesis by (simp add: rid b64_length b)
qed

theorem request_ids_witness:
  "length (''req-'' @ b64_raw_url ''0123456789abcdef'') = 26
   \<and> rawIDToString (ms_string (''req-'' @ b64_raw_url ''0123456789abcdef'')) = ''req-'' @ b64_raw_url ''0123456789abcdef''"
  using request_ids [of "''0123456789abcdef''" "''req-'' @ b64_raw_url ''0123456789abcdef''"]
  by (simp add: generateRequestID_def del: b64_raw_url.simps)

end
