(* ===== verification/Go_Time_Facts.thy ===== *)
theory Go_Time_Facts
  imports Go_Codec_Facts
begin

text \<open>
  The RFC 3339 text of a time is read back as the same time: the calendar conversions are
  inverse to each other, and every component of the text has a fixed width.
\<close>

section \<open>Years of the era\<close>

text \<open>The year of a day of the 400-year era, and the first day of a year, counted from March.\<close>

definition year_num :: "int \<Rightarrow> int" where
  "year_num doe = doe - doe div 1460 + doe div 36524 - doe div 146096"

definition year_start :: "int \<Rightarrow> int" where
  "year_start y = 365 * y + y div 4 - y div 100"

definition year_end :: "int \<Rightarrow> int" where
  "year_end y = (if y = 399 then 146097 else year_start (y + 1))"

lemma minus_div_mono:
  fixes a b n :: int
  assumes "a \<le> b" "1 \<le> n" shows "a - a div n \<le> b - b div n"
proof -
  have "b \<le> a + (b - a) * n" using assms mult_left_mono [of 1 n "b - a"] by simp
  then have "b div n \<le> (a + (b - a) * n) div n" using assms(2) by (intro zdiv_mono1) simp_all
  also have "\<dots> = a div n + (b - a)" using assms(2) by simp
  finally show ?thesis by simp
qed

lemma year_num_mono:
  assumes "a \<le> b" shows "year_num a \<le> year_num b"
proof -
  have q: "x div 146096 = x div 36524 div 4" for x :: int using zdiv_zmult2_eq [of 4 x 36524] by simp
  have "a div 36524 \<le> b div 36524" using assms by (simp add: zdiv_mono1)
  with minus_div_mono [of "a div 36524" "b div 36524" 4] minus_div_mono [OF assms, of 1460] show ?thesis
    by (simp add: year_num_def q)
qed

text \<open>The years of an era, by evaluation.\<close>

definition year_ok :: "int \<Rightarrow> bool" where
  "year_ok y \<longleftrightarrow> 365 * y \<le> year_num (year_start y) \<and> year_num (year_end y - 1) < 365 * (y + 1)
     \<and> year_end y - year_start y = (if is_leap (y + 1) then 366 else 365)"

lemma years_ok: "list_all year_ok [0..399]"
  by code_simp

lemma year_okD: "0 \<le> y \<Longrightarrow> y \<le> 399 \<Longrightarrow> year_ok y"
  using years_ok by (simp add: list_all_iff)

lemma year_of_day:
  assumes "0 \<le> doe" "doe < 146097"
  defines "y \<equiv> year_num doe div 365"
  shows "0 \<le> y" "y \<le> 399" "year_start y \<le> doe" "doe < year_end y"
proof -
  have lo: "0 \<le> year_num doe" using year_num_mono [OF assms(1)] by (simp add: year_num_def)
  have "year_num doe \<le> year_num 146096" using assms(2) by (intro year_num_mono) simp
  then have hi: "year_num doe < 365 * 400" by (simp add: year_num_def)
  show y: "0 \<le> y" "y \<le> 399" using lo hi by (simp_all add: y_def)
  have num: "365 * y \<le> year_num doe" "year_num doe < 365 * (y + 1)"
    unfolding y_def by (simp_all add: minus_mod_eq_mult_div [symmetric] algebra_simps)
  show "year_start y \<le> doe"
  proof (rule ccontr)
    assume n: "\<not> year_start y \<le> doe"
    then have "y \<noteq> 0" using assms(1) by (auto simp: year_start_def)
    with y year_okD [of "y - 1"] have "year_num (year_start y - 1) < 365 * y" by (simp add: year_ok_def year_end_def)
    moreover have "year_num doe \<le> year_num (year_start y - 1)" using n by (intro year_num_mono) simp
    ultimately show False using num by simp
  qed
  show "doe < year_end y"
  proof (rule ccontr)
    assume n: "\<not> doe < year_end y"
    then have y': "y \<noteq> 399" using assms(2) by (auto simp: year_end_def)
    with y year_okD [of "y + 1"] have "365 * (y + 1) \<le> year_num (year_start (y + 1))" by (simp add: year_ok_def)
    moreover have "year_num (year_start (y + 1)) \<le> year_num doe" using n y' by (intro year_num_mono) (simp add: year_end_def)
    ultimately show False using num by simp
  qed
qed

section \<open>Days of a year\<close>

definition day_month :: "int \<Rightarrow> int" where
  "day_month doy = (let mp = (5 * doy + 2) div 153 in if mp < 10 then mp + 3 else mp - 9)"

definition day_in_month :: "int \<Rightarrow> int" where
  "day_in_month doy = doy - (153 * ((5 * doy + 2) div 153) + 2) div 5 + 1"

definition day_ok :: "int \<Rightarrow> bool" where
  "day_ok doy \<longleftrightarrow>
     (let m = day_month doy; d = day_in_month doy in
      1 \<le> m \<and> m \<le> 12 \<and> 1 \<le> d \<and> d \<le> days_in_month 0 m \<and> (m + 9) mod 12 = (5 * doy + 2) div 153
      \<and> (m = 2 \<longrightarrow> d < 29 \<or> doy = 365))"

lemma days_ok: "list_all day_ok [0..365]"
  by code_simp

lemma day_okD: "0 \<le> doy \<Longrightarrow> doy \<le> 365 \<Longrightarrow> day_ok doy"
  using days_ok by (simp add: list_all_iff)

lemma is_leap_era: "is_leap (y + 400 * era) \<longleftrightarrow> is_leap y"
proof -
  have "k dvd 400 \<Longrightarrow> k dvd (y + 400 * era) \<longleftrightarrow> k dvd y" for k :: int
    by (simp add: dvd_add_left_iff)
  from this [of 4] this [of 100] this [of 400] show ?thesis by (simp add: is_leap_def)
qed

lemma civil_inverse:
  assumes "civil_of_days n = (y, m, d)"
  shows "days_of_civil y m d = n" "1 \<le> m" "m \<le> 12" "1 \<le> d" "d \<le> days_in_month y m"
proof -
  define doe where "doe = (n + 306) mod 146097"
  define era where "era = (n + 306) div 146097"
  define yoe where "yoe = year_num doe div 365"
  define doy where "doy = doe - year_start yoe"
  have n: "n = 146097 * era + doe - 306" by (simp add: doe_def era_def)
  have doe: "0 \<le> doe" "doe < 146097" by (simp_all add: doe_def)
  note yr = year_of_day [OF doe, folded yoe_def]
  have leap: "year_end yoe - year_start yoe = (if is_leap (yoe + 1) then 366 else 365)"
    using year_okD [OF yr(1,2)] by (simp add: year_ok_def)
  have doy: "0 \<le> doy" "doy \<le> 365" "doy = 365 \<Longrightarrow> is_leap (yoe + 1)"
    using yr leap by (auto simp: doy_def split: if_splits)
  have parts: "m = day_month doy" "d = day_in_month doy" "y = (if m \<le> 2 then yoe + era * 400 + 1 else yoe + era * 400)"
  proof -
    have "civil_of_days n = (if day_month doy \<le> 2 then yoe + era * 400 + 1 else yoe + era * 400, day_month doy, day_in_month doy)"
      unfolding civil_of_days_def Let_def day_month_def day_in_month_def doy_def year_start_def yoe_def year_num_def doe_def era_def
      by (rule refl)
    with assms show "m = day_month doy" "d = day_in_month doy" "y = (if m \<le> 2 then yoe + era * 400 + 1 else yoe + era * 400)"
      by auto
  qed
  note day = day_okD [OF doy(1,2), unfolded day_ok_def Let_def, folded parts(1,2)]
  show "1 \<le> m" "m \<le> 12" "1 \<le> d" using day by simp_all
  show "d \<le> days_in_month y m"
  proof (cases "m = 2")
    case True
    with day doy(3) parts(3) is_leap_era [of "yoe + 1" era] show ?thesis by (auto simp: days_in_month_def algebra_simps split: if_splits)
  next
    case False
    with day show ?thesis by (simp add: days_in_month_def)
  qed
  define A where "A = (153 * ((5 * doy + 2) div 153) + 2) div 5"
  define q4 where "q4 = yoe div 4"
  define q100 where "q100 = yoe div 100"
  have yy: "(if m \<le> 2 then y - 1 else y) = yoe + era * 400" using parts(3) by simp
  have mm: "(m + 9) mod 12 = (5 * doy + 2) div 153" using day by simp
  have divs: "(yoe + era * 400) div 4 = q4 + era * 100" "(yoe + era * 400) div 100 = q100 + era * 4" "(yoe + era * 400) div 400 = era"
    using yr(1,2) unfolding q4_def q100_def by (simp_all add: div_add [of 4 "era * 400", simplified])
  have "days_of_civil y m d = 365 * (yoe + era * 400) + (q4 + era * 100) - (q100 + era * 4) + era + A + d - 1 - 306"
    unfolding days_of_civil_def Let_def yy mm divs A_def ..
  moreover have "d = doy - A + 1" using parts(2) by (simp add: day_in_month_def A_def)
  moreover have "year_start yoe = 365 * yoe + q4 - q100" by (simp add: year_start_def q4_def q100_def)
  ultimately show "days_of_civil y m d = n" using n doy_def by simp
qed

section \<open>Components of fixed width\<close>

lemma length_show_nat: "n < 10 ^ Suc k \<Longrightarrow> length (show_nat n) \<le> Suc k"
proof (induction k arbitrary: n)
  case 0
  then show ?case by (subst show_nat.simps) simp
next
  case (Suc k)
  have "n div 10 < 10 ^ Suc k" using Suc.prems by (simp add: less_mult_imp_div_less)
  from Suc.IH [OF this] show ?case by (subst show_nat.simps) simp
qed

lemma digits_val_zeros: "digits_val (replicate k (CHR ''0'') @ s) 0 = digits_val s 0"
  by (induction k) (auto simp: digit_val_def)

lemma pad_digits:
  assumes "0 \<le> v" "v < 10 ^ Suc k"
  shows "length (pad (Suc k) v) = Suc k" "list_all is_digit (pad (Suc k) v)" "digits_val (pad (Suc k) v) 0 = v"
proof -
  have "nat v < 10 ^ Suc k" using assms by (simp add: nat_less_iff)
  from length_show_nat [OF this] show "length (pad (Suc k) v) = Suc k" using assms by (simp add: pad_def show_int_def Let_def)
  have "list_all is_digit (replicate i (CHR ''0''))" for i by (simp add: list_all_iff is_digit_def)
  then show "list_all is_digit (pad (Suc k) v)" "digits_val (pad (Suc k) v) 0 = v"
    using assms show_nat_digits [of "nat v"] by (simp_all add: pad_def show_int_def Let_def digits_val_zeros)
qed

lemma take_num_pad:
  assumes "0 \<le> v" "v < 10 ^ Suc k" "lo \<le> v" "v \<le> hi"
  shows "take_num (Suc k) lo hi (pad (Suc k) v @ r) = Some (v, r)"
  using pad_digits [OF assms(1,2)] assms(3,4) by (simp add: take_num_def Let_def)

lemma take_num_pad2: "0 \<le> v \<Longrightarrow> v < 100 \<Longrightarrow> lo \<le> v \<Longrightarrow> v \<le> hi \<Longrightarrow> take_num 2 lo hi (pad 2 v @ r) = Some (v, r)"
  using take_num_pad [of v 1 lo hi r] by (simp add: numeral_2_eq_2)

lemma take_num_pad4: "0 \<le> v \<Longrightarrow> v \<le> 9999 \<Longrightarrow> take_num 4 0 9999 (pad 4 v @ r) = Some (v, r)"
  using take_num_pad [of v 3 0 9999 r] by (simp add: numeral_eq_Suc)

subsection \<open>Fractions\<close>

definition no_fraction :: "bytes \<Rightarrow> bool" where
  "no_fraction z \<longleftrightarrow> z = [] \<or> \<not> is_digit (hd z) \<and> hd z \<noteq> CHR ''.''"

lemma scan_digits_stop: "q \<noteq> [] \<Longrightarrow> list_all is_digit q \<Longrightarrow> no_fraction z \<Longrightarrow> scan_digits (q @ z) = Some (q, z)"
  by (cases q; cases z) (auto simp: scan_digits_def no_fraction_def takeWhile_append dropWhile_append list_all_iff takeWhile_eq_all_conv)

lemma takeWhile_replicate: "takeWhile (\<lambda>c. c = x) xs = replicate (length (takeWhile (\<lambda>c. c = x) xs)) x"
  by (induction xs) auto

lemma take_frac_format:
  assumes "0 \<le> ns" "ns < second" "no_fraction z"
  shows "take_frac (format_frac ns @ z) = Some (ns, z)"
proof (cases "ns = 0")
  case True
  with assms(3) show ?thesis by (cases z) (auto simp: format_frac_def take_frac_def no_fraction_def)
next
  case False
  let ?p = "pad 9 ns"
  define q where "q = rev (dropWhile (\<lambda>c. c = CHR ''0'') (rev ?p))"
  define k where "k = length (takeWhile (\<lambda>c. c = CHR ''0'') (rev ?p))"
  have p: "length ?p = 9" "list_all is_digit ?p" "digits_val ?p 0 = ns"
    using pad_digits [of ns 8] assms(1,2) by (simp_all add: second_def numeral_eq_Suc)
  have "rev ?p = replicate k (CHR ''0'') @ rev q"
    unfolding q_def k_def rev_rev_ident by (metis takeWhile_dropWhile_id takeWhile_replicate)
  then have split: "?p = q @ replicate k (CHR ''0'')" by (metis rev_append rev_replicate rev_rev_ident)
  have len: "length q + k = 9" using p(1) split by simp
  have "q \<noteq> []"
  proof
    assume "q = []"
    then have "digits_val ?p 0 = 0" using split digits_val_zeros [of k "[]"] by simp
    with p(3) False show False by simp
  qed
  moreover have "list_all is_digit q" using p(2) split by simp
  moreover have "take 9 (q @ replicate 9 (CHR ''0'')) = ?p" using len split by (simp add: min_def)
  moreover have "format_frac ns = CHR ''.'' # q" using False by (simp add: format_frac_def q_def)
  ultimately show ?thesis using assms(3) p(3) by (simp add: take_frac_def scan_digits_stop)
qed

subsection \<open>Zones\<close>

lemma format_zone_no_fraction: "no_fraction (format_zone off)"
  by (simp add: format_zone_def no_fraction_def is_digit_def)

lemma take_zone_format:
  assumes "\<bar>off\<bar> < 24 * 3600" "60 dvd off" shows "take_zone (format_zone off) = Some off"
proof (cases "off = 0")
  case True
  then show ?thesis by (simp add: format_zone_def take_zone_def)
next
  case False
  define a where "a = \<bar>off\<bar>"
  have off: "off = (if off < 0 then - a else a)" "a < 24 * 3600" "0 \<le> a" "60 dvd a" using assms by (auto simp: a_def)
  have h: "0 \<le> a div 60 div 60" "a div 60 div 60 \<le> 23" using off(2,3) by (auto simp flip: zdiv_zmult2_eq)
  have m: "0 \<le> a div 60 mod 60" "a div 60 mod 60 \<le> 59" using pos_mod_bound [of 60 "a div 60"] by simp_all
  have "a = 60 * (a div 60)" using off(4) by simp
  moreover have "a div 60 = 60 * (a div 60 div 60) + a div 60 mod 60" by simp
  ultimately have val: "a div 60 div 60 * 3600 + a div 60 mod 60 * 60 = a" by linarith
  have "take_num 2 0 23 (pad 2 (a div 60 div 60) @ CHR '':'' # pad 2 (a div 60 mod 60)) = Some (a div 60 div 60, CHR '':'' # pad 2 (a div 60 mod 60))"
    using h by (intro take_num_pad2) simp_all
  moreover have "take_num 2 0 59 (pad 2 (a div 60 mod 60)) = Some (a div 60 mod 60, [])"
    using m take_num_pad2 [of "a div 60 mod 60" 0 59 "[]"] by simp
  moreover have "format_zone off = (if off < 0 then CHR ''-'' else CHR ''+'') # pad 2 (a div 60 div 60) @ CHR '':'' # pad 2 (a div 60 mod 60)"
    using False unfolding a_def by (simp add: format_zone_def)
  ultimately have "take_zone (format_zone off) = Some (a * (if off < 0 then - 1 else 1))"
    using val by (cases "off < 0") (simp_all add: take_zone_def take_char_def)
  with off(1) show ?thesis by (cases "off < 0") simp_all
qed

section \<open>The round trip\<close>

text \<open>The components of the text and their ranges, with the local time \<open>loc\<close> they are taken from.\<close>

lemma format_time_parts:
  assumes "format_time t = Some s"
  obtains y mo d hh mi sec fr where
    "s = pad 4 y @ ''-'' @ pad 2 mo @ ''-'' @ pad 2 d @ ''T'' @ pad 2 hh @ '':'' @ pad 2 mi @ '':'' @ pad 2 sec @ format_frac fr @ format_zone (t_off t)"
    "0 \<le> y" "y \<le> 9999" "1 \<le> mo" "mo \<le> 12" "1 \<le> d" "d \<le> days_in_month y mo"
    "0 \<le> hh" "hh \<le> 23" "0 \<le> mi" "mi \<le> 59" "0 \<le> sec" "sec \<le> 59" "0 \<le> fr" "fr < second" "\<bar>t_off t\<bar> < 24 * 3600"
    "(days_of_civil y mo d * 86400 + hh * 3600 + mi * 60 + sec - t_off t) * second + fr = t_ns t"
proof -
  define loc where "loc = t_ns t + t_off t * second"
  define sod where "sod = loc div second mod 86400"
  obtain y mo d where c: "civil_of_days (loc div second div 86400) = (y, mo, d)" by (metis prod.exhaust)
  from assms have y: "0 \<le> y" "y \<le> 9999" "\<bar>t_off t\<bar> < 24 * 3600"
    and s: "s = pad 4 y @ ''-'' @ pad 2 mo @ ''-'' @ pad 2 d @ ''T'' @ pad 2 (sod div 3600) @ '':'' @ pad 2 (sod div 60 mod 60) @ '':''
        @ pad 2 (sod mod 60) @ format_frac (loc mod second) @ format_zone (t_off t)"
    by (auto simp: format_time_def Let_def c [unfolded loc_def] loc_def sod_def not_less split: if_splits)
  note civil = civil_inverse [OF c]
  have sod: "0 \<le> sod" "sod < 86400" by (simp_all add: sod_def)
  have parts: "0 \<le> sod div 3600" "sod div 3600 \<le> 23" "0 \<le> sod div 60 mod 60" "sod div 60 mod 60 \<le> 59" "0 \<le> sod mod 60" "sod mod 60 \<le> 59"
    using sod pos_mod_bound [of 60 "sod div 60"] pos_mod_bound [of 60 sod] by auto
  have "sod div 3600 = sod div 60 div 60" using zdiv_zmult2_eq [of 60 sod 60] by simp
  moreover have "sod div 60 = 60 * (sod div 60 div 60) + sod div 60 mod 60" "sod = 60 * (sod div 60) + sod mod 60" by simp_all
  moreover have "days_of_civil y mo d * 86400 + sod = loc div second" unfolding civil(1) sod_def by simp
  ultimately have secs: "days_of_civil y mo d * 86400 + sod div 3600 * 3600 + sod div 60 mod 60 * 60 + sod mod 60 - t_off t = loc div second - t_off t"
    by linarith
  have "loc div second * second + loc mod second = loc" by simp
  then have "(loc div second - t_off t) * second + loc mod second = t_ns t"
    unfolding left_diff_distrib using loc_def by linarith
  then have ns: "(days_of_civil y mo d * 86400 + sod div 3600 * 3600 + sod div 60 mod 60 * 60 + sod mod 60 - t_off t) * second
      + loc mod second = t_ns t" by (subst secs)
  have "0 \<le> loc mod second" "loc mod second < second" by (simp_all add: second_def)
  from that [OF s y(1,2) civil(2-5) parts this y(3) ns] show thesis .
qed

lemma days_in_month_le: "days_in_month y m \<le> 31"
  by (simp add: days_in_month_def)

lemma time_read_back:
  assumes "format_time t = Some s" "60 dvd t_off t" shows "parse_time s = Some t"
proof -
  obtain y mo d hh mi sec fr where
    s: "s = pad 4 y @ ''-'' @ pad 2 mo @ ''-'' @ pad 2 d @ ''T'' @ pad 2 hh @ '':'' @ pad 2 mi @ '':'' @ pad 2 sec @ format_frac fr @ format_zone (t_off t)"
    and date: "0 \<le> y" "y \<le> 9999" "1 \<le> mo" "mo \<le> 12" "1 \<le> d" "d \<le> days_in_month y mo"
    and clock: "0 \<le> hh" "hh \<le> 23" "0 \<le> mi" "mi \<le> 59" "0 \<le> sec" "sec \<le> 59" and frac: "0 \<le> fr" "fr < second"
    and off: "\<bar>t_off t\<bar> < 24 * 3600"
    and ns: "(days_of_civil y mo d * 86400 + hh * 3600 + mi * 60 + sec - t_off t) * second + fr = t_ns t"
    using assms(1) by (rule format_time_parts)
  have "d < 100" using date(6) days_in_month_le [of y mo] by linarith
  with date clock ns show ?thesis
    by (simp add: s parse_time_def take_num_pad4 take_num_pad2 take_char_def
        take_frac_format [OF frac format_zone_no_fraction] take_zone_format [OF off assms(2)])
qed

subsection \<open>The characters of the text\<close>

text \<open>The text consists of digits and separators, which JSON strings hold as they are.\<close>

definition time_char :: "char \<Rightarrow> bool" where
  "time_char c \<longleftrightarrow> is_digit c \<or> c \<in> set ''-T:.Z+''"

lemma time_char_plain:
  assumes "list_all time_char s" shows "ascii s" "esc_string s = s"
proof -
  have digit: "byte c < 128 \<and> esc_char c = [c]" if "is_digit c" for c
  proof -
    have "c \<noteq> k" if "\<not> is_digit k" for k using that \<open>is_digit c\<close> by auto
    then have "c \<noteq> CHR 0x22" "c \<noteq> CHR 0x5C" "c \<noteq> CHR 0x08" "c \<noteq> CHR 0x0C" "c \<noteq> CHR 0x0A" "c \<noteq> CHR 0x0D" "c \<noteq> CHR 0x09"
      "c \<noteq> CHR ''<''" "c \<noteq> CHR ''>''" "c \<noteq> CHR ''&''" by (simp_all add: is_digit_def)
    with that show ?thesis by (simp add: esc_char_def is_digit_def)
  qed
  have "byte c < 128 \<and> esc_char c = [c]" if "c \<in> set ''-T:.Z+''" for c
    using that unfolding list.set insert_iff empty_iff by (elim disjE FalseE) (simp_all add: esc_char_def)
  with digit assms show "ascii s" "esc_string s = s" unfolding time_char_def by (induction s) (auto simp: ascii_def)
qed

lemma pad_time: "0 \<le> v \<Longrightarrow> v < 10 ^ Suc k \<Longrightarrow> list_all time_char (pad (Suc k) v)"
  using pad_digits(2) [of v k] by (auto simp: time_char_def list_all_iff)

lemma pad2_time: "0 \<le> v \<Longrightarrow> v < 100 \<Longrightarrow> list_all time_char (pad 2 v)"
  using pad_time [of v 1] by (simp add: numeral_2_eq_2)

lemma pad4_time: "0 \<le> v \<Longrightarrow> v < 10000 \<Longrightarrow> list_all time_char (pad 4 v)"
  using pad_time [of v 3] by (simp add: eval_nat_numeral)

lemma format_frac_time:
  assumes "0 \<le> fr" "fr < second" shows "list_all time_char (format_frac fr)"
proof -
  have "list_all time_char (pad 9 fr)" using pad_time [of fr 8] assms by (simp add: second_def eval_nat_numeral)
  then have "\<forall>x\<in>set (dropWhile (\<lambda>c. c = CHR ''0'') (rev (pad 9 fr))). time_char x"
    unfolding list_all_iff by (metis set_dropWhileD set_rev)
  then show ?thesis by (simp add: format_frac_def list_all_iff time_char_def)
qed

lemma format_zone_time:
  assumes "\<bar>off\<bar> < 24 * 3600" shows "list_all time_char (format_zone off)"
proof -
  have "0 \<le> \<bar>off\<bar> div 60 div 60" "\<bar>off\<bar> div 60 div 60 < 100" using assms by (auto simp flip: zdiv_zmult2_eq)
  moreover have "0 \<le> \<bar>off\<bar> div 60 mod 60" "\<bar>off\<bar> div 60 mod 60 < 100" using pos_mod_bound [of 60 "\<bar>off\<bar> div 60"] by simp_all
  ultimately show ?thesis by (simp add: format_zone_def pad2_time time_char_def)
qed

lemma format_time_chars:
  assumes "format_time t = Some s" shows "list_all time_char s"
  using assms
proof (rule format_time_parts)
  fix y mo d hh mi sec fr
  assume "s = pad 4 y @ ''-'' @ pad 2 mo @ ''-'' @ pad 2 d @ ''T'' @ pad 2 hh @ '':'' @ pad 2 mi @ '':'' @ pad 2 sec @ format_frac fr @ format_zone (t_off t)"
    and "0 \<le> y" "y \<le> 9999" "1 \<le> mo" "mo \<le> 12" "1 \<le> d" "d \<le> days_in_month y mo"
    "0 \<le> hh" "hh \<le> 23" "0 \<le> mi" "mi \<le> 59" "0 \<le> sec" "sec \<le> 59" "0 \<le> fr" "fr < second" "\<bar>t_off t\<bar> < 24 * 3600"
  then show ?thesis using days_in_month_le [of y mo]
    by (simp add: pad2_time pad4_time format_frac_time format_zone_time) (simp add: time_char_def)
qed

lemmas format_time_plain = time_char_plain [OF format_time_chars]

end
