(* ===== verification/Go_Struct.thy ===== *)
theory Go_Struct
  imports Go_Compact Go_Time_Facts
begin

text \<open>
  A calculus of codecs: a Go value that is encoded and decoded again is the same value. There
  is one rule per kind of Go type, and structs are put together from the rules of their fields.
  Raw messages have to be compact, as everything that \<open>encoding/json\<close> writes is. The rules of all types
  are collected in \<open>codec_intros\<close>.
\<close>

named_theorems codec_intros

section \<open>Arrays\<close>

lemma prints_bool: "prints d ''true'' (JBool True)" "prints d ''false'' (JBool False)"
  by (auto simp: prints_def scan_lit_def intro!: exI [of _ "Suc 0"])

lemma prints_head: "prints d b v \<Longrightarrow> \<exists>c s. b = c # s \<and> \<not> is_ws c \<and> c \<noteq> CHR '']''"
proof -
  assume b: "prints d b v"
  then obtain c s where cs: "b = c # s" "\<not> is_ws c" using prints_not_ws [OF b] by (cases b) auto
  from b obtain n where "pval n d b = Some (v, [])" by (auto simp: prints_def)
  with cs(1) have "c \<noteq> CHR '']''"
    by (cases n) (auto simp: scan_number_def scan_sign_def scan_int_def is_digit_def)
  with cs show ?thesis by blast
qed

lemma pelems_prints:
  assumes "es \<noteq> []" and "\<forall>(b, v) \<in> set es. prints d b v"
  shows "\<exists>n. \<forall>m \<ge> n. \<forall>r. pelems m d (commas (map fst es) @ CHR '']'' # r) = Some (es, r)"
  using assms
proof (induction es rule: list_nonempty_induct)
  case (single x)
  obtain b v where x: "x = (b, v)" by (metis prod.exhaust)
  with single have "prints d b v" by simp
  from prints_append [OF this] obtain n where
    n: "\<And>m r. n \<le> m \<Longrightarrow> num_stop r \<Longrightarrow> pval m d (b @ r) = Some (v, r)" by blast
  have "pelems (Suc m) d (commas (map fst [x]) @ CHR '']'' # r) = Some ([x], r)" if "n \<le> m" for m r
    using n [OF that, of "CHR '']'' # r"] by (simp add: x skip_ws_Cons is_ws_def)
  then show ?case by (rule enough_fuelI)
next
  case (cons x xs)
  obtain b v where x: "x = (b, v)" by (metis prod.exhaust)
  with cons have b: "prints d b v" and rest: "\<forall>(b, v) \<in> set xs. prints d b v" by auto
  from prints_append [OF b] obtain n where
    n: "\<And>m r. n \<le> m \<Longrightarrow> num_stop r \<Longrightarrow> pval m d (b @ r) = Some (v, r)" by blast
  from cons.IH [OF rest] obtain n' where
    n': "\<And>m r. n' \<le> m \<Longrightarrow> pelems m d (commas (map fst xs) @ CHR '']'' # r) = Some (xs, r)" by blast
  obtain y ys where xs: "xs = y # ys" using cons.hyps by (cases xs) auto
  obtain c s where "fst y = c # s" "\<not> is_ws c" using rest prints_head [of d "fst y" "snd y"] by (auto simp: xs split: prod.splits)
  then have skip: "skip_ws (commas (map fst xs) @ r) = commas (map fst xs) @ r" for r
    by (cases ys) (auto simp: xs skip_ws_Cons)
  have split: "commas (map fst (x # xs)) = b @ CHR '','' # commas (map fst xs)" by (simp add: x xs)
  have "pelems (Suc m) d (commas (map fst (x # xs)) @ CHR '']'' # r) = Some (x # xs, r)" if "max n n' \<le> m" for m r
    unfolding split using n [of m "CHR '','' # commas (map fst xs) @ CHR '']'' # r"] n' [of m r] that
    by (simp add: x skip skip_ws_Cons is_ws_def)
  then show ?case by (rule enough_fuelI)
qed

lemma prints_array:
  assumes "\<forall>(b, v) \<in> set es. prints d b v"
  shows "prints (Suc d) (''['' @ commas (map fst es) @ '']'') (JArr es)"
proof (cases es)
  case Nil
  then show ?thesis by (auto simp: prints_def is_ws_def intro!: exI [of _ "Suc 0"])
next
  case (Cons y ys)
  then obtain n where n: "pelems n d (commas (map fst es) @ CHR '']'' # []) = Some (es, [])"
    using pelems_prints [OF _ assms] by blast
  obtain c s where "fst y = c # s" "\<not> is_ws c" "c \<noteq> CHR '']''"
    using assms prints_head [of d "fst y" "snd y"] by (auto simp: Cons split: prod.splits)
  then obtain t where "commas (map fst es) = c # t" "\<not> is_ws c" "c \<noteq> CHR '']''" by (cases ys) (auto simp: Cons)
  with n have "pval (Suc n) (Suc d) (''['' @ commas (map fst es) @ '']'') = Some (JArr es, [])"
    by (simp add: skip_ws_Cons)
  then show ?thesis unfolding prints_def by (rule exI)
qed

section \<open>Compact texts\<close>

text \<open>
  A text that \<open>json.Compact\<close> leaves as it is, whatever follows it; the flag tells whether the text
  starts inside a string. It has to end outside of strings.
\<close>

fun compacted :: "bool \<Rightarrow> bytes \<Rightarrow> bool" where
  "compacted instr [] \<longleftrightarrow> \<not> instr"
| "compacted False (c # s) \<longleftrightarrow> \<not> is_ws c \<and> compacted (c = CHR 0x22) s"
| "compacted True (c # s) \<longleftrightarrow>
     (if c = CHR 0x22 then compacted False s
      else if c = CHR 0x5C then (case s of [] \<Rightarrow> False | e # t \<Rightarrow> compacted True t)
      else \<not> html_unsafe c \<and> \<not> (byte c = 0xE2 \<and> line_sep s) \<and> compacted True s)"

lemma line_sep_append: "compacted True s \<Longrightarrow> line_sep (s @ r) \<longleftrightarrow> line_sep s"
proof (cases s)
  case (Cons x t)
  moreover assume "compacted True s"
  ultimately have "t \<noteq> [] \<or> x = CHR 0x22" by (auto split: if_splits)
  with Cons show ?thesis by (cases t) (auto simp: line_sep_def)
qed simp

lemma compacted_append:
  "compacted instr a \<Longrightarrow> compacted instr (a @ b) \<longleftrightarrow> compacted False b"
  by (induction instr a rule: compacted.induct) (auto simp: line_sep_append split: list.splits if_splits)

lemma compacted_compact:
  "compacted instr b \<Longrightarrow> (if instr then compact_str (b @ r) else compact_val (b @ r)) = b @ compact_val r"
  by (induction instr b rule: compacted.induct) (auto simp: line_sep_append html_unsafe_def split: list.splits if_splits)

lemma compacted_id: "compacted False b \<Longrightarrow> compact_val b = b"
  using compacted_compact [of False b "[]"] by simp

lemma compacted_bare: "list_all (\<lambda>x. \<not> is_ws x \<and> x \<noteq> CHR 0x22) u \<Longrightarrow> compacted False u"
  by (induction u) auto

lemma compacted_hex: "hex_digit x \<noteq> None \<Longrightarrow> byte x < 128 \<and> x \<noteq> CHR 0x22 \<and> x \<noteq> CHR 0x5C \<and> \<not> html_unsafe x"
  using hex_digit_plain [of x] by (auto simp: hex_digit_def html_unsafe_def Let_def split: if_splits)

lemma compacted_esc: "ascii s \<Longrightarrow> compacted True (esc_string s @ CHR 0x22 # r) \<longleftrightarrow> compacted False r"
proof (induction s)
  case (Cons c s)
  then have c: "byte c < 128" and IH: "compacted True (esc_string s @ CHR 0x22 # r) \<longleftrightarrow> compacted False r" by (auto simp: ascii_def)
  have "compacted True (esc_char c @ t) \<longleftrightarrow> compacted True t" for t
    using esc_char_shape [OF c]
  proof (elim disjE exE conjE)
    fix x y assume *: "esc_char c = [CHR 0x5C, CHR ''u'', CHR ''0'', CHR ''0'', x, y]" "hex4 [CHR ''0'', CHR ''0'', x, y] = Some (byte c)"
    then have "hex_digit x \<noteq> None" "hex_digit y \<noteq> None" by (auto simp: hex4_def split: option.splits)
    from this [THEN compacted_hex] show ?thesis by (simp add: *(1) html_unsafe_def)
  qed (use c in auto)
  with c IH show ?case by simp
qed simp

lemma compacted_quote: "ascii s \<Longrightarrow> compacted False (quote_string s)"
  by (simp add: quote_string_def compacted_esc is_ws_def)

lemma compacted_int: "compacted False (show_int i)"
  using show_nat_digits [of "nat i"] show_nat_digits [of "nat (- i)"]
  by (auto simp: show_int_def is_ws_def intro!: compacted_bare digits_bare)

lemma compacted_commas: "(\<And>x. x \<in> set xs \<Longrightarrow> compacted False x) \<Longrightarrow> compacted False (commas xs)"
  by (induction xs rule: commas.induct) (auto simp: compacted_append is_ws_def)

lemma compacted_brackets: "compacted False b \<Longrightarrow> compacted False (''['' @ b @ '']'')" "compacted False b \<Longrightarrow> compacted False (''{'' @ b @ ''}'')"
  by (simp_all add: compacted_append is_ws_def)

lemma compacted_array: "(\<And>b v. (b, v) \<in> set es \<Longrightarrow> compacted False b) \<Longrightarrow> compacted False (''['' @ commas (map fst es) @ '']'')"
  by (intro compacted_brackets compacted_commas) auto

lemma compacted_object:
  assumes "\<And>k b v. (k, b, v) \<in> set ms \<Longrightarrow> ascii k \<and> compacted False b"
  shows "compacted False (''{'' @ commas (map member_text ms) @ ''}'')"
proof (intro compacted_brackets compacted_commas)
  fix x assume "x \<in> set (map member_text ms)"
  then obtain k b v where "x = quote_string k @ CHR '':'' # b" "(k, b, v) \<in> set ms" by (auto simp: member_text_def)
  with assms show "compacted False x" by (auto simp: compacted_append compacted_quote is_ws_def)
qed

section \<open>Values\<close>

text \<open>
  The text \<open>t\<close> of a value nests at most \<open>d\<close> deep and is decoded to \<open>y\<close> by \<open>un\<close> into a destination
  that holds \<open>old\<close>; with the flag it is not the text \<open>null\<close>.
\<close>

definition codes :: "bool \<Rightarrow> nat \<Rightarrow> 'a decoder \<Rightarrow> 'a \<Rightarrow> bytes option \<Rightarrow> 'a \<Rightarrow> bool" where
  "codes nn d un old t y \<longleftrightarrow> (\<exists>b v. t = Some b \<and> prints d b v \<and> compacted False b \<and> (nn \<longrightarrow> v \<noteq> JNull) \<and> un b v old = Some y)"

lemma codesI: "t = Some b \<Longrightarrow> prints d b v \<Longrightarrow> compacted False b \<Longrightarrow> (nn \<Longrightarrow> v \<noteq> JNull) \<Longrightarrow> un b v old = Some y \<Longrightarrow> codes nn d un old t y"
  by (auto simp: codes_def)

lemma codes_array:
  assumes "0 < d" "\<forall>(b, v) \<in> set es. prints (d - 1) b v \<and> compacted False b" "t = Some (''['' @ commas (map fst es) @ '']'')"
    "\<And>b. un b (JArr es) old = Some y"
  shows "codes nn d un old t y"
proof (rule codesI [of _ _ _ "JArr es", OF assms(3)])
  from assms(2) have "\<forall>(b, v) \<in> set es. prints (d - 1) b v" by blast
  with assms(1) show "prints d (''['' @ commas (map fst es) @ '']'') (JArr es)" using prints_array [of es "d - 1"] by simp
  show "compacted False (''['' @ commas (map fst es) @ '']'')" using assms(2) by (intro compacted_array) blast
qed (simp_all add: assms(4))

lemma codes_object:
  assumes "0 < d" "\<forall>(k, b, v) \<in> set ms. ascii k \<and> prints (d - 1) b v \<and> compacted False b"
    "t = Some (''{'' @ commas (map member_text ms) @ ''}'')" "\<And>b. un b (JObj ms) old = Some y"
  shows "codes nn d un old t y"
proof (rule codesI [of _ _ _ "JObj ms", OF assms(3)])
  from assms(2) have "\<forall>(k, b, v) \<in> set ms. ascii k \<and> prints (d - 1) b v" by blast
  with assms(1) show "prints d (''{'' @ commas (map member_text ms) @ ''}'') (JObj ms)" using prints_object [of ms "d - 1"] by simp
  show "compacted False (''{'' @ commas (map member_text ms) @ ''}'')" using assms(2) by (intro compacted_object) blast
qed (simp_all add: assms(4))

lemma codes_mono: "codes nn d un old t y \<Longrightarrow> d \<le> d' \<Longrightarrow> codes nn d' un old t y"
  by (auto simp: codes_def dest: prints_mono)

lemma codes_unmarshal: "codes nn d un zero t y \<Longrightarrow> d \<le> max_nesting \<Longrightarrow> unmarshal un zero t = Some y"
  by (auto simp: codes_def unmarshal_def prints_parse)

lemma codes_encodes: "codes nn d un old t y \<Longrightarrow> d \<le> max_nesting \<Longrightarrow> \<exists>b. t = Some b \<and> json_valid b \<and> compact_val b = b"
  by (auto simp: codes_def json_valid_def prints_parse compacted_id)

definition portable_time :: "gotime \<Rightarrow> bool" where
  "portable_time t \<longleftrightarrow> format_time t \<noteq> None \<and> 60 dvd t_off t"

definition int64 :: "int \<Rightarrow> bool" where
  "int64 i \<longleftrightarrow> - (2 ^ 63) \<le> i \<and> i < 2 ^ 63"

text \<open>
  A raw message that encoding leaves as it is; nil stands for an omitted member. Peers accept a
  nesting of 32, of which the structs around a raw message need at most eight.\<close>

definition raw_depth :: nat where
  "raw_depth = 24"

definition portable_raw :: "raw \<Rightarrow> bool" where
  "portable_raw r \<longleftrightarrow>
     (case r of
        None \<Rightarrow> True
      | Some b \<Rightarrow> (case pval (fuel_for b) raw_depth b of None \<Rightarrow> False | Some (v, rest) \<Rightarrow> rest = []) \<and> compacted False b)"

lemma portable_raw_Some: "portable_raw (Some b) \<Longrightarrow> \<exists>v. prints raw_depth b v" "portable_raw (Some b) \<Longrightarrow> compacted False b"
  by (auto simp: portable_raw_def prints_def split: option.splits)

lemma prints_portable:
  assumes "prints raw_depth b v" "compacted False b" shows "portable_raw (Some b)"
proof -
  from assms(1) obtain n where n: "pval n raw_depth b = Some (v, [])" by (auto simp: prints_def)
  have "pval (fuel_for b) raw_depth b = pval (max n (fuel_for b)) raw_depth b"
    by (rule parser_fuel(1)) (auto simp: fuel_for_def)
  also have "\<dots> = Some (v, [])" using parser_mono(1) [OF n] by simp
  finally show ?thesis using assms(2) by (simp add: portable_raw_def)
qed

definition solid_raw :: "raw \<Rightarrow> bool" where
  "solid_raw r \<longleftrightarrow> portable_raw r \<and> r \<noteq> None"

lemma portable_raw_empty: "portable_raw r \<Longrightarrow> raw_empty r \<longleftrightarrow> r = None"
  by (auto simp: raw_empty_def dest: portable_raw_Some prints_not_ws)

lemma ascii_simps [simp]: "ascii []" "ascii (c # s) \<longleftrightarrow> byte c < 128 \<and> ascii s"
  by (simp_all add: ascii_def)

lemma codes_string: "ascii s \<Longrightarrow> codes nn d un_string old (ms_string s) s"
  by (rule codesI [OF _ prints_ascii]) (simp_all add: ms_string_def un_string_def compacted_quote)

lemma codes_bool: "codes nn d un_bool old (ms_bool x) x"
  by (cases x) (auto simp: codes_def ms_bool_def un_bool_def is_ws_def intro: prints_bool)

lemma codes_int: "int64 i \<Longrightarrow> codes nn d un_int old (ms_int i) i"
  using lit_int_show [of i] by (intro codesI [OF _ prints_int]) (simp_all add: ms_int_def un_int_def int64_def compacted_int)

lemma codes_time: "portable_time t \<Longrightarrow> codes nn d un_time old (ms_time t) t"
proof -
  assume "portable_time t"
  then obtain s where s: "format_time t = Some s" "60 dvd t_off t" by (auto simp: portable_time_def)
  note plain = format_time_plain [OF s(1)]
  have "compacted False (quote_string s)" using plain(1) by (rule compacted_quote)
  moreover have q: "quote_string s = CHR 0x22 # s @ [CHR 0x22]" using plain(2) by (simp add: quote_string_def)
  ultimately show ?thesis
    by (intro codesI [OF _ prints_ascii [OF plain(1)]]) (simp_all add: ms_time_def s(1) un_time_def time_read_back [OF s])
qed

lemma codes_raw:
  assumes "portable_raw r" "r \<noteq> None" "raw_depth \<le> d" shows "codes False d un_raw old (ms_raw r) r"
proof -
  from assms obtain b v where b: "r = Some b" "prints raw_depth b v" "compacted False b"
    using portable_raw_Some by blast
  have "json_valid b" using prints_parse [OF b(2)] by (simp add: json_valid_def raw_depth_def max_nesting_def)
  then show ?thesis
    using prints_mono [OF b(2) assms(3)] by (intro codesI [of _ b]) (simp_all add: b ms_raw_def un_raw_def compacted_id)
qed

lemma codes_ptr:
  assumes "old = None" "x \<noteq> None" "\<And>y. x = Some y \<Longrightarrow> codes True d un zero (ms y) y"
  shows "codes nn d (un_ptr zero un) old (ms_ptr ms x) x"
  using assms by (fastforce simp: codes_def ms_ptr_def un_ptr_def)

lemma codes_nilable:
  assumes "old = None" "\<And>y. x = Some y \<Longrightarrow> codes True d un zero (ms y) y"
  shows "codes False d (un_ptr zero un) old (ms_ptr ms x) x"
proof (cases x)
  case None
  then show ?thesis by (intro codesI [OF _ prints_null]) (simp_all add: ms_ptr_def un_ptr_def is_ws_def)
qed (use assms in \<open>auto intro: codes_ptr\<close>)

lemma codes_elems:
  assumes "\<And>x. x \<in> set xs \<Longrightarrow> codes nn d un zero (ms x) x"
  shows "\<exists>es. all_some (map ms xs) = Some (map fst es) \<and> (\<forall>(b, v) \<in> set es. prints d b v \<and> compacted False b) \<and> un_elems zero un es = Some xs"
  using assms
proof (induction xs)
  case (Cons x xs)
  from Cons.prems [of x] obtain b v where b: "ms x = Some b" "prints d b v" "compacted False b" "un b v zero = Some x" by (auto simp: codes_def)
  from Cons obtain es where "all_some (map ms xs) = Some (map fst es)" "\<forall>(b, v) \<in> set es. prints d b v \<and> compacted False b" "un_elems zero un es = Some xs"
    by auto
  with b show ?case by (intro exI [of _ "(b, v) # es"]) simp
qed auto

lemma codes_list:
  assumes "0 < d" "\<And>x. x \<in> set xs \<Longrightarrow> codes False (d - 1) un zero (ms x) x" shows "codes nn d (un_list zero un) old (ms_list ms xs) xs"
proof -
  from codes_elems [OF assms(2)] obtain es where es: "all_some (map ms xs) = Some (map fst es)" "\<forall>(b, v) \<in> set es. prints (d - 1) b v \<and> compacted False b"
    "un_elems zero un es = Some xs" by blast
  show ?thesis
    by (rule codes_array [OF assms(1) es(2)]) (simp_all add: ms_list_def un_list_def es)
qed

lemma codes_slice:
  assumes "0 < d" "\<And>ys y. xs = Some ys \<Longrightarrow> y \<in> set ys \<Longrightarrow> codes False (d - 1) un zero (ms y) y"
  shows "codes False d (un_slice zero un) old (ms_slice ms xs) xs"
proof (cases xs)
  case None
  then show ?thesis by (intro codesI [OF _ prints_null]) (simp_all add: ms_slice_def un_slice_def is_ws_def)
next
  case (Some ys)
  from codes_elems [OF assms(2) [OF Some]] obtain es where es: "all_some (map ms ys) = Some (map fst es)" "\<forall>(b, v) \<in> set es. prints (d - 1) b v \<and> compacted False b"
    "un_elems zero un es = Some ys" by blast
  show ?thesis
    by (rule codes_array [OF assms(1) es(2)]) (simp_all add: Some ms_slice_def ms_list_def un_slice_def es)
qed

section \<open>Structs\<close>

text \<open>
  The members \<open>kbs\<close> of an object, decoded one after another into a struct that holds \<open>s\<close>, give \<open>s'\<close>.
\<close>

definition member_codes :: "nat \<Rightarrow> 's fields \<Rightarrow> 's \<Rightarrow> (bytes \<times> bytes option) list \<Rightarrow> 's \<Rightarrow> bool" where
  "member_codes d fs s kbs s' \<longleftrightarrow>
     (\<exists>ms. kbs = map (\<lambda>(k, b, v). (k, Some b)) ms \<and> (\<forall>(k, b, v) \<in> set ms. ascii k \<and> prints d b v \<and> compacted False b) \<and> un_members fs ms s = Some s')"

lemma un_members_append: "un_members fs (xs @ ys) s = Option.bind (un_members fs xs s) (un_members fs ys)"
proof (induction xs arbitrary: s)
  case (Cons x xs)
  obtain k b v where "x = (k, b, v)" by (metis prod_cases3)
  with Cons show ?case by (auto split: option.splits bind_splits)
qed simp

lemma member_append:
  assumes "member_codes d fs s a t" "member_codes d fs t b u" shows "member_codes d fs s (a @ b) u"
proof -
  from assms obtain ms ms' where "a = map (\<lambda>(k, b, v). (k, Some b)) ms" "\<forall>(k, b, v) \<in> set ms. ascii k \<and> prints d b v \<and> compacted False b" "un_members fs ms s = Some t"
    "b = map (\<lambda>(k, b, v). (k, Some b)) ms'" "\<forall>(k, b, v) \<in> set ms'. ascii k \<and> prints d b v \<and> compacted False b" "un_members fs ms' t = Some u"
    by (auto simp: member_codes_def)
  then show ?thesis unfolding member_codes_def by (intro exI [of _ "ms @ ms'"]) (auto simp: un_members_append)
qed

text \<open>The rules for one member: the field takes the value it has in the struct \<open>y\<close> that is read.\<close>

lemma member_unless:
  assumes "find_field fs k = Some (field get upd un)" "ascii k" "\<not> omit \<Longrightarrow> codes False d un (get s) t (get y)"
    "omit \<Longrightarrow> upd (\<lambda>_. get y) s = s"
  shows "member_codes d fs s (unless omit k t) (upd (\<lambda>_. get y) s)"
proof (cases omit)
  case True
  then show ?thesis using assms(4) unfolding member_codes_def by (intro exI [of _ "[]"]) (simp add: unless_def)
next
  case False
  with assms(3) obtain b v where "t = Some b" "prints d b v" "compacted False b" "un b v (get s) = Some (get y)" by (auto simp: codes_def)
  with False assms(1,2) show ?thesis
    unfolding member_codes_def by (intro exI [of _ "[(k, b, v)]"]) (simp add: unless_def field_def)
qed

lemma always_unless: "always k t = unless False k t"
  by (simp add: always_def unless_def)

lemma unless_last:
  assumes "find_field fs k = Some (field get upd un)" "ascii k" "\<not> omit \<Longrightarrow> codes False d un (get s) t (get y)"
    "omit \<Longrightarrow> upd (\<lambda>_. get y) s = s" "upd (\<lambda>_. get y) s = y"
  shows "member_codes d fs s (unless omit k t) y"
  using member_unless [OF assms(1-4)] assms(5) by simp

lemma unless_more:
  assumes "find_field fs k = Some (field get upd un)" "ascii k" "\<not> omit \<Longrightarrow> codes False d un (get s) t (get y)"
    "omit \<Longrightarrow> upd (\<lambda>_. get y) s = s" "member_codes d fs (upd (\<lambda>_. get y) s) rest y"
  shows "member_codes d fs s (unless omit k t @ rest) y"
  using member_append [OF member_unless [OF assms(1-4)] assms(5)] .

lemma codes_struct:
  assumes "0 < d" "member_codes (d - 1) fs old kbs y" shows "codes nn d (un_struct fs) old (ms_obj kbs) y"
proof -
  from assms obtain ms where ms: "kbs = map (\<lambda>(k, b, v). (k, Some b)) ms" "\<forall>(k, b, v) \<in> set ms. ascii k \<and> prints (d - 1) b v \<and> compacted False b"
    "un_members fs ms old = Some y" by (auto simp: member_codes_def)
  show ?thesis
    by (rule codes_object [OF assms(1) ms(2)]) (simp_all add: ms ms_obj_members un_struct_def)
qed

section \<open>Maps\<close>

text \<open>A map is written in the order of its keys; a map in that order is read back.\<close>

definition portable_map :: "('a \<Rightarrow> bool) \<Rightarrow> (bytes, 'a) gomap \<Rightarrow> bool" where
  "portable_map P m \<longleftrightarrow> sorted (map fst m) \<and> distinct (map fst m) \<and> list_all (\<lambda>(k, x). ascii k \<and> P x) m"

lemma update_new: "k \<notin> fst ` set m \<Longrightarrow> gm_set k v m = m @ [(k, v)]"
  unfolding gm_set_def by (induction m) auto

lemma codes_entries:
  assumes "\<And>k x. (k, x) \<in> set m \<Longrightarrow> ascii k \<and> codes nn d un zero (ms x) x" "distinct (map fst (m0 @ m))"
  shows "\<exists>es. map (\<lambda>(k, x). (k, ms x)) m = map (\<lambda>(k, b, v). (k, Some b)) es \<and> (\<forall>(k, b, v) \<in> set es. ascii k \<and> prints d b v \<and> compacted False b)
    \<and> un_entries zero un es m0 = Some (m0 @ m)"
  using assms
proof (induction m arbitrary: m0)
  case (Cons kx m)
  obtain k x where kx: "kx = (k, x)" by (metis prod.exhaust)
  with Cons.prems(1) [of k x] obtain b v where b: "ascii k" "ms x = Some b" "prints d b v" "compacted False b" "un b v zero = Some x" by (auto simp: codes_def)
  have "\<exists>es. map (\<lambda>(k, x). (k, ms x)) m = map (\<lambda>(k, b, v). (k, Some b)) es \<and> (\<forall>(k, b, v) \<in> set es. ascii k \<and> prints d b v \<and> compacted False b)
    \<and> un_entries zero un es (m0 @ [kx]) = Some ((m0 @ [kx]) @ m)"
    using Cons.prems by (intro Cons.IH) auto
  then obtain es where es: "map (\<lambda>(k, x). (k, ms x)) m = map (\<lambda>(k, b, v). (k, Some b)) es" "\<forall>(k, b, v) \<in> set es. ascii k \<and> prints d b v \<and> compacted False b"
    "un_entries zero un es (m0 @ [kx]) = Some (m0 @ kx # m)" by auto
  have "gm_set k x m0 = m0 @ [kx]" using Cons.prems(2) by (simp add: kx update_new)
  with es b show ?case by (intro exI [of _ "(k, b, v) # es"]) (simp add: kx)
qed auto

lemma codes_map:
  assumes "old = []" "0 < d" "portable_map P m" "\<And>k x. (k, x) \<in> set m \<Longrightarrow> P x \<Longrightarrow> codes False (d - 1) un zero (ms x) x"
  shows "codes nn d (un_map zero un) old (ms_map ms m) m"
proof -
  have "\<exists>es. map (\<lambda>(k, x). (k, ms x)) m = map (\<lambda>(k, b, v). (k, Some b)) es \<and> (\<forall>(k, b, v) \<in> set es. ascii k \<and> prints (d - 1) b v \<and> compacted False b)
    \<and> un_entries zero un es [] = Some ([] @ m)"
    using assms by (intro codes_entries [where nn = False]) (auto simp: portable_map_def list_all_iff)
  then obtain es where es: "map (\<lambda>(k, x). (k, ms x)) m = map (\<lambda>(k, b, v). (k, Some b)) es" "\<forall>(k, b, v) \<in> set es. ascii k \<and> prints (d - 1) b v \<and> compacted False b"
    "un_entries zero un es [] = Some m" by auto
  have "sort_key fst m = m" using assms(3) by (simp add: portable_map_def sort_key_id_if_sorted)
  then show ?thesis
    by (intro codes_object [OF assms(2) es(2)]) (simp_all add: ms_map_def es ms_obj_members un_map_def assms(1))
qed

lemmas [codec_intros] = codes_string codes_bool codes_int codes_time codes_raw codes_nilable codes_list codes_slice codes_map

definition opt_all :: "('a \<Rightarrow> bool) \<Rightarrow> 'a option \<Rightarrow> bool" where
  "opt_all P x \<longleftrightarrow> (case x of None \<Rightarrow> True | Some y \<Rightarrow> P y)"

lemma opt_all_simps [simp]: "opt_all P None" "opt_all P (Some y) \<longleftrightarrow> P y"
  by (simp_all add: opt_all_def)

lemmas codec_rules = list_all_iff solid_raw_def portable_raw_empty

end
