(* ===== verification/Wmp_Codec.thy ===== *)
theory Wmp_Codec
  imports Wmp_Methods Go_Struct
begin

text \<open>
  The parameter and result types of the protocol (types.go, methods.go) survive encoding and
  decoding: for each struct the values that do (ASCII texts, times with a text, integers of 64
  bits, compact raw messages, maps in the order of their keys) and the rule of its codec, put
  together from the rules of its fields.
\<close>

section \<open>Metadata and capabilities\<close>

definition portable_TrustHint :: "TrustHint \<Rightarrow> bool" where
  "portable_TrustHint x \<longleftrightarrow>
    ascii (th_Framework x) \<and> ascii (th_LoteURL x) \<and> ascii (th_IssuerServiceID x)
     \<and> ascii (th_TrustAnchor x) \<and> ascii (th_EntityStatement x) \<and> ascii (th_RootCA x)
     \<and> ascii (th_URI x) \<and> ascii (th_ValidationEndpoint x)"

lemma find_TrustHint:
  "find_field fields_TrustHint ''framework'' = Some (field th_Framework th_Framework_update un_string)"
  "find_field fields_TrustHint ''lote_url'' = Some (field th_LoteURL th_LoteURL_update un_string)"
  "find_field fields_TrustHint ''issuer_service_id'' = Some (field th_IssuerServiceID th_IssuerServiceID_update un_string)"
  "find_field fields_TrustHint ''trust_anchor'' = Some (field th_TrustAnchor th_TrustAnchor_update un_string)"
  "find_field fields_TrustHint ''entity_statement'' = Some (field th_EntityStatement th_EntityStatement_update un_string)"
  "find_field fields_TrustHint ''root_ca'' = Some (field th_RootCA th_RootCA_update un_string)"
  "find_field fields_TrustHint ''uri'' = Some (field th_URI th_URI_update un_string)"
  "find_field fields_TrustHint ''validation_endpoint'' = Some (field th_ValidationEndpoint th_ValidationEndpoint_update un_string)"
  by (simp_all add: find_field_def fields_TrustHint_def)

lemma codes_TrustHint [codec_intros]:
  "old = zero_TrustHint \<Longrightarrow> portable_TrustHint x \<Longrightarrow> raw_depth + 1 \<le> d \<Longrightarrow> codes nn d un_TrustHint old (ms_TrustHint x) x"
  unfolding un_TrustHint_def ms_TrustHint_def always_unless
  by (intro codes_struct find_TrustHint [THEN unless_more] find_TrustHint [THEN unless_last])
     (auto simp: portable_TrustHint_def zero_TrustHint_def codec_rules intro!: codec_intros)

definition portable_IdentityAssertion :: "IdentityAssertion \<Rightarrow> bool" where
  "portable_IdentityAssertion x \<longleftrightarrow>
    ascii (ia_Type x) \<and> ascii (ia_Format x) \<and> ascii (ia_VPToken x) \<and> ascii (ia_Audience x)
     \<and> ascii (ia_Nonce x) \<and> list_all ascii (ia_DisclosedClaims x) \<and> list_all ascii (ia_X5C x)
     \<and> list_all portable_TrustHint (ia_TrustHints x)"

lemma find_IdentityAssertion:
  "find_field fields_IdentityAssertion ''type'' = Some (field ia_Type ia_Type_update un_string)"
  "find_field fields_IdentityAssertion ''format'' = Some (field ia_Format ia_Format_update un_string)"
  "find_field fields_IdentityAssertion ''vp_token'' = Some (field ia_VPToken ia_VPToken_update un_string)"
  "find_field fields_IdentityAssertion ''audience'' = Some (field ia_Audience ia_Audience_update un_string)"
  "find_field fields_IdentityAssertion ''nonce'' = Some (field ia_Nonce ia_Nonce_update un_string)"
  "find_field fields_IdentityAssertion ''disclosed_claims'' = Some (field ia_DisclosedClaims ia_DisclosedClaims_update (un_list [] un_string))"
  "find_field fields_IdentityAssertion ''x5c'' = Some (field ia_X5C ia_X5C_update (un_list [] un_string))"
  "find_field fields_IdentityAssertion ''trust_hints'' = Some (field ia_TrustHints ia_TrustHints_update (un_list zero_TrustHint un_TrustHint))"
  by (simp_all add: find_field_def fields_IdentityAssertion_def)

lemma codes_IdentityAssertion [codec_intros]:
  "old = zero_IdentityAssertion \<Longrightarrow> portable_IdentityAssertion x \<Longrightarrow> raw_depth + 3 \<le> d \<Longrightarrow> codes nn d un_IdentityAssertion old (ms_IdentityAssertion x) x"
  unfolding un_IdentityAssertion_def ms_IdentityAssertion_def always_unless
  by (intro codes_struct find_IdentityAssertion [THEN unless_more] find_IdentityAssertion [THEN unless_last])
     (auto simp: portable_IdentityAssertion_def zero_IdentityAssertion_def codec_rules intro!: codec_intros)

definition portable_RelayEntry :: "RelayEntry \<Rightarrow> bool" where
  "portable_RelayEntry x \<longleftrightarrow>
    ascii (re_Relay x) \<and> ascii (re_RelayID x) \<and> portable_time (re_Timestamp x)
     \<and> ascii (re_TimestampToken x) \<and> ascii (re_Signature x) \<and> ascii (re_ServiceClass x)"

lemma find_RelayEntry:
  "find_field fields_RelayEntry ''relay'' = Some (field re_Relay re_Relay_update un_string)"
  "find_field fields_RelayEntry ''relay_id'' = Some (field re_RelayID re_RelayID_update un_string)"
  "find_field fields_RelayEntry ''timestamp'' = Some (field re_Timestamp re_Timestamp_update un_time)"
  "find_field fields_RelayEntry ''timestamp_token'' = Some (field re_TimestampToken re_TimestampToken_update un_string)"
  "find_field fields_RelayEntry ''signature'' = Some (field re_Signature re_Signature_update un_string)"
  "find_field fields_RelayEntry ''service_class'' = Some (field re_ServiceClass re_ServiceClass_update un_string)"
  by (simp_all add: find_field_def fields_RelayEntry_def)

lemma codes_RelayEntry [codec_intros]:
  "old = zero_RelayEntry \<Longrightarrow> portable_RelayEntry x \<Longrightarrow> raw_depth + 1 \<le> d \<Longrightarrow> codes nn d un_RelayEntry old (ms_RelayEntry x) x"
  unfolding un_RelayEntry_def ms_RelayEntry_def always_unless
  by (intro codes_struct find_RelayEntry [THEN unless_more] find_RelayEntry [THEN unless_last])
     (auto simp: portable_RelayEntry_def zero_RelayEntry_def codec_rules intro!: codec_intros)

definition portable_DelegateAuthorization :: "DelegateAuthorization \<Rightarrow> bool" where
  "portable_DelegateAuthorization x \<longleftrightarrow>
    ascii (da_Type x) \<and> ascii (da_Credential x) \<and> list_all ascii (da_Scope x) \<and> ascii (da_ValidUntil x)"

lemma find_DelegateAuthorization:
  "find_field fields_DelegateAuthorization ''type'' = Some (field da_Type da_Type_update un_string)"
  "find_field fields_DelegateAuthorization ''credential'' = Some (field da_Credential da_Credential_update un_string)"
  "find_field fields_DelegateAuthorization ''scope'' = Some (field da_Scope da_Scope_update (un_list [] un_string))"
  "find_field fields_DelegateAuthorization ''valid_until'' = Some (field da_ValidUntil da_ValidUntil_update un_string)"
  by (simp_all add: find_field_def fields_DelegateAuthorization_def)

lemma codes_DelegateAuthorization [codec_intros]:
  "old = zero_DelegateAuthorization \<Longrightarrow> portable_DelegateAuthorization x \<Longrightarrow> raw_depth + 2 \<le> d \<Longrightarrow> codes nn d un_DelegateAuthorization old (ms_DelegateAuthorization x) x"
  unfolding un_DelegateAuthorization_def ms_DelegateAuthorization_def always_unless
  by (intro codes_struct find_DelegateAuthorization [THEN unless_more] find_DelegateAuthorization [THEN unless_last])
     (auto simp: portable_DelegateAuthorization_def zero_DelegateAuthorization_def codec_rules intro!: codec_intros)

definition portable_SenderDelegate :: "SenderDelegate \<Rightarrow> bool" where
  "portable_SenderDelegate x \<longleftrightarrow>
    ascii (sd_ID x) \<and> list_all portable_IdentityAssertion (sd_IdentityAssertions x)
     \<and> opt_all portable_DelegateAuthorization (sd_Authorization x)"

lemma find_SenderDelegate:
  "find_field fields_SenderDelegate ''id'' = Some (field sd_ID sd_ID_update un_string)"
  "find_field fields_SenderDelegate ''identity_assertions'' = Some (field sd_IdentityAssertions sd_IdentityAssertions_update (un_list zero_IdentityAssertion un_IdentityAssertion))"
  "find_field fields_SenderDelegate ''authorization'' = Some (field sd_Authorization sd_Authorization_update (un_ptr zero_DelegateAuthorization un_DelegateAuthorization))"
  by (simp_all add: find_field_def fields_SenderDelegate_def)

lemma codes_SenderDelegate [codec_intros]:
  "old = zero_SenderDelegate \<Longrightarrow> portable_SenderDelegate x \<Longrightarrow> raw_depth + 5 \<le> d \<Longrightarrow> codes nn d un_SenderDelegate old (ms_SenderDelegate x) x"
  unfolding un_SenderDelegate_def ms_SenderDelegate_def always_unless
  by (intro codes_struct find_SenderDelegate [THEN unless_more] find_SenderDelegate [THEN unless_last])
     (auto simp: portable_SenderDelegate_def zero_SenderDelegate_def codec_rules intro!: codec_intros)

definition portable_Metadata :: "Metadata \<Rightarrow> bool" where
  "portable_Metadata x \<longleftrightarrow>
    ascii (md_Version x) \<and> ascii (md_SessionID x) \<and> ascii (md_Sender x)
     \<and> opt_all portable_time (md_Timestamp x) \<and> ascii (md_TimestampToken x)
     \<and> opt_all portable_time (md_ExpiresAt x) \<and> opt_all int64 (md_Epoch x)
     \<and> ascii (md_Signature x) \<and> list_all portable_IdentityAssertion (md_IdentityAssertions x)
     \<and> list_all portable_RelayEntry (md_RelayChain x) \<and> ascii (md_TraceID x)
     \<and> opt_all portable_SenderDelegate (md_SenderDelegate x)
     \<and> opt_all portable_time (md_DeliverAfter x)"

lemma find_Metadata:
  "find_field fields_Metadata ''version'' = Some (field md_Version md_Version_update un_string)"
  "find_field fields_Metadata ''session_id'' = Some (field md_SessionID md_SessionID_update un_string)"
  "find_field fields_Metadata ''sender'' = Some (field md_Sender md_Sender_update un_string)"
  "find_field fields_Metadata ''timestamp'' = Some (field md_Timestamp md_Timestamp_update (un_ptr zero_time un_time))"
  "find_field fields_Metadata ''timestamp_token'' = Some (field md_TimestampToken md_TimestampToken_update un_string)"
  "find_field fields_Metadata ''expires_at'' = Some (field md_ExpiresAt md_ExpiresAt_update (un_ptr zero_time un_time))"
  "find_field fields_Metadata ''encrypted'' = Some (field md_Encrypted md_Encrypted_update un_bool)"
  "find_field fields_Metadata ''epoch'' = Some (field md_Epoch md_Epoch_update (un_ptr 0 un_int))"
  "find_field fields_Metadata ''signature'' = Some (field md_Signature md_Signature_update un_string)"
  "find_field fields_Metadata ''identity_assertions'' = Some (field md_IdentityAssertions md_IdentityAssertions_update (un_list zero_IdentityAssertion un_IdentityAssertion))"
  "find_field fields_Metadata ''relay_chain'' = Some (field md_RelayChain md_RelayChain_update (un_list zero_RelayEntry un_RelayEntry))"
  "find_field fields_Metadata ''trace_id'' = Some (field md_TraceID md_TraceID_update un_string)"
  "find_field fields_Metadata ''sender_delegate'' = Some (field md_SenderDelegate md_SenderDelegate_update (un_ptr zero_SenderDelegate un_SenderDelegate))"
  "find_field fields_Metadata ''deliver_after'' = Some (field md_DeliverAfter md_DeliverAfter_update (un_ptr zero_time un_time))"
  by (simp_all add: find_field_def fields_Metadata_def)

lemma codes_Metadata [codec_intros]:
  "old = zero_Metadata \<Longrightarrow> portable_Metadata x \<Longrightarrow> raw_depth + 6 \<le> d \<Longrightarrow> codes nn d un_Metadata old (ms_Metadata x) x"
  unfolding un_Metadata_def ms_Metadata_def always_unless
  by (intro codes_struct find_Metadata [THEN unless_more] find_Metadata [THEN unless_last])
     (auto simp: portable_Metadata_def zero_Metadata_def codec_rules intro!: codec_intros)

definition portable_SecurityMode :: "SecurityMode \<Rightarrow> bool" where
  "portable_SecurityMode x \<longleftrightarrow>
    ascii (sm_Mode x) \<and> ascii (sm_MinTLSVersion x) \<and> list_all int64 (sm_CipherSuites x)
     \<and> opt_all int64 (sm_CipherSuite x) \<and> ascii (sm_MLSGroupInfo x)
     \<and> list_all ascii (sm_EncryptedCapabilities x)"

lemma find_SecurityMode:
  "find_field fields_SecurityMode ''mode'' = Some (field sm_Mode sm_Mode_update un_string)"
  "find_field fields_SecurityMode ''min_tls_version'' = Some (field sm_MinTLSVersion sm_MinTLSVersion_update un_string)"
  "find_field fields_SecurityMode ''cipher_suites'' = Some (field sm_CipherSuites sm_CipherSuites_update (un_list 0 un_int))"
  "find_field fields_SecurityMode ''cipher_suite'' = Some (field sm_CipherSuite sm_CipherSuite_update (un_ptr 0 un_int))"
  "find_field fields_SecurityMode ''mls_group_info'' = Some (field sm_MLSGroupInfo sm_MLSGroupInfo_update un_string)"
  "find_field fields_SecurityMode ''encrypted_capabilities'' = Some (field sm_EncryptedCapabilities sm_EncryptedCapabilities_update (un_list [] un_string))"
  by (simp_all add: find_field_def fields_SecurityMode_def)

lemma codes_SecurityMode [codec_intros]:
  "old = zero_SecurityMode \<Longrightarrow> portable_SecurityMode x \<Longrightarrow> raw_depth + 2 \<le> d \<Longrightarrow> codes nn d un_SecurityMode old (ms_SecurityMode x) x"
  unfolding un_SecurityMode_def ms_SecurityMode_def always_unless
  by (intro codes_struct find_SecurityMode [THEN unless_more] find_SecurityMode [THEN unless_last])
     (auto simp: portable_SecurityMode_def zero_SecurityMode_def codec_rules intro!: codec_intros)

definition portable_MessagingCap :: "MessagingCap \<Rightarrow> bool" where
  "portable_MessagingCap x \<longleftrightarrow>
    int64 (mc_MaxSize x)"

lemma find_MessagingCap:
  "find_field fields_MessagingCap ''max_size'' = Some (field mc_MaxSize mc_MaxSize_update un_int)"
  by (simp_all add: find_field_def fields_MessagingCap_def)

lemma codes_MessagingCap [codec_intros]:
  "old = zero_MessagingCap \<Longrightarrow> portable_MessagingCap x \<Longrightarrow> raw_depth + 1 \<le> d \<Longrightarrow> codes nn d un_MessagingCap old (ms_MessagingCap x) x"
  unfolding un_MessagingCap_def ms_MessagingCap_def always_unless
  by (intro codes_struct find_MessagingCap [THEN unless_more] find_MessagingCap [THEN unless_last])
     (auto simp: portable_MessagingCap_def zero_MessagingCap_def codec_rules intro!: codec_intros)

definition portable_FlowsCap :: "FlowsCap \<Rightarrow> bool" where
  "portable_FlowsCap x \<longleftrightarrow>
    int64 (flc_MaxConcurrent x)"

lemma find_FlowsCap:
  "find_field fields_FlowsCap ''max_concurrent'' = Some (field flc_MaxConcurrent flc_MaxConcurrent_update un_int)"
  by (simp_all add: find_field_def fields_FlowsCap_def)

lemma codes_FlowsCap [codec_intros]:
  "old = zero_FlowsCap \<Longrightarrow> portable_FlowsCap x \<Longrightarrow> raw_depth + 1 \<le> d \<Longrightarrow> codes nn d un_FlowsCap old (ms_FlowsCap x) x"
  unfolding un_FlowsCap_def ms_FlowsCap_def always_unless
  by (intro codes_struct find_FlowsCap [THEN unless_more] find_FlowsCap [THEN unless_last])
     (auto simp: portable_FlowsCap_def zero_FlowsCap_def codec_rules intro!: codec_intros)

definition portable_SignCap :: "SignCap \<Rightarrow> bool" where
  "portable_SignCap x \<longleftrightarrow>
    list_all ascii (sgc_ProofTypes x)"

lemma find_SignCap:
  "find_field fields_SignCap ''proof_types'' = Some (field sgc_ProofTypes sgc_ProofTypes_update (un_list [] un_string))"
  by (simp_all add: find_field_def fields_SignCap_def)

lemma codes_SignCap [codec_intros]:
  "old = zero_SignCap \<Longrightarrow> portable_SignCap x \<Longrightarrow> raw_depth + 2 \<le> d \<Longrightarrow> codes nn d un_SignCap old (ms_SignCap x) x"
  unfolding un_SignCap_def ms_SignCap_def always_unless
  by (intro codes_struct find_SignCap [THEN unless_more] find_SignCap [THEN unless_last])
     (auto simp: portable_SignCap_def zero_SignCap_def codec_rules intro!: codec_intros)

definition portable_MCPCap :: "MCPCap \<Rightarrow> bool" where
  "portable_MCPCap x \<longleftrightarrow>
    True"

lemma find_MCPCap:
  "find_field fields_MCPCap ''tools'' = Some (field mcp_Tools mcp_Tools_update un_bool)"
  "find_field fields_MCPCap ''resources'' = Some (field mcp_Resources mcp_Resources_update un_bool)"
  "find_field fields_MCPCap ''prompts'' = Some (field mcp_Prompts mcp_Prompts_update un_bool)"
  by (simp_all add: find_field_def fields_MCPCap_def)

lemma codes_MCPCap [codec_intros]:
  "old = zero_MCPCap \<Longrightarrow> portable_MCPCap x \<Longrightarrow> raw_depth + 1 \<le> d \<Longrightarrow> codes nn d un_MCPCap old (ms_MCPCap x) x"
  unfolding un_MCPCap_def ms_MCPCap_def always_unless
  by (intro codes_struct find_MCPCap [THEN unless_more] find_MCPCap [THEN unless_last])
     (auto simp: portable_MCPCap_def zero_MCPCap_def codec_rules intro!: codec_intros)

definition portable_RelayCap :: "RelayCap \<Rightarrow> bool" where
  "portable_RelayCap x \<longleftrightarrow>
    list_all ascii (rlc_Destinations x)"

lemma find_RelayCap:
  "find_field fields_RelayCap ''destinations'' = Some (field rlc_Destinations rlc_Destinations_update (un_list [] un_string))"
  by (simp_all add: find_field_def fields_RelayCap_def)

lemma codes_RelayCap [codec_intros]:
  "old = zero_RelayCap \<Longrightarrow> portable_RelayCap x \<Longrightarrow> raw_depth + 2 \<le> d \<Longrightarrow> codes nn d un_RelayCap old (ms_RelayCap x) x"
  unfolding un_RelayCap_def ms_RelayCap_def always_unless
  by (intro codes_struct find_RelayCap [THEN unless_more] find_RelayCap [THEN unless_last])
     (auto simp: portable_RelayCap_def zero_RelayCap_def codec_rules intro!: codec_intros)

definition portable_OfflineCap :: "OfflineCap \<Rightarrow> bool" where
  "portable_OfflineCap x \<longleftrightarrow>
    int64 (ofc_MaxQueued x) \<and> int64 (ofc_TTL x)"

lemma find_OfflineCap:
  "find_field fields_OfflineCap ''max_queued'' = Some (field ofc_MaxQueued ofc_MaxQueued_update un_int)"
  "find_field fields_OfflineCap ''ttl'' = Some (field ofc_TTL ofc_TTL_update un_int)"
  by (simp_all add: find_field_def fields_OfflineCap_def)

lemma codes_OfflineCap [codec_intros]:
  "old = zero_OfflineCap \<Longrightarrow> portable_OfflineCap x \<Longrightarrow> raw_depth + 1 \<le> d \<Longrightarrow> codes nn d un_OfflineCap old (ms_OfflineCap x) x"
  unfolding un_OfflineCap_def ms_OfflineCap_def always_unless
  by (intro codes_struct find_OfflineCap [THEN unless_more] find_OfflineCap [THEN unless_last])
     (auto simp: portable_OfflineCap_def zero_OfflineCap_def codec_rules intro!: codec_intros)

definition portable_ResolveCap :: "ResolveCap \<Rightarrow> bool" where
  "portable_ResolveCap x \<longleftrightarrow>
    list_all ascii (rsc_SupportedTypes x)"

lemma find_ResolveCap:
  "find_field fields_ResolveCap ''supported_types'' = Some (field rsc_SupportedTypes rsc_SupportedTypes_update (un_list [] un_string))"
  by (simp_all add: find_field_def fields_ResolveCap_def)

lemma codes_ResolveCap [codec_intros]:
  "old = zero_ResolveCap \<Longrightarrow> portable_ResolveCap x \<Longrightarrow> raw_depth + 2 \<le> d \<Longrightarrow> codes nn d un_ResolveCap old (ms_ResolveCap x) x"
  unfolding un_ResolveCap_def ms_ResolveCap_def always_unless
  by (intro codes_struct find_ResolveCap [THEN unless_more] find_ResolveCap [THEN unless_last])
     (auto simp: portable_ResolveCap_def zero_ResolveCap_def codec_rules intro!: codec_intros)

section \<open>Parameters and results\<close>

definition portable_AuthObject :: "AuthObject \<Rightarrow> bool" where
  "portable_AuthObject x \<longleftrightarrow>
    ascii (ao_Type x) \<and> ascii (ao_Token x) \<and> ascii (ao_Proof x) \<and> ascii (ao_Challenge x)
     \<and> ascii (ao_Signature x) \<and> list_all ascii (ao_X5C x) \<and> portable_raw (ao_DIDAuth x)"

lemma find_AuthObject:
  "find_field fields_AuthObject ''type'' = Some (field ao_Type ao_Type_update un_string)"
  "find_field fields_AuthObject ''token'' = Some (field ao_Token ao_Token_update un_string)"
  "find_field fields_AuthObject ''proof'' = Some (field ao_Proof ao_Proof_update un_string)"
  "find_field fields_AuthObject ''challenge'' = Some (field ao_Challenge ao_Challenge_update un_string)"
  "find_field fields_AuthObject ''signature'' = Some (field ao_Signature ao_Signature_update un_string)"
  "find_field fields_AuthObject ''x5c'' = Some (field ao_X5C ao_X5C_update (un_list [] un_string))"
  "find_field fields_AuthObject ''did_auth'' = Some (field ao_DIDAuth ao_DIDAuth_update un_raw)"
  by (simp_all add: find_field_def fields_AuthObject_def)

lemma codes_AuthObject [codec_intros]:
  "old = zero_AuthObject \<Longrightarrow> portable_AuthObject x \<Longrightarrow> raw_depth + 2 \<le> d \<Longrightarrow> codes nn d un_AuthObject old (ms_AuthObject x) x"
  unfolding un_AuthObject_def ms_AuthObject_def always_unless
  by (intro codes_struct find_AuthObject [THEN unless_more] find_AuthObject [THEN unless_last])
     (auto simp: portable_AuthObject_def zero_AuthObject_def codec_rules intro!: codec_intros)

definition portable_SessionCreateParams :: "SessionCreateParams \<Rightarrow> bool" where
  "portable_SessionCreateParams x \<longleftrightarrow>
    portable_Metadata (scp_WMP x) \<and> list_all ascii (scp_Participants x)
     \<and> portable_map solid_raw (scp_CapabilitiesOffered x) \<and> portable_SecurityMode (scp_Security x)
     \<and> int64 (scp_TTL x) \<and> opt_all portable_AuthObject (scp_Auth x) \<and> ascii (scp_InvitationNonce x)"

lemma find_SessionCreateParams:
  "find_field fields_SessionCreateParams ''wmp'' = Some (field scp_WMP scp_WMP_update un_Metadata)"
  "find_field fields_SessionCreateParams ''participants'' = Some (field scp_Participants scp_Participants_update (un_list [] un_string))"
  "find_field fields_SessionCreateParams ''capabilities_offered'' = Some (field scp_CapabilitiesOffered scp_CapabilitiesOffered_update (un_map None un_raw))"
  "find_field fields_SessionCreateParams ''security'' = Some (field scp_Security scp_Security_update un_SecurityMode)"
  "find_field fields_SessionCreateParams ''ttl'' = Some (field scp_TTL scp_TTL_update un_int)"
  "find_field fields_SessionCreateParams ''auth'' = Some (field scp_Auth scp_Auth_update (un_ptr zero_AuthObject un_AuthObject))"
  "find_field fields_SessionCreateParams ''invitation_nonce'' = Some (field scp_InvitationNonce scp_InvitationNonce_update un_string)"
  by (simp_all add: find_field_def fields_SessionCreateParams_def)

lemma codes_SessionCreateParams [codec_intros]:
  "old = zero_SessionCreateParams \<Longrightarrow> portable_SessionCreateParams x \<Longrightarrow> raw_depth + 7 \<le> d \<Longrightarrow> codes nn d un_SessionCreateParams old (ms_SessionCreateParams x) x"
  unfolding un_SessionCreateParams_def ms_SessionCreateParams_def always_unless
  by (intro codes_struct find_SessionCreateParams [THEN unless_more] find_SessionCreateParams [THEN unless_last])
     (auto simp: portable_SessionCreateParams_def zero_SessionCreateParams_def codec_rules intro!: codec_intros)

definition portable_SessionCreateResult :: "SessionCreateResult \<Rightarrow> bool" where
  "portable_SessionCreateResult x \<longleftrightarrow>
    portable_Metadata (scr_WMP x) \<and> portable_map solid_raw (scr_Capabilities x)
     \<and> portable_SecurityMode (scr_Security x) \<and> ascii (scr_Challenge x) \<and> ascii (scr_ResumptionToken x)"

lemma find_SessionCreateResult:
  "find_field fields_SessionCreateResult ''wmp'' = Some (field scr_WMP scr_WMP_update un_Metadata)"
  "find_field fields_SessionCreateResult ''capabilities'' = Some (field scr_Capabilities scr_Capabilities_update (un_map None un_raw))"
  "find_field fields_SessionCreateResult ''security'' = Some (field scr_Security scr_Security_update un_SecurityMode)"
  "find_field fields_SessionCreateResult ''challenge'' = Some (field scr_Challenge scr_Challenge_update un_string)"
  "find_field fields_SessionCreateResult ''resumption_token'' = Some (field scr_ResumptionToken scr_ResumptionToken_update un_string)"
  by (simp_all add: find_field_def fields_SessionCreateResult_def)

lemma codes_SessionCreateResult [codec_intros]:
  "old = zero_SessionCreateResult \<Longrightarrow> portable_SessionCreateResult x \<Longrightarrow> raw_depth + 7 \<le> d \<Longrightarrow> codes nn d un_SessionCreateResult old (ms_SessionCreateResult x) x"
  unfolding un_SessionCreateResult_def ms_SessionCreateResult_def always_unless
  by (intro codes_struct find_SessionCreateResult [THEN unless_more] find_SessionCreateResult [THEN unless_last])
     (auto simp: portable_SessionCreateResult_def zero_SessionCreateResult_def codec_rules intro!: codec_intros)

definition portable_SessionResumeParams :: "SessionResumeParams \<Rightarrow> bool" where
  "portable_SessionResumeParams x \<longleftrightarrow>
    portable_Metadata (srp_WMP x) \<and> ascii (srp_SessionID x) \<and> ascii (srp_ResumptionToken x)
     \<and> ascii (srp_LastReceivedID x)"

lemma find_SessionResumeParams:
  "find_field fields_SessionResumeParams ''wmp'' = Some (field srp_WMP srp_WMP_update un_Metadata)"
  "find_field fields_SessionResumeParams ''session_id'' = Some (field srp_SessionID srp_SessionID_update un_string)"
  "find_field fields_SessionResumeParams ''resumption_token'' = Some (field srp_ResumptionToken srp_ResumptionToken_update un_string)"
  "find_field fields_SessionResumeParams ''last_received_id'' = Some (field srp_LastReceivedID srp_LastReceivedID_update un_string)"
  by (simp_all add: find_field_def fields_SessionResumeParams_def)

lemma codes_SessionResumeParams [codec_intros]:
  "old = zero_SessionResumeParams \<Longrightarrow> portable_SessionResumeParams x \<Longrightarrow> raw_depth + 7 \<le> d \<Longrightarrow> codes nn d un_SessionResumeParams old (ms_SessionResumeParams x) x"
  unfolding un_SessionResumeParams_def ms_SessionResumeParams_def always_unless
  by (intro codes_struct find_SessionResumeParams [THEN unless_more] find_SessionResumeParams [THEN unless_last])
     (auto simp: portable_SessionResumeParams_def zero_SessionResumeParams_def codec_rules intro!: codec_intros)

definition portable_SessionResumeResult :: "SessionResumeResult \<Rightarrow> bool" where
  "portable_SessionResumeResult x \<longleftrightarrow>
    portable_Metadata (srr_WMP x) \<and> ascii (srr_ResumptionToken x) \<and> int64 (srr_MissedMessages x)
     \<and> portable_map solid_raw (srr_Capabilities x) \<and> portable_SecurityMode (srr_Security x)"

lemma find_SessionResumeResult:
  "find_field fields_SessionResumeResult ''wmp'' = Some (field srr_WMP srr_WMP_update un_Metadata)"
  "find_field fields_SessionResumeResult ''resumed'' = Some (field srr_Resumed srr_Resumed_update un_bool)"
  "find_field fields_SessionResumeResult ''resumption_token'' = Some (field srr_ResumptionToken srr_ResumptionToken_update un_string)"
  "find_field fields_SessionResumeResult ''missed_messages'' = Some (field srr_MissedMessages srr_MissedMessages_update un_int)"
  "find_field fields_SessionResumeResult ''capabilities'' = Some (field srr_Capabilities srr_Capabilities_update (un_map None un_raw))"
  "find_field fields_SessionResumeResult ''security'' = Some (field srr_Security srr_Security_update un_SecurityMode)"
  by (simp_all add: find_field_def fields_SessionResumeResult_def)

lemma codes_SessionResumeResult [codec_intros]:
  "old = zero_SessionResumeResult \<Longrightarrow> portable_SessionResumeResult x \<Longrightarrow> raw_depth + 7 \<le> d \<Longrightarrow> codes nn d un_SessionResumeResult old (ms_SessionResumeResult x) x"
  unfolding un_SessionResumeResult_def ms_SessionResumeResult_def always_unless
  by (intro codes_struct find_SessionResumeResult [THEN unless_more] find_SessionResumeResult [THEN unless_last])
     (auto simp: portable_SessionResumeResult_def zero_SessionResumeResult_def codec_rules intro!: codec_intros)

definition portable_SessionCloseParams :: "SessionCloseParams \<Rightarrow> bool" where
  "portable_SessionCloseParams x \<longleftrightarrow>
    portable_Metadata (sclp_WMP x) \<and> ascii (sclp_Reason x)"

lemma find_SessionCloseParams:
  "find_field fields_SessionCloseParams ''wmp'' = Some (field sclp_WMP sclp_WMP_update un_Metadata)"
  "find_field fields_SessionCloseParams ''reason'' = Some (field sclp_Reason sclp_Reason_update un_string)"
  by (simp_all add: find_field_def fields_SessionCloseParams_def)

lemma codes_SessionCloseParams [codec_intros]:
  "old = zero_SessionCloseParams \<Longrightarrow> portable_SessionCloseParams x \<Longrightarrow> raw_depth + 7 \<le> d \<Longrightarrow> codes nn d un_SessionCloseParams old (ms_SessionCloseParams x) x"
  unfolding un_SessionCloseParams_def ms_SessionCloseParams_def always_unless
  by (intro codes_struct find_SessionCloseParams [THEN unless_more] find_SessionCloseParams [THEN unless_last])
     (auto simp: portable_SessionCloseParams_def zero_SessionCloseParams_def codec_rules intro!: codec_intros)

definition portable_MessageDeliverParams :: "MessageDeliverParams \<Rightarrow> bool" where
  "portable_MessageDeliverParams x \<longleftrightarrow>
    portable_Metadata (mdp_WMP x) \<and> list_all ascii (mdp_To x) \<and> ascii (mdp_ContentType x)
     \<and> portable_raw (mdp_Body x) \<and> ascii (mdp_Ciphertext x) \<and> ascii (mdp_ReplyTo x)
     \<and> ascii (mdp_InReplyTo x) \<and> ascii (mdp_MessageType x) \<and> ascii (mdp_ConsignmentMode x)
     \<and> ascii (mdp_RecipientAssuranceLevel x) \<and> list_all ascii (mdp_ApplicablePolicies x)"

lemma find_MessageDeliverParams:
  "find_field fields_MessageDeliverParams ''wmp'' = Some (field mdp_WMP mdp_WMP_update un_Metadata)"
  "find_field fields_MessageDeliverParams ''to'' = Some (field mdp_To mdp_To_update (un_list [] un_string))"
  "find_field fields_MessageDeliverParams ''content_type'' = Some (field mdp_ContentType mdp_ContentType_update un_string)"
  "find_field fields_MessageDeliverParams ''body'' = Some (field mdp_Body mdp_Body_update un_raw)"
  "find_field fields_MessageDeliverParams ''ciphertext'' = Some (field mdp_Ciphertext mdp_Ciphertext_update un_string)"
  "find_field fields_MessageDeliverParams ''reply_to'' = Some (field mdp_ReplyTo mdp_ReplyTo_update un_string)"
  "find_field fields_MessageDeliverParams ''in_reply_to'' = Some (field mdp_InReplyTo mdp_InReplyTo_update un_string)"
  "find_field fields_MessageDeliverParams ''message_type'' = Some (field mdp_MessageType mdp_MessageType_update un_string)"
  "find_field fields_MessageDeliverParams ''consignment_mode'' = Some (field mdp_ConsignmentMode mdp_ConsignmentMode_update un_string)"
  "find_field fields_MessageDeliverParams ''recipient_assurance_level'' = Some (field mdp_RecipientAssuranceLevel mdp_RecipientAssuranceLevel_update un_string)"
  "find_field fields_MessageDeliverParams ''applicable_policies'' = Some (field mdp_ApplicablePolicies mdp_ApplicablePolicies_update (un_list [] un_string))"
  by (simp_all add: find_field_def fields_MessageDeliverParams_def)

lemma codes_MessageDeliverParams [codec_intros]:
  "old = zero_MessageDeliverParams \<Longrightarrow> portable_MessageDeliverParams x \<Longrightarrow> raw_depth + 7 \<le> d \<Longrightarrow> codes nn d un_MessageDeliverParams old (ms_MessageDeliverParams x) x"
  unfolding un_MessageDeliverParams_def ms_MessageDeliverParams_def always_unless
  by (intro codes_struct find_MessageDeliverParams [THEN unless_more] find_MessageDeliverParams [THEN unless_last])
     (auto simp: portable_MessageDeliverParams_def zero_MessageDeliverParams_def codec_rules intro!: codec_intros)

definition portable_MessageAckParams :: "MessageAckParams \<Rightarrow> bool" where
  "portable_MessageAckParams x \<longleftrightarrow>
    portable_Metadata (map_WMP x) \<and> opt_all (list_all ascii) (map_MessageIDs x) \<and> ascii (map_Status x)"

lemma find_MessageAckParams:
  "find_field fields_MessageAckParams ''wmp'' = Some (field map_WMP map_WMP_update un_Metadata)"
  "find_field fields_MessageAckParams ''message_ids'' = Some (field map_MessageIDs map_MessageIDs_update (un_slice [] un_string))"
  "find_field fields_MessageAckParams ''status'' = Some (field map_Status map_Status_update un_string)"
  by (simp_all add: find_field_def fields_MessageAckParams_def)

lemma codes_MessageAckParams [codec_intros]:
  "old = zero_MessageAckParams \<Longrightarrow> portable_MessageAckParams x \<Longrightarrow> raw_depth + 7 \<le> d \<Longrightarrow> codes nn d un_MessageAckParams old (ms_MessageAckParams x) x"
  unfolding un_MessageAckParams_def ms_MessageAckParams_def always_unless
  by (intro codes_struct find_MessageAckParams [THEN unless_more] find_MessageAckParams [THEN unless_last])
     (auto simp: portable_MessageAckParams_def zero_MessageAckParams_def codec_rules intro!: codec_intros)

definition portable_MessagePollParams :: "MessagePollParams \<Rightarrow> bool" where
  "portable_MessagePollParams x \<longleftrightarrow>
    portable_Metadata (mpp_WMP x) \<and> ascii (mpp_Since x) \<and> int64 (mpp_Limit x)"

lemma find_MessagePollParams:
  "find_field fields_MessagePollParams ''wmp'' = Some (field mpp_WMP mpp_WMP_update un_Metadata)"
  "find_field fields_MessagePollParams ''since'' = Some (field mpp_Since mpp_Since_update un_string)"
  "find_field fields_MessagePollParams ''limit'' = Some (field mpp_Limit mpp_Limit_update un_int)"
  by (simp_all add: find_field_def fields_MessagePollParams_def)

lemma codes_MessagePollParams [codec_intros]:
  "old = zero_MessagePollParams \<Longrightarrow> portable_MessagePollParams x \<Longrightarrow> raw_depth + 7 \<le> d \<Longrightarrow> codes nn d un_MessagePollParams old (ms_MessagePollParams x) x"
  unfolding un_MessagePollParams_def ms_MessagePollParams_def always_unless
  by (intro codes_struct find_MessagePollParams [THEN unless_more] find_MessagePollParams [THEN unless_last])
     (auto simp: portable_MessagePollParams_def zero_MessagePollParams_def codec_rules intro!: codec_intros)

definition portable_MessagePollResult :: "MessagePollResult \<Rightarrow> bool" where
  "portable_MessagePollResult x \<longleftrightarrow>
    portable_Metadata (mpr_WMP x) \<and> opt_all (list_all solid_raw) (mpr_Messages x)"

lemma find_MessagePollResult:
  "find_field fields_MessagePollResult ''wmp'' = Some (field mpr_WMP mpr_WMP_update un_Metadata)"
  "find_field fields_MessagePollResult ''messages'' = Some (field mpr_Messages mpr_Messages_update (un_slice None un_raw))"
  by (simp_all add: find_field_def fields_MessagePollResult_def)

lemma codes_MessagePollResult [codec_intros]:
  "old = zero_MessagePollResult \<Longrightarrow> portable_MessagePollResult x \<Longrightarrow> raw_depth + 7 \<le> d \<Longrightarrow> codes nn d un_MessagePollResult old (ms_MessagePollResult x) x"
  unfolding un_MessagePollResult_def ms_MessagePollResult_def always_unless
  by (intro codes_struct find_MessagePollResult [THEN unless_more] find_MessagePollResult [THEN unless_last])
     (auto simp: portable_MessagePollResult_def zero_MessagePollResult_def codec_rules intro!: codec_intros)

definition portable_CapabilityUpdateParams :: "CapabilityUpdateParams \<Rightarrow> bool" where
  "portable_CapabilityUpdateParams x \<longleftrightarrow>
    portable_Metadata (cup_WMP x) \<and> portable_map solid_raw (cup_Add x) \<and> list_all ascii (cup_Remove x)
     \<and> opt_all portable_SecurityMode (cup_Security x)"

lemma find_CapabilityUpdateParams:
  "find_field fields_CapabilityUpdateParams ''wmp'' = Some (field cup_WMP cup_WMP_update un_Metadata)"
  "find_field fields_CapabilityUpdateParams ''add'' = Some (field cup_Add cup_Add_update (un_map None un_raw))"
  "find_field fields_CapabilityUpdateParams ''remove'' = Some (field cup_Remove cup_Remove_update (un_list [] un_string))"
  "find_field fields_CapabilityUpdateParams ''security'' = Some (field cup_Security cup_Security_update (un_ptr zero_SecurityMode un_SecurityMode))"
  by (simp_all add: find_field_def fields_CapabilityUpdateParams_def)

lemma codes_CapabilityUpdateParams [codec_intros]:
  "old = zero_CapabilityUpdateParams \<Longrightarrow> portable_CapabilityUpdateParams x \<Longrightarrow> raw_depth + 7 \<le> d \<Longrightarrow> codes nn d un_CapabilityUpdateParams old (ms_CapabilityUpdateParams x) x"
  unfolding un_CapabilityUpdateParams_def ms_CapabilityUpdateParams_def always_unless
  by (intro codes_struct find_CapabilityUpdateParams [THEN unless_more] find_CapabilityUpdateParams [THEN unless_last])
     (auto simp: portable_CapabilityUpdateParams_def zero_CapabilityUpdateParams_def codec_rules intro!: codec_intros)

definition portable_CapabilityUpdateResult :: "CapabilityUpdateResult \<Rightarrow> bool" where
  "portable_CapabilityUpdateResult x \<longleftrightarrow>
    portable_Metadata (cur_WMP x) \<and> opt_all (portable_map solid_raw) (cur_Capabilities x)
     \<and> portable_SecurityMode (cur_Security x)"

lemma find_CapabilityUpdateResult:
  "find_field fields_CapabilityUpdateResult ''wmp'' = Some (field cur_WMP cur_WMP_update un_Metadata)"
  "find_field fields_CapabilityUpdateResult ''capabilities'' = Some (field cur_Capabilities cur_Capabilities_update (un_ptr [] (un_map None un_raw)))"
  "find_field fields_CapabilityUpdateResult ''security'' = Some (field cur_Security cur_Security_update un_SecurityMode)"
  by (simp_all add: find_field_def fields_CapabilityUpdateResult_def)

lemma codes_CapabilityUpdateResult [codec_intros]:
  "old = zero_CapabilityUpdateResult \<Longrightarrow> portable_CapabilityUpdateResult x \<Longrightarrow> raw_depth + 7 \<le> d \<Longrightarrow> codes nn d un_CapabilityUpdateResult old (ms_CapabilityUpdateResult x) x"
  unfolding un_CapabilityUpdateResult_def ms_CapabilityUpdateResult_def always_unless
  by (intro codes_struct find_CapabilityUpdateResult [THEN unless_more] find_CapabilityUpdateResult [THEN unless_last])
     (auto simp: portable_CapabilityUpdateResult_def zero_CapabilityUpdateResult_def codec_rules intro!: codec_intros)

definition portable_CapabilityListParams :: "CapabilityListParams \<Rightarrow> bool" where
  "portable_CapabilityListParams x \<longleftrightarrow>
    portable_Metadata (clp_WMP x)"

lemma find_CapabilityListParams:
  "find_field fields_CapabilityListParams ''wmp'' = Some (field clp_WMP clp_WMP_update un_Metadata)"
  by (simp_all add: find_field_def fields_CapabilityListParams_def)

lemma codes_CapabilityListParams [codec_intros]:
  "old = zero_CapabilityListParams \<Longrightarrow> portable_CapabilityListParams x \<Longrightarrow> raw_depth + 7 \<le> d \<Longrightarrow> codes nn d un_CapabilityListParams old (ms_CapabilityListParams x) x"
  unfolding un_CapabilityListParams_def ms_CapabilityListParams_def always_unless
  by (intro codes_struct find_CapabilityListParams [THEN unless_more] find_CapabilityListParams [THEN unless_last])
     (auto simp: portable_CapabilityListParams_def zero_CapabilityListParams_def codec_rules intro!: codec_intros)

definition portable_CapabilityListResult :: "CapabilityListResult \<Rightarrow> bool" where
  "portable_CapabilityListResult x \<longleftrightarrow>
    portable_Metadata (clr_WMP x) \<and> opt_all (portable_map solid_raw) (clr_Capabilities x)
     \<and> portable_SecurityMode (clr_Security x)"

lemma find_CapabilityListResult:
  "find_field fields_CapabilityListResult ''wmp'' = Some (field clr_WMP clr_WMP_update un_Metadata)"
  "find_field fields_CapabilityListResult ''capabilities'' = Some (field clr_Capabilities clr_Capabilities_update (un_ptr [] (un_map None un_raw)))"
  "find_field fields_CapabilityListResult ''security'' = Some (field clr_Security clr_Security_update un_SecurityMode)"
  by (simp_all add: find_field_def fields_CapabilityListResult_def)

lemma codes_CapabilityListResult [codec_intros]:
  "old = zero_CapabilityListResult \<Longrightarrow> portable_CapabilityListResult x \<Longrightarrow> raw_depth + 7 \<le> d \<Longrightarrow> codes nn d un_CapabilityListResult old (ms_CapabilityListResult x) x"
  unfolding un_CapabilityListResult_def ms_CapabilityListResult_def always_unless
  by (intro codes_struct find_CapabilityListResult [THEN unless_more] find_CapabilityListResult [THEN unless_last])
     (auto simp: portable_CapabilityListResult_def zero_CapabilityListResult_def codec_rules intro!: codec_intros)

definition portable_FlowStartParams :: "FlowStartParams \<Rightarrow> bool" where
  "portable_FlowStartParams x \<longleftrightarrow>
    portable_Metadata (fsp_WMP x) \<and> ascii (fsp_FlowType x) \<and> ascii (fsp_FlowID x)
     \<and> portable_raw (fsp_Params x) \<and> int64 (fsp_Timeout x)"

lemma find_FlowStartParams:
  "find_field fields_FlowStartParams ''wmp'' = Some (field fsp_WMP fsp_WMP_update un_Metadata)"
  "find_field fields_FlowStartParams ''flow_type'' = Some (field fsp_FlowType fsp_FlowType_update un_string)"
  "find_field fields_FlowStartParams ''flow_id'' = Some (field fsp_FlowID fsp_FlowID_update un_string)"
  "find_field fields_FlowStartParams ''params'' = Some (field fsp_Params fsp_Params_update un_raw)"
  "find_field fields_FlowStartParams ''timeout'' = Some (field fsp_Timeout fsp_Timeout_update un_int)"
  by (simp_all add: find_field_def fields_FlowStartParams_def)

lemma codes_FlowStartParams [codec_intros]:
  "old = zero_FlowStartParams \<Longrightarrow> portable_FlowStartParams x \<Longrightarrow> raw_depth + 7 \<le> d \<Longrightarrow> codes nn d un_FlowStartParams old (ms_FlowStartParams x) x"
  unfolding un_FlowStartParams_def ms_FlowStartParams_def always_unless
  by (intro codes_struct find_FlowStartParams [THEN unless_more] find_FlowStartParams [THEN unless_last])
     (auto simp: portable_FlowStartParams_def zero_FlowStartParams_def codec_rules intro!: codec_intros)

definition portable_FlowStartResult :: "FlowStartResult \<Rightarrow> bool" where
  "portable_FlowStartResult x \<longleftrightarrow>
    portable_Metadata (fsr_WMP x) \<and> ascii (fsr_FlowID x) \<and> ascii (fsr_FlowType x)"

lemma find_FlowStartResult:
  "find_field fields_FlowStartResult ''wmp'' = Some (field fsr_WMP fsr_WMP_update un_Metadata)"
  "find_field fields_FlowStartResult ''flow_id'' = Some (field fsr_FlowID fsr_FlowID_update un_string)"
  "find_field fields_FlowStartResult ''flow_type'' = Some (field fsr_FlowType fsr_FlowType_update un_string)"
  by (simp_all add: find_field_def fields_FlowStartResult_def)

lemma codes_FlowStartResult [codec_intros]:
  "old = zero_FlowStartResult \<Longrightarrow> portable_FlowStartResult x \<Longrightarrow> raw_depth + 7 \<le> d \<Longrightarrow> codes nn d un_FlowStartResult old (ms_FlowStartResult x) x"
  unfolding un_FlowStartResult_def ms_FlowStartResult_def always_unless
  by (intro codes_struct find_FlowStartResult [THEN unless_more] find_FlowStartResult [THEN unless_last])
     (auto simp: portable_FlowStartResult_def zero_FlowStartResult_def codec_rules intro!: codec_intros)

definition portable_FlowProgressParams :: "FlowProgressParams \<Rightarrow> bool" where
  "portable_FlowProgressParams x \<longleftrightarrow>
    portable_Metadata (fpp_WMP x) \<and> ascii (fpp_FlowID x) \<and> ascii (fpp_Step x)
     \<and> portable_raw (fpp_Payload x)"

lemma find_FlowProgressParams:
  "find_field fields_FlowProgressParams ''wmp'' = Some (field fpp_WMP fpp_WMP_update un_Metadata)"
  "find_field fields_FlowProgressParams ''flow_id'' = Some (field fpp_FlowID fpp_FlowID_update un_string)"
  "find_field fields_FlowProgressParams ''step'' = Some (field fpp_Step fpp_Step_update un_string)"
  "find_field fields_FlowProgressParams ''payload'' = Some (field fpp_Payload fpp_Payload_update un_raw)"
  by (simp_all add: find_field_def fields_FlowProgressParams_def)

lemma codes_FlowProgressParams [codec_intros]:
  "old = zero_FlowProgressParams \<Longrightarrow> portable_FlowProgressParams x \<Longrightarrow> raw_depth + 7 \<le> d \<Longrightarrow> codes nn d un_FlowProgressParams old (ms_FlowProgressParams x) x"
  unfolding un_FlowProgressParams_def ms_FlowProgressParams_def always_unless
  by (intro codes_struct find_FlowProgressParams [THEN unless_more] find_FlowProgressParams [THEN unless_last])
     (auto simp: portable_FlowProgressParams_def zero_FlowProgressParams_def codec_rules intro!: codec_intros)

definition portable_FlowActionParams :: "FlowActionParams \<Rightarrow> bool" where
  "portable_FlowActionParams x \<longleftrightarrow>
    portable_Metadata (fap_WMP x) \<and> ascii (fap_FlowID x) \<and> ascii (fap_Action x)
     \<and> portable_raw (fap_Params x)"

lemma find_FlowActionParams:
  "find_field fields_FlowActionParams ''wmp'' = Some (field fap_WMP fap_WMP_update un_Metadata)"
  "find_field fields_FlowActionParams ''flow_id'' = Some (field fap_FlowID fap_FlowID_update un_string)"
  "find_field fields_FlowActionParams ''action'' = Some (field fap_Action fap_Action_update un_string)"
  "find_field fields_FlowActionParams ''params'' = Some (field fap_Params fap_Params_update un_raw)"
  by (simp_all add: find_field_def fields_FlowActionParams_def)

lemma codes_FlowActionParams [codec_intros]:
  "old = zero_FlowActionParams \<Longrightarrow> portable_FlowActionParams x \<Longrightarrow> raw_depth + 7 \<le> d \<Longrightarrow> codes nn d un_FlowActionParams old (ms_FlowActionParams x) x"
  unfolding un_FlowActionParams_def ms_FlowActionParams_def always_unless
  by (intro codes_struct find_FlowActionParams [THEN unless_more] find_FlowActionParams [THEN unless_last])
     (auto simp: portable_FlowActionParams_def zero_FlowActionParams_def codec_rules intro!: codec_intros)

definition portable_FlowActionResult :: "FlowActionResult \<Rightarrow> bool" where
  "portable_FlowActionResult x \<longleftrightarrow>
    portable_Metadata (far_WMP x) \<and> ascii (far_FlowID x) \<and> ascii (far_Action x) \<and> ascii (far_Status x)"

lemma find_FlowActionResult:
  "find_field fields_FlowActionResult ''wmp'' = Some (field far_WMP far_WMP_update un_Metadata)"
  "find_field fields_FlowActionResult ''flow_id'' = Some (field far_FlowID far_FlowID_update un_string)"
  "find_field fields_FlowActionResult ''action'' = Some (field far_Action far_Action_update un_string)"
  "find_field fields_FlowActionResult ''status'' = Some (field far_Status far_Status_update un_string)"
  by (simp_all add: find_field_def fields_FlowActionResult_def)

lemma codes_FlowActionResult [codec_intros]:
  "old = zero_FlowActionResult \<Longrightarrow> portable_FlowActionResult x \<Longrightarrow> raw_depth + 7 \<le> d \<Longrightarrow> codes nn d un_FlowActionResult old (ms_FlowActionResult x) x"
  unfolding un_FlowActionResult_def ms_FlowActionResult_def always_unless
  by (intro codes_struct find_FlowActionResult [THEN unless_more] find_FlowActionResult [THEN unless_last])
     (auto simp: portable_FlowActionResult_def zero_FlowActionResult_def codec_rules intro!: codec_intros)

definition portable_FlowCompleteParams :: "FlowCompleteParams \<Rightarrow> bool" where
  "portable_FlowCompleteParams x \<longleftrightarrow>
    portable_Metadata (fcp_WMP x) \<and> ascii (fcp_FlowID x) \<and> portable_raw (fcp_Result x)"

lemma find_FlowCompleteParams:
  "find_field fields_FlowCompleteParams ''wmp'' = Some (field fcp_WMP fcp_WMP_update un_Metadata)"
  "find_field fields_FlowCompleteParams ''flow_id'' = Some (field fcp_FlowID fcp_FlowID_update un_string)"
  "find_field fields_FlowCompleteParams ''result'' = Some (field fcp_Result fcp_Result_update un_raw)"
  by (simp_all add: find_field_def fields_FlowCompleteParams_def)

lemma codes_FlowCompleteParams [codec_intros]:
  "old = zero_FlowCompleteParams \<Longrightarrow> portable_FlowCompleteParams x \<Longrightarrow> raw_depth + 7 \<le> d \<Longrightarrow> codes nn d un_FlowCompleteParams old (ms_FlowCompleteParams x) x"
  unfolding un_FlowCompleteParams_def ms_FlowCompleteParams_def always_unless
  by (intro codes_struct find_FlowCompleteParams [THEN unless_more] find_FlowCompleteParams [THEN unless_last])
     (auto simp: portable_FlowCompleteParams_def zero_FlowCompleteParams_def codec_rules intro!: codec_intros)

definition portable_FlowErrorParams :: "FlowErrorParams \<Rightarrow> bool" where
  "portable_FlowErrorParams x \<longleftrightarrow>
    portable_Metadata (fep_WMP x) \<and> ascii (fep_FlowID x) \<and> int64 (fep_Code x) \<and> ascii (fep_Message x)
     \<and> portable_raw (fep_Data x)"

lemma find_FlowErrorParams:
  "find_field fields_FlowErrorParams ''wmp'' = Some (field fep_WMP fep_WMP_update un_Metadata)"
  "find_field fields_FlowErrorParams ''flow_id'' = Some (field fep_FlowID fep_FlowID_update un_string)"
  "find_field fields_FlowErrorParams ''code'' = Some (field fep_Code fep_Code_update un_int)"
  "find_field fields_FlowErrorParams ''message'' = Some (field fep_Message fep_Message_update un_string)"
  "find_field fields_FlowErrorParams ''data'' = Some (field fep_Data fep_Data_update un_raw)"
  by (simp_all add: find_field_def fields_FlowErrorParams_def)

lemma codes_FlowErrorParams [codec_intros]:
  "old = zero_FlowErrorParams \<Longrightarrow> portable_FlowErrorParams x \<Longrightarrow> raw_depth + 7 \<le> d \<Longrightarrow> codes nn d un_FlowErrorParams old (ms_FlowErrorParams x) x"
  unfolding un_FlowErrorParams_def ms_FlowErrorParams_def always_unless
  by (intro codes_struct find_FlowErrorParams [THEN unless_more] find_FlowErrorParams [THEN unless_last])
     (auto simp: portable_FlowErrorParams_def zero_FlowErrorParams_def codec_rules intro!: codec_intros)

definition portable_CredentialNotificationParams :: "CredentialNotificationParams \<Rightarrow> bool" where
  "portable_CredentialNotificationParams x \<longleftrightarrow>
    portable_Metadata (cnp_WMP x) \<and> ascii (cnp_FlowID x) \<and> ascii (cnp_NotificationID x)
     \<and> ascii (cnp_Event x) \<and> ascii (cnp_EventDescription x)"

lemma find_CredentialNotificationParams:
  "find_field fields_CredentialNotificationParams ''wmp'' = Some (field cnp_WMP cnp_WMP_update un_Metadata)"
  "find_field fields_CredentialNotificationParams ''flow_id'' = Some (field cnp_FlowID cnp_FlowID_update un_string)"
  "find_field fields_CredentialNotificationParams ''notification_id'' = Some (field cnp_NotificationID cnp_NotificationID_update un_string)"
  "find_field fields_CredentialNotificationParams ''event'' = Some (field cnp_Event cnp_Event_update un_string)"
  "find_field fields_CredentialNotificationParams ''event_description'' = Some (field cnp_EventDescription cnp_EventDescription_update un_string)"
  by (simp_all add: find_field_def fields_CredentialNotificationParams_def)

lemma codes_CredentialNotificationParams [codec_intros]:
  "old = zero_CredentialNotificationParams \<Longrightarrow> portable_CredentialNotificationParams x \<Longrightarrow> raw_depth + 7 \<le> d \<Longrightarrow> codes nn d un_CredentialNotificationParams old (ms_CredentialNotificationParams x) x"
  unfolding un_CredentialNotificationParams_def ms_CredentialNotificationParams_def always_unless
  by (intro codes_struct find_CredentialNotificationParams [THEN unless_more] find_CredentialNotificationParams [THEN unless_last])
     (auto simp: portable_CredentialNotificationParams_def zero_CredentialNotificationParams_def codec_rules intro!: codec_intros)

definition portable_ResolveParams :: "ResolveParams \<Rightarrow> bool" where
  "portable_ResolveParams x \<longleftrightarrow>
    portable_Metadata (rp_WMP x) \<and> ascii (rp_Type x) \<and> ascii (rp_URI x) \<and> portable_raw (rp_Options x)"

lemma find_ResolveParams:
  "find_field fields_ResolveParams ''wmp'' = Some (field rp_WMP rp_WMP_update un_Metadata)"
  "find_field fields_ResolveParams ''type'' = Some (field rp_Type rp_Type_update un_string)"
  "find_field fields_ResolveParams ''uri'' = Some (field rp_URI rp_URI_update un_string)"
  "find_field fields_ResolveParams ''options'' = Some (field rp_Options rp_Options_update un_raw)"
  by (simp_all add: find_field_def fields_ResolveParams_def)

lemma codes_ResolveParams [codec_intros]:
  "old = zero_ResolveParams \<Longrightarrow> portable_ResolveParams x \<Longrightarrow> raw_depth + 7 \<le> d \<Longrightarrow> codes nn d un_ResolveParams old (ms_ResolveParams x) x"
  unfolding un_ResolveParams_def ms_ResolveParams_def always_unless
  by (intro codes_struct find_ResolveParams [THEN unless_more] find_ResolveParams [THEN unless_last])
     (auto simp: portable_ResolveParams_def zero_ResolveParams_def codec_rules intro!: codec_intros)

definition portable_ResolveResult :: "ResolveResult \<Rightarrow> bool" where
  "portable_ResolveResult x \<longleftrightarrow>
    portable_Metadata (rr_WMP x) \<and> ascii (rr_Type x) \<and> ascii (rr_URI x) \<and> solid_raw (rr_Metadata x)
     \<and> portable_raw (rr_TrustInfo x)"

lemma find_ResolveResult:
  "find_field fields_ResolveResult ''wmp'' = Some (field rr_WMP rr_WMP_update un_Metadata)"
  "find_field fields_ResolveResult ''type'' = Some (field rr_Type rr_Type_update un_string)"
  "find_field fields_ResolveResult ''uri'' = Some (field rr_URI rr_URI_update un_string)"
  "find_field fields_ResolveResult ''metadata'' = Some (field rr_Metadata rr_Metadata_update un_raw)"
  "find_field fields_ResolveResult ''trust_info'' = Some (field rr_TrustInfo rr_TrustInfo_update un_raw)"
  by (simp_all add: find_field_def fields_ResolveResult_def)

lemma codes_ResolveResult [codec_intros]:
  "old = zero_ResolveResult \<Longrightarrow> portable_ResolveResult x \<Longrightarrow> raw_depth + 7 \<le> d \<Longrightarrow> codes nn d un_ResolveResult old (ms_ResolveResult x) x"
  unfolding un_ResolveResult_def ms_ResolveResult_def always_unless
  by (intro codes_struct find_ResolveResult [THEN unless_more] find_ResolveResult [THEN unless_last])
     (auto simp: portable_ResolveResult_def zero_ResolveResult_def codec_rules intro!: codec_intros)

definition portable_FlowCancelParams :: "FlowCancelParams \<Rightarrow> bool" where
  "portable_FlowCancelParams x \<longleftrightarrow>
    portable_Metadata (fxp_WMP x) \<and> ascii (fxp_FlowID x) \<and> ascii (fxp_Reason x)"

lemma find_FlowCancelParams:
  "find_field fields_FlowCancelParams ''wmp'' = Some (field fxp_WMP fxp_WMP_update un_Metadata)"
  "find_field fields_FlowCancelParams ''flow_id'' = Some (field fxp_FlowID fxp_FlowID_update un_string)"
  "find_field fields_FlowCancelParams ''reason'' = Some (field fxp_Reason fxp_Reason_update un_string)"
  by (simp_all add: find_field_def fields_FlowCancelParams_def)

lemma codes_FlowCancelParams [codec_intros]:
  "old = zero_FlowCancelParams \<Longrightarrow> portable_FlowCancelParams x \<Longrightarrow> raw_depth + 7 \<le> d \<Longrightarrow> codes nn d un_FlowCancelParams old (ms_FlowCancelParams x) x"
  unfolding un_FlowCancelParams_def ms_FlowCancelParams_def always_unless
  by (intro codes_struct find_FlowCancelParams [THEN unless_more] find_FlowCancelParams [THEN unless_last])
     (auto simp: portable_FlowCancelParams_def zero_FlowCancelParams_def codec_rules intro!: codec_intros)

definition portable_FlowCancelResult :: "FlowCancelResult \<Rightarrow> bool" where
  "portable_FlowCancelResult x \<longleftrightarrow>
    portable_Metadata (fxr_WMP x) \<and> ascii (fxr_FlowID x) \<and> ascii (fxr_Status x)"

lemma find_FlowCancelResult:
  "find_field fields_FlowCancelResult ''wmp'' = Some (field fxr_WMP fxr_WMP_update un_Metadata)"
  "find_field fields_FlowCancelResult ''flow_id'' = Some (field fxr_FlowID fxr_FlowID_update un_string)"
  "find_field fields_FlowCancelResult ''status'' = Some (field fxr_Status fxr_Status_update un_string)"
  by (simp_all add: find_field_def fields_FlowCancelResult_def)

lemma codes_FlowCancelResult [codec_intros]:
  "old = zero_FlowCancelResult \<Longrightarrow> portable_FlowCancelResult x \<Longrightarrow> raw_depth + 7 \<le> d \<Longrightarrow> codes nn d un_FlowCancelResult old (ms_FlowCancelResult x) x"
  unfolding un_FlowCancelResult_def ms_FlowCancelResult_def always_unless
  by (intro codes_struct find_FlowCancelResult [THEN unless_more] find_FlowCancelResult [THEN unless_last])
     (auto simp: portable_FlowCancelResult_def zero_FlowCancelResult_def codec_rules intro!: codec_intros)

definition portable_MessageStatusParams :: "MessageStatusParams \<Rightarrow> bool" where
  "portable_MessageStatusParams x \<longleftrightarrow>
    portable_Metadata (msp_WMP x) \<and> ascii (msp_MessageID x) \<and> ascii (msp_Status x)
     \<and> ascii (msp_Reason x)"

lemma find_MessageStatusParams:
  "find_field fields_MessageStatusParams ''wmp'' = Some (field msp_WMP msp_WMP_update un_Metadata)"
  "find_field fields_MessageStatusParams ''message_id'' = Some (field msp_MessageID msp_MessageID_update un_string)"
  "find_field fields_MessageStatusParams ''status'' = Some (field msp_Status msp_Status_update un_string)"
  "find_field fields_MessageStatusParams ''reason'' = Some (field msp_Reason msp_Reason_update un_string)"
  by (simp_all add: find_field_def fields_MessageStatusParams_def)

lemma codes_MessageStatusParams [codec_intros]:
  "old = zero_MessageStatusParams \<Longrightarrow> portable_MessageStatusParams x \<Longrightarrow> raw_depth + 7 \<le> d \<Longrightarrow> codes nn d un_MessageStatusParams old (ms_MessageStatusParams x) x"
  unfolding un_MessageStatusParams_def ms_MessageStatusParams_def always_unless
  by (intro codes_struct find_MessageStatusParams [THEN unless_more] find_MessageStatusParams [THEN unless_last])
     (auto simp: portable_MessageStatusParams_def zero_MessageStatusParams_def codec_rules intro!: codec_intros)

definition portable_SessionAuthenticateParams :: "SessionAuthenticateParams \<Rightarrow> bool" where
  "portable_SessionAuthenticateParams x \<longleftrightarrow>
    portable_Metadata (sap_WMP x) \<and> portable_AuthObject (sap_Auth x)"

lemma find_SessionAuthenticateParams:
  "find_field fields_SessionAuthenticateParams ''wmp'' = Some (field sap_WMP sap_WMP_update un_Metadata)"
  "find_field fields_SessionAuthenticateParams ''auth'' = Some (field sap_Auth sap_Auth_update un_AuthObject)"
  by (simp_all add: find_field_def fields_SessionAuthenticateParams_def)

lemma codes_SessionAuthenticateParams [codec_intros]:
  "old = zero_SessionAuthenticateParams \<Longrightarrow> portable_SessionAuthenticateParams x \<Longrightarrow> raw_depth + 7 \<le> d \<Longrightarrow> codes nn d un_SessionAuthenticateParams old (ms_SessionAuthenticateParams x) x"
  unfolding un_SessionAuthenticateParams_def ms_SessionAuthenticateParams_def always_unless
  by (intro codes_struct find_SessionAuthenticateParams [THEN unless_more] find_SessionAuthenticateParams [THEN unless_last])
     (auto simp: portable_SessionAuthenticateParams_def zero_SessionAuthenticateParams_def codec_rules intro!: codec_intros)

definition portable_SessionAuthenticateResult :: "SessionAuthenticateResult \<Rightarrow> bool" where
  "portable_SessionAuthenticateResult x \<longleftrightarrow>
    portable_Metadata (sar_WMP x) \<and> ascii (sar_Identity x)"

lemma find_SessionAuthenticateResult:
  "find_field fields_SessionAuthenticateResult ''wmp'' = Some (field sar_WMP sar_WMP_update un_Metadata)"
  "find_field fields_SessionAuthenticateResult ''authenticated'' = Some (field sar_Authenticated sar_Authenticated_update un_bool)"
  "find_field fields_SessionAuthenticateResult ''identity'' = Some (field sar_Identity sar_Identity_update un_string)"
  by (simp_all add: find_field_def fields_SessionAuthenticateResult_def)

lemma codes_SessionAuthenticateResult [codec_intros]:
  "old = zero_SessionAuthenticateResult \<Longrightarrow> portable_SessionAuthenticateResult x \<Longrightarrow> raw_depth + 7 \<le> d \<Longrightarrow> codes nn d un_SessionAuthenticateResult old (ms_SessionAuthenticateResult x) x"
  unfolding un_SessionAuthenticateResult_def ms_SessionAuthenticateResult_def always_unless
  by (intro codes_struct find_SessionAuthenticateResult [THEN unless_more] find_SessionAuthenticateResult [THEN unless_last])
     (auto simp: portable_SessionAuthenticateResult_def zero_SessionAuthenticateResult_def codec_rules intro!: codec_intros)

definition portable_RelayRegisterParams :: "RelayRegisterParams \<Rightarrow> bool" where
  "portable_RelayRegisterParams x \<longleftrightarrow>
    portable_Metadata (rrp_WMP x) \<and> opt_all portable_AuthObject (rrp_Auth x)"

lemma find_RelayRegisterParams:
  "find_field fields_RelayRegisterParams ''wmp'' = Some (field rrp_WMP rrp_WMP_update un_Metadata)"
  "find_field fields_RelayRegisterParams ''auth'' = Some (field rrp_Auth rrp_Auth_update (un_ptr zero_AuthObject un_AuthObject))"
  by (simp_all add: find_field_def fields_RelayRegisterParams_def)

lemma codes_RelayRegisterParams [codec_intros]:
  "old = zero_RelayRegisterParams \<Longrightarrow> portable_RelayRegisterParams x \<Longrightarrow> raw_depth + 7 \<le> d \<Longrightarrow> codes nn d un_RelayRegisterParams old (ms_RelayRegisterParams x) x"
  unfolding un_RelayRegisterParams_def ms_RelayRegisterParams_def always_unless
  by (intro codes_struct find_RelayRegisterParams [THEN unless_more] find_RelayRegisterParams [THEN unless_last])
     (auto simp: portable_RelayRegisterParams_def zero_RelayRegisterParams_def codec_rules intro!: codec_intros)

definition portable_RelayRegisterResult :: "RelayRegisterResult \<Rightarrow> bool" where
  "portable_RelayRegisterResult x \<longleftrightarrow>
    portable_Metadata (rrr_WMP x) \<and> int64 (rrr_TTL x)"

lemma find_RelayRegisterResult:
  "find_field fields_RelayRegisterResult ''wmp'' = Some (field rrr_WMP rrr_WMP_update un_Metadata)"
  "find_field fields_RelayRegisterResult ''registered'' = Some (field rrr_Registered rrr_Registered_update un_bool)"
  "find_field fields_RelayRegisterResult ''ttl'' = Some (field rrr_TTL rrr_TTL_update un_int)"
  by (simp_all add: find_field_def fields_RelayRegisterResult_def)

lemma codes_RelayRegisterResult [codec_intros]:
  "old = zero_RelayRegisterResult \<Longrightarrow> portable_RelayRegisterResult x \<Longrightarrow> raw_depth + 7 \<le> d \<Longrightarrow> codes nn d un_RelayRegisterResult old (ms_RelayRegisterResult x) x"
  unfolding un_RelayRegisterResult_def ms_RelayRegisterResult_def always_unless
  by (intro codes_struct find_RelayRegisterResult [THEN unless_more] find_RelayRegisterResult [THEN unless_last])
     (auto simp: portable_RelayRegisterResult_def zero_RelayRegisterResult_def codec_rules intro!: codec_intros)

section \<open>Round trips\<close>

lemma read_back:
  "(\<And>x. P x \<Longrightarrow> codes False max_nesting un zero (ms x) x) \<Longrightarrow> \<forall>x. P x \<longrightarrow> unmarshal un zero (ms x) = Some x"
  by (auto dest: codes_unmarshal)

text \<open>
  C7: Every parameter and result type of methods.go survives the wire: what \<open>json.Marshal\<close> writes for a
  value with ASCII texts, 64 bit integers, times that have a text, compact raw messages and maps
  in the order of their keys is read back by \<open>json.Unmarshal\<close> as the same value, nested metadata
  included.
\<close>

theorem parameters_roundtrip:
  "(\<forall>x. portable_SessionCreateParams x \<longrightarrow> unmarshal un_SessionCreateParams zero_SessionCreateParams (ms_SessionCreateParams x) = Some x)
   \<and> (\<forall>x. portable_SessionCreateResult x \<longrightarrow> unmarshal un_SessionCreateResult zero_SessionCreateResult (ms_SessionCreateResult x) = Some x)
   \<and> (\<forall>x. portable_SessionResumeParams x \<longrightarrow> unmarshal un_SessionResumeParams zero_SessionResumeParams (ms_SessionResumeParams x) = Some x)
   \<and> (\<forall>x. portable_SessionResumeResult x \<longrightarrow> unmarshal un_SessionResumeResult zero_SessionResumeResult (ms_SessionResumeResult x) = Some x)
   \<and> (\<forall>x. portable_SessionAuthenticateParams x \<longrightarrow> unmarshal un_SessionAuthenticateParams zero_SessionAuthenticateParams (ms_SessionAuthenticateParams x) = Some x)
   \<and> (\<forall>x. portable_SessionAuthenticateResult x \<longrightarrow> unmarshal un_SessionAuthenticateResult zero_SessionAuthenticateResult (ms_SessionAuthenticateResult x) = Some x)
   \<and> (\<forall>x. portable_SessionCloseParams x \<longrightarrow> unmarshal un_SessionCloseParams zero_SessionCloseParams (ms_SessionCloseParams x) = Some x)
   \<and> (\<forall>x. portable_MessageDeliverParams x \<longrightarrow> unmarshal un_MessageDeliverParams zero_MessageDeliverParams (ms_MessageDeliverParams x) = Some x)
   \<and> (\<forall>x. portable_MessageAckParams x \<longrightarrow> unmarshal un_MessageAckParams zero_MessageAckParams (ms_MessageAckParams x) = Some x)
   \<and> (\<forall>x. portable_MessageStatusParams x \<longrightarrow> unmarshal un_MessageStatusParams zero_MessageStatusParams (ms_MessageStatusParams x) = Some x)
   \<and> (\<forall>x. portable_MessagePollParams x \<longrightarrow> unmarshal un_MessagePollParams zero_MessagePollParams (ms_MessagePollParams x) = Some x)
   \<and> (\<forall>x. portable_MessagePollResult x \<longrightarrow> unmarshal un_MessagePollResult zero_MessagePollResult (ms_MessagePollResult x) = Some x)
   \<and> (\<forall>x. portable_CapabilityUpdateParams x \<longrightarrow> unmarshal un_CapabilityUpdateParams zero_CapabilityUpdateParams (ms_CapabilityUpdateParams x) = Some x)
   \<and> (\<forall>x. portable_CapabilityUpdateResult x \<longrightarrow> unmarshal un_CapabilityUpdateResult zero_CapabilityUpdateResult (ms_CapabilityUpdateResult x) = Some x)
   \<and> (\<forall>x. portable_CapabilityListResult x \<longrightarrow> unmarshal un_CapabilityListResult zero_CapabilityListResult (ms_CapabilityListResult x) = Some x)
   \<and> (\<forall>x. portable_CapabilityListParams x \<longrightarrow> unmarshal un_CapabilityListParams zero_CapabilityListParams (ms_CapabilityListParams x) = Some x)
   \<and> (\<forall>x. portable_FlowStartParams x \<longrightarrow> unmarshal un_FlowStartParams zero_FlowStartParams (ms_FlowStartParams x) = Some x)
   \<and> (\<forall>x. portable_FlowStartResult x \<longrightarrow> unmarshal un_FlowStartResult zero_FlowStartResult (ms_FlowStartResult x) = Some x)
   \<and> (\<forall>x. portable_FlowProgressParams x \<longrightarrow> unmarshal un_FlowProgressParams zero_FlowProgressParams (ms_FlowProgressParams x) = Some x)
   \<and> (\<forall>x. portable_FlowActionParams x \<longrightarrow> unmarshal un_FlowActionParams zero_FlowActionParams (ms_FlowActionParams x) = Some x)
   \<and> (\<forall>x. portable_FlowActionResult x \<longrightarrow> unmarshal un_FlowActionResult zero_FlowActionResult (ms_FlowActionResult x) = Some x)
   \<and> (\<forall>x. portable_FlowCompleteParams x \<longrightarrow> unmarshal un_FlowCompleteParams zero_FlowCompleteParams (ms_FlowCompleteParams x) = Some x)
   \<and> (\<forall>x. portable_FlowErrorParams x \<longrightarrow> unmarshal un_FlowErrorParams zero_FlowErrorParams (ms_FlowErrorParams x) = Some x)
   \<and> (\<forall>x. portable_FlowCancelParams x \<longrightarrow> unmarshal un_FlowCancelParams zero_FlowCancelParams (ms_FlowCancelParams x) = Some x)
   \<and> (\<forall>x. portable_FlowCancelResult x \<longrightarrow> unmarshal un_FlowCancelResult zero_FlowCancelResult (ms_FlowCancelResult x) = Some x)
   \<and> (\<forall>x. portable_ResolveParams x \<longrightarrow> unmarshal un_ResolveParams zero_ResolveParams (ms_ResolveParams x) = Some x)
   \<and> (\<forall>x. portable_ResolveResult x \<longrightarrow> unmarshal un_ResolveResult zero_ResolveResult (ms_ResolveResult x) = Some x)
   \<and> (\<forall>x. portable_CredentialNotificationParams x \<longrightarrow> unmarshal un_CredentialNotificationParams zero_CredentialNotificationParams (ms_CredentialNotificationParams x) = Some x)
   \<and> (\<forall>x. portable_RelayRegisterParams x \<longrightarrow> unmarshal un_RelayRegisterParams zero_RelayRegisterParams (ms_RelayRegisterParams x) = Some x)
   \<and> (\<forall>x. portable_RelayRegisterResult x \<longrightarrow> unmarshal un_RelayRegisterResult zero_RelayRegisterResult (ms_RelayRegisterResult x) = Some x)"
  by (intro conjI; rule read_back; rule codec_intros, rule refl, assumption, simp add: raw_depth_def max_nesting_def)

definition example_metadata :: Metadata where
  "example_metadata = zero_Metadata\<lparr>md_Version := ''0.1'', md_SessionID := ''s1'', md_Sender := ''alice'',
     md_Timestamp := Some \<lparr>t_ns = 63871200000 * second + 500, t_off = -5400\<rparr>, md_Epoch := Some 7,
     md_RelayChain := [\<lparr>re_Relay = ''r'', re_RelayID = ''1'', re_Timestamp = zero_time, re_TimestampToken = [], re_Signature = [],
       re_ServiceClass = ''certified''\<rparr>]\<rparr>"

definition example_flow_start :: FlowStartParams where
  "example_flow_start = zero_FlowStartParams\<lparr>fsp_WMP := example_metadata, fsp_FlowID := ''f1'', fsp_FlowType := ''sign'',
     fsp_Params := Some ''[1,2]''\<rparr>"

lemma example_flow_start_portable: "portable_FlowStartParams example_flow_start"
  by code_simp

theorem parameters_roundtrip_witness:
  "unmarshal un_FlowStartParams zero_FlowStartParams (ms_FlowStartParams example_flow_start) = Some example_flow_start"
  using parameters_roundtrip example_flow_start_portable by blast

end
