(* ===== verification/Peer_Wire.thy ===== *)
theory Peer_Wire
  imports Peer_Calls Wmp_Codec
begin

text \<open>
  Two peers and the bytes between them: a request or notification of one peer arrives at the
  other as it was sent, with the metadata of its parameters in the context, and a response
  that is served answers the call that waits for it.
\<close>

section \<open>Nesting\<close>

text \<open>What a parser that allows a nesting of \<open>d\<close> accepts is at most one deeper by the count of \<open>depth\<close>.\<close>

lemma depth_le:
  "mx \<le> B \<Longrightarrow> \<forall>x \<in> set xs. depth x + 1 \<le> B \<Longrightarrow> depth_arr xs mx \<le> B"
  "mx \<le> B \<Longrightarrow> \<forall>(k, x) \<in> set m. depth x + 1 \<le> B \<Longrightarrow> depth_map m mx \<le> B"
proof -
  show "mx \<le> B \<Longrightarrow> \<forall>x \<in> set xs. depth x + 1 \<le> B \<Longrightarrow> depth_arr xs mx \<le> B" by (induction xs arbitrary: mx) auto
  show "mx \<le> B \<Longrightarrow> \<forall>(k, x) \<in> set m. depth x + 1 \<le> B \<Longrightarrow> depth_map m mx \<le> B" by (induction m arbitrary: mx) auto
qed

definition anys_below :: "nat \<Rightarrow> (bytes \<times> jv) list \<Rightarrow> bool" where
  "anys_below d es \<longleftrightarrow> (\<forall>xs. to_anys es = Some xs \<longrightarrow> (\<forall>x \<in> set xs. depth x \<le> int d + 1))"

definition amap_below :: "nat \<Rightarrow> (bytes \<times> bytes \<times> jv) list \<Rightarrow> bool" where
  "amap_below d ms \<longleftrightarrow> (\<forall>m. to_amap ms = Some m \<longrightarrow> (\<forall>(k, x) \<in> set m. depth x \<le> int d + 1))"

lemma below_Nil [simp]: "anys_below d []" "amap_below d []"
  by (simp_all add: anys_below_def amap_below_def)

lemma below_Cons:
  assumes "\<And>a. to_any v = Some a \<Longrightarrow> depth a \<le> int d + 1"
  shows "anys_below d es \<Longrightarrow> anys_below d ((b, v) # es)" "amap_below d ms \<Longrightarrow> amap_below d ((k, b, v) # ms)"
  using assms by (auto simp: anys_below_def amap_below_def split: option.splits if_splits)

lemma below_depth:
  "anys_below d es \<Longrightarrow> 0 < d' \<Longrightarrow> d = d' - 1 \<Longrightarrow> to_any (JArr es) = Some a \<Longrightarrow> depth a \<le> int d' + 1"
  "amap_below d ms \<Longrightarrow> 0 < d' \<Longrightarrow> d = d' - 1 \<Longrightarrow> to_any (JObj ms) = Some a \<Longrightarrow> depth a \<le> int d' + 1"
  by (fastforce simp: anys_below_def amap_below_def of_nat_diff intro!: depth_le)+

lemma parser_depth:
  "pval n d s = Some (v, r) \<Longrightarrow> to_any v = Some a \<Longrightarrow> depth a \<le> int d + 1"
  "pelems n d s = Some (es, r) \<Longrightarrow> anys_below d es"
  "pmembs n d s = Some (ms, r) \<Longrightarrow> amap_below d ms"
proof (induction n arbitrary: d s v r a es ms)
  case 0
  { case 1 then show ?case by simp next case 2 then show ?case by simp next case 3 then show ?case by simp }
next
  case (Suc n)
  note IH = Suc.IH
  { case 1
    note prems = 1
    then obtain c t where s: "s = c # t" by (cases s) auto
    consider es where "v = JArr es" | ms where "v = JObj ms" | "\<forall>es. v \<noteq> JArr es" "\<forall>ms. v \<noteq> JObj ms" by blast
    then show ?case
    proof cases
      case (1 es)
      then have "0 < d \<and> anys_below (d - 1) es"
        using prems(1) IH(2) by (auto simp: s scan_lit_def split: if_splits list.splits option.splits)
      with 1 prems(2) below_depth(1) show ?thesis by blast
    next
      case (2 ms)
      then have "0 < d \<and> amap_below (d - 1) ms"
        using prems(1) IH(3) by (auto simp: s scan_lit_def split: if_splits list.splits option.splits)
      with 2 prems(2) below_depth(2) show ?thesis by blast
    next
      case 3
      with prems(2) show ?thesis by (cases v) (auto split: if_splits)
    qed
  next
    case 2
    then show ?case using IH(1,2) by (auto split: option.splits list.splits if_splits intro!: below_Cons)
  next
    case 3
    then show ?case using IH(1,3) by (auto split: option.splits list.splits if_splits intro!: below_Cons) }
qed

lemma prints_depth: "prints d b v \<Longrightarrow> d \<le> max_nesting \<Longrightarrow> int d + 1 \<le> mx \<Longrightarrow> within_depth mx (Some b)"
  by (auto simp: prints_def within_depth_code unmarshal_def un_any_def prints_parse dest!: parser_depth(1) split: option.splits)

section \<open>A call and its answer\<close>

text \<open>A response that survives the way back: a result or an error that can be written and read within the limits.\<close>

definition sendable_response :: "Response \<Rightarrow> bool" where
  "sendable_response r \<longleftrightarrow>
     (case (resp_Result r, resp_Error r) of
        (Some b, None) \<Rightarrow> (\<exists>v. prints 9999 b v) \<and> within_depth 32 (Some (compact_val b))
      | (None, Some e) \<Rightarrow> sendable_error e \<and> within_depth 32 (map_option compact_val (err_Data e))
      | _ \<Rightarrow> False)"

definition as_read :: "Response \<Rightarrow> Response" where
  "as_read r = \<lparr>resp_JSONRPC = ''2.0'', resp_ID = Some (embed (resp_ID r)),
     resp_Result = map_option compact_val (resp_Result r), resp_Error = map_option embed_error (resp_Error r)\<rparr>"

lemma peer_limits:
  "int (length d) \<le> maxMessageSize p \<Longrightarrow> d \<noteq> [] \<Longrightarrow> int (length d) \<le> maxSize (first_opt [Some (decOpts p)])"
  "maxDepth (first_opt [Some (decOpts p)]) = 32"
  by (auto simp: maxSize_def maxDepth_def first_opt_def decOpts_def defaultMaxDepth_def)

lemma response_received:
  assumes "sendable_response r" "resp_JSONRPC r = ''2.0''" "raw_prints 9999 (resp_ID r)"
  shows "\<exists>t m. ms_Response r = Some t \<and> t \<noteq> [] \<and> IsResponse m \<and> AsResponse m = as_read r \<and> msg_ID m = Some (embed (resp_ID r))
    \<and> (int (length t) \<le> maxMessageSize p \<longrightarrow> DecodeMessage t [Some (decOpts p)] = Inr m)"
proof (cases "resp_Error r")
  case None
  then obtain b v where b: "resp_Result r = Some b" "prints 9999 b v" "within_depth 32 (Some (compact_val b))"
    using assms(1) by (auto simp: sendable_response_def split: option.splits)
  have "NewResponse (resp_ID r) (Some b) = Inr r"
    using assms(2) None b(1) by (cases r) (simp add: NewResponse_def)
  from response_read_back [OF assms(3) b(2) _ this, of "[Some (decOpts p)]"] b(3) peer_limits(2) [of p] obtain t where
    t: "ms_Response r = Some t" "int (length t) \<le> maxSize (first_opt [Some (decOpts p)]) \<Longrightarrow> DecodeMessage t [Some (decOpts p)] = Inr (sent_response (resp_ID r) b)"
    by auto
  show ?thesis
    using t peer_limits(1) [of t p] None b(1) assms(2)
    by (intro exI [of _ t] exI [of _ "sent_response (resp_ID r) b"])
       (auto simp: sent_response_def IsResponse_def AsResponse_def as_read_def ms_Response_def ms_obj_def split: option.splits)
next
  case (Some e)
  then have e: "resp_Result r = None" "sendable_error e" "within_depth 32 (map_option compact_val (err_Data e))"
    using assms(1) by (auto simp: sendable_response_def split: option.splits)
  have r: "NewErrorResponse (resp_ID r) (Some e) = r"
    using assms(2) Some e(1) by (cases r) (simp add: NewErrorResponse_def)
  from error_read_back [OF assms(3) e(2), of "[Some (decOpts p)]"] e(3) peer_limits(2) [of p] obtain t where
    t: "ms_Response r = Some t" "int (length t) \<le> maxSize (first_opt [Some (decOpts p)]) \<Longrightarrow> DecodeMessage t [Some (decOpts p)] = Inr (sent_error (resp_ID r) e)"
    by (auto simp: r)
  show ?thesis
    using t peer_limits(1) [of t p] Some e(1) assms(2)
    by (intro exI [of _ t] exI [of _ "sent_error (resp_ID r) e"])
       (auto simp: sent_error_def IsResponse_def AsResponse_def as_read_def ms_Response_def ms_obj_def split: option.splits)
qed

text \<open>The request as the server decodes it.\<close>

definition arrived :: "bytes \<Rightarrow> bytes \<Rightarrow> bytes \<Rightarrow> Request" where
  "arrived rid method p =
     \<lparr>req_JSONRPC = ''2.0'', req_ID = Some (quote_string rid), req_Method = method, req_Params = Some (compact_val p)\<rparr>"

lemma request_decoded:
  assumes "ascii rid" "ascii method" "prints 9999 p v" "within_depth 32 (Some (compact_val p))"
    "NewRequest rid method (Some p) = Inr req" "ms_Request req = Some data" "int (length data) \<le> maxMessageSize srv"
  shows "DecodeMessage data [Some (decOpts srv)] = Inr (sent_request rid method p)"
proof -
  have "data \<noteq> []" using assms(6) by (auto simp: ms_Request_def ms_obj_def split: option.splits)
  then show ?thesis
    using request_read_back [OF assms(1-3) _ assms(5), of "[Some (decOpts srv)]"] assms(4,6,7) peer_limits(1) [of data srv] peer_limits(2) [of srv] by simp
qed

lemma sent_request_kinds:
  "rid \<noteq> [] \<Longrightarrow> AsRequest (sent_request rid method p) = arrived rid method p"
  "\<not> IsResponse (sent_request rid method p)" "method \<noteq> [] \<Longrightarrow> IsRequest (sent_request rid method p)"
  by (auto simp: sent_request_def IsResponse_def IsRequest_def AsRequest_def arrived_def)

lemma request_spawned:
  assumes "ascii rid" "rid \<noteq> []" "ascii method" "method \<noteq> []" "prints 9999 p v" "within_depth 32 (Some (compact_val p))"
    "NewRequest rid method (Some p) = Inr req" "ms_Request req = Some data" "int (length data) \<le> maxMessageSize srv"
  shows "serve_message srv ctx data ps = ps\<lparr>spawned := spawned ps @ [arrived rid method p]\<rparr>"
  using serve_decoded [OF request_decoded [OF assms(1,3,5-9)] assms(9)] assms(2,4) by (simp add: dispatch_def sent_request_kinds)

lemma request_arrives:
  assumes "ascii rid" "rid \<noteq> []" "ascii method" "prints 9999 p v" "within_depth 32 (Some (compact_val p))"
    "NewRequest rid method (Some p) = Inr req" "ms_Request req = Some data" "int (length data) \<le> maxMessageSize srv"
    "sync_request srv ctx (arrived rid method p) (disp ps) = (Some r, st')" "ms_Response r = Some t"
  shows "HandleRequestSync srv ctx data ps = ((Some t, None), ps\<lparr>disp := st'\<rparr>)"
proof -
  note msg = request_decoded [OF assms(1,3-8)]
  show ?thesis using msg assms(2,8-10) by (simp add: HandleRequestSync_def Let_def sent_request_kinds)
qed

text \<open>A waiting call whose bytes another peer handles returns that peer's response.\<close>

lemma call_answered:
  assumes call: "reachable cl s" "pending (peer_state s) rid = Some ch" "calls s ch = Some c" "call_phase c = Waiting"
    and req: "NewRequest rid method (Some p) = Inr (call_req c)" "rid \<noteq> []" "ascii rid" "ascii method" "prints 9999 p v"
      "within_depth 32 (Some (compact_val p))"
    and sent: "ms_Request (call_req c) = Some data" "int (length data) \<le> maxMessageSize srv"
    and answer: "sync_request srv ctx (arrived rid method p) (disp ps) = (Some r, st')" "sendable_response r"
    and returned: "\<And>t. ms_Response r = Some t \<Longrightarrow> int (length t) \<le> maxMessageSize cl"
  shows "\<exists>t s'. HandleRequestSync srv ctx data ps = ((Some t, None), ps\<lparr>disp := st'\<rparr>)
    \<and> (cstep cl)\<^sup>*\<^sup>* (s\<lparr>peer_state := serve_message cl ctx t (peer_state s)\<rparr>) s'
    \<and> pending (peer_state s') rid = None
    \<and> calls s' ch = Some (c\<lparr>call_phase := Returned (Inr (as_read r))\<rparr>)"
proof -
  have "\<not> IsNotification (arrived rid method p)" by (simp add: arrived_def IsNotification_def raw_empty_def quote_string_def)
  from one_answer_shape [OF this, of srv ctx "disp ps"] answer(1)
  have r: "resp_ID r = Some (quote_string rid)" "resp_JSONRPC r = ''2.0''" by (simp_all add: arrived_def)
  have "raw_prints 9999 (resp_ID r)" using r(1) prints_ascii [OF req(3)] by (auto simp: raw_prints_def)
  from response_received [OF answer(2) r(2) this, of cl] obtain t m where
    t: "ms_Response r = Some t" and m: "IsResponse m" "AsResponse m = as_read r" "msg_ID m = Some (quote_string rid)"
      "int (length t) \<le> maxMessageSize cl \<Longrightarrow> DecodeMessage t [Some (decOpts cl)] = Inr m"
    using compact_quote_only [OF req(3)] by (auto simp: r(1) embed_def)
  have served: "serve_message cl ctx t (peer_state s) = (peer_state s)\<lparr>pending := (pending (peer_state s))(rid := None),
      chans := (chans (peer_state s))(ch := [as_read r])\<rparr>"
    using served_response [OF call(2), of m t cl ctx] m t returned [OF t] rawIDToString_quoted [OF req(3)]
      call_inv_reachable [OF call(1)] call(2) by (auto simp: call_inv_defs)
  let ?s = "s\<lparr>peer_state := serve_message cl ctx t (peer_state s)\<rparr>"
  let ?s' = "call_receive ch c (as_read r) [] ?s"
  have "cstep cl ?s ?s'" by (rule cstep.receive) (use call(3,4) served in simp_all)
  moreover have "pending (peer_state ?s') rid = None" "calls ?s' ch = Some (c\<lparr>call_phase := Returned (Inr (as_read r))\<rparr>)"
    using served by (simp_all add: call_receive_def set_phase_def)
  moreover have "HandleRequestSync srv ctx data ps = ((Some t, None), ps\<lparr>disp := st'\<rparr>)"
    using request_arrives [OF req(3,2,4,5,6,1) sent answer(1) t] .
  ultimately show ?thesis by (blast intro: r_into_rtranclp)
qed

section \<open>Typed parameters\<close>

text \<open>Parameters of which the codec is known are accepted and read at the other end.\<close>

lemma codes_params:
  assumes "codes nn 31 un zero t x"
  obtains p v where "t = Some p" "prints 9999 p v" "within_depth 32 (Some p)" "compact_val p = p" "unmarshal un zero (Some p) = Some x"
proof -
  from assms obtain p v where p: "t = Some p" "prints 31 p v" "compacted False p" by (auto simp: codes_def)
  have "within_depth 32 (Some p)" by (rule prints_depth [OF p(2)]) (simp_all add: max_nesting_def)
  moreover have "unmarshal un zero (Some p) = Some x"
    using codes_unmarshal [OF assms] by (simp add: p(1) max_nesting_def)
  ultimately show ?thesis
    using that [OF p(1) prints_mono [OF p(2), of 9999]] p(3) by (simp add: compacted_id)
qed

text \<open>A notification as it is served by the other peer.\<close>

definition notified :: "bytes \<Rightarrow> bytes \<Rightarrow> Request" where
  "notified method p = \<lparr>req_JSONRPC = ''2.0'', req_ID = None, req_Method = method, req_Params = Some p\<rparr>"

lemma notification_sent:
  assumes "codes nn 31 un zero t x" "ascii method" "method \<noteq> []"
  obtains req data p where "t = Some p" "unmarshal un zero (Some p) = Some x" "NewNotification method t = Inr req" "ms_Request req = Some data"
    "\<And>ctx' ps. int (length data) \<le> maxMessageSize q \<Longrightarrow> serve_message q ctx' data ps = ps\<lparr>spawned := spawned ps @ [notified method p]\<rparr>"
proof -
  from assms(1) obtain p v where p: "t = Some p" "prints 9999 p v" "within_depth 32 (Some p)" "compact_val p = p"
    "unmarshal un zero (Some p) = Some x" by (rule codes_params)
  obtain req where req: "NewRequest [] method (Some p) = Inr req" by (simp add: NewRequest_def)
  from request_read_back [of "[]" "method" p v "[Some \<lparr>MaxSize = 1, MaxDepth = 32\<rparr>]", OF _ assms(2) p(2) _ req] p(3,4)
  obtain data where data: "ms_Request req = Some data" by (auto simp: maxDepth_def first_opt_def)
  have "serve_message q ctx' data ps = ps\<lparr>spawned := spawned ps @ [notified method p]\<rparr>" if "int (length data) \<le> maxMessageSize q" for ctx' ps
  proof -
    have "DecodeMessage data [Some (decOpts q)] = Inr (sent_request [] method p)"
      using p(3,4) that data by (intro request_decoded [OF _ assms(2) p(2) _ req]) simp_all
    from serve_decoded [OF this that] assms(3) p(4) show ?thesis
      by (simp add: sent_request_def dispatch_def IsResponse_def IsRequest_def AsRequest_def notified_def)
  qed
  moreover have "NewNotification method t = Inr req" by (simp add: NewNotification_def p(1) req)
  ultimately show ?thesis using that [OF p(1,5) _ data] by blast
qed

lemma Notify_served:
  assumes "codes nn 31 un zero t x" "ascii method" "method \<noteq> []"
  obtains data p where "t = Some p" "unmarshal un zero (Some p) = Some x" "Notify sender ctx method t = t_WriteMessage (transport sender) ctx data"
    "\<And>ctx' ps. int (length data) \<le> maxMessageSize q \<Longrightarrow> serve_message q ctx' data ps = ps\<lparr>spawned := spawned ps @ [notified method p]\<rparr>"
proof -
  from assms obtain req data p where sent: "t = Some p" "unmarshal un zero (Some p) = Some x" "NewNotification method t = Inr req"
    "ms_Request req = Some data"
    "\<And>ctx' ps. int (length data) \<le> maxMessageSize q \<Longrightarrow> serve_message q ctx' data ps = ps\<lparr>spawned := spawned ps @ [notified method p]\<rparr>"
    by (rule notification_sent [where q = q]) blast
  have "Notify sender ctx method t = t_WriteMessage (transport sender) ctx data"
    by (rule ext) (simp add: Notify_def sendJSON_def sent(3,4))
  from that [OF sent(1,2) this sent(5)] show ?thesis .
qed

section \<open>The envelope\<close>

text \<open>
  Both paths of a peer read the member \<open>wmp\<close> of the parameters, which is the first member that
  every parameter type writes.
\<close>

lemma prints_unique: "prints d b v \<Longrightarrow> prints d' b v' \<Longrightarrow> d \<le> max_nesting \<Longrightarrow> d' \<le> max_nesting \<Longrightarrow> v = v'"
  using prints_parse [of d b v] prints_parse [of d' b v'] by simp

lemma un_members_skip: "\<forall>(k, b, v) \<in> set ms. find_field fs k = None \<Longrightarrow> un_members fs ms s = Some s"
  by (induction ms) auto

lemma envelope_read:
  assumes "member_codes 30 fs s (unless False ''wmp'' (ms_Metadata m) @ rest) y" "portable_Metadata m"
    "\<forall>k \<in> fst ` set rest. k \<noteq> ''wmp'' \<and> fold_name k \<noteq> ''WMP''"
  shows "unmarshal un_Envelope \<lparr>env_WMP = zero_Metadata\<rparr> (ms_obj (unless False ''wmp'' (ms_Metadata m) @ rest)) = Some \<lparr>env_WMP = m\<rparr>"
proof -
  let ?fs = "[(''wmp'', field env_WMP env_WMP_update un_Metadata)]"
  from assms(1) obtain b v ms where mb: "ms_Metadata m = Some b" "prints 30 b v" and rest: "rest = map (\<lambda>(k, b, v). (k, Some b)) ms"
    "\<forall>(k, b, v) \<in> set ms. ascii k \<and> prints 30 b v \<and> compacted False b"
    by (auto simp: member_codes_def unless_def Cons_eq_map_conv)
  have ms: "unless False ''wmp'' (ms_Metadata m) @ rest = map (\<lambda>(k, b, v). (k, Some b)) ((''wmp'', b, v) # ms)"
    "\<forall>(k, b, v) \<in> set ((''wmp'', b, v) # ms). ascii k \<and> prints 30 b v"
    using mb rest by (auto simp: unless_def)
  have "codes True 30 un_Metadata zero_Metadata (ms_Metadata m) m"
    by (rule codes_Metadata [OF refl assms(2)]) (simp add: raw_depth_def)
  then obtain v' where v': "prints 30 b v'" "un_Metadata b v' zero_Metadata = Some m" by (auto simp: codes_def mb(1))
  have "v' = v" using prints_unique [OF v'(1) mb(2)] by (simp add: max_nesting_def)
  have wmp: "fold_name ''wmp'' = ''WMP''" by code_simp
  have "\<forall>(k, b, v) \<in> set ms. find_field ?fs k = None"
    using assms(3) unfolding rest(1) by (fastforce simp: find_field_def wmp simp del: fold_name.simps)
  from un_members_skip [OF this] have un: "un_members ?fs ((''wmp'', b, v) # ms) \<lparr>env_WMP = zero_Metadata\<rparr> = Some \<lparr>env_WMP = m\<rparr>"
    using v'(2) \<open>v' = v\<close> by (simp add: find_field_def field_def)
  have "prints (Suc 30) (''{'' @ commas (map member_text ((''wmp'', b, v) # ms)) @ ''}'') (JObj ((''wmp'', b, v) # ms))"
    by (rule prints_object [OF ms(2)])
  from prints_parse [OF this] show ?thesis
    unfolding ms(1) ms_obj_members by (simp add: unmarshal_def un_Envelope_def un_struct_def un max_nesting_def del: un_members.simps)
qed

section \<open>Typed calls\<close>

definition zero_Envelope :: Envelope where
  "zero_Envelope = \<lparr>env_WMP = zero_Metadata\<rparr>"

text \<open>A peer without an authorizer, a validator and middleware.\<close>

definition open_peer :: "'w Peer \<Rightarrow> bool" where
  "open_peer q \<longleftrightarrow> authorizer q = None \<and> validator q = None \<and> middleware (registry q) = []"

text \<open>
  The context in which a call with metadata \<open>m\<close> runs: it has the identifier of the call, the sender and,
  when the store knows it, the session that the metadata name.
\<close>

definition call_context :: "'w Peer \<Rightarrow> Context \<Rightarrow> bytes \<Rightarrow> Metadata \<Rightarrow> 'w \<Rightarrow> Context" where
  "call_context q ctx rid m w =
     ctx\<lparr>ctx_RequestID := Some rid,
         ctx_Sender := (if md_Sender m = [] then ctx_Sender ctx else Some (md_Sender m)),
         ctx_Session :=
           (case sessionStore q of
              None \<Rightarrow> ctx_Session ctx
            | Some store \<Rightarrow>
                if md_SessionID m = [] then ctx_Session ctx
                else (case ss_Get store (md_SessionID m) w of None \<Rightarrow> ctx_Session ctx | Some s \<Rightarrow> Some s))\<rparr>"

lemma enrich_call:
  assumes "unmarshal un_Envelope zero_Envelope (Some (compact_val p)) = Some \<lparr>env_WMP = m\<rparr>" "ascii rid"
  shows "enrich q (arrived rid method p) ctx w = call_context q ctx rid m w"
  using assms rawIDToString_quoted [OF assms(2)]
  by (cases ctx) (auto simp: enrich_def arrived_def IsNotification_def raw_empty_def quote_string_def [of rid] call_context_def zero_Envelope_def
      ContextWithRequestID_def ContextWithSender_def ContextWithSession_def Let_def split: option.splits)

definition result_response :: "bytes \<Rightarrow> rpc_result \<Rightarrow> Response" where
  "result_response rid res =
     \<lparr>resp_JSONRPC = ''2.0'', resp_ID = Some (quote_string rid), resp_Result = marshal_result res, resp_Error = None\<rparr>"

lemma typed_answer:
  assumes "open_peer srv" "ascii rid" "compact_val p = p" "unmarshal un_Envelope zero_Envelope (Some p) = Some \<lparr>env_WMP = m\<rparr>"
    and "dispatchMethodInternal srv (call_context srv ctx rid m (world st)) method (Some p) st = ((res, None), st')" "res \<noteq> RNil"
    and "codes nn 31 un zero (marshal_result res) y"
  shows "sync_request srv ctx (arrived rid method p) st = (Some (result_response rid res), st')"
    "sendable_response (result_response rid res)" "call_result un zero True (as_read (result_response rid res)) = Inr y"
proof -
  from assms(7) obtain b v where b: "marshal_result res = Some b" "prints 9999 b v" "within_depth 32 (Some b)" "compact_val b = b"
    "unmarshal un zero (Some b) = Some y" by (rule codes_params)
  have ctx': "enrich srv (arrived rid method p) ctx (world st) = call_context srv ctx rid m (world st)"
    using assms(2-4) by (intro enrich_call) simp_all
  have "run_request srv ctx (arrived rid method p) st = ((res, None), st')"
    using assms(1,3,5) unfolding run_request_def ctx' by (simp add: open_peer_def runMiddleware_def arrived_def)
  moreover have "answer (arrived rid method p) (res, None) = result_response rid res"
    using assms(6) b(1) by (simp add: answer_def NewResponse_def arrived_def result_response_def)
  ultimately show "sync_request srv ctx (arrived rid method p) st = (Some (result_response rid res), st')"
    using assms(1) by (simp add: sync_request_def authorize_def validate_def open_peer_def arrived_def IsNotification_def raw_empty_def quote_string_def)
  show "sendable_response (result_response rid res)" using b(1-4) by (auto simp: sendable_response_def result_response_def)
  show "call_result un zero True (as_read (result_response rid res)) = Inr y"
    using b(1,4,5) by (simp add: call_result_def as_read_def result_response_def)
qed

text \<open>A waiting call with typed parameters and a typed result.\<close>

lemma typed_call:
  assumes call: "reachable cl s" "pending (peer_state s) rid = Some ch" "calls s ch = Some c" "call_phase c = Waiting"
    and req: "NewRequest rid method t = Inr (call_req c)" "rid \<noteq> []" "ascii rid" "ascii method" "codes nn 31 un zero t x"
      "unmarshal un_Envelope zero_Envelope t = Some \<lparr>env_WMP = m\<rparr>"
    and sent: "ms_Request (call_req c) = Some data" "int (length data) \<le> maxMessageSize srv"
    and srv: "open_peer srv" "\<And>p. unmarshal un zero (Some p) = Some x \<Longrightarrow>
        dispatchMethodInternal srv (call_context srv ctx rid m (world (disp ps))) method (Some p) (disp ps) = ((res, None), st')" "res \<noteq> RNil"
      "codes nn' 31 un' zero' (marshal_result res) y"
    and returned: "\<And>b. ms_Response (result_response rid res) = Some b \<Longrightarrow> int (length b) \<le> maxMessageSize cl"
  shows "\<exists>b s' r. HandleRequestSync srv ctx data ps = ((Some b, None), ps\<lparr>disp := st'\<rparr>)
    \<and> (cstep cl)\<^sup>*\<^sup>* (s\<lparr>peer_state := serve_message cl ctx b (peer_state s)\<rparr>) s'
    \<and> pending (peer_state s') rid = None \<and> calls s' ch = Some (c\<lparr>call_phase := Returned (Inr r)\<rparr>)
    \<and> call_result un' zero' True r = Inr y"
proof -
  from req(5) obtain p v where p: "t = Some p" "prints 9999 p v" "within_depth 32 (Some p)" "compact_val p = p" "unmarshal un zero (Some p) = Some x"
    by (rule codes_params)
  note a = typed_answer [OF srv(1) req(3) p(4) req(6) [unfolded p(1)] srv(2) [OF p(5)] srv(3,4)]
  have "within_depth 32 (Some (compact_val p))" using p(3,4) by simp
  from call_answered [OF call req(1) [unfolded p(1)] req(2-4) p(2) this sent a(1,2) returned] a(3) show ?thesis by blast
qed

text \<open>Any request that can be encoded can be waited for by the example peer.\<close>

lemma example_waiting:
  assumes "NewRequest rid method t = Inr req" "ms_Request req = Some data"
  obtains s where "reachable example_peer s" "pending (peer_state s) rid = Some 0"
    "calls s 0 = Some \<lparr>call_id = rid, call_req = req, call_phase = Waiting\<rparr>"
proof -
  let ?s1 = "call_start rid method t (new_cstate example_state)"
  let ?c = "\<lparr>call_id = rid, call_req = req, call_phase = Sending\<rparr>"
  let ?s2 = "call_send example_peer background 0 ?c ?s1"
  have s1: "calls ?s1 0 = Some ?c" "pending (peer_state ?s1) = [rid \<mapsto> 0]"
    using assms(1) by (simp_all add: call_start_def new_cstate_def set_pending_def)
  obtain w where "sendJSON example_peer background (ms_Request req) (world (disp (peer_state ?s1))) = (None, w)"
    by (cases "world (disp (peer_state ?s1))") (auto simp: assms(2) sendJSON_def example_peer_eq example_transport_def)
  then have s2: "calls ?s2 0 = Some \<lparr>call_id = rid, call_req = req, call_phase = Waiting\<rparr>" "pending (peer_state ?s2) rid = Some 0"
    using s1 by (simp_all add: call_send_def set_phase_def set_world_def)
  have "cstep example_peer (new_cstate example_state) ?s1" by (rule cstep.start)
  moreover have "cstep example_peer ?s1 ?s2" by (rule cstep.send) (simp_all add: s1)
  ultimately have "reachable example_peer ?s2" unfolding reachable_def by (meson converse_rtranclp_into_rtranclp rtranclp.rtrancl_refl)
  with s2 show ?thesis using that by blast
qed

lemma example_peer_open: "open_peer example_peer"
  by (simp add: open_peer_def example_peer_eq registered_def newRegistry_def)

section \<open>A call of an unknown method\<close>

text \<open>The call of the example in \<open>Peer_Calls\<close>, and what every open peer that does not know the method answers.\<close>

lemma compact_braces: "compact_val ''{}'' = ''{}''"
  by code_simp

lemma show_nat_bound: "length (show_nat n) \<le> Suc n"
proof (induction n rule: show_nat.induct)
  case (1 n)
  then show ?case by (subst show_nat.simps) auto
qed

lemma length_show_int: "length (show_int i) \<le> nat \<bar>i\<bar> + 2"
  using show_nat_bound [of "nat i"] show_nat_bound [of "nat (- i)"] by (auto simp: show_int_def)

lemma empty_object_prints: "prints 9999 ''{}'' (JObj [])"
  using prints_empty_object [of 9998] by simp

lemma example_new_request: "NewRequest ''1'' ''m'' (Some ''{}'') = Inr (call_req (example_call Waiting))"
  by (simp add: NewRequest_def example_call_def example_req_def ms_string_def)

lemmas example_texts = ms_obj_def ms_member_def always_def unless_def ms_string_def ms_int_def ms_ptr_def ms_raw_def json_valid_quote
  empty_object_valid raw_empty_def compact_quote_only ascii_def compact_braces

lemma example_req_text:
  obtains data where "ms_Request example_req = Some data" "int (length data) \<le> 1000"
  by (simp add: ms_Request_def example_req_def example_texts) (simp add: quote_string_def esc_char_def is_ws_def)

definition unknown_method :: Response where
  "unknown_method = NewErrorResponse (Some (quote_string ''1'')) (Some (NewRPCError ErrMethodNotFound None))"

lemma unknown_method_text:
  "sendable_response unknown_method" "ms_Response unknown_method = Some t \<Longrightarrow> int (length t) \<le> 1048576"
proof -
  show "sendable_response unknown_method"
    by (simp add: unknown_method_def sendable_response_def NewErrorResponse_def NewRPCError_def sendable_error_def raw_prints_def
        ErrorMessage_def ascii_def)
  show "int (length t) \<le> 1048576" if "ms_Response unknown_method = Some t"
    using that length_show_int [of "- 32601"]
    by (simp add: unknown_method_def ms_Response_def NewErrorResponse_def NewRPCError_def ms_RPCError_def ErrorMessage_def example_texts)
       (auto simp: quote_string_def esc_char_def is_ws_def)
qed

lemma unknown_method_written:
  obtains t where "ms_Response unknown_method = Some t" "json_valid t" "length t \<le> 50000"
proof -
  have r: "resp_JSONRPC unknown_method = ''2.0''" "resp_ID unknown_method = Some (quote_string ''1'')" "\<exists>v. prints 9999 (quote_string ''1'') v"
    using prints_ascii [of "''1''" 9999] by (auto simp: unknown_method_def NewErrorResponse_def ascii_def)
  from response_received [OF unknown_method_text(1) r(1), of example_peer] r(2,3) obtain t m where
    t: "ms_Response unknown_method = Some t" "int (length t) \<le> maxMessageSize example_peer \<Longrightarrow> DecodeMessage t [Some (decOpts example_peer)] = Inr m"
    by (auto simp: raw_prints_def)
  have "DecodeMessage t [Some (decOpts example_peer)] = Inr m"
    using t unknown_method_text(2) [OF t(1)] by (simp add: example_peer_eq)
  then have "json_valid t" by (auto simp: DecodeMessage_exact json_valid_def)
  moreover have "length t \<le> 50000"
    using t(1) length_show_int [of "- 32601"]
    by (simp add: unknown_method_def ms_Response_def NewErrorResponse_def NewRPCError_def ms_RPCError_def ErrorMessage_def example_texts)
       (auto simp: quote_string_def esc_char_def is_ws_def)
  ultimately show ?thesis by (rule that [OF t(1)])
qed

lemma unknown_method_answer:
  assumes "open_peer p" "methods (registry p) ''m'' = None"
  shows "sync_request p ctx (arrived ''1'' ''m'' ''{}'') st = (Some unknown_method, st)"
proof -
  have "dispatchMethodInternal p ctx' ''m'' params st = fail ErrMethodNotFound None st" for ctx' params
    by (simp add: dispatchMethodInternal_def custom_method_def lookupMethod_def assms(2))
  then show ?thesis
    using assms(1)
    by (simp add: sync_request_def authorize_def validate_def run_request_def open_peer_def runMiddleware_def arrived_def fail_def answer_def
        toRPCError_def IsNotification_def raw_empty_def quote_string_def unknown_method_def)
qed

end
