(* ===== verification/Session_Wire.thy ===== *)
theory Session_Wire
  imports Peer_Wire
begin

text \<open>
  Sessions between two peers: a session created by a call is stored by the other peer, and later
  calls that name it in their metadata run in its context.
\<close>

lemma envelope_SessionCreateParams:
  "portable_SessionCreateParams x \<Longrightarrow> unmarshal un_Envelope zero_Envelope (ms_SessionCreateParams x) = Some \<lparr>env_WMP = scp_WMP x\<rparr>"
  unfolding ms_SessionCreateParams_def always_unless zero_Envelope_def
  by (rule envelope_read [of fields_SessionCreateParams zero_SessionCreateParams _ _ x],
      intro find_SessionCreateParams [THEN unless_more] find_SessionCreateParams [THEN unless_last])
     (auto simp: portable_SessionCreateParams_def zero_SessionCreateParams_def codec_rules raw_depth_def unless_def upcase_def intro!: codec_intros)

text \<open>
  What the code relies on of a session store: a session without an expiry, as the peer creates them, is
  found once it was created. The in-memory store of session.go keeps this promise.
\<close>

definition store_keeps :: "'w SessionStoreI \<Rightarrow> bool" where
  "store_keeps store \<longleftrightarrow>
     (\<forall>s w. ses_ExpiresAt s = zero_time \<longrightarrow> ss_Get store (ses_ID s) (snd (ss_Create store s w)) = Some s)"

lemma memory_keeps: "store_keeps memory_backend"
  by (auto simp: store_keeps_def memory_backend_def Create_def Get_def split: prod.splits)

text \<open>
  C3: A session from end to end. A waiting call of \<open>wmp.session.create\<close> with portable parameters of the
  supported version, whose bytes a peer with a session store and without authorizer, validator,
  middleware and session hooks handles, reaches the application's \<open>SessionCreate\<close> with exactly these
  parameters. When the application accepts with a portable result that names a session, the session
  with the participants asked for and the terms granted is stored; the call returns the result once its
  peer serves the answer; and every later call whose metadata name the session runs in a context that
  holds it.
\<close>

theorem session_end_to_end:
  assumes "reachable cl s" "pending (peer_state s) rid = Some ch" "calls s ch = Some c" "call_phase c = Waiting"
    and "NewRequest rid MethodSessionCreate (ms_SessionCreateParams x) = Inr (call_req c)" "rid \<noteq> []" "ascii rid"
      "portable_SessionCreateParams x" "md_Version (scp_WMP x) = Version"
    and "ms_Request (call_req c) = Some data" "int (length data) \<le> maxMessageSize srv"
    and "open_peer srv" "sessionStore srv = Some store" "store_keeps store" "sessionHooks (registry srv) = []"
    and "h_SessionCreate (handler srv) (call_context srv ctx rid (scp_WMP x) (world (disp ps))) x (world (disp ps)) = ((Some res, None), w)"
    and "portable_SessionCreateResult res" "md_SessionID (scr_WMP res) \<noteq> []"
    and "\<And>b. ms_Response (result_response rid (RSessionCreate (Some res))) = Some b \<Longrightarrow> int (length b) \<le> maxMessageSize cl"
  shows "\<exists>b s' r w'. HandleRequestSync srv ctx data ps = ((Some b, None), ps\<lparr>disp := (disp ps)\<lparr>world := w'\<rparr>\<rparr>)
    \<and> (cstep cl)\<^sup>*\<^sup>* (s\<lparr>peer_state := serve_message cl ctx b (peer_state s)\<rparr>) s'
    \<and> pending (peer_state s') rid = None \<and> calls s' ch = Some (c\<lparr>call_phase := Returned (Inr r)\<rparr>)
    \<and> call_result un_SessionCreateResult zero_SessionCreateResult True r = Inr res
    \<and> (\<forall>ctx' rid' m. md_SessionID m = md_SessionID (scr_WMP res) \<longrightarrow>
         SessionFromContext (call_context srv ctx' rid' m w') = Some (new_session x res))"
proof -
  let ?w' = "snd (ss_Create store (new_session x res) w)"
  have "codes False 31 un_SessionCreateResult zero_SessionCreateResult (marshal_result (RSessionCreate (Some res))) res"
    using codes_SessionCreateResult [OF refl assms(17), of 31 False] by (simp add: marshal_result_def ms_ptr_def raw_depth_def)
  moreover have "dispatchMethodInternal srv (call_context srv ctx rid (scp_WMP x) (world (disp ps))) MethodSessionCreate (Some p) (disp ps)
      = ((RSessionCreate (Some res), None), (disp ps)\<lparr>world := ?w'\<rparr>)"
    if "unmarshal un_SessionCreateParams zero_SessionCreateParams (Some p) = Some x" for p
    using that assms(9,13,15,16,18)
    by (simp add: dispatchMethodInternal_def with_params_def session_create_def IsSupportedVersion_def SupportedVersions_def runSessionCreateHooks_def)
  moreover have "codes False 31 un_SessionCreateParams zero_SessionCreateParams (ms_SessionCreateParams x) x"
    by (rule codes_SessionCreateParams [OF refl assms(8)]) (simp add: raw_depth_def)
  ultimately have "\<exists>b s' r. HandleRequestSync srv ctx data ps = ((Some b, None), ps\<lparr>disp := (disp ps)\<lparr>world := ?w'\<rparr>\<rparr>)
    \<and> (cstep cl)\<^sup>*\<^sup>* (s\<lparr>peer_state := serve_message cl ctx b (peer_state s)\<rparr>) s'
    \<and> pending (peer_state s') rid = None \<and> calls s' ch = Some (c\<lparr>call_phase := Returned (Inr r)\<rparr>)
    \<and> call_result un_SessionCreateResult zero_SessionCreateResult True r = Inr res"
    by (intro typed_call [OF assms(1-7) _ _ envelope_SessionCreateParams [OF assms(8)] assms(10-12) _ _ _ assms(19)]) simp_all
  moreover have "ss_Get store (md_SessionID (scr_WMP res)) ?w' = Some (new_session x res)"
    using assms(14) unfolding store_keeps_def by (metis (no_types) new_session_def Session.select_convs(1) Session.select_convs(8))
  then have "SessionFromContext (call_context srv ctx' rid' m ?w') = Some (new_session x res)"
    if "md_SessionID m = md_SessionID (scr_WMP res)" for ctx' rid' m
    using that assms(13,18) by (simp add: call_context_def SessionFromContext_def)
  ultimately show ?thesis by blast
qed

definition demo_create :: SessionCreateParams where
  "demo_create = zero_SessionCreateParams\<lparr>scp_WMP := zero_Metadata\<lparr>md_Version := ''0.1''\<rparr>, scp_Participants := [''alice'', ''bob'']\<rparr>"

definition demo_created :: SessionCreateResult where
  "demo_created = zero_SessionCreateResult\<lparr>scr_WMP := zero_Metadata\<lparr>md_Version := Version, md_SessionID := ''s1''\<rparr>\<rparr>"

definition create_request :: Request where
  "create_request = \<lparr>req_JSONRPC = ''2.0'', req_ID = ms_string ''1'', req_Method = MethodSessionCreate, req_Params = ms_SessionCreateParams demo_create\<rparr>"

lemma create_request_text:
  "portable_SessionCreateParams demo_create" "ms_SessionCreateParams demo_create \<noteq> None"
  "case ms_Request create_request of None \<Rightarrow> False | Some data \<Rightarrow> length data \<le> 1000"
  "case ms_Response (result_response ''1'' (RSessionCreate (Some demo_created))) of None \<Rightarrow> False | Some b \<Rightarrow> length b \<le> 1000"
  "portable_SessionCreateResult demo_created"
  by code_simp+

theorem session_end_to_end_witness:
  "\<exists>data b s s' r w'. ms_Request create_request = Some data \<and> reachable example_peer s
    \<and> HandleRequestSync example_peer background data (peer_state s) = ((Some b, None), (peer_state s)\<lparr>disp := (disp (peer_state s))\<lparr>world := w'\<rparr>\<rparr>)
    \<and> (cstep example_peer)\<^sup>*\<^sup>* (s\<lparr>peer_state := serve_message example_peer background b (peer_state s)\<rparr>) s'
    \<and> calls s' 0 = Some \<lparr>call_id = ''1'', call_req = create_request, call_phase = Returned (Inr r)\<rparr>
    \<and> call_result un_SessionCreateResult zero_SessionCreateResult True r = Inr demo_created
    \<and> SessionFromContext (call_context example_peer background ''2'' (zero_Metadata\<lparr>md_SessionID := ''s1''\<rparr>) w') = Some (new_session demo_create demo_created)"
proof -
  obtain data where data: "ms_Request create_request = Some data" "int (length data) \<le> maxMessageSize example_peer"
    using create_request_text(3) by (cases "ms_Request create_request") (auto simp: example_peer_eq)
  have fits: "int (length b) \<le> maxMessageSize example_peer"
    if "ms_Response (result_response ''1'' (RSessionCreate (Some demo_created))) = Some b" for b
    using create_request_text(4) that by (simp add: example_peer_eq)
  have req: "NewRequest ''1'' MethodSessionCreate (ms_SessionCreateParams demo_create) = Inr create_request"
    using create_request_text(2) by (auto simp: NewRequest_def create_request_def)
  from req data(1) obtain s where s: "reachable example_peer s" "pending (peer_state s) ''1'' = Some 0"
    "calls s 0 = Some \<lparr>call_id = ''1'', call_req = create_request, call_phase = Waiting\<rparr>" by (rule example_waiting)
  have peer: "sessionStore example_peer = Some memory_backend" "sessionHooks (registry example_peer) = []"
    by (simp_all add: example_peer_eq registered_def opt_list_def example_profile_def newRegistry_def)
  have h: "h_SessionCreate (handler example_peer) c demo_create w = ((Some demo_created, None), w)" for c w
    by (simp add: example_peer_eq example_handler_def demo_created_def)
  have v: "md_Version (scp_WMP demo_create) = Version" "md_SessionID (scr_WMP demo_created) = ''s1''" "''s1'' \<noteq> []"
    by (simp_all add: demo_create_def demo_created_def)
  note result = session_end_to_end [OF s _ _ _ _ create_request_text(1) v(1) _ data(2) example_peer_open peer(1) memory_keeps peer(2) h
      create_request_text(5) _ fits]
  have "\<exists>b s' r w'. HandleRequestSync example_peer background data (peer_state s)
      = ((Some b, None), (peer_state s)\<lparr>disp := (disp (peer_state s))\<lparr>world := w'\<rparr>\<rparr>)
    \<and> (cstep example_peer)\<^sup>*\<^sup>* (s\<lparr>peer_state := serve_message example_peer background b (peer_state s)\<rparr>) s'
    \<and> pending (peer_state s') ''1'' = None \<and> calls s' 0 = Some \<lparr>call_id = ''1'', call_req = create_request, call_phase = Returned (Inr r)\<rparr>
    \<and> call_result un_SessionCreateResult zero_SessionCreateResult True r = Inr demo_created
    \<and> (\<forall>ctx' rid' m. md_SessionID m = ''s1'' \<longrightarrow> SessionFromContext (call_context example_peer ctx' rid' m w') = Some (new_session demo_create demo_created))"
    using result [of background "peer_state s"] req data(1) v by simp
  with data(1) s(1) show ?thesis by (elim exE conjE) (intro exI conjI, assumption+, simp)
qed

end
