(* ===== verification/Discovery.thy ===== *)
theory Discovery
  imports Jsonrpc
begin

text \<open>
  Discovery (discovery.go): the well-known configuration document, the domain of a WMP
  identifier, did:web identifiers, and where a configuration is fetched from. The HTTP
  client is an argument: for the URL of a GET request, no response (the request cannot be
  made or fails), or a status and a body.
\<close>

section \<open>Documents\<close>

record ErdsMetadata =
  em_ConsignmentModes :: "bytes list"
  em_AssuranceLevels :: "bytes list"
  em_SupportedPolicies :: "bytes list"
  em_Delegation :: "bool"
  em_EvidenceRepository :: "bytes"
  em_EvidenceRetention :: "bytes"
  em_ScheduledDelivery :: "bool"

definition zero_ErdsMetadata :: ErdsMetadata where
  "zero_ErdsMetadata = \<lparr>em_ConsignmentModes = [], em_AssuranceLevels = [], em_SupportedPolicies = [], em_Delegation = False, em_EvidenceRepository = [], em_EvidenceRetention = [], em_ScheduledDelivery = False\<rparr>"

definition fields_ErdsMetadata :: "ErdsMetadata fields" where
  "fields_ErdsMetadata =
    [(''consignment_modes'', field em_ConsignmentModes em_ConsignmentModes_update (un_list [] un_string)),
     (''assurance_levels'', field em_AssuranceLevels em_AssuranceLevels_update (un_list [] un_string)),
     (''supported_policies'', field em_SupportedPolicies em_SupportedPolicies_update (un_list [] un_string)),
     (''delegation'', field em_Delegation em_Delegation_update un_bool),
     (''evidence_repository'', field em_EvidenceRepository em_EvidenceRepository_update un_string),
     (''evidence_retention'', field em_EvidenceRetention em_EvidenceRetention_update un_string),
     (''scheduled_delivery'', field em_ScheduledDelivery em_ScheduledDelivery_update un_bool)]"

definition un_ErdsMetadata :: "ErdsMetadata decoder" where
  "un_ErdsMetadata = un_struct fields_ErdsMetadata"

record RecipientMetadata =
  rm_AcceptedContentTypes :: "bytes list"
  rm_MaxMessageSize :: "int"
  rm_ConsignmentPreferences :: "bytes"
  rm_EncryptionRequired :: "bool"

definition zero_RecipientMetadata :: RecipientMetadata where
  "zero_RecipientMetadata = \<lparr>rm_AcceptedContentTypes = [], rm_MaxMessageSize = 0, rm_ConsignmentPreferences = [], rm_EncryptionRequired = False\<rparr>"

definition fields_RecipientMetadata :: "RecipientMetadata fields" where
  "fields_RecipientMetadata =
    [(''accepted_content_types'', field rm_AcceptedContentTypes rm_AcceptedContentTypes_update (un_list [] un_string)),
     (''max_message_size'', field rm_MaxMessageSize rm_MaxMessageSize_update un_int),
     (''consignment_preferences'', field rm_ConsignmentPreferences rm_ConsignmentPreferences_update un_string),
     (''encryption_required'', field rm_EncryptionRequired rm_EncryptionRequired_update un_bool)]"

definition un_RecipientMetadata :: "RecipientMetadata decoder" where
  "un_RecipientMetadata = un_struct fields_RecipientMetadata"

record WellKnownConfig =
  wkc_SupportedVersions :: "bytes list option"
  wkc_Endpoints :: "((bytes, bytes) gomap) option"
  wkc_Capabilities :: "(bytes, any) gomap"
  wkc_AcceptedSchemes :: "bytes list"
  wkc_SecurityModes :: "bytes list"
  wkc_MLSKeyPackages :: "bytes"
  wkc_Relay :: "bytes"
  wkc_IdentityProviders :: "bytes list"
  wkc_TrustFrameworks :: "bytes list"
  wkc_ERDS :: "ErdsMetadata option"
  wkc_RecipientMetadata :: "RecipientMetadata option"

definition zero_WellKnownConfig :: WellKnownConfig where
  "zero_WellKnownConfig = \<lparr>wkc_SupportedVersions = None, wkc_Endpoints = None, wkc_Capabilities = [], wkc_AcceptedSchemes = [], wkc_SecurityModes = [], wkc_MLSKeyPackages = [], wkc_Relay = [], wkc_IdentityProviders = [], wkc_TrustFrameworks = [], wkc_ERDS = None, wkc_RecipientMetadata = None\<rparr>"

definition fields_WellKnownConfig :: "WellKnownConfig fields" where
  "fields_WellKnownConfig =
    [(''supported_versions'', field wkc_SupportedVersions wkc_SupportedVersions_update (un_slice [] un_string)),
     (''endpoints'', field wkc_Endpoints wkc_Endpoints_update (un_ptr [] (un_map [] un_string))),
     (''capabilities'', field wkc_Capabilities wkc_Capabilities_update (un_map ANull un_any)),
     (''accepted_schemes'', field wkc_AcceptedSchemes wkc_AcceptedSchemes_update (un_list [] un_string)),
     (''security_modes'', field wkc_SecurityModes wkc_SecurityModes_update (un_list [] un_string)),
     (''mls_key_packages'', field wkc_MLSKeyPackages wkc_MLSKeyPackages_update un_string),
     (''relay'', field wkc_Relay wkc_Relay_update un_string),
     (''identity_providers'', field wkc_IdentityProviders wkc_IdentityProviders_update (un_list [] un_string)),
     (''trust_frameworks'', field wkc_TrustFrameworks wkc_TrustFrameworks_update (un_list [] un_string)),
     (''erds'', field wkc_ERDS wkc_ERDS_update (un_ptr zero_ErdsMetadata un_ErdsMetadata)),
     (''recipient_metadata'', field wkc_RecipientMetadata wkc_RecipientMetadata_update (un_ptr zero_RecipientMetadata un_RecipientMetadata))]"

definition un_WellKnownConfig :: "WellKnownConfig decoder" where
  "un_WellKnownConfig = un_struct fields_WellKnownConfig"

section \<open>Strings\<close>

definition HasPrefix :: "bytes \<Rightarrow> bytes \<Rightarrow> bool" where
  "HasPrefix s pre \<longleftrightarrow> length pre \<le> length s \<and> take (length pre) s = pre"

definition ContainsAny :: "bytes \<Rightarrow> bytes \<Rightarrow> bool" where
  "ContainsAny s cs \<longleftrightarrow> list_ex (\<lambda>c. c \<in> set cs) s"

text \<open>\<open>if idx := strings.IndexAny(s, cs); idx >= 0 { s = s[:idx] }\<close>\<close>

definition cut_any :: "bytes \<Rightarrow> bytes \<Rightarrow> bytes" where
  "cut_any cs s = takeWhile (\<lambda>c. c \<notin> set cs) s"

fun Split_colon :: "bytes \<Rightarrow> bytes list" where
  "Split_colon [] = [[]]"
| "Split_colon (c # s) =
     (if c = CHR '':'' then [] # Split_colon s
      else (case Split_colon s of [] \<Rightarrow> [[c]] | x # xs \<Rightarrow> (c # x) # xs))"

fun Join_slash :: "bytes list \<Rightarrow> bytes" where
  "Join_slash [] = []"
| "Join_slash [x] = x"
| "Join_slash (x # xs) = x @ CHR ''/'' # Join_slash xs"

text \<open>\<open>strings.ReplaceAll(s, "%3A", ":")\<close>\<close>

fun unescape_colon :: "bytes \<Rightarrow> bytes" where
  "unescape_colon (a # b # c # s) =
     (if a = CHR 0x25 \<and> b = CHR ''3'' \<and> c = CHR ''A'' then CHR '':'' # unescape_colon s
      else a # unescape_colon (b # c # s))"
| "unescape_colon s = s"

section \<open>Identifiers\<close>

definition isValidDIDWebDomain :: "bytes \<Rightarrow> bool" where
  "isValidDIDWebDomain domain \<longleftrightarrow>
     domain \<noteq> [] \<and> \<not> ContainsAny domain [CHR ''/'', CHR 0x5C, CHR ''?'', CHR ''#'', CHR ''@''] \<and> \<not> HasPrefix domain ''.''"

definition parseDIDWeb :: "bytes \<Rightarrow> go_error + bytes \<times> bytes" where
  "parseDIDWeb did =
     (if \<not> HasPrefix did ''did:web:'' then Inl (GoErr ''not a did:web identifier'')
      else (let rest = drop (length ''did:web:'') did;
                parts = Split_colon rest;
                domain = unescape_colon (hd parts)
            in if \<not> isValidDIDWebDomain domain then Inl (GoErr ''invalid did:web domain'')
               else Inr (domain, if length parts > 1 then Join_slash (tl parts) else [])))"

definition ExtractDomain :: "bytes \<Rightarrow> bytes" where
  "ExtractDomain identifier =
     (if HasPrefix identifier ''did:web:'' then
        (case parseDIDWeb identifier of Inl _ \<Rightarrow> [] | Inr (domain, _) \<Rightarrow> domain)
      else if HasPrefix identifier ''https://'' then
        cut_any ''/?#'' (drop (length ''https://'') identifier)
      else if HasPrefix identifier ''x509:san:dns:'' then drop (length ''x509:san:dns:'') identifier
      else if HasPrefix identifier ''x509:san:uri:https://'' then
        cut_any ''/?#'' (drop (length ''x509:san:uri:https://'') identifier)
      else [])"

definition buildWellKnownURL :: "bytes \<Rightarrow> go_error + bytes" where
  "buildWellKnownURL domain =
     (if domain = [] then Inl (GoErr ''domain must not be empty'')
      else if ContainsAny domain [CHR ''/'', CHR ''?'', CHR ''#'', CHR ''@'', CHR 0x5C] then Inl (GoErr ''invalid domain'')
      else Inr (''https://'' @ domain @ ''/.well-known/wmp-configuration''))"

section \<open>Fetching\<close>

text \<open>
  What package \<open>net/http\<close> makes of a GET request: \<open>NewRequestWithContext\<close> rejects the URL, \<open>client.Do\<close>
  fails, or a response arrives with its status and its body (\<open>None\<close> when reading the body fails).
\<close>

datatype http_result =
    HttpBadURL
  | HttpFailed
  | HttpResponse int "bytes option"

type_synonym http_get = "bytes \<Rightarrow> http_result"

text \<open>\<open>io.LimitReader(resp.Body, 1<<20)\<close>\<close>

definition max_body :: int where
  "max_body = 1048576"

definition fetchConfig :: "http_get \<Rightarrow> bytes \<Rightarrow> go_error + WellKnownConfig" where
  "fetchConfig client url =
     (case client url of
        HttpBadURL \<Rightarrow> Inl (GoErr ''create request'')
      | HttpFailed \<Rightarrow> Inl (GoErr ''fetch well-known'')
      | HttpResponse status body \<Rightarrow>
          if status \<noteq> 200 then Inl (GoErr ''well-known returned status'')
          else (case body of
                  None \<Rightarrow> Inl (GoErr ''read body'')
                | Some b \<Rightarrow>
                    (case unmarshal un_WellKnownConfig zero_WellKnownConfig (Some (take (nat max_body) b)) of
                       None \<Rightarrow> Inl (GoErr ''decode config'')
                     | Some config \<Rightarrow> Inr config)))"

text \<open>\<open>DiscoverConfig\<close> uses the default client.\<close>

definition DiscoverConfigWithClient :: "bytes \<Rightarrow> http_get \<Rightarrow> go_error + WellKnownConfig" where
  "DiscoverConfigWithClient domain client =
     (case buildWellKnownURL domain of Inl e \<Rightarrow> Inl e | Inr url \<Rightarrow> fetchConfig client url)"

definition DiscoverConfig :: "http_get \<Rightarrow> bytes \<Rightarrow> go_error + WellKnownConfig" where
  "DiscoverConfig default_client domain =
     (case buildWellKnownURL domain of Inl e \<Rightarrow> Inl e | Inr url \<Rightarrow> fetchConfig default_client url)"

definition DiscoverConfigForIdentifier :: "http_get \<Rightarrow> bytes \<Rightarrow> http_get option \<Rightarrow> go_error + WellKnownConfig" where
  "DiscoverConfigForIdentifier default_client identifier client =
     (let domain = ExtractDomain identifier in
      if domain = [] then Inl (GoErr ''cannot extract domain from identifier'')
      else (case client of
              Some c \<Rightarrow> DiscoverConfigWithClient domain c
            | None \<Rightarrow> DiscoverConfig default_client domain))"

definition DiscoverConfigForDID :: "http_get \<Rightarrow> bytes \<Rightarrow> http_get option \<Rightarrow> go_error + WellKnownConfig" where
  "DiscoverConfigForDID default_client did client =
     (case parseDIDWeb did of
        Inl e \<Rightarrow> Inl e
      | Inr (domain, _) \<Rightarrow>
          fetchConfig (case client of None \<Rightarrow> default_client | Some c \<Rightarrow> c)
            (''https://'' @ domain @ ''/.well-known/wmp-configuration''))"

section \<open>Facts\<close>

lemma HasPrefix_iff: "HasPrefix s pre \<longleftrightarrow> (\<exists>t. s = pre @ t)"
  by (auto simp: HasPrefix_def) (metis append_take_drop_id)

text \<open>A domain that cannot change the host of a URL.\<close>

definition safe_domain :: "bytes \<Rightarrow> bool" where
  "safe_domain d \<longleftrightarrow> d \<noteq> [] \<and> set d \<inter> set [CHR ''/'', CHR ''?'', CHR ''#'', CHR ''@'', CHR 0x5C] = {}"

lemma buildWellKnownURL_safe:
  "buildWellKnownURL d = Inr url \<longleftrightarrow> safe_domain d \<and> url = ''https://'' @ d @ ''/.well-known/wmp-configuration''"
  by (auto simp: buildWellKnownURL_def safe_domain_def ContainsAny_def list_ex_iff)

lemma parseDIDWeb_safe: "parseDIDWeb did = Inr (d, path) \<Longrightarrow> safe_domain d"
  by (auto simp: parseDIDWeb_def Let_def isValidDIDWebDomain_def safe_domain_def ContainsAny_def list_ex_iff split: if_splits)

text \<open>
  The effect of a computation that may make one request: its result does not depend on what
  the client answers elsewhere.
\<close>

lemma fetchConfig_local: "client url = client' url \<Longrightarrow> fetchConfig client url = fetchConfig client' url"
  by (simp add: fetchConfig_def)

lemma Split_colon_ne: "Split_colon s \<noteq> []"
  by (induction s) (auto split: list.splits)

lemma Split_colon_plain: "CHR '':'' \<notin> set s \<Longrightarrow> Split_colon s = [s]"
  by (induction s) auto

lemma Split_colon_append: "CHR '':'' \<notin> set s \<Longrightarrow> Split_colon (s @ CHR '':'' # t) = s # Split_colon t"
  by (induction s) auto

fun Join_colon :: "bytes list \<Rightarrow> bytes" where
  "Join_colon [] = []"
| "Join_colon [x] = x"
| "Join_colon (x # xs) = x @ CHR '':'' # Join_colon xs"

lemma Split_Join: "xs \<noteq> [] \<Longrightarrow> \<forall>x \<in> set xs. CHR '':'' \<notin> set x \<Longrightarrow> Split_colon (Join_colon xs) = xs"
  by (induction xs rule: Join_colon.induct) (auto simp: Split_colon_plain Split_colon_append)

text \<open>The escaping of a port separator in a did:web domain.\<close>

fun escape_colon :: "bytes \<Rightarrow> bytes" where
  "escape_colon [] = []"
| "escape_colon (c # s) = (if c = CHR '':'' then CHR 0x25 # ''3A'' @ escape_colon s else c # escape_colon s)"

lemma escape_colon_no_colon: "CHR '':'' \<notin> set (escape_colon s)"
  by (induction s) auto

lemma unescape_plain: "a \<noteq> CHR 0x25 \<Longrightarrow> unescape_colon (a # s) = a # unescape_colon s"
  by (cases s rule: unescape_colon.cases) auto

lemma unescape_escape: "CHR 0x25 \<notin> set s \<Longrightarrow> unescape_colon (escape_colon s) = s"
  by (induction s) (auto simp: unescape_plain)

end
