(* ===== verification/Invitation_Model.thy ===== *)
theory Invitation_Model
  imports Discovery Go_Base64
begin

text \<open>
  Invitations (invitation.go): the signed object that bootstraps a session, its URI forms,
  and the store of nonces that makes an invitation usable once. Randomness and the clock
  are arguments of the operations that read them.
\<close>

section \<open>The invitation\<close>

definition InvitationPurposeSession :: bytes where
  [simp]: "InvitationPurposeSession = ''session''"

definition InvitationPurposeOID4VCI :: bytes where
  [simp]: "InvitationPurposeOID4VCI = ''oid4vci''"

definition InvitationPurposeOID4VP :: bytes where
  [simp]: "InvitationPurposeOID4VP = ''oid4vp''"

definition InvitationPurposeJoin :: bytes where
  [simp]: "InvitationPurposeJoin = ''join''"

record Invitation =
  inv_Provider :: "bytes"
  inv_Sender :: "bytes"
  inv_Nonce :: "bytes"
  inv_Relay :: "bytes"
  inv_Purpose :: "bytes"
  inv_SessionID :: "bytes"
  inv_Label :: "bytes"
  inv_Capabilities :: "Capabilities"
  inv_ExpiresAt :: "gotime"
  inv_Signature :: "bytes"

definition zero_Invitation :: Invitation where
  "zero_Invitation = \<lparr>inv_Provider = [], inv_Sender = [], inv_Nonce = [], inv_Relay = [], inv_Purpose = [], inv_SessionID = [], inv_Label = [], inv_Capabilities = [], inv_ExpiresAt = zero_time, inv_Signature = []\<rparr>"

definition fields_Invitation :: "Invitation fields" where
  "fields_Invitation =
    [(''provider'', field inv_Provider inv_Provider_update un_string),
     (''sender'', field inv_Sender inv_Sender_update un_string),
     (''nonce'', field inv_Nonce inv_Nonce_update un_string),
     (''relay'', field inv_Relay inv_Relay_update un_string),
     (''purpose'', field inv_Purpose inv_Purpose_update un_string),
     (''session_id'', field inv_SessionID inv_SessionID_update un_string),
     (''label'', field inv_Label inv_Label_update un_string),
     (''capabilities'', field inv_Capabilities inv_Capabilities_update (un_map None un_raw)),
     (''expires_at'', field inv_ExpiresAt inv_ExpiresAt_update un_time),
     (''signature'', field inv_Signature inv_Signature_update un_string)]"

definition un_Invitation :: "Invitation decoder" where
  "un_Invitation = un_struct fields_Invitation"

definition ms_Invitation :: "Invitation \<Rightarrow> bytes option" where
  "ms_Invitation x = ms_obj (
     always ''provider'' (ms_string (inv_Provider x))
     @ always ''sender'' (ms_string (inv_Sender x))
     @ always ''nonce'' (ms_string (inv_Nonce x))
     @ unless (inv_Relay x = []) ''relay'' (ms_string (inv_Relay x))
     @ unless (inv_Purpose x = []) ''purpose'' (ms_string (inv_Purpose x))
     @ unless (inv_SessionID x = []) ''session_id'' (ms_string (inv_SessionID x))
     @ unless (inv_Label x = []) ''label'' (ms_string (inv_Label x))
     @ unless (inv_Capabilities x = []) ''capabilities'' ((ms_map ms_raw) (inv_Capabilities x))
     @ always ''expires_at'' (ms_time (inv_ExpiresAt x))
     @ unless (inv_Signature x = []) ''signature'' (ms_string (inv_Signature x)))"
definition inv_IsExpired :: "instant \<Rightarrow> Invitation \<Rightarrow> bool" where
  "inv_IsExpired now i \<longleftrightarrow> \<not> IsZero (inv_ExpiresAt i) \<and> time_after now (inv_ExpiresAt i)"

definition SigningPayload :: "Invitation \<Rightarrow> bytes option" where
  "SigningPayload i = ms_Invitation (i\<lparr>inv_Signature := []\<rparr>)"

definition inv_URI :: "Invitation \<Rightarrow> go_error + bytes" where
  "inv_URI i =
     (case ms_Invitation i of
        None \<Rightarrow> Inl (GoErr ''marshal invitation'')
      | Some data \<Rightarrow> Inr (''wmp://invite?data='' @ b64_raw_url data))"

definition HTTPSURI :: "Invitation \<Rightarrow> go_error + bytes" where
  "HTTPSURI i =
     (let domain = ExtractDomain (inv_Provider i) in
      if domain = [] then Inl (GoErr ''cannot extract domain from provider'')
      else (case ms_Invitation i of
              None \<Rightarrow> Inl (GoErr ''marshal invitation'')
            | Some data \<Rightarrow> Inr (''https://'' @ domain @ ''/wmp/invite#'' @ b64_raw_url data)))"

definition GenerateNonce :: "bytes option \<Rightarrow> go_error + bytes" where
  "GenerateNonce rand =
     (case rand of
        None \<Rightarrow> Inl (GoErr ''generate nonce'')
      | Some b \<Rightarrow> Inr (''inv-'' @ b64_raw_url b))"

definition NewInvitation :: "bytes option \<Rightarrow> instant \<Rightarrow> bytes \<Rightarrow> bytes \<Rightarrow> duration \<Rightarrow> go_error + Invitation" where
  "NewInvitation rand now provider sender ttl =
     (case GenerateNonce rand of
        Inl e \<Rightarrow> Inl e
      | Inr nonce \<Rightarrow>
          Inr (zero_Invitation\<lparr>inv_Provider := provider, inv_Sender := sender, inv_Nonce := nonce,
               inv_Purpose := InvitationPurposeSession, inv_ExpiresAt := time_add now ttl\<rparr>))"

section \<open>Parsing\<close>

text \<open>
  \<open>url.Parse(uri)\<close> followed by \<open>Query()\<close>. On a URI without escapes whose host is plain and
  whose query has unreserved characters only, the pairs are what stands between the
  separators; \<open>net\<close> is what package \<open>net/url\<close> does with any other URI (\<open>None\<close> for an error).
\<close>

type_synonym query = "(bytes \<times> bytes) list"

definition unreserved :: "char \<Rightarrow> bool" where
  "unreserved c \<longleftrightarrow> b64_value c \<noteq> None \<or> c = CHR ''.'' \<or> c = CHR ''~''"

definition query_char :: "char \<Rightarrow> bool" where
  "query_char c \<longleftrightarrow> unreserved c \<or> c = CHR ''='' \<or> c = CHR ''&'' \<or> c = CHR ''?''"

fun split_at :: "char \<Rightarrow> bytes \<Rightarrow> bytes list" where
  "split_at x [] = [[]]"
| "split_at x (c # s) =
     (if c = x then [] # split_at x s
      else (case split_at x s of [] \<Rightarrow> [[c]] | y # ys \<Rightarrow> (c # y) # ys))"

definition query_pair :: "bytes \<Rightarrow> bytes \<times> bytes" where
  "query_pair s = (takeWhile (\<lambda>c. c \<noteq> CHR ''='') s, tl (dropWhile (\<lambda>c. c \<noteq> CHR ''='') s))"

definition plain_query :: "bytes \<Rightarrow> query" where
  "plain_query raw = map query_pair (filter (\<lambda>s. s \<noteq> []) (split_at (CHR ''&'') raw))"

definition url_query :: "(bytes \<Rightarrow> query option) \<Rightarrow> bytes \<Rightarrow> query option" where
  "url_query net uri =
     (let rest = drop (length ''wmp://invite'') uri in
      if HasPrefix uri ''wmp://invite'' \<and> (rest = [] \<or> hd rest = CHR ''?'') \<and> list_all query_char rest
      then Some (plain_query (tl rest))
      else net uri)"

definition query_get :: "query \<Rightarrow> bytes \<Rightarrow> bytes" where
  "query_get q k = (case map_of q k of None \<Rightarrow> [] | Some v \<Rightarrow> v)"

definition contains :: "bytes \<Rightarrow> bytes \<Rightarrow> bool" where
  "contains s sub \<longleftrightarrow> list_ex (\<lambda>i. take (length sub) (drop i s) = sub) [0..<Suc (length s)]"

text \<open>\<open>uri[strings.LastIndex(uri, "#")+1:]\<close>\<close>

definition after_last_hash :: "bytes \<Rightarrow> bytes" where
  "after_last_hash uri = rev (takeWhile (\<lambda>c. c \<noteq> CHR ''#'') (rev uri))"

definition decode_invitation :: "bytes \<Rightarrow> go_error + Invitation" where
  "decode_invitation encoded =
     (case b64_decode encoded of
        None \<Rightarrow> Inl (GoErr ''decode invitation data'')
      | Some data \<Rightarrow>
          (case unmarshal un_Invitation zero_Invitation (Some data) of
             None \<Rightarrow> Inl (GoErr ''unmarshal invitation'')
           | Some i \<Rightarrow> Inr i))"

definition ParseInvitationURI :: "(bytes \<Rightarrow> query option) \<Rightarrow> bytes \<Rightarrow> go_error + Invitation" where
  "ParseInvitationURI net uri =
     (if HasPrefix uri ''wmp://invite'' then
        (case url_query net uri of
           None \<Rightarrow> Inl (GoErr ''parse invitation URI'')
         | Some q \<Rightarrow>
             if query_get q ''data'' = [] then
               (if query_get q ''ref'' \<noteq> [] then Inl (GoErr ''invitation uses ref'')
                else Inl (GoErr ''invitation URI missing data parameter''))
             else decode_invitation (query_get q ''data''))
      else if contains uri ''/wmp/invite#'' then
        (if after_last_hash uri = [] then Inl (GoErr ''HTTPS invitation URI missing fragment'')
         else decode_invitation (after_last_hash uri))
      else Inl (GoErr ''unrecognised invitation URI scheme''))"

definition ParseInvitationJSON :: "raw \<Rightarrow> go_error + Invitation" where
  "ParseInvitationJSON data =
     (case unmarshal un_Invitation zero_Invitation data of
        None \<Rightarrow> Inl (GoErr ''unmarshal invitation'')
      | Some i \<Rightarrow> Inr i)"

section \<open>The store of nonces\<close>

record MemoryInvitationStore =
  nonces :: "(bytes, Invitation) gomap"

definition NewMemoryInvitationStore :: MemoryInvitationStore where
  "NewMemoryInvitationStore = \<lparr>nonces = []\<rparr>"

definition Put :: "bytes \<Rightarrow> Invitation \<Rightarrow> MemoryInvitationStore \<Rightarrow> go_error option \<times> MemoryInvitationStore" where
  "Put nonce i s =
     (if gm_get (nonces s) nonce \<noteq> None then (Some (GoErr ''nonce already exists''), s)
      else (None, s\<lparr>nonces := gm_set nonce i (nonces s)\<rparr>))"

definition Consume :: "instant \<Rightarrow> bytes \<Rightarrow> MemoryInvitationStore \<Rightarrow> Invitation option \<times> MemoryInvitationStore" where
  "Consume now nonce s =
     (case gm_get (nonces s) nonce of
        None \<Rightarrow> (None, s)
      | Some i \<Rightarrow>
          if inv_IsExpired now i then (None, s\<lparr>nonces := gm_del nonce (nonces s)\<rparr>)
          else (Some i, s\<lparr>nonces := gm_del nonce (nonces s)\<rparr>))"

definition Cleanup_nonces :: "instant \<Rightarrow> MemoryInvitationStore \<Rightarrow> nat \<times> MemoryInvitationStore" where
  "Cleanup_nonces now s =
     (gm_count_if (inv_IsExpired now) (nonces s), s\<lparr>nonces := gm_delete_if (inv_IsExpired now) (nonces s)\<rparr>)"

text \<open>
  \<open>ValidateInvitationNonce\<close> on any store: \<open>consume\<close> is the store's operation and \<open>verify\<close> the
  optional verifier (\<open>None\<close>: no error). The result is the invitation, a code and a message.
\<close>

definition ValidateInvitationNonce ::
  "(instant \<Rightarrow> bytes \<Rightarrow> 's \<Rightarrow> Invitation option \<times> 's) \<Rightarrow> (Invitation \<Rightarrow> go_error option) option
    \<Rightarrow> instant \<Rightarrow> instant \<Rightarrow> bytes \<Rightarrow> 's \<Rightarrow> (Invitation option \<times> int \<times> bytes) \<times> 's" where
  "ValidateInvitationNonce consume verifier now now' nonce s =
     (if nonce = [] then ((None, ErrNotAuthorized, ''missing invitation_nonce''), s)
      else (case consume now nonce s of
         (None, s') \<Rightarrow> ((None, ErrNotAuthorized, ''invalid_invitation_nonce''), s')
       | (Some i, s') \<Rightarrow>
           if inv_IsExpired now' i then ((None, ErrNotAuthorized, ''invitation expired''), s')
           else (case verifier of
                   None \<Rightarrow> ((Some i, 0, []), s')
                 | Some verify \<Rightarrow>
                     (case verify i of
                        Some _ \<Rightarrow> ((None, ErrNotAuthorized, ''invitation signature verification failed''), s')
                      | None \<Rightarrow> ((Some i, 0, []), s')))))"

end
