(* ===== verification/Invitation_Props.thy ===== *)
theory Invitation_Props
  imports Invitation_Model Wmp_Codec
begin

text \<open>
  Invitations survive their URI forms, what is signed does not depend on the signature, and
  a nonce can be consumed once.
\<close>

section \<open>Encoding\<close>

text \<open>The invitations that survive encoding.\<close>

definition portable_Invitation :: "Invitation \<Rightarrow> bool" where
  "portable_Invitation x \<longleftrightarrow>
    ascii (inv_Provider x) \<and> ascii (inv_Sender x) \<and> ascii (inv_Nonce x) \<and> ascii (inv_Relay x)
     \<and> ascii (inv_Purpose x) \<and> ascii (inv_SessionID x) \<and> ascii (inv_Label x)
     \<and> portable_map solid_raw (inv_Capabilities x) \<and> portable_time (inv_ExpiresAt x)
     \<and> ascii (inv_Signature x)"

lemma find_Invitation:
  "find_field fields_Invitation ''provider'' = Some (field inv_Provider inv_Provider_update un_string)"
  "find_field fields_Invitation ''sender'' = Some (field inv_Sender inv_Sender_update un_string)"
  "find_field fields_Invitation ''nonce'' = Some (field inv_Nonce inv_Nonce_update un_string)"
  "find_field fields_Invitation ''relay'' = Some (field inv_Relay inv_Relay_update un_string)"
  "find_field fields_Invitation ''purpose'' = Some (field inv_Purpose inv_Purpose_update un_string)"
  "find_field fields_Invitation ''session_id'' = Some (field inv_SessionID inv_SessionID_update un_string)"
  "find_field fields_Invitation ''label'' = Some (field inv_Label inv_Label_update un_string)"
  "find_field fields_Invitation ''capabilities'' = Some (field inv_Capabilities inv_Capabilities_update (un_map None un_raw))"
  "find_field fields_Invitation ''expires_at'' = Some (field inv_ExpiresAt inv_ExpiresAt_update un_time)"
  "find_field fields_Invitation ''signature'' = Some (field inv_Signature inv_Signature_update un_string)"
  by (simp_all add: find_field_def fields_Invitation_def)

lemma codes_Invitation [codec_intros]:
  "old = zero_Invitation \<Longrightarrow> portable_Invitation x \<Longrightarrow> raw_depth + 2 \<le> d \<Longrightarrow> codes nn d un_Invitation old (ms_Invitation x) x"
  unfolding un_Invitation_def ms_Invitation_def always_unless
  by (intro codes_struct find_Invitation [THEN unless_more] find_Invitation [THEN unless_last])
     (auto simp: portable_Invitation_def zero_Invitation_def codec_rules intro!: codec_intros)

lemma invitation_decoded:
  "portable_Invitation i \<Longrightarrow> ms_Invitation i = Some data \<Longrightarrow> unmarshal un_Invitation zero_Invitation (Some data) = Some i"
  using codes_unmarshal [OF codes_Invitation [OF refl, of i max_nesting False]] by (simp add: raw_depth_def max_nesting_def)

lemma decode_encoded:
  "portable_Invitation i \<Longrightarrow> ms_Invitation i = Some data \<Longrightarrow> decode_invitation (b64_raw_url data) = Inr i"
  by (simp add: decode_invitation_def b64_roundtrip invitation_decoded)

section \<open>URIs\<close>

lemma b64_query_char: "list_all query_char (b64_raw_url s)"
  using b64_encoded_text [of s] by (auto simp: list_all_iff b64_text_def query_char_def unreserved_def)

lemma b64_no: "c \<in> set (b64_raw_url s) \<Longrightarrow> b64_value c \<noteq> None"
  using b64_encoded_text [of s] by (auto simp: list_all_iff b64_text_def)

lemma split_at_plain: "x \<notin> set s \<Longrightarrow> split_at x s = [s]"
  by (induction s) auto

lemma data_query: "query_get (plain_query (''data='' @ b64_raw_url s)) ''data'' = b64_raw_url s"
proof -
  have "CHR ''&'' \<notin> set (b64_raw_url s)" using b64_no [of "CHR ''&''" s] by (auto simp: b64_value_def)
  then have "split_at (CHR ''&'') (''data='' @ b64_raw_url s) = [''data='' @ b64_raw_url s]"
    by (intro split_at_plain) auto
  then show ?thesis by (simp add: plain_query_def query_pair_def query_get_def)
qed

lemma url_query_data: "url_query net (''wmp://invite?data='' @ b64_raw_url s) = Some (plain_query (''data='' @ b64_raw_url s))"
  using b64_query_char [of s]
  by (simp add: url_query_def HasPrefix_def query_char_def [of "CHR ''?''"] query_char_def [of "CHR ''=''"]
      query_char_def [of "CHR ''d''"] query_char_def [of "CHR ''a''"] query_char_def [of "CHR ''t''"] unreserved_def b64_value_def)

lemma contains_append: "contains (a @ sub @ b) sub"
  by (auto simp: contains_def list_ex_iff intro!: bexI [of _ "length a"])

lemma after_last_hash_append: "CHR ''#'' \<notin> set b \<Longrightarrow> after_last_hash (a @ CHR ''#'' # b) = b"
  unfolding after_last_hash_def by (induction b rule: rev_induct) (auto simp: takeWhile_tail)

lemma ms_Invitation_nonempty: "ms_Invitation i = Some data \<Longrightarrow> data \<noteq> []"
  by (auto simp: ms_Invitation_def ms_obj_def)

section \<open>The contract of a nonce store\<close>

locale nonce_store =
  fixes new :: 's
    and put :: "bytes \<Rightarrow> Invitation \<Rightarrow> 's \<Rightarrow> go_error option \<times> 's"
    and consume :: "instant \<Rightarrow> bytes \<Rightarrow> 's \<Rightarrow> Invitation option \<times> 's"
    and cleanup :: "instant \<Rightarrow> 's \<Rightarrow> nat \<times> 's"
    and content :: "'s \<Rightarrow> bytes \<rightharpoonup> Invitation"
    and invar :: "'s \<Rightarrow> bool"
  assumes invar_new: "invar new" and content_new: "content new = Map.empty"
    and invar_put: "invar s \<Longrightarrow> invar (snd (put n i s))"
    and invar_consume: "invar s \<Longrightarrow> invar (snd (consume now n s))"
    and invar_cleanup: "invar s \<Longrightarrow> invar (snd (cleanup now s))"
    and put_ok: "invar s \<Longrightarrow> fst (put n i s) = None \<longleftrightarrow> content s n = None"
    and content_put: "invar s \<Longrightarrow> content (snd (put n i s)) = (if content s n = None then (content s)(n \<mapsto> i) else content s)"
    and consume_result: "invar s \<Longrightarrow> fst (consume now n s) =
          (case content s n of None \<Rightarrow> None | Some i \<Rightarrow> if inv_IsExpired now i then None else Some i)"
    and content_consume: "invar s \<Longrightarrow> content (snd (consume now n s)) = (content s)(n := None)"
    and content_cleanup: "invar s \<Longrightarrow> content (snd (cleanup now s)) =
          (\<lambda>n. case content s n of None \<Rightarrow> None | Some i \<Rightarrow> if inv_IsExpired now i then None else Some i)"
begin

text \<open>Whatever happens to the store, a nonce that is not put again stays unusable once consumed.\<close>

definition step :: "bytes \<Rightarrow> 's \<Rightarrow> 's \<Rightarrow> bool" where
  "step n s s' \<longleftrightarrow> (\<exists>m i. m \<noteq> n \<and> s' = snd (put m i s)) \<or> (\<exists>now m. s' = snd (consume now m s)) \<or> (\<exists>now. s' = snd (cleanup now s))"

lemma step_inv: "step n s s' \<Longrightarrow> invar s \<and> content s n = None \<Longrightarrow> invar s' \<and> content s' n = None"
  by (auto simp: step_def invar_put invar_consume invar_cleanup content_put content_consume content_cleanup)

lemma steps_inv: "(step n)\<^sup>*\<^sup>* s s' \<Longrightarrow> invar s \<and> content s n = None \<Longrightarrow> invar s' \<and> content s' n = None"
  by (induction rule: rtranclp_induct) (auto dest: step_inv)

lemma consumed_once:
  assumes "invar s" "(step n)\<^sup>*\<^sup>* (snd (consume now n s)) s'"
  shows "fst (consume now' n s') = None"
  using steps_inv [OF assms(2)] assms(1) by (simp add: invar_consume content_consume consume_result)

lemma put_then_consume:
  assumes "invar s" "content s n = None" "\<not> inv_IsExpired now i"
  shows "fst (consume now n (snd (put n i s))) = Some i"
  using assms by (simp add: consume_result content_put invar_put)

end

definition nonce_content :: "MemoryInvitationStore \<Rightarrow> bytes \<rightharpoonup> Invitation" where
  "nonce_content s = gm_get (nonces s)"

definition nonce_ok :: "MemoryInvitationStore \<Rightarrow> bool" where
  "nonce_ok s \<longleftrightarrow> gm_ok (nonces s)"

interpretation nonce: nonce_store NewMemoryInvitationStore Put Consume Cleanup_nonces nonce_content nonce_ok
  by unfold_locales
     (auto simp: NewMemoryInvitationStore_def nonce_content_def nonce_ok_def Put_def Consume_def Cleanup_nonces_def fun_eq_iff
       gm_get_delete_if split: option.splits)

section \<open>Properties of invitations\<close>

lemma portable_encodes:
  assumes "portable_Invitation i"
  obtains data where "ms_Invitation i = Some data"
  using codes_encodes [OF codes_Invitation [OF refl assms, of max_nesting False]] by (auto simp: raw_depth_def max_nesting_def)

lemma parse_wmp_uri:
  assumes "portable_Invitation i" "ms_Invitation i = Some data"
  shows "ParseInvitationURI net (''wmp://invite?data='' @ b64_raw_url data) = Inr i"
proof -
  have "b64_raw_url data \<noteq> []"
    using b64_roundtrip [of data] b64_roundtrip [of "[]"] ms_Invitation_nonempty [OF assms(2)]
    by (auto simp: b64_decode_def)
  moreover have "HasPrefix (''wmp://invite?data='' @ b64_raw_url data) ''wmp://invite''" by (simp add: HasPrefix_def)
  ultimately show ?thesis
    by (simp only: ParseInvitationURI_def url_query_data data_query decode_encoded [OF assms] option.case if_True if_False)
qed

lemma parse_https_uri:
  assumes "portable_Invitation i" "ms_Invitation i = Some data"
  shows "ParseInvitationURI net (''https://'' @ domain @ ''/wmp/invite#'' @ b64_raw_url data) = Inr i" (is "ParseInvitationURI net ?u = _")
proof -
  have ne: "b64_raw_url data \<noteq> []"
    using b64_roundtrip [of data] b64_roundtrip [of "[]"] ms_Invitation_nonempty [OF assms(2)]
    by (auto simp: b64_decode_def)
  have "CHR ''#'' \<notin> set (b64_raw_url data)" using b64_no [of "CHR ''#''" data] by (auto simp: b64_value_def)
  then have frag: "after_last_hash ?u = b64_raw_url data"
    using after_last_hash_append [of "b64_raw_url data" "''https://'' @ domain @ ''/wmp/invite''"] by simp
  have "contains ?u ''/wmp/invite#''"
    using contains_append [of "''https://'' @ domain" "''/wmp/invite#''" "b64_raw_url data"] by (simp only: append_assoc)
  moreover have "\<not> HasPrefix ?u ''wmp://invite''" by (simp add: HasPrefix_def)
  ultimately show ?thesis
    using ne by (simp only: ParseInvitationURI_def frag decode_encoded [OF assms] if_True if_False simp_thms)
qed

text \<open>
  C20: An invitation of ASCII fields and compact capabilities that expires in the years 0 to 9999 has a
  \<open>wmp://invite\<close> URI, and \<open>ParseInvitationURI\<close> reads that URI back as the same invitation, whatever
  \<open>net/url\<close> does with other URIs. When its provider has a domain it also has an HTTPS URI that is
  read back the same way.\<close>

theorem invitation_uri_roundtrip:
  assumes "portable_Invitation i"
  shows "(\<exists>u. inv_URI i = Inr u \<and> ParseInvitationURI net u = Inr i)
    \<and> (ExtractDomain (inv_Provider i) \<noteq> [] \<longrightarrow> (\<exists>u. HTTPSURI i = Inr u \<and> ParseInvitationURI net u = Inr i))"
proof -
  from assms obtain data where data: "ms_Invitation i = Some data" by (rule portable_encodes)
  have "\<exists>u. inv_URI i = Inr u \<and> ParseInvitationURI net u = Inr i"
    using parse_wmp_uri [OF assms data] by (simp add: inv_URI_def data)
  moreover have "\<exists>u. HTTPSURI i = Inr u \<and> ParseInvitationURI net u = Inr i" if "ExtractDomain (inv_Provider i) \<noteq> []"
    using that parse_https_uri [OF assms data] by (simp add: HTTPSURI_def data Let_def)
  ultimately show ?thesis by blast
qed

definition example_invitation :: Invitation where
  "example_invitation = zero_Invitation\<lparr>inv_Provider := ''did:web:wallet.example'', inv_Sender := ''alice'',
     inv_Nonce := ''inv-1'', inv_Purpose := ''session'', inv_Capabilities := [(''flows'', Some ''{}'')], inv_ExpiresAt := \<lparr>t_ns = 63871200000 * second, t_off = 3600\<rparr>\<rparr>"

lemma example_portable: "portable_Invitation example_invitation" "ExtractDomain (inv_Provider example_invitation) \<noteq> []"
  by code_simp+

theorem invitation_uri_roundtrip_witness:
  "(\<exists>u. inv_URI example_invitation = Inr u \<and> ParseInvitationURI (\<lambda>_. None) u = Inr example_invitation)
   \<and> (\<exists>u. HTTPSURI example_invitation = Inr u \<and> ParseInvitationURI (\<lambda>_. None) u = Inr example_invitation)"
  using invitation_uri_roundtrip [OF example_portable(1)] example_portable(2) by blast

text \<open>
  C36: The payload that is signed determines every field of an invitation except its signature:
  two portable invitations with the same payload differ in the signature at most.\<close>

theorem signature_covers_invitation:
  assumes "portable_Invitation i" "portable_Invitation j" "SigningPayload i = SigningPayload j"
  shows "i\<lparr>inv_Signature := []\<rparr> = j\<lparr>inv_Signature := []\<rparr>"
proof -
  have i: "portable_Invitation (i\<lparr>inv_Signature := []\<rparr>)" and j: "portable_Invitation (j\<lparr>inv_Signature := []\<rparr>)"
    using assms(1,2) by (simp_all add: portable_Invitation_def ascii_def)
  from i obtain data where data: "SigningPayload i = Some data"
    unfolding SigningPayload_def by (rule portable_encodes)
  with assms(3) have "SigningPayload j = Some data" by simp
  with data invitation_decoded [OF i] invitation_decoded [OF j] show ?thesis
    by (simp add: SigningPayload_def)
qed

theorem signature_covers_invitation_witness:
  "example_invitation\<lparr>inv_Signature := []\<rparr> = (example_invitation\<lparr>inv_Signature := ''sig''\<rparr>)\<lparr>inv_Signature := []\<rparr>"
proof (rule signature_covers_invitation)
  show "portable_Invitation example_invitation" by code_simp
  show "portable_Invitation (example_invitation\<lparr>inv_Signature := ''sig''\<rparr>)" by code_simp
  show "SigningPayload example_invitation = SigningPayload (example_invitation\<lparr>inv_Signature := ''sig''\<rparr>)"
    by (simp add: SigningPayload_def)
qed

section \<open>Nonces\<close>

datatype nonce_op =
    NoncePut bytes Invitation
  | NonceConsume instant bytes
  | NonceCleanup instant

definition nonce_apply :: "nonce_op \<Rightarrow> MemoryInvitationStore \<Rightarrow> MemoryInvitationStore" where
  "nonce_apply op s =
     (case op of
        NoncePut n i \<Rightarrow> snd (Put n i s)
      | NonceConsume now n \<Rightarrow> snd (Consume now n s)
      | NonceCleanup now \<Rightarrow> snd (Cleanup_nonces now s))"

definition not_put :: "bytes \<Rightarrow> nonce_op \<Rightarrow> bool" where
  "not_put n op \<longleftrightarrow> (case op of NoncePut m _ \<Rightarrow> m \<noteq> n | _ \<Rightarrow> True)"

lemma nonce_run_ok: "nonce_ok s \<Longrightarrow> nonce_ok (fold nonce_apply ops s)"
  by (induction ops arbitrary: s)
     (auto simp: nonce_apply_def nonce.invar_put nonce.invar_consume nonce.invar_cleanup split: nonce_op.splits)

lemma nonce_run_new: "nonce_ok (fold nonce_apply ops NewMemoryInvitationStore)"
  by (rule nonce_run_ok) (rule nonce.invar_new)

lemma nonce_run_steps: "list_all (not_put n) ops \<Longrightarrow> (nonce.step n)\<^sup>*\<^sup>* s (fold nonce_apply ops s)"
proof (induction ops arbitrary: s)
  case (Cons op ops)
  have "nonce.step n s (nonce_apply op s)"
    using Cons.prems by (cases op) (auto simp: nonce.step_def nonce_apply_def not_put_def)
  moreover have "(nonce.step n)\<^sup>*\<^sup>* (nonce_apply op s) (fold nonce_apply ops (nonce_apply op s))"
    using Cons by auto
  ultimately show ?case by (simp add: converse_rtranclp_into_rtranclp)
qed simp

lemma validate_state:
  "n \<noteq> [] \<Longrightarrow> snd (ValidateInvitationNonce Consume verifier now now' n s) = snd (Consume now n s)"
  by (auto simp: ValidateInvitationNonce_def split: prod.splits option.splits)

text \<open>
  C17: A nonce admits one session at most. Once \<open>ValidateInvitationNonce\<close> has been asked about a
  nonce, with whatever outcome, then through any sequence of operations on the store that does not
  put the nonce again, every later validation of it is refused with \<open>ErrNotAuthorized\<close>.\<close>

theorem invitation_used_once:
  assumes "list_all (not_put n) ops"
    and "s = fold nonce_apply history NewMemoryInvitationStore"
    and "s' = snd (ValidateInvitationNonce Consume verifier now1 now2 n s)"
  shows "\<exists>msg. fst (ValidateInvitationNonce Consume verifier' now3 now4 n (fold nonce_apply ops s')) = (None, ErrNotAuthorized, msg)"
proof (cases "n = []")
  case False
  then have s': "s' = snd (Consume now1 n s)" using assms(3) by (simp add: validate_state)
  have "fst (Consume now3 n (fold nonce_apply ops s')) = None"
    unfolding s' assms(2) by (rule nonce.consumed_once [OF nonce_run_new nonce_run_steps [OF assms(1)]])
  with False show ?thesis by (auto simp: ValidateInvitationNonce_def split: prod.splits option.splits)
qed (simp add: ValidateInvitationNonce_def)

theorem invitation_used_once_witness:
  "fst (ValidateInvitationNonce Consume None 0 0 ''n'' (nonce_apply (NoncePut ''n'' example_invitation) NewMemoryInvitationStore))
     = (Some example_invitation, 0, [])
   \<and> (\<exists>msg. fst (ValidateInvitationNonce Consume None 0 0 ''n'' (fold nonce_apply [NoncePut ''m'' example_invitation]
        (snd (ValidateInvitationNonce Consume None 0 0 ''n''
           (fold nonce_apply [NoncePut ''n'' example_invitation] NewMemoryInvitationStore))))) = (None, ErrNotAuthorized, msg))"
proof
  show "fst (ValidateInvitationNonce Consume None 0 0 ''n'' (nonce_apply (NoncePut ''n'' example_invitation) NewMemoryInvitationStore))
     = (Some example_invitation, 0, [])" by code_simp
  show "\<exists>msg. fst (ValidateInvitationNonce Consume None 0 0 ''n'' (fold nonce_apply [NoncePut ''m'' example_invitation]
        (snd (ValidateInvitationNonce Consume None 0 0 ''n''
           (fold nonce_apply [NoncePut ''n'' example_invitation] NewMemoryInvitationStore))))) = (None, ErrNotAuthorized, msg)"
    by (rule invitation_used_once [OF _ refl refl]) (simp add: not_put_def)
qed

text \<open>
  Validation accepts exactly the stored invitation of a nonce that is neither empty nor
  expired and whose signature the verifier, when there is one, accepts; after any history of the
  store.\<close>

theorem nonce_accepted_iff:
  assumes "s = fold nonce_apply history NewMemoryInvitationStore"
  shows "fst (ValidateInvitationNonce Consume verifier now1 now2 n s) = (Some i, 0, []) \<longleftrightarrow>
           n \<noteq> [] \<and> nonce_content s n = Some i \<and> \<not> inv_IsExpired now1 i \<and> \<not> inv_IsExpired now2 i
           \<and> (case verifier of None \<Rightarrow> True | Some verify \<Rightarrow> verify i = None)"
proof -
  have "nonce_ok s" unfolding assms by (rule nonce_run_new)
  from nonce.consume_result [OF this, of now1 n] show ?thesis
    by (cases "Consume now1 n s")
       (auto simp: ValidateInvitationNonce_def split: option.splits if_splits)
qed

theorem nonce_accepted_iff_witness:
  "fst (ValidateInvitationNonce Consume (Some (\<lambda>_. None)) 0 0 ''n''
     (fold nonce_apply [NoncePut ''n'' example_invitation] NewMemoryInvitationStore)) = (Some example_invitation, 0, [])"
  unfolding nonce_accepted_iff [OF refl] by code_simp

end
