(* ===== verification/Discovery_Props.thy ===== *)
theory Discovery_Props
  imports Discovery
begin

text \<open>
  Discovery asks one well-known URL of the identifier's own domain, and did:web identifiers
  are read back.
\<close>

section \<open>Which URL is asked\<close>

definition well_known :: "bytes \<Rightarrow> bytes" where
  "well_known d = ''https://'' @ d @ ''/.well-known/wmp-configuration''"

definition asked_client :: "http_get \<Rightarrow> http_get option \<Rightarrow> http_get" where
  "asked_client default_client client = (case client of None \<Rightarrow> default_client | Some c \<Rightarrow> c)"

lemma DiscoverConfig_safe:
  "DiscoverConfig c d = (if safe_domain d then fetchConfig c (well_known d)
     else Inl (if d = [] then GoErr ''domain must not be empty'' else GoErr ''invalid domain''))"
  using buildWellKnownURL_safe [of d "well_known d"]
  by (auto simp: DiscoverConfig_def well_known_def buildWellKnownURL_def safe_domain_def ContainsAny_def list_ex_iff)

lemma DiscoverConfigWithClient_safe: "DiscoverConfigWithClient d c = DiscoverConfig c d"
  by (simp add: DiscoverConfigWithClient_def DiscoverConfig_def)

lemma ExtractDomain_did: "parseDIDWeb did = Inr (d, path) \<Longrightarrow> ExtractDomain did = d"
  by (auto simp: ExtractDomain_def parseDIDWeb_def split: if_splits)

section \<open>The domain of an identifier\<close>

text \<open>What ends the host of a URL.\<close>

definition host_end :: "bytes \<Rightarrow> bool" where
  "host_end rest \<longleftrightarrow> rest = [] \<or> hd rest \<in> set ''/?#''"

text \<open>
  The domain an identifier names: the host of an https URL, alone or in an X.509 URI name, the DNS name of
  an X.509 identifier, or the first segment of a did:web identifier with its port separator unescaped.
\<close>

inductive names_domain :: "bytes \<Rightarrow> bytes \<Rightarrow> bool" where
  names_https: "set d \<inter> set ''/?#'' = {} \<Longrightarrow> host_end rest \<Longrightarrow> names_domain (''https://'' @ d @ rest) d"
| names_x509_dns: "names_domain (''x509:san:dns:'' @ d) d"
| names_x509_uri: "set d \<inter> set ''/?#'' = {} \<Longrightarrow> host_end rest \<Longrightarrow> names_domain (''x509:san:uri:https://'' @ d @ rest) d"
| names_did_web: "CHR '':'' \<notin> set p \<Longrightarrow> unescape_colon p = d \<Longrightarrow> \<not> HasPrefix d ''.'' \<Longrightarrow> safe_domain d
    \<Longrightarrow> rest = [] \<or> hd rest = CHR '':'' \<Longrightarrow> names_domain (''did:web:'' @ p @ rest) d"

lemma cut_any_iff: "cut_any cs s = d \<longleftrightarrow> (\<exists>rest. s = d @ rest \<and> set d \<inter> set cs = {} \<and> (rest = [] \<or> hd rest \<in> set cs))"
proof
  assume d: "cut_any cs s = d"
  have "dropWhile (\<lambda>c. c \<notin> set cs) s = [] \<or> hd (dropWhile (\<lambda>c. c \<notin> set cs) s) \<in> set cs"
    using hd_dropWhile [of "\<lambda>c. c \<notin> set cs" s] by blast
  moreover have "s = d @ dropWhile (\<lambda>c. c \<notin> set cs) s" by (simp flip: d add: cut_any_def)
  moreover have "set d \<inter> set cs = {}" by (auto simp flip: d simp: cut_any_def dest: set_takeWhileD)
  ultimately show "\<exists>rest. s = d @ rest \<and> set d \<inter> set cs = {} \<and> (rest = [] \<or> hd rest \<in> set cs)" by blast
next
  assume "\<exists>rest. s = d @ rest \<and> set d \<inter> set cs = {} \<and> (rest = [] \<or> hd rest \<in> set cs)"
  then obtain rest where s: "s = d @ rest" "set d \<inter> set cs = {}" "rest = [] \<or> hd rest \<in> set cs" by blast
  have "takeWhile (\<lambda>c. c \<notin> set cs) rest = []" using s(3) by (cases rest) auto
  moreover have "takeWhile (\<lambda>c. c \<notin> set cs) (d @ rest) = d @ takeWhile (\<lambda>c. c \<notin> set cs) rest"
    using s(2) by (intro takeWhile_append2) blast
  ultimately show "cut_any cs s = d" unfolding s(1) cut_any_def by simp
qed

lemma Split_hd: "hd (Split_colon s) = p \<longleftrightarrow> (\<exists>rest. s = p @ rest \<and> CHR '':'' \<notin> set p \<and> (rest = [] \<or> hd rest = CHR '':''))"
proof
  assume "hd (Split_colon s) = p"
  then show "\<exists>rest. s = p @ rest \<and> CHR '':'' \<notin> set p \<and> (rest = [] \<or> hd rest = CHR '':'')"
  proof (induction s arbitrary: p)
    case (Cons c s)
    show ?case
    proof (cases "c = CHR '':''")
      case False
      then have p: "p = c # hd (Split_colon s)" using Cons.prems Split_colon_ne [of s] by (cases "Split_colon s") auto
      from Cons.IH [OF refl] p False show ?thesis by auto
    qed (use Cons.prems in auto)
  qed simp
next
  assume "\<exists>rest. s = p @ rest \<and> CHR '':'' \<notin> set p \<and> (rest = [] \<or> hd rest = CHR '':'')"
  then obtain rest where s: "s = p @ rest" "CHR '':'' \<notin> set p" "rest = [] \<or> hd rest = CHR '':''" by blast
  then show "hd (Split_colon s) = p"
    by (cases rest) (auto simp: Split_colon_plain Split_colon_append)
qed

lemma parseDIDWeb_names:
  "(\<exists>path. parseDIDWeb identifier = Inr (d, path)) \<longleftrightarrow>
     (\<exists>p rest. identifier = ''did:web:'' @ p @ rest \<and> CHR '':'' \<notin> set p \<and> unescape_colon p = d \<and> \<not> HasPrefix d ''.'' \<and> safe_domain d
        \<and> (rest = [] \<or> hd rest = CHR '':''))"
proof -
  have "(\<exists>path. parseDIDWeb identifier = Inr (d, path)) \<longleftrightarrow>
     (\<exists>s. identifier = ''did:web:'' @ s \<and> d = unescape_colon (hd (Split_colon s)) \<and> isValidDIDWebDomain d)"
    by (auto simp: parseDIDWeb_def Let_def HasPrefix_iff)
  also have "\<dots> \<longleftrightarrow> (\<exists>s p. identifier = ''did:web:'' @ s \<and> hd (Split_colon s) = p \<and> d = unescape_colon p \<and> isValidDIDWebDomain d)"
    by blast
  also have "isValidDIDWebDomain d \<longleftrightarrow> \<not> HasPrefix d ''.'' \<and> safe_domain d"
    by (auto simp: isValidDIDWebDomain_def safe_domain_def ContainsAny_def list_ex_iff)
  finally show ?thesis unfolding Split_hd by blast
qed

lemma HasPrefix_append: "HasPrefix (pre @ s) pre" "drop (length pre) (pre @ s) = s"
  by (simp_all add: HasPrefix_def)

lemma domain_names: "names_domain identifier d \<and> d \<noteq> [] \<longleftrightarrow> ExtractDomain identifier = d \<and> d \<noteq> []"
proof
  assume "names_domain identifier d \<and> d \<noteq> []"
  then have "names_domain identifier d" "d \<noteq> []" by simp_all
  then show "ExtractDomain identifier = d \<and> d \<noteq> []"
  proof (induction rule: names_domain.induct)
    case (names_https d rest)
    then have "cut_any ''/?#'' (d @ rest) = d" using cut_any_iff [of "''/?#''"] unfolding host_end_def by blast
    with names_https show ?case by (simp add: ExtractDomain_def HasPrefix_def)
  next
    case (names_x509_uri d rest)
    then have "cut_any ''/?#'' (d @ rest) = d" using cut_any_iff [of "''/?#''"] unfolding host_end_def by blast
    with names_x509_uri show ?case by (simp add: ExtractDomain_def HasPrefix_def)
  next
    case (names_did_web p d rest)
    then have "\<exists>path. parseDIDWeb (''did:web:'' @ p @ rest) = Inr (d, path)" using parseDIDWeb_names by blast
    with names_did_web show ?case using ExtractDomain_did by blast
  qed (simp add: ExtractDomain_def HasPrefix_def)
next
  assume r: "ExtractDomain identifier = d \<and> d \<noteq> []"
  consider (did) "HasPrefix identifier ''did:web:''" | (https) s where "identifier = ''https://'' @ s"
    | (dns) s where "identifier = ''x509:san:dns:'' @ s" | (uri) s where "identifier = ''x509:san:uri:https://'' @ s"
    using r by (auto simp: ExtractDomain_def HasPrefix_iff split: if_splits)
  then have "names_domain identifier d"
  proof cases
    case did
    with r obtain path where "parseDIDWeb identifier = Inr (d, path)"
      by (auto simp: ExtractDomain_def split: sum.splits)
    with parseDIDWeb_names [of "identifier" d] show ?thesis using names_did_web by blast
  next
    case https
    with r have "cut_any ''/?#'' s = d" by (simp add: ExtractDomain_def HasPrefix_def)
    then show ?thesis unfolding cut_any_iff host_end_def [symmetric] https using names_https by blast
  next
    case dns
    with r show ?thesis by (simp add: ExtractDomain_def HasPrefix_def) (use names_x509_dns [of d] in simp)
  next
    case uri
    with r have "cut_any ''/?#'' s = d" by (simp add: ExtractDomain_def HasPrefix_def)
    then show ?thesis unfolding cut_any_iff host_end_def [symmetric] uri using names_x509_uri by blast
  qed
  with r show "names_domain identifier d \<and> d \<noteq> []" by simp
qed

text \<open>A configuration is found exactly when the answer has status 200 and a body that decodes, of which 1 MiB is read.\<close>

lemma fetchConfig_Inr:
  "fetchConfig c url = Inr config \<longleftrightarrow>
     (\<exists>body. c url = HttpResponse 200 (Some body) \<and> unmarshal un_WellKnownConfig zero_WellKnownConfig (Some (take 1048576 body)) = Some config)"
  by (auto simp: fetchConfig_def max_body_def split: http_result.splits option.splits)

lemma DiscoverConfigForIdentifier_names:
  "names_domain identifier d \<Longrightarrow> safe_domain d
    \<Longrightarrow> DiscoverConfigForIdentifier default_client identifier client = fetchConfig (asked_client default_client client) (well_known d)"
  "\<nexists>d. names_domain identifier d \<and> safe_domain d
    \<Longrightarrow> \<exists>e. \<forall>default_client client. DiscoverConfigForIdentifier default_client identifier client = Inl e"
proof -
  have run: "DiscoverConfigForIdentifier default_client identifier client =
     (let d = ExtractDomain identifier in
      if d = [] then Inl (GoErr ''cannot extract domain from identifier'')
      else if safe_domain d then fetchConfig (asked_client default_client client) (well_known d)
      else Inl (GoErr ''invalid domain''))" for default_client client
    by (simp add: DiscoverConfigForIdentifier_def asked_client_def DiscoverConfigWithClient_safe DiscoverConfig_safe Let_def
        split: option.splits)
  show "DiscoverConfigForIdentifier default_client identifier client = fetchConfig (asked_client default_client client) (well_known d)"
    if "names_domain identifier d" "safe_domain d"
    using that domain_names [of "identifier" d] by (simp add: run safe_domain_def)
  show "\<exists>e. \<forall>default_client client. DiscoverConfigForIdentifier default_client identifier client = Inl e"
    if "\<nexists>d. names_domain identifier d \<and> safe_domain d"
  proof -
    have "\<not> (names_domain identifier (ExtractDomain identifier) \<and> safe_domain (ExtractDomain identifier))" using that by blast
    then consider "ExtractDomain identifier = []" | "ExtractDomain identifier \<noteq> []" "\<not> safe_domain (ExtractDomain identifier)"
      using domain_names [of "identifier" "ExtractDomain identifier"] by auto
    then show ?thesis by cases (simp_all add: run)
  qed
qed

lemma DiscoverConfigForDID_same:
  "case parseDIDWeb identifier of
     Inl e \<Rightarrow> DiscoverConfigForDID default_client identifier client = Inl e
   | Inr _ \<Rightarrow> DiscoverConfigForDID default_client identifier client = DiscoverConfigForIdentifier default_client identifier client"
proof (cases "parseDIDWeb identifier")
  case (Inr r)
  obtain d path where r: "r = (d, path)" by (cases r)
  have "safe_domain d" using parseDIDWeb_safe Inr r by blast
  moreover from this have "names_domain identifier d"
    using domain_names [of "identifier" d] ExtractDomain_did [of "identifier" d path] Inr r by (simp add: safe_domain_def)
  ultimately show ?thesis
    by (simp add: Inr r DiscoverConfigForDID_def DiscoverConfigForIdentifier_names(1) asked_client_def well_known_def)
qed (simp add: DiscoverConfigForDID_def)

text \<open>
  C35: Discovery for an identifier succeeds exactly when the identifier names a domain, with nothing in it that
  could change the host, path or user of a URL, and the well-known URL of that domain answers with a
  configuration, which is the result. No other URL matters: clients that agree on the well-known URL of the named
  domain give the same result, and without such a domain the result does not depend on the client. The
  deprecated lookup for a did:web identifier gives what the lookup for the identifier gives.\<close>

theorem discovery_asks_own_domain:
  "(DiscoverConfigForIdentifier default_client identifier client = Inr config \<longleftrightarrow>
      (\<exists>d body. names_domain identifier d \<and> safe_domain d
         \<and> asked_client default_client client (well_known d) = HttpResponse 200 (Some body)
         \<and> unmarshal un_WellKnownConfig zero_WellKnownConfig (Some (take 1048576 body)) = Some config))
   \<and> ((\<forall>d. names_domain identifier d \<and> safe_domain d
          \<longrightarrow> asked_client default_client client (well_known d)
            = asked_client default_client' client' (well_known d))
       \<longrightarrow> DiscoverConfigForIdentifier default_client identifier client = DiscoverConfigForIdentifier default_client' identifier client')
   \<and> (case parseDIDWeb identifier of
        Inl e \<Rightarrow> DiscoverConfigForDID default_client identifier client = Inl e
      | Inr _ \<Rightarrow> DiscoverConfigForDID default_client identifier client
                  = DiscoverConfigForIdentifier default_client identifier client)"
proof (cases "\<exists>d. names_domain identifier d \<and> safe_domain d")
  case True
  then obtain d where d: "names_domain identifier d" "safe_domain d" by blast
  have one: "d' = d" if "names_domain identifier d'" "safe_domain d'" for d'
    using that d domain_names [of "identifier" d] domain_names [of "identifier" d'] by (simp add: safe_domain_def)
  show ?thesis
  proof (intro conjI)
    show "DiscoverConfigForIdentifier default_client identifier client = Inr config \<longleftrightarrow>
      (\<exists>d body. names_domain identifier d \<and> safe_domain d \<and> asked_client default_client client (well_known d) = HttpResponse 200 (Some body)
         \<and> unmarshal un_WellKnownConfig zero_WellKnownConfig (Some (take 1048576 body)) = Some config)"
      unfolding DiscoverConfigForIdentifier_names(1) [OF d] fetchConfig_Inr using d one by metis
    show "(\<forall>d. names_domain identifier d \<and> safe_domain d
          \<longrightarrow> asked_client default_client client (well_known d) = asked_client default_client' client' (well_known d))
       \<longrightarrow> DiscoverConfigForIdentifier default_client identifier client = DiscoverConfigForIdentifier default_client' identifier client'"
      unfolding DiscoverConfigForIdentifier_names(1) [OF d] using d fetchConfig_local by blast
  qed (rule DiscoverConfigForDID_same)
next
  case False
  from DiscoverConfigForIdentifier_names(2) [OF this] obtain e where
    "\<And>default_client client. DiscoverConfigForIdentifier default_client identifier client = Inl e" by blast
  moreover have "\<not> (names_domain identifier d \<and> safe_domain d)" for d using False by blast
  ultimately show ?thesis using DiscoverConfigForDID_same by (simp, blast)
qed

text \<open>A web with one configuration.\<close>

definition example_web :: http_get where
  "example_web url = (if url = ''https://example.com/.well-known/wmp-configuration'' then HttpResponse 200 (Some ''{}'') else HttpFailed)"

theorem discovery_asks_own_domain_witness:
  "DiscoverConfigForIdentifier example_web ''https://example.com/alice'' None = Inr zero_WellKnownConfig
   \<and> DiscoverConfigForIdentifier (\<lambda>_. HttpResponse 200 (Some ''{}'')) ''https://example.com/alice'' None = Inr zero_WellKnownConfig"
proof -
  let ?id = "''https://example.com/alice''" and ?d = "''example.com''"
  have "ExtractDomain ?id = ?d" by code_simp
  then have only: "names_domain ?id d \<and> safe_domain d \<longleftrightarrow> d = ?d" for d
    using domain_names [of ?id d] by (auto simp: safe_domain_def)
  have "unmarshal un_WellKnownConfig zero_WellKnownConfig (Some ''{}'') = Some zero_WellKnownConfig" by code_simp
  moreover have "take 1048576 ''{}'' = ''{}''" by simp
  moreover have "example_web (well_known ?d) = HttpResponse 200 (Some ''{}'')" by (simp add: example_web_def well_known_def)
  moreover note discovery_asks_own_domain [of example_web ?id None zero_WellKnownConfig "\<lambda>_. HttpResponse 200 (Some ''{}'')" None]
  ultimately show ?thesis unfolding conj_assoc [symmetric] only asked_client_def by (auto split: sum.splits)
qed

section \<open>Identifiers of did:web\<close>

text \<open>
  A did:web identifier built from a domain (its port separator escaped) and path segments
  is taken apart into that domain and the segments joined by slashes.\<close>

theorem did_web_roundtrip:
  assumes "isValidDIDWebDomain d" "CHR 0x25 \<notin> set d" "\<forall>x \<in> set path. CHR '':'' \<notin> set x"
  shows "parseDIDWeb (''did:web:'' @ Join_colon (escape_colon d # path)) = Inr (d, Join_slash path)"
proof -
  have "Split_colon (Join_colon (escape_colon d # path)) = escape_colon d # path"
    using assms(3) escape_colon_no_colon by (intro Split_Join) auto
  then show ?thesis
    using assms(1,2) by (cases path) (simp_all add: parseDIDWeb_def HasPrefix_def unescape_escape)
qed

theorem did_web_roundtrip_witness:
  "parseDIDWeb (''did:web:'' @ Join_colon (escape_colon ''example.com:8080'' # [''users'', ''alice'']))
     = Inr (''example.com:8080'', ''users/alice'')"
  using did_web_roundtrip [of "''example.com:8080''" "[''users'', ''alice'']"]
  by (simp add: isValidDIDWebDomain_def ContainsAny_def HasPrefix_def)

end
