(* ===== verification/Relay_Model.thy ===== *)
theory Relay_Model
  imports Registry
begin

text \<open>
  The relay (relay/relay.go): registrations of wallets and bounded queues of messages for
  those that are offline. Every operation runs under the relay's mutex, so it is one step;
  \<open>time.Now()\<close> is the argument \<open>now\<close>. The lock-free in-place filtering
  \<open>queue[:0]\<close> is a filter: no other slice shares the queue's array, since \<open>Drain\<close> copies.
\<close>

section \<open>State\<close>

record Config =
  MaxQueueSize :: int
  MessageTTL :: duration
  RegistrationTTL :: duration

definition config_defaults :: "Config \<Rightarrow> Config" where
  "config_defaults c =
     (let c1 = (if MaxQueueSize c \<le> 0 then c\<lparr>MaxQueueSize := 1000\<rparr> else c);
          c2 = (if MessageTTL c1 \<le> 0 then c1\<lparr>MessageTTL := 24 * hour\<rparr> else c1)
      in (if RegistrationTTL c2 \<le> 0 then c2\<lparr>RegistrationTTL := hour\<rparr> else c2))"

record QueuedMessage =
  qm_Data :: bytes
  qm_QueuedAt :: instant
  qm_ExpiresAt :: gotime

record Registration =
  rg_Participant :: bytes
  rg_RegisteredAt :: instant
  rg_ExpiresAt :: gotime

record Relay =
  rl_config :: Config
  registrations :: "(bytes, Registration) gomap"
  queues :: "(bytes, QueuedMessage list) gomap"

definition New_relay :: "Config \<Rightarrow> Relay" where
  "New_relay c = \<lparr>rl_config = config_defaults c, registrations = [], queues = []\<rparr>"

section \<open>Registration\<close>

definition relay_methods :: "bytes list" where
  "relay_methods = [MethodRelayRegister]"

text \<open>
  \<open>int(d.Seconds())\<close> for a positive duration: the seconds as a \<open>float64\<close>, cut off. The
  sum of whole seconds and fraction is rounded to 53 bits, so a fraction closer to the next
  second than half a unit in the last place is rounded up to it.
\<close>

fun ilog2 :: "nat \<Rightarrow> nat" where
  "ilog2 n = (if n < 2 then 0 else Suc (ilog2 (n div 2)))"

definition whole_seconds :: "duration \<Rightarrow> int" where
  "whole_seconds d =
     (let s = d div second; k = second - d mod second
      in if d mod second \<noteq> 0 \<and> k * 2 ^ 53 < second * 2 ^ ilog2 (nat s) then s + 1 else s)"

definition relay_result :: "Relay \<Rightarrow> RelayRegisterResult" where
  "relay_result r =
     \<lparr>rrr_WMP = zero_Metadata\<lparr>md_Version := Version\<rparr>, rrr_Registered = True,
      rrr_TTL = whole_seconds (RegistrationTTL (rl_config r))\<rparr>"

definition HandleMethod_relay :: "instant \<Rightarrow> bytes \<Rightarrow> raw \<Rightarrow> Relay \<Rightarrow> (rpc_result \<times> go_error option) \<times> Relay" where
  "HandleMethod_relay now method params r =
     (if method \<noteq> MethodRelayRegister then
        ((RNil, Some (RPCErr (NewRPCError ErrMethodNotFound (Some (ms_string ''unknown relay method''))))), r)
      else (case unmarshal un_RelayRegisterParams zero_RelayRegisterParams params of
         None \<Rightarrow> ((RNil, Some (RPCErr (NewRPCError ErrInvalidParams None))), r)
       | Some p \<Rightarrow>
           if md_Sender (rrp_WMP p) = [] then
             ((RNil, Some (RPCErr (NewRPCError ErrInvalidParams (Some (ms_string ''sender required''))))), r)
           else
             (let reg = \<lparr>rg_Participant = md_Sender (rrp_WMP p), rg_RegisteredAt = now,
                         rg_ExpiresAt = time_add now (RegistrationTTL (rl_config r))\<rparr>
              in ((RAny (ms_RelayRegisterResult (relay_result r)), None),
                  r\<lparr>registrations := gm_set (md_Sender (rrp_WMP p)) reg (registrations r)\<rparr>))))"

definition IsRegistered :: "instant \<Rightarrow> bytes \<Rightarrow> Relay \<Rightarrow> bool" where
  "IsRegistered now participant r \<longleftrightarrow>
     (case gm_get (registrations r) participant of
        None \<Rightarrow> False
      | Some reg \<Rightarrow> time_before now (rg_ExpiresAt reg))"

definition Unregister :: "bytes \<Rightarrow> Relay \<Rightarrow> Relay" where
  "Unregister participant r = r\<lparr>registrations := gm_del participant (registrations r)\<rparr>"

section \<open>Queues\<close>

definition queue_of :: "Relay \<Rightarrow> bytes \<Rightarrow> QueuedMessage list" where
  "queue_of r participant = (case gm_get (queues r) participant of None \<Rightarrow> [] | Some q \<Rightarrow> q)"

text \<open>The loop that keeps what has not expired.\<close>

fun live_loop :: "instant \<Rightarrow> QueuedMessage list \<Rightarrow> QueuedMessage list \<Rightarrow> QueuedMessage list" where
  "live_loop now [] filtered = filtered"
| "live_loop now (m # queue) filtered =
     live_loop now queue (if time_before now (qm_ExpiresAt m) then filtered @ [m] else filtered)"

definition ErrQueueFull_relay :: go_error where
  "ErrQueueFull_relay = GoErr ''message queue is full''"

definition Enqueue :: "instant \<Rightarrow> bytes \<Rightarrow> bytes \<Rightarrow> Relay \<Rightarrow> go_error option \<times> Relay" where
  "Enqueue now participant data r =
     (let queue = live_loop now (queue_of r participant) [];
          r1 = r\<lparr>queues := gm_set participant queue (queues r)\<rparr>
      in if int (length queue) \<ge> MaxQueueSize (rl_config r) then (Some ErrQueueFull_relay, r1)
         else (let msg = \<lparr>qm_Data = data, qm_QueuedAt = now, qm_ExpiresAt = time_add now (MessageTTL (rl_config r))\<rparr>
               in (None, r1\<lparr>queues := gm_set participant (queue @ [msg]) (queues r1)\<rparr>)))"

definition Drain :: "instant \<Rightarrow> bytes \<Rightarrow> Relay \<Rightarrow> QueuedMessage list \<times> Relay" where
  "Drain now participant r =
     (let queue = queue_of r participant in
      if queue = [] then ([], r)
      else (live_loop now queue [], r\<lparr>queues := gm_del participant (queues r)\<rparr>))"

definition QueueLength :: "bytes \<Rightarrow> Relay \<Rightarrow> nat" where
  "QueueLength participant r = length (queue_of r participant)"

definition purge_queue :: "instant \<Rightarrow> QueuedMessage list \<Rightarrow> QueuedMessage list option" where
  "purge_queue now queue = (let filtered = live_loop now queue [] in if filtered = [] then None else Some filtered)"

definition PurgeExpired :: "instant \<Rightarrow> Relay \<Rightarrow> Relay" where
  "PurgeExpired now r =
     r\<lparr>registrations := gm_delete_if (\<lambda>reg. time_after now (rg_ExpiresAt reg)) (registrations r),
       queues := gm_rewrite (purge_queue now) (queues r)\<rparr>"

lemmas relay_defs = Enqueue_def Drain_def PurgeExpired_def Unregister_def queue_of_def QueueLength_def

section \<open>Facts\<close>

definition live :: "instant \<Rightarrow> QueuedMessage \<Rightarrow> bool" where
  "live now m \<longleftrightarrow> now < t_ns (qm_ExpiresAt m)"

lemma live_loop_filter: "live_loop now q acc = acc @ filter (live now) q"
  by (induction now q acc rule: live_loop.induct) (auto simp: live_def time_before_def)

definition relay_ok :: "Relay \<Rightarrow> bool" where
  "relay_ok r \<longleftrightarrow> gm_ok (registrations r) \<and> gm_ok (queues r) \<and> 0 < MaxQueueSize (rl_config r)
     \<and> 0 < MessageTTL (rl_config r) \<and> 0 < RegistrationTTL (rl_config r)"

lemma relay_ok_new: "relay_ok (New_relay c)"
  by (simp add: relay_ok_def New_relay_def config_defaults_def Let_def hour_def second_def)

lemma relay_ok_steps:
  "relay_ok r \<Longrightarrow> relay_ok (snd (Enqueue now who d r))"
  "relay_ok r \<Longrightarrow> relay_ok (snd (Drain now who r))"
  "relay_ok r \<Longrightarrow> relay_ok (PurgeExpired now r)"
  "relay_ok r \<Longrightarrow> relay_ok (Unregister who r)"
  "relay_ok r \<Longrightarrow> relay_ok (snd (HandleMethod_relay now method params r))"
  by (auto simp: relay_ok_def relay_defs HandleMethod_relay_def Let_def split: option.splits)

lemma queue_of_Enqueue:
  "queue_of (snd (Enqueue now who d r)) who' =
     (if who' \<noteq> who then queue_of r who'
      else filter (live now) (queue_of r who)
        @ (if int (length (filter (live now) (queue_of r who))) \<ge> MaxQueueSize (rl_config r) then []
           else [\<lparr>qm_Data = d, qm_QueuedAt = now, qm_ExpiresAt = time_add now (MessageTTL (rl_config r))\<rparr>]))"
  by (auto simp: Enqueue_def Let_def live_loop_filter queue_of_def)

lemma queue_of_Drain: "queue_of (snd (Drain now who r)) who' = (if who' = who then [] else queue_of r who')"
  by (auto simp: Drain_def Let_def queue_of_def)

lemma Drain_result: "fst (Drain now who r) = filter (live now) (queue_of r who)"
  by (auto simp: Drain_def Let_def live_loop_filter)

lemma queue_of_Purge: "gm_ok (queues r) \<Longrightarrow> queue_of (PurgeExpired now r) who = filter (live now) (queue_of r who)"
  by (auto simp: PurgeExpired_def queue_of_def gm_get_rewrite purge_queue_def Let_def live_loop_filter split: option.splits)

lemma queue_of_others [simp]:
  "queue_of (Unregister who r) = queue_of r" "queue_of (snd (HandleMethod_relay now method params r)) = queue_of r"
  by (auto simp: fun_eq_iff queue_of_def Unregister_def HandleMethod_relay_def Let_def split: option.splits)

lemma config_same [simp]:
  "rl_config (snd (Enqueue now who d r)) = rl_config r" "rl_config (snd (Drain now who r)) = rl_config r"
  "rl_config (PurgeExpired now r) = rl_config r" "rl_config (Unregister who r) = rl_config r"
  "rl_config (snd (HandleMethod_relay now method params r)) = rl_config r"
  by (auto simp: relay_defs HandleMethod_relay_def Let_def split: option.splits)

end
