(* ===== verification/Relay_Props.thy ===== *)
theory Relay_Props
  imports Relay_Model
begin

text \<open>
  The relay refines an abstract mailbox: per participant, the messages accepted since the
  last drain with the time they were accepted, of which a drain returns those that are not
  too old, in order.
\<close>

section \<open>The contract of an offline queue\<close>

text \<open>
  What a client of the relay relies on, for any implementation: what a participant can see
  at a time is the visible part of a list that grows at the end and is emptied by a drain.
  Observations at a later time only lose messages.
\<close>

locale offline_queue =
  fixes visible :: "int \<Rightarrow> 'q \<Rightarrow> bytes \<Rightarrow> 'm list"
    and enqueue :: "int \<Rightarrow> bytes \<Rightarrow> bytes \<Rightarrow> 'q \<Rightarrow> bool \<times> 'q"
    and drain :: "int \<Rightarrow> bytes \<Rightarrow> 'q \<Rightarrow> 'm list \<times> 'q"
    and purge :: "int \<Rightarrow> 'q \<Rightarrow> 'q"
    and message :: "'q \<Rightarrow> int \<Rightarrow> bytes \<Rightarrow> 'm"
    and alive :: "int \<Rightarrow> 'm \<Rightarrow> bool"
    and invar :: "'q \<Rightarrow> bool"
  assumes invar_enqueue: "invar q \<Longrightarrow> invar (snd (enqueue t who d q))"
    and invar_drain: "invar q \<Longrightarrow> invar (snd (drain t who q))"
    and invar_purge: "invar q \<Longrightarrow> invar (purge t q)"
    and visible_enqueue: "invar q \<Longrightarrow> t \<le> now \<Longrightarrow> visible now (snd (enqueue t who d q)) who' =
          visible now q who' @ (if fst (enqueue t who d q) \<and> who' = who then filter (alive now) [message q t d] else [])"
    and visible_drain: "invar q \<Longrightarrow> visible now (snd (drain t who q)) who' = (if who' = who then [] else visible now q who')"
    and drain_result: "invar q \<Longrightarrow> fst (drain t who q) = visible t q who"
    and visible_purge: "invar q \<Longrightarrow> t \<le> now \<Longrightarrow> visible now (purge t q) who = visible now q who"
begin

text \<open>A message accepted for a participant is what the next drain returns last, while it is alive.\<close>

lemma drain_after_enqueue:
  assumes "invar q" "t \<le> now" "fst (enqueue t who d q)" "alive now (message q t d)"
  shows "fst (drain now who (snd (enqueue t who d q))) = visible now q who @ [message q t d]"
  using assms by (simp add: drain_result invar_enqueue visible_enqueue)

lemma drain_twice: "invar q \<Longrightarrow> fst (drain now who (snd (drain t who q))) = []"
  by (simp add: drain_result invar_drain visible_drain)

lemma purge_unseen: "invar q \<Longrightarrow> t \<le> now \<Longrightarrow> fst (drain now who (purge t q)) = fst (drain now who q)"
  by (simp add: drain_result invar_purge visible_purge)

end

section \<open>The relay meets the contract\<close>

definition visible_queue :: "int \<Rightarrow> Relay \<Rightarrow> bytes \<Rightarrow> QueuedMessage list" where
  "visible_queue now r who = filter (live now) (queue_of r who)"

definition accepts :: "int \<Rightarrow> bytes \<Rightarrow> bytes \<Rightarrow> Relay \<Rightarrow> bool \<times> Relay" where
  "accepts t who d r = (fst (Enqueue t who d r) = None, snd (Enqueue t who d r))"

definition queued :: "Relay \<Rightarrow> int \<Rightarrow> bytes \<Rightarrow> QueuedMessage" where
  "queued r t d = \<lparr>qm_Data = d, qm_QueuedAt = t, qm_ExpiresAt = time_add t (MessageTTL (rl_config r))\<rparr>"

lemma live_mono: "t \<le> now \<Longrightarrow> live now m \<Longrightarrow> live t m"
  by (simp add: live_def)

lemma live_filter: "t \<le> now \<Longrightarrow> filter (live now) (filter (live t) q) = filter (live now) q"
  using live_mono [of t now] by (auto simp: filter_filter intro: filter_cong)

lemma Enqueue_accepts: "fst (Enqueue t who d r) = None \<longleftrightarrow>
    int (length (filter (live t) (queue_of r who))) < MaxQueueSize (rl_config r)"
  by (auto simp: Enqueue_def Let_def live_loop_filter)

interpretation relay: offline_queue visible_queue accepts Drain PurgeExpired queued live relay_ok
proof unfold_locales
  fix q t now and who who' d :: bytes
  assume ok: "relay_ok q"
  then show "relay_ok (snd (accepts t who d q))" "relay_ok (snd (Drain t who q))" "relay_ok (PurgeExpired t q)"
    by (simp_all add: accepts_def relay_ok_steps)
  show "visible_queue now (snd (Drain t who q)) who' = (if who' = who then [] else visible_queue now q who')"
    by (simp add: visible_queue_def queue_of_Drain)
  show "fst (Drain t who q) = visible_queue t q who"
    by (simp add: visible_queue_def Drain_result)
  assume t: "t \<le> now"
  show "visible_queue now (snd (accepts t who d q)) who' = visible_queue now q who'
      @ (if fst (accepts t who d q) \<and> who' = who then filter (live now) [queued q t d] else [])"
    using live_filter [OF t]
    by (auto simp: visible_queue_def accepts_def queue_of_Enqueue Enqueue_accepts queued_def)
  show "visible_queue now (PurgeExpired t q) who = visible_queue now q who"
    using ok live_filter [OF t] by (simp add: visible_queue_def queue_of_Purge relay_ok_def)
qed

section \<open>Runs\<close>

datatype relay_op =
    REnqueue bytes bytes
  | RDrain bytes
  | RPurge
  | RUnregister bytes
  | RMethod bytes raw

definition relay_step :: "instant \<times> relay_op \<Rightarrow> Relay \<Rightarrow> Relay" where
  "relay_step = (\<lambda>(now, op) r.
     (case op of
        REnqueue who d \<Rightarrow> snd (Enqueue now who d r)
      | RDrain who \<Rightarrow> snd (Drain now who r)
      | RPurge \<Rightarrow> PurgeExpired now r
      | RUnregister who \<Rightarrow> Unregister who r
      | RMethod m ps \<Rightarrow> snd (HandleMethod_relay now m ps r)))"

text \<open>The mailbox: who has been sent what and when, since the last drain.\<close>

type_synonym mailbox = "bytes \<Rightarrow> (bytes \<times> instant) list"

definition fresh :: "duration \<Rightarrow> instant \<Rightarrow> bytes \<times> instant \<Rightarrow> bool" where
  "fresh ttl now = (\<lambda>(d, t). now < t + ttl)"

definition mailbox_step :: "int \<Rightarrow> duration \<Rightarrow> instant \<times> relay_op \<Rightarrow> mailbox \<Rightarrow> mailbox" where
  "mailbox_step cap ttl = (\<lambda>(now, op) box.
     (case op of
        REnqueue who d \<Rightarrow>
          if int (length (filter (fresh ttl now) (box who))) < cap then box(who := box who @ [(d, now)]) else box
      | RDrain who \<Rightarrow> box(who := [])
      | _ \<Rightarrow> box))"

definition entry :: "duration \<Rightarrow> bytes \<times> instant \<Rightarrow> QueuedMessage" where
  "entry ttl = (\<lambda>(d, t). \<lparr>qm_Data = d, qm_QueuedAt = t, qm_ExpiresAt = time_add t ttl\<rparr>)"

definition mailbox_sim :: "instant \<Rightarrow> Relay \<Rightarrow> mailbox \<Rightarrow> bool" where
  "mailbox_sim clock r box \<longleftrightarrow> relay_ok r \<and> (\<forall>who now. clock \<le> now \<longrightarrow>
     filter (live now) (queue_of r who) = map (entry (MessageTTL (rl_config r))) (filter (fresh (MessageTTL (rl_config r)) now) (box who)))"

lemma live_entry: "live now (entry ttl x) \<longleftrightarrow> fresh ttl now x"
  by (cases x) (simp add: live_def entry_def fresh_def time_add_def)

lemma live_fresh:
  "t \<le> now \<Longrightarrow> filter (live now) (map (entry ttl) (filter (fresh ttl t) xs)) = map (entry ttl) (filter (fresh ttl now) xs)"
  by (induction xs) (auto simp: live_entry, auto simp: fresh_def)

lemma sim_later: "mailbox_sim clock r box \<Longrightarrow> clock \<le> now \<Longrightarrow> mailbox_sim now r box"
  by (auto simp: mailbox_sim_def)

lemma sim_enqueue:
  assumes sim: "mailbox_sim now r box"
  shows "mailbox_sim now (snd (Enqueue now who d r))
    (mailbox_step (MaxQueueSize (rl_config r)) (MessageTTL (rl_config r)) (now, REnqueue who d) box)"
proof -
  let ?ttl = "MessageTTL (rl_config r)"
  have ok: "relay_ok r" and q: "\<And>who t. now \<le> t \<Longrightarrow> filter (live t) (queue_of r who) = map (entry ?ttl) (filter (fresh ?ttl t) (box who))"
    using sim by (auto simp: mailbox_sim_def)
  have len: "length (filter (live now) (queue_of r who)) = length (filter (fresh ?ttl now) (box who))"
    by (simp add: q)
  have e: "\<lparr>qm_Data = d, qm_QueuedAt = now, qm_ExpiresAt = time_add now ?ttl\<rparr> = entry ?ttl (d, now)"
    by (simp add: entry_def)
  show ?thesis
    using ok by (auto simp: mailbox_sim_def relay_ok_steps queue_of_Enqueue mailbox_step_def len live_filter live_fresh q e live_entry)
qed

lemma sim_step:
  assumes "mailbox_sim clock r box" "clock \<le> fst op"
  shows "mailbox_sim (fst op) (relay_step op r)
    (mailbox_step (MaxQueueSize (rl_config r)) (MessageTTL (rl_config r)) op box)"
proof -
  obtain now o' where op: "op = (now, o')" by fastforce
  have sim: "mailbox_sim now r box" using sim_later assms by (simp add: op)
  show ?thesis
  proof (cases o')
    case (REnqueue who d)
    then show ?thesis using sim_enqueue [OF sim] by (simp add: op relay_step_def)
  next
    case RPurge
    then show ?thesis using sim
      by (auto simp: op mailbox_sim_def relay_step_def mailbox_step_def relay_ok_steps queue_of_Purge relay_ok_def [of r] live_filter live_fresh)
  qed (use sim in \<open>auto simp: op mailbox_sim_def relay_step_def mailbox_step_def relay_ok_steps queue_of_Drain\<close>)
qed

lemma relay_step_config [simp]: "rl_config (relay_step op r) = rl_config r"
  by (auto simp: relay_step_def split: prod.splits relay_op.splits)

lemma sim_run:
  assumes "mailbox_sim clock r box" "sorted (clock # map fst ops)"
  shows "mailbox_sim (last (clock # map fst ops)) (fold relay_step ops r)
    (fold (mailbox_step (MaxQueueSize (rl_config r)) (MessageTTL (rl_config r))) ops box)"
  using assms
proof (induction ops arbitrary: clock r box)
  case (Cons op ops)
  from sim_step [OF Cons.prems(1), of op] Cons.prems(2)
  have "mailbox_sim (fst op) (relay_step op r) (mailbox_step (MaxQueueSize (rl_config r)) (MessageTTL (rl_config r)) op box)"
    by auto
  from Cons.IH [OF this] Cons.prems(2) show ?case by auto
qed simp

lemma sim_new: "mailbox_sim clock (New_relay c) (\<lambda>_. [])"
  using relay_ok_new by (simp add: mailbox_sim_def) (simp add: New_relay_def queue_of_def)

definition queue_bounded :: "Relay \<Rightarrow> bool" where
  "queue_bounded r \<longleftrightarrow> relay_ok r \<and> (\<forall>who. int (length (queue_of r who)) \<le> MaxQueueSize (rl_config r))"

lemma filter_le: "int (length q) \<le> n \<Longrightarrow> int (length (filter P q)) \<le> n"
  using length_filter_le [of P q] by linarith

lemma bounded_step: "queue_bounded r \<Longrightarrow> queue_bounded (relay_step op r)"
proof -
  assume b: "queue_bounded r"
  then have ok: "relay_ok r" and len: "\<And>who. int (length (queue_of r who)) \<le> MaxQueueSize (rl_config r)"
    and pos: "0 < MaxQueueSize (rl_config r)" by (auto simp: queue_bounded_def relay_ok_def)
  obtain now o' where op: "op = (now, o')" by fastforce
  have "relay_ok (relay_step op r)" using ok by (cases o') (auto simp: op relay_step_def relay_ok_steps)
  moreover have "int (length (queue_of (relay_step op r) who)) \<le> MaxQueueSize (rl_config r)" for who
    using ok len filter_le [OF len] pos
    by (cases o') (auto simp: op relay_step_def queue_of_Enqueue queue_of_Drain queue_of_Purge relay_ok_def)
  ultimately show ?thesis by (simp add: queue_bounded_def)
qed

lemma bounded_run: "queue_bounded r \<Longrightarrow> queue_bounded (fold relay_step ops r)"
  by (induction ops arbitrary: r) (auto intro: bounded_step)

section \<open>Properties\<close>

text \<open>
  C16: over any run with a clock that does not go back, what a participant drains is exactly
  what was accepted for it since its last drain and is younger than the message lifetime,
  in the order of acceptance, whatever purges, registrations and traffic of other
  participants happen in between.
\<close>

theorem drain_refines_mailbox:
  assumes "sorted (map fst ops @ [now])"
  shows "map (\<lambda>m. (qm_Data m, qm_QueuedAt m)) (fst (Drain now who (fold relay_step ops (New_relay c))))
    = filter (fresh (MessageTTL (config_defaults c)) now)
        (fold (mailbox_step (MaxQueueSize (config_defaults c)) (MessageTTL (config_defaults c))) ops (\<lambda>_. []) who)"
proof -
  let ?t = "hd (map fst ops @ [now])" and ?c = "config_defaults c"
  have s: "sorted (?t # map fst ops)" using assms by (cases ops) (auto simp: sorted_append)
  have le: "last (?t # map fst ops) \<le> now" using assms by (cases ops rule: rev_cases) (auto simp: sorted_append)
  have cfg: "rl_config (New_relay c) = ?c" by (simp add: New_relay_def)
  have run: "rl_config (fold relay_step ops r) = rl_config r" for r by (induction ops arbitrary: r) auto
  from sim_run [OF sim_new s, of c] le
  have "filter (live now) (queue_of (fold relay_step ops (New_relay c)) who) = map (entry (MessageTTL ?c))
      (filter (fresh (MessageTTL ?c) now) (fold (mailbox_step (MaxQueueSize ?c) (MessageTTL ?c)) ops (\<lambda>_. []) who))"
    by (auto simp: mailbox_sim_def cfg run)
  moreover have "(\<lambda>m. (qm_Data m, qm_QueuedAt m)) \<circ> entry ttl = id" for ttl
    by (auto simp: fun_eq_iff entry_def)
  ultimately show ?thesis by (simp add: Drain_result)
qed

theorem drain_refines_mailbox_witness:
  "map (\<lambda>m. (qm_Data m, qm_QueuedAt m)) (fst (Drain 2 ''bob''
      (fold relay_step [(0, REnqueue ''bob'' ''a''), (1, REnqueue ''bob'' ''b''), (2, RPurge)]
        (New_relay \<lparr>MaxQueueSize = 5, MessageTTL = 2, RegistrationTTL = 9\<rparr>)))) = [(''b'', 1)]"
  using drain_refines_mailbox [of "[(0, REnqueue ''bob'' ''a''), (1, REnqueue ''bob'' ''b''), (2, RPurge)]" 2 "''bob''"
      "\<lparr>MaxQueueSize = 5, MessageTTL = 2, RegistrationTTL = 9\<rparr>"]
  by (simp add: config_defaults_def mailbox_step_def fresh_def)

text \<open>
  C31: no queue ever holds more messages than the configured maximum (1000 by default),
  whatever is done with the relay.
\<close>

theorem queues_bounded:
  "int (QueueLength who (fold relay_step ops (New_relay c))) \<le> MaxQueueSize (config_defaults c)"
proof -
  have "queue_bounded (New_relay c)"
    using relay_ok_new [of c] by (simp add: queue_bounded_def relay_ok_def) (simp add: New_relay_def queue_of_def)
  from bounded_run [OF this, of ops] have "int (QueueLength who (fold relay_step ops (New_relay c)))
      \<le> MaxQueueSize (rl_config (fold relay_step ops (New_relay c)))"
    by (simp add: queue_bounded_def QueueLength_def)
  moreover have "rl_config (fold relay_step ops r) = rl_config r" for r by (induction ops arbitrary: r) auto
  ultimately show ?thesis by (simp add: New_relay_def)
qed

text \<open>
  A participant that registers is registered from then on for exactly the configured
  lifetime, unless it is unregistered; other registrations are not touched, and a purge
  changes nobody's status.
\<close>

theorem registration_lifetime:
  assumes "unmarshal un_RelayRegisterParams zero_RelayRegisterParams params = Some p" "md_Sender (rrp_WMP p) \<noteq> []"
    and "relay_ok r" "t \<le> now" "t \<le> t'" "t' \<le> now"
  shows "IsRegistered now who (PurgeExpired t' (snd (HandleMethod_relay t MethodRelayRegister params r))) \<longleftrightarrow>
    (if who = md_Sender (rrp_WMP p) then now < t + RegistrationTTL (rl_config r) else IsRegistered now who r)"
  using assms
  by (auto simp: IsRegistered_def HandleMethod_relay_def PurgeExpired_def relay_ok_def gm_get_delete_if time_before_def time_add_def
      time_after_def Let_def split: option.splits if_splits)

definition relay_params :: bytes where
  "relay_params = ''{'' @ quote_string ''wmp'' @ '':{'' @ quote_string ''sender'' @ '':'' @ quote_string ''bob'' @ ''}}''"

lemma relay_params_decoded:
  "unmarshal un_RelayRegisterParams zero_RelayRegisterParams (Some relay_params)
     = Some (zero_RelayRegisterParams\<lparr>rrp_WMP := zero_Metadata\<lparr>md_Sender := ''bob''\<rparr>\<rparr>)"
  by code_simp

theorem registration_lifetime_witness:
  "IsRegistered 7 ''bob'' (PurgeExpired 5 (snd (HandleMethod_relay 2 MethodRelayRegister (Some relay_params)
      (New_relay \<lparr>MaxQueueSize = 5, MessageTTL = 2, RegistrationTTL = 9\<rparr>))))"
  using registration_lifetime [OF relay_params_decoded, of "New_relay \<lparr>MaxQueueSize = 5, MessageTTL = 2, RegistrationTTL = 9\<rparr>" 2 7 5 "''bob''"]
    relay_ok_new [of "\<lparr>MaxQueueSize = 5, MessageTTL = 2, RegistrationTTL = 9\<rparr>"]
  by (simp add: New_relay_def config_defaults_def)

end
