(* ===== verification/Go_Channel.thy ===== *)
theory Go_Channel
  imports Wmp_Prelude
begin

text \<open>
  Channels of the program. A buffered channel is the list of what it holds; a select returns
  the list of its ready outcomes. Components with several goroutines are step relations whose
  steps are labelled with what went into and came out of their channels; the locale states
  once what every such channel promises: first in, first out, nothing lost, bounded.
\<close>

section \<open>Runs of a labelled step relation\<close>

inductive runs :: "('s \<Rightarrow> 'e \<Rightarrow> 's \<Rightarrow> bool) \<Rightarrow> 's \<Rightarrow> 'e list \<Rightarrow> 's \<Rightarrow> bool" for step where
  none: "runs step s [] s"
| more: "runs step s es t \<Longrightarrow> step t e u \<Longrightarrow> runs step s (es @ [e]) u"

lemma runs_step: "step s e t \<Longrightarrow> runs step s [e] t"
  using runs.more [OF runs.none] by fastforce

lemma runs_more: "runs step s es t \<Longrightarrow> step t e u \<Longrightarrow> es' = es @ [e] \<Longrightarrow> runs step s es' u"
  by (simp add: runs.more)

lemma runs_invariant:
  assumes "runs step s es t" "P s" "\<And>s e t. step s e t \<Longrightarrow> P s \<Longrightarrow> P t"
  shows "P t"
  using assms by (induction rule: runs.induct) blast+

definition logged :: "('e \<Rightarrow> 'a list) \<Rightarrow> 'e list \<Rightarrow> 'a list" where
  "logged f es = concat (map f es)"

lemma logged_simps [simp]: "logged f [] = []" "logged f (es @ es') = logged f es @ logged f es'" "logged f (e # es) = f e @ logged f es"
  by (simp_all add: logged_def)

section \<open>Buffered channels\<close>

text \<open>
  Whether a send on a channel of the given capacity is ready: there is room, or the channel is
  unbuffered and a receiver waits.
\<close>

definition chan_room :: "bool \<Rightarrow> nat \<Rightarrow> 'a list \<Rightarrow> bool" where
  "chan_room receiver cap buf \<longleftrightarrow> length buf < cap \<or> (cap = 0 \<and> buf = [] \<and> receiver)"

lemma chan_room_bound: "chan_room r cap buf \<Longrightarrow> length (buf @ [x]) \<le> max 1 cap"
  by (auto simp: chan_room_def)

locale fifo_channel =
  fixes step :: "'s \<Rightarrow> 'e \<Rightarrow> 's \<Rightarrow> bool"
    and invar :: "'s \<Rightarrow> bool"
    and sent :: "'e \<Rightarrow> 'a list"
    and got :: "'e \<Rightarrow> 'a list"
    and content :: "'s \<Rightarrow> 'a list"
    and cap :: "'s \<Rightarrow> nat"
  assumes invar_step: "step s e s' \<Longrightarrow> invar s \<Longrightarrow> invar s'"
    and content_step: "step s e s' \<Longrightarrow> invar s \<Longrightarrow> content s @ sent e = got e @ content s'"
    and content_bound: "invar s \<Longrightarrow> length (content s) \<le> cap s"
begin

lemma run_invar: "runs step s es s' \<Longrightarrow> invar s \<Longrightarrow> invar s'"
  by (erule runs_invariant) (auto intro: invar_step)

lemma run_content:
  assumes "runs step s es s'" "invar s"
  shows "content s @ logged sent es = logged got es @ content s'"
  using assms
proof (induction rule: runs.induct)
  case (more s es t e u)
  have inv: "invar t" using run_invar [OF more.hyps(1) more.prems] .
  have "content s @ logged sent (es @ [e]) = (logged got es @ content t) @ sent e"
    using more.IH [OF more.prems] by simp
  also have "\<dots> = logged got (es @ [e]) @ content u"
    using content_step [OF more.hyps(2) inv] by simp
  finally show ?case .
qed simp

lemma fifo:
  assumes "runs step s es s'" "invar s" "content s = []"
  shows "logged sent es = logged got es @ content s' \<and> length (content s') \<le> cap s'"
  using run_content [OF assms(1,2)] content_bound [OF run_invar [OF assms(1,2)]] assms(3) by simp

end

end
