(* ===== verification/Flow_Context.thy ===== *)
theory Flow_Context
  imports Peer Go_Channel
begin

text \<open>
  Flows as goroutines (flowcontext.go): the context of a running flow and the profile that
  starts one goroutine per flow.

  A \<open>*FlowContext\<close> is an address into a heap, because the profile's map and the goroutine
  share it. The buffered channel \<open>actionCh\<close> is the list of what it holds, the channel
  \<open>doneCh\<close>, which is only ever closed, a flag. An operation that selects on channels returns
  the list of the outcomes that are ready: Go takes any of them, and blocks on an empty list.
  The notification a flow sends goes through \<open>notify\<close>, the peer's \<open>Notify\<close> with its context.
\<close>

section \<open>The context of a flow\<close>

record FlowContext =
  fc_FlowID :: bytes
  fc_FlowType :: bytes
  fc_Params :: raw
  actionCh :: "FlowActionParams list"
  doneCh :: bool

definition action_cap :: nat where
  "action_cap = 10"

definition newFlowContext :: "bytes \<Rightarrow> bytes \<Rightarrow> raw \<Rightarrow> FlowContext" where
  "newFlowContext flowID flowType params =
     \<lparr>fc_FlowID = flowID, fc_FlowType = flowType, fc_Params = params, actionCh = [], doneCh = False\<rparr>"

type_synonym 'w notify = "bytes \<Rightarrow> bytes option \<Rightarrow> 'w \<Rightarrow> go_error option \<times> 'w"

text \<open>
  An \<open>interface{}\<close> argument is \<open>None\<close> when it is nil and otherwise what \<open>json.Marshal\<close> makes of it.
\<close>

definition Progress :: "'w notify \<Rightarrow> FlowContext \<Rightarrow> bytes \<Rightarrow> bytes option option \<Rightarrow> 'w \<Rightarrow> go_error option \<times> 'w" where
  "Progress notify fc step payload w =
     (if payload = Some None then (Some (GoErr ''marshal progress payload''), w)
      else notify MethodFlowProgress
             (ms_FlowProgressParams \<lparr>fpp_WMP = zero_Metadata, fpp_FlowID = fc_FlowID fc, fpp_Step = step,
                fpp_Payload = Option.bind payload id\<rparr>) w)"

definition Complete :: "'w notify \<Rightarrow> FlowContext \<Rightarrow> bytes option option \<Rightarrow> 'w \<Rightarrow> go_error option \<times> 'w" where
  "Complete notify fc result w =
     (if result = Some None then (Some (GoErr ''marshal complete result''), w)
      else notify MethodFlowComplete
             (ms_FlowCompleteParams \<lparr>fcp_WMP = zero_Metadata, fcp_FlowID = fc_FlowID fc, fcp_Result = Option.bind result id\<rparr>) w)"

definition Error_flow ::
  "'w notify \<Rightarrow> FlowContext \<Rightarrow> int \<Rightarrow> bytes \<Rightarrow> bytes option option \<Rightarrow> 'w \<Rightarrow> go_error option \<times> 'w" where
  "Error_flow notify fc code message data w =
     (if data = Some None then (Some (GoErr ''marshal error data''), w)
      else notify MethodFlowError
             (ms_FlowErrorParams \<lparr>fep_WMP = zero_Metadata, fep_FlowID = fc_FlowID fc, fep_Code = code,
                fep_Message = message, fep_Data = Option.bind data id\<rparr>) w)"

text \<open>
  The outcomes of \<open>WaitForAction\<close>: \<open>timed_out\<close> says whether the timer has fired, \<open>ctx_err\<close> is
  \<open>ctx.Err()\<close> once the context is done.
\<close>

definition WaitForAction :: "bool \<Rightarrow> go_error option \<Rightarrow> FlowContext \<Rightarrow> ((go_error + FlowActionParams) \<times> FlowContext) list" where
  "WaitForAction timed_out ctx_err fc =
     (case actionCh fc of [] \<Rightarrow> [] | action # rest \<Rightarrow> [(Inr action, fc\<lparr>actionCh := rest\<rparr>)])
     @ (if timed_out then [(Inl (GoErr (''flow '' @ fc_FlowID fc @ '': action timeout'')), fc)] else [])
     @ (case ctx_err of None \<Rightarrow> [] | Some e \<Rightarrow> [(Inl e, fc)])
     @ (if doneCh fc then [(Inl (GoErr (''flow '' @ fc_FlowID fc @ '': cancelled'')), fc)] else [])"

text \<open>\<open>RequestAction\<close>: the wait starts after the notification was sent, or not at all.\<close>

definition RequestAction ::
  "'w notify \<Rightarrow> FlowContext \<Rightarrow> bytes \<Rightarrow> bytes option option \<Rightarrow> bool \<Rightarrow> go_error option \<Rightarrow> 'w
    \<Rightarrow> ((go_error + FlowActionParams) \<times> FlowContext) list \<times> 'w" where
  "RequestAction notify fc step payload timed_out ctx_err w =
     (case Progress notify fc step payload w of
        (Some e, w') \<Rightarrow> ([(Inl (GoErr (''send progress: '' @ error_text e)), fc)], w')
      | (None, w') \<Rightarrow> (WaitForAction timed_out ctx_err fc, w'))"

definition cancel_flow :: "FlowContext \<Rightarrow> FlowContext" where
  "cancel_flow fc = (if doneCh fc then fc else fc\<lparr>doneCh := True\<rparr>)"

text \<open>The outcomes of \<open>deliverAction\<close>; the flag tells whether the action went into the channel.\<close>

definition deliverAction :: "FlowActionParams \<Rightarrow> FlowContext \<Rightarrow> (bool \<times> FlowContext) list" where
  "deliverAction params fc =
     (if length (actionCh fc) < action_cap then [(True, fc\<lparr>actionCh := actionCh fc @ [params]\<rparr>)] else [])
     @ (if doneCh fc then [(False, fc)] else [])"

section \<open>The profile\<close>

text \<open>\<open>'f\<close> is the type of the application's flow functions.\<close>

record 'f AsyncFlowProfile =
  afp_name :: bytes
  afp_handlers :: "(bytes, 'f) gomap"
  afp_flows :: "(bytes, nat) gomap"

definition NewAsyncFlowProfile :: "bytes \<Rightarrow> 'f AsyncFlowProfile" where
  "NewAsyncFlowProfile name = \<lparr>afp_name = name, afp_handlers = [], afp_flows = []\<rparr>"

definition Handle :: "bytes \<Rightarrow> 'f \<Rightarrow> 'f AsyncFlowProfile \<Rightarrow> 'f AsyncFlowProfile" where
  "Handle flowType fn p = p\<lparr>afp_handlers := gm_set flowType fn (afp_handlers p)\<rparr>"

definition FlowTypes_async :: "'f AsyncFlowProfile \<Rightarrow> bytes list" where
  "FlowTypes_async p = map fst (afp_handlers p)"

definition ActiveFlows :: "'f AsyncFlowProfile \<Rightarrow> nat" where
  "ActiveFlows p = length (afp_flows p)"

text \<open>
  What is under way besides the profile's fields: flow goroutines in their flow function, calls
  of \<open>HandleAction\<close> that have found the flow and are delivering, and operations that have removed a
  flow from the map and are about to cancel it.
\<close>

datatype 'f task =
    Run nat 'f
  | Deliver nat FlowActionParams
  | Cancel nat

record ('f, 'w) astate =
  prof :: "'f AsyncFlowProfile"
  heap :: "nat \<rightharpoonup> FlowContext"
  next_fc :: nat
  tasks :: "'f task list"
  aworld :: 'w

definition StartFlow_async :: "FlowStartParams \<Rightarrow> ('f, 'w) astate \<Rightarrow> FlowStartResult goret \<times> ('f, 'w) astate" where
  "StartFlow_async params s =
     (case gm_get (afp_handlers (prof s)) (fsp_FlowType params) of
        None \<Rightarrow> ((None, Some (RPCErr (NewRPCError ErrFlowError (reason_data (''unknown flow type: '' @ fsp_FlowType params))))), s)
      | Some fn \<Rightarrow>
          (let a = next_fc s;
               fc = newFlowContext (fsp_FlowID params) (fsp_FlowType params) (fsp_Params params)
           in ((Some \<lparr>fsr_WMP = zero_Metadata, fsr_FlowID = fsp_FlowID params, fsr_FlowType = fsp_FlowType params\<rparr>, None),
               s\<lparr>prof := (prof s)\<lparr>afp_flows := gm_set (fsp_FlowID params) a (afp_flows (prof s))\<rparr>,
                 heap := (heap s)(a \<mapsto> fc), next_fc := Suc a, tasks := Run a fn # tasks s\<rparr>)))"

text \<open>The lookup of \<open>HandleAction\<close>: an error, or a delivery to the flow found.\<close>

definition HandleAction_lookup :: "FlowActionParams \<Rightarrow> ('f, 'w) astate \<Rightarrow> go_error option \<times> ('f, 'w) astate" where
  "HandleAction_lookup params s =
     (case gm_get (afp_flows (prof s)) (fap_FlowID params) of
        None \<Rightarrow> (Some (RPCErr (NewRPCError ErrFlowError (reason_data (''flow not found: '' @ fap_FlowID params)))), s)
      | Some a \<Rightarrow> (None, s\<lparr>tasks := Deliver a params # tasks s\<rparr>))"

definition action_accepted :: "FlowActionParams \<Rightarrow> FlowActionResult" where
  "action_accepted params =
     \<lparr>far_WMP = zero_Metadata, far_FlowID = fap_FlowID params, far_Action = fap_Action params, far_Status = ''accepted''\<rparr>"

text \<open>The common body of \<open>HandleComplete\<close>, \<open>HandleError\<close> and \<open>CancelFlow\<close>, up to \<open>fc.cancel()\<close>.\<close>

definition remove_flow :: "bytes \<Rightarrow> ('f, 'w) astate \<Rightarrow> ('f, 'w) astate" where
  "remove_flow flowID s =
     (case gm_get (afp_flows (prof s)) flowID of
        None \<Rightarrow> s
      | Some a \<Rightarrow> s\<lparr>prof := (prof s)\<lparr>afp_flows := gm_del flowID (afp_flows (prof s))\<rparr>, tasks := Cancel a # tasks s\<rparr>)"

definition HandleComplete_async :: "FlowCompleteParams \<Rightarrow> ('f, 'w) astate \<Rightarrow> ('f, 'w) astate" where
  "HandleComplete_async params s = remove_flow (fcp_FlowID params) s"

definition HandleError_async :: "FlowErrorParams \<Rightarrow> ('f, 'w) astate \<Rightarrow> ('f, 'w) astate" where
  "HandleError_async params s = remove_flow (fep_FlowID params) s"

definition CancelFlow :: "bytes \<Rightarrow> ('f, 'w) astate \<Rightarrow> ('f, 'w) astate" where
  "CancelFlow flowID s = remove_flow flowID s"

text \<open>
  The end of a flow goroutine: an error of the flow function is reported to the other side,
  then the deferred function removes the flow's entry and cancels the context.
\<close>

definition flow_return :: "'w notify \<Rightarrow> FlowContext \<Rightarrow> go_error option \<Rightarrow> 'w \<Rightarrow> 'w" where
  "flow_return notify fc err w =
     (case err of None \<Rightarrow> w | Some e \<Rightarrow> snd (Error_flow notify fc ErrFlowError (error_text e) None w))"

definition flow_exit :: "'w notify \<Rightarrow> nat \<Rightarrow> FlowContext \<Rightarrow> go_error option \<Rightarrow> 'f task list \<Rightarrow> ('f, 'w) astate \<Rightarrow> ('f, 'w) astate" where
  "flow_exit notify a fc err rest s =
     s\<lparr>prof := (prof s)\<lparr>afp_flows := gm_del (fc_FlowID fc) (afp_flows (prof s))\<rparr>,
       tasks := Cancel a # rest, aworld := flow_return notify fc err (aworld s)\<rparr>"

text \<open>
  The profile as the peer calls it. \<open>Init\<close> keeps the peer for the notifications of the flows, the
  parameter \<open>notify\<close> below. \<open>HandleAction\<close> leaves its delivery under way: the goroutine of the request
  finishes it as a step of its own, and what it answers is already decided.
\<close>

definition Name_async :: "'f AsyncFlowProfile \<Rightarrow> bytes" where
  "Name_async p = afp_name p"

definition Capabilities_async :: "'f AsyncFlowProfile \<Rightarrow> bytes list" where
  "Capabilities_async p = []"

definition Init_async :: "('f, 'w) astate \<Rightarrow> go_error option \<times> ('f, 'w) astate" where
  "Init_async s = (None, s)"

definition HandleAction_async :: "FlowActionParams \<Rightarrow> ('f, 'w) astate \<Rightarrow> FlowActionResult goret \<times> ('f, 'w) astate" where
  "HandleAction_async params s =
     (case HandleAction_lookup params s of
        (Some e, s') \<Rightarrow> ((None, Some e), s')
      | (None, s') \<Rightarrow> ((Some (action_accepted params), None), s'))"

definition HandleProgress_async :: "FlowProgressParams \<Rightarrow> ('f, 'w) astate \<Rightarrow> ('f, 'w) astate" where
  "HandleProgress_async params s = s"

definition async_FlowHandler :: "('f, 'w) astate FlowHandler" where
  "async_FlowHandler =
     \<lparr>fh_FlowTypes = (\<lambda>s. FlowTypes_async (prof s)), fh_StartFlow = (\<lambda>_. StartFlow_async), fh_HandleAction = (\<lambda>_. HandleAction_async),
      fh_HandleProgress = (\<lambda>_. HandleProgress_async), fh_HandleComplete = (\<lambda>_. HandleComplete_async),
      fh_HandleError = (\<lambda>_. HandleError_async)\<rparr>"

definition async_Profile :: "'f AsyncFlowProfile \<Rightarrow> ('f, 'w) astate Profile" where
  "async_Profile p =
     \<lparr>pf_Name = Name_async p, pf_Capabilities = Capabilities_async p, pf_Init = Init_async, pf_FlowHandler = Some async_FlowHandler,
      pf_MethodHandler = None, pf_ResolveHandler = None, pf_SessionHook = None, pf_IdentifierResolver = None\<rparr>"

section \<open>Interleavings\<close>

text \<open>
  Every interleaving of peer calls, flow goroutines and what they have under way is a
  sequence of steps. A flow function is application code: while it runs it may wait for an
  action, send notifications and return, in any order. The rest of the program may change the
  world at any time. The event of a step tells which flow was started and which actions went
  into and came out of a channel.
\<close>

datatype flow_event =
    Started bytes nat
  | Delivered nat FlowActionParams
  | Received nat FlowActionParams
  | Internal

inductive astep :: "'w notify \<Rightarrow> ('f, 'w) astate \<Rightarrow> flow_event \<Rightarrow> ('f, 'w) astate \<Rightarrow> bool" for notify where
  start: "gm_get (afp_handlers (prof s)) (fsp_FlowType params) \<noteq> None \<Longrightarrow>
    astep notify s (Started (fsp_FlowID params) (next_fc s)) (snd (StartFlow_async params s))"
| no_start: "gm_get (afp_handlers (prof s)) (fsp_FlowType params) = None \<Longrightarrow>
    astep notify s Internal (snd (StartFlow_async params s))"
| action: "astep notify s Internal (snd (HandleAction_lookup params s))"
| deliver: "tasks s = ts @ Deliver a params # ts' \<Longrightarrow> heap s a = Some fc \<Longrightarrow> (sent, fc') \<in> set (deliverAction params fc) \<Longrightarrow>
    astep notify s (if sent then Delivered a params else Internal) (s\<lparr>tasks := ts @ ts', heap := (heap s)(a \<mapsto> fc')\<rparr>)"
| complete: "astep notify s Internal (HandleComplete_async cparams s)"
| error: "astep notify s Internal (HandleError_async eparams s)"
| drop: "astep notify s Internal (CancelFlow flowID s)"
| cancelled: "tasks s = ts @ Cancel a # ts' \<Longrightarrow> heap s a = Some fc \<Longrightarrow>
    astep notify s Internal (s\<lparr>tasks := ts @ ts', heap := (heap s)(a \<mapsto> cancel_flow fc)\<rparr>)"
| wait: "Run a fn \<in> set (tasks s) \<Longrightarrow> heap s a = Some fc \<Longrightarrow> (res, fc') \<in> set (WaitForAction timed_out ctx_err fc) \<Longrightarrow>
    astep notify s (case res of Inr ps \<Rightarrow> Received a ps | Inl _ \<Rightarrow> Internal) (s\<lparr>heap := (heap s)(a \<mapsto> fc')\<rparr>)"
| progress: "Run a fn \<in> set (tasks s) \<Longrightarrow> heap s a = Some fc \<Longrightarrow>
    astep notify s Internal (s\<lparr>aworld := snd (Progress notify fc step payload (aworld s))\<rparr>)"
| complete_flow: "Run a fn \<in> set (tasks s) \<Longrightarrow> heap s a = Some fc \<Longrightarrow>
    astep notify s Internal (s\<lparr>aworld := snd (Complete notify fc result (aworld s))\<rparr>)"
| error_flow: "Run a fn \<in> set (tasks s) \<Longrightarrow> heap s a = Some fc \<Longrightarrow>
    astep notify s Internal (s\<lparr>aworld := snd (Error_flow notify fc code message data (aworld s))\<rparr>)"
| outside: "astep notify s Internal (s\<lparr>aworld := w\<rparr>)"
| return: "tasks s = ts @ Run a fn # ts' \<Longrightarrow> heap s a = Some fc \<Longrightarrow>
    astep notify s Internal (flow_exit notify a fc err (ts @ ts') s)"

inductive_cases astepE: "astep notify s e s'"

abbreviation arun :: "'w notify \<Rightarrow> ('f, 'w) astate \<Rightarrow> flow_event list \<Rightarrow> ('f, 'w) astate \<Rightarrow> bool" where
  "arun notify \<equiv> runs (astep notify)"

lemmas arun_none = runs.none [of "astep notify" for notify]
lemmas arun_more = runs.more [of "astep notify" for notify]

text \<open>A profile before its first flow.\<close>

definition idle :: "('f, 'w) astate \<Rightarrow> bool" where
  "idle s \<longleftrightarrow> afp_flows (prof s) = [] \<and> heap s = Map.empty \<and> next_fc s = 0 \<and> tasks s = []"

end
