(* ===== verification/Flow_Props.thy ===== *)
theory Flow_Props
  imports Flow_Context
begin

text \<open>
  Asynchronous flows under every interleaving: which goroutine an action reaches and in what
  order, which flows the map holds, and when a flow that left the map is told to stop.
\<close>

section \<open>Outcomes of channel operations\<close>

lemma WaitForAction_outcome:
  "(res, fc') \<in> set (WaitForAction timed_out ctx_err fc) \<Longrightarrow>
     fc_FlowID fc' = fc_FlowID fc \<and> doneCh fc' = doneCh fc
     \<and> (case res of Inl _ \<Rightarrow> fc' = fc | Inr ps \<Rightarrow> actionCh fc = ps # actionCh fc')"
  by (auto simp: WaitForAction_def split: list.splits option.splits if_splits)

lemma deliverAction_outcome:
  "(sent, fc') \<in> set (deliverAction ps fc) \<Longrightarrow>
     fc_FlowID fc' = fc_FlowID fc \<and> doneCh fc' = doneCh fc
     \<and> (if sent then actionCh fc' = actionCh fc @ [ps] \<and> length (actionCh fc') \<le> action_cap else fc' = fc)"
  by (auto simp: deliverAction_def split: if_splits)

lemma cancel_flow_fields [simp]:
  "fc_FlowID (cancel_flow fc) = fc_FlowID fc" "actionCh (cancel_flow fc) = actionCh fc" "doneCh (cancel_flow fc)"
  by (simp_all add: cancel_flow_def)

section \<open>Invariant\<close>

definition flow_entry :: "('f, 'w) astate \<Rightarrow> bytes \<Rightarrow> nat option" where
  "flow_entry s f = gm_get (afp_flows (prof s)) f"

fun run_addr :: "'f task \<Rightarrow> nat list" where
  "run_addr (Run a fn) = [a]"
| "run_addr _ = []"

definition running :: "('f, 'w) astate \<Rightarrow> nat list" where
  "running s = concat (map run_addr (tasks s))"

definition entries_ok :: "('f, 'w) astate \<Rightarrow> bool" where
  "entries_ok s \<longleftrightarrow> (\<forall>f a. flow_entry s f = Some a \<longrightarrow>
     (\<exists>fc. heap s a = Some fc \<and> fc_FlowID fc = f \<and> \<not> doneCh fc) \<and> a \<in> set (running s) \<and> Cancel a \<notin> set (tasks s))"

definition heap_ok :: "('f, 'w) astate \<Rightarrow> bool" where
  "heap_ok s \<longleftrightarrow> dom (heap s) = {..<next_fc s} \<and> (\<forall>a fc. heap s a = Some fc \<longrightarrow> length (actionCh fc) \<le> action_cap)"

definition tasks_ok :: "('f, 'w) astate \<Rightarrow> bool" where
  "tasks_ok s \<longleftrightarrow> distinct (running s) \<and> set (running s) \<subseteq> {..<next_fc s} \<and> (\<forall>a. Cancel a \<in> set (tasks s) \<longrightarrow> a < next_fc s)
     \<and> (\<forall>a ps. Deliver a ps \<in> set (tasks s) \<longrightarrow> (\<exists>fc. heap s a = Some fc \<and> fc_FlowID fc = fap_FlowID ps))"

definition flow_inv :: "('f, 'w) astate \<Rightarrow> bool" where
  "flow_inv s \<longleftrightarrow> entries_ok s \<and> heap_ok s \<and> tasks_ok s"

lemmas flow_inv_defs = flow_inv_def entries_ok_def heap_ok_def tasks_ok_def

lemma flow_inv_idle: "idle s \<Longrightarrow> flow_inv s"
  by (auto simp: flow_inv_defs idle_def flow_entry_def running_def)

text \<open>Notifications change nothing but the world.\<close>

lemma flow_inv_world: "flow_inv (s\<lparr>aworld := w\<rparr>) = flow_inv s"
  by (simp add: flow_inv_defs flow_entry_def running_def)

text \<open>A step on the heap that keeps the flow's name and the bound, and closes nothing that is registered.\<close>

lemma flow_inv_heap:
  assumes "flow_inv s" "heap s a = Some fc" "fc_FlowID fc' = fc_FlowID fc" "length (actionCh fc') \<le> action_cap"
    and "doneCh fc' \<longrightarrow> doneCh fc \<or> (\<forall>f. flow_entry s f \<noteq> Some a)"
  shows "flow_inv (s\<lparr>heap := (heap s)(a \<mapsto> fc')\<rparr>)"
  using assms by (fastforce simp: flow_inv_defs flow_entry_def running_def)

text \<open>A task that is over.\<close>

lemma flow_inv_drop_task:
  assumes "flow_inv s" "tasks s = ts @ t # ts'" "run_addr t = []"
  shows "flow_inv (s\<lparr>tasks := ts @ ts'\<rparr>)"
  using assms by (fastforce simp: flow_inv_defs flow_entry_def running_def)

lemma entryE:
  assumes "flow_inv s" "flow_entry s f = Some a"
  obtains fc where "heap s a = Some fc" "fc_FlowID fc = f" "\<not> doneCh fc" "a \<in> set (running s)" "Cancel a \<notin> set (tasks s)" "a < next_fc s"
proof -
  from assms obtain fc where fc: "heap s a = Some fc" "fc_FlowID fc = f" "\<not> doneCh fc" "a \<in> set (running s)" "Cancel a \<notin> set (tasks s)"
    unfolding flow_inv_def entries_ok_def by blast
  moreover have "a < next_fc s" using assms(1) fc(1) unfolding flow_inv_def heap_ok_def by blast
  ultimately show ?thesis by (rule that)
qed

lemma entry_inj: "flow_inv s \<Longrightarrow> flow_entry s f = Some a \<Longrightarrow> flow_entry s f' = Some a \<Longrightarrow> f' = f"
  using entryE [of s f a] entryE [of s f' a] by (metis option.inject)

lemma flow_inv_remove:
  assumes "flow_inv s"
  shows "flow_inv (remove_flow f s)"
proof (cases "flow_entry s f")
  case None
  with assms show ?thesis by (simp add: remove_flow_def flow_entry_def)
next
  case (Some a)
  let ?s = "remove_flow f s"
  have fields: "flow_entry ?s f' = (if f' = f then None else flow_entry s f')" "running ?s = running s" "heap ?s = heap s"
      "next_fc ?s = next_fc s" "tasks ?s = Cancel a # tasks s" for f'
    using Some by (simp_all add: remove_flow_def flow_entry_def running_def)
  have ent: "entries_ok s" "heap_ok s" "tasks_ok s" using assms by (simp_all add: flow_inv_def)
  have a: "a < next_fc s" using assms Some by (rule entryE)
  have other: "flow_entry s f' \<noteq> Some a" if "f' \<noteq> f" for f'
    using entry_inj [OF assms Some] that by blast
  have "entries_ok ?s" using ent(1) other unfolding entries_ok_def fields by auto
  moreover have "heap_ok ?s" using ent(2) unfolding heap_ok_def fields .
  moreover have "tasks_ok ?s" using ent(3) a unfolding tasks_ok_def fields by auto
  ultimately show ?thesis by (simp add: flow_inv_def)
qed

lemma flow_inv_lookup:
  assumes "flow_inv s"
  shows "flow_inv (snd (HandleAction_lookup params s))"
proof (cases "flow_entry s (fap_FlowID params)")
  case None
  with assms show ?thesis by (simp add: HandleAction_lookup_def flow_entry_def)
next
  case (Some a)
  let ?s = "snd (HandleAction_lookup params s)"
  have fields: "flow_entry ?s = flow_entry s" "running ?s = running s" "heap ?s = heap s"
      "next_fc ?s = next_fc s" "tasks ?s = Deliver a params # tasks s"
    using Some by (simp_all add: HandleAction_lookup_def flow_entry_def running_def fun_eq_iff)
  have ent: "entries_ok s" "heap_ok s" "tasks_ok s" using assms by (simp_all add: flow_inv_def)
  have "entries_ok ?s" using ent(1) unfolding entries_ok_def fields by auto
  moreover have "heap_ok ?s" using ent(2) unfolding heap_ok_def fields .
  moreover obtain fc where "heap s a = Some fc" "fc_FlowID fc = fap_FlowID params" using assms Some by (rule entryE)
  then have "tasks_ok ?s" using ent(3) unfolding tasks_ok_def fields by auto
  ultimately show ?thesis by (simp add: flow_inv_def)
qed

lemma flow_inv_start:
  assumes "flow_inv s"
  shows "flow_inv (snd (StartFlow_async params s))"
proof (cases "gm_get (afp_handlers (prof s)) (fsp_FlowType params)")
  case None
  with assms show ?thesis by (simp add: StartFlow_async_def)
next
  case (Some fn)
  have fresh: "next_fc s \<notin> set (running s)" "Cancel (next_fc s) \<notin> set (tasks s)" "heap s (next_fc s) = None"
    using assms by (auto simp: flow_inv_defs)
  show ?thesis
    using assms Some fresh
    by (auto simp: StartFlow_async_def Let_def flow_inv_defs flow_entry_def running_def newFlowContext_def less_Suc_eq split: if_splits)
       fastforce+
qed

lemma flow_inv_exit:
  assumes "flow_inv s" "tasks s = ts @ Run a fn # ts'" "heap s a = Some fc"
  shows "flow_inv (flow_exit notify a fc err (ts @ ts') s)"
proof -
  have "a < next_fc s" "a \<notin> set (concat (map run_addr (ts @ ts')))"
    using assms(1,2) by (auto simp: flow_inv_defs running_def)
  moreover have "flow_entry s f \<noteq> Some a" if "f \<noteq> fc_FlowID fc" for f
    using assms that by (fastforce simp: flow_inv_defs)
  ultimately show ?thesis
    using assms by (fastforce simp: flow_exit_def flow_inv_defs flow_entry_def running_def)
qed

lemma flow_inv_step: "astep notify s e s' \<Longrightarrow> flow_inv s \<Longrightarrow> flow_inv s'"
proof (induction rule: astep.induct)
  case (deliver s ts a params ts' fc sent fc')
  have inv: "flow_inv (s\<lparr>tasks := ts @ ts'\<rparr>)" using deliver by (intro flow_inv_drop_task) auto
  have "length (actionCh fc) \<le> action_cap" using deliver unfolding flow_inv_def heap_ok_def by blast
  with flow_inv_heap [OF inv, of a fc fc'] deliver(2) deliverAction_outcome [OF deliver(3)] show ?case
    by (auto split: if_splits)
next
  case (cancelled s ts a ts' fc)
  have inv: "flow_inv (s\<lparr>tasks := ts @ ts'\<rparr>)" using cancelled by (intro flow_inv_drop_task) auto
  have "length (actionCh fc) \<le> action_cap" using cancelled unfolding flow_inv_def heap_ok_def by blast
  moreover have "flow_entry s f \<noteq> Some a" for f
    using cancelled.hyps(1) entryE [OF cancelled.prems, of f a] by fastforce
  ultimately show ?case
    using flow_inv_heap [OF inv, of a fc "cancel_flow fc"] cancelled(2) by (simp add: flow_entry_def)
next
  case (wait a fn s fc res fc' timed_out ctx_err)
  have "length (actionCh fc) \<le> action_cap" using wait unfolding flow_inv_def heap_ok_def by blast
  with flow_inv_heap [OF wait.prems wait.hyps(2), of fc'] WaitForAction_outcome [OF wait.hyps(3)] show ?case
    by (auto split: sum.splits)
qed (simp_all add: flow_inv_start flow_inv_lookup flow_inv_remove flow_inv_world flow_inv_exit HandleComplete_async_def HandleError_async_def CancelFlow_def)

lemma flow_inv_run: "arun notify s es s' \<Longrightarrow> flow_inv s \<Longrightarrow> flow_inv s'"
  by (induction rule: runs.induct) (auto intro: flow_inv_step)

section \<open>Order of actions\<close>

fun delivered_by :: "nat \<Rightarrow> flow_event \<Rightarrow> FlowActionParams list" where
  "delivered_by a (Delivered b ps) = (if b = a then [ps] else [])"
| "delivered_by a _ = []"

fun received_by :: "nat \<Rightarrow> flow_event \<Rightarrow> FlowActionParams list" where
  "received_by a (Received b ps) = (if b = a then [ps] else [])"
| "received_by a _ = []"

abbreviation delivered :: "nat \<Rightarrow> flow_event list \<Rightarrow> FlowActionParams list" where
  "delivered a \<equiv> logged (delivered_by a)"

abbreviation received :: "nat \<Rightarrow> flow_event list \<Rightarrow> FlowActionParams list" where
  "received a \<equiv> logged (received_by a)"

definition buffered :: "('f, 'w) astate \<Rightarrow> nat \<Rightarrow> FlowActionParams list" where
  "buffered s a = (case heap s a of None \<Rightarrow> [] | Some fc \<Rightarrow> actionCh fc)"

definition flow_name :: "('f, 'w) astate \<Rightarrow> nat \<Rightarrow> bytes option" where
  "flow_name s a = map_option fc_FlowID (heap s a)"

text \<open>What a step does to one flow: its channel follows the event, its name stays.\<close>

lemma step_channel:
  assumes "astep notify s e s'" "flow_inv s"
  shows "buffered s a @ delivered_by a e = received_by a e @ buffered s' a"
    and "flow_name s a \<noteq> None \<Longrightarrow> flow_name s' a = flow_name s a"
    and "ps \<in> set (delivered_by a e) \<Longrightarrow> flow_name s a = Some (fap_FlowID ps)"
proof -
  have fresh: "heap s (next_fc s) = None" using assms(2) by (auto simp: flow_inv_defs)
  have del: "\<exists>fc. heap s b = Some fc \<and> fc_FlowID fc = fap_FlowID qs" if "tasks s = ts @ Deliver b qs # ts'" for b qs ts ts'
    using assms(2) that by (auto simp: flow_inv_def tasks_ok_def)
  show "buffered s a @ delivered_by a e = received_by a e @ buffered s' a"
    using assms(1) fresh
    by (cases rule: astep.cases)
       (auto simp: buffered_def StartFlow_async_def HandleAction_lookup_def remove_flow_def HandleComplete_async_def
         HandleError_async_def CancelFlow_def flow_exit_def newFlowContext_def Let_def
         split: option.splits sum.splits if_splits dest!: WaitForAction_outcome deliverAction_outcome)
  show "flow_name s' a = flow_name s a" if "flow_name s a \<noteq> None"
    using assms(1) fresh that
    by (cases rule: astep.cases)
       (auto simp: flow_name_def StartFlow_async_def HandleAction_lookup_def remove_flow_def HandleComplete_async_def
         HandleError_async_def CancelFlow_def flow_exit_def Let_def
         split: option.splits sum.splits if_splits dest!: WaitForAction_outcome deliverAction_outcome)
  show "flow_name s a = Some (fap_FlowID ps)" if "ps \<in> set (delivered_by a e)"
    using assms(1)
  proof (cases rule: astep.cases)
    case (deliver ts b qs ts' fc sent fc')
    with that del [OF deliver(3)] show ?thesis by (auto simp: flow_name_def split: if_splits)
  qed (use that in \<open>auto split: sum.splits\<close>)
qed

lemma buffered_bound: "flow_inv s \<Longrightarrow> length (buffered s a) \<le> action_cap"
  by (auto simp: buffered_def flow_inv_def heap_ok_def split: option.splits)

interpretation flow_channel: fifo_channel "astep notify" flow_inv "delivered_by a" "received_by a" "\<lambda>s. buffered s a" "\<lambda>_. action_cap"
  for notify :: "'w notify" and a :: nat
  by unfold_locales (auto simp: step_channel(1) intro: flow_inv_step buffered_bound)

lemma run_addressed:
  assumes "arun notify s es s'" "idle s" "ps \<in> set (delivered a es)"
  shows "flow_name s' a = Some (fap_FlowID ps)"
  using assms
proof (induction rule: runs.induct)
  case (more s es t e u)
  have inv: "flow_inv t" using more flow_inv_idle flow_inv_run by blast
  show ?case
    using more.prems(2) more.IH [OF more.prems(1)] step_channel(2) [OF more.hyps(2) inv, of a]
      step_channel(3) [OF more.hyps(2) inv, of ps a] by auto
qed simp

section \<open>Flows that left the map\<close>

fun started_by :: "flow_event \<Rightarrow> bytes list" where
  "started_by (Started f a) = [f]"
| "started_by _ = []"

abbreviation started_ids :: "flow_event list \<Rightarrow> bytes list" where
  "started_ids \<equiv> logged started_by"

lemmas astep_effects =
  StartFlow_async_def HandleAction_lookup_def remove_flow_def HandleComplete_async_def HandleError_async_def CancelFlow_def
  flow_exit_def newFlowContext_def Let_def

lemma step_next:
  assumes "astep notify s e s'"
  shows "case e of Started f a \<Rightarrow> a = next_fc s \<and> next_fc s' = Suc a \<and> flow_name s' a = Some f | _ \<Rightarrow> next_fc s' = next_fc s"
  using assms
  by (cases rule: astep.cases) (auto simp: astep_effects flow_name_def split: option.splits sum.splits)

lemma run_names:
  assumes "arun notify s es s'" "idle s"
  shows "map (flow_name s') [0..<next_fc s'] = map Some (started_ids es)"
  using assms
proof (induction rule: runs.induct)
  case (none s)
  then show ?case by (simp add: idle_def)
next
  case (more s es t e u)
  have inv: "flow_inv t" using more flow_inv_idle flow_inv_run by blast
  have "flow_name u a = flow_name t a" if "a < next_fc t" for a
    using that inv step_channel(2) [OF more.hyps(2) inv, of a] by (auto simp: flow_name_def flow_inv_defs)
  then have "map (flow_name u) [0..<next_fc t] = map Some (started_ids es)"
    using more.IH [OF more.prems] by (metis (no_types, lifting) atLeastLessThan_iff map_cong set_upt)
  with step_next [OF more.hyps(2)] show ?case
    by (cases e) auto
qed

lemma distinct_names:
  assumes "arun notify s es s'" "idle s" "distinct (started_ids es)"
    and "heap s' a = Some fc" "heap s' b = Some fc'" "fc_FlowID fc = fc_FlowID fc'"
  shows "a = b"
proof -
  have inv: "flow_inv s'" using assms(1,2) flow_inv_idle flow_inv_run by blast
  have "distinct (map (flow_name s') [0..<next_fc s'])"
    using assms(3) by (simp add: run_names [OF assms(1,2)] distinct_map inj_on_def)
  moreover have "a < next_fc s'" "b < next_fc s'" using inv assms(4,5) by (auto simp: flow_inv_defs)
  moreover have "flow_name s' a = flow_name s' b" using assms(4-6) by (simp add: flow_name_def)
  ultimately show ?thesis by (auto simp: distinct_map inj_on_def)
qed

definition told :: "('f, 'w) astate \<Rightarrow> nat \<Rightarrow> bool" where
  "told s a \<longleftrightarrow> Cancel a \<in> set (tasks s) \<or> (\<exists>fc. heap s a = Some fc \<and> doneCh fc)"

definition told_ok :: "('f, 'w) astate \<Rightarrow> bool" where
  "told_ok s \<longleftrightarrow> (\<forall>a fc. a \<in> set (running s) \<longrightarrow> heap s a = Some fc \<longrightarrow> flow_entry s (fc_FlowID fc) = Some a \<or> told s a)"

lemma told_ok_remove:
  assumes "told_ok s"
  shows "told_ok (remove_flow f s)"
proof (cases "flow_entry s f")
  case None
  with assms show ?thesis by (simp add: remove_flow_def flow_entry_def)
next
  case (Some b)
  have fields: "flow_entry (remove_flow f s) f' = (if f' = f then None else flow_entry s f')" "running (remove_flow f s) = running s"
      "heap (remove_flow f s) = heap s" "tasks (remove_flow f s) = Cancel b # tasks s" for f'
    using Some by (simp_all add: remove_flow_def flow_entry_def running_def)
  show ?thesis using assms Some unfolding told_ok_def told_def fields by (auto split: if_splits)
qed

lemma told_ok_start:
  assumes "told_ok s" "flow_inv s"
    and inj: "\<And>a b fc fc'. heap (snd (StartFlow_async ps s)) a = Some fc \<Longrightarrow> heap (snd (StartFlow_async ps s)) b = Some fc' \<Longrightarrow>
      fc_FlowID fc = fc_FlowID fc' \<Longrightarrow> a = b"
  shows "told_ok (snd (StartFlow_async ps s))"
proof (cases "gm_get (afp_handlers (prof s)) (fsp_FlowType ps)")
  case None
  with assms show ?thesis by (simp add: StartFlow_async_def)
next
  case (Some fn)
  let ?s = "snd (StartFlow_async ps s)" and ?n = "next_fc s"
  have fields: "flow_entry ?s f' = (if f' = fsp_FlowID ps then Some ?n else flow_entry s f')" "running ?s = ?n # running s"
      "heap ?s = (heap s)(?n \<mapsto> newFlowContext (fsp_FlowID ps) (fsp_FlowType ps) (fsp_Params ps))"
      "tasks ?s = Run ?n fn # tasks s" for f'
    using Some by (simp_all add: StartFlow_async_def Let_def flow_entry_def running_def)
  have name: "fc_FlowID fc \<noteq> fsp_FlowID ps" if "heap s a = Some fc" "a \<noteq> ?n" for a fc
    using inj [of a fc ?n] that unfolding fields by (auto simp: newFlowContext_def)
  show ?thesis
    using assms(1) name unfolding told_ok_def told_def fields by (auto simp: newFlowContext_def split: if_splits)
qed

lemma told_ok_heap:
  assumes "told_ok s" "heap s a = Some fc" "fc_FlowID fc' = fc_FlowID fc" "doneCh fc \<Longrightarrow> doneCh fc'"
  shows "told_ok (s\<lparr>heap := (heap s)(a \<mapsto> fc')\<rparr>)"
  using assms unfolding told_ok_def told_def by (auto simp: flow_entry_def running_def)

lemma told_ok_exit:
  assumes "told_ok s" "flow_inv s" "tasks s = ts @ Run a fn # ts'" "heap s a = Some fc"
    and inj: "\<And>b fc'. heap s b = Some fc' \<Longrightarrow> fc_FlowID fc' = fc_FlowID fc \<Longrightarrow> b = a"
  shows "told_ok (flow_exit notify a fc err (ts @ ts') s)"
proof -
  let ?s = "flow_exit notify a fc err (ts @ ts') s"
  have gone: "set (running ?s) \<subseteq> set (running s) - {a}"
    using assms(2,3) by (auto simp: flow_inv_def tasks_ok_def running_def flow_exit_def)
  have fields: "flow_entry ?s f' = (if f' = fc_FlowID fc then None else flow_entry s f')" "heap ?s = heap s"
      "Cancel b \<in> set (tasks s) \<Longrightarrow> Cancel b \<in> set (tasks ?s)" for f' b
    using assms(3) by (auto simp: flow_exit_def flow_entry_def)
  show ?thesis
    unfolding told_ok_def
  proof (intro allI impI)
    fix b fc' assume b: "b \<in> set (running ?s)" "heap ?s b = Some fc'"
    then have old: "b \<noteq> a" "b \<in> set (running s)" "heap s b = Some fc'" using gone fields(2) by auto
    then have "fc_FlowID fc' \<noteq> fc_FlowID fc" using inj by blast
    moreover have "flow_entry s (fc_FlowID fc') = Some b \<or> told s b" using assms(1) old unfolding told_ok_def by blast
    ultimately show "flow_entry ?s (fc_FlowID fc') = Some b \<or> told ?s b"
      using fields unfolding told_def by auto
  qed
qed

lemma told_ok_step:
  assumes "astep notify s e s'" "flow_inv s" "told_ok s"
    and inj: "\<And>a b fc fc'. heap s' a = Some fc \<Longrightarrow> heap s' b = Some fc' \<Longrightarrow> fc_FlowID fc = fc_FlowID fc' \<Longrightarrow> a = b"
  shows "told_ok s'"
  using assms
proof (induction rule: astep.induct)
  case (action s params)
  from action(2) show ?case
    by (auto simp: HandleAction_lookup_def told_ok_def told_def flow_entry_def running_def split: option.splits)
next
  case (deliver s ts a params ts' fc sent fc')
  have "told_ok (s\<lparr>tasks := ts @ ts'\<rparr>)"
    using deliver(1,5) unfolding told_ok_def told_def by (auto simp: flow_entry_def running_def)
  from told_ok_heap [OF this, of a fc fc'] deliver(2) deliverAction_outcome [OF deliver(3)] show ?case by simp
next
  case (cancelled s ts a ts' fc)
  show ?case using cancelled(1,2,4) unfolding told_ok_def told_def by (auto simp: flow_entry_def running_def)
next
  case (wait a fn s fc res fc' timed_out ctx_err)
  from told_ok_heap [OF wait(5,2), of fc'] WaitForAction_outcome [OF wait(3)] show ?case by simp
next
  case (return s ts a fn ts' fc err)
  show ?case
    by (rule told_ok_exit [OF return(4,3,1,2)]) (use return(5) [of _ _ a fc] return(2) in \<open>auto simp: flow_exit_def\<close>)
qed (simp_all add: told_ok_start told_ok_remove HandleComplete_async_def HandleError_async_def CancelFlow_def,
     auto simp: told_ok_def told_def flow_entry_def running_def)

lemma told_ok_run:
  assumes "arun notify s es s'" "idle s" "distinct (started_ids es)"
  shows "told_ok s'"
  using assms
proof (induction rule: runs.induct)
  case (none s)
  then show ?case by (simp add: idle_def told_ok_def running_def)
next
  case (more s es t e u)
  have inv: "flow_inv t" using more flow_inv_idle flow_inv_run by blast
  have "told_ok t" using more.IH [OF more.prems(1)] more.prems(2) by simp
  with more.hyps(2) inv show ?case
    by (rule told_ok_step) (rule distinct_names [OF arun_more [OF more.hyps] more.prems])
qed

section \<open>Properties of asynchronous flows\<close>

text \<open>
  C13: Under every interleaving a flow goroutine receives the actions addressed to its flow in
  the order in which they were delivered: what was delivered is what it has received followed
  by at most ten actions still in its channel, and all of them carry the flow's identifier.\<close>

theorem flow_actions_in_order:
  assumes "idle s" "arun notify s es s'"
  shows "delivered a es = received a es @ buffered s' a \<and> length (buffered s' a) \<le> action_cap
    \<and> (\<forall>ps \<in> set (delivered a es). flow_name s' a = Some (fap_FlowID ps))"
proof -
  have "flow_inv s" "buffered s a = []" using assms(1) flow_inv_idle by (auto simp: idle_def buffered_def)
  from flow_channel.fifo [OF assms(2) this(1), of a] this(2) show ?thesis
    using run_addressed [OF assms(2,1)] by auto
qed

definition example_async :: "(unit, unit) astate" where
  "example_async = \<lparr>prof = Handle ''t'' () (NewAsyncFlowProfile ''async''), heap = Map.empty, next_fc = 0, tasks = [], aworld = ()\<rparr>"

definition quiet :: "unit notify" where
  "quiet method params w = (None, w)"

definition example_start :: FlowStartParams where
  "example_start = zero_FlowStartParams\<lparr>fsp_FlowType := ''t'', fsp_FlowID := ''f''\<rparr>"

definition example_action :: FlowActionParams where
  "example_action = zero_FlowActionParams\<lparr>fap_FlowID := ''f'', fap_Action := ''go''\<rparr>"

lemma example_async_idle: "idle example_async"
  by (simp add: idle_def example_async_def Handle_def NewAsyncFlowProfile_def)

lemma example_started:
  "arun quiet example_async [Started ''f'' 0] (snd (StartFlow_async example_start example_async))"
proof -
  have "astep quiet example_async (Started (fsp_FlowID example_start) (next_fc example_async)) (snd (StartFlow_async example_start example_async))"
    by (rule astep.start) (simp add: example_async_def example_start_def Handle_def NewAsyncFlowProfile_def)
  from arun_more [OF arun_none this] show ?thesis by (simp add: example_start_def example_async_def)
qed

lemma example_async_run:
  "\<exists>s'. arun quiet example_async [Started ''f'' 0, Internal, Delivered 0 example_action, Received 0 example_action] s'"
proof -
  let ?s1 = "snd (StartFlow_async example_start example_async)"
  let ?s2 = "snd (HandleAction_lookup example_action ?s1)"
  let ?fc = "newFlowContext ''f'' ''t'' None"
  let ?s3 = "?s2\<lparr>tasks := [Run 0 ()], heap := (heap ?s2)(0 \<mapsto> ?fc\<lparr>actionCh := [example_action]\<rparr>)\<rparr>"
  have s2: "tasks ?s2 = [] @ Deliver 0 example_action # [Run 0 ()]" "heap ?s2 0 = Some ?fc"
    by (simp_all add: StartFlow_async_def HandleAction_lookup_def example_start_def example_action_def example_async_def
        Handle_def NewAsyncFlowProfile_def Let_def zero_FlowStartParams_def)
  have "arun quiet example_async ([Started ''f'' 0] @ [Internal]) ?s2"
    by (rule arun_more [OF example_started astep.action])
  moreover have "astep quiet ?s2 (Delivered 0 example_action) ?s3"
    using astep.deliver [OF s2, of True] by (simp add: deliverAction_def newFlowContext_def action_cap_def)
  ultimately have s3: "arun quiet example_async (([Started ''f'' 0] @ [Internal]) @ [Delivered 0 example_action]) ?s3"
    by (rule arun_more)
  have "astep quiet ?s3 (Received 0 example_action) (?s3\<lparr>heap := (heap ?s3)(0 \<mapsto> ?fc)\<rparr>)"
    using astep.wait [of 0 "()" ?s3 "?fc\<lparr>actionCh := [example_action]\<rparr>" "Inr example_action" ?fc False None]
    by (simp add: WaitForAction_def newFlowContext_def)
  from arun_more [OF s3 this] show ?thesis by auto
qed

theorem flow_actions_in_order_witness:
  "\<exists>s'. delivered 0 [Started ''f'' 0, Internal, Delivered 0 example_action, Received 0 example_action] = [example_action] @ buffered s' 0
    \<and> flow_name (s' :: (unit, unit) astate) 0 = Some ''f''"
proof -
  from example_async_run obtain s' where
    run: "arun quiet example_async [Started ''f'' 0, Internal, Delivered 0 example_action, Received 0 example_action] s'" by blast
  from flow_actions_in_order [OF example_async_idle run, of 0] show ?thesis
    by (intro exI [of _ s']) (auto simp: example_action_def)
qed

text \<open>
  The map of flows holds live flows only, under every interleaving: an entry leads to the
  context of a flow with that identifier whose goroutine is running and which nobody has
  cancelled or is about to cancel.\<close>

theorem registered_flows_live:
  assumes "idle s" "arun notify s es s'" "gm_get (afp_flows (prof s')) f = Some a"
  shows "\<exists>fc fn. heap s' a = Some fc \<and> fc_FlowID fc = f \<and> \<not> doneCh fc \<and> Run a fn \<in> set (tasks s') \<and> Cancel a \<notin> set (tasks s')"
proof -
  have "flow_inv s'" using assms flow_inv_idle flow_inv_run by blast
  then obtain fc where "heap s' a = Some fc" "fc_FlowID fc = f" "\<not> doneCh fc" "a \<in> set (running s')" "Cancel a \<notin> set (tasks s')"
    using assms(3) by (elim entryE [of s' f a]) (auto simp: flow_entry_def)
  moreover from this(4) obtain t where "t \<in> set (tasks s')" "a \<in> set (run_addr t)" by (auto simp: running_def)
  then have "\<exists>fn. Run a fn \<in> set (tasks s')" by (cases t rule: run_addr.cases) auto
  ultimately show ?thesis by blast
qed

theorem registered_flows_live_witness:
  "\<exists>fc fn. heap (snd (StartFlow_async example_start example_async)) 0 = Some fc \<and> fc_FlowID fc = ''f'' \<and> \<not> doneCh fc
    \<and> Run 0 fn \<in> set (tasks (snd (StartFlow_async example_start example_async)))
    \<and> Cancel 0 \<notin> set (tasks (snd (StartFlow_async example_start example_async)))"
  by (rule registered_flows_live [OF example_async_idle example_started])
     (simp add: StartFlow_async_def example_start_def example_async_def Handle_def NewAsyncFlowProfile_def Let_def)

text \<open>
  C25: As long as no identifier is started twice, a flow goroutine that is no longer in the map has
  been told to stop: its context is cancelled, so that neither a wait nor a delivery to it blocks,
  or the operation that removed it is about to cancel it.\<close>

theorem removed_flows_told:
  assumes "idle s" "arun notify s es s'" "distinct (started_ids es)"
    and "Run a fn \<in> set (tasks s')" "heap s' a = Some fc" "gm_get (afp_flows (prof s')) (fc_FlowID fc) \<noteq> Some a"
  shows "Cancel a \<in> set (tasks s') \<or> doneCh fc \<and> WaitForAction False None fc \<noteq> [] \<and> (\<forall>ps. deliverAction ps fc \<noteq> [])"
proof -
  have "a \<in> set (running s')" using assms(4) by (force simp: running_def)
  with told_ok_run [OF assms(2,1,3)] assms(5,6) have "told s' a"
    by (auto simp: told_ok_def flow_entry_def)
  with assms(5) show ?thesis by (auto simp: told_def WaitForAction_def deliverAction_def)
qed

theorem removed_flows_told_witness:
  "Cancel 0 \<in> set (tasks (CancelFlow ''f'' (snd (StartFlow_async example_start example_async))))"
proof -
  let ?s = "CancelFlow ''f'' (snd (StartFlow_async example_start example_async))" and ?fc = "newFlowContext ''f'' ''t'' None"
  have run: "arun quiet example_async ([Started ''f'' 0] @ [Internal]) ?s"
    by (rule arun_more [OF example_started astep.drop])
  have "Run 0 () \<in> set (tasks ?s)" "heap ?s 0 = Some ?fc" "gm_get (afp_flows (prof ?s)) (fc_FlowID ?fc) \<noteq> Some 0"
    by (simp_all add: StartFlow_async_def CancelFlow_def remove_flow_def example_start_def example_async_def Handle_def
        NewAsyncFlowProfile_def newFlowContext_def Let_def zero_FlowStartParams_def)
  from removed_flows_told [OF example_async_idle run _ this] show ?thesis
    by (simp add: newFlowContext_def)
qed

text \<open>
  Starting an identifier that is already running strands a flow. When the first of the two
  goroutines returns, the deferred cleanup removes the entry of the second: its goroutine keeps
  running, is not cancelled, and neither \<open>CancelFlow\<close> nor an action can reach it any more.\<close>

theorem duplicate_flow_stranded:
  "\<exists>es s'. arun quiet example_async es s' \<and> Run 1 () \<in> set (tasks s') \<and> \<not> told s' 1
     \<and> CancelFlow ''f'' s' = s' \<and> fst (HandleAction_lookup example_action s') \<noteq> None"
proof -
  let ?s1 = "snd (StartFlow_async example_start example_async)"
  let ?s2 = "snd (StartFlow_async example_start ?s1)"
  let ?fc = "newFlowContext ''f'' ''t'' None"
  let ?s3 = "flow_exit quiet 0 ?fc None ([Run 1 ()] @ []) ?s2"
  have s2: "tasks ?s2 = [Run 1 ()] @ Run 0 () # []" "heap ?s2 0 = Some ?fc"
    by (simp_all add: StartFlow_async_def example_start_def example_async_def Handle_def NewAsyncFlowProfile_def Let_def
        zero_FlowStartParams_def)
  have "astep quiet ?s1 (Started (fsp_FlowID example_start) (next_fc ?s1)) ?s2"
    by (rule astep.start)
       (simp add: StartFlow_async_def example_async_def example_start_def Handle_def NewAsyncFlowProfile_def Let_def)
  from arun_more [OF arun_more [OF example_started this] astep.return [OF s2]]
  have "\<exists>es. arun quiet example_async es ?s3" by blast
  moreover have "Run 1 () \<in> set (tasks ?s3) \<and> \<not> told ?s3 1 \<and> CancelFlow ''f'' ?s3 = ?s3 \<and> fst (HandleAction_lookup example_action ?s3) \<noteq> None"
    by (simp add: flow_exit_def StartFlow_async_def CancelFlow_def remove_flow_def HandleAction_lookup_def told_def example_start_def example_async_def
        example_action_def Handle_def NewAsyncFlowProfile_def newFlowContext_def Let_def zero_FlowStartParams_def)
  ultimately show ?thesis by blast
qed

end
