(* ===== verification/Flow_Wire.thy ===== *)
theory Flow_Wire
  imports Flow_Props Peer_Wire
begin

text \<open>
  Flows between two peers: what the goroutine of a flow reports through its \<open>FlowContext\<close>
  (flowcontext.go) is written by the peer's \<open>Notify\<close> and handled by the other peer, and a flow that
  is started by a call runs at the other peer and is tracked there.
\<close>

section \<open>The envelopes of flow messages\<close>

lemma envelope_FlowStartParams:
  "portable_FlowStartParams x \<Longrightarrow> unmarshal un_Envelope zero_Envelope (ms_FlowStartParams x) = Some \<lparr>env_WMP = fsp_WMP x\<rparr>"
  unfolding ms_FlowStartParams_def always_unless zero_Envelope_def
  by (rule envelope_read [of fields_FlowStartParams zero_FlowStartParams _ _ x],
      intro find_FlowStartParams [THEN unless_more] find_FlowStartParams [THEN unless_last])
     (auto simp: portable_FlowStartParams_def zero_FlowStartParams_def codec_rules raw_depth_def unless_def upcase_def intro!: codec_intros)

lemma envelope_FlowProgressParams:
  "portable_FlowProgressParams x \<Longrightarrow> unmarshal un_Envelope zero_Envelope (ms_FlowProgressParams x) = Some \<lparr>env_WMP = fpp_WMP x\<rparr>"
  unfolding ms_FlowProgressParams_def always_unless zero_Envelope_def
  by (rule envelope_read [of fields_FlowProgressParams zero_FlowProgressParams _ _ x],
      intro find_FlowProgressParams [THEN unless_more] find_FlowProgressParams [THEN unless_last])
     (auto simp: portable_FlowProgressParams_def zero_FlowProgressParams_def codec_rules raw_depth_def unless_def upcase_def intro!: codec_intros)

lemma envelope_FlowCompleteParams:
  "portable_FlowCompleteParams x \<Longrightarrow> unmarshal un_Envelope zero_Envelope (ms_FlowCompleteParams x) = Some \<lparr>env_WMP = fcp_WMP x\<rparr>"
  unfolding ms_FlowCompleteParams_def always_unless zero_Envelope_def
  by (rule envelope_read [of fields_FlowCompleteParams zero_FlowCompleteParams _ _ x],
      intro find_FlowCompleteParams [THEN unless_more] find_FlowCompleteParams [THEN unless_last])
     (auto simp: portable_FlowCompleteParams_def zero_FlowCompleteParams_def codec_rules raw_depth_def unless_def upcase_def intro!: codec_intros)

lemma envelope_FlowErrorParams:
  "portable_FlowErrorParams x \<Longrightarrow> unmarshal un_Envelope zero_Envelope (ms_FlowErrorParams x) = Some \<lparr>env_WMP = fep_WMP x\<rparr>"
  unfolding ms_FlowErrorParams_def always_unless zero_Envelope_def
  by (rule envelope_read [of fields_FlowErrorParams zero_FlowErrorParams _ _ x],
      intro find_FlowErrorParams [THEN unless_more] find_FlowErrorParams [THEN unless_last])
     (auto simp: portable_FlowErrorParams_def zero_FlowErrorParams_def codec_rules raw_depth_def unless_def upcase_def intro!: codec_intros)

section \<open>Reports of a flow\<close>

datatype flow_report =
    ProgressReport bytes raw
  | CompleteReport raw
  | ErrorReport int bytes raw

text \<open>What a flow function calls to report: \<open>Progress\<close>, \<open>Complete\<close> or \<open>Error\<close>.\<close>

definition send_report :: "'w notify \<Rightarrow> FlowContext \<Rightarrow> flow_report \<Rightarrow> 'w \<Rightarrow> go_error option \<times> 'w" where
  "send_report notify fc u =
     (case u of
        ProgressReport step payload \<Rightarrow> Progress notify fc step (map_option Some payload)
      | CompleteReport result \<Rightarrow> Complete notify fc (map_option Some result)
      | ErrorReport code message data \<Rightarrow> Error_flow notify fc code message (map_option Some data))"

definition portable_report :: "flow_report \<Rightarrow> bool" where
  "portable_report u \<longleftrightarrow>
     (case u of
        ProgressReport step payload \<Rightarrow> ascii step \<and> portable_raw payload
      | CompleteReport result \<Rightarrow> portable_raw result
      | ErrorReport code message data \<Rightarrow> int64 code \<and> ascii message \<and> portable_raw data)"

text \<open>
  What becomes of a report at the other peer: the profile that owns the flow gets it, and loses the
  flow when the report ends it; without an owner the application handler gets it.
\<close>

definition give_report :: "'w Peer \<Rightarrow> Context \<Rightarrow> bytes \<Rightarrow> flow_report \<Rightarrow> 'w dstate \<Rightarrow> 'w dstate" where
  "give_report q ctx fid u st =
     (case u of
        ProgressReport step payload \<Rightarrow>
          (let ps = \<lparr>fpp_WMP = zero_Metadata, fpp_FlowID = fid, fpp_Step = step, fpp_Payload = payload\<rparr> in
           case flowOwners st fid of
             Some fh \<Rightarrow> st\<lparr>world := fh_HandleProgress fh ctx ps (world st)\<rparr>
           | None \<Rightarrow> st\<lparr>world := h_FlowProgress (handler q) ctx ps (world st)\<rparr>)
      | CompleteReport result \<Rightarrow>
          (let ps = \<lparr>fcp_WMP = zero_Metadata, fcp_FlowID = fid, fcp_Result = result\<rparr> in
           case flowOwners st fid of
             Some fh \<Rightarrow> \<lparr>flowOwners = (flowOwners st)(fid := None), world = fh_HandleComplete fh ctx ps (world st)\<rparr>
           | None \<Rightarrow> st\<lparr>world := h_FlowComplete (handler q) ctx ps (world st)\<rparr>)
      | ErrorReport code message data \<Rightarrow>
          (let ps = \<lparr>fep_WMP = zero_Metadata, fep_FlowID = fid, fep_Code = code, fep_Message = message, fep_Data = data\<rparr> in
           case flowOwners st fid of
             Some fh \<Rightarrow> \<lparr>flowOwners = (flowOwners st)(fid := None), world = fh_HandleError fh ctx ps (world st)\<rparr>
           | None \<Rightarrow> st\<lparr>world := h_FlowError (handler q) ctx ps (world st)\<rparr>))"

lemma handle_notified:
  assumes "open_peer q" "unmarshal un_Envelope zero_Envelope (Some p) = Some zero_Envelope"
  shows "handleRequest q ctx (notified method p) st = snd (dispatchMethodInternal q ctx method (Some p) st)"
proof -
  have "enrich q (notified method p) ctx w = ctx" for w
    using assms(2)
    by (simp add: enrich_def notified_def IsNotification_def raw_empty_def zero_Envelope_def zero_Metadata_def Let_def split: option.splits)
  with assms(1) show ?thesis
    by (simp add: handleRequest_def authorize_def validate_def run_request_def runMiddleware_def open_peer_def notified_def
        IsNotification_def raw_empty_def case_prod_beta Let_def)
qed

lemma zero_Metadata_portable: "portable_Metadata zero_Metadata"
  by code_simp

lemma report_delivered:
  assumes "codes False 31 un zero t x" "unmarshal un_Envelope zero_Envelope t = Some zero_Envelope" "open_peer q" "ascii method" "method \<noteq> []"
    "\<And>w. act w = Notify sender ctx method t w"
    "\<And>ctx' p st. unmarshal un zero (Some p) = Some x \<Longrightarrow> snd (dispatchMethodInternal q ctx' method (Some p) st) = give_report q ctx' fid u st"
  shows "\<exists>data r. act = t_WriteMessage (transport sender) ctx data
    \<and> (\<forall>ctx' ps. int (length data) \<le> maxMessageSize q \<longrightarrow> serve_message q ctx' data ps = ps\<lparr>spawned := spawned ps @ [r]\<rparr>)
    \<and> (\<forall>ctx' st. handleRequest q ctx' r st = give_report q ctx' fid u st)"
proof -
  from assms(1,4,5) obtain data p where d: "t = Some p" "unmarshal un zero (Some p) = Some x"
    "Notify sender ctx method t = t_WriteMessage (transport sender) ctx data"
    "\<And>ctx' ps. int (length data) \<le> maxMessageSize q \<Longrightarrow> serve_message q ctx' data ps = ps\<lparr>spawned := spawned ps @ [notified method p]\<rparr>"
    by (rule Notify_served [where sender = sender and ctx = ctx and q = q]) blast
  have "handleRequest q ctx' (notified method p) st = give_report q ctx' fid u st" for ctx' st
    using handle_notified [OF assms(3)] assms(2) assms(7) [OF d(2)] by (simp add: d(1))
  moreover have "act = t_WriteMessage (transport sender) ctx data" using assms(6) d(3) by (intro ext) simp
  ultimately show ?thesis using d(4) by blast
qed

lemma dispatch_reports:
  "unmarshal un_FlowProgressParams zero_FlowProgressParams (Some p) = Some x \<Longrightarrow>
     dispatchMethodInternal q ctx MethodFlowProgress (Some p) st = flow_progress q ctx x st"
  "unmarshal un_FlowCompleteParams zero_FlowCompleteParams (Some p) = Some y \<Longrightarrow>
     dispatchMethodInternal q ctx MethodFlowComplete (Some p) st = flow_complete q ctx y st"
  "unmarshal un_FlowErrorParams zero_FlowErrorParams (Some p) = Some z \<Longrightarrow>
     dispatchMethodInternal q ctx MethodFlowError (Some p) st = flow_error q ctx z st"
  by (simp_all add: dispatchMethodInternal_def with_params_def)

lemmas give_report_defs = give_report_def flow_progress_def flow_complete_def flow_error_def lookupFlowOwner_def untrackFlow_def notify_call_def

text \<open>
  C8: What a flow reports arrives at the other peer. A flow with an ASCII identifier that calls
  \<open>Progress\<close>, \<open>Complete\<close> or \<open>Error\<close> with ASCII texts and a compact JSON payload hands exactly one message
  to its transport. When a peer without authorizer, validator and middleware serves that message it
  starts exactly one goroutine, and this goroutine gives the report, with the same flow, step,
  result or error, to the profile that owns the flow there, or to the application handler when no
  profile does; a result or an error ends the ownership.
\<close>

theorem flow_reports_delivered:
  assumes "portable_report u" "ascii (fc_FlowID fc)" "open_peer q"
  shows "\<exists>data r. send_report (Notify p ctx) fc u = t_WriteMessage (transport p) ctx data
    \<and> (\<forall>ctx' ps. int (length data) \<le> maxMessageSize q \<longrightarrow> serve_message q ctx' data ps = ps\<lparr>spawned := spawned ps @ [r]\<rparr>)
    \<and> (\<forall>ctx' st. handleRequest q ctx' r st = give_report q ctx' (fc_FlowID fc) u st)"
proof (cases u)
  case (ProgressReport step payload)
  let ?x = "\<lparr>fpp_WMP = zero_Metadata, fpp_FlowID = fc_FlowID fc, fpp_Step = step, fpp_Payload = payload\<rparr>"
  have x: "portable_FlowProgressParams ?x"
    using assms(1,2) zero_Metadata_portable by (simp add: ProgressReport portable_report_def portable_FlowProgressParams_def)
  show ?thesis
  proof (rule report_delivered [OF codes_FlowProgressParams [OF refl x] _ assms(3)])
    show "unmarshal un_Envelope zero_Envelope (ms_FlowProgressParams ?x) = Some zero_Envelope"
      using envelope_FlowProgressParams [OF x] by (simp add: zero_Envelope_def)
    show "send_report (Notify p ctx) fc u w = Notify p ctx MethodFlowProgress (ms_FlowProgressParams ?x) w" for w
      by (cases payload) (simp_all add: ProgressReport send_report_def Progress_def)
  qed (auto simp: dispatch_reports [simplified] give_report_defs Let_def ProgressReport raw_depth_def split: option.splits)
next
  case (CompleteReport result)
  let ?x = "\<lparr>fcp_WMP = zero_Metadata, fcp_FlowID = fc_FlowID fc, fcp_Result = result\<rparr>"
  have x: "portable_FlowCompleteParams ?x"
    using assms(1,2) zero_Metadata_portable by (simp add: CompleteReport portable_report_def portable_FlowCompleteParams_def)
  show ?thesis
  proof (rule report_delivered [OF codes_FlowCompleteParams [OF refl x] _ assms(3)])
    show "unmarshal un_Envelope zero_Envelope (ms_FlowCompleteParams ?x) = Some zero_Envelope"
      using envelope_FlowCompleteParams [OF x] by (simp add: zero_Envelope_def)
    show "send_report (Notify p ctx) fc u w = Notify p ctx MethodFlowComplete (ms_FlowCompleteParams ?x) w" for w
      by (cases result) (simp_all add: CompleteReport send_report_def Complete_def)
  qed (auto simp: dispatch_reports [simplified] give_report_defs Let_def CompleteReport raw_depth_def split: option.splits)
next
  case (ErrorReport code message data)
  let ?x = "\<lparr>fep_WMP = zero_Metadata, fep_FlowID = fc_FlowID fc, fep_Code = code, fep_Message = message, fep_Data = data\<rparr>"
  have x: "portable_FlowErrorParams ?x"
    using assms(1,2) zero_Metadata_portable by (simp add: ErrorReport portable_report_def portable_FlowErrorParams_def)
  show ?thesis
  proof (rule report_delivered [OF codes_FlowErrorParams [OF refl x] _ assms(3)])
    show "unmarshal un_Envelope zero_Envelope (ms_FlowErrorParams ?x) = Some zero_Envelope"
      using envelope_FlowErrorParams [OF x] by (simp add: zero_Envelope_def)
    show "send_report (Notify p ctx) fc u w = Notify p ctx MethodFlowError (ms_FlowErrorParams ?x) w" for w
      by (cases data) (simp_all add: ErrorReport send_report_def Error_flow_def)
  qed (auto simp: dispatch_reports [simplified] give_report_defs Let_def ErrorReport raw_depth_def split: option.splits)
qed

theorem flow_reports_delivered_witness:
  "\<exists>data r. send_report (Notify example_peer background) (newFlowContext ''f'' ''demo'' None) (ProgressReport ''consent'' (Some ''[1]''))
      = t_WriteMessage (transport example_peer) background data
    \<and> (\<forall>ctx' ps. int (length data) \<le> maxMessageSize example_peer \<longrightarrow> serve_message example_peer ctx' data ps = ps\<lparr>spawned := spawned ps @ [r]\<rparr>)
    \<and> (\<forall>ctx' st. handleRequest example_peer ctx' r st = give_report example_peer ctx' ''f'' (ProgressReport ''consent'' (Some ''[1]'')) st)"
proof -
  have "portable_report (ProgressReport ''consent'' (Some ''[1]''))" by code_simp
  then show ?thesis
    using example_peer_open flow_reports_delivered [of "ProgressReport ''consent'' (Some ''[1]'')" "newFlowContext ''f'' ''demo'' None" example_peer example_peer background]
    by (simp add: newFlowContext_def)
qed

section \<open>Starting a flow at the other peer\<close>

text \<open>
  C2: Starting a flow at the other peer. A waiting call of \<open>wmp.flow.start\<close> with portable parameters, whose
  bytes a peer without authorizer, validator and middleware handles, starts the flow there: the profile
  registered for the flow's type is called with exactly these parameters, in a context that has the
  identifier of the call and the sender and session of the metadata. When the profile accepts with a
  portable result, it owns the flow from then on, and once the calling peer serves the answer the
  call returns this result.
\<close>

theorem flow_start_end_to_end:
  assumes "reachable cl s" "pending (peer_state s) rid = Some ch" "calls s ch = Some c" "call_phase c = Waiting"
    and "NewRequest rid MethodFlowStart (ms_FlowStartParams x) = Inr (call_req c)" "rid \<noteq> []" "ascii rid" "portable_FlowStartParams x"
    and "ms_Request (call_req c) = Some data" "int (length data) \<le> maxMessageSize srv"
    and "open_peer srv" "flowHandlers (registry srv) (fsp_FlowType x) = Some fh"
    and "fh_StartFlow fh (call_context srv ctx rid (fsp_WMP x) (world (disp ps))) x (world (disp ps)) = ((Some res, None), w')"
    and "portable_FlowStartResult res"
    and "\<And>b. ms_Response (result_response rid (RFlowStart (Some res))) = Some b \<Longrightarrow> int (length b) \<le> maxMessageSize cl"
  shows "\<exists>b s' r. HandleRequestSync srv ctx data ps
      = ((Some b, None), ps\<lparr>disp := \<lparr>flowOwners = (flowOwners (disp ps))(fsp_FlowID x \<mapsto> fh), world = w'\<rparr>\<rparr>)
    \<and> (cstep cl)\<^sup>*\<^sup>* (s\<lparr>peer_state := serve_message cl ctx b (peer_state s)\<rparr>) s'
    \<and> pending (peer_state s') rid = None \<and> calls s' ch = Some (c\<lparr>call_phase := Returned (Inr r)\<rparr>)
    \<and> call_result un_FlowStartResult zero_FlowStartResult True r = Inr res"
proof (rule typed_call [OF assms(1-7) _ codes_FlowStartParams [OF refl assms(8), of _ False] envelope_FlowStartParams [OF assms(8)] assms(9-11) _ _ _ assms(15)])
  show "codes False 31 un_FlowStartResult zero_FlowStartResult (marshal_result (RFlowStart (Some res))) res"
    using codes_FlowStartResult [OF refl assms(14), of 31 False] by (simp add: marshal_result_def ms_ptr_def raw_depth_def)
  show "dispatchMethodInternal srv (call_context srv ctx rid (fsp_WMP x) (world (disp ps))) MethodFlowStart (Some p) (disp ps)
      = ((RFlowStart (Some res), None), \<lparr>flowOwners = (flowOwners (disp ps))(fsp_FlowID x \<mapsto> fh), world = w'\<rparr>)"
    if "unmarshal un_FlowStartParams zero_FlowStartParams (Some p) = Some x" for p
    using that assms(12,13)
    by (simp add: dispatchMethodInternal_def with_params_def flow_start_def lookupFlowHandler_def trackFlow_def)
qed (simp_all add: raw_depth_def)

definition demo_start :: FlowStartParams where
  "demo_start = zero_FlowStartParams\<lparr>fsp_WMP := zero_Metadata\<lparr>md_Version := ''0.1'', md_Sender := ''alice''\<rparr>, fsp_FlowID := ''f'',
     fsp_FlowType := ''demo''\<rparr>"

definition demo_request :: Request where
  "demo_request = \<lparr>req_JSONRPC = ''2.0'', req_ID = ms_string ''1'', req_Method = MethodFlowStart, req_Params = ms_FlowStartParams demo_start\<rparr>"

lemma demo_request_text:
  "portable_FlowStartParams demo_start" "ms_FlowStartParams demo_start \<noteq> None"
  "case ms_Request demo_request of None \<Rightarrow> False | Some data \<Rightarrow> length data \<le> 1000"
  "case ms_Response (result_response ''1'' (RFlowStart (Some zero_FlowStartResult))) of None \<Rightarrow> False | Some b \<Rightarrow> length b \<le> 1000"
  "portable_FlowStartResult zero_FlowStartResult"
  by code_simp+

theorem flow_start_end_to_end_witness:
  "\<exists>data b s s' r. ms_Request demo_request = Some data \<and> reachable example_peer s
    \<and> HandleRequestSync example_peer background data (peer_state s)
      = ((Some b, None), (peer_state s)\<lparr>disp := (disp (peer_state s))\<lparr>flowOwners := (flowOwners (disp (peer_state s)))(''f'' \<mapsto> example_flows)\<rparr>\<rparr>)
    \<and> (cstep example_peer)\<^sup>*\<^sup>* (s\<lparr>peer_state := serve_message example_peer background b (peer_state s)\<rparr>) s'
    \<and> calls s' 0 = Some \<lparr>call_id = ''1'', call_req = demo_request, call_phase = Returned (Inr r)\<rparr>
    \<and> call_result un_FlowStartResult zero_FlowStartResult True r = Inr zero_FlowStartResult"
proof -
  obtain data where data: "ms_Request demo_request = Some data" "int (length data) \<le> maxMessageSize example_peer"
    using demo_request_text(3) by (cases "ms_Request demo_request") (auto simp: example_peer_eq)
  have fits: "int (length b) \<le> maxMessageSize example_peer"
    if "ms_Response (result_response ''1'' (RFlowStart (Some zero_FlowStartResult))) = Some b" for b
    using demo_request_text(4) that by (simp add: example_peer_eq)
  have req: "NewRequest ''1'' MethodFlowStart (ms_FlowStartParams demo_start) = Inr demo_request"
    using demo_request_text(2) by (auto simp: NewRequest_def demo_request_def)
  from req data(1) obtain s where s: "reachable example_peer s" "pending (peer_state s) ''1'' = Some 0"
    "calls s 0 = Some \<lparr>call_id = ''1'', call_req = demo_request, call_phase = Waiting\<rparr>" by (rule example_waiting)
  have fh: "flowHandlers (registry example_peer) (fsp_FlowType demo_start) = Some example_flows"
    using example_flow_handler by (simp add: demo_start_def)
  have "fh_StartFlow example_flows c demo_start w = ((Some zero_FlowStartResult, None), w)" for c w
    by (simp add: example_flows_def)
  note result = flow_start_end_to_end [OF s _ _ _ _ demo_request_text(1) _ data(2) example_peer_open fh this demo_request_text(5) fits]
  have "\<exists>b s' r. HandleRequestSync example_peer background data (peer_state s)
      = ((Some b, None), (peer_state s)\<lparr>disp := (disp (peer_state s))\<lparr>flowOwners := (flowOwners (disp (peer_state s)))(''f'' \<mapsto> example_flows)\<rparr>\<rparr>)
    \<and> (cstep example_peer)\<^sup>*\<^sup>* (s\<lparr>peer_state := serve_message example_peer background b (peer_state s)\<rparr>) s'
    \<and> pending (peer_state s') ''1'' = None \<and> calls s' 0 = Some \<lparr>call_id = ''1'', call_req = demo_request, call_phase = Returned (Inr r)\<rparr>
    \<and> call_result un_FlowStartResult zero_FlowStartResult True r = Inr zero_FlowStartResult"
    using result [of background "peer_state s"] req data(1) by (cases "disp (peer_state s)") (simp add: demo_start_def)
  with data(1) s(1) show ?thesis by blast
qed

end
