(* ===== verification/Peer_World.thy ===== *)
theory Peer_World
  imports Peer_Calls
begin

text \<open>
  What a peer does to the state of its surroundings. The peer changes the world only through
  the operations it was given: the transport, the application handler, profiles, hooks, the
  session store, the authorizer, the validator and middleware. A relation between states that
  is reflexive and transitive and that all of these keep is therefore kept by a peer that
  serves requests, responses and its own calls, under every interleaving (locale
  \<open>world_relation\<close>).
\<close>

section \<open>Operations that keep a relation\<close>

definition call_in :: "('w \<Rightarrow> 'w \<Rightarrow> bool) \<Rightarrow> ('w \<Rightarrow> 'r \<times> 'w) \<Rightarrow> bool" where
  "call_in R f \<longleftrightarrow> (\<forall>w. R w (snd (f w)))"

definition note_in :: "('w \<Rightarrow> 'w \<Rightarrow> bool) \<Rightarrow> ('w \<Rightarrow> 'w) \<Rightarrow> bool" where
  "note_in R f \<longleftrightarrow> (\<forall>w. R w (f w))"

definition flow_handler_in :: "('w \<Rightarrow> 'w \<Rightarrow> bool) \<Rightarrow> 'w FlowHandler \<Rightarrow> bool" where
  "flow_handler_in R fh \<longleftrightarrow>
     (\<forall>ctx ps. call_in R (fh_StartFlow fh ctx ps)) \<and> (\<forall>ctx ps. call_in R (fh_HandleAction fh ctx ps))
     \<and> (\<forall>ctx ps. note_in R (fh_HandleProgress fh ctx ps)) \<and> (\<forall>ctx ps. note_in R (fh_HandleComplete fh ctx ps))
     \<and> (\<forall>ctx ps. note_in R (fh_HandleError fh ctx ps))"

definition handler_in :: "('w \<Rightarrow> 'w \<Rightarrow> bool) \<Rightarrow> 'w Handler \<Rightarrow> bool" where
  "handler_in R h \<longleftrightarrow>
     (\<forall>ctx ps. call_in R (h_SessionCreate h ctx ps)) \<and> (\<forall>ctx ps. call_in R (h_SessionResume h ctx ps))
     \<and> (\<forall>ctx ps. note_in R (h_SessionClose h ctx ps)) \<and> (\<forall>ctx ps. call_in R (h_SessionAuthenticate h ctx ps))
     \<and> (\<forall>ctx ps. note_in R (h_MessageDeliver h ctx ps)) \<and> (\<forall>ctx ps. note_in R (h_MessageAck h ctx ps))
     \<and> (\<forall>ctx ps. call_in R (h_MessagePoll h ctx ps)) \<and> (\<forall>ctx ps. note_in R (h_MessageStatus h ctx ps))
     \<and> (\<forall>ctx ps. call_in R (h_CapabilityUpdate h ctx ps)) \<and> (\<forall>ctx ps. call_in R (h_CapabilityList h ctx ps))
     \<and> (\<forall>ctx ps. call_in R (h_FlowStart h ctx ps)) \<and> (\<forall>ctx ps. note_in R (h_FlowProgress h ctx ps))
     \<and> (\<forall>ctx ps. call_in R (h_FlowAction h ctx ps)) \<and> (\<forall>ctx ps. note_in R (h_FlowComplete h ctx ps))
     \<and> (\<forall>ctx ps. note_in R (h_FlowError h ctx ps)) \<and> (\<forall>ctx ps. call_in R (h_FlowCancel h ctx ps))
     \<and> (\<forall>ctx ps. call_in R (h_Resolve h ctx ps))
     \<and> (\<forall>cnh ctx ps. h_CredentialNotification h = Some cnh \<longrightarrow> note_in R (cnh ctx ps))"

text \<open>The owners of flows, and a computation on the peer's state that keeps the relation and the owners.\<close>

definition owners_in :: "('w \<Rightarrow> 'w \<Rightarrow> bool) \<Rightarrow> 'w dstate \<Rightarrow> bool" where
  "owners_in R st \<longleftrightarrow> (\<forall>fid fh. flowOwners st fid = Some fh \<longrightarrow> flow_handler_in R fh)"

definition moves_in :: "('w \<Rightarrow> 'w \<Rightarrow> bool) \<Rightarrow> ('w dstate \<Rightarrow> 'r \<times> 'w dstate) \<Rightarrow> bool" where
  "moves_in R k \<longleftrightarrow> (\<forall>st. owners_in R st \<longrightarrow> R (world st) (world (snd (k st))) \<and> owners_in R (snd (k st)))"

definition registry_in :: "('w \<Rightarrow> 'w \<Rightarrow> bool) \<Rightarrow> 'w registry \<Rightarrow> bool" where
  "registry_in R r \<longleftrightarrow>
     (\<forall>t fh. flowHandlers r t = Some fh \<longrightarrow> flow_handler_in R fh)
     \<and> (\<forall>m mh ctx ps. methods r m = Some mh \<longrightarrow> call_in R (mh_HandleMethod mh ctx m ps))
     \<and> (\<forall>t rh ctx ps. resolvers r t = Some rh \<longrightarrow> call_in R (rh_HandleResolve rh ctx ps))
     \<and> (\<forall>h ctx s ps. h \<in> set (sessionHooks r) \<longrightarrow> (\<forall>w. R w (snd (snd (sh_OnSessionCreate h ctx s ps w)))))
     \<and> (\<forall>mw ctx m ps chain. mw \<in> set (middleware r) \<longrightarrow> (\<forall>ctx m ps. moves_in R (chain ctx m ps)) \<longrightarrow> moves_in R (mw ctx m ps chain))"

text \<open>Everything a peer was given but its transport, and the peer with its transport.\<close>

definition app_in :: "('w \<Rightarrow> 'w \<Rightarrow> bool) \<Rightarrow> 'w Peer \<Rightarrow> bool" where
  "app_in R p \<longleftrightarrow>
     handler_in R (handler p) \<and> registry_in R (registry p)
     \<and> (\<forall>store s. sessionStore p = Some store \<longrightarrow> call_in R (ss_Create store s))
     \<and> (\<forall>v m ps. validator p = Some v \<longrightarrow> call_in R (v m ps))
     \<and> (\<forall>a ctx m ps. authorizer p = Some a \<longrightarrow> call_in R (a ctx m ps))"

definition peer_in :: "('w \<Rightarrow> 'w \<Rightarrow> bool) \<Rightarrow> 'w Peer \<Rightarrow> bool" where
  "peer_in R p \<longleftrightarrow> app_in R p \<and> (\<forall>ctx data. call_in R (t_WriteMessage (transport p) ctx data))"

lemmas in_defs = call_in_def note_in_def flow_handler_in_def

section \<open>The peer keeps the relation\<close>

text \<open>The state of the world that the goroutines of a peer share.\<close>

abbreviation cworld :: "'w cstate \<Rightarrow> 'w" where
  "cworld s \<equiv> world (disp (peer_state s))"

definition kept_state :: "('w \<Rightarrow> 'w \<Rightarrow> bool) \<Rightarrow> 'w \<Rightarrow> 'w dstate \<Rightarrow> bool" where
  "kept_state R w st \<longleftrightarrow> R w (world st) \<and> owners_in R st"

locale world_relation =
  fixes R :: "'w \<Rightarrow> 'w \<Rightarrow> bool"
  assumes same: "R w w"
    and chained: "R u v \<Longrightarrow> R v w \<Longrightarrow> R u w"
begin

lemma moves_fail: "moves_in R (fail c data)"
  by (simp add: moves_in_def fail_def same)

lemma moves_call: "call_in R f \<Longrightarrow> moves_in R (ret_call wrap f)"
  by (simp add: moves_in_def ret_call_def call_in_def owners_in_def Let_def case_prod_beta)

lemma moves_note: "note_in R f \<Longrightarrow> moves_in R (notify_call f)"
  by (simp add: moves_in_def notify_call_def note_in_def owners_in_def)

lemma moves_params: "(\<And>ps. moves_in R (k ps)) \<Longrightarrow> moves_in R (with_params un zero params k)"
  by (simp add: moves_in_def with_params_def fail_def same split: option.splits)

lemmas moves_rules = moves_fail moves_call moves_note moves_params

lemma moves_hooks:
  assumes "\<forall>h \<in> set hs. \<forall>ctx s ps w. R w (snd (snd (sh_OnSessionCreate h ctx s ps w)))"
  shows "R w (snd (snd (create_hooks_loop hs ctx ps s w)))"
  using assms
proof (induction hs arbitrary: s w)
  case Nil
  then show ?case by (simp add: same)
next
  case (Cons h hs)
  obtain e s' w' where hook: "sh_OnSessionCreate h ctx s ps w = (e, s', w')" by (metis prod.exhaust)
  have "R w (snd (snd (sh_OnSessionCreate h ctx s ps w)))" using Cons.prems by simp
  then have "R w w'" by (simp add: hook)
  with Cons.IH Cons.prems show ?case by (auto simp: hook split: option.splits intro: chained)
qed

lemma moves_create:
  assumes "app_in R p"
  shows "moves_in R (session_create p ctx ps)"
proof -
  have h: "R w (snd (h_SessionCreate (handler p) ctx ps w))" for w
    using assms by (simp add: app_in_def handler_in_def call_in_def)
  have hooks: "R w (snd (snd (runSessionCreateHooks (registry p) ctx s ps w)))" for s w
    using moves_hooks [of "sessionHooks (registry p)"] assms
    by (simp add: runSessionCreateHooks_def app_in_def registry_in_def)
  have store: "R w (snd (ss_Create store s w))" if "sessionStore p = Some store" for store s w
    using assms that by (simp add: app_in_def call_in_def)
  have made: "R w w1" if "h_SessionCreate (handler p) ctx ps w = (r, w1)" for w r w1
    using h [of w] that by simp
  have hooked: "R w w2" if "R w w1" "runSessionCreateHooks (registry p) ctx s ps w1 = (e, s', w2)" for w w1 s e s' w2
    using hooks [of w1 s] chained [OF that(1)] that(2) by simp
  have stored: "R w (snd (ss_Create store s2 w2))" if "h_SessionCreate (handler p) ctx ps w = (r, w1)"
      "runSessionCreateHooks (registry p) ctx s ps w1 = (e, s2, w2)" "sessionStore p = Some store" for w r w1 s e s2 w2 store
    using chained [OF hooked [OF made [OF that(1)] that(2)] store [OF that(3)]] .
  show ?thesis
    by (auto simp: moves_in_def session_create_def fail_def same owners_in_def split: prod.splits option.splits
        intro: made hooked stored)
qed

lemma moves_start:
  assumes "app_in R p"
  shows "moves_in R (flow_start p ctx ps)"
proof (cases "flowHandlers (registry p) (fsp_FlowType ps)")
  case None
  with assms show ?thesis
    using moves_call [of "h_FlowStart (handler p) ctx ps"]
    by (simp add: flow_start_def lookupFlowHandler_def app_in_def handler_in_def moves_in_def)
next
  case (Some fh)
  with assms have "flow_handler_in R fh" by (auto simp: app_in_def registry_in_def)
  with Some show ?thesis
    by (auto simp: flow_start_def lookupFlowHandler_def moves_in_def owners_in_def in_defs trackFlow_def Let_def case_prod_beta)
qed

lemma moves_owned:
  assumes "app_in R p"
  shows "moves_in R (flow_progress p ctx pps)" "moves_in R (flow_action p ctx aps)" "moves_in R (flow_complete p ctx cps)"
    "moves_in R (flow_error p ctx eps)" "moves_in R (flow_cancel p ctx xps)"
proof -
  have h: "handler_in R (handler p)" using assms by (simp add: app_in_def)
  note ops = flow_owner_defs ret_call_def notify_call_def moves_in_def owners_in_def in_defs Let_def case_prod_beta
  show "moves_in R (flow_progress p ctx pps)" using h by (auto simp: flow_progress_def handler_in_def ops split: option.splits)
  show "moves_in R (flow_action p ctx aps)" using h by (auto simp: flow_action_def handler_in_def ops split: option.splits)
  show "moves_in R (flow_complete p ctx cps)" using h by (auto simp: flow_complete_def handler_in_def ops split: option.splits if_splits)
  show "moves_in R (flow_error p ctx eps)" using h by (auto simp: flow_error_def handler_in_def ops split: option.splits if_splits)
  show "moves_in R (flow_cancel p ctx xps)" using h by (auto simp: flow_cancel_def handler_in_def ops split: option.splits if_splits)
qed

lemma moves_resolve:
  assumes "app_in R p"
  shows "moves_in R (resolve p ctx ps)"
proof -
  have "moves_in R (ret_call RResolve (h_Resolve (handler p) ctx ps))"
    using assms by (intro moves_call) (simp add: app_in_def handler_in_def)
  moreover have "moves_in R (ret_call RResolve (rh_HandleResolve rh ctx ps))" if "resolvers (registry p) (rp_Type ps) = Some rh" for rh
    using assms that by (intro moves_call) (auto simp: app_in_def registry_in_def)
  ultimately show ?thesis by (auto simp: moves_in_def resolve_def lookupResolver_def split: option.splits)
qed

lemma moves_custom:
  assumes "app_in R p"
  shows "moves_in R (custom_method p ctx m ps)"
  using assms
  by (auto simp: moves_in_def custom_method_def lookupMethod_def fail_def same app_in_def registry_in_def call_in_def owners_in_def
      Let_def case_prod_beta split: option.splits)

lemma moves_resume:
  assumes "app_in R p"
  shows "moves_in R (session_resume p ctx ps)"
  using assms moves_call [of "h_SessionResume (handler p) ctx ps"] moves_fail
  by (simp add: app_in_def handler_in_def moves_in_def session_resume_def)

lemma moves_credential:
  assumes "app_in R p" "h_CredentialNotification (handler p) = Some cnh"
  shows "moves_in R (credential_notification cnh ctx ps)"
  using assms moves_note [of "cnh ctx ps"]
  by (auto simp: app_in_def handler_in_def moves_in_def credential_notification_def same split: option.splits)

lemma moves_if: "moves_in R f \<Longrightarrow> moves_in R g \<Longrightarrow> moves_in R (\<lambda>st. if b then f st else g st)"
  by (simp add: moves_in_def)

lemma moves_dispatch:
  assumes "app_in R p"
  shows "moves_in R (dispatchMethodInternal p ctx m ps)"
proof -
  have h: "handler_in R (handler p)" using assms by (simp add: app_in_def)
  have cred: "moves_in R (\<lambda>st. case h_CredentialNotification (handler p) of
      Some cnh \<Rightarrow> with_params un_CredentialNotificationParams zero_CredentialNotificationParams ps (credential_notification cnh ctx) st
    | None \<Rightarrow> fail ErrMethodNotFound None st)"
    using moves_credential [OF assms] moves_fail
    by (cases "h_CredentialNotification (handler p)") (auto intro: moves_params)
  show ?thesis
    unfolding dispatchMethodInternal_def [abs_def]
    by (intro moves_if moves_params moves_create [OF assms] moves_resume [OF assms] moves_start [OF assms] moves_owned [OF assms]
        moves_resolve [OF assms] moves_custom [OF assms] cred moves_call moves_note)
       (use h in \<open>simp_all add: handler_in_def\<close>)
qed

lemma moves_chain:
  assumes "\<forall>mw \<in> set mws. \<forall>ctx m ps chain. (\<forall>ctx m ps. moves_in R (chain ctx m ps)) \<longrightarrow> moves_in R (mw ctx m ps chain)"
    and "\<forall>ctx m ps. moves_in R (chain ctx m ps)"
  shows "moves_in R (build_chain mws chain ctx m ps)"
  using assms by (induction mws arbitrary: chain) simp_all

lemma moves_run:
  assumes "app_in R p"
  shows "moves_in R (run_request p ctx req)"
proof -
  have mws: "\<forall>mw \<in> set (rev (middleware (registry p))). \<forall>ctx m ps chain. (\<forall>ctx m ps. moves_in R (chain ctx m ps)) \<longrightarrow> moves_in R (mw ctx m ps chain)"
    using assms by (simp add: app_in_def registry_in_def)
  have "moves_in R (runMiddleware (registry p) ctx' (req_Method req) (req_Params req) (dispatchMethodInternal p))" for ctx'
    using moves_chain [OF mws] moves_dispatch [OF assms] by (simp add: runMiddleware_def)
  then show ?thesis by (simp add: moves_in_def run_request_def)
qed

lemma kept_moves: "moves_in R k \<Longrightarrow> kept_state R w st \<Longrightarrow> kept_state R w (snd (k st))"
  by (auto simp: kept_state_def moves_in_def intro: chained)

lemma kept_checks:
  assumes "app_in R p" "kept_state R w st"
  shows "authorize p ctx req st = (ok, st1) \<Longrightarrow> kept_state R w st1" "validate p req st = (e, st2) \<Longrightarrow> kept_state R w st2"
proof -
  have auth: "R v (snd (a ctx m ps v))" if "authorizer p = Some a" for a m ps v
    using assms(1) that by (simp add: app_in_def call_in_def)
  have val: "R v (snd (f m ps v))" if "validator p = Some f" for f m ps v
    using assms(1) that by (simp add: app_in_def call_in_def)
  show "kept_state R w st1" if "authorize p ctx req st = (ok, st1)"
    using assms(2) that auth by (auto simp: kept_state_def authorize_def owners_in_def Let_def case_prod_beta split: option.splits intro: chained)
  show "kept_state R w st2" if "validate p req st = (e, st2)"
    using assms(2) that val by (auto simp: kept_state_def validate_def owners_in_def Let_def case_prod_beta split: option.splits intro: chained)
qed

lemma kept_sync:
  assumes "app_in R p" "kept_state R w st"
  shows "kept_state R w (snd (sync_request p ctx req st))"
proof -
  obtain ok st1 where auth: "authorize p ctx req st = (ok, st1)" by (metis prod.exhaust)
  obtain e st2 where val: "validate p req st1 = (e, st2)" by (metis prod.exhaust)
  obtain res st3 where run: "run_request p ctx req st2 = (res, st3)" by (metis prod.exhaust)
  have st1: "kept_state R w st1" by (rule kept_checks(1) [OF assms auth])
  have st2: "kept_state R w st2" by (rule kept_checks(2) [OF assms(1) st1 val])
  have "kept_state R w st3" using kept_moves [OF moves_run [OF assms(1)] st2, of ctx req] by (simp add: run)
  with st1 st2 show ?thesis by (cases ok; cases e) (simp_all add: sync_request_def auth val run)
qed

lemma call_sendJSON: "peer_in R p \<Longrightarrow> call_in R (sendJSON p ctx v)"
  by (auto simp: call_in_def sendJSON_def peer_in_def same split: option.splits)

lemma kept_send: "peer_in R p \<Longrightarrow> kept_state R w st \<Longrightarrow> kept_state R w (send p ctx r st)"
  using call_sendJSON [of p ctx "ms_Response r"] by (auto simp: kept_state_def send_def owners_in_def call_in_def intro: chained)

lemma kept_request:
  assumes "peer_in R p" "kept_state R w st"
  shows "kept_state R w (handleRequest p ctx req st)"
proof -
  obtain c where "handleRequest p ctx req st = (case sync_request p ctx req st of
      (None, st') \<Rightarrow> st' | (Some r, st') \<Rightarrow> if IsNotification req then st' else send p c r st')"
    using handleRequest_sync by blast
  moreover have "kept_state R w (snd (sync_request p ctx req st))"
    using kept_sync [OF _ assms(2)] assms(1) by (simp add: peer_in_def)
  ultimately show ?thesis
    using kept_send [OF assms(1)] by (auto split: prod.splits option.splits)
qed

lemma kept_serve:
  assumes "peer_in R p" "kept_state R w (disp ps)"
  shows "kept_state R w (disp (serve_message p ctx data ps))" "kept_state R w (disp (snd (HandleRequestSync p ctx data ps)))"
proof -
  have response: "disp (handleResponse r ps) = disp ps" for r and ps :: "'w pstate"
    by (simp add: handleResponse_def Let_def split: option.splits)
  have one: "disp (dispatch m ps) = disp ps" for m and ps :: "'w pstate" by (simp add: dispatch_def response)
  have batch: "disp (dispatch_batch ms ps) = disp ps" for ms and ps :: "'w pstate"
    by (induction ms ps rule: dispatch_batch.induct) (simp_all add: one)
  have send: "kept_state R w (disp (send_ps p ctx r ps))" for r
    using kept_send [OF assms] by (simp add: send_ps_def)
  show "kept_state R w (disp (serve_message p ctx data ps))"
    using assms(2) send by (simp add: serve_message_def serve_single_def one batch split: go_result.splits option.splits sum.splits)
  show "kept_state R w (disp (snd (HandleRequestSync p ctx data ps)))"
    using assms(2) kept_sync [OF _ assms(2)] assms(1)
    by (auto simp: HandleRequestSync_def Let_def response peer_in_def split: sum.splits prod.splits option.splits)
       (metis snd_conv)+
qed

lemma kept_cstep:
  assumes "cstep p s s'" "peer_in R p" "kept_state R w (disp (peer_state s))"
  shows "kept_state R w (disp (peer_state s'))"
  using assms(1)
proof (cases rule: cstep.cases)
  case (send ch c ctx)
  have "disp (peer_state s') = (disp (peer_state s))\<lparr>world := snd (sendJSON p ctx (ms_Request (call_req c)) (cworld s))\<rparr>"
    using send by (auto simp: call_send_def set_phase_def forget_def set_pending_def set_world_def split: prod.splits option.splits)
  then show ?thesis using assms(3) call_sendJSON [OF assms(2)] by (auto simp: kept_state_def owners_in_def call_in_def intro: chained)
qed (use assms(2,3) kept_serve kept_request in
    \<open>auto simp: call_start_def call_receive_def call_cancel_def set_phase_def forget_def set_pending_def Let_def split: sum.splits\<close>)

end

end
