(* ===== verification/Flow_Peer.thy ===== *)
theory Flow_Peer
  imports Flow_Props Peer_World
begin

text \<open>
  The profile of asynchronous flows (flowcontext.go) inside a serving peer (peer.go): whatever
  requests, responses and calls the peer handles, and however they interleave with the flow
  goroutines, the profile makes only the steps of its own model.
\<close>

section \<open>Runs of the profile\<close>

lemma runs_append: "runs step t fs u \<Longrightarrow> runs step s es t \<Longrightarrow> runs step s (es @ fs) u"
proof (induction rule: runs.induct)
  case (more s' fs t' e u')
  then show ?case using runs.more [of step s "es @ fs" t' e u'] by simp
qed simp

definition flow_runs :: "'w notify \<Rightarrow> ('f, 'w) astate \<Rightarrow> ('f, 'w) astate \<Rightarrow> bool" where
  "flow_runs notify s s' \<longleftrightarrow> (\<exists>es. arun notify s es s')"

lemma flow_runs_step: "astep notify s e s' \<Longrightarrow> flow_runs notify s s'"
  unfolding flow_runs_def by (blast intro: runs_step)

interpretation flow_world: world_relation "flow_runs notify" for notify :: "'w notify"
proof
  show "flow_runs notify w w" for w :: "('f, 'w) astate"
    unfolding flow_runs_def by (blast intro: runs.none)
  show "flow_runs notify u w" if "flow_runs notify u v" "flow_runs notify v w" for u v w :: "('f, 'w) astate"
    using that unfolding flow_runs_def by (blast intro: runs_append)
qed

text \<open>Code outside of the profile cannot reach its fields.\<close>

definition aside :: "('f, 'w) astate \<Rightarrow> ('f, 'w) astate \<Rightarrow> bool" where
  "aside s s' \<longleftrightarrow> (\<exists>w. s' = s\<lparr>aworld := w\<rparr>)"

lemma aside_runs: "aside s s' \<Longrightarrow> flow_runs notify s s'"
  unfolding aside_def by (blast intro: flow_runs_step astep.outside)

lemma aside_call: "call_in aside f \<Longrightarrow> call_in (flow_runs notify) f"
  by (simp add: call_in_def aside_runs)

lemma aside_note: "note_in aside f \<Longrightarrow> note_in (flow_runs notify) f"
  by (simp add: note_in_def aside_runs)

interpretation other_world: world_relation "aside :: ('f, 'w) astate \<Rightarrow> ('f, 'w) astate \<Rightarrow> bool"
proof
  show "aside w w" for w :: "('f, 'w) astate" unfolding aside_def by (intro exI [of _ "aworld w"]) simp
qed (auto simp: aside_def)

lemma async_handler_in:
  fixes notify :: "'w notify"
  shows "flow_handler_in (flow_runs notify) async_FlowHandler"
proof -
  have start: "flow_runs notify s (snd (StartFlow_async ps s))" for ps and s :: "('f, 'w) astate"
    by (cases "gm_get (afp_handlers (prof s)) (fsp_FlowType ps)") (auto intro: flow_runs_step astep.start astep.no_start)
  have act: "flow_runs notify s (snd (HandleAction_async ps s))" for ps and s :: "('f, 'w) astate"
  proof -
    have "snd (HandleAction_async ps s) = snd (HandleAction_lookup ps s)"
      by (simp add: HandleAction_async_def split: prod.splits option.splits)
    then show ?thesis by (auto intro: flow_runs_step astep.action)
  qed
  show ?thesis
    unfolding flow_handler_in_def call_in_def note_in_def async_FlowHandler_def
    by (auto simp: HandleProgress_async_def start act flow_world.same intro: flow_runs_step astep.complete astep.error)
qed

section \<open>A peer with the profile\<close>

text \<open>
  A peer whose flows are those of the profile and whose transport, application handler, session
  store, checks and other profiles stay outside of it, without middleware.
\<close>

definition flow_peer :: "('f, 'w) astate Peer \<Rightarrow> bool" where
  "flow_peer p \<longleftrightarrow>
     (\<forall>t fh. flowHandlers (registry p) t = Some fh \<longrightarrow> fh = async_FlowHandler) \<and> middleware (registry p) = []
     \<and> peer_in aside (p\<lparr>registry := (registry p)\<lparr>flowHandlers := Map.empty\<rparr>\<rparr>)"

lemma flow_peer_in:
  assumes "flow_peer p"
  shows "peer_in (flow_runs notify) p"
proof -
  have p: "peer_in aside (p\<lparr>registry := (registry p)\<lparr>flowHandlers := Map.empty\<rparr>\<rparr>)"
    and own: "flowHandlers (registry p) t = Some fh \<Longrightarrow> fh = async_FlowHandler" and mw: "middleware (registry p) = []" for t fh
    using assms by (auto simp: flow_peer_def)
  have "handler_in (flow_runs notify) (handler p)"
    using p by (auto simp: peer_in_def app_in_def handler_in_def intro: aside_call aside_note)
  moreover have reg: "registry_in aside ((registry p)\<lparr>flowHandlers := Map.empty\<rparr>)" using p by (simp add: peer_in_def app_in_def)
  have "registry_in (flow_runs notify) (registry p)"
    unfolding registry_in_def
  proof (intro conjI allI impI)
    show "flow_handler_in (flow_runs notify) fh" if "flowHandlers (registry p) t = Some fh" for t fh
      using own [OF that] async_handler_in by simp
  qed (use reg mw in \<open>auto simp: registry_in_def intro: aside_call aside_runs\<close>)
  ultimately show ?thesis using p by (auto simp: peer_in_def app_in_def intro: aside_call)
qed

text \<open>The peer and the flow goroutines, interleaved.\<close>

inductive fstep :: "('f, 'w) astate Peer \<Rightarrow> 'w notify \<Rightarrow> ('f, 'w) astate cstate \<Rightarrow> ('f, 'w) astate cstate \<Rightarrow> bool" for p notify where
  peer_step: "cstep p s s' \<Longrightarrow> fstep p notify s s'"
| flow_step: "astep notify (cworld s) e w \<Longrightarrow> fstep p notify s (set_world w s)"

lemma fstep_kept:
  assumes "(fstep p notify)\<^sup>*\<^sup>* s s'" "flow_peer p" "kept_state (flow_runs notify) w (disp (peer_state s))"
  shows "kept_state (flow_runs notify) w (disp (peer_state s'))"
  using assms(1)
proof (induction rule: rtranclp_induct)
  case base
  show ?case by (rule assms(3))
next
  case (step s s')
  from step.hyps(2) show ?case
  proof (cases rule: fstep.cases)
    case peer_step
    then show ?thesis by (rule flow_world.kept_cstep [OF _ flow_peer_in [OF assms(2)] step.IH])
  next
    case (flow_step e w')
    then have "flow_runs notify (cworld s) w'" by (auto intro: flow_runs_step)
    then show ?thesis
      using step.IH flow_step(1) flow_world.chained by (auto simp: kept_state_def set_world_def owners_in_def)
  qed
qed

text \<open>
  C14: The guarantees of asynchronous flows hold inside a peer. A peer that uses the profile starts
  without flows and then serves any messages and makes any calls, interleaved in any way with its
  request goroutines and its flow goroutines: then the profile has made a run of its own model, so
  that every flow receives its actions in the order of their delivery, each once, with at most ten waiting,
  and its map holds only flows that are running and not cancelled.
\<close>

theorem flow_profile_in_peer:
  assumes "flow_peer p" "idle (cworld s)" "flowOwners (disp (peer_state s)) = Map.empty" "(fstep p notify)\<^sup>*\<^sup>* s s'"
  shows "\<exists>es. arun notify (cworld s) es (cworld s')
    \<and> (\<forall>a. delivered a es = received a es @ buffered (cworld s') a \<and> length (buffered (cworld s') a) \<le> 10)
    \<and> (\<forall>f a. gm_get (afp_flows (prof (cworld s'))) f = Some a \<longrightarrow>
         a \<in> set (running (cworld s')) \<and> (\<exists>fc. heap (cworld s') a = Some fc \<and> fc_FlowID fc = f \<and> \<not> doneCh fc))"
proof -
  have "kept_state (flow_runs notify) (cworld s) (disp (peer_state s))"
    using assms(3) by (simp add: kept_state_def owners_in_def flow_world.same)
  from fstep_kept [OF assms(4,1) this] obtain es where run: "arun notify (cworld s) es (cworld s')"
    by (auto simp: kept_state_def flow_runs_def)
  have inv: "flow_inv (cworld s)" "buffered (cworld s) a = []" for a
    using assms(2) flow_inv_idle by (auto simp: idle_def buffered_def)
  have "delivered a es = received a es @ buffered (cworld s') a \<and> length (buffered (cworld s') a) \<le> 10" for a
    using flow_channel.fifo [OF run inv(1), of a] inv(2) by (simp add: action_cap_def)
  moreover have "a \<in> set (running (cworld s')) \<and> (\<exists>fc. heap (cworld s') a = Some fc \<and> fc_FlowID fc = f \<and> \<not> doneCh fc)"
    if "gm_get (afp_flows (prof (cworld s'))) f = Some a" for f a
    using entryE [OF flow_inv_run [OF run inv(1)], of f a] that by (auto simp: flow_entry_def)
  ultimately show ?thesis using run by blast
qed

section \<open>Cancelling a flow of the profile\<close>

text \<open>
  A request \<open>wmp.flow.cancel\<close> takes the flow away from the profile without telling it: \<open>CancelFlow\<close> is
  never called, the goroutine is not cancelled and stays in the map of the profile, while its
  actions, its completion and its errors now go to the application handler.
\<close>

theorem cancel_request_strands_flow:
  assumes "flow_peer p" "flowOwners st (fxp_FlowID ps) = Some async_FlowHandler"
  shows "let st' = snd (flow_cancel p ctx ps st) in
    aside (world st) (world st') \<and> flowOwners st' (fxp_FlowID ps) = None
    \<and> (\<forall>aps. fap_FlowID aps = fxp_FlowID ps \<longrightarrow>
         flow_action p ctx' aps st' = ret_call RFlowAction (h_FlowAction (handler p) ctx' aps) st')"
proof -
  have "call_in aside (h_FlowCancel (handler p) ctx ps)" using assms(1) by (simp add: flow_peer_def peer_in_def app_in_def handler_in_def)
  then show ?thesis
    using assms(2) by (simp add: flow_cancel_def flow_action_def flow_owner_defs ret_call_def call_in_def Let_def case_prod_beta)
qed

section \<open>Example\<close>

definition example_flows_init :: "(unit, unit) astate" where
  "example_flows_init = \<lparr>prof = Handle ''demo'' () (NewAsyncFlowProfile ''async''), heap = Map.empty, next_fc = 0, tasks = [], aworld = ()\<rparr>"

definition example_flow_peer :: "(unit, unit) astate Peer" where
  "example_flow_peer = fst (NewPeer \<lparr>t_WriteMessage = (\<lambda>_ _ s. (None, s)), t_Close = (\<lambda>s. (None, s))\<rparr> BaseHandler
     [WithProfile (async_Profile (prof example_flows_init))] example_flows_init)"

definition example_flow_state :: "(unit, unit) astate cstate" where
  "example_flow_state = (new_cstate \<lparr>flowOwners = Map.empty, world = example_flows_init\<rparr>)
     \<lparr>peer_state := \<lparr>disp = \<lparr>flowOwners = Map.empty, world = example_flows_init\<rparr>, pending = Map.empty, chans = (\<lambda>_. []),
        spawned = [\<lparr>req_JSONRPC = ''2.0'', req_ID = None, req_Method = MethodFlowStart, req_Params = Some start_text\<rparr>], crashed = False\<rparr>\<rparr>"

definition example_flow_after :: "(unit, unit) astate cstate" where
  "example_flow_after = example_flow_state\<lparr>peer_state := (peer_state example_flow_state)\<lparr>spawned := [],
     disp := handleRequest example_flow_peer background (hd (spawned (peer_state example_flow_state))) (disp (peer_state example_flow_state))\<rparr>\<rparr>"

lemma example_flow_peer_eq:
  "example_flow_peer = \<lparr>transport = \<lparr>t_WriteMessage = (\<lambda>_ _ s. (None, s)), t_Close = (\<lambda>s. (None, s))\<rparr>, handler = BaseHandler,
     registry = registered (async_Profile (prof example_flows_init)) example_flows_init newRegistry, sessionStore = None,
     maxMessageSize = 1048576, validator = None, authorizer = None\<rparr>"
proof -
  have "no_conflict (async_Profile (prof example_flows_init)) example_flows_init newRegistry"
    by (simp add: no_conflict_def free_names_def flow_names_def method_names_def resolve_names_def async_Profile_def async_FlowHandler_def
        FlowTypes_async_def example_flows_init_def Handle_def NewAsyncFlowProfile_def newRegistry_def gm_set_def)
  then show ?thesis
    by (simp add: example_flow_peer_def NewPeer_def WithProfile_def Use_def register_success async_Profile_def Init_async_def)
qed

lemma example_flow_peer_ok: "flow_peer example_flow_peer"
proof -
  have "aside s s" for s :: "(unit, unit) astate" by (rule other_world.same)
  then show ?thesis
    by (auto simp: example_flow_peer_eq flow_peer_def peer_in_def app_in_def handler_in_def registry_in_def BaseHandler_def in_defs not_found_def
        registered_def newRegistry_def claim_def async_Profile_def method_names_def resolve_names_def opt_list_def split: if_splits)
qed

lemma example_flow_started:
  "gm_get (afp_flows (prof (cworld example_flow_after))) ''f'' = Some 0"
proof -
  have reg: "flowHandlers (registry example_flow_peer) ''demo'' = Some async_FlowHandler" "middleware (registry example_flow_peer) = []"
    by (simp_all add: example_flow_peer_eq registered_def newRegistry_def claim_def async_Profile_def flow_names_def async_FlowHandler_def
        FlowTypes_async_def example_flows_init_def Handle_def NewAsyncFlowProfile_def gm_set_def)
  have "authorizer example_flow_peer = None" "validator example_flow_peer = None" by (simp_all add: example_flow_peer_eq)
  then show ?thesis
    by (simp add: example_flow_after_def example_flow_state_def handleRequest_def authorize_def validate_def run_request_def runMiddleware_def reg
        dispatchMethodInternal_def with_params_def start_text_decoded flow_start_def lookupFlowHandler_def async_FlowHandler_def StartFlow_async_def
        example_flows_init_def Handle_def NewAsyncFlowProfile_def IsNotification_def raw_empty_def trackFlow_def Let_def)
qed

text \<open>The example peer handles a request that starts a flow.\<close>

theorem flow_profile_in_peer_witness:
  "0 \<in> set (running (cworld example_flow_after)) \<and> (\<exists>es. arun quiet example_flows_init es (cworld example_flow_after))"
proof -
  have "fstep example_flow_peer quiet example_flow_state example_flow_after"
    unfolding example_flow_after_def
    by (rule peer_step, rule cstep.run [of example_flow_state "[]" _ "[]", simplified]) (simp add: example_flow_state_def)
  then have "(fstep example_flow_peer quiet)\<^sup>*\<^sup>* example_flow_state example_flow_after" by blast
  moreover have "idle (cworld example_flow_state)" "flowOwners (disp (peer_state example_flow_state)) = Map.empty"
    "cworld example_flow_state = example_flows_init"
    by (simp_all add: example_flow_state_def example_flows_init_def idle_def Handle_def NewAsyncFlowProfile_def)
  ultimately show ?thesis
    using flow_profile_in_peer [OF example_flow_peer_ok, of example_flow_state quiet example_flow_after] example_flow_started by auto
qed

end
