(* ===== verification/Channel_Transport.thy ===== *)
theory Channel_Transport
  imports Go_Channel Jsonrpc
begin

text \<open>
  The transport backed by channels (channel_transport.go): messages pushed by an HTTP handler
  are read by the peer, messages written by the peer are consumed from \<open>Out\<close>. Each operation
  is one select; it returns the list of its ready outcomes. The arguments \<open>reader\<close> and
  \<open>consumer\<close> tell whether the other side of an unbuffered channel is waiting.
\<close>

section \<open>The transport\<close>

record ChannelTransport =
  ct_in :: "bytes list"
  ct_in_cap :: nat
  ct_out :: "bytes list"
  ct_out_cap :: nat
  ct_closed :: bool

definition NewChannelTransport :: "nat \<Rightarrow> nat \<Rightarrow> ChannelTransport" where
  "NewChannelTransport inSize outSize =
     \<lparr>ct_in = [], ct_in_cap = inSize, ct_out = [], ct_out_cap = outSize, ct_closed = False\<rparr>"

definition ErrTransportClosed :: go_error where
  "ErrTransportClosed = GoErr ''transport closed''"

text \<open>A select with a default clause: the default is taken when nothing else is ready.\<close>

definition or_default :: "'a list \<Rightarrow> 'a \<Rightarrow> 'a list" where
  "or_default ready d = (if ready = [] then [d] else ready)"

definition Push :: "bool \<Rightarrow> bytes \<Rightarrow> ChannelTransport \<Rightarrow> (go_error option \<times> ChannelTransport) list" where
  "Push reader data t =
     or_default
       ((if ct_closed t then [(Some ErrTransportClosed, t)] else [])
        @ (if chan_room reader (ct_in_cap t) (ct_in t) then [(None, t\<lparr>ct_in := ct_in t @ [data]\<rparr>)] else []))
       (Some (GoErr ''incoming message buffer full''), t)"

definition ReadMessage_ct :: "go_error option \<Rightarrow> ChannelTransport \<Rightarrow> ((go_error + bytes) \<times> ChannelTransport) list" where
  "ReadMessage_ct ctx_err t =
     (case ctx_err of None \<Rightarrow> [] | Some e \<Rightarrow> [(Inl e, t)])
     @ (if ct_closed t then [(Inl ErrTransportClosed, t)] else [])
     @ (case ct_in t of [] \<Rightarrow> [] | data # rest \<Rightarrow> [(Inr data, t\<lparr>ct_in := rest\<rparr>)])"

definition WriteMessage_ct :: "bool \<Rightarrow> bytes \<Rightarrow> ChannelTransport \<Rightarrow> (go_error option \<times> ChannelTransport) list" where
  "WriteMessage_ct consumer data t =
     or_default
       ((if ct_closed t then [(Some ErrTransportClosed, t)] else [])
        @ (if chan_room consumer (ct_out_cap t) (ct_out t) then [(None, t\<lparr>ct_out := ct_out t @ [data]\<rparr>)] else []))
       (Some (GoErr ''outgoing message buffer full''), t)"

text \<open>A receive from the channel that \<open>Out\<close> returns; it is never closed.\<close>

definition receive_out :: "ChannelTransport \<Rightarrow> (bytes \<times> ChannelTransport) list" where
  "receive_out t = (case ct_out t of [] \<Rightarrow> [] | data # rest \<Rightarrow> [(data, t\<lparr>ct_out := rest\<rparr>)])"

text \<open>\<open>sync.Once\<close>: the channel is closed once.\<close>

definition Close_ct :: "ChannelTransport \<Rightarrow> ChannelTransport" where
  "Close_ct t = (if ct_closed t then t else t\<lparr>ct_closed := True\<rparr>)"

definition IsClosed :: "ChannelTransport \<Rightarrow> bool" where
  "IsClosed t = ct_closed t"

section \<open>Interleavings\<close>

datatype ct_event =
    Pushed bytes
  | ReadBack bytes
  | Written bytes
  | Consumed bytes
  | Quiet

inductive ct_step :: "ChannelTransport \<Rightarrow> ct_event \<Rightarrow> ChannelTransport \<Rightarrow> bool" where
  pushed: "(err, t') \<in> set (Push reader data t) \<Longrightarrow> ct_step t (if err = None then Pushed data else Quiet) t'"
| read_back: "(res, t') \<in> set (ReadMessage_ct ctx_err t) \<Longrightarrow> ct_step t (case res of Inr data \<Rightarrow> ReadBack data | Inl _ \<Rightarrow> Quiet) t'"
| written: "(err, t') \<in> set (WriteMessage_ct consumer data t) \<Longrightarrow> ct_step t (if err = None then Written data else Quiet) t'"
| consumed: "(data, t') \<in> set (receive_out t) \<Longrightarrow> ct_step t (Consumed data) t'"
| closed: "ct_step t Quiet (Close_ct t)"

fun ct_pushed :: "ct_event \<Rightarrow> bytes list" where
  "ct_pushed (Pushed d) = [d]"
| "ct_pushed _ = []"

fun ct_read :: "ct_event \<Rightarrow> bytes list" where
  "ct_read (ReadBack d) = [d]"
| "ct_read _ = []"

fun ct_written :: "ct_event \<Rightarrow> bytes list" where
  "ct_written (Written d) = [d]"
| "ct_written _ = []"

fun ct_consumed :: "ct_event \<Rightarrow> bytes list" where
  "ct_consumed (Consumed d) = [d]"
| "ct_consumed _ = []"

definition ct_ok :: "ChannelTransport \<Rightarrow> bool" where
  "ct_ok t \<longleftrightarrow> length (ct_in t) \<le> max 1 (ct_in_cap t) \<and> length (ct_out t) \<le> max 1 (ct_out_cap t)"

lemmas ct_ops = Push_def ReadMessage_ct_def WriteMessage_ct_def receive_out_def Close_ct_def or_default_def

lemma ct_step_channels:
  assumes "ct_step t e t'"
  shows "ct_in t @ ct_pushed e = ct_read e @ ct_in t'" "ct_out t @ ct_written e = ct_consumed e @ ct_out t'"
    "ct_in_cap t' = ct_in_cap t" "ct_out_cap t' = ct_out_cap t" "ct_closed t \<Longrightarrow> ct_closed t'"
  using assms
  by (cases rule: ct_step.cases; auto simp: ct_ops split: if_splits option.splits list.splits; fail)+

lemma ct_step_ok:
  assumes "ct_step t e t'" "ct_ok t"
  shows "ct_ok t'"
  using assms
  by (cases rule: ct_step.cases)
     (auto simp: ct_ops ct_ok_def chan_room_def max_def split: if_splits option.splits list.splits
        dest!: sym [of "x # xs" for x xs])

lemma ct_ok_bounds: "ct_ok t \<Longrightarrow> length (ct_in t) \<le> max 1 (ct_in_cap t)" "ct_ok t \<Longrightarrow> length (ct_out t) \<le> max 1 (ct_out_cap t)"
  by (simp_all add: ct_ok_def)

interpretation inbound: fifo_channel ct_step ct_ok ct_pushed ct_read ct_in "\<lambda>t. max 1 (ct_in_cap t)"
  by unfold_locales (auto simp: ct_step_channels intro: ct_step_ok simp: ct_ok_bounds [simplified])

interpretation outbound: fifo_channel ct_step ct_ok ct_written ct_consumed ct_out "\<lambda>t. max 1 (ct_out_cap t)"
  by unfold_locales (auto simp: ct_step_channels intro: ct_step_ok simp: ct_ok_bounds [simplified])

lemma ct_run_frame:
  assumes "runs ct_step t es t'"
  shows "ct_in_cap t' = ct_in_cap t \<and> ct_out_cap t' = ct_out_cap t \<and> (ct_closed t \<longrightarrow> ct_closed t')"
  using assms by (induction rule: runs.induct) (auto dest: ct_step_channels(3-5))

section \<open>Properties of the channel transport\<close>

text \<open>
  C33: Under every interleaving of handlers, peer and stream writers, a channel transport
  delivers in both directions what was accepted, once and in order: accepted messages are the
  delivered ones followed by what the buffer holds, and the buffers keep their sizes.\<close>

theorem channel_transport_fifo:
  assumes "runs ct_step (NewChannelTransport inSize outSize) es t"
  shows "logged ct_pushed es = logged ct_read es @ ct_in t \<and> length (ct_in t) \<le> max 1 inSize
    \<and> logged ct_written es = logged ct_consumed es @ ct_out t \<and> length (ct_out t) \<le> max 1 outSize"
proof -
  have new: "ct_ok (NewChannelTransport inSize outSize)" "ct_in (NewChannelTransport inSize outSize) = []"
      "ct_out (NewChannelTransport inSize outSize) = []"
    by (simp_all add: ct_ok_def NewChannelTransport_def)
  have "ct_in_cap t = inSize" "ct_out_cap t = outSize"
    using ct_run_frame [OF assms] by (simp_all add: NewChannelTransport_def)
  with inbound.fifo [OF assms new(1,2)] outbound.fifo [OF assms new(1,3)] show ?thesis by simp
qed

theorem channel_transport_fifo_witness:
  "\<exists>t. runs ct_step (NewChannelTransport 1 1) [Pushed ''a'', ReadBack ''a''] t
     \<and> logged ct_pushed [Pushed ''a'', ReadBack ''a''] = ''a'' # ct_in t"
proof -
  let ?t = "NewChannelTransport 1 1" and ?u = "(NewChannelTransport 1 1)\<lparr>ct_in := [''a'']\<rparr>"
  have "ct_step ?t (Pushed ''a'') ?u"
    using ct_step.pushed [of None ?u False "''a''" ?t] by (simp add: ct_ops NewChannelTransport_def chan_room_def)
  moreover have "ct_step ?u (ReadBack ''a'') ?t"
    using ct_step.read_back [of "Inr ''a''" ?t None ?u] by (simp add: ct_ops NewChannelTransport_def)
  ultimately have run: "runs ct_step ?t [Pushed ''a'', ReadBack ''a''] ?t"
    using runs_more [of ct_step, OF runs_step [of ct_step]] by fastforce
  with channel_transport_fifo [OF run] show ?thesis by auto
qed

text \<open>
  A transport that is open accepts a message exactly when its buffer has room and reports a
  full buffer otherwise, in either direction and without blocking; once it is closed a reader
  never blocks, and closing again changes nothing.\<close>

theorem channel_transport_outcomes:
  "(\<not> IsClosed t \<longrightarrow>
      Push reader data t = (if chan_room reader (ct_in_cap t) (ct_in t) then [(None, t\<lparr>ct_in := ct_in t @ [data]\<rparr>)]
                            else [(Some (GoErr ''incoming message buffer full''), t)])
      \<and> WriteMessage_ct consumer data t = (if chan_room consumer (ct_out_cap t) (ct_out t) then [(None, t\<lparr>ct_out := ct_out t @ [data]\<rparr>)]
                            else [(Some (GoErr ''outgoing message buffer full''), t)]))
   \<and> Push reader data t \<noteq> [] \<and> WriteMessage_ct consumer data t \<noteq> []
   \<and> ReadMessage_ct ctx_err (Close_ct t) \<noteq> [] \<and> IsClosed (Close_ct t) \<and> Close_ct (Close_ct t) = Close_ct t"
  by (auto simp: ct_ops IsClosed_def)

theorem channel_transport_outcomes_witness:
  "Push False ''a'' (NewChannelTransport 0 1) = [(Some (GoErr ''incoming message buffer full''), NewChannelTransport 0 1)]"
  using channel_transport_outcomes [of "NewChannelTransport 0 1" False "''a''"]
  by (simp add: IsClosed_def NewChannelTransport_def chan_room_def)

text \<open>
  A closed transport with room in its buffer may still accept a message: both clauses of the
  select are ready and Go picks one at random, so that a message accepted without an error can be
  lost for the reader, who may be told that the transport is closed.\<close>

theorem closed_transport_may_accept:
  "(None, t\<lparr>ct_in := ct_in t @ [data], ct_closed := True\<rparr>) \<in> set (Push reader data (Close_ct t)) \<longleftrightarrow> chan_room reader (ct_in_cap t) (ct_in t)"
  by (auto simp: ct_ops)

end
