(* ===== verification/Go_Lines.thy ===== *)
theory Go_Lines
  imports Go_Compact Jsonrpc
begin

text \<open>
  What \<open>json.Marshal\<close> produces is one line: no byte of it is a control character, whatever
  white space the raw messages inside it had.
\<close>

section \<open>Compaction leaves no control characters\<close>

definition no_ctl :: "bytes \<Rightarrow> bool" where
  "no_ctl s \<longleftrightarrow> list_all (\<lambda>c. 32 \<le> byte c) s"

lemma no_ctl_simps [simp]:
  "no_ctl []" "no_ctl (c # s) \<longleftrightarrow> 32 \<le> byte c \<and> no_ctl s" "no_ctl (s @ t) \<longleftrightarrow> no_ctl s \<and> no_ctl t"
  by (auto simp: no_ctl_def)

lemma no_ctl_line: "no_ctl s \<Longrightarrow> CHR 0x0A \<notin> set s \<and> CHR 0x0D \<notin> set s"
  by (auto simp: no_ctl_def list_all_iff)

lemma hex_char_ctl: "n < 16 \<Longrightarrow> 32 \<le> byte (hex_char n)"
  by (auto simp: hex_char_def)

lemma esc_char_ctl: "no_ctl (esc_char c)"
  by (auto simp: esc_char_def hex_char_ctl)

lemma esc_line_sep_ctl: "no_ctl (esc_line_sep s)"
  by (simp add: esc_line_sep_def hex_char_ctl)

lemma compact_ws: "skip_ws r = x # t \<Longrightarrow> x \<noteq> CHR 0x22 \<Longrightarrow> no_ctl (compact_val r) \<longleftrightarrow> 32 \<le> byte x \<and> no_ctl (compact_val t)"
  by (simp add: compact_skip)

lemma string_ctl: "scan_string s = Some (u, r) \<Longrightarrow> no_ctl (compact_val r) \<Longrightarrow> no_ctl (compact_str s)"
proof (induction s arbitrary: u rule: length_induct)
  case (1 s)
  then obtain c s0 where s: "s = c # s0" by (cases s) auto
  have IH: "no_ctl (compact_str t)" if "scan_string t = Some (u', r)" "length t < length s" for t u'
    using "1.IH" "1.prems"(2) that by blast
  have ne: "(0xE2 :: nat) \<noteq> 34" "(0xE2 :: nat) \<noteq> 92" by simp_all
  consider "c = CHR 0x22" | "c = CHR 0x5C" | "byte c = 0xE2" "line_sep s0"
    | "c \<noteq> CHR 0x22" "c \<noteq> CHR 0x5C" "\<not> (byte c = 0xE2 \<and> line_sep s0)" by blast
  then show ?case
  proof cases
    case 1
    with "1.prems" s show ?thesis by auto
  next
    case 2
    with "1.prems" s obtain e t u' where t: "s0 = e # t" "scan_string t = Some (u', r)" "simple_escape e \<or> unicode_escape e t"
      by (cases s0) (auto split: if_splits)
    have "32 \<le> byte e" using t(3) by (auto simp: simple_escape_def unicode_escape_def)
    with IH [OF t(2)] 2 s t(1) show ?thesis by simp
  next
    case 3
    from line_sep_shape [OF 3(2)] obtain x y t where s0: "s0 = x # y # t" "128 \<le> byte x" "128 \<le> byte y" by blast
    with 3 "1.prems" s obtain u' where u': "scan_string t = Some (u', r)" by (auto split: if_splits)
    from 3 have "c \<noteq> CHR 0x22" "c \<noteq> CHR 0x5C" "\<not> html_unsafe c" by (auto simp: html_unsafe_def)
    with IH [OF u'] 3 s s0 show ?thesis by (simp add: esc_line_sep_ctl)
  next
    case 4
    with "1.prems" s obtain u' where u': "scan_string s0 = Some (u', r)" "\<not> byte c < 32" by (auto split: if_splits)
    with IH [OF u'(1)] 4 s show ?thesis by (auto simp: esc_char_ctl)
  qed
qed

lemma bare_ctl: "list_all (\<lambda>x. \<not> is_ws x \<and> x \<noteq> CHR 0x22) u \<Longrightarrow> no_ctl u \<Longrightarrow> no_ctl (compact_val r) \<Longrightarrow> no_ctl (compact_val (u @ r))"
  by (simp add: compact_bare)

lemma digits_ctl: "list_all is_digit u \<Longrightarrow> no_ctl u"
  by (auto simp: no_ctl_def list_all_iff is_digit_def)

lemma scan_digits_ctl: "scan_digits s = Some (u, r) \<Longrightarrow> no_ctl u"
  by (auto simp: scan_digits_def is_digit_def digits_ctl split: list.splits if_splits)

lemma number_ctl:
  assumes "scan_number s = Some (u, r)"
  shows "no_ctl u"
proof -
  obtain g s0 where g: "scan_sign s = (g, s0)" by fastforce
  from assms g obtain i s1 f s2 e where
    i: "scan_int s0 = Some (i, s1)" and f: "scan_frac s1 = Some (f, s2)" and
    e: "scan_exp s2 = Some (e, r)" and u: "u = g @ i @ f @ e"
    by (auto simp: scan_number_def Option.bind_eq_Some_conv)
  have "no_ctl g" using g by (auto simp: scan_sign_def split: list.splits if_splits)
  moreover have "no_ctl i"
    using i by (auto simp: scan_int_def no_ctl_def list_all_iff is_digit_def dest!: set_takeWhileD split: list.splits if_splits)
  moreover have "no_ctl f" using f by (auto simp: scan_frac_def scan_digits_ctl split: list.splits if_splits)
  moreover have "no_ctl e" using e by (auto simp: scan_exp_def scan_digits_ctl split: list.splits if_splits)
  ultimately show ?thesis by (simp add: u)
qed

lemma lit_ctl:
  assumes "scan_lit l v s = Some (x, r)" "list_all (\<lambda>x. \<not> is_ws x \<and> x \<noteq> CHR 0x22) l" "no_ctl l" "no_ctl (compact_val r)"
  shows "no_ctl (compact_val s)"
  using scan_lit_local [OF assms(1)] bare_ctl [OF assms(2-4)] by simp

text \<open>Parsing a value, elements or members: what follows decides, the text itself has none.\<close>

lemma parser_ctl:
  "pval n d s = Some (v, r) \<Longrightarrow> no_ctl (compact_val r) \<Longrightarrow> no_ctl (compact_val s)"
  "pelems n d s = Some (es, r) \<Longrightarrow> no_ctl (compact_val r) \<Longrightarrow> no_ctl (compact_val s)"
  "pmembs n d s = Some (ms, r) \<Longrightarrow> no_ctl (compact_val r) \<Longrightarrow> no_ctl (compact_val s)"
proof (induction n arbitrary: d s v es ms r)
  case (Suc n)
  {
    case 1
    from 1(1) show ?case
    proof (cases rule: pval_cases)
      case (object t x t')
      then have "no_ctl (compact_val (skip_ws t))"
        using 1(2) Suc(3) [of "d - 1" "x # t'"] by (auto simp: is_ws_def simp del: compact_skip_ws split: if_splits)
      with object(1) show ?thesis by (simp add: is_ws_def)
    next
      case (array t x t')
      then have "no_ctl (compact_val (skip_ws t))"
        using 1(2) Suc(2) [of "d - 1" "x # t'"] by (auto simp: is_ws_def simp del: compact_skip_ws split: if_splits)
      with array(1) show ?thesis by (simp add: is_ws_def)
    next
      case (str t u)
      with 1(2) show ?thesis by (auto simp: is_ws_def dest: string_ctl)
    next
      case (lit l w)
      then show ?thesis using 1(2) by (intro lit_ctl [OF lit(2)]) (auto simp: is_ws_def)
    next
      case (num c t u)
      with bare_ctl [OF scan_number_bare [OF num(2)] number_ctl [OF num(2)] 1(2)] scan_number_local [OF num(2)] show ?thesis by simp
    qed
  next
    case 2
    from 2(1) obtain v t c t' where v: "pval n d s = Some (v, t)" "skip_ws t = c # t'" by (rule pelems_cases) blast
    have "no_ctl (compact_val t)"
      using 2 v Suc(2) [of d "skip_ws t'"] by (auto simp: compact_ws split: if_splits)
    with Suc(1) [OF v(1)] show ?case .
  next
    case 3
    from 3(1) obtain s1 k s2 s3 v t c t' where s: "s = CHR 0x22 # s1" "scan_string s1 = Some (k, s2)" "skip_ws s2 = CHR '':'' # s3"
      and v: "pval n d (skip_ws s3) = Some (v, t)" "skip_ws t = c # t'" by (rule pmembs_cases) blast
    have "no_ctl (compact_val t)"
      using 3 s v Suc(3) [of d "skip_ws t'"] by (auto simp: compact_ws split: if_splits)
    from Suc(1) [OF v(1) this] have "no_ctl (compact_val s2)" using s(3) by (simp add: compact_ws)
    with string_ctl [OF s(2)] s(1) show ?case by (simp add: is_ws_def)
  }
qed simp_all

section \<open>Encoders\<close>

definition one_line :: "bytes option \<Rightarrow> bool" where
  "one_line m \<longleftrightarrow> (\<forall>b. m = Some b \<longrightarrow> no_ctl b)"

named_theorems one_line_intros \<open>encoders whose output is one line\<close>

lemma one_line_raw [one_line_intros]: "one_line (ms_raw r)"
proof -
  have "no_ctl (compact_val x)" if "json_valid x" for x
  proof -
    from that obtain v q where v: "pval (fuel_for (skip_ws x)) max_nesting (skip_ws x) = Some (v, q)" "skip_ws q = []"
      by (auto simp: json_valid_def json_parse_def json_next_def Let_def split: if_splits option.splits)
    have "compact_val q = []" using compact_skip_ws [of q] v(2) by simp
    with parser_ctl(1) [OF v(1)] show ?thesis by simp
  qed
  then show ?thesis by (auto simp: one_line_def ms_raw_def split: option.splits if_splits)
qed

lemma utf8_tail:
  assumes "1 < utf8_width (c # s)"
  shows "no_ctl (take (utf8_width (c # s) - 1) s)"
  using utf8_width_cont [OF assms] by (auto simp: no_ctl_def list_all_iff)

lemma esc_string_ctl: "no_ctl (esc_string s)"
proof (induction s rule: esc_string.induct)
  case (2 c s)
  show ?case
  proof (cases "byte c < 128")
    case True
    with 2(1) show ?thesis by (simp add: esc_char_ctl)
  next
    case False
    with 2 utf8_tail [of c s] show ?thesis by (auto simp: Let_def esc_line_sep_ctl)
  qed
qed simp

lemma one_line_string [one_line_intros]: "one_line (ms_string s)"
  by (simp add: one_line_def ms_string_def quote_string_def esc_string_ctl)

lemma one_line_int [one_line_intros]: "one_line (ms_int i)"
  using show_nat_digits by (auto simp: one_line_def ms_int_def show_int_def intro!: digits_ctl)

lemma commas_ctl: "list_all no_ctl xs \<Longrightarrow> no_ctl (commas xs)"
  by (induction xs rule: commas.induct) auto

lemma all_some_all: "all_some xs = Some ys \<Longrightarrow> list_all (\<lambda>m. \<forall>b. m = Some b \<longrightarrow> P b) xs \<Longrightarrow> list_all P ys"
  by (induction xs arbitrary: ys rule: all_some.induct) auto

lemma one_line_member: "one_line m \<Longrightarrow> one_line (ms_member (k, m))"
  by (auto simp: one_line_def ms_member_def quote_string_def esc_string_ctl)

lemma one_line_obj:
  assumes "list_all (\<lambda>(k, m). one_line m) ms"
  shows "one_line (ms_obj ms)"
proof -
  have "no_ctl (commas bs)" if "all_some (map ms_member ms) = Some bs" for bs
    using that assms one_line_member
    by (intro commas_ctl all_some_all [OF that]) (fastforce simp: list_all_iff one_line_def)
  then show ?thesis by (auto simp: one_line_def ms_obj_def)
qed

lemma one_line_members [one_line_intros]:
  "list_all (\<lambda>(k, m). one_line m) (always k m) \<longleftrightarrow> one_line m"
  "list_all (\<lambda>(k, m). one_line m) (unless p k m) \<longleftrightarrow> p \<or> one_line m"
  by (auto simp: always_def unless_def)

lemma one_line_RPCError: "one_line (ms_RPCError e)"
  unfolding ms_RPCError_def by (rule one_line_obj) (simp add: one_line_intros)

lemma one_line_error: "one_line (ms_ptr ms_RPCError e)"
  using one_line_RPCError by (auto simp: ms_ptr_def one_line_def split: option.splits)

lemma one_line_Request: "one_line (ms_Request r)"
  unfolding ms_Request_def by (rule one_line_obj) (simp add: one_line_intros)

lemma one_line_Response: "one_line (ms_Response r)"
  unfolding ms_Response_def by (rule one_line_obj) (simp add: one_line_intros one_line_error)

end
