(* ===== verification/Stdio_Transport.thy ===== *)
theory Stdio_Transport
  imports Go_Lines Jsonrpc_Props
begin

text \<open>
  Newline-delimited JSON over a reader and a writer (stdio/stdio.go). The reader is the
  bytes it delivers and the error it ends with (\<open>None\<close> for \<open>io.EOF\<close>); blocking reads are
  not visible in that view. \<open>bufio.Scanner\<close> with \<open>ScanLines\<close> is modelled by what it does to
  the remaining input: its buffer starts at 64 KiB and grows up to the limit that \<open>Buffer\<close>
  was given, and a line that does not fit ends the scan with \<open>ErrTooLong\<close>.
\<close>

section \<open>The scanner\<close>

record scanner =
  sc_in :: bytes
  sc_end :: "go_error option"
  sc_long :: bool

definition LF :: char where
  "LF = CHR 0x0A"

definition dropCR :: "bytes \<Rightarrow> bytes" where
  "dropCR line = (if line \<noteq> [] \<and> last line = CHR 0x0D then butlast line else line)"

definition initial_buffer :: nat where
  "initial_buffer = 64 * 1024"

definition buffer_limit :: "int \<Rightarrow> nat" where
  "buffer_limit maxLine = max initial_buffer (nat maxLine)"

text \<open>
  \<open>Scan\<close> with \<open>ScanLines\<close>. After \<open>ErrTooLong\<close> the scanner treats what its buffer holds as the
  last line.
\<close>

definition Scan :: "nat \<Rightarrow> scanner \<Rightarrow> bytes option \<times> scanner" where
  "Scan limit sc =
     (if sc_in sc = [] then (None, sc)
      else if sc_long sc then (Some (dropCR (take limit (sc_in sc))), sc\<lparr>sc_in := []\<rparr>)
      else (let line = takeWhile (\<lambda>c. c \<noteq> LF) (sc_in sc) in
            if limit \<le> length line then (None, sc\<lparr>sc_long := True\<rparr>)
            else (Some (dropCR line), sc\<lparr>sc_in := tl (dropWhile (\<lambda>c. c \<noteq> LF) (sc_in sc))\<rparr>)))"

lemma Scan_shorter: "Scan limit sc = (Some line, sc') \<Longrightarrow> length (sc_in sc') < length (sc_in sc)"
proof -
  have "length (tl (dropWhile p xs)) < length xs" if "xs \<noteq> []" for p and xs :: bytes
    using that length_dropWhile_le [of p xs] by (cases xs) (auto intro: le_less_trans)
  then show "Scan limit sc = (Some line, sc') \<Longrightarrow> length (sc_in sc') < length (sc_in sc)"
    by (auto simp: Scan_def Let_def split: if_splits)
qed

section \<open>The transport\<close>

record StdioTransport =
  st_scanner :: scanner
  st_maxLine :: int
  st_closed :: bool

definition defaultMaxLine :: int where
  "defaultMaxLine = 1048576"

definition NewWithMaxLine :: "bytes \<Rightarrow> go_error option \<Rightarrow> int \<Rightarrow> StdioTransport" where
  "NewWithMaxLine input err maxLine =
     \<lparr>st_scanner = \<lparr>sc_in = input, sc_end = err, sc_long = False\<rparr>,
      st_maxLine = (if maxLine \<le> 0 then defaultMaxLine else maxLine), st_closed = False\<rparr>"

definition New_stdio :: "bytes \<Rightarrow> go_error option \<Rightarrow> StdioTransport" where
  "New_stdio input err = NewWithMaxLine input err defaultMaxLine"

text \<open>The loop of \<open>ReadMessage\<close>: empty lines and lines that are not JSON are skipped.\<close>

function (sequential) read_loop :: "nat \<Rightarrow> scanner \<Rightarrow> bytes option \<times> scanner" where
  "read_loop limit sc =
     (case Scan limit sc of
        (None, sc') \<Rightarrow> (None, sc')
      | (Some line, sc') \<Rightarrow> if line = [] \<or> \<not> json_valid line then read_loop limit sc' else (Some line, sc'))"
  by pat_completeness auto

termination read_loop
  by (relation "measure (\<lambda>(limit, sc). length (sc_in sc))") (auto dest: Scan_shorter [OF sym])

declare read_loop.simps [simp del]

definition io_EOF :: go_error where
  "io_EOF = GoErr ''EOF''"

definition ReadMessage_stdio :: "go_error option \<Rightarrow> StdioTransport \<Rightarrow> (go_error + bytes) \<times> StdioTransport" where
  "ReadMessage_stdio ctx_err t =
     (if st_closed t then (Inl io_EOF, t)
      else (case ctx_err of
         Some e \<Rightarrow> (Inl e, t)
       | None \<Rightarrow>
           (case read_loop (buffer_limit (st_maxLine t)) (st_scanner t) of
              (Some msg, sc) \<Rightarrow> (Inr msg, t\<lparr>st_scanner := sc\<rparr>)
            | (None, sc) \<Rightarrow>
                (if sc_long sc then
                   Inl (GoErr (''message exceeds maximum line length of '' @ show_int (st_maxLine t) @ '' bytes''))
                 else (case sc_end sc of Some e \<Rightarrow> Inl e | None \<Rightarrow> Inl io_EOF), t\<lparr>st_scanner := sc\<rparr>))))"

definition WriteMessage_stdio ::
  "(bytes \<Rightarrow> 'w \<Rightarrow> go_error option \<times> 'w) \<Rightarrow> go_error option \<Rightarrow> bytes \<Rightarrow> StdioTransport \<Rightarrow> 'w \<Rightarrow> go_error option \<times> 'w" where
  "WriteMessage_stdio writer ctx_err data t w =
     (if st_closed t then (Some (GoErr ''io: read/write on closed pipe''), w)
      else (case ctx_err of
         Some e \<Rightarrow> (Some e, w)
       | None \<Rightarrow> writer (data @ [LF]) w))"

definition Close_stdio :: "StdioTransport \<Rightarrow> StdioTransport" where
  "Close_stdio t = t\<lparr>st_closed := True\<rparr>"

section \<open>Facts about lines\<close>

lemma Scan_line:
  assumes "LF \<notin> set m" "length m < limit" "\<not> sc_long sc" "sc_in sc = m @ LF # rest"
  shows "Scan limit sc = (Some (dropCR m), sc\<lparr>sc_in := rest\<rparr>)"
proof -
  have "takeWhile (\<lambda>c. c \<noteq> LF) (m @ LF # rest) = m" "dropWhile (\<lambda>c. c \<noteq> LF) (m @ LF # rest) = LF # rest"
    using assms(1) by (induction m) auto
  then show ?thesis using assms(2-4) by (simp add: Scan_def Let_def)
qed

lemma dropCR_plain: "CHR 0x0D \<notin> set m \<Longrightarrow> dropCR m = m"
  using last_in_set by (fastforce simp: dropCR_def)

lemma dropCR_length: "length (dropCR m) \<le> length m"
  by (simp add: dropCR_def)

lemma dropCR_set: "set (dropCR m) \<subseteq> set m"
  by (auto simp: dropCR_def dest: in_set_butlastD)

lemma json_valid_nonempty: "json_valid m \<Longrightarrow> m \<noteq> []"
  by (auto simp: json_valid_def json_parse_def json_next_def skip_ws_def fuel_for_def numeral_2_eq_2)

lemma read_loop_line:
  assumes "no_ctl m" "json_valid m" "length m < limit" "\<not> sc_long sc" "sc_in sc = m @ LF # rest"
  shows "read_loop limit sc = (Some m, sc\<lparr>sc_in := rest\<rparr>)"
proof -
  have "LF \<notin> set m" "CHR 0x0D \<notin> set m" using no_ctl_line [OF assms(1)] by (auto simp: LF_def)
  with assms(2-5) show ?thesis
    by (subst read_loop.simps) (simp add: Scan_line dropCR_plain json_valid_nonempty)
qed

lemma Scan_token:
  assumes "Scan limit sc = (Some line, sc')"
  shows "length line \<le> limit \<and> (\<not> sc_long sc \<longrightarrow> length line < limit \<and> LF \<notin> set line) \<and> sc_long sc' = sc_long sc"
proof -
  have "LF \<notin> set (dropCR (takeWhile (\<lambda>c. c \<noteq> LF) (sc_in sc)))" using dropCR_set by (blast dest: set_takeWhileD)
  then show ?thesis
    using assms dropCR_length [of "take limit (sc_in sc)"] dropCR_length [of "takeWhile (\<lambda>c. c \<noteq> LF) (sc_in sc)"]
    by (auto simp: Scan_def Let_def split: if_splits)
qed

lemma read_loop_sound:
  "read_loop limit sc = (Some m, sc') \<Longrightarrow>
     json_valid m \<and> length m \<le> limit \<and> (\<not> sc_long sc \<longrightarrow> length m < limit \<and> LF \<notin> set m)"
proof (induction limit sc rule: read_loop.induct)
  case (1 limit sc)
  from "1.prems" show ?case
    by (subst (asm) read_loop.simps)
       (auto split: prod.splits option.splits if_splits dest: Scan_token "1.IH" [OF sym])
qed

lemma read_loop_shorter: "read_loop limit sc = (Some m, sc') \<Longrightarrow> length (sc_in sc') < length (sc_in sc)"
proof (induction limit sc rule: read_loop.induct)
  case (1 limit sc)
  obtain line sc1 where scan: "Scan limit sc = (Some line, sc1)"
    using "1.prems" by (subst (asm) read_loop.simps) (auto split: prod.splits option.splits)
  show ?case
  proof (cases "line = [] \<or> \<not> json_valid line")
    case True
    with "1.prems" scan have "read_loop limit sc1 = (Some m, sc')" by (subst (asm) read_loop.simps) simp
    with "1.IH" [OF scan [symmetric] refl True] Scan_shorter [OF scan] show ?thesis by simp
  next
    case False
    with "1.prems" scan have "sc1 = sc'" by (subst (asm) read_loop.simps) simp
    with Scan_shorter [OF scan] show ?thesis by simp
  qed
qed

section \<open>Properties of the stdio transport\<close>

text \<open>The other end of the pipe: everything written is appended to the stream.\<close>

definition pipe :: "bytes \<Rightarrow> bytes \<Rightarrow> go_error option \<times> bytes" where
  "pipe data stream = (None, stream @ data)"

fun write_all :: "bytes list \<Rightarrow> StdioTransport \<Rightarrow> bytes \<Rightarrow> bytes" where
  "write_all [] t stream = stream"
| "write_all (m # ms) t stream = write_all ms t (snd (WriteMessage_stdio pipe None m t stream))"

fun read_times :: "nat \<Rightarrow> StdioTransport \<Rightarrow> (go_error + bytes) list" where
  "read_times 0 t = []"
| "read_times (Suc n) t = (case ReadMessage_stdio None t of (r, t') \<Rightarrow> r # read_times n t')"

lemma write_all_stream: "\<not> st_closed t \<Longrightarrow> write_all ms t stream = stream @ concat (map (\<lambda>m. m @ [LF]) ms)"
  by (induction ms arbitrary: stream) (auto simp: WriteMessage_stdio_def pipe_def)

lemma read_all_lines:
  assumes "\<forall>m \<in> set ms. no_ctl m \<and> json_valid m \<and> length m < buffer_limit (st_maxLine t)"
    and "sc_in (st_scanner t) = concat (map (\<lambda>m. m @ [LF]) ms)" "\<not> sc_long (st_scanner t)" "sc_end (st_scanner t) = None" "\<not> st_closed t"
  shows "read_times (Suc (length ms)) t = map Inr ms @ [Inl io_EOF]"
  using assms
proof (induction ms arbitrary: t)
  case Nil
  then show ?case by (simp add: ReadMessage_stdio_def read_loop.simps Scan_def)
next
  case (Cons m ms)
  have "read_loop (buffer_limit (st_maxLine t)) (st_scanner t)
      = (Some m, (st_scanner t)\<lparr>sc_in := concat (map (\<lambda>m. m @ [LF]) ms)\<rparr>)"
    using Cons.prems by (intro read_loop_line) auto
  with Cons.prems(5) have "ReadMessage_stdio None t
      = (Inr m, t\<lparr>st_scanner := (st_scanner t)\<lparr>sc_in := concat (map (\<lambda>m. m @ [LF]) ms)\<rparr>\<rparr>)"
    by (simp add: ReadMessage_stdio_def)
  moreover have "read_times (Suc (length ms)) (t\<lparr>st_scanner := (st_scanner t)\<lparr>sc_in := concat (map (\<lambda>m. m @ [LF]) ms)\<rparr>\<rparr>)
      = map Inr ms @ [Inl io_EOF]"
    using Cons.prems by (intro Cons.IH) auto
  ultimately show ?case by (simp del: read_times.simps(2) add: read_times.simps(2) [of "Suc (length ms)"])
qed

lemma messages_delivered:
  assumes "\<forall>m \<in> set ms. (\<exists>r. ms_Request r = Some m) \<or> (\<exists>r. ms_Response r = Some m)"
    and "\<forall>m \<in> set ms. json_valid m \<and> length m < buffer_limit maxLine" and "\<not> st_closed t" "0 < maxLine"
  shows "read_times (Suc (length ms)) (NewWithMaxLine (write_all ms t []) None maxLine) = map Inr ms @ [Inl io_EOF]"
proof (rule read_all_lines)
  show "\<forall>m \<in> set ms. no_ctl m \<and> json_valid m \<and> length m < buffer_limit (st_maxLine (NewWithMaxLine (write_all ms t []) None maxLine))"
    using assms(1,2,4) one_line_Request one_line_Response by (fastforce simp: one_line_def NewWithMaxLine_def)
qed (use assms(3) in \<open>simp_all add: NewWithMaxLine_def write_all_stream\<close>)

text \<open>
  Requests and responses written to a stdio transport, one after another, are read from the
  other end of the pipe as the same messages in the same order, then the end of the stream;
  encoded messages never contain a line break, so the framing cannot split them.\<close>

theorem stdio_delivers_messages:
  assumes "\<forall>m \<in> set ms. (\<exists>r. ms_Request r = Some m) \<or> (\<exists>r. ms_Response r = Some m)"
    and "\<forall>m \<in> set ms. json_valid m \<and> length m < buffer_limit maxLine" and "\<not> st_closed t" "0 < maxLine"
  shows "read_times (Suc (length ms)) (NewWithMaxLine (write_all ms t []) None maxLine) = map Inr ms @ [Inl io_EOF]"
  using assms by (rule messages_delivered)

definition ping_request :: Request where
  "ping_request = \<lparr>req_JSONRPC = ''2.0'', req_ID = None, req_Method = ''ping'', req_Params = Some ''{}''\<rparr>"

lemma json_valid_braces: "json_valid ''{}''"
  using prints_empty_object [of 0] by (rule prints_valid) (simp add: max_nesting_def)

lemma ping_request_text:
  obtains m where "ms_Request ping_request = Some m" "json_valid m" "length m < 100"
proof -
  let ?ms = "[(''jsonrpc'', quote_string ''2.0'', JStr ''2.0''), (''method'', quote_string ''ping'', JStr ''ping''), (''params'', ''{}'', JObj [])]"
  have "ms_Request ping_request = ms_obj (map (\<lambda>(k, b, v). (k, Some b)) ?ms)"
    by (simp add: ms_Request_def ping_request_def always_def unless_def raw_empty_def ms_string_def ms_raw_def
        json_valid_braces is_ws_def)
  then have m: "ms_Request ping_request = Some (''{'' @ commas (map member_text ?ms) @ ''}'')" by (simp only: ms_obj_members)
  have "\<forall>(k, b, v) \<in> set ?ms. ascii k \<and> prints 1 b v"
    using prints_empty_object [of 0] prints_ascii [of "''2.0''" 1] prints_ascii [of "''ping''" 1] by (simp add: ascii_def)
  from prints_valid [OF prints_object [OF this]] have "json_valid (''{'' @ commas (map member_text ?ms) @ ''}'')"
    by (simp add: max_nesting_def)
  with m show ?thesis
    by (rule that) (simp add: member_text_def quote_string_def esc_char_def)
qed

theorem stdio_delivers_messages_witness:
  "\<exists>m. ms_Request ping_request = Some m
    \<and> read_times 3 (NewWithMaxLine (write_all [m, m] (New_stdio [] None) []) None 1000) = [Inr m, Inr m, Inl io_EOF]"
proof -
  obtain m where m: "ms_Request ping_request = Some m" "json_valid m" "length m < 100"
    by (rule ping_request_text)
  have "read_times (Suc (length [m, m])) (NewWithMaxLine (write_all [m, m] (New_stdio [] None) []) None 1000)
      = map Inr [m, m] @ [Inl io_EOF]"
    by (rule stdio_delivers_messages)
       (use m in \<open>auto simp: buffer_limit_def initial_buffer_def New_stdio_def NewWithMaxLine_def\<close>)
  with m(1) show ?thesis by (simp add: numeral_3_eq_3)
qed

text \<open>
  Whatever the input, a message that \<open>ReadMessage\<close> returns before the transport has reported
  a line as too long is valid JSON on one line and shorter than the buffer; the read always
  returns, and a closed transport or a done context reads nothing.\<close>

theorem stdio_reads_bounded_json:
  assumes "ReadMessage_stdio ctx_err t = (Inr m, t')" "\<not> sc_long (st_scanner t)"
  shows "json_valid m \<and> LF \<notin> set m \<and> length m < buffer_limit (st_maxLine t) \<and> \<not> st_closed t \<and> ctx_err = None
    \<and> length (sc_in (st_scanner t')) < length (sc_in (st_scanner t))"
proof -
  from assms(1) obtain sc where l: "read_loop (buffer_limit (st_maxLine t)) (st_scanner t) = (Some m, sc)"
    and t': "t' = t\<lparr>st_scanner := sc\<rparr>" "\<not> st_closed t" "ctx_err = None"
    by (auto simp: ReadMessage_stdio_def split: if_splits option.splits prod.splits)
  from read_loop_shorter [OF l] t' read_loop_sound [OF l] assms(2) show ?thesis by simp
qed

theorem stdio_reads_bounded_json_witness:
  "json_valid ''{}'' \<and> length ''{}'' < buffer_limit (st_maxLine (NewWithMaxLine (''{}'' @ [LF]) None 5))"
proof -
  have "read_loop (buffer_limit 5) \<lparr>sc_in = ''{}'' @ [LF], sc_end = None, sc_long = False\<rparr>
      = (Some ''{}'', \<lparr>sc_in = ''{}'' @ [LF], sc_end = None, sc_long = False\<rparr>\<lparr>sc_in := []\<rparr>)"
    by (intro read_loop_line) (auto simp: buffer_limit_def initial_buffer_def json_valid_braces)
  then have "ReadMessage_stdio None (NewWithMaxLine (''{}'' @ [LF]) None 5)
      = (Inr ''{}'', \<lparr>st_scanner = \<lparr>sc_in = [], sc_end = None, sc_long = False\<rparr>, st_maxLine = 5, st_closed = False\<rparr>)"
    by (simp add: ReadMessage_stdio_def NewWithMaxLine_def)
  from stdio_reads_bounded_json [OF this] show ?thesis by (simp add: NewWithMaxLine_def)
qed

text \<open>
  A limit below 64 KiB is not enforced: the scanner's initial buffer of 64 KiB admits every
  valid one-line message below that size, whatever smaller \<open>maxLine\<close> the transport was given.\<close>

theorem stdio_small_limit_ignored:
  assumes "no_ctl m" "json_valid m" "length m < initial_buffer"
  shows "fst (ReadMessage_stdio None (NewWithMaxLine (m @ [LF]) None maxLine)) = Inr m"
proof -
  have "read_loop (buffer_limit (st_maxLine (NewWithMaxLine (m @ [LF]) None maxLine))) (st_scanner (NewWithMaxLine (m @ [LF]) None maxLine))
      = (Some m, (st_scanner (NewWithMaxLine (m @ [LF]) None maxLine))\<lparr>sc_in := []\<rparr>)"
    using assms by (intro read_loop_line) (auto simp: NewWithMaxLine_def buffer_limit_def)
  then show ?thesis by (simp add: ReadMessage_stdio_def NewWithMaxLine_def)
qed

theorem stdio_small_limit_ignored_witness:
  "fst (ReadMessage_stdio None (NewWithMaxLine (quote_string ''longer'' @ [LF]) None 4)) = Inr (quote_string ''longer'')"
  by (rule stdio_small_limit_ignored [OF _ json_valid_quote])
     (simp_all add: quote_string_def esc_char_def initial_buffer_def)

lemma read_message_shorter:
  assumes "ReadMessage_stdio ctx_err t = (Inr m, t')"
  shows "length (sc_in (st_scanner t')) < length (sc_in (st_scanner t))"
proof -
  from assms obtain sc where "read_loop (buffer_limit (st_maxLine t)) (st_scanner t) = (Some m, sc)" "t' = t\<lparr>st_scanner := sc\<rparr>"
    by (auto simp: ReadMessage_stdio_def split: if_splits option.splits prod.splits)
  with read_loop_shorter show ?thesis by fastforce
qed

lemma read_times_ends: "length (sc_in (st_scanner t)) < n \<Longrightarrow> \<exists>e. Inl e \<in> set (read_times n t)"
proof (induction n arbitrary: t)
  case 0
  then show ?case by simp
next
  case (Suc n)
  obtain r t' where r: "ReadMessage_stdio None t = (r, t')" by fastforce
  show ?case
  proof (cases r)
    case (Inr m)
    with r Suc.prems read_message_shorter [of None t m t'] have "length (sc_in (st_scanner t')) < n" by simp
    from Suc.IH [OF this] r show ?thesis by auto
  qed (use r in auto)
qed

text \<open>
  C29: Reading a finite input ends. Every read consumes input or fails, so of any reads one more than
  the bytes that are left, one reports an error: the loop of a peer that serves a stdio transport
  terminates on every input, with or without line ends, overlong lines or invalid JSON.\<close>

theorem stdio_serving_ends: "\<exists>e. Inl e \<in> set (read_times (Suc (length (sc_in (st_scanner t)))) t)"
  by (rule read_times_ends) simp

end
