(* ===== verification/Serve_Answers.thy ===== *)
theory Serve_Answers
  imports Peer_World "HOL-Library.Multiset"
begin

text \<open>
  A serving peer answers everything: the loop of \<open>Serve\<close> starts a goroutine for every request it
  reads, and whatever order these run in, each request is answered on the transport exactly
  once and notifications are not answered at all.
\<close>

section \<open>What is written\<close>

text \<open>
  \<open>log\<close> is what was written to the peer's transport so far. The transport appends each message in its
  framing to it, and the application does not write to it on its own.
\<close>

definition same_log :: "('w \<Rightarrow> 'a list) \<Rightarrow> 'w \<Rightarrow> 'w \<Rightarrow> bool" where
  "same_log log w w' \<longleftrightarrow> log w' = log w"

definition logs_writes :: "(bytes \<Rightarrow> 'a list) \<Rightarrow> ('w \<Rightarrow> 'a list) \<Rightarrow> 'w Peer \<Rightarrow> bool" where
  "logs_writes frame log p \<longleftrightarrow> (\<forall>ctx data w. log (snd (t_WriteMessage (transport p) ctx data w)) = log w @ frame data)"

interpretation quiet_world: world_relation "same_log log" for log
  by unfold_locales (simp_all add: same_log_def)

text \<open>A request that was handled: no response to a notification, and otherwise one with its identifier.\<close>

definition answers_of :: "Request list \<Rightarrow> Response list \<Rightarrow> bytes list \<Rightarrow> bool" where
  "answers_of reqs rs ts \<longleftrightarrow>
     map ms_Response rs = map Some ts \<and> map resp_ID rs = map req_ID (filter (\<lambda>r. \<not> IsNotification r) reqs)
     \<and> (\<forall>r \<in> set rs. resp_JSONRPC r = ''2.0'' \<and> (resp_Result r = None \<longleftrightarrow> resp_Error r \<noteq> None))"

text \<open>The responses are those that the requests get, in whatever states they are handled.\<close>

definition given_by :: "'w Peer \<Rightarrow> Context \<Rightarrow> Request list \<Rightarrow> Response list \<Rightarrow> bool" where
  "given_by p ctx reqs rs \<longleftrightarrow> (\<forall>r \<in> set rs. \<exists>req \<in> set reqs. \<exists>st. fst (sync_request p ctx req st) = Some r)"

lemma handled_once:
  assumes "app_in (same_log log) p" "logs_writes frame log p" "owners_in (same_log log) st" "raw_ok (req_ID req)"
    and "\<And>st. outcome_ok (fst (run_request p ctx req st))"
  shows "owners_in (same_log log) (handleRequest p ctx req st)
    \<and> (\<exists>rs ts. log (world (handleRequest p ctx req st)) = log (world st) @ concat (map frame ts) \<and> answers_of [req] rs ts
         \<and> given_by p ctx [req] rs)"
proof -
  obtain resp st' where sync: "sync_request p ctx req st = (resp, st')" by (metis prod.exhaust)
  have kept: "log (world st') = log (world st)" "owners_in (same_log log) st'"
    using quiet_world.kept_sync [OF assms(1), of "world st" st ctx req] assms(3) sync by (auto simp: kept_state_def same_log_def)
  obtain c where run: "handleRequest p ctx req st = (case resp of None \<Rightarrow> st' | Some r \<Rightarrow> if IsNotification req then st' else send p c r st')"
    using handleRequest_sync [of p ctx req st] sync by (auto split: option.splits)
  show ?thesis
  proof (cases "IsNotification req")
    case True
    with run kept show ?thesis by (auto simp: answers_of_def given_by_def split: option.splits)
  next
    case False
    from one_answer_shape [OF this, of p ctx st] sync obtain r where
      r: "resp = Some r" "resp_ID r = req_ID req" "resp_JSONRPC r = ''2.0''" "resp_Result r = None \<longleftrightarrow> resp_Error r \<noteq> None" by auto
    from sync_response_marshals [OF _ assms(4,5)] sync r(1) obtain b where b: "ms_Response r = Some b" by blast
    have "log (world (send p c r st')) = log (world st) @ concat (map frame [b])"
      using assms(2) kept(1) by (simp add: send_def sendJSON_def b logs_writes_def)
    moreover have "owners_in (same_log log) (send p c r st')" using kept(2) by (simp add: send_def owners_in_def)
    moreover have "answers_of [req] [r] [b]" using False r b by (simp add: answers_of_def)
    moreover have "given_by p ctx [req] [r]" using sync r(1) by (auto simp: given_by_def intro: exI [of _ st])
    moreover have "handleRequest p ctx req st = send p c r st'" using False r(1) run by simp
    ultimately show ?thesis by (metis (no_types))
  qed
qed

lemma answers_append: "answers_of xs rs ts \<Longrightarrow> answers_of ys rs' ts' \<Longrightarrow> answers_of (xs @ ys) (rs @ rs') (ts @ ts')"
  by (auto simp: answers_of_def)

lemma all_handled:
  assumes "app_in (same_log log) p" "logs_writes frame log p" "owners_in (same_log log) st" "\<forall>req \<in> set reqs. raw_ok (req_ID req)"
    and "\<And>req st. req \<in> set reqs \<Longrightarrow> outcome_ok (fst (run_request p ctx req st))"
  shows "\<exists>rs ts. log (world (fold (handleRequest p ctx) reqs st)) = log (world st) @ concat (map frame ts) \<and> answers_of reqs rs ts
    \<and> given_by p ctx reqs rs"
  using assms(3-5)
proof (induction reqs arbitrary: st)
  case Nil
  show ?case by (rule exI [of _ "[]"], rule exI [of _ "[]"]) (simp add: answers_of_def given_by_def)
next
  case (Cons req reqs)
  let ?st = "handleRequest p ctx req st"
  from handled_once [OF assms(1,2) Cons.prems(1)] Cons.prems(2,3) obtain rs ts where
    one: "owners_in (same_log log) ?st" "log (world ?st) = log (world st) @ concat (map frame ts)" "answers_of [req] rs ts"
      "given_by p ctx [req] rs" by fastforce
  from Cons.IH [OF one(1)] Cons.prems(2,3) obtain rs' ts' where
    rest: "log (world (fold (handleRequest p ctx) reqs ?st)) = log (world ?st) @ concat (map frame ts')" "answers_of reqs rs' ts'"
      "given_by p ctx reqs rs'" by auto
  have "answers_of (req # reqs) (rs @ rs') (ts @ ts')" using answers_append [OF one(3) rest(2)] by simp
  moreover have "log (world (fold (handleRequest p ctx) (req # reqs) st)) = log (world st) @ concat (map frame (ts @ ts'))"
    using one(2) rest(1) by simp
  moreover have "given_by p ctx (req # reqs) (rs @ rs')" using one(4) rest(3) by (auto simp: given_by_def)
  ultimately show ?case by blast
qed

section \<open>The loop\<close>

lemma Serve_spawns:
  assumes "list_all2 (\<lambda>d m. DecodeMessage d [Some (decOpts p)] = Inr m \<and> int (length d) \<le> maxMessageSize p \<and> IsRequest m \<and> \<not> IsResponse m) ds ms"
    and "\<not> crashed ps"
  shows "Serve p ctx ds ps = ps\<lparr>spawned := spawned ps @ map AsRequest ms\<rparr>"
  using assms
proof (induction arbitrary: ps rule: list_all2_induct)
  case (Cons d ds m ms)
  have "serve_message p ctx d ps = ps\<lparr>spawned := spawned ps @ [AsRequest m]\<rparr>"
    using Cons.hyps(1) by (simp add: serve_decoded dispatch_def)
  with Cons.IH [of "ps\<lparr>spawned := spawned ps @ [AsRequest m]\<rparr>"] Cons.prems show ?case by simp
qed simp

lemma served_and_answered:
  assumes "app_in (same_log log) p" "logs_writes frame log p" "owners_in (same_log log) (disp ps)" "spawned ps = []" "\<not> crashed ps"
    and "list_all2 (\<lambda>d m. DecodeMessage d [Some (decOpts p)] = Inr m \<and> int (length d) \<le> maxMessageSize p \<and> IsRequest m \<and> \<not> IsResponse m) ds ms"
    and "mset reqs = mset (spawned (Serve p ctx ds ps))"
    and "\<And>req st. req \<in> set reqs \<Longrightarrow> outcome_ok (fst (run_request p ctx req st))"
  shows "\<exists>rs ts. log (world (fold (handleRequest p ctx) reqs (disp (Serve p ctx ds ps)))) = log (world (disp ps)) @ concat (map frame ts)
    \<and> map ms_Response rs = map Some ts
    \<and> mset (map resp_ID rs) = mset (map msg_ID (filter (\<lambda>m. \<not> IsNotification (AsRequest m)) ms))
    \<and> (\<forall>r \<in> set rs. resp_JSONRPC r = ''2.0'' \<and> (resp_Result r = None \<longleftrightarrow> resp_Error r \<noteq> None))
    \<and> given_by p ctx reqs rs"
proof -
  have served: "Serve p ctx ds ps = ps\<lparr>spawned := map AsRequest ms\<rparr>"
    using Serve_spawns [OF assms(6,5), of ctx] assms(4) by simp
  have reqs: "mset reqs = mset (map AsRequest ms)" using assms(7) by (simp add: served)
  have raws: "raw_ok (req_ID (AsRequest m))" if "m \<in> set ms" for m
  proof -
    from that assms(6) obtain d where "DecodeMessage d [Some (decOpts p)] = Inr m"
      by (auto simp: list_all2_conv_all_nth in_set_conv_nth)
    from DecodeMessage_raws [OF this] show ?thesis by (simp add: AsRequest_def message_raws_ok_def)
  qed
  have "raw_ok (req_ID req)" if "req \<in> set reqs" for req
    using that raws mset_eq_setD [OF reqs] by auto
  then obtain rs ts where written: "log (world (fold (handleRequest p ctx) reqs (disp ps))) = log (world (disp ps)) @ concat (map frame ts)"
      "answers_of reqs rs ts" "given_by p ctx reqs rs"
    using all_handled [OF assms(1-3), of reqs ctx] assms(8) by blast
  have "mset (map resp_ID rs) = image_mset req_ID (filter_mset (\<lambda>r. \<not> IsNotification r) (mset reqs))"
    using written(2) by (simp add: answers_of_def flip: mset_map mset_filter)
  also have "\<dots> = mset (map req_ID (filter (\<lambda>r. \<not> IsNotification r) (map AsRequest ms)))"
    unfolding reqs by (simp flip: mset_map mset_filter)
  also have "\<dots> = mset (map msg_ID (filter (\<lambda>m. \<not> IsNotification (AsRequest m)) ms))"
    by (simp add: filter_map o_def AsRequest_def)
  finally show ?thesis using written by (auto simp: served answers_of_def)
qed

text \<open>
  C4: Serving answers every request exactly once. A peer whose transport takes every write and whose
  application writes nothing on its own reads any messages that decode as requests or
  notifications, and the goroutines it starts run in any order. Then exactly one response to each request has been written and none to
  a notification: the identifiers of the responses are those of the requests, with their
  multiplicity, and each response is of version 2.0 and has either a result or an error.
\<close>

theorem serve_answers_all:
  assumes "app_in (same_log log) p" "logs_writes frame log p" "owners_in (same_log log) (disp ps)" "spawned ps = []" "\<not> crashed ps"
    and "list_all2 (\<lambda>d m. DecodeMessage d [Some (decOpts p)] = Inr m \<and> int (length d) \<le> maxMessageSize p \<and> IsRequest m \<and> \<not> IsResponse m) ds ms"
    and "mset reqs = mset (spawned (Serve p ctx ds ps))"
    and "\<And>req st. req \<in> set reqs \<Longrightarrow> outcome_ok (fst (run_request p ctx req st))"
  shows "\<exists>rs ts. log (world (fold (handleRequest p ctx) reqs (disp (Serve p ctx ds ps)))) = log (world (disp ps)) @ concat (map frame ts)
    \<and> map ms_Response rs = map Some ts
    \<and> mset (map resp_ID rs) = mset (map msg_ID (filter (\<lambda>m. \<not> IsNotification (AsRequest m)) ms))
    \<and> (\<forall>r \<in> set rs. resp_JSONRPC r = ''2.0'' \<and> (resp_Result r = None \<longleftrightarrow> resp_Error r \<noteq> None))"
  using served_and_answered [OF assms] by blast

text \<open>The example peer reads the same call twice, and its goroutines run.\<close>

definition call_message :: Message where
  "call_message = zero_Message\<lparr>msg_JSONRPC := ''2.0'', msg_ID := Some ''1'', msg_Method := ''x''\<rparr>"

definition fresh_peer_state :: "example_world pstate" where
  "fresh_peer_state = \<lparr>disp = example_state, pending = Map.empty, chans = (\<lambda>_. []), spawned = [], crashed = False\<rparr>"

lemma example_peer_quiet: "app_in (same_log snd) example_peer" "logs_writes (\<lambda>d. [d]) snd example_peer"
proof -
  have "registry example_peer = registered example_profile empty_world newRegistry" by (simp add: example_peer_eq)
  then have "registry_in (same_log snd) (registry example_peer)"
    by (auto simp: registry_in_def in_defs same_log_def registered_def newRegistry_def claim_def example_profile_def example_flows_def
        method_names_def resolve_names_def opt_list_def split: if_splits)
  then show "app_in (same_log snd) example_peer"
    by (auto simp: app_in_def handler_in_def in_defs same_log_def example_peer_eq example_handler_def BaseHandler_def not_found_def
        memory_backend_def)
  show "logs_writes (\<lambda>d. [d]) snd example_peer" by (auto simp: logs_writes_def example_peer_eq example_transport_def)
qed

theorem serve_answers_all_witness:
  "\<exists>rs ts. snd (world (fold (handleRequest example_peer background) [AsRequest call_message, AsRequest call_message]
        (disp (Serve example_peer background [call_text, call_text] fresh_peer_state)))) = ts
    \<and> map ms_Response rs = map Some ts \<and> mset (map resp_ID rs) = {#Some ''1'', Some ''1''#}"
proof -
  have m: "DecodeMessage call_text [Some (decOpts example_peer)] = Inr call_message" "int (length call_text) \<le> maxMessageSize example_peer"
    using call_text_decoded by (simp_all add: decOpts_def example_peer_eq call_message_def call_text_length)
  have ok: "outcome_ok (fst (run_request example_peer background (AsRequest call_message) st))" for st
    by (simp add: run_request_def example_peer_eq registered_def newRegistry_def runMiddleware_def AsRequest_def call_message_def
        dispatchMethodInternal_def custom_method_def lookupMethod_def claim_def method_names_def example_profile_def fail_def
        outcome_ok_def NewRPCError_def raw_ok_def)
  have kinds: "IsRequest call_message" "\<not> IsResponse call_message" "\<not> IsNotification (AsRequest call_message)" "msg_ID call_message = Some ''1''"
    by (simp_all add: call_message_def IsRequest_def IsResponse_def IsNotification_def AsRequest_def raw_empty_def zero_Message_def)
  have "owners_in (same_log snd) (disp fresh_peer_state)" "snd (world (disp fresh_peer_state)) = []"
    by (simp_all add: fresh_peer_state_def example_state_def owners_in_def empty_world_def)
  then show ?thesis
    using serve_answers_all [OF example_peer_quiet, of fresh_peer_state "[call_text, call_text]" "[call_message, call_message]"
        "[AsRequest call_message, AsRequest call_message]" background]
      Serve_spawns [of example_peer "[call_text, call_text]" "[call_message, call_message]" fresh_peer_state background] m kinds ok
    by (auto simp: fresh_peer_state_def)
qed

end
