(* ===== verification/Stdio_Peer.thy ===== *)
theory Stdio_Peer
  imports Stdio_Transport Serve_Answers Peer_Wire
begin

text \<open>
  A peer that serves on standard input and output (stdio/stdio.go with peer.go): the messages a
  client writes as lines are the ones that \<open>Serve\<close> reads, and the lines that come out are the responses.
\<close>

text \<open>The world of the peer is its output stream and everything else; writes go through the transport \<open>t\<close>.\<close>

definition stdio_Interface :: "StdioTransport \<Rightarrow> (bytes \<times> 'x) Transport" where
  "stdio_Interface t =
     \<lparr>t_WriteMessage = (\<lambda>_ data (out, x). case WriteMessage_stdio pipe None data t out of (e, out') \<Rightarrow> (e, out', x)),
      t_Close = (\<lambda>w. (None, w))\<rparr>"

lemma stdio_logs: "\<not> st_closed t \<Longrightarrow> transport p = stdio_Interface t \<Longrightarrow> logs_writes (\<lambda>d. d @ [LF]) fst p"
  by (auto simp: logs_writes_def stdio_Interface_def WriteMessage_stdio_def pipe_def)

text \<open>
  C5: A service on standard input and output. A client writes requests and notifications as lines to a
  peer, which reads exactly these messages in their order and then the end of its input. Whatever
  order the goroutines of the requests run in, what the peer writes are lines with exactly one
  response to each request, and a client that reads them gets exactly these responses and then the end
  of its input. The responses the requests get must be valid JSON that fits into the client's buffer.
\<close>

theorem stdio_service:
  assumes client: "\<forall>d \<in> set ds. \<exists>r. ms_Request r = Some d" "\<forall>d \<in> set ds. length d < buffer_limit maxLine" "\<not> st_closed tc" "0 < maxLine"
    and peer: "transport p = stdio_Interface t" "\<not> st_closed t" "app_in (same_log fst) p" "owners_in (same_log fst) (disp ps)"
      "spawned ps = []" "\<not> crashed ps" "fst (world (disp ps)) = []"
    and msgs: "list_all2 (\<lambda>d m. DecodeMessage d [Some (decOpts p)] = Inr m \<and> int (length d) \<le> maxMessageSize p \<and> IsRequest m \<and> \<not> IsResponse m) ds ms"
    and order: "mset reqs = mset (spawned (Serve p ctx ds ps))"
    and results: "\<And>req st. req \<in> set reqs \<Longrightarrow> outcome_ok (fst (run_request p ctx req st))"
    and fits: "\<And>req st r b. req \<in> set reqs \<Longrightarrow> fst (sync_request p ctx req st) = Some r \<Longrightarrow> ms_Response r = Some b
      \<Longrightarrow> json_valid b \<and> length b < buffer_limit maxLine"
  shows "read_times (Suc (length ds)) (NewWithMaxLine (write_all ds tc []) None maxLine) = map Inr ds @ [Inl io_EOF]
    \<and> (\<exists>rs ts. map ms_Response rs = map Some ts
        \<and> mset (map resp_ID rs) = mset (map msg_ID (filter (\<lambda>m. \<not> IsNotification (AsRequest m)) ms))
        \<and> (\<forall>r \<in> set rs. resp_JSONRPC r = ''2.0'' \<and> (resp_Result r = None \<longleftrightarrow> resp_Error r \<noteq> None))
        \<and> fst (world (fold (handleRequest p ctx) reqs (disp (Serve p ctx ds ps)))) = concat (map (\<lambda>b. b @ [LF]) ts)
        \<and> read_times (Suc (length ts)) (NewWithMaxLine (fst (world (fold (handleRequest p ctx) reqs (disp (Serve p ctx ds ps))))) None maxLine)
            = map Inr ts @ [Inl io_EOF])"
proof
  have "json_valid d" if "d \<in> set ds" for d
  proof -
    from that msgs obtain m where "DecodeMessage d [Some (decOpts p)] = Inr m"
      by (auto simp: list_all2_conv_all_nth in_set_conv_nth)
    then show ?thesis by (auto simp: DecodeMessage_exact json_valid_def)
  qed
  then show "read_times (Suc (length ds)) (NewWithMaxLine (write_all ds tc []) None maxLine) = map Inr ds @ [Inl io_EOF]"
    using client by (intro messages_delivered) auto
  from served_and_answered [OF peer(3) stdio_logs [OF peer(2,1)] peer(4-6) msgs order results] obtain rs ts where
    out: "fst (world (fold (handleRequest p ctx) reqs (disp (Serve p ctx ds ps)))) = concat (map (\<lambda>d. d @ [LF]) ts)"
      "map ms_Response rs = map Some ts" "mset (map resp_ID rs) = mset (map msg_ID (filter (\<lambda>m. \<not> IsNotification (AsRequest m)) ms))"
      "\<forall>r \<in> set rs. resp_JSONRPC r = ''2.0'' \<and> (resp_Result r = None \<longleftrightarrow> resp_Error r \<noteq> None)" "given_by p ctx reqs rs"
    using peer(7) by auto
  have "(\<exists>r. ms_Response r = Some b) \<and> json_valid b \<and> length b < buffer_limit maxLine" if "b \<in> set ts" for b
  proof -
    from that have "Some b \<in> set (map ms_Response rs)" by (simp add: out(2) del: set_map) simp
    then obtain r where r: "r \<in> set rs" "ms_Response r = Some b" by auto
    with out(5) fits show ?thesis unfolding given_by_def by blast
  qed
  then have "read_times (Suc (length ts)) (NewWithMaxLine (write_all ts t []) None maxLine) = map Inr ts @ [Inl io_EOF]"
    using client(4) peer(2) by (intro messages_delivered) auto
  then show "\<exists>rs ts. map ms_Response rs = map Some ts
      \<and> mset (map resp_ID rs) = mset (map msg_ID (filter (\<lambda>m. \<not> IsNotification (AsRequest m)) ms))
      \<and> (\<forall>r \<in> set rs. resp_JSONRPC r = ''2.0'' \<and> (resp_Result r = None \<longleftrightarrow> resp_Error r \<noteq> None))
      \<and> fst (world (fold (handleRequest p ctx) reqs (disp (Serve p ctx ds ps)))) = concat (map (\<lambda>b. b @ [LF]) ts)
      \<and> read_times (Suc (length ts)) (NewWithMaxLine (fst (world (fold (handleRequest p ctx) reqs (disp (Serve p ctx ds ps))))) None maxLine)
          = map Inr ts @ [Inl io_EOF]"
    using out peer(2) by (intro exI [of _ rs] exI [of _ ts]) (simp add: write_all_stream)
qed

text \<open>The call of the example, served by a peer that does not know the method.\<close>

definition stdio_peer :: "(bytes \<times> unit) Peer" where
  "stdio_peer = fst (NewPeer (stdio_Interface (New_stdio [] None)) BaseHandler [] ([], ()))"

definition stdio_state :: "(bytes \<times> unit) pstate" where
  "stdio_state = \<lparr>disp = \<lparr>flowOwners = Map.empty, world = ([], ())\<rparr>, pending = Map.empty, chans = (\<lambda>_. []), spawned = [], crashed = False\<rparr>"

lemma stdio_peer_facts:
  "transport stdio_peer = stdio_Interface (New_stdio [] None)" "maxMessageSize stdio_peer = 1048576" "app_in (same_log fst) stdio_peer"
  "outcome_ok (fst (run_request stdio_peer ctx (arrived ''1'' ''m'' ''{}'') st))"
  "sync_request stdio_peer ctx (arrived ''1'' ''m'' ''{}'') st = (Some unknown_method, st)"
proof -
  have p: "stdio_peer = \<lparr>transport = stdio_Interface (New_stdio [] None), handler = BaseHandler, registry = newRegistry, sessionStore = None,
      maxMessageSize = 1048576, validator = None, authorizer = None\<rparr>" by (simp add: stdio_peer_def NewPeer_def)
  show "transport stdio_peer = stdio_Interface (New_stdio [] None)" "maxMessageSize stdio_peer = 1048576" by (simp_all add: p)
  show "app_in (same_log fst) stdio_peer"
    by (simp add: p app_in_def handler_in_def registry_in_def newRegistry_def BaseHandler_def not_found_def in_defs same_log_def)
  show "outcome_ok (fst (run_request stdio_peer ctx (arrived ''1'' ''m'' ''{}'') st))"
    by (simp add: p run_request_def newRegistry_def runMiddleware_def arrived_def dispatchMethodInternal_def custom_method_def lookupMethod_def
        fail_def outcome_ok_def NewRPCError_def raw_ok_def)
  show "sync_request stdio_peer ctx (arrived ''1'' ''m'' ''{}'') st = (Some unknown_method, st)"
    by (rule unknown_method_answer) (simp_all add: p open_peer_def newRegistry_def)
qed

theorem stdio_service_witness:
  "\<exists>data t. ms_Request example_req = Some data \<and> ms_Response unknown_method = Some t
    \<and> read_times 2 (NewWithMaxLine (write_all [data] (New_stdio [] None) []) None 1048576) = [Inr data, Inl io_EOF]
    \<and> (\<exists>rs ts. map ms_Response rs = map Some ts \<and> mset (map resp_ID rs) = {#Some (quote_string ''1'')#}
        \<and> read_times (Suc (length ts)) (NewWithMaxLine (fst (world (fold (handleRequest stdio_peer background) [arrived ''1'' ''m'' ''{}'']
            (disp (Serve stdio_peer background [data] stdio_state))))) None 1048576) = map Inr ts @ [Inl io_EOF])"
proof -
  obtain data where data: "ms_Request example_req = Some data" "int (length data) \<le> 1000" by (rule example_req_text)
  obtain t where t: "ms_Response unknown_method = Some t" "json_valid t" "length t \<le> 50000" by (rule unknown_method_written)
  let ?m = "sent_request ''1'' ''m'' ''{}''"
  have m: "DecodeMessage data [Some (decOpts stdio_peer)] = Inr ?m"
    using data empty_object_depth example_new_request
    by (intro request_decoded [OF _ _ empty_object_prints]) (auto simp: stdio_peer_facts ascii_def example_call_def)
  have kinds: "IsRequest ?m" "\<not> IsResponse ?m" "AsRequest ?m = arrived ''1'' ''m'' ''{}''" "msg_ID ?m = Some (quote_string ''1'')"
      "\<not> IsNotification (arrived ''1'' ''m'' ''{}'')"
    by (simp_all add: sent_request_kinds) (simp_all add: sent_request_def arrived_def IsNotification_def raw_empty_def quote_string_def)
  have msgs: "list_all2 (\<lambda>d m. DecodeMessage d [Some (decOpts stdio_peer)] = Inr m \<and> int (length d) \<le> maxMessageSize stdio_peer
      \<and> IsRequest m \<and> \<not> IsResponse m) [data] [?m]"
    using m kinds data(2) by (simp add: stdio_peer_facts)
  have open_tc: "\<not> st_closed (New_stdio [] None)" by (simp add: New_stdio_def NewWithMaxLine_def)
  have init: "owners_in (same_log fst) (disp stdio_state)" "spawned stdio_state = []" "\<not> crashed stdio_state" "fst (world (disp stdio_state)) = []"
    by (simp_all add: stdio_state_def owners_in_def)
  have spawned: "spawned (Serve stdio_peer background [data] stdio_state) = [arrived ''1'' ''m'' ''{}'']"
    using Serve_spawns [OF msgs, of stdio_state background] by (simp add: init kinds)
  have fits: "json_valid b \<and> length b < buffer_limit 1048576"
    if "req \<in> set [arrived ''1'' ''m'' ''{}'']" "fst (sync_request stdio_peer background req st) = Some r" "ms_Response r = Some b" for req st r b
    using that t by (simp add: stdio_peer_facts(5) buffer_limit_def)
  let ?reqs = "[arrived ''1'' ''m'' ''{}'']"
  have small: "\<forall>d \<in> set [data]. \<exists>r. ms_Request r = Some d" "\<forall>d \<in> set [data]. length d < buffer_limit 1048576" "(0::int) < 1048576"
    "mset ?reqs = mset (spawned (Serve stdio_peer background [data] stdio_state))"
    "\<And>req st. req \<in> set ?reqs \<Longrightarrow> outcome_ok (fst (run_request stdio_peer background req st))"
    using data spawned stdio_peer_facts(4) by (auto simp: buffer_limit_def simp del: Serve.simps)
  let ?out = "fst (world (fold (handleRequest stdio_peer background) ?reqs (disp (Serve stdio_peer background [data] stdio_state))))"
  have "read_times (Suc (length [data])) (NewWithMaxLine (write_all [data] (New_stdio [] None) []) None 1048576) = map Inr [data] @ [Inl io_EOF]
    \<and> (\<exists>rs ts. map ms_Response rs = map Some ts
        \<and> mset (map resp_ID rs) = mset (map msg_ID (filter (\<lambda>m. \<not> IsNotification (AsRequest m)) [?m]))
        \<and> (\<forall>r \<in> set rs. resp_JSONRPC r = ''2.0'' \<and> (resp_Result r = None \<longleftrightarrow> resp_Error r \<noteq> None))
        \<and> ?out = concat (map (\<lambda>b. b @ [LF]) ts)
        \<and> read_times (Suc (length ts)) (NewWithMaxLine ?out None 1048576) = map Inr ts @ [Inl io_EOF])"
    by (rule stdio_service [OF small(1,2) open_tc small(3) stdio_peer_facts(1) open_tc stdio_peer_facts(3) init msgs small(4)])
       (fact small(5), fact fits)
  then obtain rs ts where out: "read_times 2 (NewWithMaxLine (write_all [data] (New_stdio [] None) []) None 1048576) = [Inr data, Inl io_EOF]"
      "map ms_Response rs = map Some ts" "mset (map resp_ID rs) = mset (map msg_ID (filter (\<lambda>m. \<not> IsNotification (AsRequest m)) [?m]))"
      "read_times (Suc (length ts)) (NewWithMaxLine ?out None 1048576) = map Inr ts @ [Inl io_EOF]"
    by (auto simp: numeral_2_eq_2 simp del: read_times.simps write_all.simps Serve.simps fold_simps)
  from out(3) have "mset (map resp_ID rs) = {#Some (quote_string ''1'')#}" using kinds by simp
  with out(1,2,4) data(1) t(1) show ?thesis by (intro exI [of _ data] exI [of _ t] conjI exI [of _ rs] exI [of _ ts])
qed

end
