(* ===== verification/Ws_Transport.thy ===== *)
theory Ws_Transport
  imports Peer_Wire "HOL-Library.Sublist"
begin

text \<open>
  The WebSocket transport (ws/ws.go): which endpoints \<open>Dial\<close> connects to, which origins an
  upgrade accepts, and the messages on a connection. The connection belongs to a third-party
  package: dialing, upgrading and the frames of a connection are parameters, and so is \<open>url.Parse\<close>,
  of which the code uses the scheme, the host and the text of the URL. \<open>'w\<close> is the network.
\<close>

definition Subprotocol :: bytes where
  "Subprotocol = ''wmp.v1''"

definition allowedSchemes :: "bytes list" where
  "allowedSchemes = [''wss'', ''https'']"

text \<open>
  The WebSocket package: the methods of a connection \<open>'conn\<close>. A frame is its type and its data.
\<close>

definition TextMessage :: int where
  "TextMessage = 1"

definition BinaryMessage :: int where
  "BinaryMessage = 2"

record ('conn, 'w) websocket =
  wc_ReadMessage :: "'conn \<Rightarrow> 'w \<Rightarrow> (go_error + int \<times> bytes) \<times> 'w"
  wc_WriteMessage :: "'conn \<Rightarrow> int \<Rightarrow> bytes \<Rightarrow> 'w \<Rightarrow> go_error option \<times> 'w"
  wc_Close :: "'conn \<Rightarrow> 'w \<Rightarrow> go_error option \<times> 'w"

record 'conn ws_Transport =
  conn :: 'conn

definition NewTransport_ws :: "'conn \<Rightarrow> 'conn ws_Transport" where
  "NewTransport_ws c = \<lparr>conn = c\<rparr>"

record url =
  u_Scheme :: bytes
  u_Host :: bytes
  u_String :: bytes

text \<open>
  \<open>strings.EqualFold\<close>: on ASCII text the comparison of the letters in upper case; \<open>unicode\<close> is its
  value on other text.
\<close>

definition EqualFold :: "(bytes \<Rightarrow> bytes \<Rightarrow> bool) \<Rightarrow> bytes \<Rightarrow> bytes \<Rightarrow> bool" where
  "EqualFold unicode s t =
     (if list_all (\<lambda>c. byte c < 128) s \<and> list_all (\<lambda>c. byte c < 128) t then map upcase s = map upcase t else unicode s t)"

definition checkSameOrigin :: "(bytes \<Rightarrow> bytes \<Rightarrow> bool) \<Rightarrow> (bytes \<Rightarrow> go_error + url) \<Rightarrow> bytes \<Rightarrow> bytes \<Rightarrow> bool" where
  "checkSameOrigin unicode parse origin host =
     (if origin = [] then True
      else (case parse origin of Inl _ \<Rightarrow> False | Inr u \<Rightarrow> EqualFold unicode (u_Host u) host))"

fun scheme_allowed :: "(bytes \<Rightarrow> bytes \<Rightarrow> bool) \<Rightarrow> bytes list \<Rightarrow> bytes \<Rightarrow> bool" where
  "scheme_allowed unicode [] scheme = False"
| "scheme_allowed unicode (s # ss) scheme = (if EqualFold unicode scheme s then True else scheme_allowed unicode ss scheme)"

definition parseAndValidateURL :: "(bytes \<Rightarrow> bytes \<Rightarrow> bool) \<Rightarrow> (bytes \<Rightarrow> go_error + url) \<Rightarrow> bytes \<Rightarrow> bool \<Rightarrow> go_error + url" where
  "parseAndValidateURL unicode parse raw allowInsecure =
     (case parse raw of
        Inl e \<Rightarrow> Inl (GoErr (''invalid websocket url: '' @ error_text e))
      | Inr u \<Rightarrow>
          if u_Scheme u = [] then Inl (GoErr ''invalid websocket url: missing scheme'')
          else if scheme_allowed unicode allowedSchemes (u_Scheme u) then Inr u
          else if allowInsecure \<and> (EqualFold unicode (u_Scheme u) ''ws'' \<or> EqualFold unicode (u_Scheme u) ''http'') then Inr u
          else Inl (GoErr ''unsupported websocket scheme''))"

text \<open>The \<open>Upgrader\<close> of the package, of which the code sets two fields; \<open>CheckOrigin\<close> gets the headers Origin and Host.\<close>

record Upgrader_ws =
  Subprotocols :: "bytes list"
  CheckOrigin :: "bytes \<Rightarrow> bytes \<Rightarrow> bool"

definition Upgrader :: "(bytes \<Rightarrow> bytes \<Rightarrow> bool) \<Rightarrow> (bytes \<Rightarrow> go_error + url) \<Rightarrow> Upgrader_ws" where
  "Upgrader unicode parse = \<lparr>Subprotocols = [Subprotocol], CheckOrigin = checkSameOrigin unicode parse\<rparr>"

text \<open>
  \<open>Dial\<close>: \<open>dial\<close> is the dialer with the subprotocols it offers, the URL it connects to and the headers
  it sends; it returns the HTTP response, if there was one, beside the connection or the error.
\<close>

definition Dial ::
  "(bytes \<Rightarrow> bytes \<Rightarrow> bool) \<Rightarrow> (bytes \<Rightarrow> go_error + url)
    \<Rightarrow> (bytes list \<Rightarrow> bytes \<Rightarrow> 'hdr \<Rightarrow> 'w \<Rightarrow> ((go_error + 'conn) \<times> 'resp option) \<times> 'w)
    \<Rightarrow> bytes \<Rightarrow> 'hdr \<Rightarrow> bool \<Rightarrow> 'w \<Rightarrow> ((go_error + 'conn ws_Transport) \<times> 'resp option) \<times> 'w" where
  "Dial unicode parse dial rawURL header allowInsecure w =
     (case parseAndValidateURL unicode parse rawURL allowInsecure of
        Inl e \<Rightarrow> ((Inl e, None), w)
      | Inr u \<Rightarrow>
          (case dial [Subprotocol] (u_String u) header w of
             ((Inl e, resp), w') \<Rightarrow> ((Inl (GoErr (''ws dial: '' @ error_text e)), resp), w')
           | ((Inr c, resp), w') \<Rightarrow> ((Inr (NewTransport_ws c), resp), w')))"

text \<open>
  \<open>Upgrade\<close>: \<open>upgrade\<close> is what an upgrader of the package does with a request that has these headers.
\<close>

definition Upgrade ::
  "(bytes \<Rightarrow> bytes \<Rightarrow> bool) \<Rightarrow> (bytes \<Rightarrow> go_error + url) \<Rightarrow> (Upgrader_ws \<Rightarrow> bytes \<Rightarrow> bytes \<Rightarrow> 'w \<Rightarrow> (go_error + 'conn) \<times> 'w)
    \<Rightarrow> bytes \<Rightarrow> bytes \<Rightarrow> 'w \<Rightarrow> (go_error + 'conn ws_Transport) \<times> 'w" where
  "Upgrade unicode parse upgrade origin host w =
     (case upgrade (Upgrader unicode parse) origin host w of
        (Inl e, w') \<Rightarrow> (Inl (GoErr (''ws upgrade: '' @ error_text e)), w')
      | (Inr c, w') \<Rightarrow> (Inr (NewTransport_ws c), w'))"

section \<open>Messages\<close>

definition ReadMessage_ws :: "('conn, 'w) websocket \<Rightarrow> 'conn ws_Transport \<Rightarrow> 'w \<Rightarrow> (go_error + bytes) \<times> 'w" where
  "ReadMessage_ws ws t w =
     (case wc_ReadMessage ws (conn t) w of
        (Inl e, w') \<Rightarrow> (Inl e, w')
      | (Inr (_, data), w') \<Rightarrow> (Inr data, w'))"

text \<open>Writers hold the mutex of the transport, so a write is one step.\<close>

definition WriteMessage_ws :: "('conn, 'w) websocket \<Rightarrow> 'conn ws_Transport \<Rightarrow> bytes \<Rightarrow> 'w \<Rightarrow> go_error option \<times> 'w" where
  "WriteMessage_ws ws t data w = wc_WriteMessage ws (conn t) TextMessage data w"

definition WriteBinary :: "('conn, 'w) websocket \<Rightarrow> 'conn ws_Transport \<Rightarrow> bytes \<Rightarrow> 'w \<Rightarrow> go_error option \<times> 'w" where
  "WriteBinary ws t data w = wc_WriteMessage ws (conn t) BinaryMessage data w"

definition Close_ws :: "('conn, 'w) websocket \<Rightarrow> 'conn ws_Transport \<Rightarrow> 'w \<Rightarrow> go_error option \<times> 'w" where
  "Close_ws ws t w = wc_Close ws (conn t) w"

definition Conn :: "'conn ws_Transport \<Rightarrow> 'conn" where
  "Conn t = conn t"

text \<open>The transport as the interface that a peer writes to.\<close>

definition ws_Interface :: "('conn, 'w) websocket \<Rightarrow> 'conn ws_Transport \<Rightarrow> 'w Transport" where
  "ws_Interface ws t = \<lparr>t_WriteMessage = (\<lambda>_. WriteMessage_ws ws t), t_Close = Close_ws ws t\<rparr>"

section \<open>Facts\<close>

lemma scheme_allowed_iff: "scheme_allowed unicode ss scheme \<longleftrightarrow> (\<exists>s \<in> set ss. EqualFold unicode scheme s)"
  by (induction ss) auto

text \<open>The URL that may be dialled: wss or https up to the case of letters, or ws or http after the opt-in.\<close>

definition secure_url :: "(bytes \<Rightarrow> bytes \<Rightarrow> bool) \<Rightarrow> (bytes \<Rightarrow> go_error + url) \<Rightarrow> bytes \<Rightarrow> bool \<Rightarrow> url option" where
  "secure_url unicode parse raw allowInsecure =
     (case parse raw of
        Inl _ \<Rightarrow> None
      | Inr u \<Rightarrow>
          if u_Scheme u \<noteq> [] \<and> (\<exists>s \<in> set ([''wss'', ''https''] @ (if allowInsecure then [''ws'', ''http''] else [])).
                EqualFold unicode (u_Scheme u) s) then Some u else None)"

lemma parse_validated:
  "parseAndValidateURL unicode parse raw allowInsecure = Inr u \<longleftrightarrow> secure_url unicode parse raw allowInsecure = Some u"
  by (auto simp: parseAndValidateURL_def secure_url_def scheme_allowed_iff allowedSchemes_def split: sum.splits if_splits)

text \<open>
  \<open>Dial\<close> asks the dialer for a connection exactly when the URL parses and its scheme is, up to
  the case of letters, wss or https, or ws or http after the opt-in; it then offers the protocol
  wmp.v1 for the parsed URL. In every other case it fails without touching the network.
\<close>

theorem dial_only_secure:
  "case secure_url unicode parse raw allowInsecure of
     None \<Rightarrow> \<exists>e. Dial unicode parse dial raw header allowInsecure w = ((Inl e, None), w)
   | Some u \<Rightarrow>
       (case dial [''wmp.v1''] (u_String u) header w of
          ((Inl e, resp), w') \<Rightarrow> \<exists>e'. Dial unicode parse dial raw header allowInsecure w = ((Inl e', resp), w')
        | ((Inr c, resp), w') \<Rightarrow> \<exists>t. Dial unicode parse dial raw header allowInsecure w = ((Inr t, resp), w') \<and> Conn t = c)"
proof (cases "parseAndValidateURL unicode parse raw allowInsecure")
  case (Inl e)
  then have "secure_url unicode parse raw allowInsecure = None"
    using parse_validated [of unicode parse raw allowInsecure] by (metis Inl_Inr_False not_None_eq)
  with Inl show ?thesis by (simp add: Dial_def)
next
  case (Inr u)
  then have "secure_url unicode parse raw allowInsecure = Some u" by (simp add: parse_validated)
  with Inr show ?thesis by (auto simp: Dial_def Subprotocol_def NewTransport_ws_def Conn_def split: prod.splits sum.splits)
qed

section \<open>Delivery\<close>

text \<open>
  What the code relies on in one direction of a connection, from \<open>a\<close> to \<open>b\<close>, with the frames \<open>q\<close> under way:
  a write adds its frame at the end or fails and adds nothing, a read that succeeds returns the oldest
  frame and removes it, and the methods of the other direction leave these frames alone. Nothing is
  assumed of when a write or a read succeeds, so closing, errors and limits are included.
\<close>

definition carries :: "('conn, 'w) websocket \<Rightarrow> 'conn \<Rightarrow> 'conn \<Rightarrow> ('w \<Rightarrow> (int \<times> bytes) list) \<Rightarrow> bool" where
  "carries ws a b q \<longleftrightarrow>
     (\<forall>mt d w e w'. wc_WriteMessage ws a mt d w = (e, w') \<longrightarrow> q w' = q w @ [(mt, d)] \<or> e \<noteq> None \<and> q w' = q w)
     \<and> (\<forall>f w w'. wc_ReadMessage ws b w = (Inr f, w') \<longrightarrow> q w = f # q w')
     \<and> (\<forall>mt d w e w'. wc_WriteMessage ws b mt d w = (e, w') \<longrightarrow> q w' = q w)
     \<and> (\<forall>r w w'. wc_ReadMessage ws a w = (r, w') \<longrightarrow> q w' = q w)"

lemma carries_write:
  assumes "carries ws (conn a) c q"
  shows "WriteMessage_ws ws a d w = (e, w') \<Longrightarrow> q w' = q w @ [(TextMessage, d)] \<or> e \<noteq> None \<and> q w' = q w"
    "WriteBinary ws a d w = (e, w') \<Longrightarrow> q w' = q w @ [(BinaryMessage, d)] \<or> e \<noteq> None \<and> q w' = q w"
  using assms unfolding carries_def WriteMessage_ws_def WriteBinary_def by blast+

lemma carries_read:
  assumes "carries ws c (conn b) q" "ReadMessage_ws ws b w = (Inr d, w')"
  shows "\<exists>mt. q w = (mt, d) # q w'"
  using assms by (fastforce simp: carries_def ReadMessage_ws_def split: prod.splits sum.splits)

text \<open>A successful read returns the only message that can be under way.\<close>

lemma carries_only:
  assumes "carries ws (conn a) (conn b) q" "q w = []" "WriteMessage_ws ws a d w = (e, w1)" "ReadMessage_ws ws b w1 = (Inr d', w2)"
  shows "d' = d \<and> q w2 = []"
  using carries_write(1) [OF assms(1,3)] carries_read [OF assms(1,4)] assms(2) by auto

text \<open>Writers of one end and readers of the other, in any order: the messages written and those read so far.\<close>

inductive exchange :: "('conn, 'w) websocket \<Rightarrow> 'conn ws_Transport \<Rightarrow> 'conn ws_Transport \<Rightarrow> 'w \<Rightarrow> bytes list \<Rightarrow> bytes list \<Rightarrow> 'w \<Rightarrow> bool"
  for ws a b w0 where
  exchange_start: "exchange ws a b w0 [] [] w0"
| exchange_text: "exchange ws a b w0 sent got w \<Longrightarrow> WriteMessage_ws ws a d w = (None, w') \<Longrightarrow> exchange ws a b w0 (sent @ [d]) got w'"
| exchange_binary: "exchange ws a b w0 sent got w \<Longrightarrow> WriteBinary ws a d w = (None, w') \<Longrightarrow> exchange ws a b w0 (sent @ [d]) got w'"
| exchange_read: "exchange ws a b w0 sent got w \<Longrightarrow> ReadMessage_ws ws b w = (Inr d, w') \<Longrightarrow> exchange ws a b w0 sent (got @ [d]) w'"

lemma ws_in_order:
  assumes "exchange ws a b w0 sent got w" "carries ws (conn a) (conn b) q" "q w0 = []"
  shows "sent = got @ map snd (q w)"
  using assms(1)
  by (induction rule: exchange.induct) (use assms(3) carries_write [OF assms(2)] carries_read [OF assms(2)] in \<open>fastforce+\<close>)

text \<open>
  C34: A call over a WebSocket. A waiting call of a client's peer with an ASCII identifier and method and
  any JSON parameters is written to one end of an idle connection. If the other end reads a message,
  it is that call; the peer there serves it, its goroutine writes the response, and if
  the client then reads a message, it is that response, and serving it makes the call return the
  response, result or error (texts up to white space and escapes). No message is left under way.
\<close>

theorem ws_call_end_to_end:
  assumes call: "reachable cl s" "pending (peer_state s) rid = Some ch" "calls s ch = Some c" "call_phase c = Waiting"
    and req: "NewRequest rid method (Some p) = Inr (call_req c)" "rid \<noteq> []" "ascii rid" "method \<noteq> []" "ascii method" "prints 9999 p v"
      "within_depth 32 (Some (compact_val p))"
    and sent: "ms_Request (call_req c) = Some data" "int (length data) \<le> maxMessageSize srv"
    and wire: "carries ws (conn a) (conn b) q" "carries ws (conn b) (conn a) q'" "q w = []"
    and there: "WriteMessage_ws ws a data w = (None, wa)" "ReadMessage_ws ws b wa = (Inr d, wb)"
    and server: "transport srv = ws_Interface ws b" "world (disp ps) = wb" "spawned ps = []"
      "sync_request srv ctx (arrived rid method p) (disp ps) = (Some r, st')" "sendable_response r" "q (world st') = []" "q' (world st') = []"
    and home: "ReadMessage_ws ws a (world (fold (handleRequest srv ctx) (spawned (serve_message srv ctx d ps)) (disp (serve_message srv ctx d ps))))
      = (Inr d', wc)"
    and returned: "\<And>t. ms_Response r = Some t \<Longrightarrow> int (length t) \<le> maxMessageSize cl"
  shows "d = data \<and> ms_Response r = Some d' \<and> q wb = [] \<and> q wc = [] \<and> q' wc = []
    \<and> (\<exists>s'. (cstep cl)\<^sup>*\<^sup>* (s\<lparr>peer_state := serve_message cl ctx d' (peer_state s)\<rparr>) s'
         \<and> pending (peer_state s') rid = None
         \<and> calls s' ch = Some (c\<lparr>call_phase := Returned (Inr (as_read r))\<rparr>))"
proof -
  from carries_only [OF wire(1,3) there] have d: "d = data" "q wb = []" by simp_all
  have new: "\<not> IsNotification (arrived rid method p)" by (simp add: arrived_def IsNotification_def raw_empty_def quote_string_def)
  from call_answered [OF call req(1-3,5-7) sent server(4,5) returned] obtain t s' where
    sync: "HandleRequestSync srv ctx data ps = ((Some t, None), ps\<lparr>disp := st'\<rparr>)"
    and returns: "(cstep cl)\<^sup>*\<^sup>* (s\<lparr>peer_state := serve_message cl ctx t (peer_state s)\<rparr>) s'" "pending (peer_state s') rid = None"
      "calls s' ch = Some (c\<lparr>call_phase := Returned (Inr (as_read r))\<rparr>)" by blast
  from one_answer_shape [OF new, of srv ctx "disp ps"] server(4)
  have "resp_ID r = Some (quote_string rid)" "resp_JSONRPC r = ''2.0''" by (simp_all add: arrived_def)
  moreover from this have "raw_prints 9999 (resp_ID r)" using prints_ascii [OF req(3)] by (auto simp: raw_prints_def)
  ultimately obtain t' where t': "ms_Response r = Some t'" using response_received [OF server(5), of cl] by blast
  then have t: "ms_Response r = Some t" using request_arrives [OF req(3,2,5,6,7,1) sent server(4) t'] sync by simp
  obtain e wd where written: "WriteMessage_ws ws b t (world st') = (e, wd)" by (metis prod.exhaust)
  have "world (handleRequest srv ctx (arrived rid method p) (disp ps)) = wd"
    using handleRequest_sync [of srv ctx "arrived rid method p" "disp ps"] server(1,4) new t written
    by (auto simp: send_def sendJSON_def ws_Interface_def)
  then have "ReadMessage_ws ws a wd = (Inr d', wc)"
    using home request_spawned [OF req(3,2,5,4,6,7,1) sent] server(3) d(1) by simp
  note reply = carries_only [OF wire(2) server(7) written this]
  have "q wd = []" using wire(1) written server(6) unfolding carries_def WriteMessage_ws_def by metis
  then have "q wc = []"
    using wire(1) \<open>ReadMessage_ws ws a wd = _\<close> unfolding carries_def ReadMessage_ws_def
    by (auto split: prod.splits sum.splits)
  with d reply t returns show ?thesis by blast
qed

text \<open>A connection as two queues of frames; the ends are told apart by a boolean.\<close>

type_synonym duplex = "(int \<times> bytes) list \<times> (int \<times> bytes) list"

definition duplex_socket :: "(bool, duplex) websocket" where
  "duplex_socket = \<lparr>
     wc_ReadMessage = (\<lambda>b (x, y). case (b, x, y) of
         (False, f # x', _) \<Rightarrow> (Inr f, (x', y)) | (True, _, f # y') \<Rightarrow> (Inr f, (x, y')) | _ \<Rightarrow> (Inl (GoErr ''EOF''), (x, y))),
     wc_WriteMessage = (\<lambda>b mt d (x, y). (None, if b then (x @ [(mt, d)], y) else (x, y @ [(mt, d)]))),
     wc_Close = (\<lambda>_ w. (None, w))\<rparr>"

lemma duplex_carries: "carries duplex_socket False True snd" "carries duplex_socket True False fst"
  by (auto simp: carries_def duplex_socket_def split: list.splits bool.splits)

text \<open>The call of the example, served at the other end by a peer that does not know the method.\<close>

definition ws_peer :: "duplex Peer" where
  "ws_peer = fst (NewPeer (ws_Interface duplex_socket (NewTransport_ws True)) BaseHandler [] ([], []))"

definition ws_state :: "duplex pstate" where
  "ws_state = \<lparr>disp = \<lparr>flowOwners = Map.empty, world = ([], [])\<rparr>, pending = Map.empty, chans = (\<lambda>_. []), spawned = [], crashed = False\<rparr>"

theorem ws_call_end_to_end_witness:
  "\<exists>data t s'. ms_Request example_req = Some data \<and> ms_Response unknown_method = Some t
    \<and> world (fold (handleRequest ws_peer background) (spawned (serve_message ws_peer background data ws_state)) (disp (serve_message ws_peer background data ws_state)))
        = ([(TextMessage, t)], [])
    \<and> (cstep example_peer)\<^sup>*\<^sup>* (run2\<lparr>peer_state := serve_message example_peer background t (peer_state run2)\<rparr>) s'
    \<and> calls s' 0 = Some ((example_call Waiting)\<lparr>call_phase := Returned (Inr (as_read unknown_method))\<rparr>)"
proof -
  obtain data where data: "ms_Request example_req = Some data" "int (length data) \<le> 1000" by (rule example_req_text)
  let ?a = "NewTransport_ws False" and ?b = "NewTransport_ws True" and ?req = "arrived ''1'' ''m'' ''{}''"
  let ?ps = "serve_message ws_peer background data ws_state"
  have p: "ws_peer = \<lparr>transport = ws_Interface duplex_socket ?b, handler = BaseHandler, registry = newRegistry, sessionStore = None,
      maxMessageSize = 1048576, validator = None, authorizer = None\<rparr>" by (simp add: ws_peer_def NewPeer_def)
  have srv: "open_peer ws_peer" "methods (registry ws_peer) ''m'' = None" "transport ws_peer = ws_Interface duplex_socket ?b"
    "int (length data) \<le> maxMessageSize ws_peer"
    using data(2) by (simp_all add: p open_peer_def newRegistry_def)
  obtain t where t: "ms_Response unknown_method = Some t" by (rule unknown_method_written)
  have "?ps = ws_state\<lparr>spawned := [?req]\<rparr>"
    using request_spawned [OF _ _ _ _ empty_object_prints empty_object_depth example_new_request, of data ws_peer background ws_state] data srv(4)
    by (simp add: ascii_def ws_state_def example_call_def)
  moreover have "world (handleRequest ws_peer background ?req (disp ws_state)) = ([(TextMessage, t)], [])"
    using handleRequest_sync [of ws_peer background ?req "disp ws_state"] unknown_method_answer [OF srv(1,2), of background "disp ws_state"] t
    by (auto simp: send_def sendJSON_def srv(3) ws_Interface_def WriteMessage_ws_def duplex_socket_def NewTransport_ws_def ws_state_def
        arrived_def IsNotification_def raw_empty_def quote_string_def)
  ultimately have run: "world (fold (handleRequest ws_peer background) (spawned ?ps) (disp ?ps)) = ([(TextMessage, t)], [])" by simp
  have "maxMessageSize example_peer = 1048576" by (simp add: example_peer_eq)
  moreover have "WriteMessage_ws duplex_socket ?a data ([], []) = (None, ([], [(TextMessage, data)]))"
    "ReadMessage_ws duplex_socket ?b ([], [(TextMessage, data)]) = (Inr data, ([], []))"
    "ReadMessage_ws duplex_socket ?a ([(TextMessage, t)], []) = (Inr t, ([], []))"
    by (simp_all add: WriteMessage_ws_def ReadMessage_ws_def duplex_socket_def NewTransport_ws_def)
  ultimately show ?thesis
    using ws_call_end_to_end [where ws = duplex_socket and a = ?a and b = ?b and q = snd and q' = fst and w = "([], [])"
        and wa = "([], [(TextMessage, data)])" and d = data and wb = "([], [])" and ps = ws_state and ctx = background and d' = t
        and wc = "([], [])" and data = data and st' = "disp ws_state",
        OF run2_reachable _ run2_calls(1) _ example_new_request _ _ _ _ empty_object_prints _ _ _ _ _ _ _ _ srv(3) _ _
        unknown_method_answer [OF srv(1,2)] unknown_method_text(1)]
      data unknown_method_text(2) empty_object_depth run2_calls(2) duplex_carries srv(4) run t
    by (fastforce simp: example_call_def ascii_def ws_state_def NewTransport_ws_def)
qed

text \<open>
  A notification that a peer sends over its WebSocket and that the other end reads is started
  there by the serving peer, with parameters that decode to those given.
\<close>

theorem ws_notification_served:
  assumes "codes nn 31 un zero t x" "ascii method" "method \<noteq> []"
    and "transport sender = ws_Interface ws a" "carries ws (conn a) (conn b) q" "q w = []"
    and "Notify sender ctx method t w = (e, w')" "ReadMessage_ws ws b w' = (Inr data, w'')"
  shows "q w'' = [] \<and> (\<exists>p. unmarshal un zero (Some p) = Some x
    \<and> (int (length data) \<le> maxMessageSize receiver
        \<longrightarrow> serve_message receiver ctx' data ps = ps\<lparr>spawned := spawned ps @ [notified method p]\<rparr>))"
proof -
  from assms(1-3) obtain d p where sent: "unmarshal un zero (Some p) = Some x"
      "Notify sender ctx method t = t_WriteMessage (transport sender) ctx d"
      "\<And>ctx' ps. int (length d) \<le> maxMessageSize receiver \<Longrightarrow> serve_message receiver ctx' d ps = ps\<lparr>spawned := spawned ps @ [notified method p]\<rparr>"
    by (rule Notify_served [where q = receiver and sender = sender and ctx = ctx]) blast
  have "WriteMessage_ws ws a d w = (e, w')" using assms(7) sent(2) by (simp add: assms(4) ws_Interface_def)
  from carries_only [OF assms(5,6) this assms(8)] sent(1,3) show ?thesis by blast
qed

end
