(* ===== verification/Http_Sse.thy ===== *)
theory Http_Sse
  imports Go_Channel Stdio_Transport Discovery
begin

text \<open>
  The HTTP transport (httpsse/httpsse.go): the client posts messages and receives events of a
  server-sent event stream; the server bridges both to the channels of a session and keeps a
  buffer of events for replay. Package \<open>net/http\<close> is a parameter: a request is what reaches
  the handler (method, header values, query, body), a reply what the handler writes.
  Channel operations return their ready outcomes, an empty list when they block; a send on
  a closed channel panics.
\<close>

section \<open>Server sessions\<close>

record serverEvent =
  ev_ID :: bytes
  ev_Data :: bytes

record serverSession =
  ss_incoming :: "bytes list"
  ss_outgoing :: "bytes list"
  ss_events :: "serverEvent list"
  ss_nextID :: int
  ss_maxEvents :: int

definition session_cap :: nat where
  "session_cap = 64"

definition newServerSession :: "int \<Rightarrow> serverSession" where
  "newServerSession maxEvents =
     \<lparr>ss_incoming = [], ss_outgoing = [], ss_events = [], ss_nextID = 0,
      ss_maxEvents = (if maxEvents \<le> 0 then 200 else maxEvents)\<rparr>"

definition event_id :: "int \<Rightarrow> bytes" where
  "event_id n = ''evt-'' @ show_int n"

definition bufferEvent :: "bytes \<Rightarrow> serverSession \<Rightarrow> bytes \<times> serverSession" where
  "bufferEvent data s =
     (let n = ss_nextID s + 1;
          evs = ss_events s @ [\<lparr>ev_ID = event_id n, ev_Data = data\<rparr>];
          evs' = (if int (length evs) > ss_maxEvents s then drop (length evs - nat (ss_maxEvents s)) evs else evs)
      in (event_id n, s\<lparr>ss_nextID := n, ss_events := evs'\<rparr>))"

fun replay_loop :: "bytes \<Rightarrow> serverEvent list \<Rightarrow> serverEvent list" where
  "replay_loop lastEventID [] = []"
| "replay_loop lastEventID (ev # evs) =
     (if ev_ID ev = lastEventID \<and> evs \<noteq> [] then evs else replay_loop lastEventID evs)"

definition replayAfter :: "bytes \<Rightarrow> serverSession \<Rightarrow> serverEvent list" where
  "replayAfter lastEventID s = (if lastEventID = [] then [] else replay_loop lastEventID (ss_events s))"

section \<open>The transport of a session\<close>

definition ReadMessage_server :: "go_error option \<Rightarrow> serverSession \<Rightarrow> ((go_error + bytes) \<times> serverSession) list" where
  "ReadMessage_server ctx_err s =
     (case ctx_err of None \<Rightarrow> [] | Some e \<Rightarrow> [(Inl e, s)])
     @ (case ss_incoming s of [] \<Rightarrow> [] | data # rest \<Rightarrow> [(Inr data, s\<lparr>ss_incoming := rest\<rparr>)])"

definition WriteMessage_server :: "bytes \<Rightarrow> serverSession \<Rightarrow> serverSession list" where
  "WriteMessage_server data s =
     (if length (ss_outgoing s) < session_cap then [s\<lparr>ss_outgoing := ss_outgoing s @ [data]\<rparr>] else [])"

definition Close_server :: "serverSession \<Rightarrow> go_error option \<times> serverSession" where
  "Close_server s = (None, s)"

text \<open>The two channel operations of the handler: a post pushes its body, and a post or a stream takes a message.\<close>

definition push_incoming :: "bytes \<Rightarrow> serverSession \<Rightarrow> serverSession list" where
  "push_incoming body s =
     (if length (ss_incoming s) < session_cap then [s\<lparr>ss_incoming := ss_incoming s @ [body]\<rparr>] else [])"

definition take_outgoing :: "serverSession \<Rightarrow> (bytes \<times> serverSession) list" where
  "take_outgoing s = (case ss_outgoing s of [] \<Rightarrow> [] | data # rest \<Rightarrow> [(data, s\<lparr>ss_outgoing := rest\<rparr>)])"

section \<open>The handler\<close>

text \<open>
  Sessions are shared by reference: the map of the handler leads to addresses of a heap, and a
  \<open>ServerTransport\<close> is such an address.
\<close>

record ServerHandler =
  sh_sessions :: "bytes \<rightharpoonup> nat"
  sh_heap :: "nat \<rightharpoonup> serverSession"
  sh_next :: nat

definition NewServerHandler :: ServerHandler where
  "NewServerHandler = \<lparr>sh_sessions = Map.empty, sh_heap = Map.empty, sh_next = 0\<rparr>"

definition add_session :: "bytes \<Rightarrow> ServerHandler \<Rightarrow> nat \<times> ServerHandler" where
  "add_session sessionID h =
     (sh_next h, h\<lparr>sh_sessions := (sh_sessions h)(sessionID \<mapsto> sh_next h),
        sh_heap := (sh_heap h)(sh_next h \<mapsto> newServerSession 200), sh_next := Suc (sh_next h)\<rparr>)"

definition Transport_server :: "bytes \<Rightarrow> ServerHandler \<Rightarrow> nat \<times> ServerHandler" where
  "Transport_server sessionID h =
     (case sh_sessions h sessionID of Some a \<Rightarrow> (a, h) | None \<Rightarrow> add_session sessionID h)"

text \<open>
  The session identifier of a body: \<open>json.Unmarshal\<close> into the envelope, whose error is ignored.
  After a value of the wrong type Go goes on with the rest, so every well-formed
  \<open>params.wmp.session_id\<close> counts and the last one wins.
\<close>

definition keyed :: "bytes \<Rightarrow> bytes \<Rightarrow> bool" where
  "keyed name k \<longleftrightarrow> k = name \<or> fold_name k = fold_name name"

fun members_of :: "jv \<Rightarrow> (bytes \<times> bytes \<times> jv) list" where
  "members_of (JObj ms) = ms"
| "members_of _ = []"

fun envelope_id :: "(bytes \<times> bytes \<times> jv) list \<Rightarrow> bytes \<Rightarrow> bytes" where
  "envelope_id [] sid = sid"
| "envelope_id ((k, b, v) # ms) sid =
     envelope_id ms (case v of JStr s \<Rightarrow> if keyed ''session_id'' k then s else sid | _ \<Rightarrow> sid)"

fun envelope_wmp :: "(bytes \<times> bytes \<times> jv) list \<Rightarrow> bytes \<Rightarrow> bytes" where
  "envelope_wmp [] sid = sid"
| "envelope_wmp ((k, b, v) # ms) sid = envelope_wmp ms (if keyed ''wmp'' k then envelope_id (members_of v) sid else sid)"

fun envelope_params :: "(bytes \<times> bytes \<times> jv) list \<Rightarrow> bytes \<Rightarrow> bytes" where
  "envelope_params [] sid = sid"
| "envelope_params ((k, b, v) # ms) sid = envelope_params ms (if keyed ''params'' k then envelope_wmp (members_of v) sid else sid)"

definition body_session :: "bytes \<Rightarrow> bytes" where
  "body_session body = (case json_parse body of None \<Rightarrow> [] | Some (_, v) \<Rightarrow> envelope_params (members_of v) [])"

definition post_session_id :: "bytes \<Rightarrow> bytes \<Rightarrow> bytes" where
  "post_session_id header body = (if header = [] then body_session body else header)"

text \<open>
  \<open>handlePost\<close> reads the map under one lock and, when the session is unknown, writes it under
  another: two critical sections, between which other requests may run.
\<close>

definition post_lookup :: "bytes \<Rightarrow> ServerHandler \<Rightarrow> nat option" where
  "post_lookup sessionID h = sh_sessions h sessionID"

definition post_create :: "bytes \<Rightarrow> ServerHandler \<Rightarrow> nat \<times> ServerHandler" where
  "post_create sessionID h = add_session sessionID h"

datatype http_reply =
    JsonReply bytes
  | ErrorReply int bytes

text \<open>
  A post with no other request in between: the reply once the peer has answered or the request's
  context is done. \<open>peer\<close> is what happens to the session while the handler waits.
\<close>

definition handlePost ::
  "bytes \<Rightarrow> bytes option \<Rightarrow> (serverSession \<Rightarrow> serverSession) \<Rightarrow> bool \<Rightarrow> ServerHandler \<Rightarrow> (http_reply \<times> ServerHandler) list" where
  "handlePost header body peer ctx_done h =
     (case body of
        None \<Rightarrow> [(ErrorReply 400 ''read error'', h)]
      | Some b \<Rightarrow>
          (let sid = post_session_id header b;
               (a, h1) = (case post_lookup sid h of Some a \<Rightarrow> (a, h) | None \<Rightarrow> post_create sid h)
           in (case sh_heap h1 a of
                 None \<Rightarrow> []
               | Some s \<Rightarrow>
                   concat (map (\<lambda>s1.
                     let s2 = peer s1 in
                     map (\<lambda>(resp, s3). (JsonReply resp, h1\<lparr>sh_heap := (sh_heap h1)(a \<mapsto> s3)\<rparr>)) (take_outgoing s2)
                     @ (if ctx_done then [(ErrorReply 504 ''timeout'', h1\<lparr>sh_heap := (sh_heap h1)(a \<mapsto> s2)\<rparr>)] else []))
                   (push_incoming b s)))))"

text \<open>What is written for an event.\<close>

definition event_text :: "bytes \<Rightarrow> bytes \<Rightarrow> bytes" where
  "event_text eid data = ''id: '' @ eid @ [LF] @ ''event: wmp'' @ [LF] @ ''data: '' @ data @ [LF, LF]"

text \<open>The part of \<open>handleSSE\<close> before its loop: an error, or the session and the replayed events.\<close>

definition handleSSE_start :: "bytes \<Rightarrow> bool \<Rightarrow> bytes \<Rightarrow> ServerHandler \<Rightarrow> http_reply + (nat \<times> bytes)" where
  "handleSSE_start sessionID flusher lastEventID h =
     (if sessionID = [] then Inl (ErrorReply 400 ''missing session_id'')
      else (case sh_sessions h sessionID of
         None \<Rightarrow> Inl (ErrorReply 404 ''session not found'')
       | Some a \<Rightarrow>
           if \<not> flusher then Inl (ErrorReply 500 ''streaming unsupported'')
           else Inr (a, (case sh_heap h a of
                           None \<Rightarrow> []
                         | Some s \<Rightarrow> concat (map (\<lambda>ev. event_text (ev_ID ev) (ev_Data ev)) (replayAfter lastEventID s))))))"

text \<open>One round of the loop: take a message, buffer it, write it.\<close>

definition sse_round :: "serverSession \<Rightarrow> (bytes \<times> serverSession) list" where
  "sse_round s = map (\<lambda>(data, s1). case bufferEvent data s1 of (eid, s2) \<Rightarrow> (event_text eid data, s2)) (take_outgoing s)"

datatype route =
    PostRoute
  | SseRoute
  | NotAllowed

definition ServeHTTP :: "bytes \<Rightarrow> route" where
  "ServeHTTP method = (if method = ''POST'' then PostRoute else if method = ''GET'' then SseRoute else NotAllowed)"

section \<open>The client\<close>

text \<open>\<open>strings.TrimSpace\<close>: the encodings of the characters that \<open>unicode.IsSpace\<close> accepts.\<close>

definition space_runes :: "bytes list" where
  "space_runes =
     map (\<lambda>c. [c]) [CHR 0x09, CHR 0x0A, CHR 0x0B, CHR 0x0C, CHR 0x0D, CHR 0x20]
     @ [[CHR 0xC2, CHR 0x85], [CHR 0xC2, CHR 0xA0], [CHR 0xE1, CHR 0x9A, CHR 0x80]]
     @ map (\<lambda>c. [CHR 0xE2, CHR 0x80, c])
         [CHR 0x80, CHR 0x81, CHR 0x82, CHR 0x83, CHR 0x84, CHR 0x85, CHR 0x86, CHR 0x87, CHR 0x88, CHR 0x89, CHR 0x8A,
          CHR 0xA8, CHR 0xA9, CHR 0xAF]
     @ [[CHR 0xE2, CHR 0x81, CHR 0x9F], [CHR 0xE3, CHR 0x80, CHR 0x80]]"

definition space_prefix :: "bytes list \<Rightarrow> bytes \<Rightarrow> nat" where
  "space_prefix rs s = (case find (\<lambda>r. take (length r) s = r) rs of None \<Rightarrow> 0 | Some r \<Rightarrow> length r)"

function (sequential) trim_left :: "bytes list \<Rightarrow> bytes \<Rightarrow> bytes" where
  "trim_left rs s = (if s = [] \<or> space_prefix rs s = 0 then s else trim_left rs (drop (space_prefix rs s) s))"
  by pat_completeness auto

termination trim_left
  by (relation "measure (\<lambda>(rs, s). length s)") auto

declare trim_left.simps [simp del]

definition TrimSpace :: "bytes \<Rightarrow> bytes" where
  "TrimSpace s = rev (trim_left (map rev space_runes) (rev (trim_left space_runes s)))"

text \<open>
  The state of a client: its channel of incoming messages, whether it is closed, the last event it
  has taken over, and \<open>currentID\<close>, the local variable of the reading goroutine.
\<close>

record SSEClient =
  cl_endpoint :: bytes
  cl_incoming :: "bytes list"
  cl_closed :: bool
  cl_lastEventID :: bytes
  cl_currentID :: bytes

definition client_cap :: nat where
  "client_cap = 64"

definition NewClientTransport :: "bytes \<Rightarrow> SSEClient" where
  "NewClientTransport endpoint =
     \<lparr>cl_endpoint = endpoint, cl_incoming = [], cl_closed = False, cl_lastEventID = [], cl_currentID = []\<rparr>"

definition LastEventID :: "SSEClient \<Rightarrow> bytes" where
  "LastEventID c = cl_lastEventID c"

text \<open>The URL and the \<open>Last-Event-ID\<close> header of \<open>ConnectSSE\<close>, and what it makes of the response.\<close>

definition sse_request :: "bytes \<Rightarrow> SSEClient \<Rightarrow> bytes \<times> bytes option" where
  "sse_request sessionID c =
     (cl_endpoint c @ ''/events?session_id='' @ sessionID,
      if cl_lastEventID c = [] then None else Some (cl_lastEventID c))"

definition ConnectSSE :: "(bytes \<Rightarrow> bytes option \<Rightarrow> http_result) \<Rightarrow> bytes \<Rightarrow> SSEClient \<Rightarrow> go_error option \<times> SSEClient" where
  "ConnectSSE client sessionID c =
     (case client (fst (sse_request sessionID c)) (snd (sse_request sessionID c)) of
        HttpBadURL \<Rightarrow> (Some (GoErr ''sse request''), c)
      | HttpFailed \<Rightarrow> (Some (GoErr ''sse connect''), c)
      | HttpResponse status body \<Rightarrow>
          if status \<noteq> 200 then (Some (GoErr (''sse: status '' @ show_int status)), c)
          else (None, c\<lparr>cl_currentID := []\<rparr>))"

datatype 'a send_outcome =
    Sent 'a
  | Blocked
  | Panics

definition send_incoming :: "bytes \<Rightarrow> SSEClient \<Rightarrow> SSEClient send_outcome" where
  "send_incoming data c =
     (if cl_closed c then Panics
      else if length (cl_incoming c) < client_cap then Sent (c\<lparr>cl_incoming := cl_incoming c @ [data]\<rparr>)
      else Blocked)"

text \<open>One line of the stream in \<open>readSSE\<close>.\<close>

definition sse_line :: "bytes \<Rightarrow> SSEClient \<Rightarrow> SSEClient send_outcome" where
  "sse_line raw_line c =
     (let line = TrimSpace raw_line in
      if HasPrefix line ''id: '' then Sent (c\<lparr>cl_currentID := drop 4 line\<rparr>)
      else if HasPrefix line ''data: '' then
        (case send_incoming (drop 6 line) c of
           Sent c1 \<Rightarrow> Sent (if cl_currentID c1 \<noteq> [] then c1\<lparr>cl_lastEventID := cl_currentID c1, cl_currentID := []\<rparr> else c1)
         | r \<Rightarrow> r)
      else Sent c)"

text \<open>\<open>ReadString\<close>: complete lines only; a line cut off by the end of the stream is dropped.\<close>

fun complete_lines :: "bytes \<Rightarrow> bytes \<Rightarrow> bytes list" where
  "complete_lines acc [] = []"
| "complete_lines acc (c # s) = (if c = LF then (acc @ [c]) # complete_lines [] s else complete_lines (acc @ [c]) s)"

definition ReadMessage_client :: "go_error option \<Rightarrow> SSEClient \<Rightarrow> ((go_error + bytes) \<times> SSEClient) list" where
  "ReadMessage_client ctx_err c =
     (case ctx_err of None \<Rightarrow> [] | Some e \<Rightarrow> [(Inl e, c)])
     @ (case cl_incoming c of
          data # rest \<Rightarrow> [(Inr data, c\<lparr>cl_incoming := rest\<rparr>)]
        | [] \<Rightarrow> if cl_closed c then [(Inl io_EOF, c)] else [])"

definition WriteMessage_client :: "(bytes \<Rightarrow> bytes \<Rightarrow> http_result) \<Rightarrow> bytes \<Rightarrow> SSEClient \<Rightarrow> (go_error option \<times> SSEClient) send_outcome" where
  "WriteMessage_client client data c =
     (case client (cl_endpoint c) data of
        HttpBadURL \<Rightarrow> Sent (Some (GoErr ''http request''), c)
      | HttpFailed \<Rightarrow> Sent (Some (GoErr ''http post''), c)
      | HttpResponse status body \<Rightarrow>
          if status \<noteq> 200 \<and> status \<noteq> 202 then Sent (Some (GoErr (''http: status '' @ show_int status)), c)
          else (case body of
                  None \<Rightarrow> Sent (Some (GoErr ''read body''), c)
                | Some b \<Rightarrow>
                    if b \<noteq> [] \<and> json_valid b then
                      (case send_incoming b c of Sent c1 \<Rightarrow> Sent (None, c1) | Blocked \<Rightarrow> Blocked | Panics \<Rightarrow> Panics)
                    else Sent (None, c)))"

definition Close_client :: "SSEClient \<Rightarrow> SSEClient" where
  "Close_client c = (if cl_closed c then c else c\<lparr>cl_closed := True\<rparr>)"

text \<open>The reading goroutine with room in the channel: all complete lines of what has arrived.\<close>

fun read_lines :: "bytes list \<Rightarrow> SSEClient \<Rightarrow> SSEClient send_outcome" where
  "read_lines [] c = Sent c"
| "read_lines (l # ls) c = (case sse_line l c of Sent c1 \<Rightarrow> read_lines ls c1 | r \<Rightarrow> r)"

definition readSSE :: "bytes \<Rightarrow> SSEClient \<Rightarrow> SSEClient send_outcome" where
  "readSSE stream c = read_lines (complete_lines [] stream) c"

end
