(* ===== verification/Http_Sse_Props.thy ===== *)
theory Http_Sse_Props
  imports Http_Sse
begin

text \<open>
  The event stream end to end: what the server writes for its events is what the client
  delivers, replay after a reconnection gives exactly the missed events that are still
  buffered, and the channels of a session lose and duplicate nothing.
\<close>

section \<open>Event identifiers\<close>

lemma show_nat_inj: "show_nat m = show_nat n \<Longrightarrow> m = n"
  by (metis show_nat_digits of_nat_eq_iff)

lemma event_id_inj: "0 \<le> m \<Longrightarrow> 0 \<le> n \<Longrightarrow> event_id m = event_id n \<Longrightarrow> m = n"
  using show_nat_inj [of "nat m" "nat n"] by (simp add: event_id_def show_int_def)

definition numbered :: "bytes list \<Rightarrow> serverEvent list" where
  "numbered ds = map (\<lambda>i. \<lparr>ev_ID = event_id (int i + 1), ev_Data = ds ! i\<rparr>) [0..<length ds]"

lemma numbered_simps [simp]:
  "numbered [] = []" "length (numbered ds) = length ds"
  "numbered (ds @ [d]) = numbered ds @ [\<lparr>ev_ID = event_id (int (length ds) + 1), ev_Data = d\<rparr>]"
  by (simp_all add: numbered_def nth_append)

lemma numbered_nth: "i < length ds \<Longrightarrow> numbered ds ! i = \<lparr>ev_ID = event_id (int i + 1), ev_Data = ds ! i\<rparr>"
  by (simp add: numbered_def)

lemma numbered_data: "map ev_Data (numbered ds) = ds"
  by (simp add: numbered_def map_nth o_def)

definition buffer_all :: "bytes list \<Rightarrow> serverSession \<Rightarrow> serverSession" where
  "buffer_all ds s = fold (\<lambda>d s. snd (bufferEvent d s)) ds s"

lemma drop_window:
  fixes M :: nat
  assumes "0 < M"
  shows "(if length (drop (length xs - M) xs @ [x]) > M then drop (length (drop (length xs - M) xs @ [x]) - M) (drop (length xs - M) xs @ [x])
      else drop (length xs - M) xs @ [x]) = drop (length (xs @ [x]) - M) (xs @ [x])"
  using assms by (cases "length xs < M") (auto simp: Suc_diff_le)

lemma buffer_all_events:
  fixes m :: int
  defines "M \<equiv> ss_maxEvents (newServerSession m)"
  shows "ss_events (buffer_all ds (newServerSession m)) = drop (length ds - nat M) (numbered ds)
    \<and> ss_nextID (buffer_all ds (newServerSession m)) = int (length ds) \<and> ss_maxEvents (buffer_all ds (newServerSession m)) = M"
proof (induction ds rule: rev_induct)
  case Nil
  then show ?case by (simp add: buffer_all_def newServerSession_def M_def)
next
  case (snoc d ds)
  have M: "0 < nat M" "int (nat M) = M" by (simp_all add: M_def newServerSession_def)
  let ?s = "buffer_all ds (newServerSession m)" and ?ev = "\<lparr>ev_ID = event_id (int (length ds) + 1), ev_Data = d\<rparr>"
  let ?evs = "drop (length (numbered ds) - nat M) (numbered ds) @ [?ev]"
  have step: "buffer_all (ds @ [d]) (newServerSession m) = snd (bufferEvent d ?s)" by (simp add: buffer_all_def)
  have "ss_events (snd (bufferEvent d ?s)) = (if length ?evs > nat M then drop (length ?evs - nat M) ?evs else ?evs)"
    using snoc M by (auto simp: bufferEvent_def Let_def)
  also have "\<dots> = drop (length (ds @ [d]) - nat M) (numbered (ds @ [d]))"
    using drop_window [OF M(1), of "numbered ds" ?ev] by simp
  finally have "ss_events (snd (bufferEvent d ?s)) = drop (length (ds @ [d]) - nat M) (numbered (ds @ [d]))" .
  with snoc show ?case unfolding step by (simp add: bufferEvent_def Let_def)
qed

lemma replay_loop_none: "\<forall>ev \<in> set evs. ev_ID ev \<noteq> eid \<Longrightarrow> replay_loop eid evs = []"
  by (induction evs) auto

lemma replay_loop_drop:
  assumes "i < length evs" "ev_ID (evs ! i) = eid" "\<And>j. j < length evs \<Longrightarrow> ev_ID (evs ! j) = eid \<Longrightarrow> j = i"
  shows "replay_loop eid evs = drop (Suc i) evs"
  using assms
proof (induction evs arbitrary: i)
  case (Cons ev evs)
  show ?case
  proof (cases i)
    case 0
    have "\<forall>e \<in> set evs. ev_ID e \<noteq> eid"
      using Cons.prems(3) 0 by (metis Suc_less_eq diff_Suc_1 in_set_conv_nth length_Cons nat.distinct(1) nth_Cons_Suc)
    with Cons.prems(2) 0 show ?thesis by (simp add: replay_loop_none)
  next
    case (Suc k)
    have "ev_ID ev \<noteq> eid" using Cons.prems(3) [of 0] Suc by auto
    moreover have "replay_loop eid evs = drop (Suc k) evs"
      using Cons.prems Suc by (intro Cons.IH) force+
    ultimately show ?thesis using Suc by simp
  qed
qed simp

lemma replay_after:
  assumes s: "s = buffer_all ds (newServerSession m)" and i: "0 < i"
  shows "replayAfter (event_id (int i)) s = (if int (length ds) < ss_maxEvents s + int i then drop i (numbered ds) else [])"
proof -
  let ?M = "nat (ss_maxEvents s)" and ?k = "length ds - nat (ss_maxEvents s)"
  have ev: "ss_events s = drop ?k (numbered ds)" using buffer_all_events [of ds m] s by simp
  have M: "0 < ss_maxEvents s" using buffer_all_events [of ds m] s by (simp add: newServerSession_def split: if_splits)
  have ids: "ev_ID (ss_events s ! j) = event_id (int (?k + j) + 1)" if "j < length (ss_events s)" for j
    using that unfolding ev by (simp add: numbered_nth)
  have hit: "ev_ID (ss_events s ! j) = event_id (int i) \<Longrightarrow> Suc (?k + j) = i" if "j < length (ss_events s)" for j
    using ids [OF that] event_id_inj [of "int (?k + j) + 1" "int i"] by simp
  have len: "length (ss_events s) = length ds - ?k" unfolding ev by simp
  have r: "replayAfter (event_id (int i)) s = replay_loop (event_id (int i)) (ss_events s)"
    by (simp add: replayAfter_def event_id_def)
  show ?thesis
  proof (cases "?k < i \<and> i \<le> length ds")
    case True
    then have j: "i - Suc ?k < length (ss_events s)" using len by linarith
    have "replay_loop (event_id (int i)) (ss_events s) = drop (Suc (i - Suc ?k)) (ss_events s)"
      using hit True by (intro replay_loop_drop [OF j]) (auto simp: ids [OF j] dest!: hit)
    then show ?thesis using True M r ev by (auto simp: nat_less_iff)
  next
    case False
    have "\<forall>e \<in> set (ss_events s). ev_ID e \<noteq> event_id (int i)"
    proof
      fix e assume "e \<in> set (ss_events s)"
      then obtain j where "j < length (ss_events s)" "e = ss_events s ! j" by (auto simp: in_set_conv_nth)
      with hit [of j] len False show "ev_ID e \<noteq> event_id (int i)" by auto
    qed
    then have "replayAfter (event_id (int i)) s = []" using r replay_loop_none by simp
    moreover have "drop i (numbered ds) = []" if "int (length ds) < ss_maxEvents s + int i"
    proof -
      have "length ds < i" using False that M i by linarith
      then show ?thesis by simp
    qed
    ultimately show ?thesis by auto
  qed
qed

section \<open>Lines of the stream\<close>

text \<open>The bytes that begin or end the encoding of a white space character.\<close>

definition space_ends :: "char list" where
  "space_ends = map hd space_runes @ map last space_runes"

lemma no_space_prefix: "c \<notin> set (map hd rs) \<Longrightarrow> [] \<notin> set rs \<Longrightarrow> space_prefix rs (c # s) = 0"
proof (induction rs)
  case (Cons r rs)
  then show ?case by (cases r) (auto simp: space_prefix_def)
qed (simp add: space_prefix_def)

lemma trim_left_stop: "c \<notin> set (map hd rs) \<Longrightarrow> [] \<notin> set rs \<Longrightarrow> trim_left rs (c # s) = c # s"
  by (subst trim_left.simps) (simp add: no_space_prefix)

lemma trim_left_LF: "trim_left (map rev space_runes) (LF # s) = trim_left (map rev space_runes) s"
  by (subst trim_left.simps) (simp add: space_prefix_def space_runes_def LF_def)

lemma rev_heads: "set (map hd (map rev space_runes)) \<subseteq> set space_ends" "[] \<notin> set (map rev space_runes)" "[] \<notin> set space_runes"
  by (auto simp: space_ends_def space_runes_def)

lemma TrimSpace_line:
  assumes "c \<notin> set space_ends" "e \<notin> set space_ends" "c # s = t @ [e]"
  shows "TrimSpace (c # s @ [LF]) = c # s"
proof -
  have "trim_left space_runes (c # s @ [LF]) = c # s @ [LF]"
    using assms(1) rev_heads(3) by (intro trim_left_stop) (auto simp: space_ends_def)
  then have "TrimSpace (c # s @ [LF]) = rev (trim_left (map rev space_runes) (LF # rev (c # s)))"
    by (simp add: TrimSpace_def)
  also have "\<dots> = rev (trim_left (map rev space_runes) (e # rev t))" unfolding trim_left_LF assms(3) by simp
  also have "\<dots> = rev (e # rev t)"
    using assms(2) rev_heads by (subst trim_left_stop) (auto simp del: set_map)
  also have "\<dots> = c # s" using assms(3) by simp
  finally show ?thesis .
qed

lemma trim_left_Nil: "trim_left rs [] = []"
  by (subst trim_left.simps) simp

lemma TrimSpace_empty: "TrimSpace [LF] = []"
proof -
  have "space_prefix space_runes [LF] = 1" by (simp add: space_prefix_def space_runes_def LF_def)
  then have "trim_left space_runes [LF] = []" by (subst trim_left.simps) (simp add: trim_left_Nil)
  then show ?thesis by (simp add: TrimSpace_def trim_left_Nil)
qed

lemma plain_ends: "CHR ''i'' \<notin> set space_ends" "CHR ''e'' \<notin> set space_ends" "CHR ''d'' \<notin> set space_ends"
    "CHR ''p'' \<notin> set space_ends" "CHR ''}'' \<notin> set space_ends" "is_digit c \<Longrightarrow> c \<notin> set space_ends"
  by (auto simp: space_ends_def space_runes_def is_digit_def)

lemma complete_lines_cons:
  "LF \<notin> set l \<Longrightarrow> complete_lines acc (l @ LF # s) = (acc @ l @ [LF]) # complete_lines [] s"
  by (induction l arbitrary: acc) auto

text \<open>What a message needs so that a line can carry it: no line break inside, a brace at its end.\<close>

definition sse_data :: "bytes \<Rightarrow> bool" where
  "sse_data d \<longleftrightarrow> LF \<notin> set d \<and> (\<exists>t. d = t @ ''}'')"

lemma sse_line_data:
  assumes "sse_data d"
  shows "sse_line (''data: '' @ d @ [LF]) c =
    (case send_incoming d c of
       Sent c1 \<Rightarrow> Sent (if cl_currentID c1 \<noteq> [] then c1\<lparr>cl_lastEventID := cl_currentID c1, cl_currentID := []\<rparr> else c1)
     | r \<Rightarrow> r)"
proof -
  from assms obtain t where "d = t @ ''}''" by (auto simp: sse_data_def)
  then have "TrimSpace (''data: '' @ d @ [LF]) = ''data: '' @ d"
    using TrimSpace_line [of "CHR ''d''" "CHR ''}''" "''ata: '' @ d" "''data: '' @ t"] plain_ends by simp
  then show ?thesis by (simp add: sse_line_def HasPrefix_def)
qed

lemma event_id_last: "0 \<le> n \<Longrightarrow> \<exists>t e. event_id n = t @ [e] \<and> is_digit e"
  using show_nat_digits [of "nat n"]
  by (intro exI [of _ "''evt-'' @ butlast (show_nat (nat n))"] exI [of _ "last (show_nat (nat n))"])
     (auto simp: event_id_def show_int_def list_all_iff)

lemma event_id_no_LF: "LF \<notin> set (event_id n)"
  using show_nat_digits [of "nat n"] show_nat_digits [of "nat (- n)"]
  by (auto simp: event_id_def show_int_def LF_def list_all_iff is_digit_def)

lemma sse_line_id:
  assumes "0 \<le> n"
  shows "sse_line (''id: '' @ event_id n @ [LF]) c = Sent (c\<lparr>cl_currentID := event_id n\<rparr>)"
proof -
  from event_id_last [OF assms] obtain t e where "event_id n = t @ [e]" "is_digit e" by blast
  then have "TrimSpace (''id: '' @ event_id n @ [LF]) = ''id: '' @ event_id n"
    using TrimSpace_line [of "CHR ''i''" e "''d: '' @ event_id n" "''id: '' @ t"] plain_ends by simp
  then show ?thesis by (simp add: sse_line_def HasPrefix_def)
qed

lemma sse_line_other: "sse_line (''event: wmp'' @ [LF]) c = Sent c" "sse_line [LF] c = Sent c"
  using TrimSpace_line [of "CHR ''e''" "CHR ''p''" "''vent: wmp''" "''event: wm''"] plain_ends
  by (simp_all add: sse_line_def HasPrefix_def TrimSpace_empty)

lemma four_lines:
  assumes "LF \<notin> set a" "LF \<notin> set b" "LF \<notin> set c"
  shows "complete_lines [] (a @ LF # b @ LF # c @ LF # LF # s) = [a @ [LF], b @ [LF], c @ [LF], [LF]] @ complete_lines [] s"
  using complete_lines_cons [of a "[]"] complete_lines_cons [of b "[]"] complete_lines_cons [of c "[]"] assms by simp

lemma event_lines:
  assumes "LF \<notin> set eid" "LF \<notin> set d"
  shows "complete_lines [] (event_text eid d @ s) =
    [''id: '' @ eid @ [LF], ''event: wmp'' @ [LF], ''data: '' @ d @ [LF], [LF]] @ complete_lines [] s"
  using four_lines [of "''id: '' @ eid" "''event: wmp''" "''data: '' @ d" s] assms
  by (simp add: event_text_def LF_def)

text \<open>The client takes an event over: its data is delivered and its identifier remembered.\<close>

lemma read_event:
  assumes "sse_data d" "0 \<le> n" "\<not> cl_closed c" "length (cl_incoming c) < client_cap"
  shows "read_lines (complete_lines [] (event_text (event_id n) d @ s)) c =
    read_lines (complete_lines [] s) (c\<lparr>cl_incoming := cl_incoming c @ [d], cl_lastEventID := event_id n, cl_currentID := []\<rparr>)"
proof -
  have "event_id n \<noteq> []" by (simp add: event_id_def)
  moreover have "LF \<notin> set d" using assms(1) by (simp add: sse_data_def)
  ultimately show ?thesis
    using assms by (subst event_lines) (simp_all add: event_id_no_LF sse_line_id [simplified] sse_line_other(1) [simplified] sse_line_other(2)
        sse_line_data [simplified] send_incoming_def)
qed

definition events_text :: "serverEvent list \<Rightarrow> bytes" where
  "events_text evs = concat (map (\<lambda>ev. event_text (ev_ID ev) (ev_Data ev)) evs)"

definition good_event :: "serverEvent \<Rightarrow> bool" where
  "good_event ev \<longleftrightarrow> sse_data (ev_Data ev) \<and> (\<exists>n \<ge> 0. ev_ID ev = event_id n)"

lemma read_events:
  assumes "list_all good_event evs" "\<not> cl_closed c" "length (cl_incoming c) + length evs \<le> client_cap"
  shows "\<exists>c'. readSSE (events_text evs) c = Sent c' \<and> cl_incoming c' = cl_incoming c @ map ev_Data evs \<and> \<not> cl_closed c'
    \<and> cl_lastEventID c' = (if evs = [] then cl_lastEventID c else ev_ID (last evs)) \<and> cl_endpoint c' = cl_endpoint c"
  using assms
proof (induction evs arbitrary: c)
  case Nil
  then show ?case by (simp add: readSSE_def events_text_def)
next
  case (Cons ev evs)
  from Cons.prems(1) obtain n where n: "0 \<le> n" "ev_ID ev = event_id n" "sse_data (ev_Data ev)" by (auto simp: good_event_def)
  let ?c = "c\<lparr>cl_incoming := cl_incoming c @ [ev_Data ev], cl_lastEventID := event_id n, cl_currentID := []\<rparr>"
  have "readSSE (events_text (ev # evs)) c = readSSE (events_text evs) ?c"
    using read_event [OF n(3,1), of c "events_text evs"] Cons.prems(2,3) by (simp add: readSSE_def events_text_def n(2))
  moreover obtain c' where "readSSE (events_text evs) ?c = Sent c'" "cl_incoming c' = cl_incoming ?c @ map ev_Data evs"
    "\<not> cl_closed c'" "cl_lastEventID c' = (if evs = [] then event_id n else ev_ID (last evs))" "cl_endpoint c' = cl_endpoint c"
    using Cons.IH [of ?c] Cons.prems by auto
  ultimately show ?case using n(2) by auto
qed

section \<open>What the server writes\<close>

fun sse_rounds :: "nat \<Rightarrow> serverSession \<Rightarrow> bytes \<times> serverSession" where
  "sse_rounds 0 s = ([], s)"
| "sse_rounds (Suc n) s =
     (case sse_round s of
        [] \<Rightarrow> ([], s)
      | (t, s1) # _ \<Rightarrow> (case sse_rounds n s1 of (t2, s2) \<Rightarrow> (t @ t2, s2)))"

lemma bufferEvent_outgoing: "bufferEvent d (s\<lparr>ss_outgoing := q\<rparr>) = (fst (bufferEvent d s), (snd (bufferEvent d s))\<lparr>ss_outgoing := q\<rparr>)"
  by (simp add: bufferEvent_def Let_def)

lemma sse_rounds_all:
  "sse_rounds (length ds) (s\<lparr>ss_outgoing := ds @ rest\<rparr>) =
     (concat (map (\<lambda>i. event_text (event_id (ss_nextID s + int i + 1)) (ds ! i)) [0..<length ds]), (buffer_all ds s)\<lparr>ss_outgoing := rest\<rparr>)"
proof (induction ds arbitrary: s)
  case Nil
  then show ?case by (simp add: buffer_all_def)
next
  case (Cons d ds)
  have "sse_round (s\<lparr>ss_outgoing := (d # ds) @ rest\<rparr>) =
      [(event_text (event_id (ss_nextID s + 1)) d, (snd (bufferEvent d s))\<lparr>ss_outgoing := ds @ rest\<rparr>)]"
    by (simp add: sse_round_def take_outgoing_def bufferEvent_outgoing) (simp add: bufferEvent_def Let_def)
  moreover have "ss_nextID (snd (bufferEvent d s)) = ss_nextID s + 1" by (simp add: bufferEvent_def Let_def)
  ultimately show ?case
    using Cons [of "snd (bufferEvent d s)"]
    by (simp add: buffer_all_def map_upt_Suc algebra_simps del: upt_Suc)
qed

lemma sse_rounds_new:
  "sse_rounds (length ds) ((newServerSession m)\<lparr>ss_outgoing := ds @ rest\<rparr>) =
     (events_text (numbered ds), (buffer_all ds (newServerSession m))\<lparr>ss_outgoing := rest\<rparr>)"
proof -
  have "ss_nextID (newServerSession m) = 0" by (simp add: newServerSession_def)
  then show ?thesis by (simp add: sse_rounds_all events_text_def numbered_def o_def)
qed

lemma numbered_append: "take (length xs) (numbered (xs @ ys)) = numbered xs"
  by (rule nth_equalityI) (auto simp: numbered_nth nth_append)

lemma numbered_good: "list_all sse_data ds \<Longrightarrow> list_all good_event (numbered ds)"
  by (auto simp: list_all_length numbered_nth good_event_def intro!: exI [of _ "int n + 1" for n])

text \<open>Encoded requests and responses are fit for the stream.\<close>

lemma obj_sse_data: "one_line (ms_obj ms) \<Longrightarrow> ms_obj ms = Some b \<Longrightarrow> sse_data b"
  using no_ctl_line by (auto simp: one_line_def sse_data_def LF_def ms_obj_def)

definition peer_message :: "bytes \<Rightarrow> bool" where
  "peer_message d \<longleftrightarrow> (\<exists>r. ms_Request r = Some d) \<or> (\<exists>r. ms_Response r = Some d)"

lemma peer_message_sse: "peer_message d \<Longrightarrow> sse_data d"
proof -
  have "sse_data d" if "ms_Request r = Some d" for r
    using obj_sse_data one_line_Request [of r] that unfolding ms_Request_def by blast
  moreover have "sse_data d" if "ms_Response r = Some d" for r
    using obj_sse_data one_line_Response [of r] that unfolding ms_Response_def by blast
  ultimately show "peer_message d \<Longrightarrow> sse_data d" by (auto simp: peer_message_def)
qed

section \<open>Properties of the event stream\<close>

lemma messages_good: "list_all peer_message ds \<Longrightarrow> list_all good_event (numbered ds)"
  using peer_message_sse by (intro numbered_good) (auto simp: list_all_iff)

lemma stream_read:
  assumes "list_all peer_message ds" "length ds \<le> client_cap"
  shows "\<exists>c. readSSE (fst (sse_rounds (length ds) ((newServerSession m)\<lparr>ss_outgoing := ds\<rparr>))) (NewClientTransport ep) = Sent c"
  using read_events [OF messages_good [OF assms(1)], of "NewClientTransport ep"] assms(2) sse_rounds_new [of ds "[]" m]
  by (auto simp: NewClientTransport_def numbered_data)

text \<open>
  The stream of a session while its peer writes: \<open>WriteMessage_server\<close> puts messages into the session and
  the handler takes them one by one, in any order of these steps. What was written by the peer,
  and the bytes the handler has sent.
\<close>

inductive streams :: "int \<Rightarrow> bytes list \<Rightarrow> bytes \<Rightarrow> serverSession \<Rightarrow> bool" for m where
  stream_open: "streams m [] [] (newServerSession m)"
| stream_write: "streams m sent out s \<Longrightarrow> s' \<in> set (WriteMessage_server d s) \<Longrightarrow> streams m (sent @ [d]) out s'"
| stream_event: "streams m sent out s \<Longrightarrow> (t, s') \<in> set (sse_round s) \<Longrightarrow> streams m sent (out @ t) s'"

lemma buffer_all_snoc: "buffer_all (ds @ [d]) s = snd (bufferEvent d (buffer_all ds s))"
  by (simp add: buffer_all_def)

lemma buffer_all_nextID: "ss_nextID (buffer_all ds (newServerSession m)) = int (length ds)"
  using buffer_all_events by blast

lemma events_text_snoc: "events_text (evs @ [ev]) = events_text evs @ event_text (ev_ID ev) (ev_Data ev)"
  by (simp add: events_text_def)

lemma streams_queue:
  "streams m sent out s \<Longrightarrow> \<exists>got. sent = got @ ss_outgoing s \<and> out = events_text (numbered got)
     \<and> s = (buffer_all got (newServerSession m))\<lparr>ss_outgoing := ss_outgoing s\<rparr>"
proof (induction rule: streams.induct)
  case stream_open
  show ?case by (rule exI [of _ "[]"]) (simp add: buffer_all_def events_text_def newServerSession_def)
next
  case (stream_write sent out s s' d)
  then obtain got where got: "sent = got @ ss_outgoing s" "out = events_text (numbered got)"
    "s = (buffer_all got (newServerSession m))\<lparr>ss_outgoing := ss_outgoing s\<rparr>" by blast
  have s': "s' = s\<lparr>ss_outgoing := ss_outgoing s @ [d]\<rparr>"
    using stream_write.hyps by (simp add: WriteMessage_server_def split: if_splits)
  have "s' = (buffer_all got (newServerSession m))\<lparr>ss_outgoing := ss_outgoing s @ [d]\<rparr>"
    unfolding s' by (subst got(3)) simp
  with got(1,2) s' show ?case by (intro exI [of _ got]) simp
next
  case (stream_event sent out s t s')
  then obtain got where got: "sent = got @ ss_outgoing s" "out = events_text (numbered got)"
    "s = (buffer_all got (newServerSession m))\<lparr>ss_outgoing := ss_outgoing s\<rparr>" by blast
  from stream_event.hyps obtain d rest where q: "ss_outgoing s = d # rest"
    by (cases "ss_outgoing s") (auto simp: sse_round_def take_outgoing_def)
  have "bufferEvent d (s\<lparr>ss_outgoing := rest\<rparr>) = (event_id (int (length got) + 1),
      (buffer_all (got @ [d]) (newServerSession m))\<lparr>ss_outgoing := rest\<rparr>)"
    by (subst got(3)) (simp add: bufferEvent_outgoing buffer_all_snoc, simp add: bufferEvent_def Let_def buffer_all_nextID)
  with stream_event.hyps have "t = event_text (event_id (int (length got) + 1)) d"
      "s' = (buffer_all (got @ [d]) (newServerSession m))\<lparr>ss_outgoing := rest\<rparr>"
    by (simp_all add: sse_round_def take_outgoing_def q)
  with got(1,2) q show ?case
    by (intro exI [of _ "got @ [d]"]) (simp add: events_text_snoc)
qed

text \<open>
  C24: Messages a peer writes to its session are streamed to the client as they are: however writes and the
  rounds of the handler are mixed, what the client delivers from the bytes sent so far are the first
  messages written, unchanged and in order, and those still missing wait in the session;
  the client remembers the identifier of the last one. Its channel must have room for them.\<close>

theorem event_stream_delivers:
  assumes "streams m sent out s" "list_all peer_message sent" "length sent \<le> client_cap"
  shows "\<exists>c. readSSE out (NewClientTransport ep) = Sent c \<and> sent = cl_incoming c @ ss_outgoing s
    \<and> LastEventID c = (if cl_incoming c = [] then [] else event_id (int (length (cl_incoming c))))"
proof -
  from streams_queue [OF assms(1)] obtain got where got: "sent = got @ ss_outgoing s" "out = events_text (numbered got)" by blast
  have good: "list_all good_event (numbered got)" using assms(2) by (intro messages_good) (simp add: got(1))
  have last: "ev_ID (last (numbered got)) = event_id (int (length got))" if "got \<noteq> []"
    using that by (cases got rule: rev_cases) (auto simp: add.commute)
  obtain c where c: "readSSE out (NewClientTransport ep) = Sent c" "cl_incoming c = got"
      "cl_lastEventID c = (if numbered got = [] then [] else ev_ID (last (numbered got)))"
    using read_events [OF good, of "NewClientTransport ep"] assms(3) got by (auto simp: NewClientTransport_def numbered_data)
  have "numbered got = [] \<longleftrightarrow> got = []" by (simp add: numbered_def)
  with c got(1) last show ?thesis by (intro exI [of _ c]) (simp add: LastEventID_def)
qed

theorem event_stream_delivers_witness:
  "\<exists>d out s c. ms_Request ping_request = Some d \<and> streams 0 [d, d] out s \<and> ss_outgoing s = [d]
    \<and> readSSE out (NewClientTransport ''ep'') = Sent c \<and> cl_incoming c = [d] \<and> LastEventID c = event_id 1"
proof -
  obtain d where d: "ms_Request ping_request = Some d" by (rule ping_request_text)
  note run = WriteMessage_server_def sse_round_def take_outgoing_def bufferEvent_def session_cap_def newServerSession_def Let_def
  have "streams 0 ([] @ [d]) [] ((newServerSession 0)\<lparr>ss_outgoing := [d]\<rparr>)"
    by (rule stream_write [OF stream_open]) (simp add: run)
  then have "\<exists>s. streams 0 ([] @ [d]) ([] @ event_text (event_id 1) d) s \<and> ss_outgoing s = []"
    by (intro exI conjI, rule stream_event) (auto simp: run)
  then obtain s1 where "streams 0 [d] (event_text (event_id 1) d) s1" "ss_outgoing s1 = []" by auto
  moreover from this(2) have "s1\<lparr>ss_outgoing := [d]\<rparr> \<in> set (WriteMessage_server d s1)" by (simp add: run)
  ultimately have two: "streams 0 ([d] @ [d]) (event_text (event_id 1) d) (s1\<lparr>ss_outgoing := [d]\<rparr>)"
    by (intro stream_write)
  have "list_all peer_message ([d] @ [d])" using d by (auto simp: peer_message_def)
  with two obtain c where c: "readSSE (event_text (event_id 1) d) (NewClientTransport ''ep'') = Sent c"
      "[d] @ [d] = cl_incoming c @ ss_outgoing (s1\<lparr>ss_outgoing := [d]\<rparr>)"
      "LastEventID c = (if cl_incoming c = [] then [] else event_id (int (length (cl_incoming c))))"
    using event_stream_delivers [of 0 "[d] @ [d]" "event_text (event_id 1) d" "s1\<lparr>ss_outgoing := [d]\<rparr>" "''ep''"]
    by (auto simp: client_cap_def)
  have "cl_incoming c = [d]" using c(2) by simp
  with d c two show ?thesis by (intro exI [of _ d] exI) auto
qed

text \<open>
  C30: The buffer of a session holds the most recent events, never more than its maximum, and
  replay after an event gives exactly the later events while that event is still buffered, and
  nothing otherwise.\<close>

theorem replay_exact:
  assumes "s = buffer_all ds (newServerSession m)"
  shows "length (ss_events s) \<le> nat (ss_maxEvents s) \<and> ss_events s = drop (length ds - nat (ss_maxEvents s)) (numbered ds)
    \<and> (\<forall>i > 0. replayAfter (event_id (int i)) s = (if int (length ds) < ss_maxEvents s + int i then drop i (numbered ds) else []))"
  using buffer_all_events [of ds m] replay_after [OF assms] assms by auto

theorem replay_exact_witness:
  "replayAfter (event_id 1) (buffer_all [''a'', ''b''] (newServerSession 2)) = drop 1 (numbered [''a'', ''b''])
   \<and> replayAfter (event_id 1) (buffer_all [''a'', ''b'', ''c''] (newServerSession 2)) = []"
proof -
  have max2: "ss_maxEvents (buffer_all ds (newServerSession 2)) = 2" for ds
    using buffer_all_events [of ds 2] by (simp add: newServerSession_def)
  show ?thesis
    using replay_exact [OF refl, of "[''a'', ''b'']" 2, THEN conjunct2, THEN conjunct2, rule_format, of 1]
      replay_exact [OF refl, of "[''a'', ''b'', ''c'']" 2, THEN conjunct2, THEN conjunct2, rule_format, of 1]
    by (simp add: max2)
qed

text \<open>
  C12: A client whose stream broke off after some events completes it by reconnecting: with the
  identifier it remembers, the server replays the missed events, and in the end the client has
  delivered every message once and in order, provided fewer events were missed than the buffer
  holds.\<close>

theorem reconnect_completes:
  assumes "list_all peer_message (got @ missed)" "length (got @ missed) \<le> client_cap" "got \<noteq> []"
    and "s = snd (sse_rounds (length (got @ missed)) ((newServerSession m)\<lparr>ss_outgoing := got @ missed\<rparr>))"
    and "int (length missed) < ss_maxEvents s"
    and "readSSE (fst (sse_rounds (length got) ((newServerSession m)\<lparr>ss_outgoing := got @ missed\<rparr>))) (NewClientTransport ep) = Sent c"
    and "sid \<noteq> []" "sh_sessions h sid = Some a" "sh_heap h a = Some s"
  shows "\<exists>eid text c'. snd (sse_request sid c) = Some eid \<and> handleSSE_start sid True eid h = Inr (a, text)
    \<and> readSSE text c = Sent c' \<and> cl_incoming c' = got @ missed"
proof -
  let ?n = "length got" and ?ds = "got @ missed"
  have good: "list_all good_event (numbered ?ds)"
    using assms(1) peer_message_sse by (intro numbered_good) (auto simp: list_all_iff)
  have "list_all good_event (numbered got)"
    using assms(1) peer_message_sse by (intro numbered_good) (auto simp: list_all_iff)
  moreover have last: "numbered got \<noteq> []" "ev_ID (last (numbered got)) = event_id (int ?n)"
    using assms(3) by (cases got rule: rev_cases; auto simp: add.commute)+
  ultimately have c: "cl_incoming c = got" "\<not> cl_closed c" "cl_lastEventID c = event_id (int ?n)"
    using read_events [of "numbered got" "NewClientTransport ep"] assms(2,6) sse_rounds_new [of got missed m]
    by (auto simp: NewClientTransport_def numbered_data)
  have s: "s = (buffer_all ?ds (newServerSession m))\<lparr>ss_outgoing := []\<rparr>"
    using sse_rounds_new [of ?ds "[]" m] assms(4) by simp
  have "replayAfter (event_id (int ?n)) s = drop ?n (numbered ?ds)"
    using replay_after [OF refl, of ?n ?ds m] assms(3,5) by (simp add: s replayAfter_def event_id_def)
  then have start: "handleSSE_start sid True (event_id (int ?n)) h = Inr (a, events_text (drop ?n (numbered ?ds)))"
    using assms(7-9) by (simp add: handleSSE_start_def events_text_def)
  have "list_all good_event (drop ?n (numbered ?ds))" using good by (auto simp: list_all_iff dest: in_set_dropD)
  moreover have "map ev_Data (drop ?n (numbered ?ds)) = missed"
    using numbered_data [of ?ds] by (metis append_eq_conv_conj drop_map)
  ultimately obtain c' where "readSSE (events_text (drop ?n (numbered ?ds))) c = Sent c'" "cl_incoming c' = got @ missed"
    using read_events [of "drop ?n (numbered ?ds)" c] c assms(2) by auto
  with start c(3) show ?thesis by (auto simp: sse_request_def event_id_def)
qed

theorem reconnect_completes_witness:
  "\<exists>d c eid text c'. ms_Request ping_request = Some d
    \<and> snd (sse_request ''s'' c) = Some eid
    \<and> handleSSE_start ''s'' True eid \<lparr>sh_sessions = [''s'' \<mapsto> 0],
        sh_heap = [0 \<mapsto> snd (sse_rounds 2 ((newServerSession 0)\<lparr>ss_outgoing := [d, d]\<rparr>))], sh_next = 1\<rparr> = Inr (0, text)
    \<and> readSSE text c = Sent c' \<and> cl_incoming c' = [d, d]"
proof -
  obtain d where d: "ms_Request ping_request = Some d" by (rule ping_request_text)
  then have msgs: "list_all peer_message ([d] @ [d])" "list_all peer_message [d]" by (auto simp: peer_message_def)
  let ?s = "snd (sse_rounds (length ([d] @ [d])) ((newServerSession 0)\<lparr>ss_outgoing := [d] @ [d]\<rparr>))"
  let ?h = "\<lparr>sh_sessions = [''s'' \<mapsto> 0], sh_heap = [0 \<mapsto> ?s], sh_next = 1\<rparr>"
  have "ss_maxEvents ?s = 200"
    using sse_rounds_new [of "[d] @ [d]" "[]" 0] buffer_all_events [of "[d] @ [d]" 0] by (simp add: newServerSession_def)
  moreover have "\<exists>c. readSSE (fst (sse_rounds (length [d]) ((newServerSession 0)\<lparr>ss_outgoing := [d] @ [d]\<rparr>))) (NewClientTransport []) = Sent c"
    using stream_read [OF msgs(2), of 0 "[]"] sse_rounds_new [of "[d]" "[]" 0] sse_rounds_new [of "[d]" "[d]" 0]
    by (auto simp: client_cap_def)
  then obtain c where "readSSE (fst (sse_rounds (length [d]) ((newServerSession 0)\<lparr>ss_outgoing := [d] @ [d]\<rparr>))) (NewClientTransport []) = Sent c" ..
  ultimately have "\<exists>eid text c'. snd (sse_request ''s'' c) = Some eid \<and> handleSSE_start ''s'' True eid ?h = Inr (0, text)
      \<and> readSSE text c = Sent c' \<and> cl_incoming c' = [d] @ [d]"
    by (intro reconnect_completes [OF msgs(1) _ _ refl]) (simp_all add: client_cap_def)
  with d show ?thesis by (auto simp: numeral_2_eq_2)
qed

section \<open>The channels of a session\<close>

datatype ss_event =
    Posted bytes
  | PeerRead bytes
  | PeerWrote bytes
  | Answered bytes
  | Streamed bytes
  | Idle

inductive ss_step :: "serverSession \<Rightarrow> ss_event \<Rightarrow> serverSession \<Rightarrow> bool" where
  post: "s' \<in> set (push_incoming body s) \<Longrightarrow> ss_step s (Posted body) s'"
| peer_read: "(res, s') \<in> set (ReadMessage_server ctx_err s) \<Longrightarrow> ss_step s (case res of Inr d \<Rightarrow> PeerRead d | Inl _ \<Rightarrow> Idle) s'"
| peer_write: "s' \<in> set (WriteMessage_server d s) \<Longrightarrow> ss_step s (PeerWrote d) s'"
| answered: "(d, s') \<in> set (take_outgoing s) \<Longrightarrow> ss_step s (Answered d) s'"
| streamed: "(d, s1) \<in> set (take_outgoing s) \<Longrightarrow> ss_step s (Streamed d) (snd (bufferEvent d s1))"

fun posted :: "ss_event \<Rightarrow> bytes list" where
  "posted (Posted d) = [d]"
| "posted _ = []"

fun peer_has_read :: "ss_event \<Rightarrow> bytes list" where
  "peer_has_read (PeerRead d) = [d]"
| "peer_has_read _ = []"

fun peer_has_written :: "ss_event \<Rightarrow> bytes list" where
  "peer_has_written (PeerWrote d) = [d]"
| "peer_has_written _ = []"

fun handed_out :: "ss_event \<Rightarrow> bytes list" where
  "handed_out (Answered d) = [d]"
| "handed_out (Streamed d) = [d]"
| "handed_out _ = []"

definition ss_ok :: "serverSession \<Rightarrow> bool" where
  "ss_ok s \<longleftrightarrow> length (ss_incoming s) \<le> session_cap \<and> length (ss_outgoing s) \<le> session_cap"

lemmas ss_ops = push_incoming_def ReadMessage_server_def WriteMessage_server_def take_outgoing_def bufferEvent_def Let_def

lemma ss_step_channels:
  assumes "ss_step s e s'"
  shows "ss_incoming s @ posted e = peer_has_read e @ ss_incoming s'" "ss_outgoing s @ peer_has_written e = handed_out e @ ss_outgoing s'"
    "ss_ok s \<Longrightarrow> ss_ok s'"
  using assms
  by (cases rule: ss_step.cases;
      auto simp: ss_ops ss_ok_def split: if_splits option.splits list.splits dest!: sym [of "x # xs" for x xs]; fail)+

interpretation session_in: fifo_channel ss_step ss_ok posted peer_has_read ss_incoming "\<lambda>_. session_cap"
  by unfold_locales (auto simp: ss_step_channels ss_ok_def [THEN iffD1, THEN conjunct1])

interpretation session_out: fifo_channel ss_step ss_ok peer_has_written handed_out ss_outgoing "\<lambda>_. session_cap"
  by unfold_locales (auto simp: ss_step_channels ss_ok_def [THEN iffD1, THEN conjunct2])

text \<open>
  Under every interleaving of posts, event streams and the peer, the peer reads every posted
  message once and in order, and every message it writes is handed to exactly one consumer, a
  post or a stream, in order; neither channel ever holds more than 64 messages.\<close>

theorem session_channels_fifo:
  assumes "runs ss_step (newServerSession m) es s"
  shows "logged posted es = logged peer_has_read es @ ss_incoming s \<and> length (ss_incoming s) \<le> session_cap
    \<and> logged peer_has_written es = logged handed_out es @ ss_outgoing s \<and> length (ss_outgoing s) \<le> session_cap"
proof -
  have new: "ss_ok (newServerSession m)" "ss_incoming (newServerSession m) = []" "ss_outgoing (newServerSession m) = []"
    by (simp_all add: newServerSession_def ss_ok_def)
  from session_in.fifo [OF assms new(1,2)] session_out.fifo [OF assms new(1,3)] show ?thesis by simp
qed

theorem session_channels_fifo_witness:
  "\<exists>s. runs ss_step (newServerSession 0) [Posted ''q''] s \<and> logged posted [Posted ''q''] = ss_incoming s"
proof -
  let ?s = "(newServerSession 0)\<lparr>ss_incoming := [''q'']\<rparr>"
  have "ss_step (newServerSession 0) (Posted ''q'') ?s"
    by (rule ss_step.post) (simp add: push_incoming_def newServerSession_def session_cap_def)
  then have run: "runs ss_step (newServerSession 0) [Posted ''q''] ?s" by (rule runs_step)
  with session_channels_fifo [OF run] show ?thesis by auto
qed

section \<open>Where the transport is confused\<close>

text \<open>
  A post is answered with whatever message the peer wrote first: when a notification (or the
  response to another request) already waits in the session's outgoing channel, every reply
  to the post is that message, whatever the peer writes for the posted request.\<close>

theorem post_answered_with_oldest:
  assumes "sh_sessions h (post_session_id header body) = Some a" "sh_heap h a = Some s" "ss_outgoing s = oldest # q"
    and "\<And>s1. \<exists>more. ss_outgoing (peer s1) = ss_outgoing s1 @ more"
    and "(reply, h') \<in> set (handlePost header (Some body) peer False h)"
  shows "reply = JsonReply oldest"
proof -
  from assms(5) obtain s1 resp s3 where "s1 \<in> set (push_incoming body s)" "(resp, s3) \<in> set (take_outgoing (peer s1))" "reply = JsonReply resp"
    using assms(1,2) by (auto simp: handlePost_def Let_def post_lookup_def)
  moreover from this(1) have "ss_outgoing s1 = oldest # q" using assms(3) by (auto simp: push_incoming_def split: if_splits)
  ultimately show ?thesis using assms(4) [of s1] by (auto simp: take_outgoing_def)
qed

definition busy_handler :: ServerHandler where
  "busy_handler = \<lparr>sh_sessions = [''s'' \<mapsto> 0], sh_heap = [0 \<mapsto> (newServerSession 0)\<lparr>ss_outgoing := [''note'']\<rparr>], sh_next = 1\<rparr>"

theorem post_answered_with_oldest_witness:
  "\<exists>reply h'. (reply, h') \<in> set (handlePost ''s'' (Some ''req'') (\<lambda>s. s\<lparr>ss_outgoing := ss_outgoing s @ [''resp'']\<rparr>) False busy_handler)
     \<and> reply = JsonReply ''note''"
proof -
  let ?peer = "\<lambda>s. s\<lparr>ss_outgoing := ss_outgoing s @ [''resp'']\<rparr>"
  let ?replies = "handlePost ''s'' (Some ''req'') ?peer False busy_handler"
  have "?replies \<noteq> []"
    by (simp add: handlePost_def post_session_id_def post_lookup_def busy_handler_def push_incoming_def take_outgoing_def
        newServerSession_def session_cap_def)
  then obtain reply h' where r: "(reply, h') \<in> set ?replies" by (cases ?replies) auto
  have "reply = JsonReply ''note''"
    by (rule post_answered_with_oldest [OF _ _ _ _ r]) (auto simp: post_session_id_def busy_handler_def)
  with r show ?thesis by blast
qed

definition handler_ok :: "ServerHandler \<Rightarrow> bool" where
  "handler_ok h \<longleftrightarrow> (\<forall>k a. sh_sessions h k = Some a \<longrightarrow> a < sh_next h)"

lemma handler_ok_ops: "handler_ok NewServerHandler" "handler_ok h \<Longrightarrow> handler_ok (snd (add_session sid h))"
  by (auto simp: handler_ok_def NewServerHandler_def add_session_def less_Suc_eq)

text \<open>
  Two posts for a session that does not exist yet can both miss it and create it: the session
  of the first is then unreachable through the handler, so that no peer reads what it posted.\<close>

theorem racing_posts_strand_session:
  assumes "handler_ok h" "post_lookup sid h = None" "post_create sid h = (a, h1)" "post_create sid h1 = (b, h2)"
  shows "a \<noteq> b \<and> post_lookup sid h2 = Some b \<and> (\<forall>k. sh_sessions h2 k \<noteq> Some a) \<and> sh_heap h2 a \<noteq> None"
proof -
  have "sh_sessions h k \<noteq> Some (sh_next h)" for k using assms(1) by (auto simp: handler_ok_def)
  with assms show ?thesis by (auto simp: post_create_def add_session_def post_lookup_def split: if_splits)
qed

theorem racing_posts_strand_session_witness:
  "\<exists>a b h2. a \<noteq> b \<and> post_lookup ''s'' h2 = Some b \<and> (\<forall>k. sh_sessions h2 k \<noteq> Some a)"
proof -
  obtain a h1 where 1: "post_create ''s'' NewServerHandler = (a, h1)" by fastforce
  obtain b h2 where 2: "post_create ''s'' h1 = (b, h2)" by fastforce
  have "post_lookup ''s'' NewServerHandler = None" by (simp add: post_lookup_def NewServerHandler_def)
  from racing_posts_strand_session [OF handler_ok_ops(1) this 1 2] show ?thesis by blast
qed

text \<open>
  Closing a client while its stream is being read crashes the program: a message that arrives
  on the stream or as the body of a post after \<open>Close\<close> is sent on a closed channel.\<close>

theorem closed_client_panics:
  assumes "sse_data d" "json_valid d" "client (cl_endpoint c) data = HttpResponse 200 (Some d)"
  shows "sse_line (''data: '' @ d @ [LF]) (Close_client c) = Panics \<and> WriteMessage_client client data (Close_client c) = Panics"
  using assms json_valid_nonempty [OF assms(2)]
  by (simp add: sse_line_data [simplified] send_incoming_def Close_client_def WriteMessage_client_def)

theorem closed_client_panics_witness:
  "sse_line (''data: '' @ ''{}'' @ [LF]) (Close_client (NewClientTransport [])) = Panics"
  using closed_client_panics [of "''{}''" "\<lambda>_ _. HttpResponse 200 (Some ''{}'')" "NewClientTransport []" "[]"] json_valid_braces
  by (simp add: sse_data_def LF_def)

end
