(* ===== verification/Http_Peer.thy ===== *)
theory Http_Peer
  imports Http_Sse_Props Peer_Wire
begin

text \<open>
  Peers over the HTTP transport (httpsse/httpsse.go with peer.go): a call that is posted to the
  server's handler, handled by the peer of its session and answered in the reply to the post.
\<close>

section \<open>The peer of a session\<close>

text \<open>
  The world of the server's peer is the session that its transport belongs to and everything else.
  The transport writes to the session while there is room.
\<close>

definition writes_session :: "(serverSession \<times> 'x) Peer \<Rightarrow> bool" where
  "writes_session p \<longleftrightarrow>
     (\<forall>ctx data s s' x. WriteMessage_server data s = [s'] \<longrightarrow> t_WriteMessage (transport p) ctx data (s, x) = (None, (s', x)))"

definition with_session :: "serverSession \<Rightarrow> (serverSession \<times> 'x) pstate \<Rightarrow> (serverSession \<times> 'x) pstate" where
  "with_session s ps = ps\<lparr>disp := (disp ps)\<lparr>world := (s, snd (world (disp ps)))\<rparr>\<rparr>"

text \<open>
  The turn of the peer while a post waits: \<open>Serve\<close> reads a message from the session, and the goroutines
  of its requests run.
\<close>

definition peer_turn :: "(serverSession \<times> 'x) Peer \<Rightarrow> Context \<Rightarrow> (serverSession \<times> 'x) pstate \<Rightarrow> (serverSession \<times> 'x) pstate" where
  "peer_turn p ctx ps =
     (case ReadMessage_server None (fst (world (disp ps))) of
        (Inr data, s) # _ \<Rightarrow>
          (let ps1 = serve_message p ctx data (with_session s ps)
           in ps1\<lparr>spawned := [], disp := fold (handleRequest p ctx) (spawned ps1) (disp ps1)\<rparr>)
      | _ \<Rightarrow> ps)"

definition session_turn :: "(serverSession \<times> 'x) Peer \<Rightarrow> Context \<Rightarrow> (serverSession \<times> 'x) pstate \<Rightarrow> serverSession \<Rightarrow> serverSession" where
  "session_turn p ctx ps s = fst (world (disp (peer_turn p ctx (with_session s ps))))"

lemma idle_turn:
  assumes "ss_incoming s = [data]" "spawned ps = []"
    "\<And>ps. serve_message p ctx data ps = ps\<lparr>spawned := spawned ps @ [req]\<rparr>"
  shows "session_turn p ctx ps s
    = fst (world (handleRequest p ctx req (disp (with_session (s\<lparr>ss_incoming := []\<rparr>) ps))))"
  using assms by (simp add: session_turn_def peer_turn_def ReadMessage_server_def with_session_def Let_def)

text \<open>A post to an idle session whose peer then does \<open>turn\<close>.\<close>

lemma post_to_idle:
  assumes "sh_sessions h (post_session_id header data) = Some a" "sh_heap h a = Some s" "ss_incoming s = []"
    and "turn (s\<lparr>ss_incoming := [data]\<rparr>) = s1"
  shows "handlePost header (Some data) turn ctx_done h =
    map (\<lambda>(resp, s2). (JsonReply resp, h\<lparr>sh_heap := (sh_heap h)(a \<mapsto> s2)\<rparr>)) (take_outgoing s1)
    @ (if ctx_done then [(ErrorReply 504 ''timeout'', h\<lparr>sh_heap := (sh_heap h)(a \<mapsto> s1)\<rparr>)] else [])"
  using assms by (simp add: handlePost_def post_lookup_def push_incoming_def session_cap_def Let_def)

lemma request_answered:
  assumes "writes_session p" "sync_request p ctx req st = (Some r, st')" "\<not> IsNotification req" "ms_Response r = Some t"
    and "length (ss_outgoing (fst (world st'))) < session_cap"
  shows "fst (world (handleRequest p ctx req st)) = (fst (world st'))\<lparr>ss_outgoing := ss_outgoing (fst (world st')) @ [t]\<rparr>"
proof -
  obtain c where run: "handleRequest p ctx req st = send p c r st'"
    using handleRequest_sync [of p ctx req st] assms(2,3) by auto
  have "WriteMessage_server t (fst (world st')) = [(fst (world st'))\<lparr>ss_outgoing := ss_outgoing (fst (world st')) @ [t]\<rparr>]"
    using assms(5) by (simp add: WriteMessage_server_def)
  then have "t_WriteMessage (transport p) c t (fst (world st'), snd (world st'))
      = (None, ((fst (world st'))\<lparr>ss_outgoing := ss_outgoing (fst (world st')) @ [t]\<rparr>, snd (world st')))"
    using assms(1) unfolding writes_session_def by blast
  then show ?thesis by (simp add: run send_def sendJSON_def assms(4))
qed

section \<open>A call over HTTP\<close>

text \<open>
  The HTTP client of a transport whose server's handler is reached at \<open>url\<close>, and only there: a post gets what
  \<open>handlePost\<close> replies to its body.
\<close>

definition posts_to :: "bytes \<Rightarrow> (bytes \<Rightarrow> (http_reply \<times> ServerHandler) list) \<Rightarrow> bytes \<Rightarrow> bytes \<Rightarrow> http_result" where
  "posts_to url post to body =
     (if to \<noteq> url then HttpFailed
      else (case post body of
              (JsonReply resp, _) # _ \<Rightarrow> HttpResponse 200 (Some resp)
            | (ErrorReply code msg, _) # _ \<Rightarrow> HttpResponse code (Some msg)
            | [] \<Rightarrow> HttpFailed))"

text \<open>
  C6: A call over HTTP. A waiting call of a client's peer with an ASCII identifier and method and
  any JSON parameters is written to the client's transport, which posts its bytes to the endpoint, where the
  handler of a server has an idle session whose peer takes its turn. Then the post has one reply, the bytes of
  that peer's response; the client's transport hands them to the client's peer; and when that peer serves
  them the call returns the response, result or error (texts up to white space and escapes), and the session
  is idle again.
\<close>

theorem http_call_end_to_end:
  assumes call: "reachable cl s" "pending (peer_state s) rid = Some ch" "calls s ch = Some c" "call_phase c = Waiting"
    and req: "NewRequest rid method (Some p) = Inr (call_req c)" "rid \<noteq> []" "ascii rid" "method \<noteq> []" "ascii method" "prints 9999 p v"
      "within_depth 32 (Some (compact_val p))"
    and sent: "ms_Request (call_req c) = Some data" "int (length data) \<le> maxMessageSize srv"
    and session: "sh_sessions h (post_session_id header data) = Some a" "sh_heap h a = Some sess" "ss_incoming sess = []" "spawned ps = []"
    and answer: "writes_session srv" "sync_request srv ctx (arrived rid method p) (disp (with_session sess ps)) = (Some r, st')"
      "sendable_response r" "ss_outgoing (fst (world st')) = []"
    and client: "\<not> cl_closed k" "cl_incoming k = []" "cl_endpoint k = url"
    and returned: "\<And>t. ms_Response r = Some t \<Longrightarrow> int (length t) \<le> maxMessageSize cl"
  shows "\<exists>t k' s'. handlePost header (Some data) (session_turn srv ctx ps) False h = [(JsonReply t, h\<lparr>sh_heap := (sh_heap h)(a \<mapsto> fst (world st'))\<rparr>)]
    \<and> WriteMessage_client (posts_to url (\<lambda>body. handlePost header (Some body) (session_turn srv ctx ps) False h)) data k = Sent (None, k')
    \<and> ReadMessage_client None k' = [(Inr t, k)]
    \<and> (cstep cl)\<^sup>*\<^sup>* (s\<lparr>peer_state := serve_message cl ctx t (peer_state s)\<rparr>) s'
    \<and> pending (peer_state s') rid = None
    \<and> calls s' ch = Some (c\<lparr>call_phase := Returned (Inr (as_read r))\<rparr>)"
proof -
  have sess: "sess\<lparr>ss_incoming := []\<rparr> = sess" using session(3) by (cases sess) simp
  from call_answered [OF call req(1-3,5-7) sent answer(2,3) returned] obtain t s' where
    sync: "HandleRequestSync srv ctx data (with_session sess ps) = ((Some t, None), (with_session sess ps)\<lparr>disp := st'\<rparr>)"
    and returns: "(cstep cl)\<^sup>*\<^sup>* (s\<lparr>peer_state := serve_message cl ctx t (peer_state s)\<rparr>) s'" "pending (peer_state s') rid = None"
      "calls s' ch = Some (c\<lparr>call_phase := Returned (Inr (as_read r))\<rparr>)" by blast
  have new: "\<not> IsNotification (arrived rid method p)" by (simp add: arrived_def IsNotification_def raw_empty_def quote_string_def)
  from one_answer_shape [OF new, of srv ctx "disp (with_session sess ps)"] answer(2)
  have "resp_ID r = Some (quote_string rid)" "resp_JSONRPC r = ''2.0''" by (simp_all add: arrived_def)
  moreover from this have "raw_prints 9999 (resp_ID r)" using prints_ascii [OF req(3)] by (auto simp: raw_prints_def)
  ultimately obtain t' m where t': "ms_Response r = Some t'" "t' \<noteq> []" and m: "int (length t') \<le> maxMessageSize cl \<Longrightarrow> DecodeMessage t' [Some (decOpts cl)] = Inr m"
    using response_received [OF answer(3), of cl] by blast
  then have "t' = t" using request_arrives [OF req(3,2,5,6,7,1) sent answer(2) t'(1)] sync by simp
  have valid: "json_valid t" "t \<noteq> []"
    using m [OF returned [OF t'(1)]] t'(2) \<open>t' = t\<close> by (auto simp: DecodeMessage_exact json_valid_def)
  have turn: "session_turn srv ctx ps (sess\<lparr>ss_incoming := [data]\<rparr>) = (fst (world st'))\<lparr>ss_outgoing := [t]\<rparr>"
    using idle_turn [OF _ session(4) request_spawned [OF req(3,2,5,4,6,7,1) sent], of "sess\<lparr>ss_incoming := [data]\<rparr>"]
      request_answered [OF answer(1,2) new t'(1)] answer(4) sess \<open>t' = t\<close> by (simp add: session_cap_def)
  have "fst (world st')\<lparr>ss_outgoing := []\<rparr> = fst (world st')" using answer(4) by (cases "fst (world st')") simp
  then have posted: "handlePost header (Some data) (session_turn srv ctx ps) False h = [(JsonReply t, h\<lparr>sh_heap := (sh_heap h)(a \<mapsto> fst (world st'))\<rparr>)]"
    using post_to_idle [where turn = "session_turn srv ctx ps", OF session(1-3) turn, of False] by (simp add: take_outgoing_def)
  have "k\<lparr>cl_incoming := []\<rparr> = k" using client(2) by (cases k) simp
  then have "WriteMessage_client (posts_to url (\<lambda>body. handlePost header (Some body) (session_turn srv ctx ps) False h)) data k
      = Sent (None, k\<lparr>cl_incoming := [t]\<rparr>)"
    "ReadMessage_client None (k\<lparr>cl_incoming := [t]\<rparr>) = [(Inr t, k)]"
    using client valid posted by (simp_all add: WriteMessage_client_def posts_to_def send_incoming_def client_cap_def ReadMessage_client_def)
  with posted returns show ?thesis by blast
qed

text \<open>The call of the example, posted to a server whose peer does not know the method.\<close>

definition http_transport :: "(serverSession \<times> unit) Transport" where
  "http_transport = \<lparr>t_WriteMessage = (\<lambda>_ data (s, x). (None, (case WriteMessage_server data s of [] \<Rightarrow> s | s' # _ \<Rightarrow> s', x))),
     t_Close = (\<lambda>(s, x). (None, (snd (Close_server s), x)))\<rparr>"

definition http_peer :: "(serverSession \<times> unit) Peer" where
  "http_peer = fst (NewPeer http_transport BaseHandler [] (newServerSession 200, ()))"

definition http_state :: "(serverSession \<times> unit) pstate" where
  "http_state = \<lparr>disp = \<lparr>flowOwners = Map.empty, world = (newServerSession 200, ())\<rparr>, pending = Map.empty, chans = (\<lambda>_. []), spawned = [],
     crashed = False\<rparr>"

theorem http_call_end_to_end_witness:
  "\<exists>data t s' h'. ms_Request example_req = Some data
    \<and> handlePost ''s'' (Some data) (session_turn http_peer background http_state) False (snd (add_session ''s'' NewServerHandler)) = [(JsonReply t, h')]
    \<and> (cstep example_peer)\<^sup>*\<^sup>* (run2\<lparr>peer_state := serve_message example_peer background t (peer_state run2)\<rparr>) s'
    \<and> calls s' 0 = Some ((example_call Waiting)\<lparr>call_phase := Returned (Inr (as_read unknown_method))\<rparr>)"
proof -
  obtain data where data: "ms_Request example_req = Some data" "int (length data) \<le> 1000" by (rule example_req_text)
  let ?h = "snd (add_session ''s'' NewServerHandler)"
  have h: "sh_sessions ?h (post_session_id ''s'' data) = Some 0" "sh_heap ?h 0 = Some (newServerSession 200)"
    by (simp_all add: add_session_def NewServerHandler_def post_session_id_def)
  have srv: "open_peer http_peer" "methods (registry http_peer) ''m'' = None" "maxMessageSize http_peer = 1048576"
    "writes_session http_peer"
    by (simp_all add: open_peer_def http_peer_def NewPeer_def newRegistry_def writes_session_def http_transport_def)
  have "maxMessageSize example_peer = 1048576" by (simp add: example_peer_eq)
  then show ?thesis
    using http_call_end_to_end [OF run2_reachable _ run2_calls(1) _ example_new_request _ _ _ _ empty_object_prints _ _ _ h _ _ srv(4)
        unknown_method_answer [OF srv(1,2)] unknown_method_text(1), of http_state "NewClientTransport ''u''" "''u''" background]
      data unknown_method_text(2) empty_object_depth run2_calls(2) srv(3)
    by (fastforce simp: example_call_def ascii_def newServerSession_def http_state_def with_session_def NewClientTransport_def)
qed

section \<open>Posted notifications\<close>

text \<open>
  A notification has no answer, but \<open>handlePost\<close> waits for a message of the peer. When the peer writes
  nothing, the post hangs until its context is done and then reports a timeout, although the
  notification was handled.
\<close>

theorem posted_notification_times_out:
  assumes "codes nn 31 un zero t x" "ascii method" "method \<noteq> []" "NewNotification method t = Inr req" "ms_Request req = Some data"
    and "sh_sessions h (post_session_id header data) = Some a" "sh_heap h a = Some sess" "ss_incoming sess = []" "spawned ps = []"
    and "int (length data) \<le> maxMessageSize srv"
    and "\<And>p. unmarshal un zero (Some p) = Some x
      \<Longrightarrow> ss_outgoing (fst (world (handleRequest srv ctx (notified method p) (disp (with_session sess ps))))) = []"
  shows "\<exists>h'. handlePost header (Some data) (session_turn srv ctx ps) ctx_done h
    = (if ctx_done then [(ErrorReply 504 ''timeout'', h')] else [])"
proof -
  have sess: "sess\<lparr>ss_incoming := []\<rparr> = sess" using assms(8) by (cases sess) simp
  from assms(1-3) obtain req' data' p where sent: "NewNotification method t = Inr req'" "ms_Request req' = Some data'"
    "unmarshal un zero (Some p) = Some x"
    "\<And>ctx' ps. int (length data') \<le> maxMessageSize srv \<Longrightarrow> serve_message srv ctx' data' ps = ps\<lparr>spawned := spawned ps @ [notified method p]\<rparr>"
    by (rule notification_sent [where q = srv]) blast
  then have served: "serve_message srv ctx data ps = ps\<lparr>spawned := spawned ps @ [notified method p]\<rparr>" for ps
    using assms(4,5,10) by simp
  have "ss_outgoing (session_turn srv ctx ps (sess\<lparr>ss_incoming := [data]\<rparr>)) = []"
    using idle_turn [OF _ assms(9) served, of "sess\<lparr>ss_incoming := [data]\<rparr>"] assms(11) [OF sent(3)] sess by simp
  then show ?thesis
    using post_to_idle [where turn = "session_turn srv ctx ps", OF assms(6-8) refl, of ctx_done] by (auto simp: take_outgoing_def)
qed

end
