(* ===== verification/Mls_Types.thy ===== *)
theory Mls_Types
  imports Wmp_Types
begin

text \<open>
  The constants and the parameter and result types of the MLS methods (mls/mls.go), each struct
  as a record with its zero value, the decoder and the encoder that its JSON tags give.
\<close>

section \<open>Constants\<close>

definition MethodGroupCreate :: bytes where
  [simp]: "MethodGroupCreate = ''wmp.mls.group.create''"

definition MethodGroupJoin :: bytes where
  [simp]: "MethodGroupJoin = ''wmp.mls.group.join''"

definition MethodGroupAdd :: bytes where
  [simp]: "MethodGroupAdd = ''wmp.mls.group.add''"

definition MethodGroupRemove :: bytes where
  [simp]: "MethodGroupRemove = ''wmp.mls.group.remove''"

definition MethodGroupUpdate :: bytes where
  [simp]: "MethodGroupUpdate = ''wmp.mls.group.update''"

definition MethodMessageFetch :: bytes where
  [simp]: "MethodMessageFetch = ''wmp.message.fetch''"

definition CredentialTypeBasic :: bytes where
  [simp]: "CredentialTypeBasic = ''basic''"

definition CredentialTypeX509 :: bytes where
  [simp]: "CredentialTypeX509 = ''x509''"

definition CipherSuiteX25519AES128GCM :: int where
  "CipherSuiteX25519AES128GCM = 0x0001"

definition CipherSuiteP256AES128GCM :: int where
  "CipherSuiteP256AES128GCM = 0x0002"

section \<open>Parameters and results\<close>

record GroupCreateParams =
  gcp_WMP :: "Metadata"
  gcp_GroupID :: "bytes"
  gcp_CipherSuite :: "int"
  gcp_AcceptedCredentialTypes :: "bytes list"
  gcp_AcceptedIdentitySchemes :: "bytes list"
  gcp_GroupInfo :: "bytes"
  gcp_Welcomes :: "((bytes, bytes) gomap) option"

definition zero_GroupCreateParams :: GroupCreateParams where
  "zero_GroupCreateParams = \<lparr>gcp_WMP = zero_Metadata, gcp_GroupID = [], gcp_CipherSuite = 0, gcp_AcceptedCredentialTypes = [], gcp_AcceptedIdentitySchemes = [], gcp_GroupInfo = [], gcp_Welcomes = None\<rparr>"

definition fields_GroupCreateParams :: "GroupCreateParams fields" where
  "fields_GroupCreateParams =
    [(''wmp'', field gcp_WMP gcp_WMP_update un_Metadata),
     (''group_id'', field gcp_GroupID gcp_GroupID_update un_string),
     (''cipher_suite'', field gcp_CipherSuite gcp_CipherSuite_update un_int),
     (''accepted_credential_types'', field gcp_AcceptedCredentialTypes gcp_AcceptedCredentialTypes_update (un_list [] un_string)),
     (''accepted_identity_schemes'', field gcp_AcceptedIdentitySchemes gcp_AcceptedIdentitySchemes_update (un_list [] un_string)),
     (''group_info'', field gcp_GroupInfo gcp_GroupInfo_update un_string),
     (''welcomes'', field gcp_Welcomes gcp_Welcomes_update (un_ptr [] (un_map [] un_string)))]"

definition un_GroupCreateParams :: "GroupCreateParams decoder" where
  "un_GroupCreateParams = un_struct fields_GroupCreateParams"

definition ms_GroupCreateParams :: "GroupCreateParams \<Rightarrow> bytes option" where
  "ms_GroupCreateParams x = ms_obj (
     always ''wmp'' (ms_Metadata (gcp_WMP x))
     @ always ''group_id'' (ms_string (gcp_GroupID x))
     @ always ''cipher_suite'' (ms_int (gcp_CipherSuite x))
     @ unless (gcp_AcceptedCredentialTypes x = []) ''accepted_credential_types'' ((ms_list ms_string) (gcp_AcceptedCredentialTypes x))
     @ unless (gcp_AcceptedIdentitySchemes x = []) ''accepted_identity_schemes'' ((ms_list ms_string) (gcp_AcceptedIdentitySchemes x))
     @ always ''group_info'' (ms_string (gcp_GroupInfo x))
     @ always ''welcomes'' ((ms_ptr (ms_map ms_string)) (gcp_Welcomes x)))"

record GroupCreateResult =
  gcr_WMP :: "Metadata"
  gcr_GroupID :: "bytes"
  gcr_Epoch :: "int"

definition zero_GroupCreateResult :: GroupCreateResult where
  "zero_GroupCreateResult = \<lparr>gcr_WMP = zero_Metadata, gcr_GroupID = [], gcr_Epoch = 0\<rparr>"

definition fields_GroupCreateResult :: "GroupCreateResult fields" where
  "fields_GroupCreateResult =
    [(''wmp'', field gcr_WMP gcr_WMP_update un_Metadata),
     (''group_id'', field gcr_GroupID gcr_GroupID_update un_string),
     (''epoch'', field gcr_Epoch gcr_Epoch_update un_int)]"

definition un_GroupCreateResult :: "GroupCreateResult decoder" where
  "un_GroupCreateResult = un_struct fields_GroupCreateResult"

definition ms_GroupCreateResult :: "GroupCreateResult \<Rightarrow> bytes option" where
  "ms_GroupCreateResult x = ms_obj (
     always ''wmp'' (ms_Metadata (gcr_WMP x))
     @ always ''group_id'' (ms_string (gcr_GroupID x))
     @ always ''epoch'' (ms_int (gcr_Epoch x)))"

record GroupJoinParams =
  gjp_WMP :: "Metadata"
  gjp_WelcomeProcessed :: "bool"

definition zero_GroupJoinParams :: GroupJoinParams where
  "zero_GroupJoinParams = \<lparr>gjp_WMP = zero_Metadata, gjp_WelcomeProcessed = False\<rparr>"

definition fields_GroupJoinParams :: "GroupJoinParams fields" where
  "fields_GroupJoinParams =
    [(''wmp'', field gjp_WMP gjp_WMP_update un_Metadata),
     (''welcome_processed'', field gjp_WelcomeProcessed gjp_WelcomeProcessed_update un_bool)]"

definition un_GroupJoinParams :: "GroupJoinParams decoder" where
  "un_GroupJoinParams = un_struct fields_GroupJoinParams"

definition ms_GroupJoinParams :: "GroupJoinParams \<Rightarrow> bytes option" where
  "ms_GroupJoinParams x = ms_obj (
     always ''wmp'' (ms_Metadata (gjp_WMP x))
     @ always ''welcome_processed'' (ms_bool (gjp_WelcomeProcessed x)))"

record GroupJoinResult =
  gjr_WMP :: "Metadata"
  gjr_GroupID :: "bytes"
  gjr_Epoch :: "int"

definition zero_GroupJoinResult :: GroupJoinResult where
  "zero_GroupJoinResult = \<lparr>gjr_WMP = zero_Metadata, gjr_GroupID = [], gjr_Epoch = 0\<rparr>"

definition fields_GroupJoinResult :: "GroupJoinResult fields" where
  "fields_GroupJoinResult =
    [(''wmp'', field gjr_WMP gjr_WMP_update un_Metadata),
     (''group_id'', field gjr_GroupID gjr_GroupID_update un_string),
     (''epoch'', field gjr_Epoch gjr_Epoch_update un_int)]"

definition un_GroupJoinResult :: "GroupJoinResult decoder" where
  "un_GroupJoinResult = un_struct fields_GroupJoinResult"

definition ms_GroupJoinResult :: "GroupJoinResult \<Rightarrow> bytes option" where
  "ms_GroupJoinResult x = ms_obj (
     always ''wmp'' (ms_Metadata (gjr_WMP x))
     @ always ''group_id'' (ms_string (gjr_GroupID x))
     @ always ''epoch'' (ms_int (gjr_Epoch x)))"

record GroupAddParams =
  gap_WMP :: "Metadata"
  gap_Participant :: "bytes"
  gap_Commit :: "bytes"
  gap_Welcome :: "bytes"

definition zero_GroupAddParams :: GroupAddParams where
  "zero_GroupAddParams = \<lparr>gap_WMP = zero_Metadata, gap_Participant = [], gap_Commit = [], gap_Welcome = []\<rparr>"

definition fields_GroupAddParams :: "GroupAddParams fields" where
  "fields_GroupAddParams =
    [(''wmp'', field gap_WMP gap_WMP_update un_Metadata),
     (''participant'', field gap_Participant gap_Participant_update un_string),
     (''commit'', field gap_Commit gap_Commit_update un_string),
     (''welcome'', field gap_Welcome gap_Welcome_update un_string)]"

definition un_GroupAddParams :: "GroupAddParams decoder" where
  "un_GroupAddParams = un_struct fields_GroupAddParams"

definition ms_GroupAddParams :: "GroupAddParams \<Rightarrow> bytes option" where
  "ms_GroupAddParams x = ms_obj (
     always ''wmp'' (ms_Metadata (gap_WMP x))
     @ always ''participant'' (ms_string (gap_Participant x))
     @ always ''commit'' (ms_string (gap_Commit x))
     @ always ''welcome'' (ms_string (gap_Welcome x)))"

record GroupAddResult =
  gar_WMP :: "Metadata"
  gar_Epoch :: "int"

definition zero_GroupAddResult :: GroupAddResult where
  "zero_GroupAddResult = \<lparr>gar_WMP = zero_Metadata, gar_Epoch = 0\<rparr>"

definition fields_GroupAddResult :: "GroupAddResult fields" where
  "fields_GroupAddResult =
    [(''wmp'', field gar_WMP gar_WMP_update un_Metadata),
     (''epoch'', field gar_Epoch gar_Epoch_update un_int)]"

definition un_GroupAddResult :: "GroupAddResult decoder" where
  "un_GroupAddResult = un_struct fields_GroupAddResult"

definition ms_GroupAddResult :: "GroupAddResult \<Rightarrow> bytes option" where
  "ms_GroupAddResult x = ms_obj (
     always ''wmp'' (ms_Metadata (gar_WMP x))
     @ always ''epoch'' (ms_int (gar_Epoch x)))"

record GroupRemoveParams =
  grp_WMP :: "Metadata"
  grp_Participant :: "bytes"
  grp_Commit :: "bytes"

definition zero_GroupRemoveParams :: GroupRemoveParams where
  "zero_GroupRemoveParams = \<lparr>grp_WMP = zero_Metadata, grp_Participant = [], grp_Commit = []\<rparr>"

definition fields_GroupRemoveParams :: "GroupRemoveParams fields" where
  "fields_GroupRemoveParams =
    [(''wmp'', field grp_WMP grp_WMP_update un_Metadata),
     (''participant'', field grp_Participant grp_Participant_update un_string),
     (''commit'', field grp_Commit grp_Commit_update un_string)]"

definition un_GroupRemoveParams :: "GroupRemoveParams decoder" where
  "un_GroupRemoveParams = un_struct fields_GroupRemoveParams"

definition ms_GroupRemoveParams :: "GroupRemoveParams \<Rightarrow> bytes option" where
  "ms_GroupRemoveParams x = ms_obj (
     always ''wmp'' (ms_Metadata (grp_WMP x))
     @ always ''participant'' (ms_string (grp_Participant x))
     @ always ''commit'' (ms_string (grp_Commit x)))"

record GroupRemoveResult =
  grr_WMP :: "Metadata"
  grr_Epoch :: "int"

definition zero_GroupRemoveResult :: GroupRemoveResult where
  "zero_GroupRemoveResult = \<lparr>grr_WMP = zero_Metadata, grr_Epoch = 0\<rparr>"

definition fields_GroupRemoveResult :: "GroupRemoveResult fields" where
  "fields_GroupRemoveResult =
    [(''wmp'', field grr_WMP grr_WMP_update un_Metadata),
     (''epoch'', field grr_Epoch grr_Epoch_update un_int)]"

definition un_GroupRemoveResult :: "GroupRemoveResult decoder" where
  "un_GroupRemoveResult = un_struct fields_GroupRemoveResult"

definition ms_GroupRemoveResult :: "GroupRemoveResult \<Rightarrow> bytes option" where
  "ms_GroupRemoveResult x = ms_obj (
     always ''wmp'' (ms_Metadata (grr_WMP x))
     @ always ''epoch'' (ms_int (grr_Epoch x)))"

record GroupUpdateParams =
  gup_WMP :: "Metadata"
  gup_Commit :: "bytes"

definition zero_GroupUpdateParams :: GroupUpdateParams where
  "zero_GroupUpdateParams = \<lparr>gup_WMP = zero_Metadata, gup_Commit = []\<rparr>"

definition fields_GroupUpdateParams :: "GroupUpdateParams fields" where
  "fields_GroupUpdateParams =
    [(''wmp'', field gup_WMP gup_WMP_update un_Metadata),
     (''commit'', field gup_Commit gup_Commit_update un_string)]"

definition un_GroupUpdateParams :: "GroupUpdateParams decoder" where
  "un_GroupUpdateParams = un_struct fields_GroupUpdateParams"

definition ms_GroupUpdateParams :: "GroupUpdateParams \<Rightarrow> bytes option" where
  "ms_GroupUpdateParams x = ms_obj (
     always ''wmp'' (ms_Metadata (gup_WMP x))
     @ always ''commit'' (ms_string (gup_Commit x)))"

record MessageFetchParams =
  mfp_WMP :: "Metadata"
  mfp_SinceEpoch :: "int"
  mfp_Sessions :: "bytes list"

definition zero_MessageFetchParams :: MessageFetchParams where
  "zero_MessageFetchParams = \<lparr>mfp_WMP = zero_Metadata, mfp_SinceEpoch = 0, mfp_Sessions = []\<rparr>"

definition fields_MessageFetchParams :: "MessageFetchParams fields" where
  "fields_MessageFetchParams =
    [(''wmp'', field mfp_WMP mfp_WMP_update un_Metadata),
     (''since_epoch'', field mfp_SinceEpoch mfp_SinceEpoch_update un_int),
     (''sessions'', field mfp_Sessions mfp_Sessions_update (un_list [] un_string))]"

definition un_MessageFetchParams :: "MessageFetchParams decoder" where
  "un_MessageFetchParams = un_struct fields_MessageFetchParams"

definition ms_MessageFetchParams :: "MessageFetchParams \<Rightarrow> bytes option" where
  "ms_MessageFetchParams x = ms_obj (
     always ''wmp'' (ms_Metadata (mfp_WMP x))
     @ unless (mfp_SinceEpoch x = 0) ''since_epoch'' (ms_int (mfp_SinceEpoch x))
     @ unless (mfp_Sessions x = []) ''sessions'' ((ms_list ms_string) (mfp_Sessions x)))"

record MessageFetchResult =
  mfr_WMP :: "Metadata"
  mfr_Messages :: "raw list option"
  mfr_HasMore :: "bool"

definition zero_MessageFetchResult :: MessageFetchResult where
  "zero_MessageFetchResult = \<lparr>mfr_WMP = zero_Metadata, mfr_Messages = None, mfr_HasMore = False\<rparr>"

definition fields_MessageFetchResult :: "MessageFetchResult fields" where
  "fields_MessageFetchResult =
    [(''wmp'', field mfr_WMP mfr_WMP_update un_Metadata),
     (''messages'', field mfr_Messages mfr_Messages_update (un_slice None un_raw)),
     (''has_more'', field mfr_HasMore mfr_HasMore_update un_bool)]"

definition un_MessageFetchResult :: "MessageFetchResult decoder" where
  "un_MessageFetchResult = un_struct fields_MessageFetchResult"

definition ms_MessageFetchResult :: "MessageFetchResult \<Rightarrow> bytes option" where
  "ms_MessageFetchResult x = ms_obj (
     always ''wmp'' (ms_Metadata (mfr_WMP x))
     @ always ''messages'' ((ms_slice ms_raw) (mfr_Messages x))
     @ always ''has_more'' (ms_bool (mfr_HasMore x)))"

record KeyPackage =
  kp_ID :: "bytes"
  kp_CipherSuite :: "int"
  kp_KeyPackage :: "bytes"
  kp_Expires :: "bytes"

definition zero_KeyPackage :: KeyPackage where
  "zero_KeyPackage = \<lparr>kp_ID = [], kp_CipherSuite = 0, kp_KeyPackage = [], kp_Expires = []\<rparr>"

definition fields_KeyPackage :: "KeyPackage fields" where
  "fields_KeyPackage =
    [(''id'', field kp_ID kp_ID_update un_string),
     (''cipher_suite'', field kp_CipherSuite kp_CipherSuite_update un_int),
     (''key_package'', field kp_KeyPackage kp_KeyPackage_update un_string),
     (''expires'', field kp_Expires kp_Expires_update un_string)]"

definition un_KeyPackage :: "KeyPackage decoder" where
  "un_KeyPackage = un_struct fields_KeyPackage"

definition ms_KeyPackage :: "KeyPackage \<Rightarrow> bytes option" where
  "ms_KeyPackage x = ms_obj (
     always ''id'' (ms_string (kp_ID x))
     @ always ''cipher_suite'' (ms_int (kp_CipherSuite x))
     @ always ''key_package'' (ms_string (kp_KeyPackage x))
     @ always ''expires'' (ms_string (kp_Expires x)))"

record KeyPackagesResponse =
  kpr_KeyPackages :: "KeyPackage list option"

definition zero_KeyPackagesResponse :: KeyPackagesResponse where
  "zero_KeyPackagesResponse = \<lparr>kpr_KeyPackages = None\<rparr>"

definition fields_KeyPackagesResponse :: "KeyPackagesResponse fields" where
  "fields_KeyPackagesResponse =
    [(''key_packages'', field kpr_KeyPackages kpr_KeyPackages_update (un_slice zero_KeyPackage un_KeyPackage))]"

definition un_KeyPackagesResponse :: "KeyPackagesResponse decoder" where
  "un_KeyPackagesResponse = un_struct fields_KeyPackagesResponse"

definition ms_KeyPackagesResponse :: "KeyPackagesResponse \<Rightarrow> bytes option" where
  "ms_KeyPackagesResponse x = ms_obj (
     always ''key_packages'' ((ms_slice ms_KeyPackage) (kpr_KeyPackages x)))"

record EncryptedEnvelope =
  ee_WMP :: "Metadata"
  ee_Ciphertext :: "bytes"

definition zero_EncryptedEnvelope :: EncryptedEnvelope where
  "zero_EncryptedEnvelope = \<lparr>ee_WMP = zero_Metadata, ee_Ciphertext = []\<rparr>"

definition fields_EncryptedEnvelope :: "EncryptedEnvelope fields" where
  "fields_EncryptedEnvelope =
    [(''wmp'', field ee_WMP ee_WMP_update un_Metadata),
     (''ciphertext'', field ee_Ciphertext ee_Ciphertext_update un_string)]"

definition un_EncryptedEnvelope :: "EncryptedEnvelope decoder" where
  "un_EncryptedEnvelope = un_struct fields_EncryptedEnvelope"

definition ms_EncryptedEnvelope :: "EncryptedEnvelope \<Rightarrow> bytes option" where
  "ms_EncryptedEnvelope x = ms_obj (
     always ''wmp'' (ms_Metadata (ee_WMP x))
     @ always ''ciphertext'' (ms_string (ee_Ciphertext x)))"

end
