(* ===== verification/Mls_Profile.thy ===== *)
theory Mls_Profile
  imports Mls_Types Peer
begin

text \<open>
  The MLS profile (mls/mls.go) and its no-op implementations (mls/noop.go). The handler
  interface is a record of its methods on the world; the profile turns a method name and raw
  parameters into a call of it. The no-op handler ranges over its map of groups and stops at
  the first: its operations return the list of outcomes over all choices of that group.
\<close>

section \<open>The handler interface\<close>

record 'w MLSHandler =
  mls_GroupCreate :: "Context \<Rightarrow> GroupCreateParams \<Rightarrow> 'w \<Rightarrow> GroupCreateResult goret \<times> 'w"
  mls_GroupJoin :: "Context \<Rightarrow> GroupJoinParams \<Rightarrow> 'w \<Rightarrow> GroupJoinResult goret \<times> 'w"
  mls_GroupAdd :: "Context \<Rightarrow> GroupAddParams \<Rightarrow> 'w \<Rightarrow> GroupAddResult goret \<times> 'w"
  mls_GroupRemove :: "Context \<Rightarrow> GroupRemoveParams \<Rightarrow> 'w \<Rightarrow> GroupRemoveResult goret \<times> 'w"
  mls_GroupUpdate :: "Context \<Rightarrow> GroupUpdateParams \<Rightarrow> 'w \<Rightarrow> 'w"
  mls_MessageFetch :: "Context \<Rightarrow> MessageFetchParams \<Rightarrow> 'w \<Rightarrow> MessageFetchResult goret \<times> 'w"

definition not_supported :: "bytes option option \<Rightarrow> 'r goret" where
  "not_supported data = (None, Some (RPCErr (NewRPCError ErrCapabilityNotSupported data)))"

definition BaseMLSHandler :: "'w MLSHandler" where
  "BaseMLSHandler =
     \<lparr>mls_GroupCreate = (\<lambda>_ _ w. (not_supported (Some (ms_map ms_string [(''message'', ''MLS not supported'')])), w)),
      mls_GroupJoin = (\<lambda>_ _ w. (not_supported None, w)),
      mls_GroupAdd = (\<lambda>_ _ w. (not_supported None, w)),
      mls_GroupRemove = (\<lambda>_ _ w. (not_supported None, w)),
      mls_GroupUpdate = (\<lambda>_ _ w. w),
      mls_MessageFetch = (\<lambda>_ _ w. (not_supported None, w))\<rparr>"

section \<open>The profile\<close>

definition Methods_mls :: "bytes list" where
  "Methods_mls = [MethodGroupCreate, MethodGroupJoin, MethodGroupAdd, MethodGroupRemove, MethodGroupUpdate, MethodMessageFetch]"

text \<open>Decode the parameters, or refuse them; a result is a typed pointer inside an interface.\<close>

definition mls_call ::
  "'p decoder \<Rightarrow> 'p \<Rightarrow> ('r \<Rightarrow> bytes option) \<Rightarrow> ('p \<Rightarrow> 'w \<Rightarrow> 'r goret \<times> 'w) \<Rightarrow> raw \<Rightarrow> 'w \<Rightarrow> (rpc_result \<times> go_error option) \<times> 'w" where
  "mls_call un zero ms f params w =
     (case unmarshal un zero params of
        None \<Rightarrow> ((RNil, Some (RPCErr (NewRPCError ErrInvalidParams None))), w)
      | Some ps \<Rightarrow> (case f ps w of ((res, e), w') \<Rightarrow> ((RAny (ms_ptr ms res), e), w')))"

definition HandleMethod_mls :: "'w MLSHandler \<Rightarrow> Context \<Rightarrow> bytes \<Rightarrow> raw \<Rightarrow> 'w \<Rightarrow> (rpc_result \<times> go_error option) \<times> 'w" where
  "HandleMethod_mls h ctx method params w =
     (if method = MethodGroupCreate then
        mls_call un_GroupCreateParams zero_GroupCreateParams ms_GroupCreateResult (mls_GroupCreate h ctx) params w
      else if method = MethodGroupJoin then
        mls_call un_GroupJoinParams zero_GroupJoinParams ms_GroupJoinResult (mls_GroupJoin h ctx) params w
      else if method = MethodGroupAdd then
        mls_call un_GroupAddParams zero_GroupAddParams ms_GroupAddResult (mls_GroupAdd h ctx) params w
      else if method = MethodGroupRemove then
        mls_call un_GroupRemoveParams zero_GroupRemoveParams ms_GroupRemoveResult (mls_GroupRemove h ctx) params w
      else if method = MethodGroupUpdate then
        (case unmarshal un_GroupUpdateParams zero_GroupUpdateParams params of
           None \<Rightarrow> ((RNil, Some (RPCErr (NewRPCError ErrInvalidParams None))), w)
         | Some ps \<Rightarrow> ((RNil, None), mls_GroupUpdate h ctx ps w))
      else if method = MethodMessageFetch then
        mls_call un_MessageFetchParams zero_MessageFetchParams ms_MessageFetchResult (mls_MessageFetch h ctx) params w
      else ((RNil, Some (RPCErr (NewRPCError ErrMethodNotFound None))), w))"

definition mls_MethodHandler :: "'w MLSHandler \<Rightarrow> 'w MethodHandler" where
  "mls_MethodHandler h = \<lparr>mh_Methods = (\<lambda>_. Methods_mls), mh_HandleMethod = HandleMethod_mls h\<rparr>"

definition mls_Profile :: "'w MLSHandler \<Rightarrow> 'w Profile" where
  "mls_Profile h =
     \<lparr>pf_Name = ''mls'', pf_Capabilities = [''mls''], pf_Init = (\<lambda>w. (None, w)), pf_FlowHandler = None,
      pf_MethodHandler = Some (mls_MethodHandler h), pf_ResolveHandler = None, pf_SessionHook = None, pf_IdentifierResolver = None\<rparr>"

section \<open>The no-op handler\<close>

record noopGroup =
  ng_groupID :: bytes
  ng_epoch :: int
  ng_members :: "(bytes, bool) gomap"

record NoopMLSHandler =
  groups :: "(bytes, noopGroup) gomap"

definition NewNoopMLSHandler :: NoopMLSHandler where
  "NewNoopMLSHandler = \<lparr>groups = []\<rparr>"

text \<open>The members of a new group: the keys of the welcomes, then the creator.\<close>

fun add_members :: "bytes list \<Rightarrow> (bytes, bool) gomap \<Rightarrow> (bytes, bool) gomap" where
  "add_members [] m = m"
| "add_members (p # ps) m = add_members ps (gm_set p True m)"

definition initial_members :: "GroupCreateParams \<Rightarrow> (bytes, bool) gomap" where
  "initial_members ps =
     (let m = add_members (case gcp_Welcomes ps of None \<Rightarrow> [] | Some ws \<Rightarrow> map fst ws) []
      in if md_Sender (gcp_WMP ps) \<noteq> [] then gm_set (md_Sender (gcp_WMP ps)) True m else m)"

definition mls_error :: "int \<Rightarrow> bytes \<Rightarrow> 'r goret" where
  "mls_error code reason = (None, Some (RPCErr (NewRPCError code (reason_data reason))))"

definition GroupCreate_noop :: "GroupCreateParams \<Rightarrow> NoopMLSHandler \<Rightarrow> GroupCreateResult goret \<times> NoopMLSHandler" where
  "GroupCreate_noop ps h =
     (if gcp_GroupID ps = [] then (mls_error ErrInvalidParams ''group_id is required'', h)
      else if gm_get (groups h) (gcp_GroupID ps) \<noteq> None then (mls_error ErrMLSError ''group already exists'', h)
      else ((Some \<lparr>gcr_WMP = gcp_WMP ps, gcr_GroupID = gcp_GroupID ps, gcr_Epoch = 0\<rparr>, None),
            h\<lparr>groups := gm_set (gcp_GroupID ps)
               \<lparr>ng_groupID = gcp_GroupID ps, ng_epoch = 0, ng_members = initial_members ps\<rparr> (groups h)\<rparr>))"

definition GroupJoin_noop :: "GroupJoinParams \<Rightarrow> GroupJoinResult goret" where
  "GroupJoin_noop ps = (Some \<lparr>gjr_WMP = gjp_WMP ps, gjr_GroupID = [], gjr_Epoch = 0\<rparr>, None)"

definition noop_add :: "bytes \<Rightarrow> noopGroup \<Rightarrow> noopGroup" where
  "noop_add participant g =
     (let g1 = (if participant \<noteq> [] then g\<lparr>ng_members := gm_set participant True (ng_members g)\<rparr> else g)
      in g1\<lparr>ng_epoch := ng_epoch g1 + 1\<rparr>)"

definition noop_remove :: "bytes \<Rightarrow> noopGroup \<Rightarrow> noopGroup" where
  "noop_remove participant g = g\<lparr>ng_members := gm_del participant (ng_members g), ng_epoch := ng_epoch g + 1\<rparr>"

definition GroupAdd_noop :: "GroupAddParams \<Rightarrow> NoopMLSHandler \<Rightarrow> (GroupAddResult goret \<times> NoopMLSHandler) list" where
  "GroupAdd_noop ps h =
     (if groups h = [] then [(mls_error ErrMLSError ''no group found'', h)]
      else map (\<lambda>(gid, g). let g' = noop_add (gap_Participant ps) g in
              ((Some \<lparr>gar_WMP = gap_WMP ps, gar_Epoch = ng_epoch g'\<rparr>, None), h\<lparr>groups := gm_set gid g' (groups h)\<rparr>))
           (groups h))"

definition GroupRemove_noop :: "GroupRemoveParams \<Rightarrow> NoopMLSHandler \<Rightarrow> (GroupRemoveResult goret \<times> NoopMLSHandler) list" where
  "GroupRemove_noop ps h =
     (if groups h = [] then [(mls_error ErrMLSError ''no group found'', h)]
      else map (\<lambda>(gid, g). let g' = noop_remove (grp_Participant ps) g in
              ((Some \<lparr>grr_WMP = grp_WMP ps, grr_Epoch = ng_epoch g'\<rparr>, None), h\<lparr>groups := gm_set gid g' (groups h)\<rparr>))
           (groups h))"

definition GroupUpdate_noop :: "GroupUpdateParams \<Rightarrow> NoopMLSHandler \<Rightarrow> NoopMLSHandler" where
  "GroupUpdate_noop ps h = h"

definition MessageFetch_noop :: "MessageFetchParams \<Rightarrow> MessageFetchResult goret" where
  "MessageFetch_noop ps = (Some \<lparr>mfr_WMP = mfp_WMP ps, mfr_Messages = Some [], mfr_HasMore = False\<rparr>, None)"

section \<open>The no-op provider\<close>

record noopProviderGroup =
  npg_epoch :: int

record NoopMLSProvider =
  np_groups :: "(bytes, noopProviderGroup) gomap"
  np_allowInsecure :: bool

definition WithAllowInsecure :: "bool \<Rightarrow> NoopMLSProvider \<Rightarrow> NoopMLSProvider" where
  "WithAllowInsecure allow p = p\<lparr>np_allowInsecure := allow\<rparr>"

definition NewNoopMLSProvider :: "(NoopMLSProvider \<Rightarrow> NoopMLSProvider) list \<Rightarrow> NoopMLSProvider" where
  "NewNoopMLSProvider opts = fold (\<lambda>opt p. opt p) opts \<lparr>np_groups = [], np_allowInsecure = False\<rparr>"

definition GenerateKeyPackage_noop :: "int \<Rightarrow> KeyPackage" where
  "GenerateKeyPackage_noop cipherSuite =
     \<lparr>kp_ID = ''noop-kp-1'', kp_CipherSuite = cipherSuite, kp_KeyPackage = [], kp_Expires = ''2099-12-31T23:59:59Z''\<rparr>"

fun empty_welcomes :: "bytes list \<Rightarrow> (bytes, bytes) gomap \<Rightarrow> (bytes, bytes) gomap" where
  "empty_welcomes [] ws = ws"
| "empty_welcomes (p # ps) ws = empty_welcomes ps (gm_set p [] ws)"

definition CreateGroup_noop :: "int \<Rightarrow> bytes list \<Rightarrow> bytes \<times> (bytes, bytes) gomap" where
  "CreateGroup_noop cipherSuite participants = ([], empty_welcomes participants [])"

definition ProcessWelcome_noop :: "bytes \<Rightarrow> bytes \<times> int" where
  "ProcessWelcome_noop welcome = (''noop-group'', 0)"

text \<open>\<open>AddMember\<close>, \<open>RemoveMember\<close>, \<open>ProcessCommit\<close> and \<open>SelfUpdate\<close> share the step of the epoch.\<close>

definition advance_epoch :: "bytes \<Rightarrow> NoopMLSProvider \<Rightarrow> int \<times> NoopMLSProvider" where
  "advance_epoch groupID p =
     (let g = (case gm_get (np_groups p) groupID of None \<Rightarrow> \<lparr>npg_epoch = 0\<rparr> | Some g \<Rightarrow> g);
          g' = g\<lparr>npg_epoch := npg_epoch g + 1\<rparr>
      in (npg_epoch g', p\<lparr>np_groups := gm_set groupID g' (np_groups p)\<rparr>))"

definition AddMember_noop :: "bytes \<Rightarrow> NoopMLSProvider \<Rightarrow> (bytes \<times> bytes) \<times> NoopMLSProvider" where
  "AddMember_noop groupID p = (([], []), snd (advance_epoch groupID p))"

definition RemoveMember_noop :: "bytes \<Rightarrow> NoopMLSProvider \<Rightarrow> bytes \<times> NoopMLSProvider" where
  "RemoveMember_noop groupID p = ([], snd (advance_epoch groupID p))"

definition ProcessCommit_noop :: "bytes \<Rightarrow> NoopMLSProvider \<Rightarrow> int \<times> NoopMLSProvider" where
  "ProcessCommit_noop groupID p = advance_epoch groupID p"

definition SelfUpdate_noop :: "bytes \<Rightarrow> NoopMLSProvider \<Rightarrow> bytes \<times> NoopMLSProvider" where
  "SelfUpdate_noop groupID p = ([], snd (advance_epoch groupID p))"

definition plaintext_refused :: go_error where
  "plaintext_refused = RPCErr (NewRPCError ErrMLSError (reason_data
     ''NoopMLSProvider plaintext mode is not enabled; use WithAllowInsecure(true) only when transport security is sufficient''))"

definition Encrypt_noop :: "bytes \<Rightarrow> bytes \<Rightarrow> NoopMLSProvider \<Rightarrow> go_error + (bytes \<times> int)" where
  "Encrypt_noop groupID plaintext p = (if \<not> np_allowInsecure p then Inl plaintext_refused else Inr (plaintext, 0))"

definition Decrypt_noop :: "bytes \<Rightarrow> bytes \<Rightarrow> NoopMLSProvider \<Rightarrow> go_error + (bytes \<times> int)" where
  "Decrypt_noop groupID ciphertext p = (if \<not> np_allowInsecure p then Inl plaintext_refused else Inr (ciphertext, 0))"

text \<open>The interface of providers, on a provider's state \<open>'p\<close>, and the no-op provider as one of them.\<close>

record 'p MLSProvider =
  mp_GenerateKeyPackage :: "int \<Rightarrow> 'p \<Rightarrow> (go_error + KeyPackage) \<times> 'p"
  mp_CreateGroup :: "int \<Rightarrow> bytes list \<Rightarrow> 'p \<Rightarrow> (go_error + (bytes \<times> (bytes, bytes) gomap)) \<times> 'p"
  mp_ProcessWelcome :: "bytes \<Rightarrow> 'p \<Rightarrow> (go_error + (bytes \<times> int)) \<times> 'p"
  mp_AddMember :: "bytes \<Rightarrow> bytes \<Rightarrow> 'p \<Rightarrow> (go_error + (bytes \<times> bytes)) \<times> 'p"
  mp_RemoveMember :: "bytes \<Rightarrow> bytes \<Rightarrow> 'p \<Rightarrow> (go_error + bytes) \<times> 'p"
  mp_ProcessCommit :: "bytes \<Rightarrow> bytes \<Rightarrow> 'p \<Rightarrow> (go_error + int) \<times> 'p"
  mp_SelfUpdate :: "bytes \<Rightarrow> 'p \<Rightarrow> (go_error + bytes) \<times> 'p"
  mp_Encrypt :: "bytes \<Rightarrow> bytes \<Rightarrow> 'p \<Rightarrow> (go_error + (bytes \<times> int)) \<times> 'p"
  mp_Decrypt :: "bytes \<Rightarrow> bytes \<Rightarrow> 'p \<Rightarrow> (go_error + (bytes \<times> int)) \<times> 'p"

definition noop_MLSProvider :: "NoopMLSProvider MLSProvider" where
  "noop_MLSProvider = \<lparr>
     mp_GenerateKeyPackage = (\<lambda>cs p. (Inr (GenerateKeyPackage_noop cs), p)),
     mp_CreateGroup = (\<lambda>cs parts p. (Inr (CreateGroup_noop cs parts), p)),
     mp_ProcessWelcome = (\<lambda>welcome p. (Inr (ProcessWelcome_noop welcome), p)),
     mp_AddMember = (\<lambda>gid _ p. apfst Inr (AddMember_noop gid p)),
     mp_RemoveMember = (\<lambda>gid _ p. apfst Inr (RemoveMember_noop gid p)),
     mp_ProcessCommit = (\<lambda>gid _ p. apfst Inr (ProcessCommit_noop gid p)),
     mp_SelfUpdate = (\<lambda>gid p. apfst Inr (SelfUpdate_noop gid p)),
     mp_Encrypt = (\<lambda>gid t p. (Encrypt_noop gid t p, p)),
     mp_Decrypt = (\<lambda>gid t p. (Decrypt_noop gid t p, p))\<rparr>"

end
