(* ===== verification/Mls_Props.thy ===== *)
theory Mls_Props
  imports Mls_Profile Peer_Props
begin

text \<open>
  Properties of the MLS profile: the groups of the no-op handler refine a map from group
  identifiers to an epoch and a set of members, the no-op provider passes plaintext through only
  after the opt-in, and a peer that uses the profile serves its methods.
\<close>

section \<open>The groups as an abstract map\<close>

type_synonym group_map = "bytes \<rightharpoonup> int \<times> bytes set"

definition group_abs :: "noopGroup \<Rightarrow> int \<times> bytes set" where
  "group_abs g = (ng_epoch g, {m. gm_get (ng_members g) m \<noteq> None})"

definition groups_abs :: "NoopMLSHandler \<Rightarrow> group_map" where
  "groups_abs h gid = map_option group_abs (gm_get (groups h) gid)"

definition noop_ok :: "NoopMLSHandler \<Rightarrow> bool" where
  "noop_ok h \<longleftrightarrow> gm_ok (groups h)"

datatype mls_op =
    OpCreate GroupCreateParams
  | OpAdd GroupAddParams
  | OpRemove GroupRemoveParams

datatype mls_reply =
    Epoch int
  | Refused int bytes

fun reply_of :: "('r \<Rightarrow> int) \<Rightarrow> 'r goret \<Rightarrow> mls_reply" where
  "reply_of ep (Some r, None) = Epoch (ep r)"
| "reply_of ep (_, Some (RPCErr e)) = Refused (err_Code e) (err_Message e)"
| "reply_of ep _ = Refused 0 []"

text \<open>One operation of the no-op handler, with what its caller sees.\<close>

fun noop_op :: "mls_op \<Rightarrow> NoopMLSHandler \<Rightarrow> (mls_reply \<times> NoopMLSHandler) list" where
  "noop_op (OpCreate ps) h = [map_prod (reply_of gcr_Epoch) id (GroupCreate_noop ps h)]"
| "noop_op (OpAdd ps) h = map (map_prod (reply_of gar_Epoch) id) (GroupAdd_noop ps h)"
| "noop_op (OpRemove ps) h = map (map_prod (reply_of grr_Epoch) id) (GroupRemove_noop ps h)"

definition named :: "bytes \<Rightarrow> bytes set" where
  "named p = {p} - {[]}"

definition creators :: "GroupCreateParams \<Rightarrow> bytes set" where
  "creators ps = (case gcp_Welcomes ps of None \<Rightarrow> {} | Some ws \<Rightarrow> fst ` set ws) \<union> named (md_Sender (gcp_WMP ps))"

text \<open>A change of one group, whichever it is; there has to be one.\<close>

definition change_one :: "(bytes set \<Rightarrow> bytes set) \<Rightarrow> group_map \<Rightarrow> (mls_reply \<times> group_map) set" where
  "change_one f A =
     (if A = Map.empty then {(Refused ErrMLSError (ErrorMessage ErrMLSError), A)}
      else {(Epoch (fst g + 1), A(gid \<mapsto> (fst g + 1, f (snd g)))) | gid g. A gid = Some g})"

fun group_op :: "mls_op \<Rightarrow> group_map \<Rightarrow> (mls_reply \<times> group_map) set" where
  "group_op (OpCreate ps) A =
     (if gcp_GroupID ps = [] then {(Refused ErrInvalidParams (ErrorMessage ErrInvalidParams), A)}
      else if A (gcp_GroupID ps) \<noteq> None then {(Refused ErrMLSError (ErrorMessage ErrMLSError), A)}
      else {(Epoch 0, A(gcp_GroupID ps \<mapsto> (0, creators ps)))})"
| "group_op (OpAdd ps) A = change_one (\<lambda>ms. ms \<union> named (gap_Participant ps)) A"
| "group_op (OpRemove ps) A = change_one (\<lambda>ms. ms - {grp_Participant ps}) A"

text \<open>Sequences of operations: the replies and the final state, over all choices.\<close>

fun exec :: "('o \<Rightarrow> 's \<Rightarrow> ('r \<times> 's) set) \<Rightarrow> 'o list \<Rightarrow> 's \<Rightarrow> ('r list \<times> 's) set" where
  "exec step [] s = {([], s)}"
| "exec step (o1 # os) s = (\<Union>(r, s1) \<in> step o1 s. map_prod (Cons r) id ` exec step os s1)"

locale simulated =
  fixes step :: "'o \<Rightarrow> 's \<Rightarrow> ('r \<times> 's) set"
    and spec :: "'o \<Rightarrow> 'a \<Rightarrow> ('r \<times> 'a) set"
    and ok :: "'s \<Rightarrow> bool"
    and abs :: "'s \<Rightarrow> 'a"
  assumes step_ok: "ok s \<Longrightarrow> (r, s') \<in> step x s \<Longrightarrow> ok s'"
    and step_abs: "ok s \<Longrightarrow> map_prod id abs ` step x s = spec x (abs s)"
begin

lemma exec_abs: "ok s \<Longrightarrow> map_prod id abs ` exec step os s = exec spec os (abs s)"
proof (induction os arbitrary: s)
  case Nil
  then show ?case by simp
next
  case (Cons o1 os)
  have IH: "map_prod id abs ` exec step os s1 = exec spec os (abs s1)" if "(r, s1) \<in> step o1 s" for r s1
    using Cons.IH step_ok [OF Cons.prems that] .
  have "map_prod id abs ` exec step (o1 # os) s
      = (\<Union>(r, s1) \<in> step o1 s. map_prod (Cons r) id ` (map_prod id abs ` exec step os s1))"
    by (force simp: image_UN image_comp)
  also have "\<dots> = (\<Union>(r, s1) \<in> step o1 s. map_prod (Cons r) id ` exec spec os (abs s1))"
    using IH by fastforce
  also have "\<dots> = (\<Union>(r, a) \<in> map_prod id abs ` step o1 s. map_prod (Cons r) id ` exec spec os a)"
    by force
  also have "\<dots> = exec spec (o1 # os) (abs s)"
    by (simp add: step_abs [OF Cons.prems])
  finally show ?case .
qed

end

lemma mls_error_reply: "reply_of ep (mls_error c t) = Refused c (ErrorMessage c)"
  by (simp add: mls_error_def NewRPCError_def)

lemma add_members_get: "gm_get (add_members ps m) x = (if x \<in> set ps then Some True else gm_get m x)"
  by (induction ps m rule: add_members.induct) auto

lemma initial_members_abs: "{m. gm_get (initial_members ps) m \<noteq> None} = creators ps"
  by (auto simp: initial_members_def creators_def named_def Let_def add_members_get split: option.splits if_splits)

lemma group_abs_changes:
  "group_abs (noop_add p g) = (fst (group_abs g) + 1, snd (group_abs g) \<union> named p)"
  "group_abs (noop_remove p g) = (fst (group_abs g) + 1, snd (group_abs g) - {p})"
  by (auto simp: group_abs_def noop_add_def noop_remove_def named_def Let_def)

lemma groups_abs_set: "groups_abs (h\<lparr>groups := gm_set gid g (groups h)\<rparr>) = (groups_abs h)(gid \<mapsto> group_abs g)"
  by (auto simp: groups_abs_def fun_eq_iff)

lemma groups_abs_empty: "groups_abs h = Map.empty \<longleftrightarrow> groups h = []"
  by (cases "groups h") (auto simp: groups_abs_def fun_eq_iff gm_get_def)

lemma groups_abs_entry: "noop_ok h \<Longrightarrow> groups_abs h gid = Some a \<longleftrightarrow> (\<exists>g. (gid, g) \<in> set (groups h) \<and> a = group_abs g)"
  by (auto simp: noop_ok_def groups_abs_def gm_get_in_set)

text \<open>The change of one group by a function on the group, as in \<open>GroupAdd\<close> and \<open>GroupRemove\<close>.\<close>

lemma change_one_abs:
  assumes "noop_ok h" "groups h \<noteq> []" "\<And>g. group_abs (f g) = (fst (group_abs g) + 1, F (snd (group_abs g)))"
  shows "map_prod id groups_abs ` (\<lambda>(gid, g). (Epoch (ng_epoch (f g)), h\<lparr>groups := gm_set gid (f g) (groups h)\<rparr>)) ` set (groups h)
    = change_one F (groups_abs h)"
proof -
  have ep: "ng_epoch (f g) = fst (group_abs g) + 1" for g
    using assms(3) [of g] by (simp add: group_abs_def)
  have "map_prod id groups_abs ` (\<lambda>(gid, g). (Epoch (ng_epoch (f g)), h\<lparr>groups := gm_set gid (f g) (groups h)\<rparr>)) ` set (groups h)
    = {(Epoch (fst (group_abs g) + 1), (groups_abs h)(gid \<mapsto> (fst (group_abs g) + 1, F (snd (group_abs g))))) | gid g. (gid, g) \<in> set (groups h)}"
    by (force simp: groups_abs_set ep assms(3) image_iff)
  also have "\<dots> = change_one F (groups_abs h)"
    using assms(2) by (simp add: change_one_def groups_abs_empty groups_abs_entry [OF assms(1)] del: split_paired_Ex) blast
  finally show ?thesis .
qed

lemma noop_op_abs:
  assumes "noop_ok h" shows "map_prod id groups_abs ` set (noop_op x h) = group_op x (groups_abs h)"
proof (cases x)
  case (OpCreate ps)
  have "groups_abs h (gcp_GroupID ps) = None \<longleftrightarrow> gm_get (groups h) (gcp_GroupID ps) = None"
    by (simp add: groups_abs_def)
  moreover have "group_abs \<lparr>ng_groupID = gid, ng_epoch = 0, ng_members = initial_members ps\<rparr> = (0, creators ps)" for gid
    unfolding group_abs_def by (simp only: initial_members_abs noopGroup.simps)
  ultimately show ?thesis
    using OpCreate by (simp add: GroupCreate_noop_def mls_error_reply groups_abs_set)
next
  case (OpAdd ps)
  then show ?thesis
    using change_one_abs [OF assms, of "noop_add (gap_Participant ps)" "\<lambda>ms. ms \<union> named (gap_Participant ps)"] groups_abs_empty [of h]
    by (auto simp: GroupAdd_noop_def mls_error_reply group_abs_changes image_image case_prod_beta Let_def change_one_def [of _ Map.empty])
next
  case (OpRemove ps)
  then show ?thesis
    using change_one_abs [OF assms, of "noop_remove (grp_Participant ps)" "\<lambda>ms. ms - {grp_Participant ps}"] groups_abs_empty [of h]
    by (auto simp: GroupRemove_noop_def mls_error_reply group_abs_changes image_image case_prod_beta Let_def change_one_def [of _ Map.empty])
qed

lemma noop_op_ok: "noop_ok h \<Longrightarrow> (r, h') \<in> set (noop_op x h) \<Longrightarrow> noop_ok h'"
  by (cases x) (auto simp: noop_ok_def GroupCreate_noop_def GroupAdd_noop_def GroupRemove_noop_def Let_def split: if_splits)

interpretation noop_groups: simulated "\<lambda>x h. set (noop_op x h)" group_op noop_ok groups_abs
  by unfold_locales (auto intro: noop_op_ok simp: noop_op_abs)

text \<open>
  C21: For every sequence of group operations on a new no-op handler and every choice of the
  group that a range over the map starts with, the replies and the resulting groups are those of
  the abstract map: a group is created once, under a non-empty identifier, at epoch 0 with the
  welcomed participants and its creator; every add and remove changes the members of exactly
  one group, advances its epoch by one and reports it; without groups both are refused.
\<close>

theorem noop_groups_refine:
  "map_prod id groups_abs ` exec (\<lambda>x h. set (noop_op x h)) ops NewNoopMLSHandler = exec group_op ops Map.empty"
proof -
  have "noop_ok NewNoopMLSHandler" "groups_abs NewNoopMLSHandler = Map.empty"
    by (simp_all add: noop_ok_def NewNoopMLSHandler_def groups_abs_empty)
  then show ?thesis using noop_groups.exec_abs [of NewNoopMLSHandler ops] by simp
qed

text \<open>
  The group that \<open>GroupAdd\<close> changes need not be one the sender belongs to: the code takes the first
  group of the map without looking at its members.
\<close>

lemma group_add_ignores_sender:
  "\<exists>h ps r h'. ((Some r, None), h') \<in> set (GroupAdd_noop ps h)
     \<and> (\<forall>gid ep ms. groups_abs h gid = Some (ep, ms) \<longrightarrow> md_Sender (gap_WMP ps) \<notin> ms)
     \<and> groups_abs h' ''g'' = Some (1, {''owner'', ''mallory''})"
proof -
  let ?h = "\<lparr>groups = [(''g'', \<lparr>ng_groupID = ''g'', ng_epoch = 0, ng_members = [(''owner'', True)]\<rparr>)]\<rparr>"
  let ?ps = "zero_GroupAddParams\<lparr>gap_WMP := zero_Metadata\<lparr>md_Sender := ''mallory''\<rparr>, gap_Participant := ''mallory''\<rparr>"
  have "groups_abs ?h gid = (if gid = ''g'' then Some (0, {''owner''}) else None)" for gid
    by (auto simp: groups_abs_def gm_get_def group_abs_def split: if_splits)
  moreover have "GroupAdd_noop ?ps ?h =
      [((Some \<lparr>gar_WMP = zero_Metadata\<lparr>md_Sender := ''mallory''\<rparr>, gar_Epoch = 1\<rparr>, None),
        ?h\<lparr>groups := gm_set ''g'' (noop_add ''mallory'' \<lparr>ng_groupID = ''g'', ng_epoch = 0, ng_members = [(''owner'', True)]\<rparr>) (groups ?h)\<rparr>)]"
    by (simp add: GroupAdd_noop_def Let_def noop_add_def)
  moreover have "groups_abs (?h\<lparr>groups := gm_set ''g'' (noop_add ''mallory'' \<lparr>ng_groupID = ''g'', ng_epoch = 0, ng_members = [(''owner'', True)]\<rparr>) (groups ?h)\<rparr>) ''g''
      = Some (1, {''owner'', ''mallory''})"
    unfolding groups_abs_set by (auto simp: group_abs_changes named_def) (auto simp: group_abs_def gm_get_def split: if_splits)
  ultimately show ?thesis by (intro exI [of _ ?h] exI [of _ ?ps]) auto
qed

section \<open>The provider\<close>

datatype provider_op =
    PAdd bytes
  | PRemove bytes
  | PCommit bytes
  | PUpdate bytes

fun provide :: "provider_op \<Rightarrow> NoopMLSProvider \<Rightarrow> NoopMLSProvider" where
  "provide (PAdd gid) p = snd (AddMember_noop gid p)"
| "provide (PRemove gid) p = snd (RemoveMember_noop gid p)"
| "provide (PCommit gid) p = snd (ProcessCommit_noop gid p)"
| "provide (PUpdate gid) p = snd (SelfUpdate_noop gid p)"

fun group_of :: "provider_op \<Rightarrow> bytes" where
  "group_of (PAdd gid) = gid"
| "group_of (PRemove gid) = gid"
| "group_of (PCommit gid) = gid"
| "group_of (PUpdate gid) = gid"

definition epoch_of :: "NoopMLSProvider \<Rightarrow> bytes \<Rightarrow> int" where
  "epoch_of p gid = (case gm_get (np_groups p) gid of None \<Rightarrow> 0 | Some g \<Rightarrow> npg_epoch g)"

lemma provider_op_step:
  "np_allowInsecure (provide x p) = np_allowInsecure p"
  "epoch_of (provide x p) gid = epoch_of p gid + (if group_of x = gid then 1 else 0)"
  by (cases x; simp add: AddMember_noop_def RemoveMember_noop_def ProcessCommit_noop_def SelfUpdate_noop_def
      advance_epoch_def Let_def epoch_of_def split: option.splits)+

lemma provider_ops:
  "np_allowInsecure (fold provide xs p) = np_allowInsecure p"
  "epoch_of (fold provide xs p) gid = epoch_of p gid + int (length (filter (\<lambda>x. group_of x = gid) xs))"
  by (induction xs arbitrary: p) (simp_all add: provider_op_step)

lemma new_provider:
  "np_allowInsecure (NewNoopMLSProvider (map WithAllowInsecure bs)) \<longleftrightarrow> bs \<noteq> [] \<and> last bs"
  "epoch_of (NewNoopMLSProvider (map WithAllowInsecure bs)) gid = 0"
  by (induction bs rule: rev_induct) (simp_all add: NewNoopMLSProvider_def WithAllowInsecure_def epoch_of_def)

text \<open>
  After any sequence of group operations a no-op provider lets plaintext through exactly when
  its last option allowed it, and then decryption gives back what was encrypted; without the
  opt-in both are refused with an MLS error. The epoch that \<open>ProcessCommit\<close> reports is the number
  of operations on its group, itself included.
\<close>

theorem plaintext_needs_opt_in:
  fixes bs :: "bool list" and xs :: "provider_op list"
  defines "p \<equiv> fold provide xs (NewNoopMLSProvider (map WithAllowInsecure bs))"
  shows "(case Encrypt_noop gid plaintext p of
            Inl e \<Rightarrow> \<not> (bs \<noteq> [] \<and> last bs) \<and> e = plaintext_refused \<and> Decrypt_noop gid c p = Inl plaintext_refused
          | Inr (ciphertext, ep) \<Rightarrow> bs \<noteq> [] \<and> last bs \<and> Decrypt_noop gid ciphertext p = Inr (plaintext, ep))
    \<and> fst (ProcessCommit_noop gid p) = int (length (filter (\<lambda>x. group_of x = gid) xs)) + 1"
proof -
  have "fst (ProcessCommit_noop gid p) = epoch_of p gid + 1"
    by (simp add: ProcessCommit_noop_def advance_epoch_def Let_def epoch_of_def split: option.splits)
  then show ?thesis
    by (simp add: p_def provider_ops new_provider Encrypt_noop_def Decrypt_noop_def)
qed

section \<open>The profile in a peer\<close>

lemma mls_methods_custom: "set Methods_mls \<inter> set builtin_methods = {}" "distinct Methods_mls"
  by (simp_all add: Methods_mls_def builtin_methods_def)

lemma dispatch_custom:
  assumes "m \<notin> set builtin_methods"
  shows "dispatchMethodInternal p ctx m params st = custom_method p ctx m params st"
  using assms unfolding builtin_methods_def list.set insert_iff empty_iff
  by (simp add: dispatchMethodInternal_def)

lemma mls_names: "flow_names (mls_Profile h) w = []" "method_names (mls_Profile h) w = Methods_mls" "resolve_names (mls_Profile h) w = []"
  by (simp_all add: flow_names_def method_names_def resolve_names_def mls_Profile_def mls_MethodHandler_def)

text \<open>
  A peer on which none of the MLS methods is taken accepts the profile, and then serves
  every one of them with the profile's handler: the parameters are decoded or refused as
  invalid without a call, and the handler's result and effect are those of the method.
\<close>

theorem mls_profile_served:
  assumes "\<forall>m \<in> set Methods_mls. methods (registry p) m = None" "method \<in> set Methods_mls"
  shows "\<exists>p'. Use (mls_Profile h) p w = (None, p', w)
    \<and> dispatchMethodInternal p' ctx method params st
        = (let (r, w') = HandleMethod_mls h ctx method params (world st) in (r, st\<lparr>world := w'\<rparr>))
    \<and> (json_parse (case params of None \<Rightarrow> [] | Some d \<Rightarrow> d) = None \<longrightarrow>
        dispatchMethodInternal p' ctx method params st = ((RNil, Some (RPCErr (NewRPCError ErrInvalidParams None))), st))"
proof -
  let ?r = "registered (mls_Profile h) w (registry p)"
  let ?p = "p\<lparr>registry := ?r\<rparr>"
  have ok: "no_conflict (mls_Profile h) w (registry p)"
    using assms(1) by (simp add: no_conflict_def mls_names free_names_def mls_methods_custom)
  have use: "Use (mls_Profile h) p w = (None, ?p, w)"
    using register_success [OF ok] by (simp add: Use_def) (simp add: mls_Profile_def)
  have "methods ?r method = Some (mls_MethodHandler h)"
    using assms(2) by (simp add: registered_def mls_names claim_def) (simp add: mls_Profile_def)
  then have disp: "dispatchMethodInternal ?p ctx method params st
      = (let (r, w') = HandleMethod_mls h ctx method params (world st) in (r, st\<lparr>world := w'\<rparr>))"
    using assms(2) mls_methods_custom(1) dispatch_custom [of "method" ?p ctx params st]
    by (auto simp: custom_method_def lookupMethod_def mls_MethodHandler_def case_prod_beta Let_def)
  have "HandleMethod_mls h ctx method params w' = ((RNil, Some (RPCErr (NewRPCError ErrInvalidParams None))), w')"
    if "json_parse (case params of None \<Rightarrow> [] | Some d \<Rightarrow> d) = None" for w'
  proof -
    have "unmarshal un z params = None" for un :: "'z decoder" and z
      using that by (simp add: unmarshal_def)
    then show ?thesis
      using assms(2) that unfolding Methods_mls_def list.set insert_iff empty_iff
      by (elim disjE FalseE) (simp_all add: HandleMethod_mls_def mls_call_def unmarshal_def)
  qed
  with use disp show ?thesis by (simp add: Let_def)
qed

theorem mls_profile_served_witness:
  "\<exists>p'. Use (mls_Profile BaseMLSHandler) example_peer empty_world = (None, p', empty_world)
    \<and> dispatchMethodInternal p' background MethodGroupJoin None example_state
        = ((RNil, Some (RPCErr (NewRPCError ErrInvalidParams None))), example_state)"
proof -
  have "\<forall>m \<in> set Methods_mls. methods (registry example_peer) m = None"
    by (simp add: example_peer_eq registered_def claim_def method_names_def example_profile_def newRegistry_def)
  moreover have "MethodGroupJoin \<in> set Methods_mls" by (simp add: Methods_mls_def)
  moreover have "json_parse [] = None" by code_simp
  ultimately show ?thesis
    using mls_profile_served [of example_peer MethodGroupJoin BaseMLSHandler empty_world background None example_state] by auto
qed

end
