(* ===== verification/Openid4x_Types.thy ===== *)
theory Openid4x_Types
  imports Wmp_Methods
begin

text \<open>
  The constants and data types of the OpenID4x profile (openid4x/openid4x.go) with their JSON
  decoding and encoding. The repository never encodes the types that hold values of type
  \<open>interface{}\<close>; they have a decoder only.
\<close>

section \<open>Constants\<close>

definition FlowTypeOID4VCI :: bytes where
  [simp]: "FlowTypeOID4VCI = ''oid4vci''"

definition FlowTypeOID4VP :: bytes where
  [simp]: "FlowTypeOID4VP = ''oid4vp''"

definition StepParsingOffer :: bytes where
  [simp]: "StepParsingOffer = ''parsing_offer''"

definition StepResolvingMetadata :: bytes where
  [simp]: "StepResolvingMetadata = ''resolving_metadata''"

definition StepMetadataFetched :: bytes where
  [simp]: "StepMetadataFetched = ''metadata_fetched''"

definition StepEvaluatingTrust :: bytes where
  [simp]: "StepEvaluatingTrust = ''evaluating_trust''"

definition StepTrustEvaluated :: bytes where
  [simp]: "StepTrustEvaluated = ''trust_evaluated''"

definition StepAwaitingOfferAcceptance :: bytes where
  [simp]: "StepAwaitingOfferAcceptance = ''awaiting_offer_acceptance''"

definition StepAwaitingTxCode :: bytes where
  [simp]: "StepAwaitingTxCode = ''awaiting_tx_code''"

definition StepAuthorizationPending :: bytes where
  [simp]: "StepAuthorizationPending = ''authorization_pending''"

definition StepGeneratingProof :: bytes where
  [simp]: "StepGeneratingProof = ''generating_proof''"

definition StepRequestingCredential :: bytes where
  [simp]: "StepRequestingCredential = ''requesting_credential''"

definition StepCredentialReceived :: bytes where
  [simp]: "StepCredentialReceived = ''credential_received''"

definition StepParsingRequest :: bytes where
  [simp]: "StepParsingRequest = ''parsing_request''"

definition StepRequestParsed :: bytes where
  [simp]: "StepRequestParsed = ''request_parsed''"

definition StepVPEvaluatingTrust :: bytes where
  [simp]: "StepVPEvaluatingTrust = ''evaluating_trust''"

definition StepVPTrustEvaluated :: bytes where
  [simp]: "StepVPTrustEvaluated = ''trust_evaluated''"

definition StepMatchingCredentials :: bytes where
  [simp]: "StepMatchingCredentials = ''matching_credentials''"

definition StepAwaitingConsent :: bytes where
  [simp]: "StepAwaitingConsent = ''awaiting_consent''"

definition StepGeneratingPresentation :: bytes where
  [simp]: "StepGeneratingPresentation = ''generating_presentation''"

definition ActionAcceptOffer :: bytes where
  [simp]: "ActionAcceptOffer = ''accept_offer''"

definition ActionProvideTxCode :: bytes where
  [simp]: "ActionProvideTxCode = ''provide_tx_code''"

definition ActionAuthorize :: bytes where
  [simp]: "ActionAuthorize = ''authorize''"

definition ActionSelectCredentials :: bytes where
  [simp]: "ActionSelectCredentials = ''select_credentials''"

definition ActionCancel :: bytes where
  [simp]: "ActionCancel = ''cancel''"

definition FormatVCSDJWT :: bytes where
  [simp]: "FormatVCSDJWT = ''vc+sd-jwt''"

definition FormatDCSDJWT :: bytes where
  [simp]: "FormatDCSDJWT = ''dc+sd-jwt''"

definition FormatMSOmDOC :: bytes where
  [simp]: "FormatMSOmDOC = ''mso_mdoc''"

definition FormatJWTVCJSON :: bytes where
  [simp]: "FormatJWTVCJSON = ''jwt_vc_json''"

definition GrantAuthorizationCode :: bytes where
  [simp]: "GrantAuthorizationCode = ''authorization_code''"

definition GrantPreAuthorizedCode :: bytes where
  [simp]: "GrantPreAuthorizedCode = ''pre-authorized_code''"

definition ResponseModeDirectPost :: bytes where
  [simp]: "ResponseModeDirectPost = ''direct_post''"

definition ResponseModeDirectPostJWT :: bytes where
  [simp]: "ResponseModeDirectPostJWT = ''direct_post.jwt''"

definition ResponseModeDCAPI :: bytes where
  [simp]: "ResponseModeDCAPI = ''dc_api''"

definition ResponseModeDCAPIJWT :: bytes where
  [simp]: "ResponseModeDCAPIJWT = ''dc_api.jwt''"

definition ProofTypeJWT :: bytes where
  [simp]: "ProofTypeJWT = ''jwt''"

definition ProofTypeAttestation :: bytes where
  [simp]: "ProofTypeAttestation = ''attestation''"

definition ProofTypeCWT :: bytes where
  [simp]: "ProofTypeCWT = ''cwt''"

section \<open>Types\<close>

record OID4VCICapability =
  vci_SupportedGrants :: "bytes list option"
  vci_SupportedFormats :: "bytes list option"
  vci_SupportedProofTypes :: "bytes list"
  vci_BatchIssuance :: "bool"

definition zero_OID4VCICapability :: OID4VCICapability where
  "zero_OID4VCICapability = \<lparr>vci_SupportedGrants = None, vci_SupportedFormats = None, vci_SupportedProofTypes = [], vci_BatchIssuance = False\<rparr>"

definition fields_OID4VCICapability :: "OID4VCICapability fields" where
  "fields_OID4VCICapability =
    [(''supported_grants'', field vci_SupportedGrants vci_SupportedGrants_update (un_slice [] un_string)),
     (''supported_formats'', field vci_SupportedFormats vci_SupportedFormats_update (un_slice [] un_string)),
     (''supported_proof_types'', field vci_SupportedProofTypes vci_SupportedProofTypes_update (un_list [] un_string)),
     (''batch_issuance'', field vci_BatchIssuance vci_BatchIssuance_update un_bool)]"

definition un_OID4VCICapability :: "OID4VCICapability decoder" where
  "un_OID4VCICapability = un_struct fields_OID4VCICapability"

definition ms_OID4VCICapability :: "OID4VCICapability \<Rightarrow> bytes option" where
  "ms_OID4VCICapability x = ms_obj (
     always ''supported_grants'' ((ms_slice ms_string) (vci_SupportedGrants x))
     @ always ''supported_formats'' ((ms_slice ms_string) (vci_SupportedFormats x))
     @ unless (vci_SupportedProofTypes x = []) ''supported_proof_types'' ((ms_list ms_string) (vci_SupportedProofTypes x))
     @ unless (\<not> vci_BatchIssuance x) ''batch_issuance'' (ms_bool (vci_BatchIssuance x)))"

record OID4VPCapability =
  vp_SupportedResponseModes :: "bytes list option"
  vp_SupportedFormats :: "bytes list option"
  vp_SupportedAlgorithms :: "bytes list"

definition zero_OID4VPCapability :: OID4VPCapability where
  "zero_OID4VPCapability = \<lparr>vp_SupportedResponseModes = None, vp_SupportedFormats = None, vp_SupportedAlgorithms = []\<rparr>"

definition fields_OID4VPCapability :: "OID4VPCapability fields" where
  "fields_OID4VPCapability =
    [(''supported_response_modes'', field vp_SupportedResponseModes vp_SupportedResponseModes_update (un_slice [] un_string)),
     (''supported_formats'', field vp_SupportedFormats vp_SupportedFormats_update (un_slice [] un_string)),
     (''supported_algorithms'', field vp_SupportedAlgorithms vp_SupportedAlgorithms_update (un_list [] un_string))]"

definition un_OID4VPCapability :: "OID4VPCapability decoder" where
  "un_OID4VPCapability = un_struct fields_OID4VPCapability"

definition ms_OID4VPCapability :: "OID4VPCapability \<Rightarrow> bytes option" where
  "ms_OID4VPCapability x = ms_obj (
     always ''supported_response_modes'' ((ms_slice ms_string) (vp_SupportedResponseModes x))
     @ always ''supported_formats'' ((ms_slice ms_string) (vp_SupportedFormats x))
     @ unless (vp_SupportedAlgorithms x = []) ''supported_algorithms'' ((ms_list ms_string) (vp_SupportedAlgorithms x)))"

record CredentialDisplay =
  cdp_Name :: "bytes"
  cdp_Locale :: "bytes"
  cdp_Description :: "bytes"
  cdp_LogoURI :: "bytes"
  cdp_LogoAltText :: "bytes"
  cdp_BackgroundColor :: "bytes"
  cdp_TextColor :: "bytes"

definition zero_CredentialDisplay :: CredentialDisplay where
  "zero_CredentialDisplay = \<lparr>cdp_Name = [], cdp_Locale = [], cdp_Description = [], cdp_LogoURI = [], cdp_LogoAltText = [], cdp_BackgroundColor = [], cdp_TextColor = []\<rparr>"

definition fields_CredentialDisplay :: "CredentialDisplay fields" where
  "fields_CredentialDisplay =
    [(''name'', field cdp_Name cdp_Name_update un_string),
     (''locale'', field cdp_Locale cdp_Locale_update un_string),
     (''description'', field cdp_Description cdp_Description_update un_string),
     (''logo_uri'', field cdp_LogoURI cdp_LogoURI_update un_string),
     (''logo_alt_text'', field cdp_LogoAltText cdp_LogoAltText_update un_string),
     (''background_color'', field cdp_BackgroundColor cdp_BackgroundColor_update un_string),
     (''text_color'', field cdp_TextColor cdp_TextColor_update un_string)]"

definition un_CredentialDisplay :: "CredentialDisplay decoder" where
  "un_CredentialDisplay = un_struct fields_CredentialDisplay"

definition ms_CredentialDisplay :: "CredentialDisplay \<Rightarrow> bytes option" where
  "ms_CredentialDisplay x = ms_obj (
     always ''name'' (ms_string (cdp_Name x))
     @ unless (cdp_Locale x = []) ''locale'' (ms_string (cdp_Locale x))
     @ unless (cdp_Description x = []) ''description'' (ms_string (cdp_Description x))
     @ unless (cdp_LogoURI x = []) ''logo_uri'' (ms_string (cdp_LogoURI x))
     @ unless (cdp_LogoAltText x = []) ''logo_alt_text'' (ms_string (cdp_LogoAltText x))
     @ unless (cdp_BackgroundColor x = []) ''background_color'' (ms_string (cdp_BackgroundColor x))
     @ unless (cdp_TextColor x = []) ''text_color'' (ms_string (cdp_TextColor x)))"

record CredentialConfigurationSupported =
  ccs_Format :: "bytes"
  ccs_Scope :: "bytes"
  ccs_VCT :: "bytes"
  ccs_Doctype :: "bytes"
  ccs_CryptographicBindingMethods :: "bytes list"
  ccs_CredentialSigningAlgValuesSupported :: "bytes list"
  ccs_ProofTypesSupported :: "(bytes, any) gomap"
  ccs_Display :: "CredentialDisplay list"

definition zero_CredentialConfigurationSupported :: CredentialConfigurationSupported where
  "zero_CredentialConfigurationSupported = \<lparr>ccs_Format = [], ccs_Scope = [], ccs_VCT = [], ccs_Doctype = [], ccs_CryptographicBindingMethods = [], ccs_CredentialSigningAlgValuesSupported = [], ccs_ProofTypesSupported = [], ccs_Display = []\<rparr>"

definition fields_CredentialConfigurationSupported :: "CredentialConfigurationSupported fields" where
  "fields_CredentialConfigurationSupported =
    [(''format'', field ccs_Format ccs_Format_update un_string),
     (''scope'', field ccs_Scope ccs_Scope_update un_string),
     (''vct'', field ccs_VCT ccs_VCT_update un_string),
     (''doctype'', field ccs_Doctype ccs_Doctype_update un_string),
     (''cryptographic_binding_methods_supported'', field ccs_CryptographicBindingMethods ccs_CryptographicBindingMethods_update (un_list [] un_string)),
     (''credential_signing_alg_values_supported'', field ccs_CredentialSigningAlgValuesSupported ccs_CredentialSigningAlgValuesSupported_update (un_list [] un_string)),
     (''proof_types_supported'', field ccs_ProofTypesSupported ccs_ProofTypesSupported_update (un_map ANull un_any)),
     (''display'', field ccs_Display ccs_Display_update (un_list zero_CredentialDisplay un_CredentialDisplay))]"

definition un_CredentialConfigurationSupported :: "CredentialConfigurationSupported decoder" where
  "un_CredentialConfigurationSupported = un_struct fields_CredentialConfigurationSupported"

record CredentialResult =
  cdr_Format :: "bytes"
  cdr_Credential :: "bytes"
  cdr_VCT :: "bytes"
  cdr_CNonce :: "bytes"
  cdr_NotificationID :: "bytes"

definition zero_CredentialResult :: CredentialResult where
  "zero_CredentialResult = \<lparr>cdr_Format = [], cdr_Credential = [], cdr_VCT = [], cdr_CNonce = [], cdr_NotificationID = []\<rparr>"

definition fields_CredentialResult :: "CredentialResult fields" where
  "fields_CredentialResult =
    [(''format'', field cdr_Format cdr_Format_update un_string),
     (''credential'', field cdr_Credential cdr_Credential_update un_string),
     (''vct'', field cdr_VCT cdr_VCT_update un_string),
     (''c_nonce'', field cdr_CNonce cdr_CNonce_update un_string),
     (''notification_id'', field cdr_NotificationID cdr_NotificationID_update un_string)]"

definition un_CredentialResult :: "CredentialResult decoder" where
  "un_CredentialResult = un_struct fields_CredentialResult"

definition ms_CredentialResult :: "CredentialResult \<Rightarrow> bytes option" where
  "ms_CredentialResult x = ms_obj (
     always ''format'' (ms_string (cdr_Format x))
     @ always ''credential'' (ms_string (cdr_Credential x))
     @ unless (cdr_VCT x = []) ''vct'' (ms_string (cdr_VCT x))
     @ unless (cdr_CNonce x = []) ''c_nonce'' (ms_string (cdr_CNonce x))
     @ unless (cdr_NotificationID x = []) ''notification_id'' (ms_string (cdr_NotificationID x)))"

record VPTokenResult =
  vpr_VPToken :: "bytes"
  vpr_PresentationSubmission :: "any"
  vpr_ResponseCode :: "bytes"

definition zero_VPTokenResult :: VPTokenResult where
  "zero_VPTokenResult = \<lparr>vpr_VPToken = [], vpr_PresentationSubmission = ANull, vpr_ResponseCode = []\<rparr>"

definition fields_VPTokenResult :: "VPTokenResult fields" where
  "fields_VPTokenResult =
    [(''vp_token'', field vpr_VPToken vpr_VPToken_update un_string),
     (''presentation_submission'', field vpr_PresentationSubmission vpr_PresentationSubmission_update un_any),
     (''response_code'', field vpr_ResponseCode vpr_ResponseCode_update un_string)]"

definition un_VPTokenResult :: "VPTokenResult decoder" where
  "un_VPTokenResult = un_struct fields_VPTokenResult"

record TransactionData =
  txd_Type :: "bytes"
  txd_Params :: "(bytes, any) gomap"
  txd_CredentialIDs :: "bytes list"
  txd_HashAlgorithm :: "bytes"
  txd_TransactionDataHashesAlg :: "bytes"

definition zero_TransactionData :: TransactionData where
  "zero_TransactionData = \<lparr>txd_Type = [], txd_Params = [], txd_CredentialIDs = [], txd_HashAlgorithm = [], txd_TransactionDataHashesAlg = []\<rparr>"

definition fields_TransactionData :: "TransactionData fields" where
  "fields_TransactionData =
    [(''type'', field txd_Type txd_Type_update un_string),
     (''params'', field txd_Params txd_Params_update (un_map ANull un_any)),
     (''credential_ids'', field txd_CredentialIDs txd_CredentialIDs_update (un_list [] un_string)),
     (''hash_alg'', field txd_HashAlgorithm txd_HashAlgorithm_update un_string),
     (''transaction_data_hashes_alg'', field txd_TransactionDataHashesAlg txd_TransactionDataHashesAlg_update un_string)]"

definition un_TransactionData :: "TransactionData decoder" where
  "un_TransactionData = un_struct fields_TransactionData"

record SignSubFlowParams =
  ssp_Action :: "bytes"
  ssp_Nonce :: "bytes"
  ssp_Audience :: "bytes"
  ssp_ProofType :: "bytes"
  ssp_ParentFlowID :: "bytes"
  ssp_TransactionData :: "TransactionData list"
  ssp_Issuer :: "bytes"
  ssp_ProofTypesSupported :: "(bytes, any) gomap"
  ssp_Count :: "int"
  ssp_ResponseURI :: "bytes"
  ssp_VerifierJWKThumbprint :: "bytes"
  ssp_ReissuanceKid :: "bytes"
  ssp_HTM :: "bytes"
  ssp_HTU :: "bytes"
  ssp_DPoPNonce :: "bytes"
  ssp_ATH :: "bytes"
  ssp_KeyID :: "bytes"

definition zero_SignSubFlowParams :: SignSubFlowParams where
  "zero_SignSubFlowParams = \<lparr>ssp_Action = [], ssp_Nonce = [], ssp_Audience = [], ssp_ProofType = [], ssp_ParentFlowID = [], ssp_TransactionData = [], ssp_Issuer = [], ssp_ProofTypesSupported = [], ssp_Count = 0, ssp_ResponseURI = [], ssp_VerifierJWKThumbprint = [], ssp_ReissuanceKid = [], ssp_HTM = [], ssp_HTU = [], ssp_DPoPNonce = [], ssp_ATH = [], ssp_KeyID = []\<rparr>"

definition fields_SignSubFlowParams :: "SignSubFlowParams fields" where
  "fields_SignSubFlowParams =
    [(''action'', field ssp_Action ssp_Action_update un_string),
     (''nonce'', field ssp_Nonce ssp_Nonce_update un_string),
     (''audience'', field ssp_Audience ssp_Audience_update un_string),
     (''proof_type'', field ssp_ProofType ssp_ProofType_update un_string),
     (''parent_flow_id'', field ssp_ParentFlowID ssp_ParentFlowID_update un_string),
     (''transaction_data'', field ssp_TransactionData ssp_TransactionData_update (un_list zero_TransactionData un_TransactionData)),
     (''issuer'', field ssp_Issuer ssp_Issuer_update un_string),
     (''proof_types_supported'', field ssp_ProofTypesSupported ssp_ProofTypesSupported_update (un_map ANull un_any)),
     (''count'', field ssp_Count ssp_Count_update un_int),
     (''response_uri'', field ssp_ResponseURI ssp_ResponseURI_update un_string),
     (''verifier_jwk_thumbprint'', field ssp_VerifierJWKThumbprint ssp_VerifierJWKThumbprint_update un_string),
     (''reissuance_kid'', field ssp_ReissuanceKid ssp_ReissuanceKid_update un_string),
     (''htm'', field ssp_HTM ssp_HTM_update un_string),
     (''htu'', field ssp_HTU ssp_HTU_update un_string),
     (''dpop_nonce'', field ssp_DPoPNonce ssp_DPoPNonce_update un_string),
     (''ath'', field ssp_ATH ssp_ATH_update un_string),
     (''key_id'', field ssp_KeyID ssp_KeyID_update un_string)]"

definition un_SignSubFlowParams :: "SignSubFlowParams decoder" where
  "un_SignSubFlowParams = un_struct fields_SignSubFlowParams"

record SelectionAction =
  sla_SelectedIndices :: "int list option"
  sla_Consent :: "bool"

definition zero_SelectionAction :: SelectionAction where
  "zero_SelectionAction = \<lparr>sla_SelectedIndices = None, sla_Consent = False\<rparr>"

definition fields_SelectionAction :: "SelectionAction fields" where
  "fields_SelectionAction =
    [(''selected_indices'', field sla_SelectedIndices sla_SelectedIndices_update (un_slice 0 un_int)),
     (''consent'', field sla_Consent sla_Consent_update un_bool)]"

definition un_SelectionAction :: "SelectionAction decoder" where
  "un_SelectionAction = un_struct fields_SelectionAction"

definition ms_SelectionAction :: "SelectionAction \<Rightarrow> bytes option" where
  "ms_SelectionAction x = ms_obj (
     always ''selected_indices'' ((ms_slice ms_int) (sla_SelectedIndices x))
     @ always ''consent'' (ms_bool (sla_Consent x)))"

record CredentialSelection =
  cse_CredentialID :: "bytes"
  cse_CredentialQueryID :: "bytes"
  cse_DisclosedClaims :: "bytes list option"

definition zero_CredentialSelection :: CredentialSelection where
  "zero_CredentialSelection = \<lparr>cse_CredentialID = [], cse_CredentialQueryID = [], cse_DisclosedClaims = None\<rparr>"

definition fields_CredentialSelection :: "CredentialSelection fields" where
  "fields_CredentialSelection =
    [(''credential_id'', field cse_CredentialID cse_CredentialID_update un_string),
     (''credential_query_id'', field cse_CredentialQueryID cse_CredentialQueryID_update un_string),
     (''disclosed_claims'', field cse_DisclosedClaims cse_DisclosedClaims_update (un_slice [] un_string))]"

definition un_CredentialSelection :: "CredentialSelection decoder" where
  "un_CredentialSelection = un_struct fields_CredentialSelection"

definition ms_CredentialSelection :: "CredentialSelection \<Rightarrow> bytes option" where
  "ms_CredentialSelection x = ms_obj (
     always ''credential_id'' (ms_string (cse_CredentialID x))
     @ unless (cse_CredentialQueryID x = []) ''credential_query_id'' (ms_string (cse_CredentialQueryID x))
     @ always ''disclosed_claims'' ((ms_slice ms_string) (cse_DisclosedClaims x)))"

record ConsentAction =
  csa_Selections :: "CredentialSelection list option"
  csa_Consent :: "bool"

definition zero_ConsentAction :: ConsentAction where
  "zero_ConsentAction = \<lparr>csa_Selections = None, csa_Consent = False\<rparr>"

definition fields_ConsentAction :: "ConsentAction fields" where
  "fields_ConsentAction =
    [(''selections'', field csa_Selections csa_Selections_update (un_slice zero_CredentialSelection un_CredentialSelection)),
     (''consent'', field csa_Consent csa_Consent_update un_bool)]"

definition un_ConsentAction :: "ConsentAction decoder" where
  "un_ConsentAction = un_struct fields_ConsentAction"

definition ms_ConsentAction :: "ConsentAction \<Rightarrow> bytes option" where
  "ms_ConsentAction x = ms_obj (
     always ''selections'' ((ms_slice ms_CredentialSelection) (csa_Selections x))
     @ always ''consent'' (ms_bool (csa_Consent x)))"

end
