(* ===== verification/Openid4x_Profile.thy ===== *)
theory Openid4x_Profile
  imports Openid4x_Types Peer
begin

text \<open>
  The OpenID4x profile (openid4x/openid4x.go). The application's callbacks are optional functions
  on the world; the profile's own state, the map \<open>flowTypes\<close>, is kept beside it, so the profile is
  a flow handler on pairs. \<open>p.peer\<close>, which callbacks are given, is part of the world they run in.
\<close>

definition AllFormats :: "bytes list" where
  "AllFormats = [FormatVCSDJWT, FormatDCSDJWT, FormatMSOmDOC, FormatJWTVCJSON]"

definition IsValidFormat :: "bytes \<Rightarrow> bool" where
  "IsValidFormat format =
     (if format = FormatVCSDJWT \<or> format = FormatDCSDJWT \<or> format = FormatMSOmDOC \<or> format = FormatJWTVCJSON then True
      else False)"

section \<open>Configuration\<close>

type_synonym 'w FlowStartHandler = "Context \<Rightarrow> FlowStartParams \<Rightarrow> 'w \<Rightarrow> FlowStartResult goret \<times> 'w"
type_synonym 'w ActionHandler = "Context \<Rightarrow> FlowActionParams \<Rightarrow> 'w \<Rightarrow> FlowActionResult goret \<times> 'w"

record 'w Config_oid =
  oc_OID4VCI :: "OID4VCICapability option"
  oc_OID4VP :: "OID4VPCapability option"
  oc_OnVCIStart :: "'w FlowStartHandler option"
  oc_OnVCIAction :: "'w ActionHandler option"
  oc_OnVPStart :: "'w FlowStartHandler option"
  oc_OnVPAction :: "'w ActionHandler option"

record 'w oid_state =
  flowTypes :: "bytes \<rightharpoonup> bytes"
  app :: 'w

definition New_oid :: "'w \<Rightarrow> 'w oid_state" where
  "New_oid w = \<lparr>flowTypes = Map.empty, app = w\<rparr>"

definition Capabilities_oid :: "'w Config_oid \<Rightarrow> bytes list" where
  "Capabilities_oid c =
     (if oc_OID4VCI c \<noteq> None then [''oid4vci''] else []) @ (if oc_OID4VP c \<noteq> None then [''oid4vp''] else [])"

definition FlowTypes_oid :: "'w Config_oid \<Rightarrow> bytes list" where
  "FlowTypes_oid c =
     (if oc_OID4VCI c \<noteq> None then [FlowTypeOID4VCI] else []) @ (if oc_OID4VP c \<noteq> None then [FlowTypeOID4VP] else [])"

section \<open>Validation\<close>

definition has :: "(bytes, any) gomap \<Rightarrow> bytes \<Rightarrow> bool" where
  "has params k \<longleftrightarrow> gm_get params k \<noteq> None"

definition oid_error :: "int \<Rightarrow> bytes \<Rightarrow> go_error" where
  "oid_error code reason = RPCErr (NewRPCError code (reason_data reason))"

definition validateVCIStartParams :: "(bytes, any) gomap \<Rightarrow> go_error option" where
  "validateVCIStartParams params =
     (if has params ''auth_code'' then None
      else if \<not> has params ''credential_offer'' \<and> \<not> has params ''credential_offer_uri'' \<and> \<not> has params ''offer'' then
        Some (oid_error ErrInvalidParams ''OID4VCI flow requires credential_offer, credential_offer_uri, or offer'')
      else None)"

definition validateVPStartParams :: "(bytes, any) gomap \<Rightarrow> go_error option" where
  "validateVPStartParams params =
     (if \<not> has params ''request_uri'' \<and> \<not> has params ''request_uri_ref'' \<and> \<not> has params ''presentation_definition''
         \<and> \<not> has params ''dcql_query'' then
        Some (oid_error ErrInvalidParams
          ''OID4VP flow requires request_uri, request_uri_ref, presentation_definition, or dcql_query'')
      else None)"

definition validateFlowStartParams :: "bytes \<Rightarrow> bytes \<Rightarrow> go_error option" where
  "validateFlowStartParams flowType rawParams =
     (case unmarshal (un_map ANull un_any) [] (Some rawParams) of
        None \<Rightarrow> Some (oid_error ErrInvalidParams ''invalid flow params JSON'')
      | Some params \<Rightarrow>
          if flowType = FlowTypeOID4VCI then validateVCIStartParams params
          else if flowType = FlowTypeOID4VP then validateVPStartParams params
          else Some (oid_error ErrFlowError (''unknown flow type: '' @ flowType)))"

definition ValidateAction :: "bytes \<Rightarrow> bytes \<Rightarrow> go_error option" where
  "ValidateAction flowType action =
     (if flowType = FlowTypeOID4VCI
         \<and> (action = ActionAcceptOffer \<or> action = ActionProvideTxCode \<or> action = ActionAuthorize \<or> action = ActionCancel) then None
      else if flowType = FlowTypeOID4VP \<and> (action = ActionSelectCredentials \<or> action = ActionCancel) then None
      else if action \<in> set [''sign_response'', ''match_response'', ''trust_result'', ''consent'', ''select_credential'',
                ''authorization_complete'', ''provide_pin'', ''credentials_matched'', ''decline''] then None
      else Some (oid_error ErrInvalidParams (''unknown action for flow type '' @ flowType @ '': '' @ action)))"

section \<open>Flows\<close>

definition set_flowType :: "bytes \<Rightarrow> bytes \<Rightarrow> 'w oid_state \<Rightarrow> 'w oid_state" where
  "set_flowType fid t s = s\<lparr>flowTypes := (flowTypes s)(fid \<mapsto> t)\<rparr>"

definition drop_flowType :: "bytes \<Rightarrow> 'w oid_state \<Rightarrow> 'w oid_state" where
  "drop_flowType fid s = s\<lparr>flowTypes := (flowTypes s)(fid := None)\<rparr>"

text \<open>The two cases of \<open>StartFlow\<close>: record the type, then call the callback or answer by default.\<close>

definition start_typed :: "bytes \<Rightarrow> 'w FlowStartHandler option \<Rightarrow> Context \<Rightarrow> FlowStartParams \<Rightarrow> 'w oid_state
    \<Rightarrow> FlowStartResult goret \<times> 'w oid_state" where
  "start_typed t cb ctx params s =
     (case cb of
        Some f \<Rightarrow>
          (let s1 = set_flowType (fsp_FlowID params) t s; (r, w) = f ctx params (app s1) in (r, s1\<lparr>app := w\<rparr>))
      | None \<Rightarrow>
          ((Some \<lparr>fsr_WMP = fsp_WMP params, fsr_FlowID = fsp_FlowID params, fsr_FlowType = fsp_FlowType params\<rparr>, None),
           set_flowType (fsp_FlowID params) t s))"

definition StartFlow_oid :: "'w Config_oid \<Rightarrow> Context \<Rightarrow> FlowStartParams \<Rightarrow> 'w oid_state
    \<Rightarrow> FlowStartResult goret \<times> 'w oid_state" where
  "StartFlow_oid c ctx params s =
     (case (case fsp_Params params of None \<Rightarrow> None | Some raw \<Rightarrow> validateFlowStartParams (fsp_FlowType params) raw) of
        Some e \<Rightarrow> ((None, Some e), s)
      | None \<Rightarrow>
          if fsp_FlowType params = FlowTypeOID4VCI then start_typed FlowTypeOID4VCI (oc_OnVCIStart c) ctx params s
          else if fsp_FlowType params = FlowTypeOID4VP then start_typed FlowTypeOID4VP (oc_OnVPStart c) ctx params s
          else ((None, Some (RPCErr (NewRPCError ErrFlowError None))), s))"

definition call_app :: "'w ActionHandler \<Rightarrow> Context \<Rightarrow> FlowActionParams \<Rightarrow> 'w oid_state \<Rightarrow> FlowActionResult goret \<times> 'w oid_state" where
  "call_app f ctx params s = (let (r, w) = f ctx params (app s) in (r, s\<lparr>app := w\<rparr>))"

definition default_action :: "FlowActionParams \<Rightarrow> FlowActionResult" where
  "default_action params =
     \<lparr>far_WMP = fap_WMP params, far_FlowID = fap_FlowID params, far_Action = fap_Action params, far_Status = ''accepted''\<rparr>"

text \<open>A key that is missing in \<open>flowTypes\<close> reads as the empty string, which is no flow type.\<close>

definition HandleAction_oid :: "'w Config_oid \<Rightarrow> Context \<Rightarrow> FlowActionParams \<Rightarrow> 'w oid_state
    \<Rightarrow> FlowActionResult goret \<times> 'w oid_state" where
  "HandleAction_oid c ctx params s =
     (let flowType = (case flowTypes s (fap_FlowID params) of None \<Rightarrow> [] | Some t \<Rightarrow> t);
          handler = (if flowType = FlowTypeOID4VCI then oc_OnVCIAction c
                     else if flowType = FlowTypeOID4VP then oc_OnVPAction c else None)
      in (case handler of
            Some f \<Rightarrow> call_app f ctx params s
          | None \<Rightarrow> ((Some (default_action params), None), s)))"

definition HandleComplete_oid :: "Context \<Rightarrow> FlowCompleteParams \<Rightarrow> 'w oid_state \<Rightarrow> 'w oid_state" where
  "HandleComplete_oid ctx params s = drop_flowType (fcp_FlowID params) s"

definition HandleError_oid :: "Context \<Rightarrow> FlowErrorParams \<Rightarrow> 'w oid_state \<Rightarrow> 'w oid_state" where
  "HandleError_oid ctx params s = drop_flowType (fep_FlowID params) s"

definition ResolveTypes_oid :: "bytes list" where
  "ResolveTypes_oid = [''vctm'', ''issuer_metadata'']"

definition HandleResolve_oid :: "ResolveResult goret" where
  "HandleResolve_oid = (None, Some (RPCErr (NewRPCError ErrCapabilityNotSupported (Some (ms_string ''not implemented'')))))"

section \<open>The profile\<close>

definition oid_FlowHandler :: "'w Config_oid \<Rightarrow> 'w oid_state FlowHandler" where
  "oid_FlowHandler c =
     \<lparr>fh_FlowTypes = (\<lambda>_. FlowTypes_oid c), fh_StartFlow = StartFlow_oid c, fh_HandleAction = HandleAction_oid c,
      fh_HandleProgress = (\<lambda>_ _ s. s), fh_HandleComplete = HandleComplete_oid, fh_HandleError = HandleError_oid\<rparr>"

definition oid_Profile :: "'w Config_oid \<Rightarrow> 'w oid_state Profile" where
  "oid_Profile c =
     \<lparr>pf_Name = ''openid4x'', pf_Capabilities = Capabilities_oid c, pf_Init = (\<lambda>s. (None, s)),
      pf_FlowHandler = Some (oid_FlowHandler c), pf_MethodHandler = None,
      pf_ResolveHandler = Some \<lparr>rh_ResolveTypes = (\<lambda>_. ResolveTypes_oid), rh_HandleResolve = (\<lambda>_ _ s. (HandleResolve_oid, s))\<rparr>,
      pf_SessionHook = None, pf_IdentifierResolver = None\<rparr>"

end
