(* ===== verification/Openid4x_Props.thy ===== *)
theory Openid4x_Props
  imports Openid4x_Profile Peer_Props
begin

text \<open>
  Properties of the OpenID4x profile inside a peer: which starts are accepted, which callback an
  action reaches, and what a failed start leaves behind.
\<close>

section \<open>Validation\<close>

lemma IsValidFormat_iff: "IsValidFormat f \<longleftrightarrow> f \<in> set AllFormats"
  by (simp add: IsValidFormat_def AllFormats_def)

definition start_keys :: "bytes \<Rightarrow> bytes list" where
  "start_keys t =
     (if t = FlowTypeOID4VCI then [''auth_code'', ''credential_offer'', ''credential_offer_uri'', ''offer'']
      else if t = FlowTypeOID4VP then [''request_uri'', ''request_uri_ref'', ''presentation_definition'', ''dcql_query'']
      else [])"

text \<open>A start is admitted without parameters, or with an object that has one of the keys of its type.\<close>

definition admitted :: "FlowStartParams \<Rightarrow> bool" where
  "admitted ps \<longleftrightarrow>
     (case fsp_Params ps of
        None \<Rightarrow> True
      | Some raw \<Rightarrow>
          (case unmarshal (un_map ANull un_any) [] (Some raw) of
             None \<Rightarrow> False
           | Some m \<Rightarrow> (\<exists>k \<in> set (start_keys (fsp_FlowType ps)). gm_get m k \<noteq> None)))"

lemma validate_None_iff:
  "validateFlowStartParams t raw = None \<longleftrightarrow>
     (\<exists>m. unmarshal (un_map ANull un_any) [] (Some raw) = Some m \<and> (\<exists>k \<in> set (start_keys t). gm_get m k \<noteq> None))"
  by (auto simp: validateFlowStartParams_def validateVCIStartParams_def validateVPStartParams_def has_def start_keys_def
      split: option.splits if_splits)

lemma admitted_iff:
  "admitted ps \<longleftrightarrow> (case fsp_Params ps of None \<Rightarrow> True | Some raw \<Rightarrow> validateFlowStartParams (fsp_FlowType ps) raw = None)"
  by (auto simp: admitted_def validate_None_iff split: option.splits)

lemma validate_code:
  "validateFlowStartParams t raw = Some e \<Longrightarrow> t \<in> {FlowTypeOID4VCI, FlowTypeOID4VP} \<Longrightarrow>
     \<exists>reason. e = RPCErr (NewRPCError ErrInvalidParams (reason_data reason))"
  by (auto simp: validateFlowStartParams_def validateVCIStartParams_def validateVPStartParams_def oid_error_def
      split: option.splits if_splits)

lemma FlowTypes_known: "t \<in> set (FlowTypes_oid c) \<Longrightarrow> t = FlowTypeOID4VCI \<or> t = FlowTypeOID4VP"
  by (auto simp: FlowTypes_oid_def split: if_splits)

definition start_callback :: "'w Config_oid \<Rightarrow> bytes \<Rightarrow> 'w FlowStartHandler option" where
  "start_callback c t = (if t = FlowTypeOID4VCI then oc_OnVCIStart c else oc_OnVPStart c)"

definition action_callback :: "'w Config_oid \<Rightarrow> bytes \<Rightarrow> 'w ActionHandler option" where
  "action_callback c t = (if t = FlowTypeOID4VCI then oc_OnVCIAction c else oc_OnVPAction c)"

lemma StartFlow_admitted:
  assumes "fsp_FlowType ps \<in> set (FlowTypes_oid c)" "admitted ps"
  shows "StartFlow_oid c ctx ps s = start_typed (fsp_FlowType ps) (start_callback c (fsp_FlowType ps)) ctx ps s"
  using FlowTypes_known [OF assms(1)] assms(2)
  by (auto simp: StartFlow_oid_def admitted_iff start_callback_def split: option.splits)

lemma StartFlow_refused:
  assumes "fsp_FlowType ps \<in> set (FlowTypes_oid c)" "\<not> admitted ps"
  shows "\<exists>reason. StartFlow_oid c ctx ps s = ((None, Some (RPCErr (NewRPCError ErrInvalidParams (reason_data reason)))), s)"
proof -
  obtain raw e where raw: "fsp_Params ps = Some raw" "validateFlowStartParams (fsp_FlowType ps) raw = Some e"
    using assms(2) by (auto simp: admitted_iff split: option.splits)
  with FlowTypes_known [OF assms(1)] validate_code [OF raw(2)] show ?thesis
    by (auto simp: StartFlow_oid_def)
qed

lemma HandleAction_typed:
  assumes "flowTypes s (fap_FlowID ps) = Some t" "t \<in> set (FlowTypes_oid c)"
  shows "HandleAction_oid c ctx ps s =
    (case action_callback c t of Some f \<Rightarrow> call_app f ctx ps s | None \<Rightarrow> ((Some (default_action ps), None), s))"
  using FlowTypes_known [OF assms(2)] assms(1) by (auto simp: HandleAction_oid_def action_callback_def)

section \<open>The profile in a peer\<close>

lemma oid_handler_ops [simp]:
  "fh_StartFlow (oid_FlowHandler c) = StartFlow_oid c" "fh_HandleAction (oid_FlowHandler c) = HandleAction_oid c"
  "fh_HandleProgress (oid_FlowHandler c) ctx ps s = s" "fh_HandleComplete (oid_FlowHandler c) = HandleComplete_oid"
  "fh_HandleError (oid_FlowHandler c) = HandleError_oid" "fh_FlowTypes (oid_FlowHandler c) w = FlowTypes_oid c"
  by (simp_all add: oid_FlowHandler_def)

lemma oid_names:
  "flow_names (oid_Profile c) w = FlowTypes_oid c" "method_names (oid_Profile c) w = []" "resolve_names (oid_Profile c) w = ResolveTypes_oid"
  by (simp_all add: flow_names_def method_names_def resolve_names_def oid_Profile_def)

lemma oid_distinct: "distinct (FlowTypes_oid c)" "distinct ResolveTypes_oid"
  by (simp_all add: FlowTypes_oid_def ResolveTypes_oid_def)

lemma oid_use:
  assumes "\<forall>t \<in> set (FlowTypes_oid c). flowHandlers (registry p) t = None" "\<forall>t \<in> set ResolveTypes_oid. resolvers (registry p) t = None"
  shows "Use (oid_Profile c) p s = (None, p\<lparr>registry := registered (oid_Profile c) s (registry p)\<rparr>, s)"
    and "t \<in> set (FlowTypes_oid c) \<Longrightarrow>
      flowHandlers (registry (fst (snd (Use (oid_Profile c) p s)))) t = Some (oid_FlowHandler c)"
    and "t \<notin> set (FlowTypes_oid c) \<Longrightarrow>
      flowHandlers (registry (fst (snd (Use (oid_Profile c) p s)))) t = flowHandlers (registry p) t"
proof -
  have "no_conflict (oid_Profile c) s (registry p)"
    using assms by (simp add: no_conflict_def oid_names free_names_def oid_distinct)
  then show use: "Use (oid_Profile c) p s = (None, p\<lparr>registry := registered (oid_Profile c) s (registry p)\<rparr>, s)"
    by (simp add: Use_def register_success) (simp add: oid_Profile_def)
  show "t \<in> set (FlowTypes_oid c) \<Longrightarrow>
      flowHandlers (registry (fst (snd (Use (oid_Profile c) p s)))) t = Some (oid_FlowHandler c)"
    by (simp add: use registered_def oid_names claim_def) (simp add: oid_Profile_def)
  show "t \<notin> set (FlowTypes_oid c) \<Longrightarrow>
      flowHandlers (registry (fst (snd (Use (oid_Profile c) p s)))) t = flowHandlers (registry p) t"
    by (simp add: use registered_def oid_names claim_def)
qed

text \<open>A peer that uses the profile and no other flow profile.\<close>

definition oid_peer :: "'w Config_oid \<Rightarrow> 'w oid_state Peer \<Rightarrow> bool" where
  "oid_peer c p \<longleftrightarrow>
     (\<forall>t. flowHandlers (registry p) t = (if t \<in> set (FlowTypes_oid c) then Some (oid_FlowHandler c) else None))"

lemma oid_peer_Use:
  assumes "registry p = newRegistry" shows "oid_peer c (fst (snd (Use (oid_Profile c) p s)))"
  using oid_use(2,3) [of c p _ s] assms by (simp add: oid_peer_def newRegistry_def)

datatype flow_request =
    FStart FlowStartParams
  | FProgress FlowProgressParams
  | FAction FlowActionParams
  | FComplete FlowCompleteParams
  | FError FlowErrorParams
  | FCancel FlowCancelParams

fun serve_flow :: "'w Peer \<Rightarrow> Context \<Rightarrow> flow_request \<Rightarrow> 'w dstate \<Rightarrow> 'w dstate" where
  "serve_flow p ctx (FStart ps) st = snd (flow_start p ctx ps st)"
| "serve_flow p ctx (FProgress ps) st = snd (flow_progress p ctx ps st)"
| "serve_flow p ctx (FAction ps) st = snd (flow_action p ctx ps st)"
| "serve_flow p ctx (FComplete ps) st = snd (flow_complete p ctx ps st)"
| "serve_flow p ctx (FError ps) st = snd (flow_error p ctx ps st)"
| "serve_flow p ctx (FCancel ps) st = snd (flow_cancel p ctx ps st)"

text \<open>\<open>flowTypes\<close> is not exported: no code of the application changes it.\<close>

definition keeps_types :: "'w oid_state Handler \<Rightarrow> bool" where
  "keeps_types h \<longleftrightarrow>
     (\<forall>ctx ps s. flowTypes (snd (h_FlowStart h ctx ps s)) = flowTypes s) \<and>
     (\<forall>ctx ps s. flowTypes (h_FlowProgress h ctx ps s) = flowTypes s) \<and>
     (\<forall>ctx ps s. flowTypes (snd (h_FlowAction h ctx ps s)) = flowTypes s) \<and>
     (\<forall>ctx ps s. flowTypes (h_FlowComplete h ctx ps s) = flowTypes s) \<and>
     (\<forall>ctx ps s. flowTypes (h_FlowError h ctx ps s) = flowTypes s) \<and>
     (\<forall>ctx ps s. flowTypes (snd (h_FlowCancel h ctx ps s)) = flowTypes s)"

text \<open>The type of the last admitted start of a flow.\<close>

fun last_start :: "'w Config_oid \<Rightarrow> flow_request list \<Rightarrow> bytes \<Rightarrow> bytes option" where
  "last_start c [] fid = None"
| "last_start c (req # older) fid =
     (case req of
        FStart ps \<Rightarrow>
          if fsp_FlowID ps = fid \<and> fsp_FlowType ps \<in> set (FlowTypes_oid c) \<and> admitted ps then Some (fsp_FlowType ps)
          else last_start c older fid
      | _ \<Rightarrow> last_start c older fid)"

lemma last_start_known: "last_start c reqs fid = Some t \<Longrightarrow> t \<in> set (FlowTypes_oid c)"
  by (induction reqs) (auto split: flow_request.splits if_splits)

definition oid_inv :: "'w Config_oid \<Rightarrow> flow_request list \<Rightarrow> 'w oid_state dstate \<Rightarrow> bool" where
  "oid_inv c older st \<longleftrightarrow>
     (\<forall>fid t. flowTypes (world st) fid = Some t \<longrightarrow> last_start c older fid = Some t)
     \<and> (\<forall>fid fh. flowOwners st fid = Some fh \<longrightarrow> fh = oid_FlowHandler c \<and> flowTypes (world st) fid \<noteq> None)"

lemma start_typed_types:
  "flowTypes (snd (start_typed t cb ctx ps s)) = (flowTypes s)(fsp_FlowID ps \<mapsto> t)"
  by (simp add: start_typed_def set_flowType_def Let_def case_prod_beta split: option.splits)

lemma flow_start_oid:
  assumes "oid_peer c p" "fsp_FlowType ps \<in> set (FlowTypes_oid c)"
  shows "flow_start p ctx ps st =
      (let ((res, e), w) = StartFlow_oid c ctx ps (world st); st1 = st\<lparr>world := w\<rparr>;
           st2 = (if e = None \<and> res \<noteq> None then trackFlow (fsp_FlowID ps) (oid_FlowHandler c) st1 else st1)
       in ((RFlowStart res, e), st2))"
  using assms by (simp add: flow_start_def lookupFlowHandler_def oid_peer_def)

lemma oid_inv_start:
  assumes p: "oid_peer c p" and h: "keeps_types (handler p)" and inv: "oid_inv c older st"
  shows "oid_inv c (FStart ps # older) (snd (flow_start p ctx ps st))"
proof (cases "fsp_FlowType ps \<in> set (FlowTypes_oid c)")
  case False
  then have "flow_start p ctx ps st = ret_call RFlowStart (h_FlowStart (handler p) ctx ps) st"
    using p by (simp add: flow_start_def lookupFlowHandler_def oid_peer_def)
  with False h inv show ?thesis
    by (simp add: oid_inv_def ret_call_def Let_def case_prod_beta keeps_types_def)
next
  case True
  note fs = flow_start_oid [OF p this]
  show ?thesis
  proof (cases "admitted ps")
    case True2: True
    obtain res e w where r: "StartFlow_oid c ctx ps (world st) = ((res, e), w)" by (metis prod.exhaust)
    have "flowTypes w = (flowTypes (world st))(fsp_FlowID ps \<mapsto> fsp_FlowType ps)"
      using StartFlow_admitted [OF True True2] start_typed_types r by (metis snd_conv)
    with inv True True2 show ?thesis by (auto simp: fs r oid_inv_def trackFlow_def Let_def)
  next
    case False
    obtain reason where "StartFlow_oid c ctx ps (world st) = ((None, Some (RPCErr (NewRPCError ErrInvalidParams (reason_data reason)))), world st)"
      using StartFlow_refused [OF True False] by blast
    with inv False show ?thesis by (simp add: fs oid_inv_def)
  qed
qed

lemma call_app_types [simp]: "flowTypes (snd (call_app f ctx ps s)) = flowTypes s"
  by (simp add: call_app_def case_prod_beta Let_def)

lemma HandleAction_types [simp]: "flowTypes (snd (HandleAction_oid c ctx ps s)) = flowTypes s"
  by (auto simp: HandleAction_oid_def Let_def split: option.splits)

lemma keeps_typesD:
  assumes "keeps_types h"
  shows "flowTypes (snd (h_FlowStart h ctx ps1 s)) = flowTypes s" "flowTypes (h_FlowProgress h ctx ps2 s) = flowTypes s"
    "flowTypes (snd (h_FlowAction h ctx ps3 s)) = flowTypes s" "flowTypes (h_FlowComplete h ctx ps4 s) = flowTypes s"
    "flowTypes (h_FlowError h ctx ps5 s) = flowTypes s" "flowTypes (snd (h_FlowCancel h ctx ps6 s)) = flowTypes s"
  using assms by (simp_all add: keeps_types_def)

text \<open>What a request other than a start does to owners and types: nothing, or it drops one flow.\<close>

lemma oid_inv_less:
  assumes "oid_inv c older st" "flowOwners st' \<subseteq>\<^sub>m flowOwners st"
    "\<And>fid. flowTypes (world st') fid = flowTypes (world st) fid \<or> flowTypes (world st') fid = None \<and> flowOwners st' fid = None"
  shows "oid_inv c older st'"
  using assms unfolding oid_inv_def map_le_def by (metis domI option.distinct(1))

lemma oid_inv_step:
  assumes p: "oid_peer c p" and h: "keeps_types (handler p)" and inv: "oid_inv c older st"
  shows "oid_inv c (req # older) (serve_flow p ctx req st)"
proof -
  note op = serve_flow.simps flow_progress_def flow_action_def flow_complete_def flow_error_def flow_cancel_def flow_owner_defs
    notify_call_def ret_call_def Let_def case_prod_beta HandleComplete_oid_def HandleError_oid_def drop_flowType_def
  have own: "flowOwners st fid = None \<or> flowOwners st fid = Some (oid_FlowHandler c)" for fid
    using inv by (cases "flowOwners st fid") (auto simp: oid_inv_def)
  have less: "oid_inv c older (serve_flow p ctx req st)" if "\<forall>ps. req \<noteq> FStart ps"
  proof (rule oid_inv_less [OF inv])
    show "flowOwners (serve_flow p ctx req st) \<subseteq>\<^sub>m flowOwners st"
      using that by (cases req) (auto simp: op map_le_def split: option.splits)
    show "flowTypes (world (serve_flow p ctx req st)) fid = flowTypes (world st) fid
        \<or> flowTypes (world (serve_flow p ctx req st)) fid = None \<and> flowOwners (serve_flow p ctx req st) fid = None" for fid
    proof (cases req)
      case (FProgress ps)
      with own [of "fpp_FlowID ps"] show ?thesis by (auto simp: op keeps_typesD [OF h])
    next
      case (FAction ps)
      with own [of "fap_FlowID ps"] show ?thesis by (auto simp: op keeps_typesD [OF h])
    next
      case (FComplete ps)
      with own [of "fcp_FlowID ps"] show ?thesis by (auto simp: op keeps_typesD [OF h])
    next
      case (FError ps)
      with own [of "fep_FlowID ps"] show ?thesis by (auto simp: op keeps_typesD [OF h])
    next
      case (FCancel ps)
      with own [of "fxp_FlowID ps"] show ?thesis by (auto simp: op keeps_typesD [OF h])
    qed (use that in simp)
  qed
  show ?thesis
  proof (cases req)
    case (FStart ps)
    then show ?thesis using oid_inv_start [OF assms] by simp
  qed (use less in \<open>simp_all add: oid_inv_def\<close>)
qed

lemma oid_inv_run:
  assumes "oid_peer c p" "keeps_types (handler p)" "oid_inv c older st"
  shows "oid_inv c (rev reqs @ older) (fold (serve_flow p ctx) reqs st)"
  using assms(3) by (induction reqs arbitrary: st older) (simp_all, metis append.assoc append_Cons append_Nil assms(1,2) oid_inv_step)

lemma oid_inv_new: "oid_inv c [] \<lparr>flowOwners = Map.empty, world = New_oid w\<rparr>"
  by (simp add: oid_inv_def New_oid_def)

section \<open>Properties\<close>

text \<open>
  C37: In a peer that uses the profile, a start of one of its flow types is refused with
  \<open>invalid params\<close>, without calling the application, recording the flow or changing anything, exactly
  when it carries parameters that are not an object with one of the keys its type requires;
  otherwise its type is recorded, the start callback of that type decides, and the peer routes
  the flow to the profile exactly when the callback returned a result without an error.
\<close>

theorem oid_start_exact:
  assumes "oid_peer c p" "fsp_FlowType ps \<in> set (FlowTypes_oid c)"
  shows "(\<not> admitted ps \<longrightarrow> (\<exists>reason. flow_start p ctx ps st
            = ((RFlowStart None, Some (RPCErr (NewRPCError ErrInvalidParams (reason_data reason)))), st)))
    \<and> (admitted ps \<longrightarrow>
        (let ((res, e), w) = (case start_callback c (fsp_FlowType ps) of
                Some f \<Rightarrow> f ctx ps (app (world st))
              | None \<Rightarrow> ((Some \<lparr>fsr_WMP = fsp_WMP ps, fsr_FlowID = fsp_FlowID ps, fsr_FlowType = fsp_FlowType ps\<rparr>, None), app (world st)))
         in fst (flow_start p ctx ps st) = (RFlowStart res, e)
            \<and> world (snd (flow_start p ctx ps st))
                = \<lparr>flowTypes = (flowTypes (world st))(fsp_FlowID ps \<mapsto> fsp_FlowType ps), app = w\<rparr>
            \<and> flowOwners (snd (flow_start p ctx ps st))
                = (if e = None \<and> res \<noteq> None then (flowOwners st)(fsp_FlowID ps \<mapsto> oid_FlowHandler c) else flowOwners st)))"
proof -
  note fs = flow_start_oid [OF assms]
  show ?thesis
  proof (cases "admitted ps")
    case True
    show ?thesis
      by (simp add: True fs StartFlow_admitted [OF assms(2) True] start_typed_def set_flowType_def trackFlow_def Let_def
          case_prod_beta oid_state.defs split: option.splits) auto
  next
    case False
    then show ?thesis using StartFlow_refused [OF assms(2) False, of ctx "world st"] by (auto simp: fs)
  qed
qed

definition example_config :: "unit Config_oid" where
  "example_config =
     \<lparr>oc_OID4VCI = Some zero_OID4VCICapability, oc_OID4VP = Some zero_OID4VPCapability, oc_OnVCIStart = None,
      oc_OnVCIAction = None, oc_OnVPStart = Some (\<lambda>_ _ w. ((None, Some (GoErr ''no'')), w)), oc_OnVPAction = None\<rparr>"

definition oid_example_peer :: "unit oid_state Peer" where
  "oid_example_peer = fst (snd (Use (oid_Profile example_config)
     \<lparr>transport = \<lparr>t_WriteMessage = (\<lambda>_ _ w. (None, w)), t_Close = (\<lambda>w. (None, w))\<rparr>, handler = BaseHandler,
       registry = newRegistry, sessionStore = None, maxMessageSize = 0, validator = None, authorizer = None\<rparr> (New_oid ())))"

definition vci_start :: FlowStartParams where
  "vci_start = zero_FlowStartParams\<lparr>fsp_FlowID := ''f'', fsp_FlowType := ''oid4vci''\<rparr>"

definition vp_start :: FlowStartParams where
  "vp_start = zero_FlowStartParams\<lparr>fsp_FlowID := ''f'', fsp_FlowType := ''oid4vp''\<rparr>"

definition oid_fresh :: "unit oid_state dstate" where
  "oid_fresh = \<lparr>flowOwners = Map.empty, world = New_oid ()\<rparr>"

lemma oid_example_ok: "oid_peer example_config oid_example_peer" "handler oid_example_peer = BaseHandler"
  unfolding oid_example_peer_def by (rule oid_peer_Use, simp) (subst oid_use(1); simp add: newRegistry_def)

lemma BaseHandler_keeps: "keeps_types BaseHandler"
  by (simp add: keeps_types_def BaseHandler_def not_found_def)

lemma example_types: "set (FlowTypes_oid example_config) = {''oid4vci'', ''oid4vp''}"
  by (auto simp: FlowTypes_oid_def example_config_def)

lemma example_parts [simp]:
  "start_callback example_config ''oid4vci'' = None" "action_callback example_config t = None"
  "start_callback example_config ''oid4vp'' = Some (\<lambda>_ _ w. ((None, Some (GoErr ''no'')), w))"
  "fsp_FlowID vci_start = ''f''" "fsp_FlowType vci_start = ''oid4vci''" "fsp_FlowID vp_start = ''f''" "fsp_FlowType vp_start = ''oid4vp''"
  by (simp_all add: start_callback_def action_callback_def example_config_def vci_start_def vp_start_def)

lemma example_admitted: "admitted vci_start" "admitted vp_start"
  by (simp_all add: admitted_def vci_start_def vp_start_def zero_FlowStartParams_def)

theorem oid_start_exact_witness:
  "flowOwners (snd (flow_start oid_example_peer background vci_start oid_fresh)) ''f'' = Some (oid_FlowHandler example_config)"
proof -
  have "fsp_FlowType vci_start \<in> set (FlowTypes_oid example_config)" by (simp add: example_types)
  from oid_start_exact [OF oid_example_ok(1) this, of background oid_fresh] example_admitted(1)
  show ?thesis by simp
qed

text \<open>
  C22: However starts, progress, actions, completions, errors and cancellations are mixed, a flow
  that the peer routes to the profile has an admitted start, and an action on it goes to the
  action callback of the type of the last admitted start of that identifier (or is accepted by
  default when that callback is not configured).
\<close>

theorem oid_actions_follow_type:
  assumes "oid_peer c p" "keeps_types (handler p)"
    "st = fold (serve_flow p ctx) reqs \<lparr>flowOwners = Map.empty, world = New_oid w\<rparr>"
    "flowOwners st (fap_FlowID ps) \<noteq> None"
  shows "\<exists>t \<in> set (FlowTypes_oid c). last_start c (rev reqs) (fap_FlowID ps) = Some t
    \<and> flow_action p ctx ps st =
        (case action_callback c t of
           Some f \<Rightarrow> ret_call RFlowAction (call_app f ctx ps) st
         | None \<Rightarrow> ((RFlowAction (Some (default_action ps)), None), st))"
proof -
  have inv: "oid_inv c (rev reqs) st"
    using oid_inv_run [OF assms(1,2) oid_inv_new, of reqs ctx w] by (simp add: assms(3))
  have own: "flowOwners st (fap_FlowID ps) = Some (oid_FlowHandler c)"
    using assms(4) inv by (auto simp: oid_inv_def)
  then have "flowTypes (world st) (fap_FlowID ps) \<noteq> None"
    using inv unfolding oid_inv_def by blast
  then obtain t where t: "flowTypes (world st) (fap_FlowID ps) = Some t" by blast
  have last: "last_start c (rev reqs) (fap_FlowID ps) = Some t" using inv t by (simp add: oid_inv_def)
  have "flow_action p ctx ps st = ret_call RFlowAction (HandleAction_oid c ctx ps) st"
    using own by (simp add: flow_action_def lookupFlowOwner_def)
  then have "flow_action p ctx ps st =
        (case action_callback c t of
           Some f \<Rightarrow> ret_call RFlowAction (call_app f ctx ps) st
         | None \<Rightarrow> ((RFlowAction (Some (default_action ps)), None), st))"
    using HandleAction_typed [OF t last_start_known [OF last], of ctx] by (simp add: ret_call_def split: option.splits)
  with last last_start_known [OF last] show ?thesis by blast
qed

definition vci_action :: FlowActionParams where
  "vci_action = zero_FlowActionParams\<lparr>fap_FlowID := ''f''\<rparr>"

theorem oid_actions_follow_type_witness:
  "flow_action oid_example_peer background vci_action (serve_flow oid_example_peer background (FStart vci_start) oid_fresh)
    = ((RFlowAction (Some (default_action vci_action)), None), serve_flow oid_example_peer background (FStart vci_start) oid_fresh)"
proof -
  let ?st = "serve_flow oid_example_peer background (FStart vci_start) oid_fresh"
  have "fsp_FlowType vci_start \<in> set (FlowTypes_oid example_config)" by (simp add: example_types)
  then have "flowOwners ?st (fap_FlowID vci_action) \<noteq> None"
    by (simp add: flow_start_oid [OF oid_example_ok(1)] StartFlow_admitted [OF _ example_admitted(1)] start_typed_def
        trackFlow_def vci_action_def)
  from oid_actions_follow_type [of example_config oid_example_peer ?st background "[FStart vci_start]" "()" vci_action, OF oid_example_ok(1) _ _ this]
  show ?thesis
    using oid_example_ok(2) BaseHandler_keeps
    by (auto simp: oid_fresh_def)
qed

text \<open>
  A failed start re-types a running flow: the type is recorded before the callback has decided and
  is not restored. Here an issuance flow is running, the application refuses a presentation
  flow with the same identifier, and the actions of the issuance flow then go to the
  presentation callback.
\<close>

lemma failed_start_retypes_flow:
  "\<exists>st. flowOwners st ''f'' = Some (oid_FlowHandler example_config)
     \<and> flowTypes (world st) ''f'' = Some ''oid4vci''
     \<and> (let r = flow_start oid_example_peer background vp_start st
        in snd (fst r) \<noteq> None \<and> flowOwners (snd r) ''f'' = Some (oid_FlowHandler example_config)
          \<and> flowTypes (world (snd r)) ''f'' = Some ''oid4vp'')"
proof -
  let ?st = "\<lparr>flowOwners = [''f'' \<mapsto> oid_FlowHandler example_config], world = \<lparr>flowTypes = [''f'' \<mapsto> ''oid4vci''], app = ()\<rparr>\<rparr>"
  have "fsp_FlowType vp_start \<in> set (FlowTypes_oid example_config)" by (simp add: example_types)
  then have "flow_start oid_example_peer background vp_start ?st
      = ((RFlowStart None, Some (GoErr ''no'')), ?st\<lparr>world := set_flowType ''f'' ''oid4vp'' (world ?st)\<rparr>)"
    by (simp add: flow_start_oid [OF oid_example_ok(1)] StartFlow_admitted [OF _ example_admitted(2)] start_typed_def
        Let_def set_flowType_def)
  then show ?thesis by (intro exI [of _ ?st]) (simp add: set_flowType_def)
qed

end
