(* ===== verification/Evidence_Types.thy ===== *)
theory Evidence_Types
  imports Wmp_Types
begin

text \<open>
  The constants and data types of evidence records (evidence.go), with the JSON decoding their tags
  give. Types with values of type \<open>interface{}\<close> have a decoder only: no code of the repository
  encodes them.
\<close>

section \<open>Constants\<close>

definition EvidenceSubmitted :: bytes where
  [simp]: "EvidenceSubmitted = ''submitted''"

definition EvidenceSubmissionAccepted :: bytes where
  [simp]: "EvidenceSubmissionAccepted = ''submission_accepted''"

definition EvidenceSubmissionRejected :: bytes where
  [simp]: "EvidenceSubmissionRejected = ''submission_rejected''"

definition EvidenceRelayAccepted :: bytes where
  [simp]: "EvidenceRelayAccepted = ''relay_accepted''"

definition EvidenceRelayFailed :: bytes where
  [simp]: "EvidenceRelayFailed = ''relay_failed''"

definition EvidenceDelivered :: bytes where
  [simp]: "EvidenceDelivered = ''delivered''"

definition EvidenceDeliveryFailed :: bytes where
  [simp]: "EvidenceDeliveryFailed = ''delivery_failed''"

definition EvidenceRetrieved :: bytes where
  [simp]: "EvidenceRetrieved = ''retrieved''"

definition EvidenceRetrievalFailed :: bytes where
  [simp]: "EvidenceRetrievalFailed = ''retrieval_failed''"

definition EvidenceContentAccessTracked :: bytes where
  [simp]: "EvidenceContentAccessTracked = ''content_access_tracked''"

definition EvidenceAccepted :: bytes where
  [simp]: "EvidenceAccepted = ''accepted''"

definition EvidenceRejected :: bytes where
  [simp]: "EvidenceRejected = ''rejected''"

definition EvidenceAcceptanceExpired :: bytes where
  [simp]: "EvidenceAcceptanceExpired = ''acceptance_expired''"

definition EvidenceContentHandover :: bytes where
  [simp]: "EvidenceContentHandover = ''content_handover''"

definition EvidenceContentHandoverFailed :: bytes where
  [simp]: "EvidenceContentHandoverFailed = ''content_handover_failed''"

definition EvidenceNotificationSent :: bytes where
  [simp]: "EvidenceNotificationSent = ''notification_sent''"

definition EvidenceNotificationFailed :: bytes where
  [simp]: "EvidenceNotificationFailed = ''notification_failed''"

definition EvidenceNotificationDelivered :: bytes where
  [simp]: "EvidenceNotificationDelivered = ''notification_delivered''"

definition EvidenceRelayToExternal :: bytes where
  [simp]: "EvidenceRelayToExternal = ''relay_to_external''"

definition EvidenceRelayToExternalFailed :: bytes where
  [simp]: "EvidenceRelayToExternalFailed = ''relay_to_external_failed''"

definition EvidenceReceivedFromExternal :: bytes where
  [simp]: "EvidenceReceivedFromExternal = ''received_from_external''"

definition EventReasonPolicyViolation :: bytes where
  [simp]: "EventReasonPolicyViolation = ''policy_violation''"

definition EventReasonQuotaExceeded :: bytes where
  [simp]: "EventReasonQuotaExceeded = ''quota_exceeded''"

definition EventReasonInvalidFormat :: bytes where
  [simp]: "EventReasonInvalidFormat = ''invalid_format''"

definition EventReasonInvalidRecipient :: bytes where
  [simp]: "EventReasonInvalidRecipient = ''invalid_recipient''"

definition EventReasonInsufficientAssurance :: bytes where
  [simp]: "EventReasonInsufficientAssurance = ''insufficient_assurance''"

definition EventReasonConsignmentModeUnsupported :: bytes where
  [simp]: "EventReasonConsignmentModeUnsupported = ''consignment_mode_unsupported''"

definition EventReasonPolicyUnsupported :: bytes where
  [simp]: "EventReasonPolicyUnsupported = ''policy_unsupported''"

definition EventReasonRecipientRejected :: bytes where
  [simp]: "EventReasonRecipientRejected = ''recipient_rejected''"

definition EventReasonTimeout :: bytes where
  [simp]: "EventReasonTimeout = ''timeout''"

definition EventReasonSystemError :: bytes where
  [simp]: "EventReasonSystemError = ''system_error''"

definition EventReasonDelegationInvalid :: bytes where
  [simp]: "EventReasonDelegationInvalid = ''delegation_invalid''"

definition ConsignmentBasic :: bytes where
  [simp]: "ConsignmentBasic = ''basic''"

definition ConsignmentConsented :: bytes where
  [simp]: "ConsignmentConsented = ''consented''"

definition ConsignmentConsentedSigned :: bytes where
  [simp]: "ConsignmentConsentedSigned = ''consented_signed''"

definition AssuranceLow :: bytes where
  [simp]: "AssuranceLow = ''low''"

definition AssuranceSubstantial :: bytes where
  [simp]: "AssuranceSubstantial = ''substantial''"

definition AssuranceHigh :: bytes where
  [simp]: "AssuranceHigh = ''high''"

section \<open>Types\<close>

record EvidenceEventReason =
  eer_Code :: "bytes"
  eer_Text :: "bytes"
  eer_Details :: "(bytes, any) gomap"

definition zero_EvidenceEventReason :: EvidenceEventReason where
  "zero_EvidenceEventReason = \<lparr>eer_Code = [], eer_Text = [], eer_Details = []\<rparr>"

definition fields_EvidenceEventReason :: "EvidenceEventReason fields" where
  "fields_EvidenceEventReason =
    [(''code'', field eer_Code eer_Code_update un_string),
     (''text'', field eer_Text eer_Text_update un_string),
     (''details'', field eer_Details eer_Details_update (un_map ANull un_any))]"

definition un_EvidenceEventReason :: "EvidenceEventReason decoder" where
  "un_EvidenceEventReason = un_struct fields_EvidenceEventReason"

record EvidenceIssuer =
  eis_ID :: "bytes"
  eis_Name :: "bytes"
  eis_Country :: "bytes"

definition zero_EvidenceIssuer :: EvidenceIssuer where
  "zero_EvidenceIssuer = \<lparr>eis_ID = [], eis_Name = [], eis_Country = []\<rparr>"

definition fields_EvidenceIssuer :: "EvidenceIssuer fields" where
  "fields_EvidenceIssuer =
    [(''id'', field eis_ID eis_ID_update un_string),
     (''name'', field eis_Name eis_Name_update un_string),
     (''country'', field eis_Country eis_Country_update un_string)]"

definition un_EvidenceIssuer :: "EvidenceIssuer decoder" where
  "un_EvidenceIssuer = un_struct fields_EvidenceIssuer"

definition ms_EvidenceIssuer :: "EvidenceIssuer \<Rightarrow> bytes option" where
  "ms_EvidenceIssuer x = ms_obj (
     always ''id'' (ms_string (eis_ID x))
     @ unless (eis_Name x = []) ''name'' (ms_string (eis_Name x))
     @ unless (eis_Country x = []) ''country'' (ms_string (eis_Country x)))"

record ExternalSystem =
  exs_Type :: "bytes"
  exs_ID :: "bytes"

definition zero_ExternalSystem :: ExternalSystem where
  "zero_ExternalSystem = \<lparr>exs_Type = [], exs_ID = []\<rparr>"

definition fields_ExternalSystem :: "ExternalSystem fields" where
  "fields_ExternalSystem =
    [(''type'', field exs_Type exs_Type_update un_string),
     (''id'', field exs_ID exs_ID_update un_string)]"

definition un_ExternalSystem :: "ExternalSystem decoder" where
  "un_ExternalSystem = un_struct fields_ExternalSystem"

definition ms_ExternalSystem :: "ExternalSystem \<Rightarrow> bytes option" where
  "ms_ExternalSystem x = ms_obj (
     always ''type'' (ms_string (exs_Type x))
     @ always ''id'' (ms_string (exs_ID x)))"

record ExternalErds =
  exe_ID :: "bytes"
  exe_Name :: "bytes"
  exe_Policy :: "bytes"

definition zero_ExternalErds :: ExternalErds where
  "zero_ExternalErds = \<lparr>exe_ID = [], exe_Name = [], exe_Policy = []\<rparr>"

definition fields_ExternalErds :: "ExternalErds fields" where
  "fields_ExternalErds =
    [(''id'', field exe_ID exe_ID_update un_string),
     (''name'', field exe_Name exe_Name_update un_string),
     (''policy'', field exe_Policy exe_Policy_update un_string)]"

definition un_ExternalErds :: "ExternalErds decoder" where
  "un_ExternalErds = un_struct fields_ExternalErds"

definition ms_ExternalErds :: "ExternalErds \<Rightarrow> bytes option" where
  "ms_ExternalErds x = ms_obj (
     always ''id'' (ms_string (exe_ID x))
     @ unless (exe_Name x = []) ''name'' (ms_string (exe_Name x))
     @ unless (exe_Policy x = []) ''policy'' (ms_string (exe_Policy x)))"

record DelegateIdentity =
  dli_ID :: "bytes"
  dli_IdentityAttributes :: "(bytes, any) gomap"

definition zero_DelegateIdentity :: DelegateIdentity where
  "zero_DelegateIdentity = \<lparr>dli_ID = [], dli_IdentityAttributes = []\<rparr>"

definition fields_DelegateIdentity :: "DelegateIdentity fields" where
  "fields_DelegateIdentity =
    [(''id'', field dli_ID dli_ID_update un_string),
     (''identity_attributes'', field dli_IdentityAttributes dli_IdentityAttributes_update (un_map ANull un_any))]"

definition un_DelegateIdentity :: "DelegateIdentity decoder" where
  "un_DelegateIdentity = un_struct fields_DelegateIdentity"

record EvidenceNotifyParams =
  enp_WMP :: "Metadata"
  enp_EvidenceID :: "bytes"
  enp_EventType :: "bytes"
  enp_EvidenceVersion :: "bytes"
  enp_Timestamp :: "bytes"
  enp_MessageID :: "bytes"
  enp_SessionID :: "bytes"
  enp_Sender :: "bytes"
  enp_Recipient :: "bytes"
  enp_EventReason :: "EvidenceEventReason option"
  enp_OriginalSenderDelegate :: "DelegateIdentity option"
  enp_OriginalRecipientDelegate :: "DelegateIdentity option"
  enp_SubmissionTime :: "bytes"
  enp_EvidenceIssuerPolicy :: "bytes list"
  enp_EvidenceIssuerObj :: "EvidenceIssuer option"
  enp_SenderAssuranceLevel :: "bytes"
  enp_RecipientAssuranceLevel :: "bytes"
  enp_SenderIdentityAttributes :: "(bytes, any) gomap"
  enp_RecipientIdentityAttributes :: "(bytes, any) gomap"
  enp_EvidenceRefersToRecipient :: "bytes"
  enp_ExternalSystemObj :: "ExternalSystem option"
  enp_ExternalErdsObj :: "ExternalErds option"
  enp_TransactionLog :: "bytes"
  enp_Extensions :: "(bytes, any) gomap"

definition zero_EvidenceNotifyParams :: EvidenceNotifyParams where
  "zero_EvidenceNotifyParams = \<lparr>enp_WMP = zero_Metadata, enp_EvidenceID = [], enp_EventType = [], enp_EvidenceVersion = [], enp_Timestamp = [], enp_MessageID = [], enp_SessionID = [], enp_Sender = [], enp_Recipient = [], enp_EventReason = None, enp_OriginalSenderDelegate = None, enp_OriginalRecipientDelegate = None, enp_SubmissionTime = [], enp_EvidenceIssuerPolicy = [], enp_EvidenceIssuerObj = None, enp_SenderAssuranceLevel = [], enp_RecipientAssuranceLevel = [], enp_SenderIdentityAttributes = [], enp_RecipientIdentityAttributes = [], enp_EvidenceRefersToRecipient = [], enp_ExternalSystemObj = None, enp_ExternalErdsObj = None, enp_TransactionLog = [], enp_Extensions = []\<rparr>"

definition fields_EvidenceNotifyParams :: "EvidenceNotifyParams fields" where
  "fields_EvidenceNotifyParams =
    [(''wmp'', field enp_WMP enp_WMP_update un_Metadata),
     (''evidence_id'', field enp_EvidenceID enp_EvidenceID_update un_string),
     (''event_type'', field enp_EventType enp_EventType_update un_string),
     (''evidence_version'', field enp_EvidenceVersion enp_EvidenceVersion_update un_string),
     (''timestamp'', field enp_Timestamp enp_Timestamp_update un_string),
     (''message_id'', field enp_MessageID enp_MessageID_update un_string),
     (''session_id'', field enp_SessionID enp_SessionID_update un_string),
     (''sender'', field enp_Sender enp_Sender_update un_string),
     (''recipient'', field enp_Recipient enp_Recipient_update un_string),
     (''event_reason'', field enp_EventReason enp_EventReason_update (un_ptr zero_EvidenceEventReason un_EvidenceEventReason)),
     (''original_sender_delegate'', field enp_OriginalSenderDelegate enp_OriginalSenderDelegate_update (un_ptr zero_DelegateIdentity un_DelegateIdentity)),
     (''original_recipient_delegate'', field enp_OriginalRecipientDelegate enp_OriginalRecipientDelegate_update (un_ptr zero_DelegateIdentity un_DelegateIdentity)),
     (''submission_time'', field enp_SubmissionTime enp_SubmissionTime_update un_string),
     (''evidence_issuer_policy'', field enp_EvidenceIssuerPolicy enp_EvidenceIssuerPolicy_update (un_list [] un_string)),
     (''evidence_issuer'', field enp_EvidenceIssuerObj enp_EvidenceIssuerObj_update (un_ptr zero_EvidenceIssuer un_EvidenceIssuer)),
     (''sender_assurance_level'', field enp_SenderAssuranceLevel enp_SenderAssuranceLevel_update un_string),
     (''recipient_assurance_level'', field enp_RecipientAssuranceLevel enp_RecipientAssuranceLevel_update un_string),
     (''sender_identity_attributes'', field enp_SenderIdentityAttributes enp_SenderIdentityAttributes_update (un_map ANull un_any)),
     (''recipient_identity_attributes'', field enp_RecipientIdentityAttributes enp_RecipientIdentityAttributes_update (un_map ANull un_any)),
     (''evidence_refers_to_recipient'', field enp_EvidenceRefersToRecipient enp_EvidenceRefersToRecipient_update un_string),
     (''external_system'', field enp_ExternalSystemObj enp_ExternalSystemObj_update (un_ptr zero_ExternalSystem un_ExternalSystem)),
     (''external_erds'', field enp_ExternalErdsObj enp_ExternalErdsObj_update (un_ptr zero_ExternalErds un_ExternalErds)),
     (''transaction_log'', field enp_TransactionLog enp_TransactionLog_update un_string),
     (''extensions'', field enp_Extensions enp_Extensions_update (un_map ANull un_any))]"

definition un_EvidenceNotifyParams :: "EvidenceNotifyParams decoder" where
  "un_EvidenceNotifyParams = un_struct fields_EvidenceNotifyParams"

end
