(* ===== verification/Profile_Codec.thy ===== *)
theory Profile_Codec
  imports Wmp_Codec Mls_Types Openid4x_Types Evidence_Types
begin

text \<open>
  The data types of the MLS and OpenID4x profiles and of delivery evidence (mls/mls.go,
  openid4x/openid4x.go, evidence.go) survive encoding and decoding.
\<close>

section \<open>MLS\<close>

definition portable_GroupCreateParams :: "GroupCreateParams \<Rightarrow> bool" where
  "portable_GroupCreateParams x \<longleftrightarrow>
    portable_Metadata (gcp_WMP x) \<and> ascii (gcp_GroupID x) \<and> int64 (gcp_CipherSuite x)
     \<and> list_all ascii (gcp_AcceptedCredentialTypes x) \<and> list_all ascii (gcp_AcceptedIdentitySchemes x)
     \<and> ascii (gcp_GroupInfo x) \<and> opt_all (portable_map ascii) (gcp_Welcomes x)"

lemma find_GroupCreateParams:
  "find_field fields_GroupCreateParams ''wmp'' = Some (field gcp_WMP gcp_WMP_update un_Metadata)"
  "find_field fields_GroupCreateParams ''group_id'' = Some (field gcp_GroupID gcp_GroupID_update un_string)"
  "find_field fields_GroupCreateParams ''cipher_suite'' = Some (field gcp_CipherSuite gcp_CipherSuite_update un_int)"
  "find_field fields_GroupCreateParams ''accepted_credential_types'' = Some (field gcp_AcceptedCredentialTypes gcp_AcceptedCredentialTypes_update (un_list [] un_string))"
  "find_field fields_GroupCreateParams ''accepted_identity_schemes'' = Some (field gcp_AcceptedIdentitySchemes gcp_AcceptedIdentitySchemes_update (un_list [] un_string))"
  "find_field fields_GroupCreateParams ''group_info'' = Some (field gcp_GroupInfo gcp_GroupInfo_update un_string)"
  "find_field fields_GroupCreateParams ''welcomes'' = Some (field gcp_Welcomes gcp_Welcomes_update (un_ptr [] (un_map [] un_string)))"
  by (simp_all add: find_field_def fields_GroupCreateParams_def)

lemma codes_GroupCreateParams [codec_intros]:
  "old = zero_GroupCreateParams \<Longrightarrow> portable_GroupCreateParams x \<Longrightarrow> raw_depth + 7 \<le> d \<Longrightarrow> codes nn d un_GroupCreateParams old (ms_GroupCreateParams x) x"
  unfolding un_GroupCreateParams_def ms_GroupCreateParams_def always_unless
  by (intro codes_struct find_GroupCreateParams [THEN unless_more] find_GroupCreateParams [THEN unless_last])
     (auto simp: portable_GroupCreateParams_def zero_GroupCreateParams_def codec_rules intro!: codec_intros)

definition portable_GroupCreateResult :: "GroupCreateResult \<Rightarrow> bool" where
  "portable_GroupCreateResult x \<longleftrightarrow>
    portable_Metadata (gcr_WMP x) \<and> ascii (gcr_GroupID x) \<and> int64 (gcr_Epoch x)"

lemma find_GroupCreateResult:
  "find_field fields_GroupCreateResult ''wmp'' = Some (field gcr_WMP gcr_WMP_update un_Metadata)"
  "find_field fields_GroupCreateResult ''group_id'' = Some (field gcr_GroupID gcr_GroupID_update un_string)"
  "find_field fields_GroupCreateResult ''epoch'' = Some (field gcr_Epoch gcr_Epoch_update un_int)"
  by (simp_all add: find_field_def fields_GroupCreateResult_def)

lemma codes_GroupCreateResult [codec_intros]:
  "old = zero_GroupCreateResult \<Longrightarrow> portable_GroupCreateResult x \<Longrightarrow> raw_depth + 7 \<le> d \<Longrightarrow> codes nn d un_GroupCreateResult old (ms_GroupCreateResult x) x"
  unfolding un_GroupCreateResult_def ms_GroupCreateResult_def always_unless
  by (intro codes_struct find_GroupCreateResult [THEN unless_more] find_GroupCreateResult [THEN unless_last])
     (auto simp: portable_GroupCreateResult_def zero_GroupCreateResult_def codec_rules intro!: codec_intros)

definition portable_GroupJoinParams :: "GroupJoinParams \<Rightarrow> bool" where
  "portable_GroupJoinParams x \<longleftrightarrow>
    portable_Metadata (gjp_WMP x)"

lemma find_GroupJoinParams:
  "find_field fields_GroupJoinParams ''wmp'' = Some (field gjp_WMP gjp_WMP_update un_Metadata)"
  "find_field fields_GroupJoinParams ''welcome_processed'' = Some (field gjp_WelcomeProcessed gjp_WelcomeProcessed_update un_bool)"
  by (simp_all add: find_field_def fields_GroupJoinParams_def)

lemma codes_GroupJoinParams [codec_intros]:
  "old = zero_GroupJoinParams \<Longrightarrow> portable_GroupJoinParams x \<Longrightarrow> raw_depth + 7 \<le> d \<Longrightarrow> codes nn d un_GroupJoinParams old (ms_GroupJoinParams x) x"
  unfolding un_GroupJoinParams_def ms_GroupJoinParams_def always_unless
  by (intro codes_struct find_GroupJoinParams [THEN unless_more] find_GroupJoinParams [THEN unless_last])
     (auto simp: portable_GroupJoinParams_def zero_GroupJoinParams_def codec_rules intro!: codec_intros)

definition portable_GroupJoinResult :: "GroupJoinResult \<Rightarrow> bool" where
  "portable_GroupJoinResult x \<longleftrightarrow>
    portable_Metadata (gjr_WMP x) \<and> ascii (gjr_GroupID x) \<and> int64 (gjr_Epoch x)"

lemma find_GroupJoinResult:
  "find_field fields_GroupJoinResult ''wmp'' = Some (field gjr_WMP gjr_WMP_update un_Metadata)"
  "find_field fields_GroupJoinResult ''group_id'' = Some (field gjr_GroupID gjr_GroupID_update un_string)"
  "find_field fields_GroupJoinResult ''epoch'' = Some (field gjr_Epoch gjr_Epoch_update un_int)"
  by (simp_all add: find_field_def fields_GroupJoinResult_def)

lemma codes_GroupJoinResult [codec_intros]:
  "old = zero_GroupJoinResult \<Longrightarrow> portable_GroupJoinResult x \<Longrightarrow> raw_depth + 7 \<le> d \<Longrightarrow> codes nn d un_GroupJoinResult old (ms_GroupJoinResult x) x"
  unfolding un_GroupJoinResult_def ms_GroupJoinResult_def always_unless
  by (intro codes_struct find_GroupJoinResult [THEN unless_more] find_GroupJoinResult [THEN unless_last])
     (auto simp: portable_GroupJoinResult_def zero_GroupJoinResult_def codec_rules intro!: codec_intros)

definition portable_GroupAddParams :: "GroupAddParams \<Rightarrow> bool" where
  "portable_GroupAddParams x \<longleftrightarrow>
    portable_Metadata (gap_WMP x) \<and> ascii (gap_Participant x) \<and> ascii (gap_Commit x)
     \<and> ascii (gap_Welcome x)"

lemma find_GroupAddParams:
  "find_field fields_GroupAddParams ''wmp'' = Some (field gap_WMP gap_WMP_update un_Metadata)"
  "find_field fields_GroupAddParams ''participant'' = Some (field gap_Participant gap_Participant_update un_string)"
  "find_field fields_GroupAddParams ''commit'' = Some (field gap_Commit gap_Commit_update un_string)"
  "find_field fields_GroupAddParams ''welcome'' = Some (field gap_Welcome gap_Welcome_update un_string)"
  by (simp_all add: find_field_def fields_GroupAddParams_def)

lemma codes_GroupAddParams [codec_intros]:
  "old = zero_GroupAddParams \<Longrightarrow> portable_GroupAddParams x \<Longrightarrow> raw_depth + 7 \<le> d \<Longrightarrow> codes nn d un_GroupAddParams old (ms_GroupAddParams x) x"
  unfolding un_GroupAddParams_def ms_GroupAddParams_def always_unless
  by (intro codes_struct find_GroupAddParams [THEN unless_more] find_GroupAddParams [THEN unless_last])
     (auto simp: portable_GroupAddParams_def zero_GroupAddParams_def codec_rules intro!: codec_intros)

definition portable_GroupAddResult :: "GroupAddResult \<Rightarrow> bool" where
  "portable_GroupAddResult x \<longleftrightarrow>
    portable_Metadata (gar_WMP x) \<and> int64 (gar_Epoch x)"

lemma find_GroupAddResult:
  "find_field fields_GroupAddResult ''wmp'' = Some (field gar_WMP gar_WMP_update un_Metadata)"
  "find_field fields_GroupAddResult ''epoch'' = Some (field gar_Epoch gar_Epoch_update un_int)"
  by (simp_all add: find_field_def fields_GroupAddResult_def)

lemma codes_GroupAddResult [codec_intros]:
  "old = zero_GroupAddResult \<Longrightarrow> portable_GroupAddResult x \<Longrightarrow> raw_depth + 7 \<le> d \<Longrightarrow> codes nn d un_GroupAddResult old (ms_GroupAddResult x) x"
  unfolding un_GroupAddResult_def ms_GroupAddResult_def always_unless
  by (intro codes_struct find_GroupAddResult [THEN unless_more] find_GroupAddResult [THEN unless_last])
     (auto simp: portable_GroupAddResult_def zero_GroupAddResult_def codec_rules intro!: codec_intros)

definition portable_GroupRemoveParams :: "GroupRemoveParams \<Rightarrow> bool" where
  "portable_GroupRemoveParams x \<longleftrightarrow>
    portable_Metadata (grp_WMP x) \<and> ascii (grp_Participant x) \<and> ascii (grp_Commit x)"

lemma find_GroupRemoveParams:
  "find_field fields_GroupRemoveParams ''wmp'' = Some (field grp_WMP grp_WMP_update un_Metadata)"
  "find_field fields_GroupRemoveParams ''participant'' = Some (field grp_Participant grp_Participant_update un_string)"
  "find_field fields_GroupRemoveParams ''commit'' = Some (field grp_Commit grp_Commit_update un_string)"
  by (simp_all add: find_field_def fields_GroupRemoveParams_def)

lemma codes_GroupRemoveParams [codec_intros]:
  "old = zero_GroupRemoveParams \<Longrightarrow> portable_GroupRemoveParams x \<Longrightarrow> raw_depth + 7 \<le> d \<Longrightarrow> codes nn d un_GroupRemoveParams old (ms_GroupRemoveParams x) x"
  unfolding un_GroupRemoveParams_def ms_GroupRemoveParams_def always_unless
  by (intro codes_struct find_GroupRemoveParams [THEN unless_more] find_GroupRemoveParams [THEN unless_last])
     (auto simp: portable_GroupRemoveParams_def zero_GroupRemoveParams_def codec_rules intro!: codec_intros)

definition portable_GroupRemoveResult :: "GroupRemoveResult \<Rightarrow> bool" where
  "portable_GroupRemoveResult x \<longleftrightarrow>
    portable_Metadata (grr_WMP x) \<and> int64 (grr_Epoch x)"

lemma find_GroupRemoveResult:
  "find_field fields_GroupRemoveResult ''wmp'' = Some (field grr_WMP grr_WMP_update un_Metadata)"
  "find_field fields_GroupRemoveResult ''epoch'' = Some (field grr_Epoch grr_Epoch_update un_int)"
  by (simp_all add: find_field_def fields_GroupRemoveResult_def)

lemma codes_GroupRemoveResult [codec_intros]:
  "old = zero_GroupRemoveResult \<Longrightarrow> portable_GroupRemoveResult x \<Longrightarrow> raw_depth + 7 \<le> d \<Longrightarrow> codes nn d un_GroupRemoveResult old (ms_GroupRemoveResult x) x"
  unfolding un_GroupRemoveResult_def ms_GroupRemoveResult_def always_unless
  by (intro codes_struct find_GroupRemoveResult [THEN unless_more] find_GroupRemoveResult [THEN unless_last])
     (auto simp: portable_GroupRemoveResult_def zero_GroupRemoveResult_def codec_rules intro!: codec_intros)

definition portable_GroupUpdateParams :: "GroupUpdateParams \<Rightarrow> bool" where
  "portable_GroupUpdateParams x \<longleftrightarrow>
    portable_Metadata (gup_WMP x) \<and> ascii (gup_Commit x)"

lemma find_GroupUpdateParams:
  "find_field fields_GroupUpdateParams ''wmp'' = Some (field gup_WMP gup_WMP_update un_Metadata)"
  "find_field fields_GroupUpdateParams ''commit'' = Some (field gup_Commit gup_Commit_update un_string)"
  by (simp_all add: find_field_def fields_GroupUpdateParams_def)

lemma codes_GroupUpdateParams [codec_intros]:
  "old = zero_GroupUpdateParams \<Longrightarrow> portable_GroupUpdateParams x \<Longrightarrow> raw_depth + 7 \<le> d \<Longrightarrow> codes nn d un_GroupUpdateParams old (ms_GroupUpdateParams x) x"
  unfolding un_GroupUpdateParams_def ms_GroupUpdateParams_def always_unless
  by (intro codes_struct find_GroupUpdateParams [THEN unless_more] find_GroupUpdateParams [THEN unless_last])
     (auto simp: portable_GroupUpdateParams_def zero_GroupUpdateParams_def codec_rules intro!: codec_intros)

definition portable_MessageFetchParams :: "MessageFetchParams \<Rightarrow> bool" where
  "portable_MessageFetchParams x \<longleftrightarrow>
    portable_Metadata (mfp_WMP x) \<and> int64 (mfp_SinceEpoch x) \<and> list_all ascii (mfp_Sessions x)"

lemma find_MessageFetchParams:
  "find_field fields_MessageFetchParams ''wmp'' = Some (field mfp_WMP mfp_WMP_update un_Metadata)"
  "find_field fields_MessageFetchParams ''since_epoch'' = Some (field mfp_SinceEpoch mfp_SinceEpoch_update un_int)"
  "find_field fields_MessageFetchParams ''sessions'' = Some (field mfp_Sessions mfp_Sessions_update (un_list [] un_string))"
  by (simp_all add: find_field_def fields_MessageFetchParams_def)

lemma codes_MessageFetchParams [codec_intros]:
  "old = zero_MessageFetchParams \<Longrightarrow> portable_MessageFetchParams x \<Longrightarrow> raw_depth + 7 \<le> d \<Longrightarrow> codes nn d un_MessageFetchParams old (ms_MessageFetchParams x) x"
  unfolding un_MessageFetchParams_def ms_MessageFetchParams_def always_unless
  by (intro codes_struct find_MessageFetchParams [THEN unless_more] find_MessageFetchParams [THEN unless_last])
     (auto simp: portable_MessageFetchParams_def zero_MessageFetchParams_def codec_rules intro!: codec_intros)

definition portable_MessageFetchResult :: "MessageFetchResult \<Rightarrow> bool" where
  "portable_MessageFetchResult x \<longleftrightarrow>
    portable_Metadata (mfr_WMP x) \<and> opt_all (list_all solid_raw) (mfr_Messages x)"

lemma find_MessageFetchResult:
  "find_field fields_MessageFetchResult ''wmp'' = Some (field mfr_WMP mfr_WMP_update un_Metadata)"
  "find_field fields_MessageFetchResult ''messages'' = Some (field mfr_Messages mfr_Messages_update (un_slice None un_raw))"
  "find_field fields_MessageFetchResult ''has_more'' = Some (field mfr_HasMore mfr_HasMore_update un_bool)"
  by (simp_all add: find_field_def fields_MessageFetchResult_def)

lemma codes_MessageFetchResult [codec_intros]:
  "old = zero_MessageFetchResult \<Longrightarrow> portable_MessageFetchResult x \<Longrightarrow> raw_depth + 7 \<le> d \<Longrightarrow> codes nn d un_MessageFetchResult old (ms_MessageFetchResult x) x"
  unfolding un_MessageFetchResult_def ms_MessageFetchResult_def always_unless
  by (intro codes_struct find_MessageFetchResult [THEN unless_more] find_MessageFetchResult [THEN unless_last])
     (auto simp: portable_MessageFetchResult_def zero_MessageFetchResult_def codec_rules intro!: codec_intros)

definition portable_KeyPackage :: "KeyPackage \<Rightarrow> bool" where
  "portable_KeyPackage x \<longleftrightarrow>
    ascii (kp_ID x) \<and> int64 (kp_CipherSuite x) \<and> ascii (kp_KeyPackage x) \<and> ascii (kp_Expires x)"

lemma find_KeyPackage:
  "find_field fields_KeyPackage ''id'' = Some (field kp_ID kp_ID_update un_string)"
  "find_field fields_KeyPackage ''cipher_suite'' = Some (field kp_CipherSuite kp_CipherSuite_update un_int)"
  "find_field fields_KeyPackage ''key_package'' = Some (field kp_KeyPackage kp_KeyPackage_update un_string)"
  "find_field fields_KeyPackage ''expires'' = Some (field kp_Expires kp_Expires_update un_string)"
  by (simp_all add: find_field_def fields_KeyPackage_def)

lemma codes_KeyPackage [codec_intros]:
  "old = zero_KeyPackage \<Longrightarrow> portable_KeyPackage x \<Longrightarrow> raw_depth + 1 \<le> d \<Longrightarrow> codes nn d un_KeyPackage old (ms_KeyPackage x) x"
  unfolding un_KeyPackage_def ms_KeyPackage_def always_unless
  by (intro codes_struct find_KeyPackage [THEN unless_more] find_KeyPackage [THEN unless_last])
     (auto simp: portable_KeyPackage_def zero_KeyPackage_def codec_rules intro!: codec_intros)

definition portable_KeyPackagesResponse :: "KeyPackagesResponse \<Rightarrow> bool" where
  "portable_KeyPackagesResponse x \<longleftrightarrow>
    opt_all (list_all portable_KeyPackage) (kpr_KeyPackages x)"

lemma find_KeyPackagesResponse:
  "find_field fields_KeyPackagesResponse ''key_packages'' = Some (field kpr_KeyPackages kpr_KeyPackages_update (un_slice zero_KeyPackage un_KeyPackage))"
  by (simp_all add: find_field_def fields_KeyPackagesResponse_def)

lemma codes_KeyPackagesResponse [codec_intros]:
  "old = zero_KeyPackagesResponse \<Longrightarrow> portable_KeyPackagesResponse x \<Longrightarrow> raw_depth + 3 \<le> d \<Longrightarrow> codes nn d un_KeyPackagesResponse old (ms_KeyPackagesResponse x) x"
  unfolding un_KeyPackagesResponse_def ms_KeyPackagesResponse_def always_unless
  by (intro codes_struct find_KeyPackagesResponse [THEN unless_more] find_KeyPackagesResponse [THEN unless_last])
     (auto simp: portable_KeyPackagesResponse_def zero_KeyPackagesResponse_def codec_rules intro!: codec_intros)

definition portable_EncryptedEnvelope :: "EncryptedEnvelope \<Rightarrow> bool" where
  "portable_EncryptedEnvelope x \<longleftrightarrow>
    portable_Metadata (ee_WMP x) \<and> ascii (ee_Ciphertext x)"

lemma find_EncryptedEnvelope:
  "find_field fields_EncryptedEnvelope ''wmp'' = Some (field ee_WMP ee_WMP_update un_Metadata)"
  "find_field fields_EncryptedEnvelope ''ciphertext'' = Some (field ee_Ciphertext ee_Ciphertext_update un_string)"
  by (simp_all add: find_field_def fields_EncryptedEnvelope_def)

lemma codes_EncryptedEnvelope [codec_intros]:
  "old = zero_EncryptedEnvelope \<Longrightarrow> portable_EncryptedEnvelope x \<Longrightarrow> raw_depth + 7 \<le> d \<Longrightarrow> codes nn d un_EncryptedEnvelope old (ms_EncryptedEnvelope x) x"
  unfolding un_EncryptedEnvelope_def ms_EncryptedEnvelope_def always_unless
  by (intro codes_struct find_EncryptedEnvelope [THEN unless_more] find_EncryptedEnvelope [THEN unless_last])
     (auto simp: portable_EncryptedEnvelope_def zero_EncryptedEnvelope_def codec_rules intro!: codec_intros)

section \<open>OpenID4x\<close>

definition portable_OID4VCICapability :: "OID4VCICapability \<Rightarrow> bool" where
  "portable_OID4VCICapability x \<longleftrightarrow>
    opt_all (list_all ascii) (vci_SupportedGrants x) \<and> opt_all (list_all ascii) (vci_SupportedFormats x)
     \<and> list_all ascii (vci_SupportedProofTypes x)"

lemma find_OID4VCICapability:
  "find_field fields_OID4VCICapability ''supported_grants'' = Some (field vci_SupportedGrants vci_SupportedGrants_update (un_slice [] un_string))"
  "find_field fields_OID4VCICapability ''supported_formats'' = Some (field vci_SupportedFormats vci_SupportedFormats_update (un_slice [] un_string))"
  "find_field fields_OID4VCICapability ''supported_proof_types'' = Some (field vci_SupportedProofTypes vci_SupportedProofTypes_update (un_list [] un_string))"
  "find_field fields_OID4VCICapability ''batch_issuance'' = Some (field vci_BatchIssuance vci_BatchIssuance_update un_bool)"
  by (simp_all add: find_field_def fields_OID4VCICapability_def)

lemma codes_OID4VCICapability [codec_intros]:
  "old = zero_OID4VCICapability \<Longrightarrow> portable_OID4VCICapability x \<Longrightarrow> raw_depth + 2 \<le> d \<Longrightarrow> codes nn d un_OID4VCICapability old (ms_OID4VCICapability x) x"
  unfolding un_OID4VCICapability_def ms_OID4VCICapability_def always_unless
  by (intro codes_struct find_OID4VCICapability [THEN unless_more] find_OID4VCICapability [THEN unless_last])
     (auto simp: portable_OID4VCICapability_def zero_OID4VCICapability_def codec_rules intro!: codec_intros)

definition portable_OID4VPCapability :: "OID4VPCapability \<Rightarrow> bool" where
  "portable_OID4VPCapability x \<longleftrightarrow>
    opt_all (list_all ascii) (vp_SupportedResponseModes x)
     \<and> opt_all (list_all ascii) (vp_SupportedFormats x) \<and> list_all ascii (vp_SupportedAlgorithms x)"

lemma find_OID4VPCapability:
  "find_field fields_OID4VPCapability ''supported_response_modes'' = Some (field vp_SupportedResponseModes vp_SupportedResponseModes_update (un_slice [] un_string))"
  "find_field fields_OID4VPCapability ''supported_formats'' = Some (field vp_SupportedFormats vp_SupportedFormats_update (un_slice [] un_string))"
  "find_field fields_OID4VPCapability ''supported_algorithms'' = Some (field vp_SupportedAlgorithms vp_SupportedAlgorithms_update (un_list [] un_string))"
  by (simp_all add: find_field_def fields_OID4VPCapability_def)

lemma codes_OID4VPCapability [codec_intros]:
  "old = zero_OID4VPCapability \<Longrightarrow> portable_OID4VPCapability x \<Longrightarrow> raw_depth + 2 \<le> d \<Longrightarrow> codes nn d un_OID4VPCapability old (ms_OID4VPCapability x) x"
  unfolding un_OID4VPCapability_def ms_OID4VPCapability_def always_unless
  by (intro codes_struct find_OID4VPCapability [THEN unless_more] find_OID4VPCapability [THEN unless_last])
     (auto simp: portable_OID4VPCapability_def zero_OID4VPCapability_def codec_rules intro!: codec_intros)

definition portable_CredentialDisplay :: "CredentialDisplay \<Rightarrow> bool" where
  "portable_CredentialDisplay x \<longleftrightarrow>
    ascii (cdp_Name x) \<and> ascii (cdp_Locale x) \<and> ascii (cdp_Description x) \<and> ascii (cdp_LogoURI x)
     \<and> ascii (cdp_LogoAltText x) \<and> ascii (cdp_BackgroundColor x) \<and> ascii (cdp_TextColor x)"

lemma find_CredentialDisplay:
  "find_field fields_CredentialDisplay ''name'' = Some (field cdp_Name cdp_Name_update un_string)"
  "find_field fields_CredentialDisplay ''locale'' = Some (field cdp_Locale cdp_Locale_update un_string)"
  "find_field fields_CredentialDisplay ''description'' = Some (field cdp_Description cdp_Description_update un_string)"
  "find_field fields_CredentialDisplay ''logo_uri'' = Some (field cdp_LogoURI cdp_LogoURI_update un_string)"
  "find_field fields_CredentialDisplay ''logo_alt_text'' = Some (field cdp_LogoAltText cdp_LogoAltText_update un_string)"
  "find_field fields_CredentialDisplay ''background_color'' = Some (field cdp_BackgroundColor cdp_BackgroundColor_update un_string)"
  "find_field fields_CredentialDisplay ''text_color'' = Some (field cdp_TextColor cdp_TextColor_update un_string)"
  by (simp_all add: find_field_def fields_CredentialDisplay_def)

lemma codes_CredentialDisplay [codec_intros]:
  "old = zero_CredentialDisplay \<Longrightarrow> portable_CredentialDisplay x \<Longrightarrow> raw_depth + 1 \<le> d \<Longrightarrow> codes nn d un_CredentialDisplay old (ms_CredentialDisplay x) x"
  unfolding un_CredentialDisplay_def ms_CredentialDisplay_def always_unless
  by (intro codes_struct find_CredentialDisplay [THEN unless_more] find_CredentialDisplay [THEN unless_last])
     (auto simp: portable_CredentialDisplay_def zero_CredentialDisplay_def codec_rules intro!: codec_intros)

definition portable_CredentialResult :: "CredentialResult \<Rightarrow> bool" where
  "portable_CredentialResult x \<longleftrightarrow>
    ascii (cdr_Format x) \<and> ascii (cdr_Credential x) \<and> ascii (cdr_VCT x) \<and> ascii (cdr_CNonce x)
     \<and> ascii (cdr_NotificationID x)"

lemma find_CredentialResult:
  "find_field fields_CredentialResult ''format'' = Some (field cdr_Format cdr_Format_update un_string)"
  "find_field fields_CredentialResult ''credential'' = Some (field cdr_Credential cdr_Credential_update un_string)"
  "find_field fields_CredentialResult ''vct'' = Some (field cdr_VCT cdr_VCT_update un_string)"
  "find_field fields_CredentialResult ''c_nonce'' = Some (field cdr_CNonce cdr_CNonce_update un_string)"
  "find_field fields_CredentialResult ''notification_id'' = Some (field cdr_NotificationID cdr_NotificationID_update un_string)"
  by (simp_all add: find_field_def fields_CredentialResult_def)

lemma codes_CredentialResult [codec_intros]:
  "old = zero_CredentialResult \<Longrightarrow> portable_CredentialResult x \<Longrightarrow> raw_depth + 1 \<le> d \<Longrightarrow> codes nn d un_CredentialResult old (ms_CredentialResult x) x"
  unfolding un_CredentialResult_def ms_CredentialResult_def always_unless
  by (intro codes_struct find_CredentialResult [THEN unless_more] find_CredentialResult [THEN unless_last])
     (auto simp: portable_CredentialResult_def zero_CredentialResult_def codec_rules intro!: codec_intros)

definition portable_SelectionAction :: "SelectionAction \<Rightarrow> bool" where
  "portable_SelectionAction x \<longleftrightarrow>
    opt_all (list_all int64) (sla_SelectedIndices x)"

lemma find_SelectionAction:
  "find_field fields_SelectionAction ''selected_indices'' = Some (field sla_SelectedIndices sla_SelectedIndices_update (un_slice 0 un_int))"
  "find_field fields_SelectionAction ''consent'' = Some (field sla_Consent sla_Consent_update un_bool)"
  by (simp_all add: find_field_def fields_SelectionAction_def)

lemma codes_SelectionAction [codec_intros]:
  "old = zero_SelectionAction \<Longrightarrow> portable_SelectionAction x \<Longrightarrow> raw_depth + 2 \<le> d \<Longrightarrow> codes nn d un_SelectionAction old (ms_SelectionAction x) x"
  unfolding un_SelectionAction_def ms_SelectionAction_def always_unless
  by (intro codes_struct find_SelectionAction [THEN unless_more] find_SelectionAction [THEN unless_last])
     (auto simp: portable_SelectionAction_def zero_SelectionAction_def codec_rules intro!: codec_intros)

definition portable_CredentialSelection :: "CredentialSelection \<Rightarrow> bool" where
  "portable_CredentialSelection x \<longleftrightarrow>
    ascii (cse_CredentialID x) \<and> ascii (cse_CredentialQueryID x)
     \<and> opt_all (list_all ascii) (cse_DisclosedClaims x)"

lemma find_CredentialSelection:
  "find_field fields_CredentialSelection ''credential_id'' = Some (field cse_CredentialID cse_CredentialID_update un_string)"
  "find_field fields_CredentialSelection ''credential_query_id'' = Some (field cse_CredentialQueryID cse_CredentialQueryID_update un_string)"
  "find_field fields_CredentialSelection ''disclosed_claims'' = Some (field cse_DisclosedClaims cse_DisclosedClaims_update (un_slice [] un_string))"
  by (simp_all add: find_field_def fields_CredentialSelection_def)

lemma codes_CredentialSelection [codec_intros]:
  "old = zero_CredentialSelection \<Longrightarrow> portable_CredentialSelection x \<Longrightarrow> raw_depth + 2 \<le> d \<Longrightarrow> codes nn d un_CredentialSelection old (ms_CredentialSelection x) x"
  unfolding un_CredentialSelection_def ms_CredentialSelection_def always_unless
  by (intro codes_struct find_CredentialSelection [THEN unless_more] find_CredentialSelection [THEN unless_last])
     (auto simp: portable_CredentialSelection_def zero_CredentialSelection_def codec_rules intro!: codec_intros)

definition portable_ConsentAction :: "ConsentAction \<Rightarrow> bool" where
  "portable_ConsentAction x \<longleftrightarrow>
    opt_all (list_all portable_CredentialSelection) (csa_Selections x)"

lemma find_ConsentAction:
  "find_field fields_ConsentAction ''selections'' = Some (field csa_Selections csa_Selections_update (un_slice zero_CredentialSelection un_CredentialSelection))"
  "find_field fields_ConsentAction ''consent'' = Some (field csa_Consent csa_Consent_update un_bool)"
  by (simp_all add: find_field_def fields_ConsentAction_def)

lemma codes_ConsentAction [codec_intros]:
  "old = zero_ConsentAction \<Longrightarrow> portable_ConsentAction x \<Longrightarrow> raw_depth + 4 \<le> d \<Longrightarrow> codes nn d un_ConsentAction old (ms_ConsentAction x) x"
  unfolding un_ConsentAction_def ms_ConsentAction_def always_unless
  by (intro codes_struct find_ConsentAction [THEN unless_more] find_ConsentAction [THEN unless_last])
     (auto simp: portable_ConsentAction_def zero_ConsentAction_def codec_rules intro!: codec_intros)

section \<open>Evidence\<close>

definition portable_EvidenceIssuer :: "EvidenceIssuer \<Rightarrow> bool" where
  "portable_EvidenceIssuer x \<longleftrightarrow>
    ascii (eis_ID x) \<and> ascii (eis_Name x) \<and> ascii (eis_Country x)"

lemma find_EvidenceIssuer:
  "find_field fields_EvidenceIssuer ''id'' = Some (field eis_ID eis_ID_update un_string)"
  "find_field fields_EvidenceIssuer ''name'' = Some (field eis_Name eis_Name_update un_string)"
  "find_field fields_EvidenceIssuer ''country'' = Some (field eis_Country eis_Country_update un_string)"
  by (simp_all add: find_field_def fields_EvidenceIssuer_def)

lemma codes_EvidenceIssuer [codec_intros]:
  "old = zero_EvidenceIssuer \<Longrightarrow> portable_EvidenceIssuer x \<Longrightarrow> raw_depth + 1 \<le> d \<Longrightarrow> codes nn d un_EvidenceIssuer old (ms_EvidenceIssuer x) x"
  unfolding un_EvidenceIssuer_def ms_EvidenceIssuer_def always_unless
  by (intro codes_struct find_EvidenceIssuer [THEN unless_more] find_EvidenceIssuer [THEN unless_last])
     (auto simp: portable_EvidenceIssuer_def zero_EvidenceIssuer_def codec_rules intro!: codec_intros)

definition portable_ExternalSystem :: "ExternalSystem \<Rightarrow> bool" where
  "portable_ExternalSystem x \<longleftrightarrow>
    ascii (exs_Type x) \<and> ascii (exs_ID x)"

lemma find_ExternalSystem:
  "find_field fields_ExternalSystem ''type'' = Some (field exs_Type exs_Type_update un_string)"
  "find_field fields_ExternalSystem ''id'' = Some (field exs_ID exs_ID_update un_string)"
  by (simp_all add: find_field_def fields_ExternalSystem_def)

lemma codes_ExternalSystem [codec_intros]:
  "old = zero_ExternalSystem \<Longrightarrow> portable_ExternalSystem x \<Longrightarrow> raw_depth + 1 \<le> d \<Longrightarrow> codes nn d un_ExternalSystem old (ms_ExternalSystem x) x"
  unfolding un_ExternalSystem_def ms_ExternalSystem_def always_unless
  by (intro codes_struct find_ExternalSystem [THEN unless_more] find_ExternalSystem [THEN unless_last])
     (auto simp: portable_ExternalSystem_def zero_ExternalSystem_def codec_rules intro!: codec_intros)

definition portable_ExternalErds :: "ExternalErds \<Rightarrow> bool" where
  "portable_ExternalErds x \<longleftrightarrow>
    ascii (exe_ID x) \<and> ascii (exe_Name x) \<and> ascii (exe_Policy x)"

lemma find_ExternalErds:
  "find_field fields_ExternalErds ''id'' = Some (field exe_ID exe_ID_update un_string)"
  "find_field fields_ExternalErds ''name'' = Some (field exe_Name exe_Name_update un_string)"
  "find_field fields_ExternalErds ''policy'' = Some (field exe_Policy exe_Policy_update un_string)"
  by (simp_all add: find_field_def fields_ExternalErds_def)

lemma codes_ExternalErds [codec_intros]:
  "old = zero_ExternalErds \<Longrightarrow> portable_ExternalErds x \<Longrightarrow> raw_depth + 1 \<le> d \<Longrightarrow> codes nn d un_ExternalErds old (ms_ExternalErds x) x"
  unfolding un_ExternalErds_def ms_ExternalErds_def always_unless
  by (intro codes_struct find_ExternalErds [THEN unless_more] find_ExternalErds [THEN unless_last])
     (auto simp: portable_ExternalErds_def zero_ExternalErds_def codec_rules intro!: codec_intros)

end
