(* ===== verification/Schema_Validator.thy ===== *)
theory Schema_Validator
  imports Peer_Props
begin

text \<open>
  The schema validator (schema/schema.go): loading the embedded files, which schema belongs to a
  method, the cache of compiled schemas, and the validator inside a peer. The schemas are
  compiled and checked by a third-party package, the parameter \<open>schema_lib\<close>.
\<close>

section \<open>The validator\<close>

definition methodSchemaMap :: "(bytes, bytes) gomap" where
  "methodSchemaMap =
    [(''wmp.session.create'', ''methods/session-create-request.json''),
     (''wmp.session.close'', ''methods/session-close.json''),
     (''wmp.flow.start'', ''methods/flow-start.json''),
     (''wmp.flow.progress'', ''methods/flow-progress.json''),
     (''wmp.flow.action'', ''methods/flow-action.json''),
     (''wmp.flow.complete'', ''methods/flow-complete.json''),
     (''wmp.flow.error'', ''methods/flow-error.json''),
     (''wmp.resolve'', ''methods/resolve-request.json''),
     (''wmp.message.deliver'', ''methods/message-deliver.json''),
     (''wmp.message.ack'', ''methods/message-ack.json''),
     (''wmp.capability.update'', ''methods/capability-update-request.json'')]"

definition responseSchemaMap :: "(bytes, bytes) gomap" where
  "responseSchemaMap =
    [(''wmp.session.create'', ''methods/session-create-response.json''),
     (''wmp.resolve'', ''methods/resolve-response.json''),
     (''wmp.capability.list'', ''methods/capability-list-response.json'')]"

text \<open>
  The JSON Schema package: \<open>'c\<close> is a compiler, of which the validator uses a new one, adding a decoded
  document under a URL, and compiling the document of a path. What \<open>Compile\<close> returns depends on the
  resources that were added.
\<close>

record ('c, 'sch) schema_lib =
  sl_NewCompiler :: 'c
  sl_AddResource :: "bytes \<Rightarrow> any \<Rightarrow> 'c \<Rightarrow> go_error + 'c"
  sl_Compile :: "'c \<Rightarrow> bytes \<Rightarrow> go_error + 'sch"
  sl_Validate :: "'sch \<Rightarrow> any \<Rightarrow> go_error option"

record ('c, 'sch) SchemaValidator =
  compiler :: 'c
  compiled :: "bytes \<rightharpoonup> 'sch"
  strict :: bool

definition WithStrict :: "bool \<Rightarrow> ('c, 'sch) SchemaValidator \<Rightarrow> ('c, 'sch) SchemaValidator" where
  "WithStrict b v = v\<lparr>strict := b\<rparr>"

text \<open>
  An entry that \<open>fs.WalkDir\<close> reports for the embedded files, in its order: the path, the error of
  walking there, whether it is a directory, and what \<open>ReadFile\<close> returns.
\<close>

record fs_entry =
  fe_path :: bytes
  fe_err :: "go_error option"
  fe_IsDir :: bool
  fe_ReadFile :: "go_error + bytes"

definition HasSuffix :: "bytes \<Rightarrow> bytes \<Rightarrow> bool" where
  "HasSuffix s t \<longleftrightarrow> length t \<le> length s \<and> drop (length s - length t) s = t"

text \<open>The anonymous struct \<open>meta\<close>, which has the field \<open>$id\<close> only.\<close>

record schema_meta =
  meta_ID :: bytes

definition un_schema_meta :: "schema_meta decoder" where
  "un_schema_meta = un_struct [(''$id'', field meta_ID meta_ID_update un_string)]"

definition schema_id :: "bytes \<Rightarrow> bytes" where
  "schema_id data = (case unmarshal un_schema_meta \<lparr>meta_ID = []\<rparr> (Some data) of None \<Rightarrow> [] | Some meta \<Rightarrow> meta_ID meta)"

definition add_by_id :: "('c, 'sch) schema_lib \<Rightarrow> bytes \<Rightarrow> any \<Rightarrow> 'c \<Rightarrow> go_error + 'c" where
  "add_by_id lib data doc c =
     (if schema_id data \<noteq> []
      then (case sl_AddResource lib (schema_id data) doc c of
              Inl e \<Rightarrow> Inl (GoErr (''adding schema by $id '' @ schema_id data @ '': '' @ error_text e))
            | Inr c' \<Rightarrow> Inr c')
      else Inr c)"

text \<open>The function that \<open>NewValidator\<close> gives \<open>fs.WalkDir\<close>.\<close>

definition load_entry :: "('c, 'sch) schema_lib \<Rightarrow> fs_entry \<Rightarrow> 'c \<Rightarrow> go_error + 'c" where
  "load_entry lib d c =
     (case fe_err d of
        Some e \<Rightarrow> Inl e
      | None \<Rightarrow>
          if fe_IsDir d \<or> \<not> HasSuffix (fe_path d) ''.json'' then Inr c
          else (case fe_ReadFile d of
                  Inl e \<Rightarrow> Inl (GoErr (''reading embedded schema '' @ fe_path d @ '': '' @ error_text e))
                | Inr data \<Rightarrow>
                    (case unmarshal un_any ANull (Some data) of
                       None \<Rightarrow> Inl (GoErr (''parsing schema '' @ fe_path d))
                     | Some doc \<Rightarrow>
                         (case sl_AddResource lib (fe_path d) doc c of
                            Inl e \<Rightarrow> Inl (GoErr (''adding schema '' @ fe_path d @ '': '' @ error_text e))
                          | Inr c' \<Rightarrow> add_by_id lib data doc c'))))"

text \<open>\<open>fs.WalkDir\<close> stops at the first error of its function.\<close>

fun load_schemas :: "('c, 'sch) schema_lib \<Rightarrow> fs_entry list \<Rightarrow> 'c \<Rightarrow> go_error + 'c" where
  "load_schemas lib [] c = Inr c"
| "load_schemas lib (d # ds) c = (case load_entry lib d c of Inl e \<Rightarrow> Inl e | Inr c' \<Rightarrow> load_schemas lib ds c')"

definition NewValidator ::
  "('c, 'sch) schema_lib \<Rightarrow> fs_entry list \<Rightarrow> (('c, 'sch) SchemaValidator \<Rightarrow> ('c, 'sch) SchemaValidator) list
    \<Rightarrow> go_error + ('c, 'sch) SchemaValidator" where
  "NewValidator lib schemaFS opts =
     (case load_schemas lib schemaFS (sl_NewCompiler lib) of
        Inl e \<Rightarrow> Inl (GoErr (''loading embedded schemas: '' @ error_text e))
      | Inr c \<Rightarrow> Inr (fold (\<lambda>opt v. opt v) opts \<lparr>compiler = c, compiled = Map.empty, strict = False\<rparr>))"

definition MethodSchemas :: "bytes list" where
  "MethodSchemas = foldl (\<lambda>ms (m, path). ms @ [m]) [] methodSchemaMap"

text \<open>
  \<open>getSchema\<close> looks up under a read lock, and looks up again and compiles under the write lock;
  other goroutines may run between the two.
\<close>

definition getSchema_read :: "bytes \<Rightarrow> ('c, 'sch) SchemaValidator \<Rightarrow> 'sch option" where
  "getSchema_read path v = compiled v path"

definition getSchema_write :: "('c, 'sch) schema_lib \<Rightarrow> bytes \<Rightarrow> ('c, 'sch) SchemaValidator \<Rightarrow> (go_error + 'sch) \<times> ('c, 'sch) SchemaValidator" where
  "getSchema_write lib path v =
     (case compiled v path of
        Some s \<Rightarrow> (Inr s, v)
      | None \<Rightarrow>
          (case sl_Compile lib (compiler v) path of
             Inl e \<Rightarrow> (Inl e, v)
           | Inr s \<Rightarrow> (Inr s, v\<lparr>compiled := (compiled v)(path \<mapsto> s)\<rparr>)))"

definition getSchema :: "('c, 'sch) schema_lib \<Rightarrow> bytes \<Rightarrow> ('c, 'sch) SchemaValidator \<Rightarrow> (go_error + 'sch) \<times> ('c, 'sch) SchemaValidator" where
  "getSchema lib path v =
     (case getSchema_read path v of Some s \<Rightarrow> (Inr s, v) | None \<Rightarrow> getSchema_write lib path v)"

definition check_schema :: "('c, 'sch) schema_lib \<Rightarrow> bytes \<Rightarrow> raw \<Rightarrow> go_error + 'sch \<Rightarrow> go_error option" where
  "check_schema lib path data r =
     (case r of
        Inl e \<Rightarrow> Some (GoErr (''compiling schema '' @ path @ '': '' @ error_text e))
      | Inr s \<Rightarrow>
          (case unmarshal un_any ANull data of
             None \<Rightarrow> Some (GoErr ''parsing JSON'')
           | Some v \<Rightarrow> sl_Validate lib s v))"

definition validate_schema :: "('c, 'sch) schema_lib \<Rightarrow> bytes \<Rightarrow> raw \<Rightarrow> ('c, 'sch) SchemaValidator \<Rightarrow> go_error option \<times> ('c, 'sch) SchemaValidator" where
  "validate_schema lib path data v = (let (r, v') = getSchema lib path v in (check_schema lib path data r, v'))"

definition ValidateMethod :: "('c, 'sch) schema_lib \<Rightarrow> bytes \<Rightarrow> raw \<Rightarrow> ('c, 'sch) SchemaValidator \<Rightarrow> go_error option \<times> ('c, 'sch) SchemaValidator" where
  "ValidateMethod lib method data v =
     (case gm_get methodSchemaMap method of
        None \<Rightarrow> (if strict v then Some (GoErr (''no schema defined for method '' @ go_quote method)) else None, v)
      | Some path \<Rightarrow> validate_schema lib path data v)"

definition ValidateResponse :: "('c, 'sch) schema_lib \<Rightarrow> bytes \<Rightarrow> raw \<Rightarrow> ('c, 'sch) SchemaValidator \<Rightarrow> go_error option \<times> ('c, 'sch) SchemaValidator" where
  "ValidateResponse lib method data v =
     (case gm_get responseSchemaMap method of
        None \<Rightarrow> (if strict v then Some (GoErr (''no response schema defined for method '' @ go_quote method)) else None, v)
      | Some path \<Rightarrow> validate_schema lib path data v)"

definition ValidateMetadata :: "('c, 'sch) schema_lib \<Rightarrow> raw \<Rightarrow> ('c, 'sch) SchemaValidator \<Rightarrow> go_error option \<times> ('c, 'sch) SchemaValidator" where
  "ValidateMetadata lib data v = validate_schema lib ''wmp-metadata.json'' data v"

section \<open>The cache\<close>

definition cache_ok :: "('c, 'sch) schema_lib \<Rightarrow> ('c, 'sch) SchemaValidator \<Rightarrow> bool" where
  "cache_ok lib v \<longleftrightarrow> (\<forall>path s. compiled v path = Some s \<longrightarrow> sl_Compile lib (compiler v) path = Inr s)"

lemma getSchema_write_compile:
  assumes "cache_ok lib v"
  shows "fst (getSchema_write lib path v) = sl_Compile lib (compiler v) path" "cache_ok lib (snd (getSchema_write lib path v))"
    "strict (snd (getSchema_write lib path v)) = strict v" "compiler (snd (getSchema_write lib path v)) = compiler v"
  using assms by (auto simp: getSchema_write_def cache_ok_def split: option.splits sum.splits)

lemma getSchema_compile:
  assumes "cache_ok lib v"
  shows "fst (getSchema lib path v) = sl_Compile lib (compiler v) path" "cache_ok lib (snd (getSchema lib path v))"
    "strict (snd (getSchema lib path v)) = strict v" "compiler (snd (getSchema lib path v)) = compiler v"
  using assms getSchema_write_compile [OF assms]
  by (auto simp: getSchema_def getSchema_read_def split: option.splits) (simp add: cache_ok_def)

datatype schema_op =
    VMethod bytes raw
  | VResponse bytes raw
  | VMetadata raw

fun run_schema_op :: "('c, 'sch) schema_lib \<Rightarrow> schema_op \<Rightarrow> ('c, 'sch) SchemaValidator \<Rightarrow> go_error option \<times> ('c, 'sch) SchemaValidator" where
  "run_schema_op lib (VMethod m d) v = ValidateMethod lib m d v"
| "run_schema_op lib (VResponse m d) v = ValidateResponse lib m d v"
| "run_schema_op lib (VMetadata d) v = ValidateMetadata lib d v"

fun schema_results :: "('c, 'sch) schema_lib \<Rightarrow> schema_op list \<Rightarrow> ('c, 'sch) SchemaValidator \<Rightarrow> go_error option list" where
  "schema_results lib [] v = []"
| "schema_results lib (x # xs) v = (let (e, v') = run_schema_op lib x v in e # schema_results lib xs v')"

text \<open>The validator without a cache: compile the schema of the message each time.\<close>

definition uncached :: "('c, 'sch) schema_lib \<Rightarrow> 'c \<Rightarrow> bytes option \<Rightarrow> bool \<Rightarrow> bytes \<Rightarrow> bytes \<Rightarrow> raw \<Rightarrow> go_error option" where
  "uncached lib c path st what method data =
     (case path of
        None \<Rightarrow> if st then Some (GoErr (what @ go_quote method)) else None
      | Some q \<Rightarrow> check_schema lib q data (sl_Compile lib c q))"

fun uncached_op :: "('c, 'sch) schema_lib \<Rightarrow> 'c \<Rightarrow> bool \<Rightarrow> schema_op \<Rightarrow> go_error option" where
  "uncached_op lib c st (VMethod m d) = uncached lib c (gm_get methodSchemaMap m) st ''no schema defined for method '' m d"
| "uncached_op lib c st (VResponse m d) = uncached lib c (gm_get responseSchemaMap m) st ''no response schema defined for method '' m d"
| "uncached_op lib c st (VMetadata d) = uncached lib c (Some ''wmp-metadata.json'') st [] [] d"

lemma validate_schema_uncached:
  assumes "cache_ok lib v"
  shows "fst (validate_schema lib path d v) = check_schema lib path d (sl_Compile lib (compiler v) path)"
    "cache_ok lib (snd (validate_schema lib path d v))" "strict (snd (validate_schema lib path d v)) = strict v"
    "compiler (snd (validate_schema lib path d v)) = compiler v"
  using getSchema_compile [OF assms, of path] by (simp_all add: validate_schema_def case_prod_beta Let_def)

lemma schema_op_uncached:
  assumes "cache_ok lib v"
  shows "fst (run_schema_op lib x v) = uncached_op lib (compiler v) (strict v) x" "cache_ok lib (snd (run_schema_op lib x v))"
    "strict (snd (run_schema_op lib x v)) = strict v" "compiler (snd (run_schema_op lib x v)) = compiler v"
  using assms validate_schema_uncached [OF assms]
  by (cases x; simp add: ValidateMethod_def ValidateResponse_def ValidateMetadata_def uncached_def split: option.splits)+

lemma schema_results_uncached: "cache_ok lib v \<Longrightarrow> schema_results lib xs v = map (uncached_op lib (compiler v) (strict v)) xs"
  by (induction xs arbitrary: v) (simp_all add: schema_op_uncached case_prod_beta Let_def)

lemma fold_options:
  "fold (\<lambda>opt v. opt v) (map WithStrict bs) v = v\<lparr>strict := (if bs = [] then strict v else last bs)\<rparr>"
  by (induction bs arbitrary: v) (simp_all add: WithStrict_def)

lemma new_validator:
  assumes "NewValidator lib fs (map WithStrict bs) = Inr v"
  shows "cache_ok lib v" "strict v \<longleftrightarrow> bs \<noteq> [] \<and> last bs" "load_schemas lib fs (sl_NewCompiler lib) = Inr (compiler v)"
  using assms by (auto simp: NewValidator_def fold_options cache_ok_def split: sum.splits if_splits)

section \<open>The embedded files\<close>

text \<open>
  What the compiler has to know: every file with the extension .json under its path and, when
  its \<open>$id\<close> is a text that is not empty, under this too. There is none when a file cannot be read or is not JSON.
\<close>

definition entry_resources :: "fs_entry \<Rightarrow> (bytes \<times> any) list option" where
  "entry_resources d =
     (if fe_err d \<noteq> None then None
      else if fe_IsDir d \<or> \<not> HasSuffix (fe_path d) ''.json'' then Some []
      else (case fe_ReadFile d of
              Inl _ \<Rightarrow> None
            | Inr data \<Rightarrow> map_option (\<lambda>doc. (fe_path d, doc) # (if schema_id data = [] then [] else [(schema_id data, doc)]))
                (unmarshal un_any ANull (Some data))))"

fun schema_resources :: "fs_entry list \<Rightarrow> (bytes \<times> any) list option" where
  "schema_resources [] = Some []"
| "schema_resources (d # ds) = (case (entry_resources d, schema_resources ds) of (Some rs, Some rs') \<Rightarrow> Some (rs @ rs') | _ \<Rightarrow> None)"

fun add_resources :: "('c, 'sch) schema_lib \<Rightarrow> (bytes \<times> any) list \<Rightarrow> 'c \<Rightarrow> 'c option" where
  "add_resources lib [] c = Some c"
| "add_resources lib ((url, doc) # rs) c = (case sl_AddResource lib url doc c of Inl _ \<Rightarrow> None | Inr c' \<Rightarrow> add_resources lib rs c')"

lemma add_resources_append:
  "add_resources lib (rs @ rs') c = Option.bind (add_resources lib rs c) (add_resources lib rs')"
  by (induction lib rs c rule: add_resources.induct) (auto split: sum.splits)

lemma load_entry_resources:
  "load_entry lib d c = Inr c' \<longleftrightarrow> (\<exists>rs. entry_resources d = Some rs \<and> add_resources lib rs c = Some c')"
  by (auto simp: load_entry_def entry_resources_def add_by_id_def split: option.splits sum.splits if_splits)

lemma load_schemas_resources:
  "load_schemas lib ds c = Inr c' \<longleftrightarrow> (\<exists>rs. schema_resources ds = Some rs \<and> add_resources lib rs c = Some c')"
proof (induction ds arbitrary: c)
  case Nil
  then show ?case by auto
next
  case (Cons d ds)
  show ?case
  proof (cases "load_entry lib d c")
    case (Inl e)
    then have "add_resources lib rs c = None" if "entry_resources d = Some rs" for rs
      using load_entry_resources [of lib d c] that by (cases "add_resources lib rs c") auto
    with Inl show ?thesis by (auto simp: add_resources_append split: option.splits)
  next
    case (Inr c1)
    then obtain rs where "entry_resources d = Some rs" "add_resources lib rs c = Some c1" by (auto simp: load_entry_resources)
    with Inr Cons.IH [of c1] show ?thesis by (auto simp: add_resources_append split: option.splits)
  qed
qed

text \<open>
  C40: A validator exists exactly when every embedded schema can be read and parsed and the compiler
  takes all of them, each under its path and its \<open>$id\<close>. Its cache is then invisible: any
  sequence of validations of requests, responses and metadata gives the results of a validator
  that compiles the schema of every message afresh from these resources; methods without a schema are accepted,
  or refused when the last option asked for strictness.
\<close>

theorem schema_cache_transparent:
  "case Option.bind (schema_resources fs) (\<lambda>rs. add_resources lib rs (sl_NewCompiler lib)) of
     None \<Rightarrow> \<exists>e. NewValidator lib fs (map WithStrict bs) = Inl e
   | Some c \<Rightarrow> \<exists>v. NewValidator lib fs (map WithStrict bs) = Inr v
       \<and> schema_results lib xs v = map (uncached_op lib c (bs \<noteq> [] \<and> last bs)) xs"
proof (cases "NewValidator lib fs (map WithStrict bs)")
  case (Inl e)
  then have "load_schemas lib fs (sl_NewCompiler lib) \<noteq> Inr c" for c by (auto simp: NewValidator_def)
  then have "Option.bind (schema_resources fs) (\<lambda>rs. add_resources lib rs (sl_NewCompiler lib)) = None"
    by (cases "schema_resources fs") (auto simp: load_schemas_resources)
  with Inl show ?thesis by simp
next
  case (Inr v)
  note new = new_validator [OF this]
  then have "Option.bind (schema_resources fs) (\<lambda>rs. add_resources lib rs (sl_NewCompiler lib)) = Some (compiler v)"
    by (auto simp: load_schemas_resources)
  with Inr new show ?thesis by (simp add: schema_results_uncached)
qed

text \<open>The methods listed are those that have a schema, each once.\<close>

lemma MethodSchemas_exact: "distinct MethodSchemas" "m \<in> set MethodSchemas \<longleftrightarrow> gm_get methodSchemaMap m \<noteq> None"
  by (simp_all add: MethodSchemas_def methodSchemaMap_def gm_get_def)

section \<open>The validator in a peer\<close>

text \<open>The validator as the peer calls it; its cache is part of the world.\<close>

definition schema_Validator :: "('c, 'sch) schema_lib \<Rightarrow> (('c, 'sch) SchemaValidator \<times> 'w) Validator" where
  "schema_Validator lib method data = (\<lambda>(v, w). let (e, v') = ValidateMethod lib method data v in (e, (v', w)))"

text \<open>
  The request schemas under schema/methods describe whole messages: all of them are of type
  object and list \<open>jsonrpc\<close> among their required members. A library that implements JSON Schema
  therefore accepts only objects that have this member.
\<close>

definition requires_envelope :: "('c, 'sch) schema_lib \<Rightarrow> 'c \<Rightarrow> bool" where
  "requires_envelope lib c \<longleftrightarrow>
     (\<forall>m path sch v. gm_get methodSchemaMap m = Some path \<longrightarrow> sl_Compile lib c path = Inr sch \<longrightarrow> sl_Validate lib sch v = None \<longrightarrow>
        (\<exists>ms. v = AMap ms \<and> map_of ms ''jsonrpc'' \<noteq> None))"

text \<open>
  C38: The peer hands its validator the parameters of a request, but the schemas describe the whole
  message. With the schema validator installed, every request of a method that has a schema is
  refused with \<open>invalid params\<close> and reaches no handler, unless its parameters happen to have a
  member \<open>jsonrpc\<close> of their own.
\<close>

theorem schema_validator_refuses_params:
  assumes "validator p = Some (schema_Validator lib)" "authorizer p = None" "requires_envelope lib (compiler v)"
    "gm_get methodSchemaMap (req_Method req) = Some path" "cache_ok lib v" "world st = (v, w)"
    "\<forall>ms. unmarshal un_any ANull (req_Params req) = Some (AMap ms) \<longrightarrow> map_of ms ''jsonrpc'' = None"
  shows "\<exists>e v'. sync_request p ctx req st = (Some (invalid_params req e), st\<lparr>world := (v', w)\<rparr>)"
proof -
  let ?r = "ValidateMethod lib (req_Method req) (req_Params req) v"
  have "fst ?r = check_schema lib path (req_Params req) (sl_Compile lib (compiler v) path)"
    using assms(4,5) by (simp add: ValidateMethod_def validate_schema_uncached)
  moreover have "check_schema lib path (req_Params req) (sl_Compile lib (compiler v) path) \<noteq> None"
    using assms(3,4,7) by (fastforce simp: check_schema_def requires_envelope_def split: sum.splits option.splits)
  ultimately obtain e v' where "?r = (Some e, v')" by (metis option.exhaust prod.collapse)
  then have "sync_request p ctx req st = (Some (invalid_params req e), st\<lparr>world := (v', w)\<rparr>)"
    using assms(1,2,6) by (simp add: sync_request_def authorize_def validate_def schema_Validator_def Let_def)
  then show ?thesis by blast
qed

text \<open>
  A library that remembers the resources by URL, refuses a second one under the same URL, and
  checks the required members of the schema only.
\<close>

definition required_members :: "any \<Rightarrow> bytes list" where
  "required_members doc =
     (case doc of
        AMap ms \<Rightarrow> (case map_of ms ''required'' of Some (AArr xs) \<Rightarrow> concat (map (\<lambda>x. case x of AStr t \<Rightarrow> [t] | _ \<Rightarrow> []) xs) | _ \<Rightarrow> [])
      | _ \<Rightarrow> [])"

definition example_lib :: "((bytes \<times> any) list, bytes list) schema_lib" where
  "example_lib = \<lparr>sl_NewCompiler = [],
     sl_AddResource = (\<lambda>url doc rs. if map_of rs url = None then Inr ((url, doc) # rs) else Inl (GoErr ''resource already exists'')),
     sl_Compile = (\<lambda>rs path. case map_of rs path of None \<Rightarrow> Inl (GoErr ''no such schema'') | Some doc \<Rightarrow> Inr (required_members doc)),
     sl_Validate = (\<lambda>req v. case v of AMap ms \<Rightarrow> if list_all (\<lambda>m. map_of ms m \<noteq> None) req then None else Some (GoErr ''missing member'')
                          | _ \<Rightarrow> Some (GoErr ''not an object''))\<rparr>"

definition example_files :: "fs_entry list" where
  "example_files =
     [\<lparr>fe_path = ''.'', fe_err = None, fe_IsDir = True, fe_ReadFile = Inl (GoErr ''is a directory'')\<rparr>,
      \<lparr>fe_path = ''methods/message-deliver.json'', fe_err = None, fe_IsDir = False, fe_ReadFile = Inr (''{'' @
        quote_string ''$id'' @ '':'' @ quote_string ''u:m'' @ '','' @ quote_string ''required'' @ '':['' @ quote_string ''jsonrpc'' @ '']}'')\<rparr>]"

definition example_validator :: "((bytes \<times> any) list, bytes list) SchemaValidator" where
  "example_validator = \<lparr>compiler = [(''u:m'', AMap [(''$id'', AStr ''u:m''), (''required'', AArr [AStr ''jsonrpc''])]),
     (''methods/message-deliver.json'', AMap [(''$id'', AStr ''u:m''), (''required'', AArr [AStr ''jsonrpc''])])], compiled = Map.empty, strict = False\<rparr>"

lemma example_loaded: "load_schemas example_lib example_files [] = Inr (compiler example_validator)"
  by code_simp

lemma example_validator_new: "NewValidator example_lib example_files [] = Inr example_validator"
proof -
  have "sl_NewCompiler example_lib = []" by (simp add: example_lib_def)
  with example_loaded show ?thesis by (simp add: NewValidator_def example_validator_def)
qed

definition schema_peer :: "(((bytes \<times> any) list, bytes list) SchemaValidator \<times> unit) Peer" where
  "schema_peer = \<lparr>transport = \<lparr>t_WriteMessage = (\<lambda>_ _ w. (None, w)), t_Close = (\<lambda>w. (None, w))\<rparr>, handler = BaseHandler,
     registry = newRegistry, sessionStore = None, maxMessageSize = 1048576, validator = Some (schema_Validator example_lib), authorizer = None\<rparr>"

definition deliver_request :: Request where
  "deliver_request = \<lparr>req_JSONRPC = ''2.0'', req_ID = Some ''1'', req_Method = ''wmp.message.deliver'', req_Params = Some ''{}''\<rparr>"

lemma example_requires: "requires_envelope example_lib (compiler example_validator)"
  by (auto simp: requires_envelope_def example_lib_def example_validator_def required_members_def methodSchemaMap_def gm_get_def
      split: any.splits if_splits)

theorem schema_validator_refuses_params_witness:
  "\<exists>e v'. sync_request schema_peer background deliver_request \<lparr>flowOwners = Map.empty, world = (example_validator, ())\<rparr>
     = (Some (invalid_params deliver_request e), \<lparr>flowOwners = Map.empty, world = (v', ())\<rparr>)"
proof -
  have "unmarshal un_any ANull (Some ''{}'') = Some (AMap [])" by code_simp
  moreover have "cache_ok example_lib example_validator"
    using new_validator(1) [of example_lib example_files "[]"] example_validator_new by simp
  ultimately show ?thesis
    using schema_validator_refuses_params [of schema_peer example_lib example_validator deliver_request "''methods/message-deliver.json''"
        "\<lparr>flowOwners = Map.empty, world = (example_validator, ())\<rparr>" "()" background] example_requires
    by (simp add: schema_peer_def deliver_request_def methodSchemaMap_def gm_get_def)
qed

end
