(* ===== verification/Spec2Isabelle.thy ===== *)
theory Spec2Isabelle
  imports Session_Wire Registry_Props Jsonrpc_Props Invitation_Props Discovery_Props Relay_Props Flow_Wire Flow_Peer
    Channel_Transport Stdio_Peer Ws_Transport Http_Peer Mls_Props Openid4x_Props Profile_Codec Schema_Validator
begin

text \<open>
  Verification of go-wmp, the Go implementation of the Wallet Messaging Protocol (WMP).

  \<^bold>\<open>The program.\<close> WMP is JSON-RPC 2.0 between two peers. A \<open>Peer\<close> (src/pkg/wmp/peer.go) reads messages from
  a \<open>Transport\<close>, decodes them (jsonrpc.go), authorizes and validates requests, runs them through
  middleware and dispatches them to a \<open>Handler\<close> (handler.go), to the profiles in its registry
  (registry.go, profile.go) or to pending outgoing calls. Profiles add flow types, methods,
  identifier resolvers and session hooks: asynchronous flows (flowcontext.go), MLS groups (mls/),
  OpenID4x (openid4x/), the relay (relay/). Sessions are kept in a \<open>SessionStore\<close> (session.go);
  invitations (invitation.go) and discovery (discovery.go) bootstrap them. Transports are channels
  (channel_transport.go), lines on stdio (stdio/), HTTP with server-sent events (httpsse/) and
  WebSockets (ws/). A schema validator (schema/) can check requests.

  \<^bold>\<open>Conventions.\<close> Bytes and Go strings are \<open>string\<close>. A struct is a record with the source's fields, an
  interface a record of its methods, a pointer or nil slice an option where nil matters, \<open>int\<close> is
  unbounded and cut to 64 bits where JSON numbers are decoded. A method with side effects takes
  and returns the state; \<open>'w\<close> is the state of everything a component does not own. A pair
  \<open>(*T, error)\<close> is a pair of options, other fallible functions return \<open>go_error + 'a\<close>. Errors
  built by \<open>fmt.Errorf\<close> keep their fixed text; what \<open>%w\<close> or \<open>%q\<close> adds is kept only where the program
  sends or compares it. A map that is only looked up is a HOL map; one that is iterated is an
  association list, and properties never depend on its order. The clock, randomness, HTTP
  clients, the network, \<open>net/url\<close> outside the plain cases, the JSON Schema library and the WebSocket
  library are arguments. Goroutines are steps of inductive relations: a step is a critical section
  or a channel operation, and properties hold for every interleaving. Select statements return
  the list of their ready outcomes. A panic is a value or a flag of the state. Logging is left out.

  \<^bold>\<open>Theories.\<close>
  \<^item> \<open>Wmp_Prelude\<close>: byte strings, Go maps with iteration, shared rules.
  \<^item> \<open>Go_Json\<close>, \<open>Go_Json_Facts\<close>: the scanner of \<open>encoding/json\<close> on bytes, with its nesting limit of 10000. The parser
    recurses on fuel; \<open>fuel_for\<close>, twice the length of the input and two, is always enough: every call
    consumes a byte or goes one level down, and more fuel never changes a result (\<open>parser_fuel\<close>).
  \<^item> \<open>Go_Codec\<close>, \<open>Go_Codec_Facts\<close>, \<open>Go_Compact\<close>: decoding into Go types and encoding, \<open>json.Compact\<close> and HTML escapes.
  \<^item> \<open>Go_Time\<close>, \<open>Go_Time_Facts\<close>, \<open>Go_Base64\<close>, \<open>Go_Lines\<close>, \<open>Go_Channel\<close>: RFC 3339 times and that they are read back (the calendar
    included), base64url, texts without line breaks, buffered channels as a locale \<open>fifo_channel\<close>
    that four components interpret.
  \<^item> \<open>Go_Struct\<close>: a calculus of round trips (\<open>codes\<close>), one rule per Go type and one for structs with
    optional members.
  \<^item> \<open>Wmp_Types\<close>, \<open>Wmp_Methods\<close>, \<open>Mls_Types\<close>, \<open>Openid4x_Types\<close>, \<open>Evidence_Types\<close>: errors.go, types.go, methods.go and the data
    types of mls, openid4x and evidence.go, each struct with its zero value, decoder and encoder.
  \<^item> \<open>Wmp_Codec\<close>, \<open>Profile_Codec\<close>: for each of these structs the values that survive encoding (\<open>portable_\<close>: ASCII texts,
    64-bit integers, times of the years 0 to 9999, raw JSON in compact form up to 24 levels deep) and
    that they do.
  \<^item> \<open>Jsonrpc\<close>, \<open>Jsonrpc_Facts\<close>, \<open>Jsonrpc_Props\<close>: jsonrpc.go. Round trips of requests, responses and errors; exactly
    which texts are accepted, their depth counted on the text; decoded messages are well formed; what the depth
    limit does not count.
  \<^item> \<open>Session_Store\<close>, \<open>Session_Props\<close>: session.go and context.go. The in-memory store refines a map.
  \<^item> \<open>Registry\<close>, \<open>Registry_Props\<close>: profile.go and registry.go. Registration succeeds exactly without conflicts; middleware
    nests in order.
  \<^item> \<open>Peer\<close>, \<open>Peer_Props\<close>: handler.go, transport.go and the serving side of peer.go. Synchronous and asynchronous
    handling agree; every request gets one answer; flows stay with the profile that started
    them until they end; sessions are stored and found; what makes a peer panic.
  \<^item> \<open>Peer_Calls\<close>: \<open>Call\<close> and \<open>CallWithID\<close> of peer.go under every interleaving with serving: calls are not mixed up,
    delivering a response never blocks, answered calls return.
  \<^item> \<open>Peer_World\<close>: a peer changes the world only through what it was given (locale \<open>world_relation\<close>).
  \<^item> \<open>Peer_Wire\<close>, \<open>Session_Wire\<close>, \<open>Flow_Wire\<close>: two peers and the bytes between them, for typed parameters and results:
    calls, notifications, sessions, the start of flows and what flows report.
  \<^item> \<open>Serve_Answers\<close>, \<open>Stdio_Peer\<close>, \<open>Http_Peer\<close>: a peer that serves a stream of messages answers every request exactly once,
    in whatever order its goroutines run; the same over standard input and output, and a call over
    HTTP between a client's transport and a server's, where a posted notification times out.
  \<^item> \<open>Invitation_Model\<close>, \<open>Invitation_Props\<close>: invitation.go. URI round trip of all fields, what a signature covers, a nonce admits one
    session (locale \<open>nonce_store\<close>).
  \<^item> \<open>Discovery\<close>, \<open>Discovery_Props\<close>: discovery.go. Discovery asks only the well-known URL of the domain that an
    identifier names (\<open>names_domain\<close>).
  \<^item> \<open>Relay_Model\<close>, \<open>Relay_Props\<close>: relay/relay.go. Draining refines a mailbox with expiry (locale \<open>offline_queue\<close>), queues are
    bounded.
  \<^item> \<open>Flow_Context\<close>, \<open>Flow_Props\<close>: flowcontext.go. Actions arrive in order and at most once, removed flows are told, the
    map holds live flows.
  \<^item> \<open>Flow_Peer\<close>: the profile of these flows inside a serving peer; a request \<open>wmp.flow.cancel\<close> does not reach it.
  \<^item> \<open>Channel_Transport\<close>, \<open>Stdio_Transport\<close>, \<open>Http_Sse\<close>, \<open>Http_Sse_Props\<close>, \<open>Ws_Transport\<close>: the transports. Messages arrive complete and
    in order; reads are bounded and reading ends; a client that reconnects receives exactly the
    events it has missed; only secure endpoints are dialled; a call over a WebSocket completes. Of the frames
    of a connection \<open>carries\<close> assumes only that they arrive in order, each once, or not at all.
  \<^item> \<open>Mls_Profile\<close>, \<open>Mls_Props\<close>: mls/mls.go and mls/noop.go. The groups refine a map of epochs and members (locale
    \<open>simulated\<close>), plaintext needs the opt-in, a peer serves the methods.
  \<^item> \<open>Openid4x_Profile\<close>, \<open>Openid4x_Props\<close>: openid4x/openid4x.go inside a peer: which starts are accepted and which callback an
    action reaches.
  \<^item> \<open>Schema_Validator\<close>: schema/schema.go: loading the schemas, the cache, and the validator inside a peer.
  \<^item> This theory: a call and its answer through two peers.

  \<^bold>\<open>Not modelled.\<close> Logging; the bodies of application handlers and flow functions (parameters); the
  JSON Schema files beyond the fact that request schemas describe whole messages; the JSON Schema
  and WebSocket packages, which are parameters; HTTP itself, its clients and headers, and flushing
  of responses; sessions as shared objects: the store returns values, and a change of a session outside the
  store's operations is not seen by it; JSON encoding of types that
  hold \<open>interface{}\<close> values, which the repository never performs. Other commands and tests of the
  repository are outside the library.
\<close>

section \<open>A call and its answer\<close>

text \<open>
  C1: A call arrives and its answer comes back. A waiting call of one peer with an ASCII
  identifier and method and any JSON parameters, whose bytes a second peer handles, is answered
  by the bytes of the second peer's response; when the first peer serves those bytes, the call
  returns that response, whether it is a result or an error (texts up to white space and
  escapes), and its identifier is free again.
\<close>

theorem call_end_to_end:
  assumes call: "reachable cl s" "pending (peer_state s) rid = Some ch" "calls s ch = Some c" "call_phase c = Waiting"
    and req: "NewRequest rid method (Some p) = Inr (call_req c)" "rid \<noteq> []" "ascii rid" "ascii method" "prints 9999 p v"
      "within_depth 32 (Some (compact_val p))"
    and sent: "ms_Request (call_req c) = Some data" "int (length data) \<le> maxMessageSize srv"
    and answer: "sync_request srv ctx (arrived rid method p) (disp ps) = (Some r, st')" "sendable_response r"
    and returned: "\<And>t. ms_Response r = Some t \<Longrightarrow> int (length t) \<le> maxMessageSize cl"
  shows "\<exists>t s'. HandleRequestSync srv ctx data ps = ((Some t, None), ps\<lparr>disp := st'\<rparr>)
    \<and> (cstep cl)\<^sup>*\<^sup>* (s\<lparr>peer_state := serve_message cl ctx t (peer_state s)\<rparr>) s'
    \<and> pending (peer_state s') rid = None
    \<and> calls s' ch = Some (c\<lparr>call_phase := Returned (Inr (as_read r))\<rparr>)"
  using assms by (rule call_answered)

text \<open>A call of the unknown method \<open>m\<close> between two copies of the example peer.\<close>

theorem call_end_to_end_witness:
  "\<exists>t s' data. ms_Request example_req = Some data
    \<and> HandleRequestSync example_peer background data (peer_state run2) = ((Some t, None), peer_state run2)
    \<and> (cstep example_peer)\<^sup>*\<^sup>* (run2\<lparr>peer_state := serve_message example_peer background t (peer_state run2)\<rparr>) s'
    \<and> pending (peer_state s') ''1'' = None
    \<and> calls s' 0 = Some ((example_call Waiting)\<lparr>call_phase := Returned (Inr (as_read unknown_method))\<rparr>)"
proof -
  obtain data where data: "ms_Request example_req = Some data" "int (length data) \<le> 1000" by (rule example_req_text)
  have open_peer: "open_peer example_peer" "methods (registry example_peer) ''m'' = None" "maxMessageSize example_peer = 1048576"
    by (simp_all add: open_peer_def example_peer_eq registered_def newRegistry_def claim_def method_names_def example_profile_def)
  show ?thesis
    using call_end_to_end [OF run2_reachable _ run2_calls(1) _ example_new_request _ _ _ empty_object_prints, of data example_peer background
        "peer_state run2" unknown_method] data unknown_method_answer [OF open_peer(1,2)] unknown_method_text empty_object_depth run2_calls(2) open_peer(3)
    by (auto simp: example_call_def ascii_def)
qed

end
